(* ===== verification/Prelude.thy ===== *)
theory Prelude
  imports Main "HOL-Library.Word"
begin

text \<open>
  Shared base of the development: the machine integer types of the firmware, the
  collections of rewrite rules the component theories fill, and generic facts on words,
  power-of-two masks and byte buffers.

  The firmware runs on 32-bit Cortex-M cores (RP2040, RP2350), where \<open>size_t\<close> is 32 bits
  wide. Every unsigned C integer is a word of its own width, so additions and subtractions
  wrap exactly as they do in C.
\<close>

unbundle bit_operations_syntax

type_synonym u8 = "8 word"
type_synonym u16 = "16 word"
type_synonym u32 = "32 word"
type_synonym u64 = "64 word"
type_synonym size_t = "32 word"

named_theorems ring_defs \<open>definitions of the ring buffer operations\<close>
named_theorems ring_frame \<open>fields an operation of the ring buffer leaves alone\<close>
named_theorems plane_defs \<open>definitions of the control plane operations\<close>
named_theorems driver_defs \<open>definitions of the port facade operations\<close>

abbreviation UINT32_MAX :: u32 where "UINT32_MAX \<equiv> 4294967295"
abbreviation UINT16_MAX :: u16 where "UINT16_MAX \<equiv> 65535"

section \<open>Saturating addition\<close>

text \<open>\<open>firmware/src/uart/saturating.h\<close>: the one arithmetic helper every counter shares.\<close>

definition uart_saturating_add_u32 :: "u32 \<Rightarrow> u32 \<Rightarrow> u32" where
  "uart_saturating_add_u32 v increment =
     (if increment > UINT32_MAX - v then UINT32_MAX else v + increment)"

lemma unat_UINT32_MAX [simp]: "unat UINT32_MAX = 2 ^ 32 - 1"
  by simp

lemma unat_u32_le_max: "unat (x :: u32) \<le> 4294967295"
  using unsigned_less [of x, where ?'a = nat] by simp

lemma unat_u32_less: "unat (x :: u32) < 2 ^ 32"
  using unat_u32_le_max [of x] by simp

lemma unat_of_nat_u32: "n < 2 ^ 32 \<Longrightarrow> unat (of_nat n :: u32) = n"
  by (simp add: unat_of_nat)

lemma unat_pow2_u32: "k < 32 \<Longrightarrow> unat (2 ^ k :: u32) = 2 ^ k"
proof -
  assume k: "k < 32"
  then have "(2 :: nat) ^ k < 2 ^ 32" by (intro power_strict_increasing) auto
  then have "unat (of_nat (2 ^ k) :: u32) = 2 ^ k" by (rule unat_of_nat_u32)
  then show ?thesis by simp
qed

lemma unat_saturating_add:
  "unat (uart_saturating_add_u32 a b) = min 4294967295 (unat a + unat b)"
proof -
  have sub: "unat (UINT32_MAX - a) = 4294967295 - unat a"
    using unat_u32_le_max [of a] by (simp add: unat_sub word_le_nat_alt)
  show ?thesis
  proof (cases "b > UINT32_MAX - a")
    case True
    then have "4294967295 - unat a < unat b"
      by (simp add: word_less_nat_alt sub)
    with True show ?thesis by (simp add: uart_saturating_add_u32_def)
  next
    case False
    then have le: "unat b \<le> 4294967295 - unat a"
      by (simp add: word_less_nat_alt sub not_less)
    then have "unat a + unat b < 2 ^ 32"
      using unat_u32_le_max [of a] by simp
    then have "unat (a + b) = unat a + unat b"
      by (subst unat_add_lem [symmetric]) simp
    with False le show ?thesis
      using unat_u32_le_max [of a] by (simp add: uart_saturating_add_u32_def)
  qed
qed

lemma saturating_add_mono: "a \<le> uart_saturating_add_u32 a b"
  using unat_u32_le_max [of a] by (simp add: word_le_nat_alt unat_saturating_add)

lemma saturating_add_zero [simp]: "uart_saturating_add_u32 a 0 = a"
  by (simp add: uart_saturating_add_u32_def)

section \<open>Words and distances\<close>

text \<open>Conditions on words as conditions on their natural values.\<close>

lemma unat_diff_of_nat:
  assumes "c \<le> p" "p - c < 2 ^ 32"
  shows "unat ((of_nat p :: u32) - of_nat c) = p - c"
proof -
  have "(of_nat p :: u32) - of_nat c = of_nat (p - c)"
    using assms(1) by (simp add: of_nat_diff)
  then show ?thesis
    using assms(2) by (simp only: unat_of_nat_u32)
qed

lemma unat_add_small: "unat (a :: u32) + unat b < 2 ^ 32 \<Longrightarrow> unat (a + b) = unat a + unat b"
  by (subst unat_add_lem [symmetric]) simp

lemma unat_add_le: "unat (a + b :: u32) \<le> unat a + unat b"
  by (simp add: unat_word_ariths)

lemma unat_mult_u32:
  "unat (a :: u32) * unat b < 2 ^ 32 \<Longrightarrow> unat (a * b) = unat a * unat b"
  by (subst unat_mult_lem [symmetric]) simp

lemma unat_min_word:
  "unat (if (a :: u32) < b then a else b) = min (unat a) (unat b)"
  by (simp add: word_less_nat_alt)

text \<open>Arithmetic widened to 64 bits.\<close>

lemma unat_ucast_u64 [simp]: "unat (ucast (x :: u32) :: u64) = unat x"
proof -
  have "unat x < 2 ^ 64" using unat_u32_le_max [of x] by simp
  then show ?thesis by (simp add: unsigned_ucast_eq take_bit_nat_eq_self)
qed

lemma unat_mult_u64:
  "unat (a :: u64) * unat b < 2 ^ 64 \<Longrightarrow> unat (a * b) = unat a * unat b"
  by (subst unat_mult_lem [symmetric]) simp

lemma unat_u32_mult_u64 [simp]:
  "unat ((ucast (a :: u32) :: u64) * ucast (b :: u32)) = unat a * unat b"
proof -
  have "unat a * unat b \<le> 4294967295 * 4294967295"
    by (intro mult_le_mono unat_u32_le_max)
  then show ?thesis by (subst unat_mult_u64) simp_all
qed

lemma unat_add_u64: "unat (a :: u64) + unat b < 2 ^ 64 \<Longrightarrow> unat (a + b) = unat a + unat b"
  by (subst unat_add_lem [symmetric]) simp

section \<open>Power-of-two sizes\<close>

definition pow2_size :: "u32 \<Rightarrow> bool" where
  "pow2_size n \<longleftrightarrow> (\<exists>k<32. n = 2 ^ k)"

lemma pow2_sizeE:
  assumes "pow2_size n"
  obtains k where "k < 32" "n = 2 ^ k" "unat n = 2 ^ k"
proof -
  from assms obtain k where k: "k < 32" "n = 2 ^ k" by (auto simp: pow2_size_def)
  then have "unat n = 2 ^ k" by (simp add: unat_pow2_u32)
  with k show ?thesis by (rule that)
qed

lemma pow2_size_pos: "pow2_size n \<Longrightarrow> 0 < unat n"
  by (erule pow2_sizeE) simp

lemma pow2_size_nonzero: "pow2_size n \<Longrightarrow> n \<noteq> 0"
  by (drule pow2_size_pos) auto

lemma pow2_size_dvd: "pow2_size n \<Longrightarrow> unat n dvd 2 ^ 32"
  by (erule pow2_sizeE) (metis le_imp_power_dvd less_imp_le_nat)

lemma pow2_size_le: "pow2_size n \<Longrightarrow> unat n \<le> 2147483648"
proof (erule pow2_sizeE)
  fix k :: nat
  assume k: "k < 32" "unat n = 2 ^ k"
  from k(1) have "(2 :: nat) ^ k \<le> 2 ^ 31" by (intro power_increasing) auto
  with k(2) show "unat n \<le> 2147483648" by simp
qed

lemma unat_and_mask:
  assumes "pow2_size n"
  shows "unat (x AND (n - 1)) = unat x mod unat n"
proof -
  from assms obtain k where k: "k < 32" "n = 2 ^ k" "unat n = 2 ^ k" by (rule pow2_sizeE)
  have "x AND (n - 1) = take_bit k x"
    by (simp add: k(2) take_bit_eq_mask mask_eq_exp_minus_1)
  moreover have "unat (take_bit k x) = unat x mod 2 ^ k"
    by (subst unsigned_take_bit_eq) (rule take_bit_nat_def)
  ultimately show ?thesis by (simp only: k(3))
qed

lemma unat_and_mask_less: "pow2_size n \<Longrightarrow> unat (x AND (n - 1)) < unat n"
  by (simp add: unat_and_mask pow2_size_pos)

lemma unat_add_mod_pow2:
  assumes "pow2_size n"
  shows "unat (a + b :: u32) mod unat n = (unat a + unat b) mod unat n"
  using pow2_size_dvd [OF assms] by (simp add: unat_word_ariths mod_mod_cancel)

lemma unat_of_nat_mod_pow2:
  assumes "pow2_size n"
  shows "unat (of_nat i :: u32) mod unat n = i mod unat n"
  using pow2_size_dvd [OF assms] by (simp add: unat_of_nat mod_mod_cancel)

text \<open>The test \<open>size & (size - 1) == 0\<close> accepts exactly the powers of two.\<close>

lemma pow2_size_iff_and:
  "pow2_size n \<longleftrightarrow> n \<noteq> 0 \<and> n AND (n - 1) = 0"
proof
  assume p: "pow2_size n"
  have "unat (n AND (n - 1)) = 0" by (simp add: unat_and_mask [OF p])
  then show "n \<noteq> 0 \<and> n AND (n - 1) = 0"
    using pow2_size_nonzero [OF p] by (simp add: unat_eq_zero)
next
  assume a: "n \<noteq> 0 \<and> n AND (n - 1) = 0"
  then have pos: "0 < unat n" by (simp add: unat_gt_0)
  obtain k where k: "2 ^ k \<le> unat n" "unat n < 2 ^ (k + 1)"
    using ex_power_ivl1 [of 2 "unat n"] pos by auto
  have k32: "k < 32"
  proof (rule ccontr)
    assume "\<not> k < 32"
    then have "(2 :: nat) ^ 32 \<le> 2 ^ k" by (intro power_increasing) auto
    with k(1) unat_u32_less [of n] show False by simp
  qed
  show "pow2_size n"
  proof (rule ccontr)
    assume not: "\<not> pow2_size n"
    have "unat n \<noteq> 2 ^ k"
    proof
      assume "unat n = 2 ^ k"
      then have "n = 2 ^ k" using unat_pow2_u32 [OF k32] by (metis word_unat_eq_iff)
      with not k32 show False by (auto simp: pow2_size_def)
    qed
    with k have range: "2 ^ k \<le> unat n - 1" "unat n - 1 < 2 ^ (k + 1)" by auto
    have un: "unat (n - 1) = unat n - 1" using a by (simp add: unat_minus_one)
    have q1: "unat n div 2 ^ k = 1"
      using k by (simp add: div_nat_eqI)
    have q2: "unat (n - 1) div 2 ^ k = 1"
      using range by (simp add: un div_nat_eqI)
    have bit_unat: "bit w k" if "unat w div 2 ^ k = 1" for w :: u32
    proof -
      have "bit (unat w) k" using that by (simp add: bit_iff_odd)
      then show ?thesis by (simp add: bit_unsigned_iff)
    qed
    have "bit n k" using q1 by (rule bit_unat)
    moreover have "bit (n - 1) k" using q2 by (rule bit_unat)
    ultimately have "bit (n AND (n - 1)) k" by (simp add: bit_and_iff)
    with a show False by simp
  qed
qed

section \<open>Byte buffers\<close>

text \<open>
  \<open>mem_read buf off n\<close> and \<open>mem_write buf off bs\<close> are the two halves of a \<open>memcpy\<close>
  between C arrays held as lists.
\<close>

definition mem_read :: "'a list \<Rightarrow> nat \<Rightarrow> nat \<Rightarrow> 'a list" where
  "mem_read buf off n = take n (drop off buf)"

definition mem_write :: "'a list \<Rightarrow> nat \<Rightarrow> 'a list \<Rightarrow> 'a list" where
  "mem_write buf off bs = take off buf @ bs @ drop (off + length bs) buf"

lemma length_mem_read [simp]: "off + n \<le> length buf \<Longrightarrow> length (mem_read buf off n) = n"
  by (simp add: mem_read_def)

lemma nth_mem_read: "off + n \<le> length buf \<Longrightarrow> i < n \<Longrightarrow> mem_read buf off n ! i = buf ! (off + i)"
  by (simp add: mem_read_def add.commute)

lemma mem_read_zero [simp]: "mem_read buf off 0 = []"
  by (simp add: mem_read_def)

lemma length_mem_write [simp]:
  "off + length bs \<le> length buf \<Longrightarrow> length (mem_write buf off bs) = length buf"
  by (simp add: mem_write_def)

lemma mem_write_Nil [simp]: "mem_write buf off [] = buf"
  by (simp add: mem_write_def)

lemma nth_mem_write:
  assumes "off + length bs \<le> length buf" "i < length buf"
  shows "mem_write buf off bs ! i =
           (if off \<le> i \<and> i < off + length bs then bs ! (i - off) else buf ! i)"
  using assms by (auto simp: mem_write_def nth_append min_def)

lemma mem_write_append:
  assumes "off + length xs + length ys \<le> length buf"
  shows "mem_write (mem_write buf off xs) (off + length xs) ys = mem_write buf off (xs @ ys)"
  using assms by (intro nth_equalityI) (auto simp: nth_mem_write nth_append)

lemma mem_read_append:
  "off + m + n \<le> length buf \<Longrightarrow> mem_read buf off m @ mem_read buf (off + m) n = mem_read buf off (m + n)"
  by (simp add: mem_read_def take_add add.commute)

section \<open>Keeping the newest elements\<close>

text \<open>\<open>keep_last n xs\<close> is what a buffer of \<open>n\<close> slots still holds of the stream \<open>xs\<close>.\<close>

definition keep_last :: "nat \<Rightarrow> 'a list \<Rightarrow> 'a list" where
  "keep_last n xs = drop (length xs - n) xs"

lemma length_keep_last [simp]: "length (keep_last n xs) = min n (length xs)"
  by (simp add: keep_last_def min_def)

lemma keep_last_all [simp]: "length xs \<le> n \<Longrightarrow> keep_last n xs = xs"
  by (simp add: keep_last_def)

lemma keep_last_append_keep_last:
  "keep_last n (keep_last n xs @ ys) = keep_last n (xs @ ys)"
proof (cases "length xs \<le> n")
  case False
  have "drop (n + length ys - n) (drop (length xs - n) xs @ ys) = drop (length xs + length ys - n) (xs @ ys)"
    using False by (simp add: drop_append add.commute)
  then show ?thesis using False by (simp add: keep_last_def)
qed simp

lemma keep_last_snoc:
  "length q \<le> n \<Longrightarrow> 0 < n \<Longrightarrow>
     keep_last n (q @ [x]) = (if length q = n then tl q else q) @ [x]"
  by (cases q) (auto simp: keep_last_def)

end
