(* ===== verification/Ring_Buffer.thy ===== *)
theory Ring_Buffer
  imports Prelude
begin

text \<open>
  The single-producer, single-consumer byte ring of
  \<open>firmware/src/uart/ring_buffer/ring_buffer.c\<close>.

  A \<open>ring_buffer_t *\<close> that the code checks against \<open>NULL\<close> is the ring record itself here:
  a null ring has no record. The storage pointer can be null in a live ring (a driver that was
  never started), so it is an option. A span's \<open>data\<close> pointer is its offset into the
  storage, \<open>None\<close> for the zero-initialised span.
  \<open>__dmb()\<close> orders memory between the cores; a step of the model is one access.
\<close>

section \<open>State\<close>

record ring_buffer_span_t =
  span_data :: "u32 option"
  span_length :: size_t

record ring_buffer_t =
  storage :: "u8 list option"
  ring_size :: u32
  ring_mask :: u32
  producer :: u32
  consumer :: u32
  high_watermark :: u32
  overflow_count :: u32
  producer_reserved_sequence :: u32
  producer_reserved_count :: u32
  consumer_reserved_sequence :: u32
  consumer_reserved_count :: u32

definition null_span :: ring_buffer_span_t where
  "null_span = \<lparr>span_data = None, span_length = 0\<rparr>"

section \<open>Operations\<close>

definition ring_buffer_min :: "u32 \<Rightarrow> u32 \<Rightarrow> u32" where
  "ring_buffer_min left right = (if left < right then left else right)"

definition ring_buffer_size_is_valid :: "size_t \<Rightarrow> bool" where
  "ring_buffer_size_is_valid n \<longleftrightarrow> n \<noteq> 0 \<and> n \<le> UINT32_MAX \<and> (n AND (n - 1)) = 0"

definition ring_buffer_clear :: "ring_buffer_t \<Rightarrow> ring_buffer_t" where
  "ring_buffer_clear ring = ring\<lparr>producer := 0, consumer := 0,
     producer_reserved_sequence := 0, producer_reserved_count := 0,
     consumer_reserved_sequence := 0, consumer_reserved_count := 0\<rparr>"

definition ring_buffer_available :: "ring_buffer_t \<Rightarrow> u32" where
  "ring_buffer_available ring =
     (let available = producer ring - consumer ring
      in if available > ring_size ring then ring_size ring else available)"

definition ring_buffer_pending_overflow_internal :: "ring_buffer_t \<Rightarrow> u32" where
  "ring_buffer_pending_overflow_internal ring =
     (let available = producer ring - consumer ring
      in if available > ring_size ring then available - ring_size ring else 0)"

definition ring_buffer_update_high_watermark :: "ring_buffer_t \<Rightarrow> ring_buffer_t" where
  "ring_buffer_update_high_watermark ring =
     (let available = ring_buffer_available ring
      in if available > high_watermark ring then ring\<lparr>high_watermark := available\<rparr> else ring)"

definition ring_buffer_init ::
    "ring_buffer_t \<Rightarrow> u8 list option \<Rightarrow> size_t \<Rightarrow> bool \<times> ring_buffer_t" where
  "ring_buffer_init ring st n =
     (if st = None \<or> \<not> ring_buffer_size_is_valid n then (False, ring)
      else (True, ring_buffer_clear (ring\<lparr>storage := st, ring_size := n, ring_mask := n - 1,
                                         high_watermark := 0, overflow_count := 0\<rparr>)))"

definition ring_buffer_occupancy :: "ring_buffer_t \<Rightarrow> size_t" where
  "ring_buffer_occupancy ring = ring_buffer_available ring"

definition ring_buffer_free_space :: "ring_buffer_t \<Rightarrow> size_t" where
  "ring_buffer_free_space ring = ring_size ring - ring_buffer_available ring"

definition ring_buffer_recover_overflow :: "ring_buffer_t \<Rightarrow> size_t \<times> ring_buffer_t" where
  "ring_buffer_recover_overflow ring =
     (let overwritten = ring_buffer_pending_overflow_internal ring
      in if overwritten \<noteq> 0
         then (overwritten,
               ring\<lparr>consumer := consumer ring + overwritten,
                    overflow_count := uart_saturating_add_u32 (overflow_count ring) overwritten,
                    consumer_reserved_count := 0\<rparr>)
         else (overwritten, ring))"

definition ring_buffer_read_span ::
    "ring_buffer_t \<Rightarrow> ring_buffer_span_t \<times> ring_buffer_t" where
  "ring_buffer_read_span ring =
     (if storage ring = None then (null_span, ring)
      else let ring = snd (ring_buffer_recover_overflow ring);
               occupancy = ring_buffer_available ring
           in if occupancy = 0 then (null_span, ring\<lparr>consumer_reserved_count := 0\<rparr>)
              else let offset = consumer ring AND ring_mask ring;
                       contiguous = ring_size ring - offset;
                       len = ring_buffer_min occupancy contiguous
                   in (\<lparr>span_data = Some offset, span_length = len\<rparr>,
                       ring\<lparr>consumer_reserved_sequence := consumer ring,
                            consumer_reserved_count := len\<rparr>))"

definition ring_buffer_write_span ::
    "ring_buffer_t \<Rightarrow> ring_buffer_span_t \<times> ring_buffer_t" where
  "ring_buffer_write_span ring =
     (if storage ring = None then (null_span, ring)
      else let free_space = ring_size ring - ring_buffer_available ring
           in if free_space = 0 then (null_span, ring\<lparr>producer_reserved_count := 0\<rparr>)
              else let offset = producer ring AND ring_mask ring;
                       contiguous = ring_size ring - offset;
                       len = ring_buffer_min free_space contiguous
                   in (\<lparr>span_data = Some offset, span_length = len\<rparr>,
                       ring\<lparr>producer_reserved_sequence := producer ring,
                            producer_reserved_count := len\<rparr>))"

definition ring_buffer_read_span_is_current :: "ring_buffer_t \<Rightarrow> bool" where
  "ring_buffer_read_span_is_current ring =
     (if consumer ring \<noteq> consumer_reserved_sequence ring \<or> consumer_reserved_count ring = 0
      then False
      else producer ring - consumer_reserved_sequence ring \<le> ring_size ring)"

definition ring_buffer_commit_produced ::
    "ring_buffer_t \<Rightarrow> size_t \<Rightarrow> bool \<times> ring_buffer_t" where
  "ring_buffer_commit_produced ring count =
     (if producer ring \<noteq> producer_reserved_sequence ring \<or> count > producer_reserved_count ring
      then (False, ring)
      else (True, ring_buffer_update_high_watermark
                    (ring\<lparr>producer := producer ring + count, producer_reserved_count := 0\<rparr>)))"

definition ring_buffer_commit_consumed ::
    "ring_buffer_t \<Rightarrow> size_t \<Rightarrow> bool \<times> ring_buffer_t" where
  "ring_buffer_commit_consumed ring count =
     (if consumer ring \<noteq> consumer_reserved_sequence ring \<or> count > consumer_reserved_count ring
      then (False, ring)
      else let producer_now = producer ring
           in if producer_now - consumer_reserved_sequence ring > ring_size ring
              then let safe_consumer = producer_now - ring_size ring
                   in (False,
                       ring\<lparr>overflow_count := uart_saturating_add_u32 (overflow_count ring)
                                                (safe_consumer - consumer ring),
                            consumer := safe_consumer,
                            consumer_reserved_count := 0\<rparr>)
              else (True, ring\<lparr>consumer := consumer ring + count,
                               consumer_reserved_count := 0\<rparr>))"

definition ring_buffer_commit_snapshot_consumed ::
    "ring_buffer_t \<Rightarrow> size_t \<Rightarrow> bool \<times> ring_buffer_t" where
  "ring_buffer_commit_snapshot_consumed ring count =
     (if consumer ring \<noteq> consumer_reserved_sequence ring \<or> count > consumer_reserved_count ring
      then (False, ring)
      else let producer_now = producer ring;
               accepted_consumer = consumer_reserved_sequence ring + count;
               safe_consumer = producer_now - ring_size ring;
               ring = (if producer_now - consumer_reserved_sequence ring > ring_size ring
                       then let advance_to_safe = safe_consumer - consumer_reserved_sequence ring
                            in if advance_to_safe > count
                               then ring\<lparr>overflow_count :=
                                           uart_saturating_add_u32 (overflow_count ring)
                                             (advance_to_safe - count),
                                         consumer := safe_consumer\<rparr>
                               else ring\<lparr>consumer := accepted_consumer\<rparr>
                       else ring\<lparr>consumer := accepted_consumer\<rparr>)
           in (True, ring\<lparr>consumer_reserved_count := 0\<rparr>))"

definition ring_buffer_produce_external :: "ring_buffer_t \<Rightarrow> u32 \<Rightarrow> ring_buffer_t" where
  "ring_buffer_produce_external ring count =
     (if count = 0 then ring
      else ring_buffer_update_high_watermark
             (ring\<lparr>producer := producer ring + count, producer_reserved_count := 0\<rparr>))"

definition ring_buffer_producer_index :: "ring_buffer_t \<Rightarrow> u32" where
  "ring_buffer_producer_index ring =
     (if ring_size ring = 0 then 0 else producer ring AND ring_mask ring)"

text \<open>Bytes stored through, and loaded through, a span (the two \<open>memcpy\<close> calls).\<close>

definition span_store :: "ring_buffer_t \<Rightarrow> ring_buffer_span_t \<Rightarrow> u8 list \<Rightarrow> ring_buffer_t" where
  "span_store ring span bs =
     (case span_data span of None \<Rightarrow> ring
      | Some off \<Rightarrow> ring\<lparr>storage := map_option (\<lambda>s. mem_write s (unat off) bs) (storage ring)\<rparr>)"

definition span_load :: "ring_buffer_t \<Rightarrow> ring_buffer_span_t \<Rightarrow> size_t \<Rightarrow> u8 list" where
  "span_load ring span n =
     (case (span_data span, storage ring) of
        (Some off, Some s) \<Rightarrow> mem_read s (unat off) (unat n)
      | _ \<Rightarrow> [])"

text \<open>
  The copy loops. An iteration moves at least one byte or leaves the loop, so what is still to
  be moved, \<open>length - total\<close>, gets smaller.
\<close>

lemma chunk_decreases:
  assumes "k < (len :: size_t)" "sl \<noteq> 0"
  shows "unat (len - (k + (if len - k < sl then len - k else sl))) < unat (len - k)"
  using assms unat_u32_le_max [of len] unat_u32_le_max [of sl] unat_u32_le_max [of k]
  by (auto simp: unat_arith_simps split: if_splits)

function ring_buffer_write_loop ::
    "ring_buffer_t \<Rightarrow> u8 list \<Rightarrow> size_t \<Rightarrow> size_t \<Rightarrow> size_t \<times> ring_buffer_t" where
  "ring_buffer_write_loop ring data len total_written =
     (if total_written < len then
        let sr = ring_buffer_write_span ring;
            span = fst sr; ring1 = snd sr
        in if span_length span = 0 then (total_written, ring1)
           else let chunk = (if len - total_written < span_length span
                             then len - total_written else span_length span);
                    ring2 = span_store ring1 span (mem_read data (unat total_written) (unat chunk));
                    committed = ring_buffer_commit_produced ring2 chunk
                in if \<not> fst committed then (total_written, snd committed)
                   else ring_buffer_write_loop (snd committed) data len (total_written + chunk)
      else (total_written, ring))"
  by pat_completeness auto
termination
proof (relation "measure (\<lambda>(ring, data, len, k). unat (len - k))", goal_cases)
  case 1
  show ?case by simp
next
  case 2
  then show ?case by (simp only: in_measure prod.case not_False_eq_True chunk_decreases)
qed

declare ring_buffer_write_loop.simps [simp del]

definition ring_buffer_write ::
    "ring_buffer_t \<Rightarrow> u8 list option \<Rightarrow> size_t \<Rightarrow> size_t \<times> ring_buffer_t" where
  "ring_buffer_write ring data len =
     (case data of None \<Rightarrow> (0, ring) | Some bytes \<Rightarrow> ring_buffer_write_loop ring bytes len 0)"

definition ring_buffer_write_byte_overwrite :: "ring_buffer_t \<Rightarrow> u8 \<Rightarrow> ring_buffer_t" where
  "ring_buffer_write_byte_overwrite ring byte =
     (case storage ring of None \<Rightarrow> ring
      | Some s \<Rightarrow>
          let ring = ring\<lparr>storage := Some (s[unat (producer ring AND ring_mask ring) := byte])\<rparr>
          in ring_buffer_update_high_watermark
               (ring\<lparr>producer := producer ring + 1, producer_reserved_count := 0\<rparr>))"

function ring_buffer_read_loop ::
    "ring_buffer_t \<Rightarrow> u8 list \<Rightarrow> size_t \<Rightarrow> size_t \<Rightarrow> size_t \<times> u8 list \<times> ring_buffer_t" where
  "ring_buffer_read_loop ring data len total_read =
     (if total_read < len then
        let sr = ring_buffer_read_span ring;
            span = fst sr; ring1 = snd sr
        in if span_length span = 0 then (total_read, data, ring1)
           else let chunk = (if len - total_read < span_length span
                             then len - total_read else span_length span);
                    data1 = mem_write data (unat total_read) (span_load ring1 span chunk);
                    committed = ring_buffer_commit_consumed ring1 chunk
                in if \<not> fst committed then (total_read, data1, snd committed)
                   else ring_buffer_read_loop (snd committed) data1 len (total_read + chunk)
      else (total_read, data, ring))"
  by pat_completeness auto
termination
proof (relation "measure (\<lambda>(ring, data, len, k). unat (len - k))", goal_cases)
  case 1
  show ?case by simp
next
  case 2
  then show ?case by (simp only: in_measure prod.case not_False_eq_True chunk_decreases)
qed

declare ring_buffer_read_loop.simps [simp del]

definition ring_buffer_read ::
    "ring_buffer_t \<Rightarrow> u8 list option \<Rightarrow> size_t \<Rightarrow> size_t \<times> u8 list option \<times> ring_buffer_t" where
  "ring_buffer_read ring data len =
     (case data of None \<Rightarrow> (0, None, ring)
      | Some buf \<Rightarrow> let (n, buf', ring') = ring_buffer_read_loop ring buf len 0
                   in (n, Some buf', ring'))"

definition ring_buffer_high_watermark :: "ring_buffer_t \<Rightarrow> size_t" where
  "ring_buffer_high_watermark ring = high_watermark ring"

definition ring_buffer_overflow_count :: "ring_buffer_t \<Rightarrow> size_t" where
  "ring_buffer_overflow_count ring = overflow_count ring"

definition ring_buffer_pending_overflow :: "ring_buffer_t \<Rightarrow> size_t" where
  "ring_buffer_pending_overflow ring = ring_buffer_pending_overflow_internal ring"

section \<open>The boot self-check\<close>

text \<open>
  The check runs on a ring and two buffers of its own stack frame, whose first contents are
  arbitrary: \<open>ring0\<close>, \<open>storage0\<close> and \<open>output0\<close>. Each block of tests is one definition, in order.
\<close>

definition self_check_input :: "u8 list" where
  "self_check_input = [0, 1, 2, 3, 4, 5, 6, 7]"

definition self_check_overflow :: "ring_buffer_t \<Rightarrow> u8 list \<Rightarrow> u8 list \<Rightarrow> bool \<times> ring_buffer_t \<times> u8 list" where
  "self_check_overflow ring0 storage0 output0 =
     (let (initialised, ring) = ring_buffer_init ring0 (Some storage0) 8
      in if \<not> initialised then (False, ring, output0)
         else let (written, ring) = ring_buffer_write ring (Some self_check_input) 8
              in if written \<noteq> 8 then (False, ring, output0)
         else let ring = ring_buffer_write_byte_overwrite ring 8
              in if ring_buffer_pending_overflow ring \<noteq> 1 then (False, ring, output0)
         else let (recovered, ring) = ring_buffer_recover_overflow ring
              in if recovered \<noteq> 1 \<or> ring_buffer_overflow_count ring \<noteq> 1 \<or>
                    ring_buffer_pending_overflow ring \<noteq> 0 then (False, ring, output0)
         else let (n, output, ring) = ring_buffer_read ring (Some output0) 8
              in if n \<noteq> 8 then (False, ring, the output)
         else (\<forall>index \<in> set [0..<8]. the output ! index = of_nat (index + 1), ring, the output))"

definition self_check_write_span :: "ring_buffer_t \<Rightarrow> u8 list \<Rightarrow> u8 list \<Rightarrow> bool \<times> ring_buffer_t \<times> u8 list" where
  "self_check_write_span ring0 storage0 output0 =
     (let (initialised, ring) = ring_buffer_init ring0 (Some storage0) 8
      in if \<not> initialised then (False, ring, output0)
         else let (written, ring) = ring_buffer_write ring (Some self_check_input) 6
              in if written \<noteq> 6 then (False, ring, output0)
         else let (n, output, ring) = ring_buffer_read ring (Some output0) 4
              in if n \<noteq> 4 then (False, ring, the output)
         else let (span, ring) = ring_buffer_write_span ring
              in if span_length span \<noteq> 2 then (False, ring, the output)
         else let (committed, ring) = ring_buffer_commit_produced ring 3
              in (\<not> committed, ring, the output))"

definition self_check_read_span :: "ring_buffer_t \<Rightarrow> u8 list \<Rightarrow> bool \<times> ring_buffer_t" where
  "self_check_read_span ring0 storage0 =
     (let (initialised, ring) = ring_buffer_init ring0 (Some storage0) 8
      in if \<not> initialised then (False, ring)
         else let (written, ring) = ring_buffer_write ring (Some self_check_input) 4
              in if written \<noteq> 4 then (False, ring)
         else let (span, ring) = ring_buffer_read_span ring
              in if span_length span \<noteq> 4 then (False, ring)
         else let (committed, ring) = ring_buffer_commit_consumed ring 5
              in if committed then (False, ring)
         else ring_buffer_commit_consumed ring 4)"

definition self_check_wrap :: "ring_buffer_t \<Rightarrow> u8 list \<Rightarrow> u8 list \<Rightarrow> bool" where
  "self_check_wrap ring0 storage0 output0 =
     (let (initialised, ring) = ring_buffer_init ring0 (Some storage0) 8
      in if \<not> initialised then False
         else let ring = ring\<lparr>producer := UINT32_MAX, consumer := UINT32_MAX\<rparr>;
                  ring = ring_buffer_write_byte_overwrite ring 0x5A;
                  (n, output, ring) = ring_buffer_read ring (Some output0) 1
              in n = 1 \<and> the output ! 0 = 0x5A)"

text \<open>\<open>the (storage r)\<close>: the stack array, whose bytes the earlier blocks have changed.\<close>

definition ring_buffer_self_check :: "ring_buffer_t \<Rightarrow> u8 list \<Rightarrow> u8 list \<Rightarrow> bool" where
  "ring_buffer_self_check ring0 storage0 output0 =
     (let (ok, ring, output) = self_check_overflow ring0 storage0 output0
      in if \<not> ok then False
         else let (ok, ring, output) = self_check_write_span ring (the (storage ring)) output
              in if \<not> ok then False
         else let (ok, ring) = self_check_read_span ring (the (storage ring))
              in if \<not> ok then False
         else self_check_wrap ring (the (storage ring)) output)"

end
