(* ===== verification/Ring_Facts.thy ===== *)
theory Ring_Facts
  imports Ring_Buffer
begin

text \<open>
  What a ring holds, as a list: \<open>rb_contents\<close> is the sequence of readable bytes, oldest
  first. The lemmas say how one store, one span and one commit change it; the loops and the
  refinement theorems of the following theories rest on them.
\<close>

section \<open>The bytes behind the producer\<close>

text \<open>\<open>ring_tail s m p k\<close>: the \<open>k\<close> bytes before sequence number \<open>p\<close> in a storage of \<open>m\<close> slots.\<close>

definition ring_tail :: "u8 list \<Rightarrow> nat \<Rightarrow> u32 \<Rightarrow> nat \<Rightarrow> u8 list" where
  "ring_tail s m p k = map (\<lambda>i. s ! (unat (p - of_nat (k - i)) mod m)) [0..<k]"

lemma length_ring_tail [simp]: "length (ring_tail s m p k) = k"
  by (simp add: ring_tail_def)

lemma nth_ring_tail: "i < k \<Longrightarrow> ring_tail s m p k ! i = s ! (unat (p - of_nat (k - i)) mod m)"
  by (simp add: ring_tail_def)

lemma ring_tail_0 [simp]: "ring_tail s m p 0 = []"
  by (simp add: ring_tail_def)

lemma drop_ring_tail: "drop j (ring_tail s m p k) = ring_tail s m p (k - j)"
  by (rule nth_equalityI) (auto simp: nth_ring_tail)

lemma ring_index_neq:
  assumes n: "pow2_size n" and j: "0 < j" "j < unat n"
  shows "unat (p - of_nat j :: u32) mod unat n \<noteq> unat p mod unat n"
proof
  assume eq: "unat (p - of_nat j) mod unat n = unat p mod unat n"
  have "unat p mod unat n = unat ((p - of_nat j) + of_nat j) mod unat n" by simp
  also have "\<dots> = (unat (p - of_nat j) + unat (of_nat j :: u32)) mod unat n"
    by (rule unat_add_mod_pow2 [OF n])
  also have "\<dots> = (unat (p - of_nat j) + j) mod unat n"
    by (metis mod_add_right_eq unat_of_nat_mod_pow2 [OF n])
  finally have "(unat (p - of_nat j) + j) mod unat n = unat (p - of_nat j) mod unat n"
    using eq by simp
  then have "unat n dvd j"
    by (metis add_diff_cancel_left' mod_eq_dvd_iff_nat le_add1)
  with j show False by (auto dest: dvd_imp_le)
qed

lemma ring_tail_put:
  assumes n: "pow2_size n" and s: "length s = unat n" and k: "k < unat n"
  shows "ring_tail (s[unat p mod unat n := b]) (unat n) (p + 1) (Suc k) = ring_tail s (unat n) p k @ [b]"
proof (rule nth_equalityI)
  fix i
  assume "i < length (ring_tail (s[unat p mod unat n := b]) (unat n) (p + 1) (Suc k))"
  then have i: "i \<le> k" by simp
  have pos: "unat p mod unat n < length s" using s pow2_size_pos [OF n] by simp
  have shift: "(p + 1) - of_nat (Suc k - i) = p - of_nat (k - i)"
    using i by (simp add: Suc_diff_le)
  have at: "ring_tail (s[unat p mod unat n := b]) (unat n) (p + 1) (Suc k) ! i
              = s[unat p mod unat n := b] ! (unat (p - of_nat (k - i)) mod unat n)"
    using i by (simp only: nth_ring_tail shift less_Suc_eq_le)
  show "ring_tail (s[unat p mod unat n := b]) (unat n) (p + 1) (Suc k) ! i
          = (ring_tail s (unat n) p k @ [b]) ! i"
  proof (cases "i = k")
    case True
    with pos at show ?thesis by (simp add: nth_append)
  next
    case False
    with i k have "unat (p - of_nat (k - i)) mod unat n \<noteq> unat p mod unat n"
      by (intro ring_index_neq [OF n]) auto
    then have "s[unat p mod unat n := b] ! (unat (p - of_nat (k - i)) mod unat n)
                 = ring_tail s (unat n) p k ! i"
      using i False by (simp only: nth_list_update_neq nth_ring_tail le_neq_implies_less not_False_eq_True)
    with at i False show ?thesis by (simp add: nth_append)
  qed
qed simp

lemma ring_tail_put_full:
  assumes n: "pow2_size n" and s: "length s = unat n" and k: "k = unat n"
  shows "ring_tail (s[unat p mod unat n := b]) (unat n) (p + 1) k = tl (ring_tail s (unat n) p k) @ [b]"
proof -
  have "k = Suc (k - 1)" "k - 1 < unat n" using k pow2_size_pos [OF n] by auto
  then show ?thesis
    using ring_tail_put [OF n s, of "k - 1" p b] drop_ring_tail [of 1 s "unat n" p k]
    by (simp add: drop_Suc)
qed

lemma mem_write_Cons:
  "off < length s \<Longrightarrow> mem_write s off (b # bs) = mem_write (s[off := b]) (Suc off) bs"
  by (simp add: mem_write_def take_Suc_conv_app_nth add.commute)

lemma ring_tail_store:
  assumes n: "pow2_size n"
    and s: "length s = unat n"
    and off: "unat p mod unat n + length bs \<le> unat n"
    and k: "k + length bs \<le> unat n"
  shows "ring_tail (mem_write s (unat p mod unat n) bs) (unat n) (p + of_nat (length bs)) (k + length bs)
           = ring_tail s (unat n) p k @ bs"
  using s off k
proof (induction bs arbitrary: s p k)
  case Nil
  then show ?case by simp
next
  case (Cons b bs)
  let ?o = "unat p mod unat n"
  let ?s = "s[?o := b]"
  show ?case
  proof (cases "bs = []")
    case True
    then show ?thesis
      using Cons.prems ring_tail_put [OF n, of s k p b] pow2_size_pos [OF n]
      by (simp add: mem_write_Cons)
  next
    case False
    with Cons.prems have "Suc ?o < unat n" by (cases bs) auto
    then have off': "unat (p + 1) mod unat n = Suc ?o"
      using unat_add_mod_pow2 [OF n, of p 1] by (simp add: mod_Suc)
    have "ring_tail (mem_write ?s (unat (p + 1) mod unat n) bs) (unat n)
            (p + 1 + of_nat (length bs)) (Suc k + length bs) = ring_tail ?s (unat n) (p + 1) (Suc k) @ bs"
      using Cons.prems by (intro Cons.IH) (simp_all add: off')
    moreover have "ring_tail ?s (unat n) (p + 1) (Suc k) = ring_tail s (unat n) p k @ [b]"
      using Cons.prems by (intro ring_tail_put [OF n]) auto
    ultimately show ?thesis
      using Cons.prems pow2_size_pos [OF n] by (simp add: mem_write_Cons off' add.assoc)
  qed
qed

lemma ring_tail_load:
  assumes n: "pow2_size n"
    and s: "length s = unat n"
    and k: "unat (p - c) = k" "k \<le> unat n"
    and l: "l \<le> k" "unat c mod unat n + l \<le> unat n"
  shows "mem_read s (unat c mod unat n) l = take l (ring_tail s (unat n) p k)"
proof (rule nth_equalityI)
  show "length (mem_read s (unat c mod unat n) l) = length (take l (ring_tail s (unat n) p k))"
    using s l by simp
next
  fix i
  assume "i < length (mem_read s (unat c mod unat n) l)"
  with s l have i: "i < l" by simp
  have pk: "p - of_nat k = c"
  proof -
    have "of_nat k = p - c" using k(1) by (metis of_nat_unat ucast_id)
    then show ?thesis by simp
  qed
  have "p - of_nat (k - i) = c + of_nat i"
    using i l(1) pk by (simp add: of_nat_diff diff_diff_eq2)
  then have "unat (p - of_nat (k - i)) mod unat n = (unat c mod unat n + i) mod unat n"
    by (metis mod_add_left_eq mod_add_right_eq unat_add_mod_pow2 [OF n] unat_of_nat_mod_pow2 [OF n])
  also have "\<dots> = unat c mod unat n + i" using i l(2) by simp
  finally show "mem_read s (unat c mod unat n) l ! i = take l (ring_tail s (unat n) p k) ! i"
    using i l s by (simp add: nth_mem_read nth_ring_tail)
qed

section \<open>Well-formed rings and their contents\<close>

definition ring_wf :: "ring_buffer_t \<Rightarrow> bool" where
  "ring_wf r \<longleftrightarrow> pow2_size (ring_size r) \<and> ring_mask r = ring_size r - 1 \<and>
     (\<exists>s. storage r = Some s \<and> length s = unat (ring_size r))"

text \<open>The sequence distance between the two cursors, and the bytes already overwritten.\<close>

definition rb_distance :: "ring_buffer_t \<Rightarrow> nat" where
  "rb_distance r = unat (producer r - consumer r)"

definition rb_capacity :: "ring_buffer_t \<Rightarrow> nat" where
  "rb_capacity r = unat (ring_size r)"

definition rb_contents :: "ring_buffer_t \<Rightarrow> u8 list" where
  "rb_contents r =
     ring_tail (the (storage r)) (unat (ring_size r)) (producer r) (min (rb_distance r) (rb_capacity r))"

lemma ring_wfE:
  assumes "ring_wf r"
  obtains s where "pow2_size (ring_size r)" "ring_mask r = ring_size r - 1" "storage r = Some s"
    "length s = rb_capacity r"
  using assms by (auto simp: ring_wf_def rb_capacity_def)

lemma ring_wf_capacity_pos: "ring_wf r \<Longrightarrow> 0 < rb_capacity r"
  by (auto simp: ring_wf_def rb_capacity_def pow2_size_pos)

lemma ring_wf_capacity_le: "ring_wf r \<Longrightarrow> rb_capacity r \<le> 2147483648"
  by (auto simp: ring_wf_def rb_capacity_def pow2_size_le)

lemma ring_wf_storage: "ring_wf r \<Longrightarrow> storage r \<noteq> None"
  by (auto simp: ring_wf_def)

lemma length_rb_contents [simp]: "length (rb_contents r) = min (rb_distance r) (rb_capacity r)"
  by (simp add: rb_contents_def)

lemma unat_available:
  "unat (ring_buffer_available r) = min (rb_distance r) (rb_capacity r)"
  by (auto simp: ring_buffer_available_def rb_distance_def rb_capacity_def Let_def word_less_nat_alt)

lemma available_length: "unat (ring_buffer_available r) = length (rb_contents r)"
  by (simp add: unat_available)

lemma unat_pending:
  "unat (ring_buffer_pending_overflow_internal r) = rb_distance r - rb_capacity r"
  by (auto simp: ring_buffer_pending_overflow_internal_def rb_distance_def rb_capacity_def Let_def
        word_less_nat_alt unat_sub word_le_nat_alt)

lemma available_le_size: "ring_buffer_available r \<le> ring_size r"
  by (simp add: word_le_nat_alt unat_available rb_capacity_def)

lemma unat_free:
  "unat (ring_size r - ring_buffer_available r) = rb_capacity r - rb_distance r"
  using available_le_size [of r]
  by (simp add: unat_sub unat_available rb_capacity_def [symmetric])

lemma unat_span_offset:
  "ring_wf r \<Longrightarrow> unat (x AND ring_mask r) = unat x mod rb_capacity r"
  by (auto simp: ring_wf_def rb_capacity_def unat_and_mask)

lemma unat_contiguous:
  assumes "ring_wf r"
  shows "unat (ring_size r - (x AND ring_mask r)) = rb_capacity r - unat x mod rb_capacity r"
proof -
  have "x AND ring_mask r \<le> ring_size r"
    using ring_wf_capacity_pos [OF assms]
    by (simp add: word_le_nat_alt unat_span_offset [OF assms] rb_capacity_def [symmetric] less_imp_le)
  then show ?thesis by (simp add: unat_sub unat_span_offset [OF assms] rb_capacity_def [symmetric])
qed

lemma unat_ring_buffer_min: "unat (ring_buffer_min a b) = min (unat a) (unat b)"
  by (simp add: ring_buffer_min_def unat_min_word)

text \<open>Only the storage, the size and the two cursors matter to what a ring holds.\<close>

lemma rb_contents_frame [simp]:
  "rb_contents (r\<lparr>high_watermark := x\<rparr>) = rb_contents r"
  "rb_contents (r\<lparr>overflow_count := x\<rparr>) = rb_contents r"
  "rb_contents (r\<lparr>producer_reserved_sequence := x\<rparr>) = rb_contents r"
  "rb_contents (r\<lparr>producer_reserved_count := x\<rparr>) = rb_contents r"
  "rb_contents (r\<lparr>consumer_reserved_sequence := x\<rparr>) = rb_contents r"
  "rb_contents (r\<lparr>consumer_reserved_count := x\<rparr>) = rb_contents r"
  by (simp_all add: rb_contents_def rb_distance_def rb_capacity_def)

lemma update_high_watermark_frame [simp]:
  "storage (ring_buffer_update_high_watermark r) = storage r"
  "ring_size (ring_buffer_update_high_watermark r) = ring_size r"
  "ring_mask (ring_buffer_update_high_watermark r) = ring_mask r"
  "producer (ring_buffer_update_high_watermark r) = producer r"
  "consumer (ring_buffer_update_high_watermark r) = consumer r"
  "overflow_count (ring_buffer_update_high_watermark r) = overflow_count r"
  "producer_reserved_sequence (ring_buffer_update_high_watermark r) = producer_reserved_sequence r"
  "producer_reserved_count (ring_buffer_update_high_watermark r) = producer_reserved_count r"
  "consumer_reserved_sequence (ring_buffer_update_high_watermark r) = consumer_reserved_sequence r"
  "consumer_reserved_count (ring_buffer_update_high_watermark r) = consumer_reserved_count r"
  by (simp_all add: ring_buffer_update_high_watermark_def Let_def)

lemma update_high_watermark_contents [simp]:
  "rb_contents (ring_buffer_update_high_watermark r) = rb_contents r"
  by (simp add: rb_contents_def rb_distance_def rb_capacity_def)

lemma update_high_watermark_value:
  "unat (high_watermark (ring_buffer_update_high_watermark r))
     = max (unat (high_watermark r)) (length (rb_contents r))"
  by (auto simp: ring_buffer_update_high_watermark_def Let_def word_less_nat_alt unat_available)

section \<open>Recovery and consumption\<close>

text \<open>Moving the consumer forward drops the oldest bytes.\<close>

lemma rb_distance_consume:
  assumes "unat j \<le> rb_distance r"
  shows "rb_distance (r\<lparr>consumer := consumer r + j\<rparr>) = rb_distance r - unat j"
proof -
  have "unat (producer r - (consumer r + j)) = unat ((producer r - consumer r) - j)"
    by (simp add: diff_diff_eq)
  then show ?thesis
    using assms by (simp add: rb_distance_def unat_sub word_le_nat_alt)
qed

lemma rb_contents_consume:
  assumes "unat j \<le> rb_distance r"
  shows "rb_contents (r\<lparr>consumer := consumer r + j\<rparr>)
           = drop (unat j - (rb_distance r - rb_capacity r)) (rb_contents r)"
proof -
  have "min (rb_distance r - unat j) (rb_capacity r)
          = min (rb_distance r) (rb_capacity r) - (unat j - (rb_distance r - rb_capacity r))"
    using assms by (auto simp: min_def)
  then show ?thesis
    by (simp add: rb_contents_def drop_ring_tail rb_distance_consume [OF assms] rb_capacity_def)
qed

lemma recover_fst: "unat (fst (ring_buffer_recover_overflow r)) = rb_distance r - rb_capacity r"
proof -
  have "fst (ring_buffer_recover_overflow r) = ring_buffer_pending_overflow_internal r"
    by (simp add: ring_buffer_recover_overflow_def Let_def)
  then show ?thesis by (simp only: unat_pending)
qed

lemma pending_zero_iff:
  "ring_buffer_pending_overflow_internal r = 0 \<longleftrightarrow> rb_distance r \<le> rb_capacity r"
proof -
  have "ring_buffer_pending_overflow_internal r = 0 \<longleftrightarrow> unat (ring_buffer_pending_overflow_internal r) = 0"
    by (rule unat_0_iff [symmetric])
  then show ?thesis by (simp only: unat_pending diff_is_0_eq)
qed

lemma recover_snd:
  "snd (ring_buffer_recover_overflow r) =
     (if rb_distance r \<le> rb_capacity r then r
      else r\<lparr>consumer := consumer r + ring_buffer_pending_overflow_internal r,
             overflow_count := uart_saturating_add_u32 (overflow_count r)
                                 (ring_buffer_pending_overflow_internal r),
             consumer_reserved_count := 0\<rparr>)"
  by (simp add: ring_buffer_recover_overflow_def Let_def pending_zero_iff)

lemma recover_frame [simp]:
  "storage (snd (ring_buffer_recover_overflow r)) = storage r"
  "ring_size (snd (ring_buffer_recover_overflow r)) = ring_size r"
  "ring_mask (snd (ring_buffer_recover_overflow r)) = ring_mask r"
  "producer (snd (ring_buffer_recover_overflow r)) = producer r"
  "high_watermark (snd (ring_buffer_recover_overflow r)) = high_watermark r"
  by (simp_all add: recover_snd)

lemma rb_capacity_recover [simp]:
  "rb_capacity (snd (ring_buffer_recover_overflow r)) = rb_capacity r"
  by (simp add: rb_capacity_def)

lemma recover_distance:
  "rb_distance (snd (ring_buffer_recover_overflow r)) = min (rb_distance r) (rb_capacity r)"
proof -
  have "rb_distance (r\<lparr>consumer := consumer r + ring_buffer_pending_overflow_internal r\<rparr>)
          = rb_distance r - (rb_distance r - rb_capacity r)"
    by (subst rb_distance_consume) (simp_all add: unat_pending)
  then show ?thesis by (auto simp: recover_snd rb_distance_def)
qed

lemma recover_contents [simp]:
  "rb_contents (snd (ring_buffer_recover_overflow r)) = rb_contents r"
  by (simp add: rb_contents_def recover_distance)

lemma recover_wf [simp]: "ring_wf (snd (ring_buffer_recover_overflow r)) = ring_wf r"
  by (simp add: ring_wf_def)

lemma recover_overflow_count:
  "unat (overflow_count (snd (ring_buffer_recover_overflow r)))
     = min 4294967295 (unat (overflow_count r) + (rb_distance r - rb_capacity r))"
  using unat_u32_le_max [of "overflow_count r"]
  by (simp add: recover_snd unat_saturating_add unat_pending)

section \<open>Spans and commits\<close>

lemma read_span_eq:
  assumes "ring_wf r"
  defines "r1 \<equiv> snd (ring_buffer_recover_overflow r)"
  defines "len \<equiv> ring_buffer_min (ring_buffer_available r1)
                     (ring_size r - (consumer r1 AND ring_mask r))"
  shows "ring_buffer_read_span r =
     (if rb_contents r = [] then (null_span, r1\<lparr>consumer_reserved_count := 0\<rparr>)
      else (\<lparr>span_data = Some (consumer r1 AND ring_mask r), span_length = len\<rparr>,
            r1\<lparr>consumer_reserved_sequence := consumer r1, consumer_reserved_count := len\<rparr>))"
proof -
  have "ring_buffer_available r1 = 0 \<longleftrightarrow> rb_contents r = []"
    by (metis available_length length_0_conv r1_def recover_contents unat_0_iff)
  then show ?thesis
    using assms(1) by (elim ring_wfE) (simp add: ring_buffer_read_span_def Let_def r1_def len_def)
qed

lemma read_span_length:
  assumes "ring_wf r"
  shows "unat (span_length (fst (ring_buffer_read_span r)))
     = min (length (rb_contents r))
           (rb_capacity r - unat (consumer (snd (ring_buffer_recover_overflow r))) mod rb_capacity r)"
proof -
  let ?r1 = "snd (ring_buffer_recover_overflow r)"
  have "unat (ring_size r - (consumer ?r1 AND ring_mask r))
          = rb_capacity r - unat (consumer ?r1) mod rb_capacity r"
    by (rule unat_contiguous [OF assms])
  then show ?thesis
    using available_length [of ?r1]
    by (simp add: read_span_eq [OF assms] null_span_def unat_ring_buffer_min
          flip: length_0_conv del: length_0_conv)
qed

lemma read_span_empty_iff:
  "ring_wf r \<Longrightarrow> span_length (fst (ring_buffer_read_span r)) = 0 \<longleftrightarrow> rb_contents r = []"
proof -
  assume wf: "ring_wf r"
  have "unat (consumer (snd (ring_buffer_recover_overflow r))) mod rb_capacity r < rb_capacity r"
    using ring_wf_capacity_pos [OF wf] by simp
  then have "unat (span_length (fst (ring_buffer_read_span r))) = 0 \<longleftrightarrow> length (rb_contents r) = 0"
    unfolding read_span_length [OF wf] by linarith
  then show ?thesis by (simp only: unat_0_iff length_0_conv)
qed

text \<open>A readable span shows the oldest readable bytes.\<close>

lemma read_span_load:
  assumes wf: "ring_wf r" and n: "n \<le> span_length (fst (ring_buffer_read_span r))"
    and ne: "rb_contents r \<noteq> []"
  shows "span_load (snd (ring_buffer_read_span r)) (fst (ring_buffer_read_span r)) n
           = take (unat n) (rb_contents r)"
proof -
  let ?r1 = "snd (ring_buffer_recover_overflow r)"
  obtain s where s: "pow2_size (ring_size r)" "storage r = Some s" "length s = unat (ring_size r)"
    using wf by (auto simp: ring_wf_def)
  have d: "unat (producer r - consumer ?r1) = min (rb_distance r) (rb_capacity r)"
    using recover_distance [of r] by (simp add: rb_distance_def)
  have n': "unat n \<le> min (rb_distance r) (rb_capacity r)"
      "unat (consumer ?r1) mod rb_capacity r + unat n \<le> rb_capacity r"
    using n mod_less_divisor [OF ring_wf_capacity_pos [OF wf], of "unat (consumer ?r1)"]
    by (simp_all add: word_le_nat_alt read_span_length [OF wf]) linarith
  have "mem_read s (unat (consumer ?r1) mod unat (ring_size r)) (unat n)
          = take (unat n) (ring_tail s (unat (ring_size r)) (producer r) (min (rb_distance r) (rb_capacity r)))"
    using n' by (intro ring_tail_load [OF s(1,3) d]) (simp_all add: rb_capacity_def)
  then show ?thesis
    using ne s(2) by (simp add: read_span_eq [OF wf] span_load_def rb_contents_def
        unat_span_offset [OF wf] rb_capacity_def [symmetric])
qed

lemma write_span_eq:
  assumes "ring_wf r"
  defines "len \<equiv> ring_buffer_min (ring_size r - ring_buffer_available r)
                     (ring_size r - (producer r AND ring_mask r))"
  shows "ring_buffer_write_span r =
     (if rb_capacity r \<le> rb_distance r then (null_span, r\<lparr>producer_reserved_count := 0\<rparr>)
      else (\<lparr>span_data = Some (producer r AND ring_mask r), span_length = len\<rparr>,
            r\<lparr>producer_reserved_sequence := producer r, producer_reserved_count := len\<rparr>))"
proof -
  have "ring_size r - ring_buffer_available r = 0 \<longleftrightarrow> rb_capacity r \<le> rb_distance r"
    by (metis diff_is_0_eq unat_0_iff unat_free)
  then show ?thesis
    using assms(1) by (elim ring_wfE) (simp add: ring_buffer_write_span_def Let_def len_def)
qed

lemma write_span_length:
  assumes "ring_wf r"
  shows "unat (span_length (fst (ring_buffer_write_span r)))
     = min (rb_capacity r - rb_distance r) (rb_capacity r - unat (producer r) mod rb_capacity r)"
  by (simp add: write_span_eq [OF assms] null_span_def unat_ring_buffer_min unat_free
        unat_contiguous [OF assms])

lemma write_span_empty_iff:
  assumes wf: "ring_wf r"
  shows "span_length (fst (ring_buffer_write_span r)) = 0 \<longleftrightarrow> rb_capacity r \<le> rb_distance r"
proof -
  have "unat (producer r) mod rb_capacity r < rb_capacity r"
    using ring_wf_capacity_pos [OF wf] by simp
  then have "unat (span_length (fst (ring_buffer_write_span r))) = 0 \<longleftrightarrow> rb_capacity r \<le> rb_distance r"
    unfolding write_span_length [OF wf] by linarith
  then show ?thesis by (simp only: unat_0_iff)
qed

text \<open>Bytes stored through a writable span and committed are appended to the contents.\<close>

lemma write_span_frame [simp]:
  "storage (snd (ring_buffer_write_span r)) = storage r"
  "ring_size (snd (ring_buffer_write_span r)) = ring_size r"
  "ring_mask (snd (ring_buffer_write_span r)) = ring_mask r"
  "producer (snd (ring_buffer_write_span r)) = producer r"
  "consumer (snd (ring_buffer_write_span r)) = consumer r"
  "high_watermark (snd (ring_buffer_write_span r)) = high_watermark r"
  "overflow_count (snd (ring_buffer_write_span r)) = overflow_count r"
  by (simp_all add: ring_buffer_write_span_def Let_def)

lemma span_store_frame [simp]:
  "ring_size (span_store r sp bs) = ring_size r"
  "ring_mask (span_store r sp bs) = ring_mask r"
  "producer (span_store r sp bs) = producer r"
  "consumer (span_store r sp bs) = consumer r"
  "high_watermark (span_store r sp bs) = high_watermark r"
  "overflow_count (span_store r sp bs) = overflow_count r"
  "producer_reserved_sequence (span_store r sp bs) = producer_reserved_sequence r"
  "producer_reserved_count (span_store r sp bs) = producer_reserved_count r"
  by (simp_all add: span_store_def split: option.splits)

lemma rb_distance_produce:
  assumes "rb_distance r + unat n < 2 ^ 32" "producer r' = producer r + n" "consumer r' = consumer r"
  shows "rb_distance r' = rb_distance r + unat n"
proof -
  have "producer r' - consumer r' = (producer r - consumer r) + n" using assms by simp
  then show ?thesis
    using assms(1) by (simp add: rb_distance_def unat_add_small)
qed

lemma write_span_commit:
  assumes wf: "ring_wf r"
    and ne: "span_length (fst (ring_buffer_write_span r)) \<noteq> 0"
    and n: "n \<le> span_length (fst (ring_buffer_write_span r))"
    and bs: "length bs = unat n"
  defines "r2 \<equiv> span_store (snd (ring_buffer_write_span r)) (fst (ring_buffer_write_span r)) bs"
  defines "r3 \<equiv> snd (ring_buffer_commit_produced r2 n)"
  shows "fst (ring_buffer_commit_produced r2 n)"
    and "rb_contents r3 = rb_contents r @ bs"
    and "ring_wf r3"
    and "rb_distance r3 = rb_distance r + unat n"
    and "rb_capacity r3 = rb_capacity r"
    and "consumer r3 = consumer r"
    and "producer r3 = producer r + n"
    and "overflow_count r3 = overflow_count r"
    and "unat (high_watermark r3) = max (unat (high_watermark r)) (length (rb_contents r3))"
proof -
  have lt: "rb_distance r < rb_capacity r"
    using ne by (simp add: write_span_empty_iff [OF wf] not_le)
  let ?sp = "fst (ring_buffer_write_span r)"
  have len: "unat n \<le> rb_capacity r - rb_distance r"
      "unat n \<le> rb_capacity r - unat (producer r) mod rb_capacity r"
    using n by (simp_all add: word_le_nat_alt write_span_length [OF wf])
  obtain s where s: "pow2_size (ring_size r)" "ring_mask r = ring_size r - 1"
      "storage r = Some s" "length s = unat (ring_size r)"
    using wf by (auto simp: ring_wf_def)
  have res: "producer_reserved_sequence r2 = producer r" "producer_reserved_count r2 = span_length ?sp"
    using lt by (simp_all add: r2_def write_span_eq [OF wf])
  have pr2: "producer r2 = producer r" by (simp add: r2_def)
  have ok: "ring_buffer_commit_produced r2 n =
      (True, ring_buffer_update_high_watermark (r2\<lparr>producer := producer r + n, producer_reserved_count := 0\<rparr>))"
    using n pr2 by (simp add: ring_buffer_commit_produced_def res not_less)
  then show "fst (ring_buffer_commit_produced r2 n)" by simp
  have r3: "r3 = ring_buffer_update_high_watermark (r2\<lparr>producer := producer r + n, producer_reserved_count := 0\<rparr>)"
    by (simp add: r3_def ok)
  have st: "storage r2 = Some (mem_write s (unat (producer r) mod unat (ring_size r)) bs)"
    using lt s by (simp add: r2_def write_span_eq [OF wf] span_store_def unat_and_mask)
  show c3: "consumer r3 = consumer r" and p3: "producer r3 = producer r + n"
    and "overflow_count r3 = overflow_count r"
    by (simp_all add: r3 r2_def)
  show cap: "rb_capacity r3 = rb_capacity r" by (simp add: r3 r2_def rb_capacity_def)
  have small: "rb_distance r + unat n < 2 ^ 32"
    using len(1) lt ring_wf_capacity_le [OF wf] by simp
  show d3: "rb_distance r3 = rb_distance r + unat n"
    by (rule rb_distance_produce [OF small p3 c3])
  have off: "unat (producer r) mod unat (ring_size r) + length bs \<le> unat (ring_size r)"
    using len(2) bs mod_less_divisor [OF ring_wf_capacity_pos [OF wf], of "unat (producer r)"]
    by (simp add: rb_capacity_def)
  show "ring_wf r3"
    using s off by (simp add: ring_wf_def r3 st) (simp add: r2_def)
  have "ring_tail (mem_write s (unat (producer r) mod unat (ring_size r)) bs) (unat (ring_size r))
          (producer r + of_nat (length bs)) (rb_distance r + length bs)
        = ring_tail s (unat (ring_size r)) (producer r) (rb_distance r) @ bs"
    using len(1) lt bs by (intro ring_tail_store [OF s(1,4) off]) (simp add: rb_capacity_def)
  moreover have "of_nat (length bs) = n" using bs by simp
  moreover have "storage r3 = storage r2" "ring_size r3 = ring_size r" by (simp_all add: r3 r2_def)
  moreover have "min (rb_distance r + unat n) (rb_capacity r) = rb_distance r + unat n"
      "min (rb_distance r) (rb_capacity r) = rb_distance r"
    using lt len(1) by simp_all
  ultimately show ct: "rb_contents r3 = rb_contents r @ bs"
    using bs by (simp only: rb_contents_def d3 cap st s(3) p3 option.sel)
  have "unat (high_watermark r3) = max (unat (high_watermark r))
      (length (rb_contents (r2\<lparr>producer := producer r + n, producer_reserved_count := 0\<rparr>)))"
    by (simp only: r3 update_high_watermark_value) (simp add: r2_def)
  moreover have "rb_contents (r2\<lparr>producer := producer r + n, producer_reserved_count := 0\<rparr>) = rb_contents r3"
    by (simp add: r3)
  ultimately show "unat (high_watermark r3) = max (unat (high_watermark r)) (length (rb_contents r3))"
    by (simp only:)
qed

end
