(* ===== verification/Ring_Loops.thy ===== *)
theory Ring_Loops
  imports Ring_Facts
begin

text \<open>
  The copy loops of the ring as operations on its contents, and the two commits of a
  consumer whose producer keeps running.
\<close>

section \<open>The write loop\<close>

lemma mem_read_split:
  "m \<le> n \<Longrightarrow> off + n \<le> length buf \<Longrightarrow> mem_read buf off n = mem_read buf off m @ mem_read buf (off + m) (n - m)"
  by (simp add: mem_read_append)

lemma write_loop_spec:
  assumes "ring_wf r" "k \<le> len" "unat len \<le> length data"
  defines "n \<equiv> min (unat len - unat k) (rb_capacity r - rb_distance r)"
  shows "\<exists>r'. ring_buffer_write_loop r data len k = (k + of_nat n, r') \<and> ring_wf r' \<and>
     rb_contents r' = rb_contents r @ mem_read data (unat k) n \<and>
     rb_distance r' = rb_distance r + n \<and> rb_capacity r' = rb_capacity r \<and>
     consumer r' = consumer r \<and> producer r' = producer r + of_nat n \<and>
     overflow_count r' = overflow_count r \<and>
     unat (high_watermark r') =
       (if n = 0 then unat (high_watermark r) else max (unat (high_watermark r)) (length (rb_contents r')))"
  using assms(1-3) unfolding n_def
proof (induction r data len k rule: ring_buffer_write_loop.induct)
  case (1 r data len k)
  let ?sp = "fst (ring_buffer_write_span r)"
  let ?r1 = "snd (ring_buffer_write_span r)"
  let ?n = "min (unat len - unat k) (rb_capacity r - rb_distance r)"
  note wf = "1.prems"(1)
  show ?case
  proof (cases "k < len")
    case False
    with "1.prems"(2) have "k = len" by simp
    then show ?thesis using wf by (simp add: ring_buffer_write_loop.simps)
  next
    case lt: True
    show ?thesis
    proof (cases "span_length ?sp = 0")
      case True
      then have full: "rb_capacity r \<le> rb_distance r" by (simp add: write_span_empty_iff [OF wf])
      have "ring_buffer_write_loop r data len k = (k, r\<lparr>producer_reserved_count := 0\<rparr>)"
        using lt True full by (subst ring_buffer_write_loop.simps) (simp add: Let_def write_span_eq [OF wf])
      then show ?thesis
        using full wf by (simp add: ring_wf_def rb_distance_def rb_capacity_def)
    next
      case ne: False
      define chunk where "chunk = (if len - k < span_length ?sp then len - k else span_length ?sp)"
      define bs where "bs = mem_read data (unat k) (unat chunk)"
      define r2 where "r2 = span_store ?r1 ?sp bs"
      define r3 where "r3 = snd (ring_buffer_commit_produced r2 chunk)"
      have lk: "unat (len - k) = unat len - unat k" using "1.prems"(2) by (simp add: unat_sub)
      have uc: "unat chunk = min (unat len - unat k) (unat (span_length ?sp))"
        by (simp add: chunk_def unat_min_word lk)
      have len_bs: "length bs = unat chunk"
        using uc lt "1.prems"(3) by (simp add: bs_def word_less_nat_alt)
      have le: "chunk \<le> span_length ?sp" by (simp add: word_le_nat_alt uc)
      note step = write_span_commit [OF wf ne le len_bs, folded r2_def, folded r3_def]
      have pos: "0 < unat chunk"
        using uc lt ne by (simp add: word_less_nat_alt unat_gt_0)
      have fit: "unat k + unat chunk \<le> unat len" using uc lt by (simp add: word_less_nat_alt)
      then have uk: "unat (k + chunk) = unat k + unat chunk"
        using unat_u32_less [of len] by (intro unat_add_small) simp
      have room: "unat chunk \<le> rb_capacity r - rb_distance r"
        using le by (simp add: word_le_nat_alt write_span_length [OF wf])
      have unfold: "ring_buffer_write_loop r data len k = ring_buffer_write_loop r3 data len (k + chunk)"
        using lt ne step(1) by (subst ring_buffer_write_loop.simps)
          (simp add: Let_def chunk_def [symmetric] bs_def [symmetric] r2_def [symmetric] r3_def [symmetric])
      have le': "k + chunk \<le> len" using fit by (simp add: word_le_nat_alt uk)
      define m where "m = min (unat len - unat (k + chunk)) (rb_capacity r3 - rb_distance r3)"
      have nm: "?n = unat chunk + m"
        using fit room unfolding m_def uk step(4,5) by linarith
      note IH = "1.IH" [OF lt refl refl refl ne chunk_def refl refl, folded bs_def, folded r2_def, folded r3_def]
      have "\<exists>r'. ring_buffer_write_loop r3 data len (k + chunk) = (k + chunk + of_nat m, r') \<and> ring_wf r' \<and>
         rb_contents r' = rb_contents r3 @ mem_read data (unat (k + chunk)) m \<and>
         rb_distance r' = rb_distance r3 + m \<and> rb_capacity r' = rb_capacity r3 \<and>
         consumer r' = consumer r3 \<and> producer r' = producer r3 + of_nat m \<and>
         overflow_count r' = overflow_count r3 \<and>
         unat (high_watermark r') =
           (if m = 0 then unat (high_watermark r3)
            else max (unat (high_watermark r3)) (length (rb_contents r')))"
        using IH step le' "1.prems"(3) unfolding m_def by blast
      then obtain r' where r': "ring_buffer_write_loop r3 data len (k + chunk) = (k + chunk + of_nat m, r')"
          "ring_wf r'" "rb_contents r' = rb_contents r3 @ mem_read data (unat (k + chunk)) m"
          "rb_distance r' = rb_distance r3 + m" "rb_capacity r' = rb_capacity r3"
          "consumer r' = consumer r3" "producer r' = producer r3 + of_nat m"
          "overflow_count r' = overflow_count r3"
          "unat (high_watermark r') =
             (if m = 0 then unat (high_watermark r3)
              else max (unat (high_watermark r3)) (length (rb_contents r')))" by blast
      have read: "mem_read data (unat k) ?n = bs @ mem_read data (unat (k + chunk)) m"
        unfolding bs_def nm uk
        using "1.prems"(3) nm fit by (subst mem_read_append) (auto simp: min_def split: if_splits)
      have hw: "unat (high_watermark r') = max (unat (high_watermark r)) (length (rb_contents r'))"
        using r'(3,9) step(9) by (auto simp del: length_rb_contents)
      have "k + chunk + of_nat m = k + of_nat ?n" "producer r + chunk + of_nat m = producer r + of_nat ?n"
        by (simp_all add: nm)
      then show ?thesis
        using r' read nm pos step hw unfold by (intro exI [of _ r']) (simp del: length_rb_contents)
    qed
  qed
qed

section \<open>The read loop\<close>

lemma read_span_commit:
  assumes wf: "ring_wf r"
    and ne: "rb_contents r \<noteq> []"
    and n: "n \<le> span_length (fst (ring_buffer_read_span r))"
  defines "r1 \<equiv> snd (ring_buffer_read_span r)"
  defines "r3 \<equiv> snd (ring_buffer_commit_consumed r1 n)"
  shows "fst (ring_buffer_commit_consumed r1 n)"
    and "rb_contents r3 = drop (unat n) (rb_contents r)"
    and "ring_wf r3"
    and "rb_distance r3 = min (rb_distance r) (rb_capacity r) - unat n"
    and "rb_capacity r3 = rb_capacity r"
    and "producer r3 = producer r"
    and "storage r3 = storage r"
    and "high_watermark r3 = high_watermark r"
    and "overflow_count r3 = overflow_count (snd (ring_buffer_recover_overflow r))"
proof -
  let ?q = "snd (ring_buffer_recover_overflow r)"
  have r1: "r1 = ?q\<lparr>consumer_reserved_sequence := consumer ?q,
                    consumer_reserved_count := span_length (fst (ring_buffer_read_span r))\<rparr>"
    using ne by (simp add: r1_def read_span_eq [OF wf])
  have dist: "unat (producer ?q - consumer ?q) \<le> unat (ring_size r)"
    using recover_distance [of r] by (simp add: rb_distance_def rb_capacity_def)
  have "ring_buffer_commit_consumed r1 n = (True, r1\<lparr>consumer := consumer ?q + n, consumer_reserved_count := 0\<rparr>)"
    using n dist by (simp add: ring_buffer_commit_consumed_def r1 not_less Let_def word_le_nat_alt)
  then have ok: "fst (ring_buffer_commit_consumed r1 n)"
    and r3: "r3 = r1\<lparr>consumer := consumer ?q + n, consumer_reserved_count := 0\<rparr>"
    by (simp_all add: r3_def)
  from ok show "fst (ring_buffer_commit_consumed r1 n)" .
  have le: "unat n \<le> rb_distance ?q" "rb_distance ?q \<le> rb_capacity ?q"
    using n recover_distance [of r] by (simp_all add: word_le_nat_alt read_span_length [OF wf])
  have eq: "r3 = (?q\<lparr>consumer := consumer ?q + n\<rparr>)\<lparr>consumer_reserved_sequence := consumer ?q,
                  consumer_reserved_count := 0\<rparr>"
    by (simp add: r3 r1)
  show "rb_contents r3 = drop (unat n) (rb_contents r)"
    using rb_contents_consume [OF le(1)] le(2) by (simp add: eq)
  show "rb_distance r3 = min (rb_distance r) (rb_capacity r) - unat n"
    using rb_distance_consume [OF le(1)] recover_distance [of r] by (simp add: eq rb_distance_def)
  show "ring_wf r3" "rb_capacity r3 = rb_capacity r" "producer r3 = producer r"
    "storage r3 = storage r" "high_watermark r3 = high_watermark r" "overflow_count r3 = overflow_count ?q"
    using wf by (simp_all add: eq ring_wf_def rb_capacity_def)
qed

lemma read_span_empty_step:
  assumes "ring_wf r" "rb_contents r = []"
  shows "snd (ring_buffer_read_span r) = r\<lparr>consumer_reserved_count := 0\<rparr>"
proof -
  have "rb_distance r = 0"
    using assms length_rb_contents [of r] ring_wf_capacity_pos [OF assms(1)] by (simp add: min_def split: if_splits)
  then show ?thesis using assms by (simp add: read_span_eq recover_snd)
qed

lemma recover_idem: "rb_distance r \<le> rb_capacity r \<Longrightarrow> snd (ring_buffer_recover_overflow r) = r"
  by (simp add: recover_snd)

lemma read_loop_spec:
  assumes "ring_wf r" "k \<le> len" "unat len \<le> length buf"
  defines "n \<equiv> min (unat len - unat k) (length (rb_contents r))"
  shows "\<exists>r'. ring_buffer_read_loop r buf len k
                = (k + of_nat n, mem_write buf (unat k) (take n (rb_contents r)), r') \<and> ring_wf r' \<and>
     rb_contents r' = drop n (rb_contents r) \<and>
     rb_distance r' = (if k < len then min (rb_distance r) (rb_capacity r) - n else rb_distance r) \<and>
     rb_capacity r' = rb_capacity r \<and> producer r' = producer r \<and> storage r' = storage r \<and>
     high_watermark r' = high_watermark r \<and>
     overflow_count r' = overflow_count (if k < len then snd (ring_buffer_recover_overflow r) else r)"
  using assms(1-3) unfolding n_def
proof (induction r buf len k rule: ring_buffer_read_loop.induct)
  case (1 r buf len k)
  let ?sp = "fst (ring_buffer_read_span r)"
  let ?r1 = "snd (ring_buffer_read_span r)"
  let ?n = "min (unat len - unat k) (length (rb_contents r))"
  note wf = "1.prems"(1)
  show ?case
  proof (cases "k < len")
    case False
    with "1.prems"(2) have "k = len" by simp
    then show ?thesis using wf by (simp add: ring_buffer_read_loop.simps)
  next
    case lt: True
    show ?thesis
    proof (cases "rb_contents r = []")
      case True
      then have "ring_buffer_read_loop r buf len k = (k, buf, r\<lparr>consumer_reserved_count := 0\<rparr>)"
        using lt by (subst ring_buffer_read_loop.simps)
          (simp add: Let_def read_span_empty_iff [OF wf] read_span_empty_step [OF wf])
      moreover have "rb_distance r = 0"
        using True length_rb_contents [of r] ring_wf_capacity_pos [OF wf] by (simp add: min_def split: if_splits)
      ultimately show ?thesis
        using True wf lt by (simp add: ring_wf_def rb_distance_def rb_capacity_def recover_idem)
    next
      case ne: False
      then have sl: "span_length ?sp \<noteq> 0" by (simp add: read_span_empty_iff [OF wf])
      define chunk where "chunk = (if len - k < span_length ?sp then len - k else span_length ?sp)"
      define buf1 where "buf1 = mem_write buf (unat k) (span_load ?r1 ?sp chunk)"
      define r3 where "r3 = snd (ring_buffer_commit_consumed ?r1 chunk)"
      have lk: "unat (len - k) = unat len - unat k" using "1.prems"(2) by (simp add: unat_sub)
      have uc: "unat chunk = min (unat len - unat k) (unat (span_length ?sp))"
        by (simp add: chunk_def unat_min_word lk)
      have le: "chunk \<le> span_length ?sp" by (simp add: word_le_nat_alt uc)
      note step = read_span_commit [OF wf ne le, folded r3_def]
      have pos: "0 < unat chunk"
        using uc lt sl by (simp add: word_less_nat_alt unat_gt_0)
      have fit: "unat k + unat chunk \<le> unat len" using uc lt by (simp add: word_less_nat_alt)
      then have uk: "unat (k + chunk) = unat k + unat chunk"
        using unat_u32_less [of len] by (intro unat_add_small) simp
      have room: "unat chunk \<le> length (rb_contents r)"
        using le by (simp add: word_le_nat_alt read_span_length [OF wf])
      have load: "span_load ?r1 ?sp chunk = take (unat chunk) (rb_contents r)"
        by (rule read_span_load [OF wf le ne])
      have lb: "length buf1 = length buf"
        using fit "1.prems"(3) room by (simp add: buf1_def load)
      have unfold: "ring_buffer_read_loop r buf len k = ring_buffer_read_loop r3 buf1 len (k + chunk)"
        using lt sl step(1) by (subst ring_buffer_read_loop.simps)
          (simp add: Let_def chunk_def [symmetric] buf1_def [symmetric] r3_def [symmetric])
      have le': "k + chunk \<le> len" using fit by (simp add: word_le_nat_alt uk)
      note IH = "1.IH" [OF lt refl refl refl sl chunk_def refl refl, folded buf1_def, folded r3_def]
      define m where "m = min (unat len - unat (k + chunk)) (length (rb_contents r3))"
      have nm: "?n = unat chunk + m"
        using fit room unfolding m_def uk step(2) length_drop by linarith
      obtain r' where r': "ring_buffer_read_loop r3 buf1 len (k + chunk)
            = (k + chunk + of_nat m, mem_write buf1 (unat (k + chunk)) (take m (rb_contents r3)), r')"
          "ring_wf r'" "rb_contents r' = drop m (rb_contents r3)"
          "rb_distance r' = (if k + chunk < len then min (rb_distance r3) (rb_capacity r3) - m else rb_distance r3)"
          "rb_capacity r' = rb_capacity r3" "producer r' = producer r3" "storage r' = storage r3"
          "high_watermark r' = high_watermark r3"
          "overflow_count r' = overflow_count (if k + chunk < len then snd (ring_buffer_recover_overflow r3) else r3)"
        using IH step le' "1.prems"(3) lb unfolding m_def by metis
      have d3: "rb_distance r3 \<le> rb_capacity r3" by (simp add: step(4,5))
      have m0: "m = 0" if "\<not> k + chunk < len"
        using that le' by (simp add: m_def)
      have dist: "rb_distance r' = min (rb_distance r) (rb_capacity r) - ?n"
        unfolding nm using r'(4) d3 m0 step(4) by (cases "k + chunk < len") (simp_all del: length_rb_contents)
      have ovf: "overflow_count r' = overflow_count (snd (ring_buffer_recover_overflow r))"
        using r'(9) d3 by (simp add: recover_idem step(9))
      have buf: "mem_write buf1 (unat (k + chunk)) (take m (rb_contents r3))
                   = mem_write buf (unat k) (take ?n (rb_contents r))"
      proof -
        have "unat k + unat chunk + m \<le> length buf" using nm fit "1.prems"(3) by linarith
        then have "mem_write buf1 (unat (k + chunk)) (take m (rb_contents r3))
            = mem_write buf (unat k) (take (unat chunk) (rb_contents r) @ take m (drop (unat chunk) (rb_contents r)))"
          unfolding buf1_def load uk step(2)
          using mem_write_append [of "unat k" "take (unat chunk) (rb_contents r)"
              "take m (drop (unat chunk) (rb_contents r))" buf] room by auto
        then show ?thesis by (simp only: nm take_add)
      qed
      have cont: "rb_contents r' = drop ?n (rb_contents r)"
        unfolding nm using r'(3) step(2) by (simp del: length_rb_contents add: add.commute)
      have "k + chunk + of_nat m = k + of_nat ?n" unfolding nm by simp
      then show ?thesis
        using r' unfold buf cont dist ovf step lt
        by (intro exI [of _ r']) (simp del: length_rb_contents of_nat_min)
    qed
  qed
qed

end
