(* ===== verification/Ring_Refinement.thy ===== *)
theory Ring_Refinement
  imports Ring_Loops "HOL-Library.Sublist"
begin

text \<open>
  The contract of the byte ring: a bounded queue that either refuses new bytes
  (\<open>ring_buffer_write\<close>) or drops its oldest ones (\<open>ring_buffer_write_byte_overwrite\<close>, and the
  DMA engine behind \<open>ring_buffer_produce_external\<close>), and counts every byte it drops. The locale
  states the contract and derives what a whole run of operations delivers; the interpretation
  discharges the contract on the ring of the code.
\<close>

section \<open>Stores that overwrite\<close>

definition ring_put :: "ring_buffer_t \<Rightarrow> u8 \<Rightarrow> ring_buffer_t" where
  "ring_put r b = r\<lparr>storage := map_option (\<lambda>s. s[unat (producer r AND ring_mask r) := b]) (storage r),
                    producer := producer r + 1\<rparr>"

lemma ring_put_frame [simp]:
  "ring_size (ring_put r b) = ring_size r" "ring_mask (ring_put r b) = ring_mask r"
  "consumer (ring_put r b) = consumer r" "producer (ring_put r b) = producer r + 1"
  "high_watermark (ring_put r b) = high_watermark r"
  "overflow_count (ring_put r b) = overflow_count r"
  "rb_capacity (ring_put r b) = rb_capacity r"
  by (simp_all add: ring_put_def rb_capacity_def)

lemma ring_put_wf [simp]: "ring_wf r \<Longrightarrow> ring_wf (ring_put r b)"
  by (auto simp: ring_wf_def ring_put_def)

lemma ring_put_distance:
  "rb_distance r + 1 < 2 ^ 32 \<Longrightarrow> rb_distance (ring_put r b) = rb_distance r + 1"
  using rb_distance_produce [of r 1 "ring_put r b"] by simp

lemma ring_put_contents:
  assumes wf: "ring_wf r" and d: "rb_distance r + 1 < 2 ^ 32"
  shows "rb_contents (ring_put r b) = keep_last (rb_capacity r) (rb_contents r @ [b])"
proof -
  obtain s where s: "pow2_size (ring_size r)" "ring_mask r = ring_size r - 1"
      "storage r = Some s" "length s = unat (ring_size r)"
    using wf by (auto simp: ring_wf_def)
  have put: "rb_contents (ring_put r b) = ring_tail (s[unat (producer r) mod unat (ring_size r) := b])
      (unat (ring_size r)) (producer r + 1) (min (Suc (rb_distance r)) (rb_capacity r))"
    using s ring_put_distance [OF d, of b]
    by (simp add: rb_contents_def) (simp add: ring_put_def unat_and_mask)
  have tail: "rb_contents r = ring_tail s (unat (ring_size r)) (producer r) (min (rb_distance r) (rb_capacity r))"
    using s by (simp add: rb_contents_def)
  show ?thesis
  proof (cases "rb_distance r < rb_capacity r")
    case True
    then have "min (Suc (rb_distance r)) (rb_capacity r) = Suc (rb_distance r)"
      "min (rb_distance r) (rb_capacity r) = rb_distance r" by simp_all
    then have "rb_contents (ring_put r b) = rb_contents r @ [b]"
      using ring_tail_put [OF s(1,4), of "rb_distance r" "producer r" b] True
      by (simp add: put tail rb_capacity_def)
    then show ?thesis using True by simp
  next
    case False
    then have "min (Suc (rb_distance r)) (rb_capacity r) = rb_capacity r"
      "min (rb_distance r) (rb_capacity r) = rb_capacity r" by simp_all
    then have "rb_contents (ring_put r b) = tl (rb_contents r) @ [b]"
      using ring_tail_put_full [OF s(1,4), of "rb_capacity r" "producer r" b]
      by (simp add: put tail rb_capacity_def)
    then show ?thesis
      using False ring_wf_capacity_pos [OF wf] by (simp add: keep_last_snoc)
  qed
qed

lemma overwrite_eq:
  "ring_wf r \<Longrightarrow> ring_buffer_write_byte_overwrite r b
     = ring_buffer_update_high_watermark ((ring_put r b)\<lparr>producer_reserved_count := 0\<rparr>)"
  by (auto simp: ring_buffer_write_byte_overwrite_def ring_put_def ring_wf_def Let_def)

lemma rb_distance_frame [simp]:
  "rb_distance (ring_buffer_update_high_watermark r) = rb_distance r"
  "rb_distance (r\<lparr>producer_reserved_count := x\<rparr>) = rb_distance r"
  "rb_capacity (ring_buffer_update_high_watermark r) = rb_capacity r"
  "rb_capacity (r\<lparr>producer_reserved_count := x\<rparr>) = rb_capacity r"
  "ring_wf (ring_buffer_update_high_watermark r) = ring_wf r"
  "ring_wf (r\<lparr>producer_reserved_count := x\<rparr>) = ring_wf r"
  by (simp_all add: rb_distance_def rb_capacity_def ring_wf_def)

lemma overwrite_step:
  fixes b :: u8
  assumes wf: "ring_wf r" and d: "rb_distance r + 1 < 2 ^ 32"
  defines "r' \<equiv> ring_buffer_write_byte_overwrite r b"
  shows "rb_contents r' = keep_last (rb_capacity r) (rb_contents r @ [b])" "ring_wf r'"
    "rb_distance r' = rb_distance r + 1" "rb_capacity r' = rb_capacity r"
    "overflow_count r' = overflow_count r"
    "unat (high_watermark r') = max (unat (high_watermark r)) (length (rb_contents r'))"
proof -
  show "rb_contents r' = keep_last (rb_capacity r) (rb_contents r @ [b])"
    using ring_put_contents [OF wf d] by (simp add: r'_def overwrite_eq [OF wf])
  show "ring_wf r'" "rb_distance r' = rb_distance r + 1" "rb_capacity r' = rb_capacity r"
    "overflow_count r' = overflow_count r"
    using wf ring_put_distance [OF d] by (simp_all add: r'_def overwrite_eq [OF wf])
  show "unat (high_watermark r') = max (unat (high_watermark r)) (length (rb_contents r'))"
    by (simp add: r'_def overwrite_eq [OF wf] update_high_watermark_value del: length_rb_contents)
qed

text \<open>
  The DMA engine stores received bytes by itself, one slot after the other, wrapping at the
  ring's size; the driver then publishes their count with \<open>ring_buffer_produce_external\<close>.
  \<open>dma_fill\<close> is the engine's part.
\<close>

primrec dma_fill :: "u8 list \<Rightarrow> u32 \<Rightarrow> u32 \<Rightarrow> u8 list \<Rightarrow> u8 list" where
  "dma_fill s m p [] = s"
| "dma_fill s m p (b # bs) = dma_fill (s[unat (p AND m) := b]) m (p + 1) bs"

definition dma_store :: "ring_buffer_t \<Rightarrow> u8 list \<Rightarrow> ring_buffer_t" where
  "dma_store r bs = r\<lparr>storage := map_option (\<lambda>s. dma_fill s (ring_mask r) (producer r) bs) (storage r)\<rparr>"

lemma dma_store_puts:
  "(dma_store r bs)\<lparr>producer := producer r + of_nat (length bs)\<rparr> = fold (\<lambda>b r. ring_put r b) bs r"
proof (induction bs arbitrary: r)
  case Nil
  show ?case by (simp add: dma_store_def option.map_ident)
next
  case (Cons b bs)
  have "fold (\<lambda>b r. ring_put r b) (b # bs) r
          = (dma_store (ring_put r b) bs)\<lparr>producer := producer r + 1 + of_nat (length bs)\<rparr>"
    using Cons.IH [of "ring_put r b"] by simp
  also have "\<dots> = (dma_store r (b # bs))\<lparr>producer := producer r + of_nat (length (b # bs))\<rparr>"
    by (simp add: dma_store_def ring_put_def option.map_comp comp_def algebra_simps)
  finally show ?case by simp
qed

lemma fold_put:
  assumes "ring_wf r" "rb_distance r + length bs < 2 ^ 32"
  defines "r' \<equiv> fold (\<lambda>b r. ring_put r b) bs r"
  shows "ring_wf r' \<and> rb_distance r' = rb_distance r + length bs \<and> rb_capacity r' = rb_capacity r \<and>
     rb_contents r' = keep_last (rb_capacity r) (rb_contents r @ bs) \<and>
     overflow_count r' = overflow_count r \<and> high_watermark r' = high_watermark r"
  using assms(1,2) unfolding r'_def
proof (induction bs arbitrary: r)
  case Nil
  then show ?case by simp
next
  case (Cons b bs)
  have d: "rb_distance r + 1 < 2 ^ 32" using Cons.prems(2) by simp
  show ?case
    using Cons.IH [of "ring_put r b"] Cons.prems
    by (simp add: ring_put_distance [OF d] ring_put_contents [OF Cons.prems(1) d]
        keep_last_append_keep_last)
qed

lemma produce_external_step:
  assumes wf: "ring_wf r" and d: "rb_distance r + length bs < 2 ^ 32"
  defines "r' \<equiv> ring_buffer_produce_external (dma_store r bs) (of_nat (length bs))"
  shows "rb_contents r' = keep_last (rb_capacity r) (rb_contents r @ bs)" "ring_wf r'"
    "rb_distance r' = rb_distance r + length bs" "rb_capacity r' = rb_capacity r"
    "overflow_count r' = overflow_count r"
proof -
  let ?f = "fold (\<lambda>b r. ring_put r b) bs r"
  note f = fold_put [OF wf d]
  have "(of_nat (length bs) :: u32) = 0 \<longleftrightarrow> bs = []"
    using d by (metis add_lessD1 add.commute length_0_conv unat_0_iff unat_of_nat_u32)
  then have r': "r' = (if bs = [] then r else
      ring_buffer_update_high_watermark (?f\<lparr>producer_reserved_count := 0\<rparr>))"
    unfolding r'_def dma_store_puts [symmetric]
    by (auto simp: ring_buffer_produce_external_def dma_store_def option.map_ident)
  show "rb_contents r' = keep_last (rb_capacity r) (rb_contents r @ bs)" "ring_wf r'"
    "rb_distance r' = rb_distance r + length bs" "rb_capacity r' = rb_capacity r"
    "overflow_count r' = overflow_count r"
    using f wf by (simp_all add: r')
qed

section \<open>The contract, and what a run delivers\<close>

primrec run_state :: "('s \<Rightarrow> 'op \<Rightarrow> 's) \<Rightarrow> 's \<Rightarrow> 'op list \<Rightarrow> 's" where
  "run_state step s [] = s"
| "run_state step s (op # ops) = run_state step (step s op) ops"

primrec run_bytes ::
    "('s \<Rightarrow> 'op \<Rightarrow> 's) \<Rightarrow> ('s \<Rightarrow> 'op \<Rightarrow> 'b list) \<Rightarrow> 's \<Rightarrow> 'op list \<Rightarrow> 'b list" where
  "run_bytes step f s [] = []"
| "run_bytes step f s (op # ops) = f s op @ run_bytes step f (step s op) ops"

locale lossy_fifo =
  fixes items :: "'s \<Rightarrow> 'b list"
    and lost :: "'s \<Rightarrow> nat"
    and room :: "'s \<Rightarrow> nat"
    and cap :: "'s \<Rightarrow> nat"
    and inv :: "'s \<Rightarrow> bool"
    and step :: "'s \<Rightarrow> 'op \<Rightarrow> 's"
    and entered :: "'s \<Rightarrow> 'op \<Rightarrow> 'b list"
    and taken :: "'s \<Rightarrow> 'op \<Rightarrow> 'b list"
  assumes step_inv: "inv s \<Longrightarrow> length (entered s op) \<le> room s \<Longrightarrow> inv (step s op)"
    and step_cap: "inv s \<Longrightarrow> length (entered s op) \<le> room s \<Longrightarrow> cap (step s op) = cap s"
    and bounded: "inv s \<Longrightarrow> length (items s) \<le> cap s"
    and step_room: "inv s \<Longrightarrow> length (entered s op) \<le> room s \<Longrightarrow>
          room s \<le> room (step s op) + length (entered s op)"
    and step_items: "inv s \<Longrightarrow> length (entered s op) \<le> room s \<Longrightarrow>
          \<exists>k \<le> length (items s @ entered s op).
            taken s op @ items (step s op) = drop k (items s @ entered s op) \<and>
            lost (step s op) = lost s + k"
begin

lemma run_inv:
  "inv s \<Longrightarrow> length (run_bytes step entered s ops) \<le> room s \<Longrightarrow> inv (run_state step s ops)"
proof (induction ops arbitrary: s)
  case (Cons op ops)
  then show ?case using step_inv [of s op] step_room [of s op] by (auto intro!: Cons.IH)
qed simp

lemma run_bounded:
  assumes "inv s" "length (run_bytes step entered s ops) \<le> room s"
  shows "length (items (run_state step s ops)) \<le> cap s"
proof -
  have "cap (run_state step s ops) = cap s"
    using assms
  proof (induction ops arbitrary: s)
    case (Cons op ops)
    then have "cap (run_state step (step s op) ops) = cap (step s op)"
      using step_inv [of s op] step_room [of s op] by (auto intro!: Cons.IH)
    with Cons.prems show ?case by (simp add: step_cap)
  qed simp
  with bounded [OF run_inv [OF assms]] show ?thesis by simp
qed

lemma run_order:
  "inv s \<Longrightarrow> length (run_bytes step entered s ops) \<le> room s \<Longrightarrow>
     subseq (run_bytes step taken s ops @ items (run_state step s ops))
            (items s @ run_bytes step entered s ops)"
proof (induction ops arbitrary: s)
  case (Cons op ops)
  let ?s = "step s op" and ?in = "entered s op"
  obtain k where k: "taken s op @ items ?s = drop k (items s @ ?in)"
    using step_items [of s op] Cons.prems by auto
  have "subseq (run_bytes step taken ?s ops @ items (run_state step ?s ops))
               (items ?s @ run_bytes step entered ?s ops)"
    using Cons.prems step_inv [of s op] step_room [of s op] by (auto intro!: Cons.IH)
  then have "subseq (taken s op @ run_bytes step taken ?s ops @ items (run_state step ?s ops))
               ((taken s op @ items ?s) @ run_bytes step entered ?s ops)"
    using list_emb_append_mono [of "(=)" "taken s op" "taken s op"] by auto
  moreover have "subseq ((taken s op @ items ?s) @ run_bytes step entered ?s ops)
               ((items s @ ?in) @ run_bytes step entered ?s ops)"
    unfolding k by (intro list_emb_append_mono subseq_order.refl suffix_imp_subseq suffix_drop)
  ultimately show ?case
    using subseq_order.trans by fastforce
qed simp

lemma run_balance:
  "inv s \<Longrightarrow> length (run_bytes step entered s ops) \<le> room s \<Longrightarrow>
     lost (run_state step s ops) + length (run_bytes step taken s ops) + length (items (run_state step s ops))
       = lost s + length (items s) + length (run_bytes step entered s ops)"
proof (induction ops arbitrary: s)
  case (Cons op ops)
  obtain k where k: "k \<le> length (items s @ entered s op)"
      "taken s op @ items (step s op) = drop k (items s @ entered s op)"
      "lost (step s op) = lost s + k"
    using step_items [of s op] Cons.prems by auto
  from k(2) have "length (taken s op) + length (items (step s op)) + k
      = length (items s) + length (entered s op)"
    using k(1) by (metis add.commute le_add_diff_inverse length_append length_drop)
  moreover have "lost (run_state step (step s op) ops) + length (run_bytes step taken (step s op) ops)
        + length (items (run_state step (step s op) ops))
      = lost (step s op) + length (items (step s op)) + length (run_bytes step entered (step s op) ops)"
    using Cons.prems step_inv [of s op] step_room [of s op] by (auto intro!: Cons.IH)
  ultimately show ?case using k(3) by simp
qed simp

lemma run_lossless:
  assumes "inv s" "length (run_bytes step entered s ops) \<le> room s"
    and "lost (run_state step s ops) = lost s"
  shows "run_bytes step taken s ops @ items (run_state step s ops) = items s @ run_bytes step entered s ops"
  using run_order [OF assms(1,2)] run_balance [OF assms(1,2)] assms(3)
  by (intro subseq_same_length) auto

end

section \<open>The ring implements the contract\<close>

datatype ring_op = Write_Op "u8 list" | Overwrite_Op u8 | Dma_Op "u8 list" | Read_Op size_t

fun ring_step :: "ring_buffer_t \<Rightarrow> ring_op \<Rightarrow> ring_buffer_t" where
  "ring_step r (Write_Op bs) = snd (ring_buffer_write r (Some bs) (of_nat (length bs)))"
| "ring_step r (Overwrite_Op b) = ring_buffer_write_byte_overwrite r b"
| "ring_step r (Dma_Op bs) = ring_buffer_produce_external (dma_store r bs) (of_nat (length bs))"
| "ring_step r (Read_Op n) = snd (snd (ring_buffer_read r (Some (replicate (unat n) 0)) n))"

fun ring_entered :: "ring_buffer_t \<Rightarrow> ring_op \<Rightarrow> u8 list" where
  "ring_entered r (Write_Op bs) =
     take (unat (fst (ring_buffer_write r (Some bs) (of_nat (length bs))))) bs"
| "ring_entered r (Overwrite_Op b) = [b]"
| "ring_entered r (Dma_Op bs) = bs"
| "ring_entered r (Read_Op n) = []"

fun ring_taken :: "ring_buffer_t \<Rightarrow> ring_op \<Rightarrow> u8 list" where
  "ring_taken r (Read_Op n) =
     (let res = ring_buffer_read r (Some (replicate (unat n) 0)) n
      in take (unat (fst res)) (the (fst (snd res))))"
| "ring_taken r _ = []"

definition ring_lost :: "ring_buffer_t \<Rightarrow> nat" where
  "ring_lost r = unat (overflow_count r) + (rb_distance r - rb_capacity r)"

text \<open>
  The sequence counters are 32 bits wide and the overflow counter saturates: the ring keeps its
  account exact while the unread bytes and the counted losses together stay below \<open>2 ^ 32\<close>.
\<close>

definition ring_inv :: "ring_buffer_t \<Rightarrow> bool" where
  "ring_inv r \<longleftrightarrow> ring_wf r \<and> rb_distance r + unat (overflow_count r) \<le> 4294967295"

definition ring_room :: "ring_buffer_t \<Rightarrow> nat" where
  "ring_room r = 4294967295 - (rb_distance r + unat (overflow_count r))"

lemma write_result:
  assumes "ring_wf r" "unat len \<le> length bs"
  defines "n \<equiv> min (unat len) (rb_capacity r - rb_distance r)"
  defines "r' \<equiv> snd (ring_buffer_write r (Some bs) len)"
  shows "unat (fst (ring_buffer_write r (Some bs) len)) = n"
    and "rb_contents r' = rb_contents r @ take n bs" "ring_wf r'"
    and "rb_distance r' = rb_distance r + n" "rb_capacity r' = rb_capacity r"
    and "overflow_count r' = overflow_count r"
proof -
  obtain q where q: "ring_buffer_write_loop r bs len 0 = (of_nat n, q)" "ring_wf q"
      "rb_contents q = rb_contents r @ mem_read bs 0 n" "rb_distance q = rb_distance r + n"
      "rb_capacity q = rb_capacity r" "overflow_count q = overflow_count r"
    using write_loop_spec [OF assms(1) _ assms(2), of 0] unfolding n_def by auto
  have "n < 2 ^ 32" using unat_u32_less [of len] by (simp add: n_def)
  then have "unat (of_nat n :: u32) = n" by (rule unat_of_nat_u32)
  then show "unat (fst (ring_buffer_write r (Some bs) len)) = n"
    by (simp add: ring_buffer_write_def q(1))
  show "rb_contents r' = rb_contents r @ take n bs" "ring_wf r'"
    "rb_distance r' = rb_distance r + n" "rb_capacity r' = rb_capacity r"
    "overflow_count r' = overflow_count r"
    using q by (simp_all add: r'_def ring_buffer_write_def mem_read_def)
qed

lemma read_result:
  assumes "ring_wf r" "unat len \<le> length buf"
  defines "n \<equiv> min (unat len) (length (rb_contents r))"
  defines "res \<equiv> ring_buffer_read r (Some buf) len"
  shows "unat (fst res) = n"
    and "fst (snd res) = Some (take n (rb_contents r) @ drop n buf)"
    and "rb_contents (snd (snd res)) = drop n (rb_contents r)" "ring_wf (snd (snd res))"
    and "rb_distance (snd (snd res)) =
           (if len = 0 then rb_distance r else min (rb_distance r) (rb_capacity r) - n)"
    and "rb_capacity (snd (snd res)) = rb_capacity r"
    and "overflow_count (snd (snd res)) =
           overflow_count (if len = 0 then r else snd (ring_buffer_recover_overflow r))"
proof -
  obtain q where q: "ring_buffer_read_loop r buf len 0
        = (of_nat n, mem_write buf 0 (take n (rb_contents r)), q)" "ring_wf q"
      "rb_contents q = drop n (rb_contents r)"
      "rb_distance q = (if 0 < len then min (rb_distance r) (rb_capacity r) - n else rb_distance r)"
      "rb_capacity q = rb_capacity r"
      "overflow_count q = overflow_count (if 0 < len then snd (ring_buffer_recover_overflow r) else r)"
    using read_loop_spec [OF assms(1) _ assms(2), of 0] unfolding n_def
    by (auto simp del: length_rb_contents of_nat_min)
  have res: "res = (of_nat n, Some (mem_write buf 0 (take n (rb_contents r))), q)"
    by (simp add: res_def ring_buffer_read_def q(1))
  have "n < 2 ^ 32" using unat_u32_less [of len] by (simp add: n_def)
  then have "unat (of_nat n :: u32) = n" by (rule unat_of_nat_u32)
  then show "unat (fst res) = n" by (simp add: res)
  have "length (take n (rb_contents r)) = n" by (simp add: n_def)
  then show "fst (snd res) = Some (take n (rb_contents r) @ drop n buf)"
    by (simp add: res mem_write_def del: length_take)
  show "rb_contents (snd (snd res)) = drop n (rb_contents r)" "ring_wf (snd (snd res))"
    "rb_capacity (snd (snd res)) = rb_capacity r"
    using q by (simp_all add: res)
  show "rb_distance (snd (snd res)) =
           (if len = 0 then rb_distance r else min (rb_distance r) (rb_capacity r) - n)"
    "overflow_count (snd (snd res)) =
           overflow_count (if len = 0 then r else snd (ring_buffer_recover_overflow r))"
    using q(4,6) by (simp_all add: res word_gt_0)
qed

text \<open>Each operation against the contract.\<close>

lemma ring_step_inv:
  assumes "ring_inv r" "length (ring_entered r op) \<le> ring_room r"
  shows "ring_inv (ring_step r op)"
    and "rb_capacity (ring_step r op) = rb_capacity r"
    and "ring_room r \<le> ring_room (ring_step r op) + length (ring_entered r op)"
    and "\<exists>k \<le> length (rb_contents r @ ring_entered r op).
           ring_taken r op @ rb_contents (ring_step r op) = drop k (rb_contents r @ ring_entered r op) \<and>
           ring_lost (ring_step r op) = ring_lost r + k"
proof -
  let ?r' = "ring_step r op" and ?in = "ring_entered r op"
  have wf: "ring_wf r" and b: "rb_distance r + unat (overflow_count r) \<le> 4294967295"
    using assms(1) by (simp_all add: ring_inv_def)
  have fit: "rb_distance r + unat (overflow_count r) + length ?in \<le> 4294967295"
    using assms(2) b by (simp add: ring_room_def)
  have grow: "ring_inv ?r' \<and> rb_capacity ?r' = rb_capacity r \<and> ring_room r \<le> ring_room ?r' + length ?in \<and>
      (\<exists>k \<le> length (rb_contents r @ ?in).
         ring_taken r op @ rb_contents ?r' = drop k (rb_contents r @ ?in) \<and> ring_lost ?r' = ring_lost r + k)"
    if "ring_wf ?r'" "rb_distance ?r' = rb_distance r + length ?in" "rb_capacity ?r' = rb_capacity r"
      "overflow_count ?r' = overflow_count r" "ring_taken r op = []"
      "rb_contents ?r' = keep_last (rb_capacity r) (rb_contents r @ ?in)"
  proof -
    have "length (rb_contents r @ ?in) - rb_capacity r \<le> length (rb_contents r @ ?in)" by simp
    moreover have "ring_lost ?r' = ring_lost r + (length (rb_contents r @ ?in) - rb_capacity r)"
      using that by (simp add: ring_lost_def min_def)
    ultimately show ?thesis
      using that fit by (auto simp: ring_inv_def ring_room_def keep_last_def simp del: length_append length_rb_contents)
  qed
  have "ring_inv ?r' \<and> rb_capacity ?r' = rb_capacity r \<and> ring_room r \<le> ring_room ?r' + length ?in \<and>
      (\<exists>k \<le> length (rb_contents r @ ?in).
         ring_taken r op @ rb_contents ?r' = drop k (rb_contents r @ ?in) \<and> ring_lost ?r' = ring_lost r + k)"
  proof (cases op)
    case (Write_Op bs)
    have "unat (of_nat (length bs) :: u32) \<le> length bs" by (simp add: unat_of_nat)
    note w = write_result [OF wf this]
    define n where "n = unat (fst (ring_buffer_write r (Some bs) (of_nat (length bs))))"
    have n: "n \<le> length bs" "n \<le> rb_capacity r - rb_distance r"
      using \<open>unat (of_nat (length bs) :: u32) \<le> length bs\<close> by (auto simp: n_def w(1))
    have "length (rb_contents r @ take n bs) \<le> rb_capacity r" using n by simp
    then show ?thesis
      using w(2-6) n(1) unfolding w(1) [symmetric] n_def [symmetric]
      by (intro grow) (simp_all add: Write_Op n_def [symmetric] del: length_append)
  next
    case (Overwrite_Op b)
    then have "rb_distance r + 1 < 2 ^ 32" using fit by simp
    note w = overwrite_step [OF wf this, of b]
    show ?thesis by (rule grow) (use w in \<open>simp_all add: Overwrite_Op\<close>)
  next
    case (Dma_Op bs)
    then have "rb_distance r + length bs < 2 ^ 32" using fit by simp
    note w = produce_external_step [OF wf this]
    show ?thesis by (rule grow) (use w in \<open>simp_all add: Dma_Op\<close>)
  next
    case (Read_Op n)
    note w = read_result [OF wf, of n "replicate (unat n) 0"]
    have o: "unat (overflow_count (snd (ring_buffer_recover_overflow r)))
        = unat (overflow_count r) + (rb_distance r - rb_capacity r)"
      using recover_overflow_count [of r] b by simp
    have d: "rb_distance ?r' = (if n = 0 then rb_distance r
          else min (rb_distance r) (rb_capacity r) - min (unat n) (length (rb_contents r)))"
        "unat (overflow_count ?r') = (if n = 0 then unat (overflow_count r)
          else unat (overflow_count r) + (rb_distance r - rb_capacity r))"
      using w(5,7) o by (simp_all add: Read_Op)
    have "rb_distance ?r' + unat (overflow_count ?r') \<le> rb_distance r + unat (overflow_count r)"
      unfolding d by (simp only: split: if_split) linarith
    moreover have "ring_lost ?r' = ring_lost r"
      using d(2) w(6) d(1) by (cases "n = 0") (simp_all add: Read_Op ring_lost_def)
    moreover have "ring_wf ?r'" using w(4) by (simp add: Read_Op)
    ultimately have "ring_lost ?r' = ring_lost r" "ring_room r \<le> ring_room ?r'" "ring_inv ?r'"
      using b unfolding ring_room_def ring_inv_def by (auto intro: diff_le_mono2)
    moreover have "ring_taken r op @ rb_contents ?r' = rb_contents r"
      using w by (simp add: Read_Op Let_def del: length_rb_contents)
    moreover have "rb_capacity ?r' = rb_capacity r" using w(6) by (simp add: Read_Op)
    ultimately show ?thesis by (intro conjI exI [of _ 0]) (simp_all add: Read_Op)
  qed
  then show "ring_inv ?r'" "rb_capacity ?r' = rb_capacity r" "ring_room r \<le> ring_room ?r' + length ?in"
    "\<exists>k \<le> length (rb_contents r @ ?in). ring_taken r op @ rb_contents ?r' = drop k (rb_contents r @ ?in) \<and>
        ring_lost ?r' = ring_lost r + k" by blast+
qed

interpretation ring: lossy_fifo rb_contents ring_lost ring_room rb_capacity ring_inv ring_step ring_entered ring_taken
  by unfold_locales ((rule ring_step_inv; assumption) | simp)+

section \<open>Consuming a span while the DMA engine keeps writing\<close>

text \<open>
  A reader takes a span, the engine stores and publishes more bytes, and the reader commits.
  \<open>during_dma r bs\<close> is the ring at the commit.
\<close>

definition during_dma :: "ring_buffer_t \<Rightarrow> u8 list \<Rightarrow> ring_buffer_t" where
  "during_dma r bs = ring_buffer_produce_external
     (dma_store (snd (ring_buffer_read_span r)) bs) (of_nat (length bs))"

lemma produce_external_frame [simp]:
  "consumer (ring_buffer_produce_external r n) = consumer r"
  "overflow_count (ring_buffer_produce_external r n) = overflow_count r"
  "ring_size (ring_buffer_produce_external r n) = ring_size r"
  "ring_mask (ring_buffer_produce_external r n) = ring_mask r"
  "storage (ring_buffer_produce_external r n) = storage r"
  "consumer_reserved_sequence (ring_buffer_produce_external r n) = consumer_reserved_sequence r"
  "consumer_reserved_count (ring_buffer_produce_external r n) = consumer_reserved_count r"
  by (simp_all add: ring_buffer_produce_external_def)

lemma dma_store_frame [simp]:
  "consumer (dma_store r bs) = consumer r" "producer (dma_store r bs) = producer r"
  "ring_size (dma_store r bs) = ring_size r" "ring_mask (dma_store r bs) = ring_mask r"
  "overflow_count (dma_store r bs) = overflow_count r"
  "consumer_reserved_sequence (dma_store r bs) = consumer_reserved_sequence r"
  "consumer_reserved_count (dma_store r bs) = consumer_reserved_count r"
  by (simp_all add: dma_store_def)

lemma during_dma_facts:
  assumes wf: "ring_wf r" and ne: "rb_contents r \<noteq> []" and bs: "length bs < 2147483648"
  defines "r2 \<equiv> during_dma r bs"
  defines "unread \<equiv> length (rb_contents r) + length bs"
  shows "ring_wf r2" "rb_distance r2 = unread" "rb_capacity r2 = rb_capacity r"
    "rb_contents r2 = keep_last (rb_capacity r) (rb_contents r @ bs)"
    "overflow_count r2 = overflow_count (snd (ring_buffer_recover_overflow r))"
    "consumer r2 = consumer (snd (ring_buffer_recover_overflow r))"
    "consumer_reserved_sequence r2 = consumer r2"
    "consumer_reserved_count r2 = span_length (fst (ring_buffer_read_span r))"
proof -
  let ?q = "snd (ring_buffer_recover_overflow r)" and ?r1 = "snd (ring_buffer_read_span r)"
  have r1: "?r1 = ?q\<lparr>consumer_reserved_sequence := consumer ?q,
                     consumer_reserved_count := span_length (fst (ring_buffer_read_span r))\<rparr>"
    using ne by (simp add: read_span_eq [OF wf])
  have wf1: "ring_wf ?r1" using wf by (simp add: r1 ring_wf_def)
  have d1: "rb_distance ?r1 = length (rb_contents r)"
    using recover_distance [of r] by (simp add: r1 rb_distance_def)
  have c1: "rb_contents ?r1 = rb_contents r" "rb_capacity ?r1 = rb_capacity r"
    by (simp_all add: r1 rb_capacity_def)
  have lim: "rb_distance ?r1 + length bs < 2 ^ 32"
    using d1 bs ring_wf_capacity_le [OF wf] by simp
  note s = produce_external_step [OF wf1 lim, folded during_dma_def, folded r2_def]
  show "ring_wf r2" "rb_distance r2 = unread" "rb_capacity r2 = rb_capacity r"
    "rb_contents r2 = keep_last (rb_capacity r) (rb_contents r @ bs)"
    using s d1 c1 by (simp_all add: unread_def)
  show "overflow_count r2 = overflow_count ?q" "consumer r2 = consumer ?q"
    "consumer_reserved_sequence r2 = consumer r2"
    "consumer_reserved_count r2 = span_length (fst (ring_buffer_read_span r))"
    unfolding r2_def during_dma_def r1 by simp_all
qed

lemma rb_contents_overflow [simp]:
  "rb_contents (r\<lparr>overflow_count := x, consumer := y\<rparr>) = rb_contents (r\<lparr>consumer := y\<rparr>)"
  by (simp add: rb_contents_def rb_distance_def rb_capacity_def)

lemma pending_word:
  "rb_capacity r < rb_distance r \<Longrightarrow>
     producer r - ring_size r = consumer r + ring_buffer_pending_overflow_internal r"
  by (simp add: ring_buffer_pending_overflow_internal_def rb_capacity_def rb_distance_def
      Let_def word_less_nat_alt)

lemma commit_consumed_torn:
  assumes wf: "ring_wf r" and ne: "rb_contents r \<noteq> []" and bs: "length bs < 2147483648"
    and n: "n \<le> span_length (fst (ring_buffer_read_span r))"
  defines "r2 \<equiv> during_dma r bs"
  defines "res \<equiv> ring_buffer_commit_consumed r2 n"
  shows "fst res \<longleftrightarrow> length (rb_contents r) + length bs \<le> rb_capacity r"
    and "fst res \<Longrightarrow> span_load r2 (fst (ring_buffer_read_span r)) n = take (unat n) (rb_contents r)"
    and "fst res \<Longrightarrow> rb_contents (snd res) = drop (unat n) (rb_contents r) @ bs"
    and "\<not> fst res \<Longrightarrow> rb_contents (snd res) = keep_last (rb_capacity r) (rb_contents r @ bs)"
    and "unat (overflow_count (snd res)) = min 4294967295
           (unat (overflow_count (snd (ring_buffer_recover_overflow r))) +
              (length (rb_contents r) + length bs - rb_capacity r))"
proof -
  note f = during_dma_facts [OF wf ne bs, folded r2_def]
  have d: "unat (producer r2 - consumer r2) = length (rb_contents r) + length bs"
    using f(2) by (simp only: rb_distance_def)
  have le: "producer r2 - consumer r2 \<le> ring_size r2 \<longleftrightarrow> length (rb_contents r) + length bs \<le> rb_capacity r"
    using f(3) by (simp only: word_le_nat_alt d rb_capacity_def)
  have safe: "producer r2 - ring_size r2 = consumer r2 + ring_buffer_pending_overflow_internal r2"
    if "\<not> length (rb_contents r) + length bs \<le> rb_capacity r"
    using that f(2,3) by (intro pending_word) (simp del: length_rb_contents)
  have res: "res = (if length (rb_contents r) + length bs \<le> rb_capacity r
      then (True, r2\<lparr>consumer := consumer r2 + n, consumer_reserved_count := 0\<rparr>)
      else (False, r2\<lparr>overflow_count := uart_saturating_add_u32 (overflow_count r2)
                         (ring_buffer_pending_overflow_internal r2),
                      consumer := consumer r2 + ring_buffer_pending_overflow_internal r2,
                      consumer_reserved_count := 0\<rparr>))"
    using n le safe by (simp add: res_def ring_buffer_commit_consumed_def f(7,8) not_less Let_def
        flip: not_le del: length_rb_contents)
  then show iff: "fst res \<longleftrightarrow> length (rb_contents r) + length bs \<le> rb_capacity r"
    by (simp del: length_rb_contents)
  have n': "unat n \<le> length (rb_contents r)"
      "unat (consumer r2) mod rb_capacity r + unat n \<le> rb_capacity r"
    using n mod_less_divisor [OF ring_wf_capacity_pos [OF wf], of "unat (consumer r2)"]
    by (simp_all add: word_le_nat_alt read_span_length [OF wf] f(6)) linarith
  show "span_load r2 (fst (ring_buffer_read_span r)) n = take (unat n) (rb_contents r)" if "fst res"
  proof -
    have fit: "length (rb_contents r) + length bs \<le> rb_capacity r" using that iff by simp
    obtain s where s: "pow2_size (ring_size r2)" "storage r2 = Some s" "length s = unat (ring_size r2)"
      using f(1) by (auto simp: ring_wf_def)
    have "mem_read s (unat (consumer r2) mod unat (ring_size r2)) (unat n)
        = take (unat n) (ring_tail s (unat (ring_size r2)) (producer r2) (length (rb_contents r) + length bs))"
      using n' f(3) fit
      by (intro ring_tail_load [OF s(1,3) d]) (simp_all add: rb_capacity_def del: length_rb_contents)
    moreover have "rb_contents r2 = ring_tail s (unat (ring_size r2)) (producer r2) (length (rb_contents r) + length bs)"
      using min_absorb1 [OF fit] s(2)
      by (simp only: rb_contents_def [of r2] f(2,3) option.sel)
    moreover have "take (unat n) (rb_contents r2) = take (unat n) (rb_contents r)"
      using f(4) fit n'(1) by (simp del: length_rb_contents)
    moreover have "unat (ring_size r2) = rb_capacity r" using f(3) by (simp add: rb_capacity_def)
    ultimately have "mem_read s (unat (consumer r2) mod rb_capacity r) (unat n) = take (unat n) (rb_contents r)"
      by (simp only:)
    then show ?thesis
      using ne s(2) by (simp add: read_span_eq [OF wf] span_load_def unat_span_offset [OF wf] f(6))
  qed
  show "rb_contents (snd res) = drop (unat n) (rb_contents r) @ bs" if "fst res"
  proof -
    have fit: "length (rb_contents r) + length bs \<le> rb_capacity r" using that iff by simp
    have "rb_contents r2 = rb_contents r @ bs" using f(4) fit by (simp del: length_rb_contents)
    moreover have "unat n \<le> rb_distance r2" using n'(1) f(2) by linarith
    ultimately show ?thesis
      using rb_contents_consume [of n r2] fit n'(1) f(2,3) by (simp add: res del: length_rb_contents)
  qed
  have pend: "unat (ring_buffer_pending_overflow_internal r2) = length (rb_contents r) + length bs - rb_capacity r"
    by (simp only: unat_pending f(2,3))
  show "rb_contents (snd res) = keep_last (rb_capacity r) (rb_contents r @ bs)" if "\<not> fst res"
  proof -
    have "unat (ring_buffer_pending_overflow_internal r2) \<le> rb_distance r2" by (simp only: pend f(2) diff_le_self)
    then show ?thesis
      using rb_contents_consume [of "ring_buffer_pending_overflow_internal r2" r2] that iff
      by (simp add: res f(2,3,4) unat_pending del: length_rb_contents)
  qed
  show "unat (overflow_count (snd res)) = min 4294967295
           (unat (overflow_count (snd (ring_buffer_recover_overflow r))) +
              (length (rb_contents r) + length bs - rb_capacity r))"
    using unat_u32_le_max [of "overflow_count (snd (ring_buffer_recover_overflow r))"]
    by (simp add: res f(5) unat_saturating_add pend del: length_rb_contents)
qed

text \<open>
  The snapshot commit is for a reader that has copied the span and knows the copy is intact: it
  always accepts, and counts as lost only what was overwritten beyond the bytes it copied.
\<close>

lemma keep_last_drop:
  "drop (n - (length xs - m)) (keep_last m xs) = keep_last m (drop n xs)"
proof -
  have "n - (length xs - m) + (length xs - m) = length xs - n - m + n" by linarith
  then show ?thesis by (simp only: keep_last_def drop_drop length_drop)
qed

lemma commit_snapshot_accounts:
  assumes wf: "ring_wf r" and ne: "rb_contents r \<noteq> []" and bs: "length bs < 2147483648"
    and n: "n \<le> span_length (fst (ring_buffer_read_span r))"
  defines "res \<equiv> ring_buffer_commit_snapshot_consumed (during_dma r bs) n"
  shows "fst res"
    and "rb_contents (snd res) = keep_last (rb_capacity r) (drop (unat n) (rb_contents r @ bs))"
    and "unat (overflow_count (snd res)) = min 4294967295
           (unat (overflow_count (snd (ring_buffer_recover_overflow r))) +
              (length (rb_contents r) + length bs - unat n - rb_capacity r))"
    and "ring_wf (snd res)" "rb_distance (snd res) \<le> rb_capacity r" "rb_capacity (snd res) = rb_capacity r"
proof -
  define r2 where "r2 = during_dma r bs"
  note f = during_dma_facts [OF wf ne bs, folded r2_def]
  let ?L = "length (rb_contents r @ bs)" and ?pend = "ring_buffer_pending_overflow_internal r2"
  have L: "rb_distance r2 = ?L" by (simp add: f(2))
  have pend: "unat ?pend = ?L - rb_capacity r" by (simp only: unat_pending L f(3))
  have nL: "unat n \<le> ?L" "unat n \<le> rb_capacity r"
    using n by (simp_all add: word_le_nat_alt read_span_length [OF wf] trans_le_add1)
  define j where "j = (if n < ?pend then ?pend else n)"
  have uj: "unat j = max (unat n) (?L - rb_capacity r)"
    unfolding j_def by (simp only: word_less_nat_alt pend split: if_split) (simp add: max_def)
  have lost: "unat (?pend - n) = ?L - rb_capacity r - unat n" if "n < ?pend"
    using that by (simp add: unat_sub word_le_nat_alt word_less_nat_alt pend del: length_append)
  have gt: "ring_size r2 < producer r2 - consumer r2 \<longleftrightarrow> rb_capacity r < ?L"
    using L f(3) by (simp only: word_less_nat_alt rb_distance_def rb_capacity_def)
  have nop: "?pend = 0" if "\<not> rb_capacity r < ?L"
    using that pend by (metis diff_is_0_eq not_less unat_0_iff)
  have safe: "producer r2 - ring_size r2 - consumer r2 = ?pend" if "rb_capacity r < ?L"
    using pending_word [of r2] that L f(3) by simp
  have safe': "producer r2 - ring_size r2 = consumer r2 + ?pend" if "rb_capacity r < ?L"
    using pending_word [of r2] that L f(3) by simp
  have res: "res = (True, r2\<lparr>overflow_count := (if n < ?pend then uart_saturating_add_u32 (overflow_count r2)
        (?pend - n) else overflow_count r2), consumer := consumer r2 + j, consumer_reserved_count := 0\<rparr>)"
  proof (cases "rb_capacity r < ?L")
    case True
    then show ?thesis
      using n gt safe unfolding res_def r2_def [symmetric] j_def
      by (simp add: ring_buffer_commit_snapshot_consumed_def f(7,8) not_less Let_def safe' del: length_append)
  next
    case False
    then show ?thesis
      using n gt nop unfolding res_def r2_def [symmetric] j_def
      by (simp add: ring_buffer_commit_snapshot_consumed_def f(7,8) not_less Let_def del: length_append)
  qed
  then show "fst res" by simp
  have jd: "unat j \<le> rb_distance r2" using nL by (simp add: uj L del: length_append)
  have "rb_contents (snd res) = drop (unat j - (?L - rb_capacity r)) (keep_last (rb_capacity r) (rb_contents r @ bs))"
    using rb_contents_consume [OF jd] by (simp add: res L f(3,4) del: length_append)
  also have "\<dots> = drop (unat n - (?L - rb_capacity r)) (keep_last (rb_capacity r) (rb_contents r @ bs))"
    by (simp add: uj max_def del: length_append)
  also have "\<dots> = keep_last (rb_capacity r) (drop (unat n) (rb_contents r @ bs))"
    by (rule keep_last_drop)
  finally show "rb_contents (snd res) = keep_last (rb_capacity r) (drop (unat n) (rb_contents r @ bs))" .
  show "unat (overflow_count (snd res)) = min 4294967295
           (unat (overflow_count (snd (ring_buffer_recover_overflow r))) +
              (length (rb_contents r) + length bs - unat n - rb_capacity r))"
  proof (cases "n < ?pend")
    case True
    then show ?thesis
      using lost by (simp add: res f(5) unat_saturating_add del: length_rb_contents)
  next
    case False
    then have "length (rb_contents r) + length bs - unat n - rb_capacity r = 0"
      using pend by (simp add: word_less_nat_alt not_less del: length_rb_contents)
    then show ?thesis
      using False unat_u32_le_max [of "overflow_count (snd (ring_buffer_recover_overflow r))"]
      by (simp add: res f(5) del: length_rb_contents)
  qed
  show "ring_wf (snd res)" "rb_capacity (snd res) = rb_capacity r"
    using f(1,3) by (simp_all add: res ring_wf_def rb_capacity_def)
  have "rb_distance (snd res) = ?L - unat j"
    using rb_distance_consume [OF jd] L by (simp add: res rb_distance_def del: length_append)
  then show "rb_distance (snd res) \<le> rb_capacity r" by (simp add: uj del: length_append)
qed

end
