(* ===== verification/Ring_Properties.thy ===== *)
theory Ring_Properties
  imports Ring_Refinement
begin

text \<open>
  The properties of the byte ring. \<open>sample_ring\<close> is the four-byte ring of the witnesses; its
  sequence counters start three below the wrap of 32 bits.
\<close>

definition sample_ring :: ring_buffer_t where
  "sample_ring = \<lparr>storage = Some [10, 11, 12, 13], ring_size = 4, ring_mask = 3,
     producer = UINT32_MAX - 2, consumer = UINT32_MAX - 2, high_watermark = 0, overflow_count = 0,
     producer_reserved_sequence = 0, producer_reserved_count = 0,
     consumer_reserved_sequence = 0, consumer_reserved_count = 0\<rparr>"

lemma pow2_size_4: "pow2_size 4"
  unfolding pow2_size_iff_and by code_simp

lemma sample_ring_wf [simp]: "ring_wf sample_ring"
  using pow2_size_4 by (simp add: ring_wf_def sample_ring_def)

lemma sample_ring_state [simp]:
  "rb_contents sample_ring = []" "rb_distance sample_ring = 0" "rb_capacity sample_ring = 4"
  "overflow_count sample_ring = 0" "high_watermark sample_ring = 0"
  by (simp_all add: rb_contents_def rb_distance_def rb_capacity_def sample_ring_def)

definition sample_ops :: "ring_op list" where
  "sample_ops = [Write_Op [1, 2, 3], Overwrite_Op 4, Dma_Op [5, 6], Read_Op 2, Read_Op 3]"




text \<open>\<open>ring_buffer_init\<close> accepts a storage area exactly when it is there and its size is a power of
  two, and then the ring is well formed, empty, and has no loss recorded.\<close>

theorem ring_init_accepts_powers_of_two:
  "(fst (ring_buffer_init r0 st n) \<longleftrightarrow> st \<noteq> None \<and> (\<exists>k < 32. n = 2 ^ k)) \<and>
   (\<not> fst (ring_buffer_init r0 st n) \<longrightarrow> snd (ring_buffer_init r0 st n) = r0) \<and>
   (fst (ring_buffer_init r0 st n) \<and> length (the st) = unat n \<longrightarrow>
      ring_wf (snd (ring_buffer_init r0 st n)) \<and> rb_contents (snd (ring_buffer_init r0 st n)) = [] \<and>
      ring_buffer_free_space (snd (ring_buffer_init r0 st n)) = n \<and>
      ring_lost (snd (ring_buffer_init r0 st n)) = 0)"
proof -
  have valid: "ring_buffer_size_is_valid n \<longleftrightarrow> (\<exists>k < 32. n = 2 ^ k)"
    using pow2_size_iff_and [of n] unat_u32_le_max [of n]
    by (simp add: ring_buffer_size_is_valid_def pow2_size_def word_le_nat_alt)
  have size: "ring_wf (snd (ring_buffer_init r0 st n)) \<and> rb_contents (snd (ring_buffer_init r0 st n)) = [] \<and>
      ring_buffer_free_space (snd (ring_buffer_init r0 st n)) = n \<and>
      ring_lost (snd (ring_buffer_init r0 st n)) = 0"
    if "fst (ring_buffer_init r0 st n)" "length (the st) = unat n"
    using that valid
    by (auto simp: ring_buffer_init_def ring_wf_def pow2_size_def rb_contents_def rb_distance_def ring_lost_def
        ring_buffer_clear_def ring_buffer_free_space_def ring_buffer_available_def Let_def split: if_splits)
  show ?thesis
    using valid size by (auto simp: ring_buffer_init_def)
qed

theorem ring_init_witness:
  "fst (ring_buffer_init sample_ring (Some [0, 0, 0, 0, 0, 0, 0, 0]) 8) \<and>
   \<not> fst (ring_buffer_init sample_ring (Some [0, 0, 0, 0, 0, 0]) 6) \<and>
   rb_contents (snd (ring_buffer_init sample_ring (Some [0, 0, 0, 0, 0, 0, 0, 0]) 8)) = []"
proof -
  have ok: "fst (ring_buffer_init sample_ring (Some [0, 0, 0, 0, 0, 0, 0, 0]) 8)" by code_simp
  have bad: "\<not> fst (ring_buffer_init sample_ring (Some [0, 0, 0, 0, 0, 0]) 6)" by code_simp
  show ?thesis
    using ok bad ring_init_accepts_powers_of_two [of sample_ring "Some [0, 0, 0, 0, 0, 0, 0, 0]" 8] by simp
qed

text \<open>\<open>ring_buffer_write\<close> appends the longest prefix of the caller's bytes that fits, in at most two
  pieces around the end of the storage, returns its length, refuses the rest without touching what is
  held, and raises the high-water mark to the new occupancy.\<close>

theorem ring_write_appends:
  assumes "ring_wf r" "unat len \<le> length bs"
  defines "n \<equiv> min (unat len) (rb_capacity r - length (rb_contents r))"
  shows "\<exists>r'. ring_buffer_write r (Some bs) len = (of_nat n, r') \<and> ring_wf r' \<and>
           rb_contents r' = rb_contents r @ take n bs \<and> overflow_count r' = overflow_count r \<and>
           unat (high_watermark r') = (if n = 0 then unat (high_watermark r)
              else max (unat (high_watermark r)) (length (rb_contents r')))"
proof -
  have n: "n = min (unat len - unat 0) (rb_capacity r - rb_distance r)"
    by (simp add: n_def min_def)
  have "0 \<le> len" by simp
  from write_loop_spec [OF assms(1) this assms(2)] show ?thesis
    unfolding n [symmetric] by (auto simp: ring_buffer_write_def mem_read_def simp del: length_rb_contents)
qed

theorem ring_write_appends_witness:
  "fst (ring_buffer_write sample_ring (Some [1, 2, 3, 4, 5, 6]) 6) = 4 \<and>
   rb_contents (snd (ring_buffer_write sample_ring (Some [1, 2, 3, 4, 5, 6]) 6)) = [1, 2, 3, 4]"
  using ring_write_appends [of sample_ring 6 "[1, 2, 3, 4, 5, 6]"] by auto

text \<open>\<open>ring_buffer_read\<close> hands out the oldest bytes in order, as many as were asked for and are held,
  leaves the rest of the caller's buffer alone, removes exactly those bytes, and moves bytes that were
  already overwritten into the overflow counter.\<close>

theorem ring_read_takes_oldest:
  assumes "ring_wf r" "unat len \<le> length buf" "len \<noteq> 0"
    and "unat (overflow_count r) + rb_distance r \<le> 4294967295"
  defines "n \<equiv> min (unat len) (length (rb_contents r))"
  shows "\<exists>r'. ring_buffer_read r (Some buf) len
                = (of_nat n, Some (take n (rb_contents r) @ drop n buf), r') \<and>
           ring_wf r' \<and> rb_contents r' = drop n (rb_contents r) \<and>
           unat (overflow_count r') = ring_lost r \<and> ring_lost r' = ring_lost r"
proof -
  note res = read_result [OF assms(1,2), folded n_def]
  let ?r' = "snd (snd (ring_buffer_read r (Some buf) len))"
  have "ring_buffer_read r (Some buf) len
      = (of_nat n, Some (take n (rb_contents r) @ drop n buf), ?r')"
    using res(1,2) by (metis of_nat_unat prod.collapse ucast_id)
  moreover have "unat (overflow_count ?r') = ring_lost r"
    using res(7) assms(3,4) by (simp add: recover_overflow_count ring_lost_def)
  moreover from this have "ring_lost ?r' = ring_lost r"
    using res(5,6) assms(3) by (simp add: ring_lost_def)
  ultimately show ?thesis using res(3,4) by blast
qed

theorem ring_read_takes_oldest_witness:
  "\<exists>r'. ring_buffer_read (snd (ring_buffer_write sample_ring (Some [1, 2, 3]) 3)) (Some [9, 9, 9, 9]) 2
          = (2, Some [1, 2, 9, 9], r') \<and> rb_contents r' = [3]"
proof -
  let ?r = "snd (ring_buffer_write sample_ring (Some [1, 2, 3]) 3)"
  have w: "rb_contents ?r = [1, 2, 3]" "rb_distance ?r = 3" "ring_wf ?r" "rb_capacity ?r = 4"
      "overflow_count ?r = 0"
    using write_result [of sample_ring 3 "[1, 2, 3]"] by simp_all
  then have "min (unat (2 :: u32)) (length (rb_contents ?r)) = 2" by simp
  then show ?thesis
    using ring_read_takes_oldest [of ?r 2 "[9, 9, 9, 9]"] w by auto
qed

text \<open>Bytes that arrive whether or not there is room, one at a time through
  \<open>ring_buffer_write_byte_overwrite\<close> or a batch stored by the DMA engine and published with
  \<open>ring_buffer_produce_external\<close>, leave the ring holding the newest bytes of its old contents and the
  arrivals, as many as it has slots, and every byte pushed out is accounted as lost.\<close>

theorem ring_overwrite_keeps_newest:
  assumes "ring_wf r" "rb_distance r + length bs < 2 ^ 32"
  defines "dma \<equiv> ring_buffer_produce_external (dma_store r bs) (of_nat (length bs))"
    and "sw \<equiv> fold (\<lambda>b r. ring_buffer_write_byte_overwrite r b) bs r"
  shows "rb_contents dma = keep_last (rb_capacity r) (rb_contents r @ bs) \<and>
         rb_contents sw = keep_last (rb_capacity r) (rb_contents r @ bs) \<and>
         ring_lost dma + length (rb_contents dma) = ring_lost r + length (rb_contents r) + length bs \<and>
         ring_lost sw + length (rb_contents sw) = ring_lost r + length (rb_contents r) + length bs"
proof -
  note d = produce_external_step [OF assms(1,2), folded dma_def]
  have s: "rb_contents sw = keep_last (rb_capacity r) (rb_contents r @ bs) \<and>
      rb_distance sw = rb_distance r + length bs \<and> rb_capacity sw = rb_capacity r \<and>
      overflow_count sw = overflow_count r"
    using assms(1,2) unfolding sw_def
  proof (induction bs arbitrary: r)
    case (Cons b bs)
    from Cons.prems have d: "rb_distance r + 1 < 2 ^ 32" by simp
    note o = overwrite_step [OF Cons.prems(1) d, of b]
    from Cons.IH [of "ring_buffer_write_byte_overwrite r b"] o Cons.prems(2) show ?case
      by (simp add: keep_last_append_keep_last)
  qed simp
  show ?thesis using d s by (simp add: ring_lost_def min_def)
qed

theorem ring_overwrite_keeps_newest_witness:
  "rb_contents (ring_buffer_produce_external (dma_store sample_ring [1, 2, 3, 4, 5]) 5) = [2, 3, 4, 5]"
  using ring_overwrite_keeps_newest [of sample_ring "[1, 2, 3, 4, 5]"] by (simp add: keep_last_def)

text \<open>C2: A span read with \<open>ring_buffer_read_span\<close> while the DMA engine keeps storing is detected when it is
  torn. \<open>ring_buffer_commit_consumed\<close> succeeds exactly when no slot of the unread bytes was reused;
  then the bytes seen through the span, even if they are loaded after the engine's stores, are the oldest
  unread ones, and only they are consumed. Otherwise nothing is consumed, the reader is moved to the oldest
  intact byte, and the overwritten bytes are added to the overflow counter.\<close>

theorem ring_commit_consumed_detects_torn_span:
  assumes "ring_wf r" "rb_contents r \<noteq> []" "length bs < 2 ^ 31"
    and "n \<le> span_length (fst (ring_buffer_read_span r))"
  defines "r2 \<equiv> ring_buffer_produce_external (dma_store (snd (ring_buffer_read_span r)) bs) (of_nat (length bs))"
  defines "res \<equiv> ring_buffer_commit_consumed r2 n"
  shows "(fst res \<longleftrightarrow> length (rb_contents r) + length bs \<le> rb_capacity r) \<and>
    (fst res \<longrightarrow> span_load r2 (fst (ring_buffer_read_span r)) n = take (unat n) (rb_contents r) \<and>
                 rb_contents (snd res) = drop (unat n) (rb_contents r) @ bs) \<and>
    (\<not> fst res \<longrightarrow> rb_contents (snd res) = keep_last (rb_capacity r) (rb_contents r @ bs)) \<and>
    unat (overflow_count (snd res)) = min 4294967295
      (unat (overflow_count (snd (ring_buffer_recover_overflow r))) +
         (length (rb_contents r) + length bs - rb_capacity r))"
proof -
  have "length bs < 2147483648" using assms(3) by simp
  note c = commit_consumed_torn [OF assms(1,2) this assms(4), folded res_def, unfolded during_dma_def,
      folded r2_def, folded res_def]
  then show ?thesis by blast
qed

theorem ring_commit_consumed_witness:
  "let r = snd (ring_buffer_write sample_ring (Some [1, 2, 3]) 3);
       commit = (\<lambda>bs. ring_buffer_commit_consumed (ring_buffer_produce_external
         (dma_store (snd (ring_buffer_read_span r)) bs) (of_nat (length bs))) 3)
   in fst (commit [7]) \<and> \<not> fst (commit [7, 8]) \<and> rb_contents (snd (commit [7, 8])) = [2, 3, 7, 8]"
proof -
  let ?r = "snd (ring_buffer_write sample_ring (Some [1, 2, 3]) 3)"
  have w: "rb_contents ?r = [1, 2, 3]" "rb_distance ?r = 3" "ring_wf ?r" "rb_capacity ?r = 4"
    using write_result [of sample_ring 3 "[1, 2, 3]"] by simp_all
  have sp: "span_length (fst (ring_buffer_read_span ?r)) = 3" by code_simp
  show ?thesis
    using ring_commit_consumed_detects_torn_span [of ?r "[7]" 3]
      ring_commit_consumed_detects_torn_span [of ?r "[7, 8]" 3] w sp
    by (simp add: Let_def keep_last_def)
qed

text \<open>C3: \<open>ring_buffer_commit_snapshot_consumed\<close> serves a reader that copied the span before the engine
  reused its slots. It always accepts; exactly the copied bytes are consumed from the stream of old and
  newly delivered bytes, the ring keeps the newest of what is left, and only bytes that were overwritten
  before anyone copied them are added to the overflow counter.\<close>

theorem ring_commit_snapshot_accounts_exactly:
  assumes "ring_wf r" "rb_contents r \<noteq> []" "length bs < 2 ^ 31"
    and "n \<le> span_length (fst (ring_buffer_read_span r))"
  defines "r2 \<equiv> ring_buffer_produce_external (dma_store (snd (ring_buffer_read_span r)) bs) (of_nat (length bs))"
  defines "res \<equiv> ring_buffer_commit_snapshot_consumed r2 n"
  shows "fst res \<and> rb_contents (snd res) = keep_last (rb_capacity r) (drop (unat n) (rb_contents r @ bs)) \<and>
    unat (overflow_count (snd res)) = min 4294967295
      (unat (overflow_count (snd (ring_buffer_recover_overflow r))) +
         (length (rb_contents r) + length bs - unat n - rb_capacity r)) \<and>
    ring_buffer_pending_overflow (snd res) = 0"
proof -
  have "length bs < 2147483648" using assms(3) by simp
  note c = commit_snapshot_accounts [OF assms(1,2) this assms(4), unfolded during_dma_def,
      folded r2_def, folded res_def]
  have "rb_capacity (snd res) = rb_capacity r"
    using c(6) .
  with c(5) have "ring_buffer_pending_overflow (snd res) = 0"
    by (simp add: ring_buffer_pending_overflow_def pending_zero_iff)
  with c show ?thesis by blast
qed

theorem ring_commit_snapshot_witness:
  "let r = snd (ring_buffer_write sample_ring (Some [1, 2, 3]) 3);
       commit = (\<lambda>bs. ring_buffer_commit_snapshot_consumed (ring_buffer_produce_external
         (dma_store (snd (ring_buffer_read_span r)) bs) (of_nat (length bs))) 2)
   in fst (commit [7, 8, 9]) \<and> rb_contents (snd (commit [7, 8, 9])) = [3, 7, 8, 9] \<and>
      rb_contents (snd (commit [6, 7, 8, 9])) = [6, 7, 8, 9]"
proof -
  let ?r = "snd (ring_buffer_write sample_ring (Some [1, 2, 3]) 3)"
  have w: "rb_contents ?r = [1, 2, 3]" "rb_distance ?r = 3" "ring_wf ?r" "rb_capacity ?r = 4"
    using write_result [of sample_ring 3 "[1, 2, 3]"] by simp_all
  have sp: "span_length (fst (ring_buffer_read_span ?r)) = 3" by code_simp
  show ?thesis
    using ring_commit_snapshot_accounts_exactly [of ?r "[7, 8, 9]" 2]
      ring_commit_snapshot_accounts_exactly [of ?r "[6, 7, 8, 9]" 2] w sp
    by (simp add: Let_def keep_last_def)
qed

text \<open>The check computes, whatever the bytes and the ring it starts from.\<close>

lemma self_check_computes:
  "ring_buffer_self_check \<lparr>storage = st, ring_size = x1, ring_mask = x2, producer = x3, consumer = x4,
     high_watermark = x5, overflow_count = x6, producer_reserved_sequence = x7,
     producer_reserved_count = x8, consumer_reserved_sequence = x9, consumer_reserved_count = x10\<rparr>
     [a0, a1, a2, a3, a4, a5, a6, a7] [b0, b1, b2, b3, b4, b5, b6, b7]"
  by code_simp

text \<open>The ring's boot self-check passes: whatever the stack held before, the ring, its overflow
  recovery, its span and commit guards and its counter wrap behave as the check demands, so a failure
  at boot can only be a hardware fault.\<close>

theorem ring_self_check_passes:
  assumes "length storage0 = 8" "length output0 = 8"
  shows "ring_buffer_self_check ring0 storage0 output0"
proof -
  have split8: "\<exists>a0 a1 a2 a3 a4 a5 a6 a7. xs = [a0, a1, a2, a3, a4, a5, a6, a7]"
    if "length xs = 8" for xs :: "u8 list"
    using that by (simp add: eval_nat_numeral length_Suc_conv) blast
  obtain a0 a1 a2 a3 a4 a5 a6 a7 where a: "storage0 = [a0, a1, a2, a3, a4, a5, a6, a7]"
    using split8 [OF assms(1)] by blast
  obtain b0 b1 b2 b3 b4 b5 b6 b7 where b: "output0 = [b0, b1, b2, b3, b4, b5, b6, b7]"
    using split8 [OF assms(2)] by blast
  show ?thesis
    unfolding a b by (cases ring0) (simp only: self_check_computes)
qed

theorem ring_self_check_witness:
  "ring_buffer_self_check sample_ring [1, 2, 3, 4, 5, 6, 7, 8] [0, 0, 0, 0, 0, 0, 0, 0]"
  by (rule ring_self_check_passes) simp_all

end
