(* ===== verification/Line_Coding.thy ===== *)
theory Line_Coding
  imports Prelude
begin

text \<open>
  The backend-neutral UART types of \<open>firmware/src/uart/types.h\<close> and the line-coding rules of
  \<open>firmware/src/uart/line_coding.c\<close> and \<open>line_coding.h\<close>: what a host may ask for, what a PIO port can
  do at a given system clock, and the translation of a USB CDC request.

  A pointer argument the code checks against \<open>NULL\<close> is an option; an output pointer is the cell
  it points to, given and returned.
\<close>

section \<open>Types\<close>

datatype uart_driver_backend_t = UART_DRIVER_BACKEND_HW | UART_DRIVER_BACKEND_PIO

datatype uart_driver_parity_t =
  UART_DRIVER_PARITY_NONE | UART_DRIVER_PARITY_ODD | UART_DRIVER_PARITY_EVEN

record uart_driver_line_coding_t =
  baud_rate :: u32
  data_bits :: u8
  stop_bits :: u8
  parity :: uart_driver_parity_t

abbreviation UART_LINE_CODING_BAUD_MIN :: u32 where "UART_LINE_CODING_BAUD_MIN \<equiv> 50"
abbreviation UART_LINE_CODING_BAUD_MAX :: u32 where "UART_LINE_CODING_BAUD_MAX \<equiv> 3000000"
abbreviation UART_LINE_CODING_PIO_CLOCKS_PER_BIT :: u32
  where "UART_LINE_CODING_PIO_CLOCKS_PER_BIT \<equiv> 8"
abbreviation UART_LINE_CODING_PIO_RX_CLOCKS_PER_BIT :: u32
  where "UART_LINE_CODING_PIO_RX_CLOCKS_PER_BIT \<equiv> 32"
abbreviation UART_LINE_CODING_PIO_DIVIDER_MIN :: u32
  where "UART_LINE_CODING_PIO_DIVIDER_MIN \<equiv> 1"
abbreviation UART_LINE_CODING_PIO_DIVIDER_MAX_EXCLUSIVE :: u32
  where "UART_LINE_CODING_PIO_DIVIDER_MAX_EXCLUSIVE \<equiv> 65536"

section \<open>Operations\<close>

definition uart_line_coding_is_valid :: "uart_driver_line_coding_t option \<Rightarrow> bool" where
  "uart_line_coding_is_valid line_coding =
     (case line_coding of None \<Rightarrow> False
      | Some lc \<Rightarrow>
          if baud_rate lc < UART_LINE_CODING_BAUD_MIN \<or> baud_rate lc > UART_LINE_CODING_BAUD_MAX then False
          else if data_bits lc < 5 \<or> data_bits lc > 8 then False
          else if stop_bits lc \<noteq> 1 \<and> stop_bits lc \<noteq> 2 then False
          else parity lc = UART_DRIVER_PARITY_NONE \<or> parity lc = UART_DRIVER_PARITY_ODD \<or>
               parity lc = UART_DRIVER_PARITY_EVEN)"

definition pio_baud_feasible_for_clocks_per_bit :: "u32 \<Rightarrow> u32 \<Rightarrow> u32 \<Rightarrow> bool" where
  "pio_baud_feasible_for_clocks_per_bit rate sys_hz ratio =
     (if rate = 0 \<or> sys_hz = 0 then False
      else let clocks_per_bit = (ucast ratio :: u64) * ucast rate
           in if (ucast sys_hz :: u64) < clocks_per_bit * ucast UART_LINE_CODING_PIO_DIVIDER_MIN then False
              else if (ucast sys_hz :: u64) \<ge> ucast UART_LINE_CODING_PIO_DIVIDER_MAX_EXCLUSIVE * clocks_per_bit
              then False else True)"

definition uart_line_coding_pio_baud_feasible :: "u32 \<Rightarrow> u32 \<Rightarrow> bool" where
  "uart_line_coding_pio_baud_feasible rate sys_hz =
     pio_baud_feasible_for_clocks_per_bit rate sys_hz UART_LINE_CODING_PIO_CLOCKS_PER_BIT"

definition uart_line_coding_pio_rx_baud_feasible :: "u32 \<Rightarrow> u32 \<Rightarrow> bool" where
  "uart_line_coding_pio_rx_baud_feasible rate sys_hz =
     pio_baud_feasible_for_clocks_per_bit rate sys_hz UART_LINE_CODING_PIO_RX_CLOCKS_PER_BIT"

definition uart_line_coding_pio_supported :: "uart_driver_line_coding_t option \<Rightarrow> u32 \<Rightarrow> bool" where
  "uart_line_coding_pio_supported line_coding sys_hz =
     (if \<not> uart_line_coding_is_valid line_coding then False
      else let lc = the line_coding
           in if data_bits lc \<noteq> 8 \<or> stop_bits lc \<noteq> 1 \<or> parity lc \<noteq> UART_DRIVER_PARITY_NONE then False
              else uart_line_coding_pio_baud_feasible (baud_rate lc) sys_hz \<and>
                   uart_line_coding_pio_rx_baud_feasible (baud_rate lc) sys_hz)"

definition uart_line_coding_from_usb ::
    "u32 \<Rightarrow> u8 \<Rightarrow> u8 \<Rightarrow> u8 \<Rightarrow> uart_driver_line_coding_t option \<Rightarrow>
       bool \<times> uart_driver_line_coding_t option" where
  "uart_line_coding_from_usb bit_rate usb_stop_bits usb_parity usb_data_bits line_coding =
     (if line_coding = None then (False, line_coding)
      else let stop = (if usb_stop_bits = 0 then Some 1 else if usb_stop_bits = 2 then Some 2 else None);
               par = (if usb_parity = 0 then Some UART_DRIVER_PARITY_NONE
                      else if usb_parity = 1 then Some UART_DRIVER_PARITY_ODD
                      else if usb_parity = 2 then Some UART_DRIVER_PARITY_EVEN else None)
           in case stop of None \<Rightarrow> (False, line_coding)
              | Some s \<Rightarrow>
                  (case par of None \<Rightarrow> (False, line_coding)
                   | Some p \<Rightarrow>
                       let parsed = \<lparr>baud_rate = bit_rate, data_bits = usb_data_bits,
                                     stop_bits = s, parity = p\<rparr>
                       in if \<not> uart_line_coding_is_valid (Some parsed) then (False, line_coding)
                          else (True, Some parsed)))"

section \<open>Divider feasibility in exact arithmetic\<close>

text \<open>The 64-bit products do not wrap for the two clock ratios of the programs.\<close>

lemma pio_feasible_iff:
  assumes "unat ratio < 65536"
  shows "pio_baud_feasible_for_clocks_per_bit rate sys_hz ratio \<longleftrightarrow>
     rate \<noteq> 0 \<and> sys_hz \<noteq> 0 \<and>
     unat ratio * unat rate \<le> unat sys_hz \<and> unat sys_hz < 65536 * (unat ratio * unat rate)"
proof -
  have small: "unat ratio * unat rate \<le> 65535 * 4294967295"
    using assms by (intro mult_le_mono unat_u32_le_max) simp
  have hi: "unat ((65536 :: u64) * (ucast ratio * ucast rate)) = 65536 * (unat ratio * unat rate)"
    using small by (subst unat_mult_u64) (simp_all add: mult.commute [of "unat ratio"])
  show ?thesis
    by (auto simp: pio_baud_feasible_for_clocks_per_bit_def Let_def word_less_nat_alt word_le_nat_alt hi not_less)
qed


section \<open>Properties\<close>

text \<open>A PIO port accepts a line coding exactly when it is 8N1, inside the host bounds of 50 to 3000000
  baud, and both programs can reach the rate: the receiver's 32 clocks per bit bound the rate from
  above, the transmitter's 8 clocks per bit and the 16-bit divider bound it from below. The 64-bit products
  of the code never wrap.\<close>

theorem pio_supported_iff:
  "uart_line_coding_pio_supported (Some lc) sys_hz \<longleftrightarrow>
     data_bits lc = 8 \<and> stop_bits lc = 1 \<and> parity lc = UART_DRIVER_PARITY_NONE \<and>
     50 \<le> unat (baud_rate lc) \<and> unat (baud_rate lc) \<le> 3000000 \<and>
     32 * unat (baud_rate lc) \<le> unat sys_hz \<and> unat sys_hz < 65536 * (8 * unat (baud_rate lc))"
proof -
  have nz: "baud_rate lc \<noteq> 0" if "50 \<le> unat (baud_rate lc)"
    using that by auto
  have sz: "sys_hz \<noteq> 0" if "32 * unat (baud_rate lc) \<le> unat sys_hz" "50 \<le> unat (baud_rate lc)"
    using that by auto
  have valid: "uart_line_coding_is_valid (Some lc) \<longleftrightarrow>
      50 \<le> unat (baud_rate lc) \<and> unat (baud_rate lc) \<le> 3000000"
    if "data_bits lc = 8" "stop_bits lc = 1" "parity lc = UART_DRIVER_PARITY_NONE"
    using that by (auto simp: uart_line_coding_is_valid_def word_less_nat_alt)
  have tx: "uart_line_coding_pio_baud_feasible (baud_rate lc) sys_hz \<longleftrightarrow> baud_rate lc \<noteq> 0 \<and> sys_hz \<noteq> 0 \<and>
      8 * unat (baud_rate lc) \<le> unat sys_hz \<and> unat sys_hz < 65536 * (8 * unat (baud_rate lc))"
    unfolding uart_line_coding_pio_baud_feasible_def by (subst pio_feasible_iff) simp_all
  have rx: "uart_line_coding_pio_rx_baud_feasible (baud_rate lc) sys_hz \<longleftrightarrow> baud_rate lc \<noteq> 0 \<and> sys_hz \<noteq> 0 \<and>
      32 * unat (baud_rate lc) \<le> unat sys_hz \<and> unat sys_hz < 65536 * (32 * unat (baud_rate lc))"
    unfolding uart_line_coding_pio_rx_baud_feasible_def by (subst pio_feasible_iff) simp_all
  show ?thesis
    using valid nz sz unfolding uart_line_coding_pio_supported_def Let_def option.sel tx rx by auto
qed

text \<open>The USB codes of a line coding, as a host would send them.\<close>

definition usb_stop_code :: "u8 \<Rightarrow> u8" where
  "usb_stop_code n = (if n = 1 then 0 else 2)"

definition usb_parity_code :: "uart_driver_parity_t \<Rightarrow> u8" where
  "usb_parity_code p = (case p of UART_DRIVER_PARITY_NONE \<Rightarrow> 0 | UART_DRIVER_PARITY_ODD \<Rightarrow> 1
                        | UART_DRIVER_PARITY_EVEN \<Rightarrow> 2)"

text \<open>C5: The USB translation is exact: a request is accepted with result \<open>lc\<close> exactly when \<open>lc\<close> is a valid
  line coding and the request is its USB encoding (so 1.5 stop bits, mark and space parity and anything out of
  bounds are refused), a refused request leaves the output cell alone, and a null output is refused.\<close>

theorem from_usb_iff_encoding:
  "(uart_line_coding_from_usb rate stop par bits (Some old) = (True, Some lc) \<longleftrightarrow>
     uart_line_coding_is_valid (Some lc) \<and> rate = baud_rate lc \<and> bits = data_bits lc \<and>
     stop = usb_stop_code (stop_bits lc) \<and> par = usb_parity_code (parity lc)) \<and>
   (\<not> fst (uart_line_coding_from_usb rate stop par bits out) \<longrightarrow>
      snd (uart_line_coding_from_usb rate stop par bits out) = out) \<and>
   \<not> fst (uart_line_coding_from_usb rate stop par bits None)"
proof (intro conjI impI)
  have s: "stop_bits lc = 1 \<or> stop_bits lc = 2" if "uart_line_coding_is_valid (Some lc)" for lc
    using that by (auto simp: uart_line_coding_is_valid_def split: if_splits)
  show "uart_line_coding_from_usb rate stop par bits (Some old) = (True, Some lc) \<longleftrightarrow>
     uart_line_coding_is_valid (Some lc) \<and> rate = baud_rate lc \<and> bits = data_bits lc \<and>
     stop = usb_stop_code (stop_bits lc) \<and> par = usb_parity_code (parity lc)"
  proof
    assume "uart_line_coding_from_usb rate stop par bits (Some old) = (True, Some lc)"
    then show "uart_line_coding_is_valid (Some lc) \<and> rate = baud_rate lc \<and> bits = data_bits lc \<and>
       stop = usb_stop_code (stop_bits lc) \<and> par = usb_parity_code (parity lc)"
      by (auto simp: uart_line_coding_from_usb_def Let_def usb_stop_code_def usb_parity_code_def split: if_splits)
  next
    assume r: "uart_line_coding_is_valid (Some lc) \<and> rate = baud_rate lc \<and> bits = data_bits lc \<and>
       stop = usb_stop_code (stop_bits lc) \<and> par = usb_parity_code (parity lc)"
    show "uart_line_coding_from_usb rate stop par bits (Some old) = (True, Some lc)"
      using r s [of lc]
      by (cases lc; cases "parity lc")
         (auto simp: uart_line_coding_from_usb_def Let_def usb_stop_code_def usb_parity_code_def)
  qed
  show "snd (uart_line_coding_from_usb rate stop par bits out) = out"
    if "\<not> fst (uart_line_coding_from_usb rate stop par bits out)"
    using that by (auto simp: uart_line_coding_from_usb_def Let_def split: option.splits if_splits)
  show "\<not> fst (uart_line_coding_from_usb rate stop par bits None)"
    by (simp add: uart_line_coding_from_usb_def)
qed

theorem from_usb_witness:
  "let old = \<lparr>baud_rate = 9600, data_bits = 8, stop_bits = 1, parity = UART_DRIVER_PARITY_NONE\<rparr>
   in uart_line_coding_from_usb 115200 2 1 7 (Some old) =
        (True, Some \<lparr>baud_rate = 115200, data_bits = 7, stop_bits = 2, parity = UART_DRIVER_PARITY_ODD\<rparr>) \<and>
      snd (uart_line_coding_from_usb 115200 1 0 8 (Some old)) = Some old"
proof -
  let ?old = "\<lparr>baud_rate = 9600, data_bits = 8, stop_bits = 1, parity = UART_DRIVER_PARITY_NONE\<rparr>"
  have "\<not> fst (uart_line_coding_from_usb 115200 1 0 8 (Some ?old))" by code_simp
  then show ?thesis
    using from_usb_iff_encoding [of 115200 2 1 7 ?old
        "\<lparr>baud_rate = 115200, data_bits = 7, stop_bits = 2, parity = UART_DRIVER_PARITY_ODD\<rparr>"]
      from_usb_iff_encoding [of 115200 1 0 8 ?old ?old "Some ?old"]
    by (simp add: Let_def uart_line_coding_is_valid_def usb_stop_code_def usb_parity_code_def)
qed

end
