(* ===== verification/Baud_Rate.thy ===== *)
theory Baud_Rate
  imports Line_Coding
begin

text \<open>
  The PL011 divisor arithmetic of \<open>firmware/src/uart/hw/baud_rate.h\<close>: the rate a hardware UART
  really runs at for a requested rate, and its error.
\<close>

abbreviation HW_UART_BAUD_RATE_MAX_ERROR_PPM :: u32 where "HW_UART_BAUD_RATE_MAX_ERROR_PPM \<equiv> 20000"
abbreviation HW_UART_BAUD_RATE_DIVISOR_MIN :: u64 where "HW_UART_BAUD_RATE_DIVISOR_MIN \<equiv> 64"
abbreviation HW_UART_BAUD_RATE_DIVISOR_MAX :: u64 where "HW_UART_BAUD_RATE_DIVISOR_MAX \<equiv> 65535 * 64"

definition hw_uart_encoded_divisor :: "u32 \<Rightarrow> u32 \<Rightarrow> u64" where
  "hw_uart_encoded_divisor requested_rate peripheral_hz =
     (let baud_rate_div = (ucast peripheral_hz * 8) div ucast requested_rate + 1;
          integer_divisor = drop_bit 7 baud_rate_div
      in if integer_divisor = 0 then HW_UART_BAUD_RATE_DIVISOR_MIN
         else if integer_divisor \<ge> 65535 then HW_UART_BAUD_RATE_DIVISOR_MAX
         else integer_divisor * 64 + drop_bit 1 (baud_rate_div AND 0x7F))"

definition hw_uart_baud_rate_calculate ::
    "u32 \<Rightarrow> u32 \<Rightarrow> u32 option \<Rightarrow> u32 option \<Rightarrow> bool \<times> u32 option \<times> u32 option" where
  "hw_uart_baud_rate_calculate requested_rate peripheral_hz actual_rate error_ppm =
     (if requested_rate = 0 \<or> peripheral_hz = 0 \<or> actual_rate = None \<or> error_ppm = None
      then (False, actual_rate, error_ppm)
      else let encoded_divisor = hw_uart_encoded_divisor requested_rate peripheral_hz;
               actual = (ucast peripheral_hz * 4) div encoded_divisor;
               requested = ucast requested_rate :: u64;
               difference = (if actual > requested then actual - requested else requested - actual)
           in (True, Some (ucast actual),
               Some (ucast ((difference * 1000000 + requested div 2) div requested))))"

text \<open>The error cell is a local variable the code has not initialised; it is written before it is read.\<close>

definition hw_uart_baud_rate_supported :: "u32 \<Rightarrow> u32 \<Rightarrow> u32 option \<Rightarrow> bool \<times> u32 option" where
  "hw_uart_baud_rate_supported requested_rate peripheral_hz actual_rate =
     (let (legal, actual_rate, error_ppm) =
            hw_uart_baud_rate_calculate requested_rate peripheral_hz actual_rate (Some 0)
      in (legal \<and> the error_ppm \<le> HW_UART_BAUD_RATE_MAX_ERROR_PPM, actual_rate))"

section \<open>The same calculation without words\<close>

text \<open>
  \<open>baud_divisor\<close> is the divisor in units of 1/64: four times the clock over the rate, rounded to the
  nearest integer, clamped to what the hardware holds.
\<close>

definition baud_divisor :: "nat \<Rightarrow> nat \<Rightarrow> nat" where
  "baud_divisor rate hz =
     (let q = 8 * hz div rate + 1
      in if q div 128 = 0 then 64 else if q div 128 \<ge> 65535 then 65535 * 64 else q div 2)"

definition baud_actual :: "nat \<Rightarrow> nat \<Rightarrow> nat" where
  "baud_actual rate hz = 4 * hz div baud_divisor rate hz"

definition baud_error_ppm :: "nat \<Rightarrow> nat \<Rightarrow> nat" where
  "baud_error_ppm rate hz =
     ((if rate < baud_actual rate hz then baud_actual rate hz - rate else rate - baud_actual rate hz)
        * 1000000 + rate div 2) div rate"

lemma unat_u32_scaled:
  "k \<le> 8 \<Longrightarrow> unat (ucast (x :: u32) * (of_nat k :: u64)) = k * unat x"
proof -
  assume k: "k \<le> 8"
  have u: "unat (of_nat k :: u64) = k" using k by (simp add: unat_of_nat)
  have "unat x * k \<le> 4294967295 * 8" by (intro mult_le_mono unat_u32_le_max k)
  then show ?thesis by (subst unat_mult_u64) (simp_all add: u)
qed

lemma half_split: "(q :: nat) div 2 = q div 128 * 64 + q mod 128 div 2"
proof -
  have "q div 2 = (q mod 128 + q div 128 * 64 * 2) div 2" by simp
  also have "\<dots> = q div 128 * 64 + q mod 128 div 2" by (subst div_mult_self1) simp_all
  finally show ?thesis .
qed

lemma unat_encoded_divisor:
  assumes "rate \<noteq> 0"
  shows "unat (hw_uart_encoded_divisor rate hz) = baud_divisor (unat rate) (unat hz)"
proof -
  define q where "q = (ucast hz * 8) div (ucast rate :: u64) + 1"
  have h8: "unat (ucast hz * 8 :: u64) = 8 * unat hz"
    using unat_u32_scaled [of 8 hz] by simp
  have bound: "8 * unat hz div unat rate \<le> 8 * 4294967295"
    using unat_u32_le_max [of hz] by (meson div_le_dividend le_trans mult_le_mono2)
  have uq: "unat q = 8 * unat hz div unat rate + 1"
    unfolding q_def using bound by (subst unat_add_u64) (simp_all add: unat_div h8)
  have i: "unat (drop_bit 7 q) = unat q div 128"
    by (simp add: unat_drop_bit_eq drop_bit_nat_def)
  have ile: "unat q div 128 \<le> 268435456" using bound uq by simp
  have low: "unat (drop_bit 1 (q AND 0x7F)) = unat q mod 128 div 2"
  proof -
    have "q AND 0x7F = take_bit 7 q" by (simp add: take_bit_eq_mask mask_eq_exp_minus_1)
    then show ?thesis by (simp add: unat_drop_bit_eq drop_bit_nat_def unsigned_take_bit_eq take_bit_nat_def)
  qed
  have mid: "unat (drop_bit 7 q * 64 + drop_bit 1 (q AND 0x7F)) = unat q div 2"
  proof -
    have m: "unat (drop_bit 7 q * 64) = unat q div 128 * 64"
      using ile by (subst unat_mult_u64) (simp_all add: i)
    have "unat q mod 128 div 2 < 64" by simp
    then have "unat (drop_bit 7 q * 64 + drop_bit 1 (q AND 0x7F)) = unat q div 128 * 64 + unat q mod 128 div 2"
      using ile by (subst unat_add_u64) (simp_all only: m low, simp_all)
    also have "\<dots> = unat q div 2" by (rule half_split [symmetric])
    finally show ?thesis .
  qed
  have z: "drop_bit 7 q = 0 \<longleftrightarrow> unat q div 128 = 0" by (metis i unat_0_iff)
  have g: "65535 \<le> drop_bit 7 q \<longleftrightarrow> 65535 \<le> unat q div 128" by (simp add: word_le_nat_alt i)
  show ?thesis
    unfolding hw_uart_encoded_divisor_def q_def [symmetric] Let_def z g baud_divisor_def uq [symmetric]
    using mid by simp
qed


lemma baud_divisor_range: "64 \<le> baud_divisor rate hz \<and> baud_divisor rate hz \<le> 65535 * 64"
proof (cases "(8 * hz div rate + 1) div 128 = 0 \<or> 65535 \<le> (8 * hz div rate + 1) div 128")
  case True
  then show ?thesis by (auto simp: baud_divisor_def Let_def)
next
  case False
  then have "1 \<le> (8 * hz div rate + 1) div 128" "(8 * hz div rate + 1) div 128 \<le> 65534" by simp_all
  moreover have "(8 * hz div rate + 1) div 2 = (8 * hz div rate + 1) div 128 * 64 + (8 * hz div rate + 1) mod 128 div 2"
    by (rule half_split)
  moreover have "(8 * hz div rate + 1) mod 128 div 2 < 64" by simp
  ultimately have "64 \<le> (8 * hz div rate + 1) div 2" "(8 * hz div rate + 1) div 2 \<le> 65535 * 64" by linarith+
  with False show ?thesis by (auto simp: baud_divisor_def Let_def)
qed

text \<open>Neither the 64-bit intermediate values wrap nor the 32-bit results are cut.\<close>

lemma baud_actual_le: "baud_actual rate hz \<le> hz div 16"
proof -
  have "4 * hz div baud_divisor rate hz \<le> 4 * hz div 64"
    using baud_divisor_range [of rate hz] by (intro div_le_mono2) auto
  then show ?thesis by (simp add: baud_actual_def)
qed

lemma baud_error_le:
  assumes "0 < rate" "rate \<le> 4294967295" "hz \<le> 4294967295"
  shows "baud_error_ppm rate hz \<le> 4294967295"
proof -
  let ?a = "baud_actual rate hz"
  have "?a \<le> 4099 * rate"
  proof (cases "8 * hz div rate + 1 \<le> 65535 * 128")
    case True
    then have "8 * hz div rate < 65535 * 128" by simp
    have d: "8 * hz < rate * (8 * hz div rate + 1)"
      using assms(1) by (metis Suc_eq_plus1 dividend_less_times_div mult.commute mult_Suc_right add.commute)
    have e: "8 * hz div rate + 1 \<le> 2 * baud_divisor rate hz + 1"
    proof (cases "(8 * hz div rate + 1) div 128 = 0")
      case True
      then show ?thesis by (simp add: baud_divisor_def)
    next
      case False
      with True show ?thesis
        using div_le_mono [OF True, of 128]
        by (auto simp: baud_divisor_def Let_def)
    qed
    have "4 * hz \<le> baud_divisor rate hz * (2 * rate)"
    proof -
      have "8 * hz < rate * (2 * baud_divisor rate hz + 1)"
        using d e by (meson less_le_trans mult_le_mono2)
      also have "\<dots> \<le> rate * (4 * baud_divisor rate hz)"
        using baud_divisor_range [of rate hz] by (intro mult_le_mono2) linarith
      finally show ?thesis by (simp add: mult.commute mult.left_commute)
    qed
    then have "?a \<le> 2 * rate"
      unfolding baud_actual_def
      using baud_divisor_range [of rate hz] div_le_mono [of "4 * hz" "baud_divisor rate hz * (2 * rate)" "baud_divisor rate hz"]
      by simp
    then show ?thesis by simp
  next
    case False
    then have "65535 \<le> (8 * hz div rate + 1) div 128" by simp
    then have "?a = 4 * hz div (65535 * 64)" by (simp add: baud_actual_def baud_divisor_def Let_def)
    also have "\<dots> \<le> 4 * 4294967295 div (65535 * 64)" using assms(3) by (intro div_le_mono) simp
    finally have "?a \<le> 4099" by simp
    with assms(1) show ?thesis using mult_le_mono [of ?a 4099 1 rate] by simp
  qed
  then have "(if rate < ?a then ?a - rate else rate - ?a) \<le> 4098 * rate"
    using assms(1) by auto
  then have "(if rate < ?a then ?a - rate else rate - ?a) * 1000000 + rate div 2 \<le> 4098 * rate * 1000000 + rate"
    by (intro add_mono mult_le_mono1) auto
  then have "baud_error_ppm rate hz \<le> (4098000001 * rate) div rate"
    unfolding baud_error_ppm_def by (intro div_le_mono) simp
  with assms(1) show ?thesis by simp
qed

lemma calculate_exact:
  assumes "rate \<noteq> 0" "hz \<noteq> 0"
  shows "hw_uart_baud_rate_calculate rate hz (Some a) (Some e) =
     (True, Some (of_nat (baud_actual (unat rate) (unat hz))),
            Some (of_nat (baud_error_ppm (unat rate) (unat hz))))"
    and "baud_actual (unat rate) (unat hz) < 2 ^ 32" "baud_error_ppm (unat rate) (unat hz) < 2 ^ 32"
proof -
  let ?A = "(ucast hz * 4) div hw_uart_encoded_divisor rate hz :: u64" and ?R = "ucast rate :: u64"
  let ?a = "baud_actual (unat rate) (unat hz)"
  let ?d = "if ?R < ?A then ?A - ?R else ?R - ?A"
  have pos: "0 < unat rate" using assms(1) by (simp add: unat_gt_0)
  have uA: "unat ?A = ?a"
    using unat_u32_scaled [of 4 hz] by (simp add: unat_div unat_encoded_divisor [OF assms(1)] baud_actual_def)
  have a32: "?a \<le> 4294967295"
    using baud_actual_le [of "unat rate" "unat hz"] unat_u32_le_max [of hz]
    by (meson div_le_dividend le_trans)
  then show "baud_actual (unat rate) (unat hz) < 2 ^ 32" by simp
  have ud: "unat ?d = (if unat rate < ?a then ?a - unat rate else unat rate - ?a)"
    using uA by (simp add: word_less_nat_alt unat_sub word_le_nat_alt not_less)
  then have d32: "unat ?d \<le> 4294967295"
    using a32 unat_u32_le_max [of rate] by (simp split: if_splits)
  have um: "unat (?d * 1000000) = unat ?d * 1000000"
    using d32 by (subst unat_mult_u64) simp_all
  have un: "unat (?d * 1000000 + ?R div 2) = unat ?d * 1000000 + unat rate div 2"
    using d32 unat_u32_le_max [of rate]
    by (subst unat_add_u64) (simp_all only: um unat_div unat_ucast_u64, simp_all)
  have ue: "unat ((?d * 1000000 + ?R div 2) div ?R) = baud_error_ppm (unat rate) (unat hz)"
    by (simp only: unat_div un ud unat_ucast_u64 baud_error_ppm_def)
  show e32: "baud_error_ppm (unat rate) (unat hz) < 2 ^ 32"
    using baud_error_le [OF pos unat_u32_le_max unat_u32_le_max, of hz] by simp
  have cast: "(ucast w :: u32) = of_nat (unat w)" for w :: u64
    by (metis of_nat_unat)
  show "hw_uart_baud_rate_calculate rate hz (Some a) (Some e) =
     (True, Some (of_nat ?a), Some (of_nat (baud_error_ppm (unat rate) (unat hz))))"
    using assms unfolding hw_uart_baud_rate_calculate_def Let_def
    by (simp only: option.distinct if_False simp_thms cast ue uA)
qed


section \<open>Properties\<close>

text \<open>The divisor is the one nearest to four times the clock over the rate.\<close>

lemma baud_divisor_nearest:
  assumes "0 < rate" "1 \<le> (8 * hz div rate + 1) div 128" "(8 * hz div rate + 1) div 128 < 65535"
  shows "2 * (baud_divisor rate hz * rate) \<le> 8 * hz + rate \<and> 8 * hz < 2 * (baud_divisor rate hz * rate) + rate"
proof -
  define q where "q = 8 * hz div rate"
  have q: "q * rate \<le> 8 * hz" "8 * hz < q * rate + rate"
    using assms(1) by (simp_all add: q_def) (metis add.commute dividend_less_times_div mult.commute)
  have d: "baud_divisor rate hz = (q + 1) div 2"
    using assms(2,3) by (simp add: baud_divisor_def Let_def q_def)
  then have "2 * baud_divisor rate hz \<le> q + 1" "q \<le> 2 * baud_divisor rate hz" by linarith+
  then have "2 * baud_divisor rate hz * rate \<le> (q + 1) * rate" "q * rate \<le> 2 * baud_divisor rate hz * rate"
    by (simp_all only: mult_le_mono1)
  then have "2 * (baud_divisor rate hz * rate) \<le> q * rate + rate" "q * rate \<le> 2 * (baud_divisor rate hz * rate)"
    by (simp_all only: mult.assoc add_mult_distrib mult_1)
  with q show ?thesis by linarith
qed

text \<open>C6: A hardware UART accepts a rate exactly when the rate and the clock are not zero and the rate the
  PL011 will really run at is within 2 percent, computed without any wrap or cut for every 32-bit rate and
  clock. The rate it reports is the one of the divisor nearest to \<open>4 * clock / rate\<close> (in 1/64 units)
  wherever that divisor is representable.\<close>

theorem baud_rate_supported_exact:
  defines "n \<equiv> \<lambda>rate hz. baud_divisor (unat rate) (unat hz)"
  shows "(fst (hw_uart_baud_rate_supported rate hz (Some a)) \<longleftrightarrow>
            rate \<noteq> 0 \<and> hz \<noteq> 0 \<and> baud_error_ppm (unat rate) (unat hz) \<le> 20000) \<and>
         (fst (hw_uart_baud_rate_supported rate hz (Some a)) \<longrightarrow>
            unat (the (snd (hw_uart_baud_rate_supported rate hz (Some a)))) = 4 * unat hz div n rate hz) \<and>
         (rate \<noteq> 0 \<and> (8 * unat hz div unat rate + 1) div 128 \<in> {1 ..< 65535} \<longrightarrow>
            2 * (n rate hz * unat rate) \<le> 8 * unat hz + unat rate \<and>
            8 * unat hz < 2 * (n rate hz * unat rate) + unat rate)"
proof (intro conjI impI)
  have zero: "\<not> fst (hw_uart_baud_rate_supported rate hz (Some a))" if "rate = 0 \<or> hz = 0"
    using that by (auto simp: hw_uart_baud_rate_supported_def hw_uart_baud_rate_calculate_def)
  show iff: "fst (hw_uart_baud_rate_supported rate hz (Some a)) \<longleftrightarrow>
           rate \<noteq> 0 \<and> hz \<noteq> 0 \<and> baud_error_ppm (unat rate) (unat hz) \<le> 20000"
  proof (cases "rate = 0 \<or> hz = 0")
    case True
    with zero show ?thesis by auto
  next
    case False
    then have nz: "rate \<noteq> 0" "hz \<noteq> 0" by simp_all
    note e = unat_of_nat_u32 [OF calculate_exact(3) [OF nz]]
    show ?thesis
      using nz by (simp add: hw_uart_baud_rate_supported_def calculate_exact(1) [OF nz] word_le_nat_alt e)
  qed
  show "unat (the (snd (hw_uart_baud_rate_supported rate hz (Some a)))) = 4 * unat hz div n rate hz"
    if "fst (hw_uart_baud_rate_supported rate hz (Some a))"
  proof -
    have nz: "rate \<noteq> 0" "hz \<noteq> 0" using that iff by auto
    note u = unat_of_nat_u32 [OF calculate_exact(2) [OF nz]]
    show ?thesis
      using u by (simp add: hw_uart_baud_rate_supported_def calculate_exact(1) [OF nz] baud_actual_def n_def)
  qed
  assume "rate \<noteq> 0 \<and> (8 * unat hz div unat rate + 1) div 128 \<in> {1 ..< 65535}"
  then show "2 * (n rate hz * unat rate) \<le> 8 * unat hz + unat rate"
    "8 * unat hz < 2 * (n rate hz * unat rate) + unat rate"
    using baud_divisor_nearest [of "unat rate" "unat hz"] by (simp_all add: n_def unat_gt_0)
qed

theorem baud_rate_supported_witness:
  "fst (hw_uart_baud_rate_supported 115200 125000000 (Some 0)) \<and>
   unat (the (snd (hw_uart_baud_rate_supported 115200 125000000 (Some 0)))) = 115207 \<and>
   \<not> fst (hw_uart_baud_rate_supported 110 125000000 (Some 0))"
proof -
  have d: "baud_divisor 115200 125000000 = 4340" "baud_divisor 110 125000000 = 4194240"
    by (simp_all add: baud_divisor_def)
  then have e: "baud_error_ppm 115200 125000000 \<le> 20000" "\<not> baud_error_ppm 110 125000000 \<le> 20000"
    by (simp_all add: baud_error_ppm_def baud_actual_def)
  show ?thesis
    using baud_rate_supported_exact [of 115200 125000000 0] baud_rate_supported_exact [of 110 125000000 0] d e
    by simp
qed

end
