(* ===== verification/Backend_Policy.thy ===== *)
theory Backend_Policy
  imports Prelude
begin

text \<open>
  The decision tables of \<open>firmware/src/uart/backend/policy.h\<close> that both UART backends share: when a
  line format may be applied, when an RX countdown is re-armed, which TX path a PIO port takes, how much one
  TX launch may carry, and the RTS hysteresis.
\<close>

datatype uart_pio_tx_action_t = UART_PIO_TX_KEEP_DMA | UART_PIO_TX_START_DMA | UART_PIO_TX_DRAIN_FIFO

definition uart_hw_line_format_idle :: "bool \<Rightarrow> bool \<Rightarrow> bool \<Rightarrow> bool" where
  "uart_hw_line_format_idle tx_dma_active uart_busy rx_fifo_readable \<longleftrightarrow>
     \<not> tx_dma_active \<and> \<not> uart_busy \<and> \<not> rx_fifo_readable"

definition uart_rx_dma_poll_should_rearm :: "bool \<Rightarrow> bool \<Rightarrow> u32 \<Rightarrow> bool" where
  "uart_rx_dma_poll_should_rearm channel_valid channel_busy remaining \<longleftrightarrow>
     channel_valid \<and> \<not> channel_busy \<and> remaining = 0"

definition uart_rx_rts_should_assert :: "bool \<Rightarrow> size_t \<Rightarrow> size_t \<Rightarrow> bool" where
  "uart_rx_rts_should_assert currently_asserted occupancy ring_size =
     (let high_watermark = (ring_size * 3) div 4;
          low_watermark = ring_size div 2
      in if currently_asserted \<and> occupancy \<ge> high_watermark then False
         else if \<not> currently_asserted \<and> occupancy \<le> low_watermark then True
         else currently_asserted)"

definition uart_rx_dma_irq_should_rearm :: "bool \<Rightarrow> bool \<Rightarrow> bool \<Rightarrow> u32 \<Rightarrow> bool" where
  "uart_rx_dma_irq_should_rearm owner_present irq_pending channel_busy remaining \<longleftrightarrow>
     owner_present \<and> irq_pending \<and> \<not> channel_busy \<and> remaining = 0"

definition uart_pio_tx_action :: "bool \<Rightarrow> size_t \<Rightarrow> size_t \<Rightarrow> uart_pio_tx_action_t" where
  "uart_pio_tx_action tx_dma_active occupancy dma_threshold =
     (if tx_dma_active then UART_PIO_TX_KEEP_DMA
      else if occupancy \<ge> dma_threshold then UART_PIO_TX_START_DMA
      else UART_PIO_TX_DRAIN_FIFO)"

text \<open>\<open>1000u * bits_per_frame\<close> is a 32-bit product, widened for the division.\<close>

definition uart_tx_transfer_bytes :: "size_t \<Rightarrow> size_t \<Rightarrow> u32 \<Rightarrow> u32 \<Rightarrow> u32 \<Rightarrow> size_t" where
  "uart_tx_transfer_bytes occupancy max_transfer rate bits_per_frame budget_ms =
     (let transfer_bytes = (if max_transfer > occupancy then occupancy else max_transfer)
      in if transfer_bytes = 0 \<or> rate = 0 \<or> bits_per_frame = 0 \<or> budget_ms = 0 then 0
         else let budget_bits = (ucast rate :: u64) * ucast budget_ms;
                  budget_bytes = (ucast (budget_bits div ucast (1000 * bits_per_frame)) :: size_t);
                  budget_bytes = (if budget_bytes = 0 then 1 else budget_bytes)
              in if transfer_bytes > budget_bytes then budget_bytes else transfer_bytes)"

definition uart_dma_irq_should_service_owner :: "bool \<Rightarrow> bool \<Rightarrow> bool" where
  "uart_dma_irq_should_service_owner owner_present irq_pending \<longleftrightarrow> owner_present \<and> irq_pending"

section \<open>Properties\<close>

text \<open>The RTS line over a series of occupancy samples.\<close>

primrec rts_samples :: "size_t \<Rightarrow> bool \<Rightarrow> size_t list \<Rightarrow> bool list" where
  "rts_samples ring_size asserted [] = []"
| "rts_samples ring_size asserted (occ # occs) =
     (let now = uart_rx_rts_should_assert asserted occ ring_size
      in now # rts_samples ring_size now occs)"

lemma rts_watermarks:
  assumes "4 \<le> unat n" "unat n \<le> 2 ^ 30"
  shows "unat (n * 3 div 4 :: size_t) = unat n * 3 div 4" "unat (n div 2 :: size_t) = unat n div 2"
    "unat n div 2 < unat n * 3 div 4"
proof -
  have "unat n * unat (3 :: u32) < 2 ^ 32" using assms(2) by simp
  then have "unat (n * 3) = unat n * 3" by (subst unat_mult_u32) simp_all
  then show "unat (n * 3 div 4 :: size_t) = unat n * 3 div 4" by (simp add: unat_div)
  show "unat (n div 2 :: size_t) = unat n div 2" by (simp add: unat_div)
  show "unat n div 2 < unat n * 3 div 4" using assms(1) by presburger
qed

text \<open>The RTS hysteresis. For rings of 4 bytes to 1 GiB: after every sample the peer is held off
  whenever three quarters of the ring are in use and admitted whenever at most half of it is, and
  between the two marks the line keeps its level, so each change of the line needs the occupancy to cross a
  quarter of the ring.\<close>

theorem rts_hysteresis:
  fixes asserted :: bool
  assumes "4 \<le> unat ring_size" "unat ring_size \<le> 2 ^ 30" "i < length occs"
  defines "out \<equiv> rts_samples ring_size asserted occs"
  defines "before \<equiv> (asserted # out) ! i" and "occ \<equiv> unat (occs ! i)"
  shows "length out = length occs \<and>
    (unat ring_size * 3 div 4 \<le> occ \<longrightarrow> \<not> out ! i) \<and>
    (occ \<le> unat ring_size div 2 \<longrightarrow> out ! i) \<and>
    (unat ring_size div 2 < occ \<and> occ < unat ring_size * 3 div 4 \<longrightarrow> out ! i = before)"
proof -
  note w = rts_watermarks [OF assms(1,2)]
  have len: "length (rts_samples ring_size a os) = length os" for a os
    by (induction os arbitrary: a) (simp_all add: Let_def)
  have at: "rts_samples ring_size a os ! i
        = uart_rx_rts_should_assert ((a # rts_samples ring_size a os) ! i) (os ! i) ring_size"
    if "i < length os" for a os i
    using that
  proof (induction os arbitrary: a i)
    case (Cons occ os)
    then show ?case by (cases i) (simp_all add: Let_def)
  qed simp
  have "out ! i = uart_rx_rts_should_assert before (occs ! i) ring_size"
    unfolding out_def before_def using at [OF assms(3)] by simp
  then show ?thesis
    using w by (auto simp: out_def len uart_rx_rts_should_assert_def Let_def word_le_nat_alt occ_def)
qed

theorem rts_hysteresis_witness:
  "rts_samples 4096 True [3072, 2500, 2048] = [False, False, True] \<and>
   \<not> rts_samples 4096 True [3072, 2500, 2048] ! 1 \<and> rts_samples 4096 True [3072, 2500, 2048] ! 2"
proof -
  have e: "rts_samples 4096 True [3072, 2500, 2048] = [False, False, True]" by code_simp
  show ?thesis
    using rts_hysteresis [of 4096 2 "[3072, 2500, 2048]" True] e by simp
qed

text \<open>One TX launch carries at most the bytes that are queued and allowed, always at least one when the
  line is configured and bytes are queued, and, unless it is that single byte, no more than fit the wire-time
  budget. No product or conversion in the calculation wraps for frames of up to 4294967 bits and budgets of
  up to one second.\<close>

theorem tx_transfer_within_budget:
  fixes occupancy max_transfer :: size_t and rate :: u32
  assumes "unat bits \<le> 4294967" "unat budget_ms \<le> 1000"
  defines "n \<equiv> unat (uart_tx_transfer_bytes occupancy max_transfer rate bits budget_ms)"
  shows "n \<le> min (unat occupancy) (unat max_transfer) \<and>
    (n = 0 \<longleftrightarrow> occupancy = 0 \<or> max_transfer = 0 \<or> rate = 0 \<or> bits = 0 \<or> budget_ms = 0) \<and>
    (1 < n \<longrightarrow> n * unat bits * 1000 \<le> unat rate * unat budget_ms) \<and>
    (0 < n \<and> n < min (unat occupancy) (unat max_transfer) \<longrightarrow>
       unat rate * unat budget_ms < (n + 1) * unat bits * 1000)"
proof -
  let ?t = "if max_transfer > occupancy then occupancy else max_transfer"
  have ut: "unat ?t = min (unat occupancy) (unat max_transfer)"
    by (simp add: word_less_nat_alt min_def)
  have t0: "?t = 0 \<longleftrightarrow> occupancy = 0 \<or> max_transfer = 0"
  proof -
    have "?t = 0 \<longleftrightarrow> unat ?t = 0" by (simp only: unat_0_iff)
    also have "\<dots> \<longleftrightarrow> unat occupancy = 0 \<or> unat max_transfer = 0"
      unfolding ut by (simp only: min_def split: if_split) linarith
    finally show ?thesis by (simp only: unat_0_iff)
  qed
  show ?thesis
  proof (cases "?t = 0 \<or> rate = 0 \<or> bits = 0 \<or> budget_ms = 0")
    case True
    then have "n = 0" by (auto simp: n_def uart_tx_transfer_bytes_def Let_def)
    with True t0 show ?thesis by auto
  next
    case False
    define q where "q = unat rate * unat budget_ms div (1000 * unat bits)"
    define b where "b = (ucast ((ucast rate :: u64) * ucast budget_ms div ucast (1000 * bits)) :: size_t)"
    have k: "unat (1000 * bits) = 1000 * unat bits"
      using assms(1) by (subst unat_mult_u32) simp_all
    have bits: "0 < unat bits" using False by (simp add: unat_gt_0)
    have "q \<le> 4294967295 * 1000 div (1000 * unat bits)"
      unfolding q_def by (intro div_le_mono mult_le_mono unat_u32_le_max assms(2))
    also have "\<dots> \<le> 4294967295 * 1000 div 1000" using bits by (intro div_le_mono2) auto
    finally have q32: "q < 2 ^ 32" by simp
    have "unat ((ucast rate :: u64) * ucast budget_ms div ucast (1000 * bits)) = q"
      unfolding unat_div unat_u32_mult_u64 unat_ucast_u64 k q_def ..
    then have ub: "unat b = q"
      using q32 by (simp add: b_def unsigned_ucast_eq take_bit_nat_eq_self)
    have "uart_tx_transfer_bytes occupancy max_transfer rate bits budget_ms =
        (if ?t > (if b = 0 then 1 else b) then (if b = 0 then 1 else b) else ?t)"
      using False unfolding uart_tx_transfer_bytes_def Let_def b_def by simp
    then have n: "n = min (unat ?t) (max 1 q)"
      using ub by (auto simp: n_def word_less_nat_alt min_def max_def unat_0_iff [symmetric] simp del: unat_0_iff)
    have t: "0 < unat ?t" using False by (simp add: unat_gt_0)
    have qb: "q * unat bits * 1000 \<le> unat rate * unat budget_ms"
      unfolding q_def by (metis (no_types) div_times_less_eq_dividend mult.assoc mult.commute)
    have qh: "unat rate * unat budget_ms < (q + 1) * unat bits * 1000"
      using bits dividend_less_div_times [of "1000 * unat bits" "unat rate * unat budget_ms"]
      by (simp add: q_def algebra_simps)
    have "n * unat bits * 1000 \<le> unat rate * unat budget_ms" if "1 < n"
    proof -
      have "n \<le> q" using that n by auto
      then have "n * unat bits * 1000 \<le> q * unat bits * 1000" by simp
      with qb show ?thesis by linarith
    qed
    moreover have "unat rate * unat budget_ms < (n + 1) * unat bits * 1000" if "n < unat ?t"
    proof -
      have "q \<le> n" using that n by auto
      then have "(q + 1) * unat bits * 1000 \<le> (n + 1) * unat bits * 1000" by simp
      with qh show ?thesis by linarith
    qed
    moreover have "n \<le> unat ?t" "0 < n" using n t by simp_all
    ultimately show ?thesis
      using False t0 unfolding ut by auto
  qed
qed

theorem tx_transfer_witness:
  "uart_tx_transfer_bytes 4096 4096 115200 10 25 = 288 \<and>
   unat (uart_tx_transfer_bytes 4096 4096 115200 10 25) * 10 * 1000 \<le> 115200 * 25"
proof -
  have "uart_tx_transfer_bytes 4096 4096 115200 10 25 = 288" by code_simp
  then show ?thesis
    using tx_transfer_within_budget [of 10 25 4096 4096 115200] by simp
qed

end
