(* ===== verification/Dma_Progress.thy ===== *)
theory Dma_Progress
  imports Prelude "HOL-Library.While_Combinator"
begin

text \<open>
  RX DMA progress: \<open>firmware/src/uart/dma/progress_math.h\<close> and \<open>progress.h\<close>. The driver learns what the
  DMA engine has stored from the channel's countdown, which an interrupt or the poll re-arms when it is
  exhausted. \<open>count_max\<close> is the build's countdown (\<open>0xffffffff\<close> on the RP2040, \<open>0x0fffffff\<close> on the
  RP2350); the model covers both. Reads of the register and of the clock are the values of
  \<open>count_read\<close> and \<open>time_reached\<close> at the position of the read.
\<close>

section \<open>Progress arithmetic\<close>

abbreviation UART_DMA_RX_TRANSFER_COUNT_MAX_RP2040 :: u32
  where "UART_DMA_RX_TRANSFER_COUNT_MAX_RP2040 \<equiv> 0xFFFFFFFF"
abbreviation UART_DMA_RX_TRANSFER_COUNT_MASK_RP2350 :: u32
  where "UART_DMA_RX_TRANSFER_COUNT_MASK_RP2350 \<equiv> 0x0FFFFFFF"
abbreviation UART_DMA_RX_PAUSE_STABLE_SAMPLES :: u32
  where "UART_DMA_RX_PAUSE_STABLE_SAMPLES \<equiv> 3"

definition uart_dma_rx_bytes_produced :: "u32 \<Rightarrow> u32 \<Rightarrow> u32 \<Rightarrow> u32" where
  "uart_dma_rx_bytes_produced progress last_progress transfer_count_max =
     (if progress < last_progress then (transfer_count_max - last_progress) + progress
      else progress - last_progress)"

definition uart_dma_rx_mask_remaining :: "u32 \<Rightarrow> u32 \<Rightarrow> u32" where
  "uart_dma_rx_mask_remaining raw_transfer_count count_mask = raw_transfer_count AND count_mask"

definition uart_dma_rx_progress_from_remaining :: "u32 \<Rightarrow> u32 \<Rightarrow> u32" where
  "uart_dma_rx_progress_from_remaining remaining transfer_count_max = transfer_count_max - remaining"

definition uart_dma_rx_pause_progress_publishable :: "bool \<Rightarrow> bool" where
  "uart_dma_rx_pause_progress_publishable stabilized = stabilized"

text \<open>The two in-out cells are given and returned; a null pointer is \<open>None\<close>.\<close>

definition uart_dma_rx_paused_progress_sample ::
    "u32 \<Rightarrow> u32 option \<Rightarrow> u32 option \<Rightarrow> u32 \<Rightarrow> bool \<times> u32 option \<times> u32 option" where
  "uart_dma_rx_paused_progress_sample now last_sample stable_count needed =
     (if last_sample = None \<or> stable_count = None \<or> needed = 0 then (False, last_sample, stable_count)
      else if now = the last_sample
           then let stable_count = the stable_count + 1
                in (stable_count \<ge> needed, last_sample, Some stable_count)
           else (False, Some now, Some 0))"

section \<open>The channel\<close>

datatype pico_target = RP2040 | RP2350

definition uart_dma_rx_transfer_count_max :: "pico_target \<Rightarrow> u32" where
  "uart_dma_rx_transfer_count_max tgt =
     (case tgt of RP2040 \<Rightarrow> UART_DMA_RX_TRANSFER_COUNT_MAX_RP2040
      | RP2350 \<Rightarrow> UART_DMA_RX_TRANSFER_COUNT_MASK_RP2350)"

text \<open>\<open>dma_encode_transfer_count\<close> is the SDK's: it sets the mode bits of the RP2350 register.\<close>

definition uart_dma_rx_transfer_count_encoded :: "(u32 \<Rightarrow> u32) \<Rightarrow> pico_target \<Rightarrow> u32" where
  "uart_dma_rx_transfer_count_encoded dma_encode_transfer_count tgt =
     (case tgt of RP2040 \<Rightarrow> UART_DMA_RX_TRANSFER_COUNT_MAX_RP2040
      | RP2350 \<Rightarrow> dma_encode_transfer_count UART_DMA_RX_TRANSFER_COUNT_MASK_RP2350)"

definition uart_dma_rx_transfer_count_remaining :: "pico_target \<Rightarrow> u32 \<Rightarrow> u32" where
  "uart_dma_rx_transfer_count_remaining tgt transfer_count =
     (case tgt of
        RP2040 \<Rightarrow> uart_dma_rx_mask_remaining transfer_count UART_DMA_RX_TRANSFER_COUNT_MAX_RP2040
      | RP2350 \<Rightarrow> uart_dma_rx_mask_remaining transfer_count UART_DMA_RX_TRANSFER_COUNT_MASK_RP2350)"

definition uart_dma_rx_progress :: "pico_target \<Rightarrow> u32 \<Rightarrow> u32" where
  "uart_dma_rx_progress tgt transfer_count =
     uart_dma_rx_progress_from_remaining (uart_dma_rx_transfer_count_remaining tgt transfer_count)
       (uart_dma_rx_transfer_count_max tgt)"

text \<open>
  The wait for a paused count. The k-th pass of the loop asks the clock for the k-th time and reads
  the register for the k-th time; the first read, before the loop, has number 0. The loop has no bound of
  its own, so not leaving it is \<open>None\<close>. The busy waits only let time pass.
\<close>

partial_function (option) wait_paused_loop ::
    "pico_target \<Rightarrow> (nat \<Rightarrow> u32) \<Rightarrow> (nat \<Rightarrow> bool) \<Rightarrow> nat \<Rightarrow> u32 \<Rightarrow> u32 \<Rightarrow> bool option" where
  "wait_paused_loop tgt count_read time_reached k last_sample streak =
     (if \<not> time_reached k then
        let (done_now, last_sample', streak') =
              uart_dma_rx_paused_progress_sample
                (uart_dma_rx_transfer_count_remaining tgt (count_read (Suc k)))
                (Some last_sample) (Some streak) UART_DMA_RX_PAUSE_STABLE_SAMPLES
        in if done_now then Some (uart_dma_rx_pause_progress_publishable True)
           else wait_paused_loop tgt count_read time_reached (Suc k) (the last_sample') (the streak')
      else
        let (stabilized, last_sample', streak') =
              uart_dma_rx_paused_progress_sample
                (uart_dma_rx_transfer_count_remaining tgt (count_read (Suc k)))
                (Some last_sample) (Some streak) UART_DMA_RX_PAUSE_STABLE_SAMPLES
        in Some (uart_dma_rx_pause_progress_publishable stabilized))"

definition uart_dma_rx_wait_paused_progress_stable ::
    "pico_target \<Rightarrow> (nat \<Rightarrow> u32) \<Rightarrow> (nat \<Rightarrow> bool) \<Rightarrow> bool option" where
  "uart_dma_rx_wait_paused_progress_stable tgt count_read time_reached =
     wait_paused_loop tgt count_read time_reached 0
       (uart_dma_rx_transfer_count_remaining tgt (count_read 0)) 0"

section \<open>What the engine does\<close>

text \<open>
  The engine's side of the channel: it stores a byte and counts down while the count is not zero; an
  exhausted count is re-armed, by the interrupt or by the poll, to the full countdown.
\<close>

record dma_counter =
  dma_remaining :: nat
  dma_stored :: nat

inductive dma_step :: "nat \<Rightarrow> dma_counter \<Rightarrow> dma_counter \<Rightarrow> bool" for count_max where
  transfer: "dma_remaining c \<noteq> 0 \<Longrightarrow>
     dma_step count_max c (c\<lparr>dma_remaining := dma_remaining c - 1, dma_stored := dma_stored c + 1\<rparr>)"
| rearm: "dma_remaining c = 0 \<Longrightarrow> dma_step count_max c (c\<lparr>dma_remaining := count_max\<rparr>)"

inductive dma_steps :: "nat \<Rightarrow> dma_counter \<Rightarrow> dma_counter \<Rightarrow> bool" for count_max where
  refl: "dma_steps count_max c c"
| step: "dma_steps count_max c c' \<Longrightarrow> dma_step count_max c' c'' \<Longrightarrow> dma_steps count_max c c''"

lemma dma_steps_count:
  assumes "dma_steps M c c'" "dma_remaining c \<le> M"
  shows "dma_remaining c' \<le> M \<and> dma_stored c \<le> dma_stored c' \<and>
         (\<exists>k. dma_stored c' + (M - dma_remaining c) = dma_stored c + M * k + (M - dma_remaining c'))"
  using assms
proof (induction rule: dma_steps.induct)
  case (refl c)
  then show ?case by (intro conjI exI [of _ 0]) auto
next
  case (step c c' c'')
  then obtain k where k: "dma_remaining c' \<le> M" "dma_stored c \<le> dma_stored c'"
      "dma_stored c' + (M - dma_remaining c) = dma_stored c + M * k + (M - dma_remaining c')"
    by auto
  from step.hyps(2) show ?case
  proof (cases rule: dma_step.cases)
    case transfer
    then show ?thesis using k by (intro conjI exI [of _ k]) auto
  next
    case rearm
    then show ?thesis using k by (intro conjI exI [of _ "Suc k"]) auto
  qed
qed

text \<open>C4: The bytes the driver publishes between two samples of the countdown are exactly the bytes the
  engine stored in between, on both chips and whatever mode bits the register shows, as long as the
  engine stored less than one full countdown, in particular across one exhaustion and re-arm.\<close>

theorem bytes_produced_exact:
  assumes "dma_steps M c c'" "dma_remaining c \<le> M"
    and "dma_stored c' - dma_stored c < M"
    and "M = unat (uart_dma_rx_transfer_count_max tgt)"
    and "unat (uart_dma_rx_transfer_count_remaining tgt raw) = dma_remaining c"
    and "unat (uart_dma_rx_transfer_count_remaining tgt raw') = dma_remaining c'"
  shows "unat (uart_dma_rx_bytes_produced (uart_dma_rx_progress tgt raw') (uart_dma_rx_progress tgt raw)
                 (uart_dma_rx_transfer_count_max tgt)) = dma_stored c' - dma_stored c"
proof -
  let ?max = "uart_dma_rx_transfer_count_max tgt"
  obtain k where k: "dma_remaining c' \<le> M" "dma_stored c \<le> dma_stored c'"
      "dma_stored c' + (M - dma_remaining c) = dma_stored c + M * k + (M - dma_remaining c')"
    using dma_steps_count [OF assms(1,2)] by auto
  have p: "unat (uart_dma_rx_progress tgt raw) = M - dma_remaining c"
    "unat (uart_dma_rx_progress tgt raw') = M - dma_remaining c'"
    using assms(2,4-6) k(1)
    by (simp_all add: uart_dma_rx_progress_def uart_dma_rx_progress_from_remaining_def unat_sub word_le_nat_alt)
  have k1: "k = 0 \<or> k = 1"
  proof (rule ccontr)
    assume "\<not> (k = 0 \<or> k = 1)"
    then have "M * 2 \<le> M * k" by (intro mult_le_mono2) simp
    with k(3) assms(3) show False by linarith
  qed
  show ?thesis
  proof (cases "M - dma_remaining c' < M - dma_remaining c")
    case True
    with k(2,3) k1 have "k = 1" by auto
    have "unat (?max - uart_dma_rx_progress tgt raw) = dma_remaining c"
      using p(1) assms(2,4) by (simp add: unat_sub word_le_nat_alt)
    moreover from this have "unat ((?max - uart_dma_rx_progress tgt raw) + uart_dma_rx_progress tgt raw')
        = dma_remaining c + (M - dma_remaining c')"
      using p True assms(2,4) unat_u32_less [of ?max] by (subst unat_add_small) auto
    ultimately show ?thesis
      using True p k(3) \<open>k = 1\<close> assms(2)
      by (simp add: uart_dma_rx_bytes_produced_def word_less_nat_alt)
  next
    case False
    with k(3) assms(3) k1 have "k = 0" by auto
    with False show ?thesis
      using p k(2,3) by (simp add: uart_dma_rx_bytes_produced_def word_less_nat_alt unat_sub word_le_nat_alt)
  qed
qed


theorem bytes_produced_witness:
  "unat (uart_dma_rx_bytes_produced (uart_dma_rx_progress RP2350 0x0FFFFFFE)
     (uart_dma_rx_progress RP2350 0xF0000002) (uart_dma_rx_transfer_count_max RP2350)) = 3"
proof -
  let ?M = "268435455 :: nat"
  let ?c = "\<lambda>n m. \<lparr>dma_remaining = n, dma_stored = m\<rparr>"
  have t: "dma_step ?M (?c n m) (?c (n - 1) (m + 1))" if "n \<noteq> 0" for n m
    using dma_step.transfer [of "?c n m" ?M] that by simp
  have a: "dma_step ?M (?c 2 0) (?c (2 - 1) (0 + 1))" by (rule t) simp
  have b: "dma_step ?M (?c (2 - 1) (0 + 1)) (?c (2 - 1 - 1) (0 + 1 + 1))" by (rule t) simp
  have c: "dma_step ?M (?c (2 - 1 - 1) (0 + 1 + 1)) (?c ?M (0 + 1 + 1))"
    using dma_step.rearm [of "?c (2 - 1 - 1) (0 + 1 + 1)" ?M] by simp
  have d: "dma_step ?M (?c ?M (0 + 1 + 1)) (?c (?M - 1) (0 + 1 + 1 + 1))" by (rule t) simp
  note run = dma_steps.step [OF dma_steps.step [OF dma_steps.step [OF dma_steps.step [OF dma_steps.refl a] b] c] d]
  have r: "unat (uart_dma_rx_transfer_count_remaining RP2350 0xF0000002) = 2"
    "unat (uart_dma_rx_transfer_count_remaining RP2350 0x0FFFFFFE) = 268435454"
    by (simp_all add: uart_dma_rx_transfer_count_remaining_def uart_dma_rx_mask_remaining_def)
  have m: "?M = unat (uart_dma_rx_transfer_count_max RP2350)"
    by (simp add: uart_dma_rx_transfer_count_max_def)
  have "unat (uart_dma_rx_bytes_produced (uart_dma_rx_progress RP2350 0x0FFFFFFE)
      (uart_dma_rx_progress RP2350 0xF0000002) (uart_dma_rx_transfer_count_max RP2350))
      = dma_stored (?c (?M - 1) (0 + 1 + 1 + 1)) - dma_stored (?c 2 0)"
    by (rule bytes_produced_exact [OF run _ _ m]) (simp_all add: r)
  then show ?thesis by simp
qed

section \<open>Waiting for a stable count\<close>

text \<open>The last \<open>s + 1\<close> of the reads up to number \<open>k\<close> agree, and no more than that.\<close>

definition trailing_equal :: "(nat \<Rightarrow> u32) \<Rightarrow> nat \<Rightarrow> nat \<Rightarrow> bool" where
  "trailing_equal r k s \<longleftrightarrow> s \<le> k \<and> (\<forall>i \<le> s. r (k - i) = r k) \<and> (s < k \<longrightarrow> r (k - Suc s) \<noteq> r k)"

definition four_equal :: "(nat \<Rightarrow> u32) \<Rightarrow> nat \<Rightarrow> bool" where
  "four_equal r j \<longleftrightarrow> r (j + 1) = r j \<and> r (j + 2) = r j \<and> r (j + 3) = r j"

lemma trailing_next:
  assumes "trailing_equal r k s"
  shows "trailing_equal r (Suc k) (if r (Suc k) = r k then Suc s else 0)"
proof (cases "r (Suc k) = r k")
  case True
  have "r (Suc k - i) = r (Suc k)" if "i \<le> Suc s" for i
    using that assms True by (cases i) (auto simp: trailing_equal_def)
  with True assms show ?thesis by (auto simp: trailing_equal_def)
qed (simp add: trailing_equal_def)

lemma trailing_four:
  assumes "trailing_equal r (Suc k) s" "s \<le> 3"
  shows "(\<exists>j. k < j + 3 \<and> j + 3 \<le> Suc k \<and> four_equal r j) \<longleftrightarrow> s = 3"
proof
  assume "\<exists>j. k < j + 3 \<and> j + 3 \<le> Suc k \<and> four_equal r j"
  then obtain j where j0: "k < j + 3" "j + 3 \<le> Suc k" "four_equal r j" by blast
  then have j: "Suc k = j + 3" "four_equal r j" by linarith+
  show "s = 3"
  proof (rule ccontr)
    assume "s \<noteq> 3"
    with assms(2) j(1) have "s < Suc k" "s = 0 \<or> s = 1 \<or> s = 2" by auto
    with assms(1) j show False
      by (auto simp: trailing_equal_def four_equal_def numeral_2_eq_2 numeral_3_eq_3)
  qed
next
  assume s: "s = 3"
  then obtain j where j: "Suc k = j + 3" using assms(1) by (metis add.commute le_Suc_ex trailing_equal_def)
  have at: "r (Suc k - i) = r (Suc k)" if "i \<le> 3" for i
    using that s assms(1) by (simp add: trailing_equal_def)
  have "four_equal r j" using at [of 0] at [of 1] at [of 2] at [of 3] j by (simp add: four_equal_def)
  with j show "\<exists>j. k < j + 3 \<and> j + 3 \<le> Suc k \<and> four_equal r j" by (intro exI [of _ j]) simp
qed

lemma wait_paused_loop_spec:
  fixes count_read :: "nat \<Rightarrow> u32" and tgt :: pico_target
  defines "r \<equiv> \<lambda>k. uart_dma_rx_transfer_count_remaining tgt (count_read k)"
  assumes "k \<le> K" "\<forall>i. k \<le> i \<and> i < K \<longrightarrow> \<not> time_reached i" "time_reached K"
    and "trailing_equal r k s" "s < 3"
  shows "wait_paused_loop tgt count_read time_reached k (r k) (of_nat s)
           = Some (\<exists>j. k < j + 3 \<and> j + 3 \<le> Suc K \<and> four_equal r j)"
  using assms(2-)
proof (induction "K - k" arbitrary: k s)
  have rk: "uart_dma_rx_transfer_count_remaining tgt (count_read i) = r i" for i
    by (simp add: r_def)
  case 0
  then have k: "k = K" by simp
  let ?s = "if r (Suc k) = r k then Suc s else 0"
  have t: "trailing_equal r (Suc k) ?s" "?s \<le> 3"
    using trailing_next [OF 0(5)] 0(6) by auto
  have "s = 0 \<or> s = 1 \<or> s = 2" using 0(6) by auto
  then have sample: "uart_dma_rx_paused_progress_sample (r (Suc k)) (Some (r k)) (Some (of_nat s)) 3
      = (?s = 3, Some (r (Suc k)), Some (of_nat ?s))"
    by (auto simp: uart_dma_rx_paused_progress_sample_def word_le_nat_alt)
  then show ?case
    using trailing_four [OF t] 0(4) k
    by (subst wait_paused_loop.simps)
       (simp only: rk sample, simp add: uart_dma_rx_pause_progress_publishable_def)
next
  have rk: "uart_dma_rx_transfer_count_remaining tgt (count_read i) = r i" for i
    by (simp add: r_def)
  case (Suc n)
  then have lt: "k < K" by simp
  let ?s = "if r (Suc k) = r k then Suc s else 0"
  have t: "trailing_equal r (Suc k) ?s" "?s \<le> 3"
    using trailing_next [OF Suc(6)] Suc(7) by auto
  have "s = 0 \<or> s = 1 \<or> s = 2" using Suc(7) by auto
  then have sample: "uart_dma_rx_paused_progress_sample (r (Suc k)) (Some (r k)) (Some (of_nat s)) 3
      = (?s = 3, Some (r (Suc k)), Some (of_nat ?s))"
    by (auto simp: uart_dma_rx_paused_progress_sample_def word_le_nat_alt)
  have go: "wait_paused_loop tgt count_read time_reached k (r k) (of_nat s) =
      (if ?s = 3 then Some True
       else wait_paused_loop tgt count_read time_reached (Suc k) (r (Suc k)) (of_nat ?s))"
    using Suc(4) lt
    by (subst wait_paused_loop.simps)
       (simp only: rk sample, simp add: uart_dma_rx_pause_progress_publishable_def)
  show ?case
  proof (cases "?s = 3")
    case True
    then obtain j where "k < j + 3" "j + 3 \<le> Suc k" "four_equal r j"
      using trailing_four [OF t] by auto
    then show ?thesis using go True lt by auto
  next
    case False
    then have "?s < 3" using t(2) by simp
    then have "wait_paused_loop tgt count_read time_reached (Suc k) (r (Suc k)) (of_nat ?s)
        = Some (\<exists>j. Suc k < j + 3 \<and> j + 3 \<le> Suc K \<and> four_equal r j)"
      using Suc(2) Suc(4) Suc(5) lt t(1) by (intro Suc(1)) auto
    moreover have "(\<exists>j. k < j + 3 \<and> j + 3 \<le> Suc K \<and> four_equal r j) \<longleftrightarrow>
        (\<exists>j. Suc k < j + 3 \<and> j + 3 \<le> Suc K \<and> four_equal r j)"
    proof -
      have none: "\<not> (Suc k = j + 3 \<and> four_equal r j)" for j
        using trailing_four [OF t] False by auto
      show ?thesis by (intro ex_cong1) (metis Suc_lessD Suc_lessI none)
    qed
    ultimately show ?thesis using go False by simp
  qed
qed


text \<open>The wait for a paused countdown returns as soon as the clock reaches the deadline at some pass
  \<open>K\<close>, and it allows the count to be published exactly when some four consecutive reads, of
  those made up to the grace read of pass \<open>K\<close>, showed the same count; a count that was still moving
  is never published.\<close>

theorem wait_paused_exact:
  fixes count_read :: "nat \<Rightarrow> u32" and tgt :: pico_target
  assumes "time_reached K" "\<forall>i < K. \<not> time_reached i"
  defines "count \<equiv> \<lambda>k. uart_dma_rx_transfer_count_remaining tgt (count_read k)"
  shows "uart_dma_rx_wait_paused_progress_stable tgt count_read time_reached =
     Some (\<exists>j. j + 2 \<le> K \<and>
       count (j + 1) = count j \<and> count (j + 2) = count j \<and> count (j + 3) = count j)"
proof -
  have start: "trailing_equal count 0 0" by (simp add: trailing_equal_def)
  have "uart_dma_rx_wait_paused_progress_stable tgt count_read time_reached
      = wait_paused_loop tgt count_read time_reached 0 (count 0) (of_nat 0)"
    by (simp add: uart_dma_rx_wait_paused_progress_stable_def count_def)
  also have "\<dots> = Some (\<exists>j. 0 < j + 3 \<and> j + 3 \<le> Suc K \<and> four_equal count j)"
    unfolding count_def
    by (rule wait_paused_loop_spec) (use assms(1,2) start in \<open>simp_all add: count_def\<close>)
  also have "(\<exists>j. 0 < j + 3 \<and> j + 3 \<le> Suc K \<and> four_equal count j) \<longleftrightarrow> (\<exists>j. j + 2 \<le> K \<and>
       count (j + 1) = count j \<and> count (j + 2) = count j \<and> count (j + 3) = count j)"
    by (rule ex_cong1) (simp add: four_equal_def)
  finally show ?thesis .
qed

theorem wait_paused_witness:
  "uart_dma_rx_wait_paused_progress_stable RP2040 (\<lambda>k. if k < 2 then 9 else 7) (\<lambda>k. 4 \<le> k) = Some True \<and>
   uart_dma_rx_wait_paused_progress_stable RP2040 of_nat (\<lambda>k. 2 \<le> k) = Some False"
proof -
  let ?f = "\<lambda>k :: nat. if k < 2 then 9 else 7 :: u32"
  have "uart_dma_rx_wait_paused_progress_stable RP2040 ?f (\<lambda>k. 4 \<le> k) = Some True"
    by (subst wait_paused_exact [of _ 4]) (auto intro!: exI [of _ 2])
  moreover have "uart_dma_rx_wait_paused_progress_stable RP2040 of_nat (\<lambda>k. 2 \<le> k) = Some False"
    by (subst wait_paused_exact [of _ 2])
       (auto simp: uart_dma_rx_transfer_count_remaining_def uart_dma_rx_mask_remaining_def)
  ultimately show ?thesis by simp
qed

end
