(* ===== verification/Boot_Config.thy ===== *)
theory Boot_Config
  imports Prelude
begin

text \<open>
  The persistent boot settings, \<open>firmware/src/platform/boot_config.c\<close>: a 36-byte record with a CRC-32 at
  the start of the last flash sector, whose other bytes stay erased.

  A clock profile is the 32-bit value of its C enum, because the code casts unchecked host and flash values
  to it. The state holds the two static variables and the flash sector. What the SDK does to the sector is a
  parameter: \<open>flash_range_erase\<close> and \<open>flash_range_program\<close> are the two flash calls, and
  \<open>flash_safe_execute\<close> runs a function on the sector with the other core locked out, or fails.
  \<open>rp2350\<close> is the build's chip.
\<close>

section \<open>Types and state\<close>

abbreviation BOOT_CONFIG_SECTOR_SIZE :: u32 where "BOOT_CONFIG_SECTOR_SIZE \<equiv> 4096"
abbreviation BOOT_CONFIG_RECORD_SIZE :: u32 where "BOOT_CONFIG_RECORD_SIZE \<equiv> 36"
abbreviation FLASH_PAGE_SIZE :: nat where "FLASH_PAGE_SIZE \<equiv> 256"
abbreviation BOOT_CONFIG_PROFILE_UNAVAILABLE :: u32 where "BOOT_CONFIG_PROFILE_UNAVAILABLE \<equiv> UINT32_MAX"

type_synonym boot_clock_profile_t = u32

abbreviation BOOT_CLOCK_DEFAULT :: boot_clock_profile_t where "BOOT_CLOCK_DEFAULT \<equiv> 0"
abbreviation BOOT_CLOCK_250_MHZ :: boot_clock_profile_t where "BOOT_CLOCK_250_MHZ \<equiv> 3"
abbreviation BOOT_CLOCK_280_MHZ :: boot_clock_profile_t where "BOOT_CLOCK_280_MHZ \<equiv> 4"

datatype boot_config_source_t = BOOT_CONFIG_DEFAULTS | BOOT_CONFIG_STORED | BOOT_CONFIG_RECOVERY

datatype boot_config_reason_t = BOOT_CONFIG_OK | BOOT_CONFIG_ERASED | BOOT_CONFIG_INVALID_HEADER
  | BOOT_CONFIG_CRC_FAILED | BOOT_CONFIG_UNSUPPORTED_VERSION | BOOT_CONFIG_INVALID_PROFILE
  | BOOT_CONFIG_WATCHDOG_RECOVERY | BOOT_CONFIG_CLOCK_UNAVAILABLE

datatype boot_config_save_result_t = BOOT_CONFIG_SAVE_OK | BOOT_CONFIG_SAVE_FLASH_FAILED
  | BOOT_CONFIG_SAVE_VERIFY_FAILED

record boot_config_t =
  clock_profile :: boot_clock_profile_t

record boot_config_status_t =
  status_source :: boot_config_source_t
  status_reason :: boot_config_reason_t
  stored_profile :: u32
  active_profile :: boot_clock_profile_t

record boot_state =
  boot_config_settings :: boot_config_t
  boot_config_status :: boot_config_status_t
  flash_sector :: "u8 list"

section \<open>Operations\<close>

definition boot_clock_definitions :: "u32 list" where
  "boot_clock_definitions = [0, 150000, 200000, 250000, 280000]"

definition read_u32 :: "u8 list \<Rightarrow> nat \<Rightarrow> u32" where
  "read_u32 data off = ucast (data ! off) OR push_bit 8 (ucast (data ! (off + 1))) OR
     push_bit 16 (ucast (data ! (off + 2))) OR push_bit 24 (ucast (data ! (off + 3)))"

definition crc_bit :: "u32 \<Rightarrow> u32" where
  "crc_bit crc = drop_bit 1 crc XOR (0xEDB88320 AND (0 - (crc AND 1)))"

definition crc_byte :: "u32 \<Rightarrow> u8 \<Rightarrow> u32" where
  "crc_byte crc v = (crc_bit ^^ 8) (crc XOR ucast v)"

definition boot_config_crc32 :: "u8 list \<Rightarrow> u32" where
  "boot_config_crc32 data = foldl crc_byte UINT32_MAX data XOR UINT32_MAX"

definition boot_config_clock_khz :: "boot_clock_profile_t \<Rightarrow> u32" where
  "boot_config_clock_khz profile =
     (if profile < of_nat (length boot_clock_definitions) then boot_clock_definitions ! unat profile else 0)"

definition boot_config_profile_supported :: "u32 \<Rightarrow> bool" where
  "boot_config_profile_supported profile \<longleftrightarrow> profile < of_nat (length boot_clock_definitions)"

text \<open>The bytes of \<open>"PUCF"\<close>.\<close>

definition pucf :: "u8 list" where
  "pucf = [0x50, 0x55, 0x43, 0x46]"

text \<open>\<open>record\<close> is written in place at the start of the buffer.\<close>

definition boot_config_encode :: "u8 list \<Rightarrow> boot_clock_profile_t \<Rightarrow> u8 list" where
  "boot_config_encode buf profile =
     (let record = mem_write buf 0 (replicate 36 0);
          record = mem_write record 0 pucf;
          record = record[4 := 1, 6 := 32, 8 := 36, 32 := ucast profile];
          protected = mem_read record 0 12 @ mem_read record 16 20;
          crc = boot_config_crc32 protected
      in record[12 := ucast crc, 13 := ucast (drop_bit 8 crc), 14 := ucast (drop_bit 16 crc),
                15 := ucast (drop_bit 24 crc)])"

definition boot_config_decode :: "bool \<Rightarrow> u8 list option \<Rightarrow> u32 \<Rightarrow> bool \<Rightarrow> boot_config_status_t" where
  "boot_config_decode rp2350 sector n recovery =
     (let status = \<lparr>status_source = BOOT_CONFIG_DEFAULTS, status_reason = BOOT_CONFIG_INVALID_HEADER,
                    stored_profile = BOOT_CONFIG_PROFILE_UNAVAILABLE, active_profile = BOOT_CLOCK_DEFAULT\<rparr>
      in case sector of None \<Rightarrow> status
         | Some s \<Rightarrow>
             if n \<noteq> BOOT_CONFIG_SECTOR_SIZE then status
             else if list_all (\<lambda>i. s ! i = 0xFF) [0..<unat n] then status\<lparr>status_reason := BOOT_CONFIG_ERASED\<rparr>
             else if mem_read s 0 4 \<noteq> pucf then status
             else if s ! 4 \<noteq> 1 \<or> s ! 5 \<noteq> 0 then status\<lparr>status_reason := BOOT_CONFIG_UNSUPPORTED_VERSION\<rparr>
             else if s ! 6 \<noteq> 32 \<or> s ! 7 \<noteq> 0 \<or> read_u32 s 8 \<noteq> BOOT_CONFIG_RECORD_SIZE then status
             else let crc = foldl (\<lambda>crc i. if i < 12 \<or> 16 \<le> i then crc_byte crc (s ! i) else crc)
                              UINT32_MAX [0..<36]
             in if crc XOR UINT32_MAX \<noteq> read_u32 s 12 then status\<lparr>status_reason := BOOT_CONFIG_CRC_FAILED\<rparr>
             else if \<not> list_all (\<lambda>i. s ! i = 0) [16..<32] then status
             else if \<not> list_all (\<lambda>i. s ! i = 0xFF) [36..<unat n] then status
             else let profile = read_u32 s 32
             in if \<not> boot_config_profile_supported profile
                then status\<lparr>status_reason := BOOT_CONFIG_INVALID_PROFILE\<rparr>
             else let status = status\<lparr>stored_profile := profile, active_profile := profile\<rparr>;
                      status = (if \<not> rp2350 \<and> profile = BOOT_CLOCK_280_MHZ
                                then status\<lparr>active_profile := BOOT_CLOCK_250_MHZ\<rparr> else status);
                      status = status\<lparr>status_source := BOOT_CONFIG_STORED, status_reason := BOOT_CONFIG_OK\<rparr>
                  in if recovery \<and> profile \<noteq> BOOT_CLOCK_DEFAULT
                     then status\<lparr>active_profile := BOOT_CLOCK_DEFAULT, status_source := BOOT_CONFIG_RECOVERY,
                                 status_reason := BOOT_CONFIG_WATCHDOG_RECOVERY\<rparr>
                     else status)"

definition boot_config_load :: "bool \<Rightarrow> bool \<Rightarrow> boot_state \<Rightarrow> boot_state" where
  "boot_config_load rp2350 recovery st =
     (let status = boot_config_decode rp2350 (Some (flash_sector st)) BOOT_CONFIG_SECTOR_SIZE recovery
      in st\<lparr>boot_config_status := status,
            boot_config_settings := (boot_config_settings st)\<lparr>clock_profile :=
              (if stored_profile status = BOOT_CONFIG_PROFILE_UNAVAILABLE then BOOT_CLOCK_DEFAULT
               else stored_profile status)\<rparr>\<rparr>)"

definition boot_config_get :: "boot_state \<Rightarrow> boot_config_t" where
  "boot_config_get st = boot_config_settings st"

definition boot_config_get_status :: "boot_state \<Rightarrow> boot_config_status_t" where
  "boot_config_get_status st = boot_config_status st"

definition boot_config_set :: "boot_config_t option \<Rightarrow> boot_state \<Rightarrow> bool \<times> boot_state" where
  "boot_config_set config st =
     (case config of None \<Rightarrow> (False, st)
      | Some c \<Rightarrow> if \<not> boot_config_profile_supported (clock_profile c) then (False, st)
                  else (True, st\<lparr>boot_config_settings := c\<rparr>))"

definition boot_config_clock_unavailable :: "boot_state \<Rightarrow> boot_state" where
  "boot_config_clock_unavailable st = st\<lparr>boot_config_status := (boot_config_status st)\<lparr>
     active_profile := BOOT_CLOCK_DEFAULT, status_source := BOOT_CONFIG_DEFAULTS,
     status_reason := BOOT_CONFIG_CLOCK_UNAVAILABLE\<rparr>\<rparr>"

definition boot_config_program ::
    "(u8 list \<Rightarrow> u8 list) \<Rightarrow> (u8 list \<Rightarrow> u8 list \<Rightarrow> u8 list) \<Rightarrow> u8 list \<Rightarrow> u8 list \<Rightarrow> u8 list" where
  "boot_config_program flash_range_erase flash_range_program page sector =
     flash_range_program page (flash_range_erase sector)"

definition boot_config_save_with_result ::
    "bool \<Rightarrow> (u8 list \<Rightarrow> u8 list) \<Rightarrow> (u8 list \<Rightarrow> u8 list \<Rightarrow> u8 list) \<Rightarrow>
     ((u8 list \<Rightarrow> u8 list) \<Rightarrow> u8 list \<Rightarrow> bool \<times> u8 list) \<Rightarrow> boot_state \<Rightarrow>
       boot_config_save_result_t \<times> boot_state" where
  "boot_config_save_with_result rp2350 flash_range_erase flash_range_program flash_safe_execute st =
     (let profile = clock_profile (boot_config_settings st);
          page = boot_config_encode (replicate FLASH_PAGE_SIZE 0xFF) profile;
          stored = boot_config_decode rp2350 (Some (flash_sector st)) BOOT_CONFIG_SECTOR_SIZE False
      in if status_reason stored = BOOT_CONFIG_OK \<and> stored_profile stored = profile
         then (BOOT_CONFIG_SAVE_OK, st)
         else let (ok, sector) = flash_safe_execute
                    (boot_config_program flash_range_erase flash_range_program page) (flash_sector st);
                  st = st\<lparr>flash_sector := sector\<rparr>
              in if \<not> ok then (BOOT_CONFIG_SAVE_FLASH_FAILED, st)
                 else if mem_read sector 0 FLASH_PAGE_SIZE \<noteq> page then (BOOT_CONFIG_SAVE_VERIFY_FAILED, st)
                 else let stored = boot_config_decode rp2350 (Some sector) BOOT_CONFIG_SECTOR_SIZE False
                      in (if status_reason stored = BOOT_CONFIG_OK \<and> stored_profile stored = profile
                          then BOOT_CONFIG_SAVE_OK else BOOT_CONFIG_SAVE_VERIFY_FAILED, st))"

definition boot_config_save ::
    "bool \<Rightarrow> (u8 list \<Rightarrow> u8 list) \<Rightarrow> (u8 list \<Rightarrow> u8 list \<Rightarrow> u8 list) \<Rightarrow>
     ((u8 list \<Rightarrow> u8 list) \<Rightarrow> u8 list \<Rightarrow> bool \<times> u8 list) \<Rightarrow> boot_state \<Rightarrow> bool \<times> boot_state" where
  "boot_config_save rp2350 flash_range_erase flash_range_program flash_safe_execute st =
     (let (result, st) = boot_config_save_with_result rp2350 flash_range_erase flash_range_program
                           flash_safe_execute st
      in (result = BOOT_CONFIG_SAVE_OK, st))"


section \<open>Which sectors are accepted\<close>

lemma read_u32_bytes:
  "ucast (read_u32 s off) = s ! off"
  "ucast (drop_bit 8 (read_u32 s off)) = s ! (off + 1)"
  "ucast (drop_bit 16 (read_u32 s off)) = s ! (off + 2)"
  "ucast (drop_bit 24 (read_u32 s off)) = s ! (off + 3)"
  by (rule bit_word_eqI; auto simp: read_u32_def bit_simps dest: bit_imp_le_length)+

lemma read_u32_inj:
  assumes "read_u32 s off = read_u32 t off" "i < 4"
  shows "s ! (off + i) = t ! (off + i)"
proof -
  have "i = 0 \<or> i = 1 \<or> i = 2 \<or> i = 3" using assms(2) by auto
  then show ?thesis
    using read_u32_bytes [of s off] read_u32_bytes [of t off] assms(1) by (elim disjE) (simp_all only: add_0_right)
qed

text \<open>The conditions on the record bytes, and the CRC over them.\<close>

definition record_crc :: "u8 list \<Rightarrow> u32" where
  "record_crc s = foldl (\<lambda>crc i. if i < 12 \<or> 16 \<le> i then crc_byte crc (s ! i) else crc) UINT32_MAX [0..<36]
     XOR UINT32_MAX"

definition record_ok :: "u8 list \<Rightarrow> bool" where
  "record_ok s \<longleftrightarrow> s ! 0 = 0x50 \<and> s ! 1 = 0x55 \<and> s ! 2 = 0x43 \<and> s ! 3 = 0x46 \<and> s ! 4 = 1 \<and> s ! 5 = 0 \<and>
     s ! 6 = 32 \<and> s ! 7 = 0 \<and> read_u32 s 8 = 36 \<and> record_crc s = read_u32 s 12 \<and>
     list_all (\<lambda>i. s ! i = 0) [16..<32] \<and> boot_config_profile_supported (read_u32 s 32)"

lemma mem_read_pucf:
  assumes "36 \<le> length s"
  shows "mem_read s 0 4 = pucf \<longleftrightarrow> s ! 0 = 0x50 \<and> s ! 1 = 0x55 \<and> s ! 2 = 0x43 \<and> s ! 3 = 0x46"
proof -
  have "take 4 s = [s ! 0, s ! 1, s ! 2, s ! 3]"
    using assms by (intro nth_equalityI) (auto simp: less_Suc_eq numeral_eq_Suc)
  then show ?thesis by (simp add: mem_read_def pucf_def)
qed

text \<open>The outcome of a sector that passes every check.\<close>

definition accepted_status :: "bool \<Rightarrow> bool \<Rightarrow> u32 \<Rightarrow> boot_config_status_t" where
  "accepted_status rp2350 recovery profile =
     (if recovery \<and> profile \<noteq> 0
      then \<lparr>status_source = BOOT_CONFIG_RECOVERY, status_reason = BOOT_CONFIG_WATCHDOG_RECOVERY,
            stored_profile = profile, active_profile = 0\<rparr>
      else \<lparr>status_source = BOOT_CONFIG_STORED, status_reason = BOOT_CONFIG_OK, stored_profile = profile,
            active_profile = (if \<not> rp2350 \<and> profile = 4 then 3 else profile)\<rparr>)"

lemma decode_cases:
  assumes "length s = 4096"
  shows "if record_ok s \<and> (\<forall>i. 36 \<le> i \<and> i < 4096 \<longrightarrow> s ! i = 0xFF)
         then boot_config_decode rp2350 (Some s) 4096 recovery = accepted_status rp2350 recovery (read_u32 s 32)
         else status_source (boot_config_decode rp2350 (Some s) 4096 recovery) = BOOT_CONFIG_DEFAULTS \<and>
              status_reason (boot_config_decode rp2350 (Some s) 4096 recovery)
                \<notin> {BOOT_CONFIG_OK, BOOT_CONFIG_WATCHDOG_RECOVERY} \<and>
              stored_profile (boot_config_decode rp2350 (Some s) 4096 recovery) = BOOT_CONFIG_PROFILE_UNAVAILABLE \<and>
              active_profile (boot_config_decode rp2350 (Some s) 4096 recovery) = 0"
proof -
  have len: "36 \<le> length s" using assms by simp
  have un: "unat (4096 :: u32) = 4096" by simp
  define e where "e = list_all (\<lambda>i. s ! i = 0xFF) [0..<4096]"
  define z where "z = list_all (\<lambda>i. s ! i = 0) [16..<32]"
  define f where "f = list_all (\<lambda>i. s ! i = 0xFF) [36..<4096]"
  define c where "c = foldl (\<lambda>crc i. if i < 12 \<or> 16 \<le> i then crc_byte crc (s ! i) else crc) UINT32_MAX [0..<36]"
  have f_iff: "(\<forall>i. 36 \<le> i \<and> i < 4096 \<longrightarrow> s ! i = 0xFF) \<longleftrightarrow> f"
    unfolding f_def list_all_iff set_upt by auto
  have erased: "s ! 0 \<noteq> 0x50" if e
  proof -
    have "s ! 0 = 0xFF" using that unfolding e_def list_all_iff set_upt by simp
    then show ?thesis by simp
  qed
  show ?thesis
    unfolding boot_config_decode_def Let_def option.case un mem_read_pucf [OF len] record_ok_def record_crc_def
      f_iff e_def [symmetric] z_def [symmetric] f_def [symmetric] c_def [symmetric]
    using erased by (auto simp: accepted_status_def)
qed


text \<open>The sector a save leaves behind, and that it is the only one accepted for its profile.\<close>

definition saved_page :: "u32 \<Rightarrow> u8 list" where
  "saved_page profile = boot_config_encode (replicate FLASH_PAGE_SIZE 0xFF) profile"

definition saved_sector :: "u32 \<Rightarrow> u8 list" where
  "saved_sector profile = saved_page profile @ replicate 3840 0xFF"

lemma length_saved_page [simp]: "length (saved_page profile) = 256"
  by (simp add: saved_page_def boot_config_encode_def Let_def pucf_def)

lemma supported_cases:
  "boot_config_profile_supported p \<longleftrightarrow> p = 0 \<or> p = 1 \<or> p = 2 \<or> p = 3 \<or> p = 4"
proof
  assume "boot_config_profile_supported p"
  then have "unat p < 5" by (simp add: boot_config_profile_supported_def boot_clock_definitions_def word_less_nat_alt)
  then have "unat p = 0 \<or> unat p = 1 \<or> unat p = 2 \<or> unat p = 3 \<or> unat p = 4" by auto
  then show "p = 0 \<or> p = 1 \<or> p = 2 \<or> p = 3 \<or> p = 4" by (simp add: word_unat_eq_iff)
qed (auto simp: boot_config_profile_supported_def boot_clock_definitions_def word_less_nat_alt)

text \<open>The CRC over the record without its CRC field, as one fold over the protected bytes.\<close>

lemma foldl_nth:
  "m + n \<le> length s \<Longrightarrow> foldl (\<lambda>c i. f c (s ! i)) a [m..<m + n] = foldl f a (mem_read s m n)"
proof -
  assume "m + n \<le> length s"
  then have "mem_read s m n = map ((!) s) [m..<m + n]"
    by (intro nth_equalityI) (simp_all add: nth_mem_read)
  then show ?thesis by (simp add: foldl_map)
qed

lemma record_crc_protected:
  assumes "36 \<le> length s"
  shows "record_crc s = boot_config_crc32 (mem_read s 0 12 @ mem_read s 16 20)"
proof -
  let ?f = "\<lambda>crc i. if i < 12 \<or> 16 \<le> i then crc_byte crc (s ! i) else crc"
  have split: "[0..<36] = [0..<12] @ [12..<16] @ [16..<36 :: nat]" by code_simp
  have a: "foldl ?f x [0..<12] = foldl crc_byte x (mem_read s 0 12)" for x
  proof -
    have "foldl ?f x [0..<12] = foldl (\<lambda>c i. crc_byte c (s ! i)) x [0..<0 + 12]"
      by (intro foldl_cong) auto
    also have "\<dots> = foldl crc_byte x (mem_read s 0 12)" using assms by (intro foldl_nth) simp
    finally show ?thesis .
  qed
  have b: "foldl ?f x [12..<16] = x" for x
  proof -
    have "foldl ?f x [12..<16] = foldl (\<lambda>c i. c) x [12..<16]" by (intro foldl_cong) auto
    also have "\<dots> = x" by (induction "[12..<16 :: nat]" arbitrary: x) (simp_all add: upt_rec_numeral)
    finally show ?thesis .
  qed
  have c: "foldl ?f x [16..<36] = foldl crc_byte x (mem_read s 16 20)" for x
  proof -
    have "foldl ?f x [16..<36] = foldl (\<lambda>c i. crc_byte c (s ! i)) x [16..<16 + 20]"
      by (intro foldl_cong) auto
    also have "\<dots> = foldl crc_byte x (mem_read s 16 20)" using assms by (intro foldl_nth) simp
    finally show ?thesis .
  qed
  show ?thesis
    unfolding record_crc_def split foldl_append a b c boot_config_crc32_def ..
qed

lemma read_u32_of_bytes:
  assumes "s ! off = ucast w" "s ! (off + 1) = ucast (drop_bit 8 w)"
    "s ! (off + 2) = ucast (drop_bit 16 w)" "s ! (off + 3) = ucast (drop_bit 24 w)"
  shows "read_u32 s off = w"
proof (rule bit_word_eqI)
  fix n
  assume n: "n < LENGTH(32)"
  have c: "n < 8 \<or> 8 \<le> n \<and> n < 16 \<or> 16 \<le> n \<and> n < 24 \<or> 24 \<le> n \<and> n < 32" using n by auto
  then show "bit (read_u32 s off) n = bit w n"
    unfolding read_u32_def assms by (auto simp: bit_simps)
qed

text \<open>The record before its CRC field is filled in.\<close>

definition record_head :: "u8 \<Rightarrow> u8 list" where
  "record_head b = [0x50, 0x55, 0x43, 0x46, 1, 0, 32, 0, 36, 0, 0, 0, 0, 0, 0, 0, 0, 0, 0, 0, 0, 0, 0, 0,
                    0, 0, 0, 0, 0, 0, 0, 0, b, 0, 0, 0]"

lemma saved_page_eq:
  "saved_page p =
     (let record = record_head (ucast p) @ replicate 220 0xFF;
          crc = boot_config_crc32 (mem_read record 0 12 @ mem_read record 16 20)
      in record[12 := ucast crc, 13 := ucast (drop_bit 8 crc), 14 := ucast (drop_bit 16 crc),
                15 := ucast (drop_bit 24 crc)])"
proof -
  have "replicate 36 (0 :: u8) = [0, 0, 0, 0, 0, 0, 0, 0, 0, 0, 0, 0, 0, 0, 0, 0, 0, 0, 0, 0, 0, 0, 0, 0,
      0, 0, 0, 0, 0, 0, 0, 0, 0, 0, 0, 0]"
    by (simp add: numeral_eq_Suc)
  then have "(mem_write (mem_write (replicate 256 0xFF) 0 (replicate 36 0)) 0 pucf)
        [4 := 1, 6 := 32, 8 := 36, 32 := ucast p] = record_head (ucast p) @ replicate 220 0xFF"
    by (simp add: mem_write_def pucf_def record_head_def)
  then show ?thesis by (simp only: saved_page_def boot_config_encode_def Let_def)
qed

lemma saved_page_ok:
  assumes "boot_config_profile_supported p"
  shows "record_ok (saved_page p) \<and> read_u32 (saved_page p) 32 = p"
proof -
  define body where "body = record_head (ucast p) @ replicate 220 0xFF"
  define crc where "crc = boot_config_crc32 (mem_read body 0 12 @ mem_read body 16 20)"
  have len: "length body = 256" by (simp add: body_def record_head_def)
  have page: "saved_page p = body[12 := ucast crc, 13 := ucast (drop_bit 8 crc),
      14 := ucast (drop_bit 16 crc), 15 := ucast (drop_bit 24 crc)]"
    unfolding saved_page_eq Let_def body_def [symmetric] crc_def [symmetric] ..
  have at: "saved_page p ! i = body ! i" if "i < 12 \<or> 16 \<le> i" for i
    using that by (auto simp: page)
  have head: "body ! i = record_head (ucast p) ! i" if "i < 36" for i
  proof -
    have "length (record_head (ucast p)) = 36" by (simp add: record_head_def)
    with that show ?thesis by (simp add: body_def nth_append)
  qed
  have "mem_read (saved_page p) 0 12 @ mem_read (saved_page p) 16 20 = mem_read body 0 12 @ mem_read body 16 20"
  proof -
    have "mem_read (saved_page p) 0 12 = mem_read body 0 12" "mem_read (saved_page p) 16 20 = mem_read body 16 20"
      by (intro nth_equalityI; simp add: len nth_mem_read at)+
    then show ?thesis by simp
  qed
  then have "record_crc (saved_page p) = crc"
    by (simp add: record_crc_protected crc_def)
  moreover have "read_u32 (saved_page p) 12 = crc"
    by (rule read_u32_of_bytes) (simp_all add: page len)
  moreover have "read_u32 (saved_page p) 8 = 36" "read_u32 (saved_page p) 32 = p"
    using assms unfolding supported_cases
    by (auto simp: read_u32_def at head record_head_def)
  moreover have "list_all (\<lambda>i. saved_page p ! i = 0) [16..<32]"
    by (simp add: upt_rec_numeral at head record_head_def)
  ultimately show ?thesis
    using assms by (simp add: record_ok_def at head record_head_def)
qed

lemma saved_page_tail: "36 \<le> i \<Longrightarrow> i < 256 \<Longrightarrow> saved_page p ! i = 0xFF"
proof -
  assume i: "36 \<le> i" "i < 256"
  have "length (record_head (ucast p)) = 36" by (simp add: record_head_def)
  with i show ?thesis by (simp add: saved_page_eq Let_def nth_append)
qed

lemma record_ok_cong:
  assumes "\<And>i. i < 36 \<Longrightarrow> s ! i = t ! i"
  shows "record_ok s = record_ok t" "read_u32 s 32 = read_u32 t 32"
proof -
  have r: "read_u32 s off = read_u32 t off" if "off + 3 < 36" for off
    using that by (simp add: read_u32_def assms)
  have "record_crc s = record_crc t"
    unfolding record_crc_def by (intro arg_cong2 [where f = "(XOR)"] foldl_cong) (auto simp: assms)
  moreover have "list_all (\<lambda>i. s ! i = 0) [16..<32] = list_all (\<lambda>i. t ! i = 0) [16..<32]"
    by (intro list_all_cong) (auto simp: assms)
  ultimately show "record_ok s = record_ok t" by (simp add: record_ok_def assms r)
  show "read_u32 s 32 = read_u32 t 32" by (rule r) simp
qed

lemma record_ok_unique:
  assumes s: "record_ok s" and t: "record_ok t" and p: "read_u32 s 32 = read_u32 t 32" and i: "i < 36"
  shows "s ! i = t ! i"
proof -
  have head: "s ! i = t ! i" if "i < 8" for i
  proof -
    have "i = 0 \<or> i = 1 \<or> i = 2 \<or> i = 3 \<or> i = 4 \<or> i = 5 \<or> i = 6 \<or> i = 7" using that by auto
    then show ?thesis using s t by (auto simp: record_ok_def)
  qed
  have size: "s ! i = t ! i" if "8 \<le> i" "i < 12" for i
    using read_u32_inj [of s 8 t "i - 8"] s t that by (simp add: record_ok_def)
  have zero: "s ! i = t ! i" if "16 \<le> i" "i < 32" for i
  proof -
    have "list_all (\<lambda>i. s ! i = 0) [16..<32]" "list_all (\<lambda>i. t ! i = 0) [16..<32]"
      using s t unfolding record_ok_def by blast+
    then show ?thesis using that unfolding list_all_iff set_upt by auto
  qed
  have prof: "s ! i = t ! i" if "32 \<le> i" "i < 36" for i
    using read_u32_inj [OF p, of "i - 32"] that by simp
  have all: "s ! i = t ! i" if "i < 12 \<or> 16 \<le> i" "i < 36" for i
    using that head [of i] size [of i] zero [of i] prof [of i] by linarith
  have "record_crc s = record_crc t"
    unfolding record_crc_def by (intro arg_cong2 [where f = "(XOR)"] foldl_cong) (auto simp: all)
  then have "read_u32 s 12 = read_u32 t 12" using s t by (simp add: record_ok_def)
  then have "s ! i = t ! i" if "12 \<le> i" "i < 16" for i
    using read_u32_inj [of s 12 t "i - 12"] that by simp
  with all i show ?thesis by (meson not_le)
qed

lemma accepted_iff_saved:
  assumes "length s = 4096"
  shows "record_ok s \<and> (\<forall>i. 36 \<le> i \<and> i < 4096 \<longrightarrow> s ! i = 0xFF) \<longleftrightarrow>
         boot_config_profile_supported (read_u32 s 32) \<and> s = saved_sector (read_u32 s 32)"
proof
  assume a: "record_ok s \<and> (\<forall>i. 36 \<le> i \<and> i < 4096 \<longrightarrow> s ! i = 0xFF)"
  let ?p = "read_u32 s 32"
  have sup: "boot_config_profile_supported ?p" using a by (simp add: record_ok_def)
  have "s ! i = saved_sector ?p ! i" if "i < 4096" for i
  proof (cases "i < 36")
    case True
    have "s ! i = saved_page ?p ! i"
      using saved_page_ok [OF sup] a True by (intro record_ok_unique) simp_all
    with True show ?thesis by (simp add: saved_sector_def nth_append)
  next
    case False
    with a that show ?thesis by (simp add: saved_sector_def nth_append saved_page_tail)
  qed
  then have "s = saved_sector ?p"
    using assms by (intro nth_equalityI) (simp_all add: saved_sector_def)
  with sup show "boot_config_profile_supported ?p \<and> s = saved_sector ?p" by blast
next
  assume a: "boot_config_profile_supported (read_u32 s 32) \<and> s = saved_sector (read_u32 s 32)"
  let ?p = "read_u32 s 32"
  have at: "s ! i = (saved_page ?p @ replicate 3840 0xFF) ! i" for i
    using a unfolding saved_sector_def by simp
  have "record_ok s = record_ok (saved_page ?p)"
    by (rule record_ok_cong) (simp add: at nth_append)
  then have "record_ok s" using saved_page_ok a by blast
  moreover have "s ! i = 0xFF" if "36 \<le> i" "i < 4096" for i
    using that by (subst at) (simp add: nth_append saved_page_tail)
  ultimately show "record_ok s \<and> (\<forall>i. 36 \<le> i \<and> i < 4096 \<longrightarrow> s ! i = 0xFF)" by blast
qed


section \<open>The CRC tells two records apart that differ in one byte\<close>

lemma xor_cancel_right: "(a :: u32) XOR c = b XOR c \<longleftrightarrow> a = b"
proof
  assume "a XOR c = b XOR c"
  then have "(a XOR c) XOR c = (b XOR c) XOR c" by (rule arg_cong)
  then show "a = b" by (simp add: xor.assoc)
qed simp

lemma xor_cancel_left: "(c :: u32) XOR a = c XOR b \<longleftrightarrow> a = b"
  using xor_cancel_right [of a c b] by (simp add: xor.commute)

lemma crc_bit_top: "bit (crc_bit x) 31 \<longleftrightarrow> bit x 0"
proof -
  have "bit (0 - (x AND 1)) n \<longleftrightarrow> bit x 0" if "n < 32" for n
  proof (cases "bit x 0")
    case True
    then have "x AND 1 = 1" by (intro bit_word_eqI) (auto simp: bit_simps bit_1_iff)
    with that show ?thesis using True by (simp add: bit_simps)
  next
    case False
    then have "x AND 1 = 0" by (intro bit_word_eqI) (auto simp: bit_simps bit_1_iff intro!: gr0I)
    with False show ?thesis by simp
  qed
  moreover have "bit (0xEDB88320 :: u32) 31" by (simp add: bit_numeral_rec)
  moreover have "\<not> bit (drop_bit 1 x) 31" by (auto simp: bit_simps dest: bit_imp_le_length)
  ultimately show ?thesis by (simp add: crc_bit_def bit_simps)
qed

lemma inj_crc_bit: "inj crc_bit"
proof (rule injI)
  fix x y
  assume eq: "crc_bit x = crc_bit y"
  then have b0: "bit x 0 \<longleftrightarrow> bit y 0" using crc_bit_top by metis
  then have "x AND 1 = y AND 1" by (intro bit_word_eqI) (auto simp: bit_simps bit_1_iff)
  with eq have "drop_bit 1 x XOR (0xEDB88320 AND (0 - (y AND 1)))
      = drop_bit 1 y XOR (0xEDB88320 AND (0 - (y AND 1)))"
    by (simp add: crc_bit_def)
  then have "drop_bit 1 x = drop_bit 1 y" by (simp only: xor_cancel_right)
  then have "bit x (Suc n) \<longleftrightarrow> bit y (Suc n)" for n by (drule_tac arg_cong [where f = "\<lambda>w. bit w n"]) (simp add: bit_drop_bit_eq)
  with b0 have "bit x n \<longleftrightarrow> bit y n" for n by (cases n) auto
  then show "x = y" by (intro bit_word_eqI) blast
qed

lemma crc_byte_inj: "crc_byte c v = crc_byte c' v' \<longleftrightarrow> c XOR ucast v = c' XOR ucast v'"
proof -
  have "inj (crc_bit ^^ 8)" using inj_crc_bit by (rule inj_fn)
  then show ?thesis by (simp add: crc_byte_def inj_eq)
qed

lemma foldl_crc_inj: "foldl crc_byte c xs = foldl crc_byte c' xs \<longleftrightarrow> c = c'"
proof (induction xs arbitrary: c c')
  case (Cons x xs)
  show ?case using Cons by (simp add: crc_byte_inj xor_cancel_right)
qed simp

lemma ucast_ucast_b8: "(ucast (ucast (b :: u8) :: u32) :: u8) = b"
  by (rule bit_word_eqI) (auto simp: bit_simps)

lemma crc32_single_byte:
  assumes "boot_config_crc32 (xs @ [b] @ ys) = boot_config_crc32 (xs @ [b'] @ ys)"
  shows "b = b'"
proof -
  let ?c = "foldl crc_byte UINT32_MAX xs"
  have "foldl crc_byte (crc_byte ?c b) ys = foldl crc_byte (crc_byte ?c b') ys"
    using assms by (simp add: boot_config_crc32_def xor_cancel_right)
  then have "?c XOR ucast b = ?c XOR ucast b'" by (simp add: foldl_crc_inj crc_byte_inj)
  then have "(ucast b :: u32) = ucast b'" by (simp only: xor_cancel_left)
  then have "(ucast (ucast b :: u32) :: u8) = ucast (ucast b' :: u32)" by (rule arg_cong)
  then show ?thesis by (simp add: ucast_ucast_b8)
qed


section \<open>Properties\<close>

lemma saved_page_crc_single:
  assumes "boot_config_profile_supported p" "boot_config_profile_supported q"
    and "\<forall>j < 36. j \<noteq> i \<longrightarrow> saved_page p ! j = saved_page q ! j"
  shows "p = q"
proof (cases "i = 32")
  case False
  have "ucast p = (ucast q :: u8)"
    using assms(3) False read_u32_bytes(1) [of "saved_page p" 32] read_u32_bytes(1) [of "saved_page q" 32]
      saved_page_ok [OF assms(1)] saved_page_ok [OF assms(2)] by simp
  moreover have "(ucast p :: u8) = ucast q \<Longrightarrow> p = q"
    using assms(1,2) unfolding supported_cases by auto
  ultimately show ?thesis by blast
next
  case True
  have same: "mem_read (saved_page p) m n = mem_read (saved_page q) m n" if "m + n \<le> 32" for m n
    using that assms(3) True by (intro nth_equalityI) (simp_all add: nth_mem_read)
  have parts: "mem_read s 0 12 @ mem_read s 16 20
      = (mem_read s 0 12 @ mem_read s 16 16) @ [s ! 32] @ [s ! 33, s ! 34, s ! 35]"
    if "36 \<le> length s" for s :: "u8 list"
  proof -
    have "mem_read s 16 20 = mem_read s 16 16 @ mem_read s (16 + 16) 4"
      using that by (subst mem_read_append) simp_all
    moreover have "mem_read s 32 4 = [s ! 32, s ! 33, s ! 34, s ! 35]"
      using that by (intro nth_equalityI) (auto simp: nth_mem_read less_Suc_eq numeral_eq_Suc)
    ultimately show ?thesis by simp
  qed
  have "record_crc (saved_page p) = record_crc (saved_page q)"
    using saved_page_ok [OF assms(1)] saved_page_ok [OF assms(2)] assms(3) True
    by (simp add: record_ok_def) (simp add: read_u32_def)
  moreover have "record_crc (saved_page p) = boot_config_crc32 ((mem_read (saved_page q) 0 12 @ mem_read (saved_page q) 16 16) @
      [saved_page p ! 32] @ [saved_page q ! 33, saved_page q ! 34, saved_page q ! 35])"
    using same [of 0 12] same [of 16 16] assms(3) True parts [of "saved_page p"]
    by (simp add: record_crc_protected)
  moreover have "record_crc (saved_page q) = boot_config_crc32 ((mem_read (saved_page q) 0 12 @ mem_read (saved_page q) 16 16) @
      [saved_page q ! 32] @ [saved_page q ! 33, saved_page q ! 34, saved_page q ! 35])"
    using parts [of "saved_page q"] by (simp add: record_crc_protected)
  ultimately have "saved_page p ! 32 = saved_page q ! 32"
    by (metis crc32_single_byte)
  with assms(3) True have "read_u32 (saved_page p) 32 = read_u32 (saved_page q) 32"
    by (simp add: read_u32_def)
  then show ?thesis using saved_page_ok [OF assms(1)] saved_page_ok [OF assms(2)] by simp
qed

text \<open>C19: The boot record is exact. A flash sector is accepted exactly when it is, byte for byte, the sector
  that a save of some supported profile leaves; every other sector, and so every accepted sector with any
  single byte changed, selects the default clock and reports no stored profile.\<close>

theorem boot_decode_accepts_exactly_saved:
  fixes rp2350 :: bool
  assumes "length s = 4096"
  defines "status \<equiv> \<lambda>s. boot_config_decode rp2350 (Some s) BOOT_CONFIG_SECTOR_SIZE False"
  shows "(status_reason (status s) = BOOT_CONFIG_OK \<longleftrightarrow>
            (\<exists>p. boot_config_profile_supported p \<and> s = saved_sector p)) \<and>
         (status_reason (status s) \<noteq> BOOT_CONFIG_OK \<longrightarrow>
            active_profile (status s) = BOOT_CLOCK_DEFAULT \<and>
            stored_profile (status s) = BOOT_CONFIG_PROFILE_UNAVAILABLE) \<and>
         (status_reason (status s) = BOOT_CONFIG_OK \<longrightarrow>
            (\<forall>i < 4096. \<forall>b. b \<noteq> s ! i \<longrightarrow> status_reason (status (s[i := b])) \<noteq> BOOT_CONFIG_OK))"
proof -
  have ok: "status_reason (status t) = BOOT_CONFIG_OK \<longleftrightarrow> (\<exists>p. boot_config_profile_supported p \<and> t = saved_sector p)"
    if len: "length t = 4096" for t
  proof -
    have "record_ok t \<and> (\<forall>i. 36 \<le> i \<and> i < 4096 \<longrightarrow> t ! i = 0xFF) \<longleftrightarrow>
        (\<exists>p. boot_config_profile_supported p \<and> t = saved_sector p)"
    proof -
      have "read_u32 (saved_sector p) 32 = p" if "boot_config_profile_supported p" for p
        using saved_page_ok [OF that] record_ok_cong(2) [of "saved_sector p" "saved_page p"]
        by (simp add: saved_sector_def nth_append)
      then show ?thesis unfolding accepted_iff_saved [OF len] by metis
    qed
    then show ?thesis
      using decode_cases [OF len, of rp2350 False] by (auto simp: status_def accepted_status_def split: if_splits)
  qed
  moreover have "status_reason (status s) \<noteq> BOOT_CONFIG_OK \<longrightarrow>
      active_profile (status s) = BOOT_CLOCK_DEFAULT \<and> stored_profile (status s) = BOOT_CONFIG_PROFILE_UNAVAILABLE"
    using decode_cases [OF assms(1), of rp2350 False] by (auto simp: status_def accepted_status_def split: if_splits)
  moreover have "status_reason (status (s[i := b])) \<noteq> BOOT_CONFIG_OK"
    if acc: "status_reason (status s) = BOOT_CONFIG_OK" and i: "i < 4096" "b \<noteq> s ! i" for i b
  proof
    assume acc': "status_reason (status (s[i := b])) = BOOT_CONFIG_OK"
    obtain p where p: "boot_config_profile_supported p" "s = saved_sector p"
      using ok [OF assms(1)] acc by blast
    obtain q where q: "boot_config_profile_supported q" "s[i := b] = saved_sector q"
      using ok [of "s[i := b]"] assms(1) acc' by auto
    have "saved_page p ! j = saved_page q ! j" if "j < 36" "j \<noteq> i" for j
    proof -
      have "saved_page p ! j = s ! j" using that p(2) by (simp add: saved_sector_def nth_append)
      also have "\<dots> = s[i := b] ! j" using that by simp
      also have "\<dots> = saved_page q ! j"
        unfolding q(2) using that by (simp add: saved_sector_def nth_append)
      finally show ?thesis .
    qed
    then have "p = q" using saved_page_crc_single [OF p(1) q(1)] by blast
    then have "s[i := b] ! i = s ! i" using p(2) q(2) by simp
    with i assms(1) show False by simp
  qed
  ultimately show ?thesis using assms(1) by blast
qed

theorem boot_decode_witness:
  "status_reason (boot_config_decode False (Some (saved_sector 3)) 4096 False) = BOOT_CONFIG_OK \<and>
   status_reason (boot_config_decode False (Some ((saved_sector 3)[100 := 0])) 4096 False) \<noteq> BOOT_CONFIG_OK"
proof -
  have len: "length (saved_sector 3) = 4096" by (simp add: saved_sector_def)
  have sup: "boot_config_profile_supported 3" by (simp add: supported_cases)
  have "saved_sector 3 ! 100 = 0xFF" by (simp add: saved_sector_def nth_append saved_page_tail)
  then show ?thesis
    using boot_decode_accepts_exactly_saved [OF len, of False] sup by auto
qed


text \<open>The flash of the board: an erased sector is all ones, programming clears bits of the first page.\<close>

definition board_erase :: "u8 list \<Rightarrow> u8 list" where
  "board_erase sector = replicate (length sector) 0xFF"

definition board_program :: "u8 list \<Rightarrow> u8 list \<Rightarrow> u8 list" where
  "board_program page sector = map2 (AND) page (take 256 sector) @ drop 256 sector"

lemma read_u32_saved_sector:
  "boot_config_profile_supported p \<Longrightarrow> read_u32 (saved_sector p) 32 = p"
  using saved_page_ok [of p] record_ok_cong(2) [of "saved_sector p" "saved_page p"]
  by (simp add: saved_sector_def nth_append)

lemma decode_saved_sector:
  assumes "boot_config_profile_supported p"
  shows "boot_config_decode rp2350 (Some (saved_sector p)) 4096 recovery = accepted_status rp2350 recovery p"
proof -
  have len: "length (saved_sector p) = 4096" by (simp add: saved_sector_def)
  have "record_ok (saved_sector p) \<and> (\<forall>i. 36 \<le> i \<and> i < 4096 \<longrightarrow> saved_sector p ! i = 0xFF)"
    unfolding accepted_iff_saved [OF len] read_u32_saved_sector [OF assms] using assms by simp
  then show ?thesis
    using decode_cases [OF len, of rp2350 recovery] read_u32_saved_sector [OF assms] by simp
qed

lemma decode_ok_sector:
  assumes "length s = 4096" "status_reason (boot_config_decode rp2350 (Some s) 4096 False) = BOOT_CONFIG_OK"
    and "stored_profile (boot_config_decode rp2350 (Some s) 4096 False) = p"
  shows "boot_config_profile_supported p \<and> s = saved_sector p"
proof -
  have r: "record_ok s \<and> (\<forall>i. 36 \<le> i \<and> i < 4096 \<longrightarrow> s ! i = 0xFF)"
    using decode_cases [OF assms(1), of rp2350 False] assms(2) by (auto split: if_splits)
  then have "read_u32 s 32 = p"
    using decode_cases [OF assms(1), of rp2350 False] assms(3) by (simp add: accepted_status_def)
  then show ?thesis using r accepted_iff_saved [OF assms(1)] by blast
qed

lemma load_saved:
  assumes "boot_config_profile_supported p" "flash_sector st = saved_sector p"
  shows "clock_profile (boot_config_settings (boot_config_load rp2350 recovery st)) = p"
    "boot_config_status (boot_config_load rp2350 recovery st) = accepted_status rp2350 recovery p"
  using assms decode_saved_sector [OF assms(1), of rp2350 recovery]
  by (auto simp: boot_config_load_def Let_def accepted_status_def supported_cases)

text \<open>C20: Settings survive a reboot. When the flash calls behave as documented (an erased sector is all ones,
  programming a page clears bits of it, and the flash-safe call runs the operation), saving a supported profile
  succeeds from any previous sector, and the next boot loads exactly that profile as the setting, in
  recovery boots too, where it is kept but not applied.\<close>

theorem boot_save_load_roundtrip:
  fixes rp2350 recovery :: bool
  assumes "length (flash_sector st) = 4096" "boot_config_profile_supported (clock_profile (boot_config_settings st))"
    and erase: "\<And>s. length s = 4096 \<Longrightarrow> erase s = replicate 4096 0xFF"
    and program: "\<And>page s. length page = 256 \<Longrightarrow> length s = 4096 \<Longrightarrow>
           program page s = map2 (AND) page (take 256 s) @ drop 256 s"
    and execute: "\<And>f s. execute f s = (True, f s)"
  defines "saved \<equiv> boot_config_save_with_result rp2350 erase program execute st"
  shows "fst saved = BOOT_CONFIG_SAVE_OK \<and>
    clock_profile (boot_config_settings (boot_config_load rp2350 recovery (snd saved)))
      = clock_profile (boot_config_settings st) \<and>
    active_profile (boot_config_status (boot_config_load rp2350 recovery (snd saved)))
      = (if recovery then BOOT_CLOCK_DEFAULT
         else if \<not> rp2350 \<and> clock_profile (boot_config_settings st) = BOOT_CLOCK_280_MHZ then BOOT_CLOCK_250_MHZ
         else clock_profile (boot_config_settings st))"
proof -
  let ?p = "clock_profile (boot_config_settings st)"
  let ?stored = "boot_config_decode rp2350 (Some (flash_sector st)) BOOT_CONFIG_SECTOR_SIZE False"
  have and_ff: "map2 (AND) xs (replicate (length xs) (0xFF :: u8)) = xs" for xs
  proof (induction xs)
    case (Cons x xs)
    have "x AND 0xFF = x" by (intro bit_word_eqI) (auto simp: bit_simps bit_numeral_rec numeral_eq_Suc less_Suc_eq)
    with Cons show ?case by simp
  qed simp
  have written: "boot_config_program erase program (saved_page ?p) (flash_sector st) = saved_sector ?p"
    using and_ff [of "saved_page ?p"]
    by (simp add: boot_config_program_def erase [OF assms(1)] program saved_sector_def)
  have res: "fst saved = BOOT_CONFIG_SAVE_OK \<and> flash_sector (snd saved) = saved_sector ?p"
  proof (cases "status_reason ?stored = BOOT_CONFIG_OK \<and> stored_profile ?stored = ?p")
    case True
    then show ?thesis
      using decode_ok_sector [OF assms(1), of rp2350 ?p]
      by (simp add: saved_def boot_config_save_with_result_def Let_def)
  next
    case False
    have "mem_read (saved_sector ?p) 0 FLASH_PAGE_SIZE = saved_page ?p"
      by (simp add: mem_read_def saved_sector_def)
    then show ?thesis
      using decode_saved_sector [OF assms(2), of rp2350 False] written
      unfolding saved_def boot_config_save_with_result_def Let_def if_not_P [OF False]
      by (simp add: execute saved_page_def [symmetric] accepted_status_def)
  qed
  have "boot_config_profile_supported ?p" by (rule assms(2))
  with res show ?thesis
    using load_saved [of ?p "snd saved" rp2350 recovery] by (auto simp: accepted_status_def)
qed

theorem boot_save_load_witness:
  "let st = \<lparr>boot_config_settings = \<lparr>clock_profile = 2\<rparr>,
             boot_config_status = boot_config_decode True None 0 False, flash_sector = replicate 4096 7\<rparr>
   in fst (boot_config_save_with_result True board_erase board_program (\<lambda>f s. (True, f s)) st) = BOOT_CONFIG_SAVE_OK"
  using boot_save_load_roundtrip [of "\<lparr>boot_config_settings = \<lparr>clock_profile = 2\<rparr>,
      boot_config_status = boot_config_decode True None 0 False, flash_sector = replicate 4096 7\<rparr>"
      board_erase board_program "\<lambda>f s. (True, f s)" True False]
  by (simp add: Let_def board_erase_def board_program_def supported_cases)

text \<open>What a boot loads: supported profiles, whatever the sector holds.\<close>

lemma load_profiles:
  assumes "length (flash_sector st) = 4096"
  shows "boot_config_profile_supported (clock_profile (boot_config_settings (boot_config_load rp recovery st))) \<and>
    boot_config_profile_supported (active_profile (boot_config_status (boot_config_load rp recovery st))) \<and>
    (\<not> rp \<longrightarrow> active_profile (boot_config_status (boot_config_load rp recovery st)) \<noteq> BOOT_CLOCK_280_MHZ) \<and>
    (recovery \<longrightarrow> active_profile (boot_config_status (boot_config_load rp recovery st)) = BOOT_CLOCK_DEFAULT)"
proof -
  let ?d = "boot_config_decode rp (Some (flash_sector st)) BOOT_CONFIG_SECTOR_SIZE recovery"
  have "(\<exists>p. boot_config_profile_supported p \<and> ?d = accepted_status rp recovery p) \<or>
      stored_profile ?d = BOOT_CONFIG_PROFILE_UNAVAILABLE \<and> active_profile ?d = 0"
    using decode_cases [OF assms, of rp recovery] accepted_iff_saved [OF assms]
    by (auto split: if_splits)
  then show ?thesis
  proof (elim disjE exE conjE)
    fix p assume p: "boot_config_profile_supported p" and d: "?d = accepted_status rp recovery p"
    have s: "boot_config_profile_supported 0" "boot_config_profile_supported 3" "p \<noteq> BOOT_CONFIG_PROFILE_UNAVAILABLE"
      using p by (auto simp: supported_cases)
    have l: "boot_config_status (boot_config_load rp recovery st) = accepted_status rp recovery p"
      unfolding boot_config_load_def Let_def d by simp
    have "stored_profile (accepted_status rp recovery p) = p" by (simp add: accepted_status_def)
    then have c: "clock_profile (boot_config_settings (boot_config_load rp recovery st)) = p"
      unfolding boot_config_load_def Let_def d using s(3) by simp
    show ?thesis unfolding l c using p s by (simp add: accepted_status_def)
  next
    assume d: "stored_profile ?d = BOOT_CONFIG_PROFILE_UNAVAILABLE" "active_profile ?d = 0"
    have l: "active_profile (boot_config_status (boot_config_load rp recovery st)) = 0"
      unfolding boot_config_load_def Let_def using d(2) by simp
    have c: "clock_profile (boot_config_settings (boot_config_load rp recovery st)) = 0"
      unfolding boot_config_load_def Let_def using d(1) by simp
    show ?thesis unfolding l c by (simp add: supported_cases)
  qed
qed

text \<open>Booting is safe whatever the flash holds and however a save went wrong: the loaded setting and the
  applied profile are always supported ones, an RP2040 never applies the 280 MHz profile, a watchdog
  recovery boot always applies the default clock, and a save reports success only if the next boot will
  load the saved profile, even when the flash operation failed, stopped half way or wrote other bytes.\<close>

theorem boot_load_safe:
  fixes rp2350 recovery :: bool and erase :: "u8 list \<Rightarrow> u8 list"
    and program :: "u8 list \<Rightarrow> u8 list \<Rightarrow> u8 list"
  assumes "length (flash_sector st) = 4096"
    and len: "\<And>f s. length s = 4096 \<Longrightarrow> length (snd (execute f s)) = 4096"
  defines "st' \<equiv> boot_config_load rp2350 recovery st"
    and "saved \<equiv> boot_config_save_with_result rp2350 erase program execute st"
  shows "boot_config_profile_supported (clock_profile (boot_config_settings st')) \<and>
    boot_config_profile_supported (active_profile (boot_config_status st')) \<and>
    (\<not> rp2350 \<longrightarrow> active_profile (boot_config_status st') \<noteq> BOOT_CLOCK_280_MHZ) \<and>
    (recovery \<longrightarrow> active_profile (boot_config_status st') = BOOT_CLOCK_DEFAULT) \<and>
    (fst saved = BOOT_CONFIG_SAVE_OK \<longrightarrow>
       clock_profile (boot_config_settings (boot_config_load rp2350 recovery (snd saved)))
         = clock_profile (boot_config_settings st))"
proof -
  note load_profiles [OF assms(1), of rp2350 recovery, folded st'_def]
  moreover have "clock_profile (boot_config_settings (boot_config_load rp2350 recovery (snd saved)))
      = clock_profile (boot_config_settings st)" if ok: "fst saved = BOOT_CONFIG_SAVE_OK"
  proof -
    have "flash_sector (snd saved) = flash_sector st \<or>
        (\<exists>f. flash_sector (snd saved) = snd (execute f (flash_sector st)))"
      by (auto simp: saved_def boot_config_save_with_result_def Let_def case_prod_beta)
    then have sector: "length (flash_sector (snd saved)) = 4096"
      using assms(1) len [OF assms(1)] by auto
    have "status_reason (boot_config_decode rp2350 (Some (flash_sector (snd saved))) 4096 False) = BOOT_CONFIG_OK \<and>
        stored_profile (boot_config_decode rp2350 (Some (flash_sector (snd saved))) 4096 False)
          = clock_profile (boot_config_settings st)"
      using ok by (auto simp: saved_def boot_config_save_with_result_def Let_def split: prod.splits if_splits)
    then show ?thesis
      using decode_ok_sector [OF sector] load_saved by metis
  qed
  ultimately show ?thesis by blast
qed

theorem boot_load_safe_witness:
  "let st = \<lparr>boot_config_settings = \<lparr>clock_profile = 2\<rparr>,
             boot_config_status = boot_config_decode False None 0 False, flash_sector = replicate 4096 7\<rparr>
   in boot_config_profile_supported (active_profile (boot_config_status (boot_config_load False True st)))"
  using boot_load_safe [of "\<lparr>boot_config_settings = \<lparr>clock_profile = 2\<rparr>,
      boot_config_status = boot_config_decode False None 0 False, flash_sector = replicate 4096 7\<rparr>"
      "\<lambda>f s. (False, s)" False True]
  by (simp add: Let_def supported_cases)

end
