(* ===== verification/Bridge.thy ===== *)
theory Bridge
  imports Ring_Loops
begin

text \<open>
  The byte pumps between a port's rings and the USB side, \<open>firmware/src/uart/bridge.c\<close>. They run on
  core 0 while core 1 and the DMA engines go on working on the same memory: between any two accesses the
  rest of the system takes a step \<open>env\<close>, any number of its own operations, on the ring, the port's
  statistics sequence and everything else it owns. \<open>env\<close> is asked for its n-th step by number.
\<close>

section \<open>The shared memory\<close>

record 'e bridge_world =
  br_ring :: ring_buffer_t
  br_stats_sequence :: u32
  br_other :: 'e
  br_steps :: nat

type_synonym 'e bridge_env = "nat \<Rightarrow> 'e bridge_world \<Rightarrow> 'e bridge_world"

definition interfere :: "'e bridge_env \<Rightarrow> 'e bridge_world \<Rightarrow> 'e bridge_world" where
  "interfere env w = (env (br_steps w) w)\<lparr>br_steps := Suc (br_steps w)\<rparr>"

text \<open>
  The copy out of the ring's storage, byte by byte, the environment moving before each load. \<open>off\<close>
  is the span's address in the storage, \<open>i\<close> the index of the next byte.
\<close>

primrec snapshot_copy :: "'e bridge_env \<Rightarrow> nat \<Rightarrow> nat \<Rightarrow> nat \<Rightarrow> u8 list \<Rightarrow> 'e bridge_world \<Rightarrow>
    u8 list \<times> 'e bridge_world" where
  "snapshot_copy env off i 0 snapshot w = (snapshot, w)"
| "snapshot_copy env off i (Suc n) snapshot w =
     (let w = interfere env w
      in snapshot_copy env off (Suc i) n (snapshot[i := the (storage (br_ring w)) ! (off + i)]) w)"

section \<open>Draining\<close>

text \<open>
  The loop body of \<open>uart_bridge_drain_rx\<close> up to the call of the writer, in three stretches: the span is
  reserved and its size limited; the bytes are copied under an even statistics sequence; the copy is
  validated. \<open>Drain_Stop\<close> leaves the loop.
\<close>

datatype drain_verdict = Drain_Stop | Drain_Offer size_t

definition bridge_offer :: "size_t \<Rightarrow> size_t \<Rightarrow> size_t \<Rightarrow> ring_buffer_span_t \<Rightarrow> u32" where
  "bridge_offer capacity total_written snapshot_capacity span =
     (let offered = span_length span;
          offered = (if capacity \<noteq> 0 \<and> offered > capacity - total_written
                     then capacity - total_written else offered)
      in if offered > snapshot_capacity then snapshot_capacity else offered)"

definition snapshot_valid ::
    "'e bridge_env \<Rightarrow> ('e bridge_world \<Rightarrow> u32 \<Rightarrow> bool) \<Rightarrow> u32 \<Rightarrow> u32 \<Rightarrow> 'e bridge_world \<Rightarrow>
       bool \<times> 'e bridge_world" where
  "snapshot_valid env snapshot_is_current consumer_sequence initial_stats_sequence w =
     (let w = interfere env w
      in if \<not> ring_buffer_read_span_is_current (br_ring w) then (False, w)
         else let w = interfere env w
              in if \<not> snapshot_is_current w consumer_sequence then (False, w)
         else let w = interfere env w
              in (br_stats_sequence w = initial_stats_sequence, w))"

definition bridge_take_snapshot ::
    "'e bridge_env \<Rightarrow> ('e bridge_world \<Rightarrow> u32 \<Rightarrow> bool) \<Rightarrow> size_t \<Rightarrow> size_t \<Rightarrow> size_t \<Rightarrow> u8 list \<Rightarrow>
       'e bridge_world \<Rightarrow> drain_verdict \<times> u8 list \<times> 'e bridge_world" where
  "bridge_take_snapshot env snapshot_is_current capacity snapshot_capacity total_written snapshot w =
     (let w = interfere env w;
          (span, ring) = ring_buffer_read_span (br_ring w);
          w = w\<lparr>br_ring := ring\<rparr>
      in if span_length span = 0 then (Drain_Stop, snapshot, w)
         else let offered = bridge_offer capacity total_written snapshot_capacity span;
                  w = interfere env w;
                  consumer_sequence = consumer_reserved_sequence (br_ring w);
                  w = interfere env w;
                  initial_stats_sequence = br_stats_sequence w
              in if initial_stats_sequence AND 1 \<noteq> 0 then (Drain_Stop, snapshot, w)
                 else let (snapshot, w) = snapshot_copy env (unat (the (span_data span))) 0 (unat offered) snapshot w;
                          (valid, w) = snapshot_valid env snapshot_is_current consumer_sequence
                                         initial_stats_sequence w
                      in if \<not> valid
                         then (Drain_Stop, snapshot,
                               (interfere env w)\<lparr>br_ring := snd (ring_buffer_recover_overflow
                                                    (br_ring (interfere env w)))\<rparr>)
                         else (Drain_Offer offered, snapshot, w))"

text \<open>
  The loop. With a capacity it is bounded by it; without one it runs while bytes keep coming, so the number of
  passes is limited by \<open>fuel\<close>, and \<open>None\<close> says that more were needed. The writer gets the offered bytes.
\<close>

primrec bridge_drain_loop ::
    "nat \<Rightarrow> 'e bridge_env \<Rightarrow> ('c \<Rightarrow> u8 list \<Rightarrow> u32 \<times> 'c) \<Rightarrow> ('e bridge_world \<Rightarrow> u32 \<Rightarrow> bool) \<Rightarrow>
       size_t \<Rightarrow> size_t \<Rightarrow> size_t \<Rightarrow> u8 list \<Rightarrow> 'c \<Rightarrow> 'e bridge_world \<Rightarrow>
       (size_t \<times> u8 list \<times> 'c \<times> 'e bridge_world) option" where
  "bridge_drain_loop 0 env writer snapshot_is_current capacity snapshot_capacity total_written snapshot ctx w
     = None"
| "bridge_drain_loop (Suc fuel) env writer snapshot_is_current capacity snapshot_capacity total_written
       snapshot ctx w =
     (if \<not> (capacity = 0 \<or> total_written < capacity) then Some (total_written, snapshot, ctx, w)
      else case bridge_take_snapshot env snapshot_is_current capacity snapshot_capacity total_written snapshot w of
        (Drain_Stop, snapshot, w) \<Rightarrow> Some (total_written, snapshot, ctx, w)
      | (Drain_Offer offered, snapshot, w) \<Rightarrow>
          let (written, ctx) = writer ctx (take (unat offered) snapshot);
              w = interfere env w
          in if written = 0 then Some (total_written, snapshot, ctx, w)
             else if written > offered then Some (total_written, snapshot, ctx, w)
             else let (committed, ring) = ring_buffer_commit_snapshot_consumed (br_ring w) written;
                      w = w\<lparr>br_ring := ring\<rparr>
                  in if \<not> committed then Some (total_written, snapshot, ctx, w)
                     else if written < offered then Some (total_written + written, snapshot, ctx, w)
                     else bridge_drain_loop fuel env writer snapshot_is_current capacity snapshot_capacity
                            (total_written + written) snapshot ctx w)"

definition uart_bridge_drain_rx ::
    "nat \<Rightarrow> 'e bridge_env \<Rightarrow> size_t \<Rightarrow> ('c \<Rightarrow> u8 list \<Rightarrow> u32 \<times> 'c) option \<Rightarrow> 'c \<Rightarrow> u8 list option \<Rightarrow> size_t \<Rightarrow>
       ('e bridge_world \<Rightarrow> u32 \<Rightarrow> bool) option \<Rightarrow> 'e bridge_world \<Rightarrow>
       (size_t \<times> u8 list option \<times> 'c \<times> 'e bridge_world) option" where
  "uart_bridge_drain_rx fuel env capacity writer ctx snapshot snapshot_capacity snapshot_is_current w =
     (case (writer, snapshot, snapshot_is_current) of
        (Some write, Some buf, Some current) \<Rightarrow>
          if snapshot_capacity = 0 then Some (0, snapshot, ctx, w)
          else let w = interfere env w;
                   w = w\<lparr>br_ring := snd (ring_buffer_recover_overflow (br_ring w))\<rparr>
               in map_option (\<lambda>(n, buf, ctx, w). (n, Some buf, ctx, w))
                    (bridge_drain_loop fuel env write current capacity snapshot_capacity 0 buf ctx w)
      | _ \<Rightarrow> Some (0, snapshot, ctx, w))"

definition uart_bridge_recover_rx :: "'e bridge_world \<Rightarrow> size_t \<times> 'e bridge_world" where
  "uart_bridge_recover_rx w =
     (let (n, ring) = ring_buffer_recover_overflow (br_ring w) in (n, w\<lparr>br_ring := ring\<rparr>))"

section \<open>Filling\<close>

text \<open>The reader stores into the span it is given: it returns the bytes it stored and the count it reports.\<close>

primrec bridge_fill_loop ::
    "nat \<Rightarrow> 'e bridge_env \<Rightarrow> ('c \<Rightarrow> u32 \<Rightarrow> u8 list \<times> u32 \<times> 'c) \<Rightarrow> size_t \<Rightarrow> size_t \<Rightarrow> 'c \<Rightarrow>
       'e bridge_world \<Rightarrow> (size_t \<times> 'c \<times> 'e bridge_world) option" where
  "bridge_fill_loop 0 env reader capacity total_read ctx w = None"
| "bridge_fill_loop (Suc fuel) env reader capacity total_read ctx w =
     (if \<not> (capacity = 0 \<or> total_read < capacity) then Some (total_read, ctx, w)
      else let w = interfere env w;
               (span, ring) = ring_buffer_write_span (br_ring w);
               w = w\<lparr>br_ring := ring\<rparr>
           in if span_length span = 0 then Some (total_read, ctx, w)
              else let offered = span_length span;
                       offered = (if capacity \<noteq> 0 \<and> offered > capacity - total_read
                                  then capacity - total_read else offered);
                       w = interfere env w;
                       (bytes, count, ctx) = reader ctx offered;
                       w = w\<lparr>br_ring := span_store (br_ring w) span bytes\<rparr>
                   in if count = 0 then Some (total_read, ctx, w)
                      else if count > offered then Some (total_read, ctx, w)
                      else let w = interfere env w;
                               (committed, ring) = ring_buffer_commit_produced (br_ring w) count;
                               w = w\<lparr>br_ring := ring\<rparr>
                           in if \<not> committed then Some (total_read, ctx, w)
                              else if count < offered then Some (total_read + count, ctx, w)
                              else bridge_fill_loop fuel env reader capacity (total_read + count) ctx w)"

definition uart_bridge_fill_tx ::
    "nat \<Rightarrow> 'e bridge_env \<Rightarrow> size_t \<Rightarrow> ('c \<Rightarrow> u32 \<Rightarrow> u8 list \<times> u32 \<times> 'c) option \<Rightarrow> 'c \<Rightarrow> 'e bridge_world \<Rightarrow>
       (size_t \<times> 'c \<times> 'e bridge_world) option" where
  "uart_bridge_fill_tx fuel env capacity reader ctx w =
     (case reader of None \<Rightarrow> Some (0, ctx, w)
      | Some read \<Rightarrow> bridge_fill_loop fuel env read capacity 0 ctx w)"

end
