(* ===== verification/Bridge_Properties.thy ===== *)
theory Bridge_Properties
  imports Bridge Ring_Properties
begin

text \<open>
  The byte pumps of \<open>Bridge\<close> under interference: a drain always comes back and never offers a torn
  snapshot, a fill loses nothing. Paths of environment steps (\<open>rx_path\<close>, \<open>tx_step\<close>) carry the proofs.
\<close>

section \<open>Bounds\<close>

lemma bridge_offer_le:
  "bridge_offer capacity total_written snapshot_capacity span \<le> span_length span"
  "bridge_offer capacity total_written snapshot_capacity span \<le> snapshot_capacity"
  "capacity \<noteq> 0 \<Longrightarrow> bridge_offer capacity total_written snapshot_capacity span \<le> capacity - total_written"
  by (auto simp: bridge_offer_def Let_def not_less)

lemma take_snapshot_offer:
  assumes "bridge_take_snapshot env cur capacity snapcap tot snap w = (Drain_Offer offered, snap', w')"
  shows "offered \<le> snapcap \<and> (capacity \<noteq> 0 \<longrightarrow> offered \<le> capacity - tot)"
  using assms bridge_offer_le
  by (auto simp: bridge_take_snapshot_def Let_def split: prod.splits if_splits)

lemma budget_step:
  assumes "(n :: u32) \<noteq> 0" "n \<le> capacity - tot" "tot \<le> capacity"
  shows "tot + n \<le> capacity \<and> unat (capacity - (tot + n)) < unat (capacity - tot)"
  using assms unat_u32_le_max [of capacity]
  by (simp add: word_le_nat_alt unat_arith_simps) (auto split: if_splits)

text \<open>C17: A drain with a capacity always comes back, whatever the rest of the system does meanwhile: as many
  passes as the capacity has bytes are enough, and it never reports more than the capacity.\<close>

theorem bridge_drain_bounded:
  fixes env :: "'e bridge_env" and ctx :: 'c
  assumes "capacity \<noteq> 0" "unat capacity < fuel"
  shows "\<exists>n snap' ctx' w'. uart_bridge_drain_rx fuel env capacity writer ctx snap snapcap cur w
           = Some (n, snap', ctx', w') \<and> n \<le> capacity"
proof -
  have loop: "\<exists>n snap' ctx' w'. bridge_drain_loop fuel env wr cr capacity snapcap tot buf ctx w
      = Some (n, snap', ctx', w') \<and> n \<le> capacity"
    if "tot \<le> capacity" "unat (capacity - tot) < fuel" for fuel wr cr tot buf and ctx :: 'c and w :: "'e bridge_world"
    using that
  proof (induction fuel arbitrary: tot buf ctx w)
    case (Suc fuel)
    show ?case
    proof (cases "bridge_take_snapshot env cr capacity snapcap tot buf w")
      case (fields verdict buf1 w1)
      show ?thesis
      proof (cases verdict)
        case Drain_Stop
        then show ?thesis using Suc.prems by (simp add: fields not_less)
      next
        case (Drain_Offer offered)
        obtain written ctx1 where wr: "wr ctx (take (unat offered) buf1) = (written, ctx1)" by fastforce
        obtain committed ring where c: "ring_buffer_commit_snapshot_consumed (br_ring (interfere env w1)) written
            = (committed, ring)" by fastforce
        have off: "offered \<le> capacity - tot"
          using take_snapshot_offer fields Drain_Offer assms(1) by blast
        have less: "tot + written \<le> capacity \<and> unat (capacity - (tot + written)) < fuel"
          if "written \<noteq> 0" "\<not> offered < written"
        proof -
          have "written \<le> capacity - tot" using that(2) off by simp
          from budget_step [OF that(1) this Suc.prems(1)] Suc.prems(2) show ?thesis by linarith
        qed
        show ?thesis
          using Suc.prems less Suc.IH
          by (auto simp: fields Drain_Offer wr c Let_def not_less)
      qed
    qed
  qed simp
  show ?thesis
    using loop [of 0 fuel] assms
    by (auto simp: uart_bridge_drain_rx_def Let_def split: option.splits)
       blast
qed

theorem bridge_drain_bounded_witness:
  "\<exists>n snap' ctx' w'. uart_bridge_drain_rx 4 (\<lambda>k w. w) 3 (Some (\<lambda>c bs. (of_nat (length bs), c @ bs))) [] (Some [0, 0]) 2
     (Some (\<lambda>w c. True)) \<lparr>br_ring = sample_ring, br_stats_sequence = 0, br_other = (), br_steps = 0\<rparr>
     = Some (n, snap', ctx', w') \<and> n \<le> 3"
  by (rule bridge_drain_bounded) simp_all

section \<open>Genuine bytes\<close>

text \<open>
  What the rest of the system does with the ring, told with ghost counts of the part \<open>br_other\<close>: \<open>stream\<close> is
  the sequence of bytes the DMA engine receives since the port was last started, \<open>live\<close> how many of
  them it has stored, \<open>pub\<close> how many the worker has published, \<open>epoch\<close> the statistics sequence before
  wrapping, odd while the worker updates the port.
\<close>

record 'e rx_ghost =
  stream :: "'e \<Rightarrow> nat \<Rightarrow> u8"
  live :: "'e \<Rightarrow> nat"
  pub :: "'e \<Rightarrow> nat"
  epoch :: "'e \<Rightarrow> nat"

definition rx_stored :: "'e rx_ghost \<Rightarrow> 'e \<Rightarrow> ring_buffer_t \<Rightarrow> bool" where
  "rx_stored g e r \<longleftrightarrow> (\<forall>k. k < live g e \<and> live g e \<le> k + rb_capacity r \<longrightarrow>
     the (storage r) ! (k mod rb_capacity r) = stream g e k)"

definition rx_good :: "'e rx_ghost \<Rightarrow> 'e bridge_world \<Rightarrow> bool" where
  "rx_good g w \<longleftrightarrow> ring_wf (br_ring w) \<and> producer (br_ring w) = of_nat (pub g (br_other w)) \<and>
     rb_distance (br_ring w) \<le> pub g (br_other w) \<and>
     pub g (br_other w) \<le> live g (br_other w) \<and> live g (br_other w) - pub g (br_other w) < 2 ^ 31 \<and>
     br_stats_sequence w = of_nat (epoch g (br_other w)) \<and> rx_stored g (br_other w) (br_ring w)"

text \<open>The engine alone at work: bytes are stored, nothing else moves.\<close>

definition rx_quiet :: "'e rx_ghost \<Rightarrow> 'e bridge_world \<Rightarrow> 'e bridge_world \<Rightarrow> bool" where
  "rx_quiet g w w' \<longleftrightarrow> (\<exists>s. br_ring w' = br_ring w\<lparr>storage := s\<rparr>) \<and>
     pub g (br_other w') = pub g (br_other w) \<and> stream g (br_other w') = stream g (br_other w) \<and>
     live g (br_other w) \<le> live g (br_other w')"

text \<open>The reader's side of the ring is left alone, or the ring is cleared.\<close>

definition rx_held :: "'e rx_ghost \<Rightarrow> 'e bridge_world \<Rightarrow> 'e bridge_world \<Rightarrow> bool" where
  "rx_held g w w' \<longleftrightarrow> ring_size (br_ring w') = ring_size (br_ring w) \<and>
     (consumer_reserved_count (br_ring w') = 0 \<or>
      consumer (br_ring w') = consumer (br_ring w) \<and>
      consumer_reserved_sequence (br_ring w') = consumer_reserved_sequence (br_ring w) \<and>
      consumer_reserved_count (br_ring w') = consumer_reserved_count (br_ring w) \<and>
      pub g (br_other w) \<le> pub g (br_other w'))"

text \<open>One step, which publishes at most \<open>b\<close> bytes and moves the sequence by at most \<open>b\<close>.\<close>

definition rx_env :: "'e rx_ghost \<Rightarrow> nat \<Rightarrow> 'e bridge_env \<Rightarrow> bool" where
  "rx_env g b env \<longleftrightarrow> (\<forall>n w. rx_good g w \<longrightarrow> rx_good g (env n w) \<and> rx_held g w (env n w) \<and>
     epoch g (br_other w) \<le> epoch g (br_other (env n w)) \<and>
     epoch g (br_other (env n w)) \<le> epoch g (br_other w) + b \<and>
     pub g (br_other (env n w)) \<le> pub g (br_other w) + b \<and>
     (even (epoch g (br_other w)) \<and> epoch g (br_other (env n w)) = epoch g (br_other w) \<longrightarrow>
        rx_quiet g w (env n w)))"

text \<open>What a path of such steps guarantees.\<close>

definition rx_path :: "'e rx_ghost \<Rightarrow> nat \<Rightarrow> 'e bridge_world \<Rightarrow> 'e bridge_world \<Rightarrow> bool" where
  "rx_path g m w w' \<longleftrightarrow> rx_good g w' \<and> rx_held g w w' \<and> epoch g (br_other w) \<le> epoch g (br_other w') \<and>
     epoch g (br_other w') \<le> epoch g (br_other w) + m \<and> pub g (br_other w') \<le> pub g (br_other w) + m \<and>
     (even (epoch g (br_other w)) \<and> epoch g (br_other w') = epoch g (br_other w) \<longrightarrow> rx_quiet g w w')"

lemma rx_quiet_refl: "rx_quiet g w w"
proof -
  have "br_ring w = br_ring w\<lparr>storage := storage (br_ring w)\<rparr>" by simp
  then have "\<exists>s. br_ring w = br_ring w\<lparr>storage := s\<rparr>" by (rule exI)
  then show ?thesis by (simp add: rx_quiet_def)
qed

lemma rx_quiet_trans: "rx_quiet g u v \<Longrightarrow> rx_quiet g v w \<Longrightarrow> rx_quiet g u w"
  by (auto simp: rx_quiet_def)

lemma rx_held_trans: "rx_held g u v \<Longrightarrow> rx_held g v w \<Longrightarrow> rx_held g u w"
  by (auto simp: rx_held_def)

lemma rx_path_refl: "rx_good g w \<Longrightarrow> rx_path g 0 w w"
  by (simp add: rx_path_def rx_quiet_refl) (simp add: rx_held_def)

lemma rx_path_trans:
  assumes "rx_path g m u v" "rx_path g n v w"
  shows "rx_path g (m + n) u w"
  using assms rx_quiet_trans [of g u v w] rx_held_trans [of g u v w] unfolding rx_path_def by auto

lemma rx_good_steps [simp]: "rx_good g (w\<lparr>br_steps := n\<rparr>) = rx_good g w"
  by (simp add: rx_good_def)

lemma interfere_path: "rx_env g b env \<Longrightarrow> rx_good g w \<Longrightarrow> rx_path g b w (interfere env w)"
  unfolding rx_env_def rx_path_def interfere_def by (simp add: rx_held_def rx_quiet_def)

lemma interfere_good: "rx_env g b env \<Longrightarrow> rx_good g w \<Longrightarrow> rx_good g (interfere env w)"
  using interfere_path [of g b env w] by (simp add: rx_path_def)

text \<open>The copy: what it loaded is right if the engine has not come round to it by the end.\<close>

lemma snapshot_copy_path:
  assumes "rx_env g b env" "rx_good g w"
  shows "rx_path g (b * n) w (snd (snapshot_copy env off i n snap w)) \<and>
         length (fst (snapshot_copy env off i n snap w)) = length snap \<and>
         (\<forall>j < i. fst (snapshot_copy env off i n snap w) ! j = snap ! j)"
  using assms(2)
proof (induction n arbitrary: i snap w)
  case (Suc n)
  note p = interfere_path [OF assms(1) Suc.prems]
  from Suc.IH [of "interfere env w"] interfere_good [OF assms(1) Suc.prems] rx_path_trans [OF p]
  show ?case by (simp add: Let_def)
qed (simp add: rx_path_refl)

lemma snapshot_copy_genuine:
  fixes env :: "'e bridge_env"
  assumes env: "rx_env g b env" and "rx_good g w"
    and w': "w' = snd (snapshot_copy env off i n snap w)"
    and "even (epoch g (br_other w))" "epoch g (br_other w') = epoch g (br_other w)"
    and "C + i + n \<le> pub g (br_other w)" "live g (br_other w') \<le> C + rb_capacity (br_ring w)"
    and "off = C mod rb_capacity (br_ring w)" "off + i + n \<le> rb_capacity (br_ring w)" "i + n \<le> length snap"
    and "j < n"
  shows "fst (snapshot_copy env off i n snap w) ! (i + j) = stream g (br_other w) (C + i + j)"
  using assms(2-)
proof (induction n arbitrary: i snap w j)
  case (Suc n)
  let ?v = "interfere env w"
  let ?b = "the (storage (br_ring ?v)) ! (off + i)"
  note good = interfere_good [OF env Suc.prems(1)]
  note p1 = interfere_path [OF env Suc.prems(1)]
  note p2 = snapshot_copy_path [OF env good, where off = off and i = "Suc i" and n = n and snap = "snap[i := ?b]"]
  have w': "w' = snd (snapshot_copy env off (Suc i) n (snap[i := ?b]) ?v)"
    using Suc.prems(2) by (simp add: Let_def)
  have ep: "epoch g (br_other ?v) = epoch g (br_other w)"
    using p1 p2 Suc.prems(4) unfolding w' [symmetric] rx_path_def by linarith
  have q1: "rx_quiet g w ?v" using p1 ep Suc.prems(3) by (simp add: rx_path_def)
  have q2: "rx_quiet g ?v w'" using p2 ep Suc.prems(4) Suc.prems(3) unfolding w' [symmetric] by (simp add: rx_path_def)
  have cap: "rb_capacity (br_ring ?v) = rb_capacity (br_ring w)"
    using q1 by (auto simp: rx_quiet_def rb_capacity_def)
  have st: "stream g (br_other ?v) = stream g (br_other w)" "pub g (br_other ?v) = pub g (br_other w)"
    using q1 by (simp_all add: rx_quiet_def)
  show ?case
  proof (cases j)
    case 0
    let ?k = "C + i"
    have lt: "?k < live g (br_other ?v)"
      using good Suc.prems(5) st(2) by (simp add: rx_good_def)
    have le: "live g (br_other ?v) \<le> ?k + rb_capacity (br_ring ?v)"
      using q2 Suc.prems(6) cap by (simp add: rx_quiet_def)
    have "?k mod rb_capacity (br_ring w) = (C mod rb_capacity (br_ring w) + i) mod rb_capacity (br_ring w)"
      by (simp add: mod_add_left_eq)
    also have "\<dots> = off + i" using Suc.prems(7,8) by simp
    finally have idx: "?k mod rb_capacity (br_ring ?v) = off + i" by (simp add: cap)
    have "rx_stored g (br_other ?v) (br_ring ?v)" using good by (simp add: rx_good_def)
    then have b: "?b = stream g (br_other w) ?k"
      using lt le idx st(1) unfolding rx_stored_def by metis
    have "fst (snapshot_copy env off (Suc i) n (snap[i := ?b]) ?v) ! i = ?b"
      using p2 Suc.prems(9) by simp
    then show ?thesis using b 0 by (simp add: Let_def)
  next
    case (Suc j')
    have "fst (snapshot_copy env off (Suc i) n (snap[i := ?b]) ?v) ! (Suc i + j')
        = stream g (br_other ?v) (C + Suc i + j')"
      using Suc.prems ep cap st Suc w'
      by (intro Suc.IH [OF good]) simp_all
    then show ?thesis using Suc st(1) by (simp add: Let_def)
  qed
qed simp

lemma rb_distance_bound: "rb_distance (r\<lparr>consumer_reserved_sequence := a\<rparr>) = rb_distance r"
  "rb_distance (r\<lparr>consumer_reserved_count := c\<rparr>) = rb_distance r"
  by (simp_all add: rb_distance_def)

lemma read_span_ring:
  assumes "ring_wf r"
  defines "r' \<equiv> snd (ring_buffer_read_span r)"
  shows "storage r' = storage r \<and> ring_size r' = ring_size r \<and> ring_mask r' = ring_mask r \<and>
    producer r' = producer r \<and> rb_distance r' = min (rb_distance r) (rb_capacity r)"
  using read_span_eq [OF assms(1)]
  by (simp add: r'_def rb_distance_bound recover_distance)

lemma read_span_reserved:
  assumes "ring_wf r" "span_length (fst (ring_buffer_read_span r)) \<noteq> 0"
  defines "r' \<equiv> snd (ring_buffer_read_span r)" and "sp \<equiv> fst (ring_buffer_read_span r)"
  shows "consumer_reserved_count r' = span_length sp \<and> consumer_reserved_sequence r' = consumer r' \<and>
    span_data sp = Some (consumer r' AND ring_mask r) \<and> unat (span_length sp) \<le> rb_distance r' \<and>
    unat (consumer r') mod rb_capacity r + unat (span_length sp) \<le> rb_capacity r"
proof -
  have ne: "rb_contents r \<noteq> []" using assms(2) read_span_empty_iff [OF assms(1)] by simp
  have len: "unat (span_length sp) = min (length (rb_contents r))
      (rb_capacity r - unat (consumer (snd (ring_buffer_recover_overflow r))) mod rb_capacity r)"
    unfolding sp_def by (rule read_span_length [OF assms(1)])
  have "unat (consumer (snd (ring_buffer_recover_overflow r))) mod rb_capacity r < rb_capacity r"
    using ring_wf_capacity_pos [OF assms(1)] by simp
  then have le: "unat (span_length sp) \<le> min (rb_distance r) (rb_capacity r) \<and>
      unat (consumer (snd (ring_buffer_recover_overflow r))) mod rb_capacity r + unat (span_length sp)
        \<le> rb_capacity r"
    unfolding len length_rb_contents by linarith
  have eq: "r' = (snd (ring_buffer_recover_overflow r))
        \<lparr>consumer_reserved_sequence := consumer (snd (ring_buffer_recover_overflow r)),
         consumer_reserved_count := span_length sp\<rparr>"
      "span_data sp = Some (consumer (snd (ring_buffer_recover_overflow r)) AND ring_mask r)"
    using read_span_eq [OF assms(1)] ne by (simp_all add: r'_def sp_def)
  show ?thesis
    using le by (simp add: eq rb_distance_bound recover_distance)
qed

lemma read_span_good:
  assumes "rx_good g w"
  shows "rx_good g (w\<lparr>br_ring := snd (ring_buffer_read_span (br_ring w))\<rparr>)"
  using assms read_span_ring [of "br_ring w"]
  by (auto simp: rx_good_def rx_stored_def ring_wf_def rb_capacity_def)

lemma even_sequence: "(of_nat e :: u32) AND 1 = 0 \<longleftrightarrow> even e"
proof -
  have "(of_nat e :: u32) AND 1 = of_nat e mod 2" by (rule and_one_eq)
  then show ?thesis by (simp add: even_iff_mod_2_eq_zero [symmetric])
qed

lemma same_sequence:
  "e \<le> e' \<Longrightarrow> e' < e + 2 ^ 32 \<Longrightarrow> (of_nat e' :: u32) = of_nat e \<Longrightarrow> e' = e"
  using unat_diff_of_nat [of e e'] by simp

text \<open>The reader's position in the stream.\<close>

definition rx_position :: "'e rx_ghost \<Rightarrow> 'e bridge_world \<Rightarrow> nat" where
  "rx_position g w = pub g (br_other w) - rb_distance (br_ring w)"

lemma rx_position_consumer:
  assumes "rx_good g w"
  shows "consumer (br_ring w) = of_nat (rx_position g w) \<and>
         rx_position g w + rb_distance (br_ring w) = pub g (br_other w)"
proof -
  have "consumer (br_ring w) = producer (br_ring w) - of_nat (rb_distance (br_ring w))"
    by (simp add: rb_distance_def)
  then show ?thesis using assms by (simp add: rx_good_def rx_position_def of_nat_diff)
qed

lemma held_distance:
  assumes "rx_path g m w w'" "rx_good g w" "consumer_reserved_count (br_ring w') \<noteq> 0" "m < 2 ^ 31"
    and "rb_distance (br_ring w) \<le> 2 ^ 31"
  shows "rb_distance (br_ring w) \<le> rb_distance (br_ring w')"
proof -
  let ?n = "pub g (br_other w') - pub g (br_other w)"
  have h: "consumer (br_ring w') = consumer (br_ring w)" "pub g (br_other w) \<le> pub g (br_other w')"
      "?n < 2 ^ 31" "producer (br_ring w') = of_nat (pub g (br_other w'))"
      "producer (br_ring w) = of_nat (pub g (br_other w))"
    using assms by (auto simp: rx_path_def rx_held_def rx_good_def)
  have n: "unat (of_nat ?n :: u32) = ?n" using h(3) by (intro unat_of_nat_u32) simp
  have "rb_distance (br_ring w') = rb_distance (br_ring w) + unat (of_nat ?n :: u32)"
  proof (rule rb_distance_produce)
    show "rb_distance (br_ring w) + unat (of_nat ?n :: u32) < 2 ^ 32" using n h(3) assms(5) by simp
    show "producer (br_ring w') = producer (br_ring w) + of_nat ?n" using h by (simp add: of_nat_diff)
  qed (rule h(1))
  then show ?thesis by simp
qed

lemma snapshot_valid_path:
  assumes env: "rx_env g b env" and good: "rx_good g w"
    and "snapshot_valid env cur cs seq w = (True, w')"
  obtains u v where "rx_path g b w u" "rx_path g b u v" "rx_path g b v w'"
    "ring_buffer_read_span_is_current (br_ring u)" "cur v cs" "br_stats_sequence w' = seq"
proof -
  let ?u = "interfere env w" let ?v = "interfere env ?u"
  have r: "ring_buffer_read_span_is_current (br_ring ?u)" "cur ?v cs" "w' = interfere env ?v"
      "br_stats_sequence w' = seq"
    using assms(3) by (auto simp: snapshot_valid_def Let_def split: if_splits)
  show thesis
    using that [of ?u ?v] r interfere_path [OF env] good
      interfere_good [OF env good] interfere_good [OF env interfere_good [OF env good]] by simp
qed

text \<open>Validation fixes the window: the statistics sequence did not move, so only the engine did.\<close>

lemma window_quiet:
  assumes "rx_path g m w u" "rx_path g n u w'" "rx_good g w" "even (epoch g (br_other w))"
    and "br_stats_sequence w' = br_stats_sequence w" "m + n < 2 ^ 32"
  shows "epoch g (br_other u) = epoch g (br_other w) \<and> rx_quiet g w u \<and> rx_quiet g u w'"
proof -
  have "epoch g (br_other w') = epoch g (br_other w)"
    using assms by (intro same_sequence) (auto simp: rx_path_def rx_good_def)
  then show ?thesis using assms(1,2,4) unfolding rx_path_def by auto
qed

lemma quiet_ring:
  assumes "rx_quiet g w w'"
  shows "consumer (br_ring w') = consumer (br_ring w)" "rb_capacity (br_ring w') = rb_capacity (br_ring w)"
    "rb_distance (br_ring w') = rb_distance (br_ring w)" "rx_position g w' = rx_position g w"
    "pub g (br_other w') = pub g (br_other w)" "stream g (br_other w') = stream g (br_other w)"
    "live g (br_other w) \<le> live g (br_other w')"
  using assms by (auto simp: rx_quiet_def rb_capacity_def rb_distance_def rx_position_def)

lemma current_facts:
  assumes "ring_buffer_read_span_is_current r"
  shows "consumer_reserved_count r \<noteq> 0 \<and> consumer r = consumer_reserved_sequence r \<and>
         rb_distance r \<le> rb_capacity r"
  using assms
  by (auto simp: ring_buffer_read_span_is_current_def rb_distance_def rb_capacity_def word_le_nat_alt split: if_splits)

lemma live_in_reach:
  assumes "rx_good g w" "rb_distance (br_ring w) \<le> rb_capacity (br_ring w)"
    and "unat (of_nat (live g (br_other w)) - consumer (br_ring w) :: u32) \<le> rb_capacity (br_ring w)"
  shows "live g (br_other w) \<le> rx_position g w + rb_capacity (br_ring w)"
proof -
  note c = rx_position_consumer [OF assms(1)]
  have "rb_capacity (br_ring w) \<le> 2147483648"
    using assms(1) by (simp add: rx_good_def ring_wf_capacity_le)
  then have "live g (br_other w) - rx_position g w < 2 ^ 32" "rx_position g w \<le> live g (br_other w)"
    using c assms(1,2) by (auto simp: rx_good_def)
  then show ?thesis
    using assms(3) c unat_diff_of_nat [of "rx_position g w" "live g (br_other w)"] by simp
qed

text \<open>A snapshot that passes every check: from the end of the last read of the sequence on, only the engine was at work.\<close>

lemma validated_window:
  assumes path: "rx_path g m wc d" "rx_path g b d u" "rx_path g b u v" "rx_path g b v w'" and small: "m + 3 * b < 2 ^ 31"
    and good: "rx_good g wc" and ev: "even (epoch g (br_other wc))" and seq: "br_stats_sequence w' = br_stats_sequence wc"
    and cur: "ring_buffer_read_span_is_current (br_ring u)" "consumer_reserved_sequence (br_ring u) = cs"
    and reach: "rx_good g v \<Longrightarrow> even (epoch g (br_other v)) \<Longrightarrow>
      unat (of_nat (live g (br_other v)) - cs :: u32) \<le> rb_capacity (br_ring v)"
  shows "rx_quiet g wc u \<and> rx_quiet g u w' \<and> epoch g (br_other d) = epoch g (br_other wc) \<and>
    live g (br_other d) \<le> rx_position g wc + rb_capacity (br_ring wc)"
proof -
  note cu = rx_path_trans [OF path(1,2)]
  note cv = rx_path_trans [OF cu path(3)]
  have qu: "rx_quiet g wc u" "rx_quiet g u w'"
    using window_quiet [OF cu rx_path_trans [OF path(3,4)] good ev seq] small by simp_all
  have qv: "rx_quiet g wc v" "epoch g (br_other v) = epoch g (br_other wc)"
    using window_quiet [OF cv path(4) good ev seq] small by simp_all
  have qd: "epoch g (br_other d) = epoch g (br_other wc)"
    using window_quiet [OF path(1) rx_path_trans [OF path(2) rx_path_trans [OF path(3,4)]] good ev seq] small by simp
  have gv: "rx_good g v" using path(3) by (simp add: rx_path_def)
  note cf = current_facts [OF cur(1)]
  have "cs = consumer (br_ring v)"
    using cur(2) cf quiet_ring(1) [OF qu(1)] quiet_ring(1) [OF qv(1)] by simp
  moreover have "rb_distance (br_ring v) \<le> rb_capacity (br_ring v)"
    using cf quiet_ring(2,3) [OF qv(1)] quiet_ring(2,3) [OF qu(1)] by simp
  ultimately have live: "live g (br_other v) \<le> rx_position g wc + rb_capacity (br_ring wc)"
    using live_in_reach [OF gv] reach [OF gv] qv(2) ev quiet_ring(2,4) [OF qv(1)] by simp
  have "rx_quiet g d v"
    using rx_path_trans [OF path(2,3)] qd qv(2) ev by (simp add: rx_path_def)
  then show ?thesis using live qu qd quiet_ring(7) by fastforce
qed

text \<open>The span reserved by the reader, if it is still reserved: where it lies in the stream and in the ring.\<close>

lemma reserved_span_position:
  assumes "rx_good g w" and ne: "span_length (fst (ring_buffer_read_span (br_ring w))) \<noteq> 0"
    and path: "rx_path g m (w\<lparr>br_ring := snd (ring_buffer_read_span (br_ring w))\<rparr>) u" "m < 2 ^ 31"
    and cur: "ring_buffer_read_span_is_current (br_ring u)"
  defines "sp \<equiv> fst (ring_buffer_read_span (br_ring w))"
  shows "unat (the (span_data sp)) = rx_position g u mod rb_capacity (br_ring u) \<and>
    unat (the (span_data sp)) + unat (span_length sp) \<le> rb_capacity (br_ring u) \<and>
    rx_position g u + unat (span_length sp) \<le> pub g (br_other u)"
proof -
  let ?wa = "w\<lparr>br_ring := snd (ring_buffer_read_span (br_ring w))\<rparr>"
  have wf: "ring_wf (br_ring w)" using assms(1) by (simp add: rx_good_def)
  note ga = read_span_good [OF assms(1)] and cf = current_facts [OF cur] and ring = read_span_ring [OF wf]
  note span = read_span_reserved [OF wf ne, folded sp_def]
  have held: "consumer (br_ring u) = consumer (br_ring ?wa)" using path(1) cf by (auto simp: rx_path_def rx_held_def)
  have cap: "rb_capacity (br_ring u) = rb_capacity (br_ring w)"
    using path(1) ring by (auto simp: rx_path_def rx_held_def rb_capacity_def)
  have "rb_distance (br_ring ?wa) \<le> 2 ^ 31" using ring ring_wf_capacity_le [OF wf] by simp
  with held_distance [OF path(1) ga] cf path(2) have dist: "rb_distance (br_ring ?wa) \<le> rb_distance (br_ring u)" by simp
  have gu: "rx_good g u" using path(1) by (simp add: rx_path_def)
  have off: "unat (the (span_data sp)) = unat (consumer (br_ring ?wa)) mod rb_capacity (br_ring w)"
    using span unat_span_offset [OF wf] by simp
  have "of_nat (rx_position g u) = consumer (br_ring ?wa)"
    using rx_position_consumer [OF gu] held by simp
  moreover have "pow2_size (ring_size (br_ring w))" using wf by (simp add: ring_wf_def)
  ultimately have "unat (the (span_data sp)) = rx_position g u mod rb_capacity (br_ring u)"
    using off unat_of_nat_mod_pow2 [of "ring_size (br_ring w)" "rx_position g u"] cap by (simp add: rb_capacity_def)
  then show ?thesis
    using off span cap dist rx_position_consumer [OF gu] by auto
qed

text \<open>C16: Torn snapshots never reach USB. Whatever the engine and the worker do between any two accesses of the
  copy, even restarting the port in the middle of it, a snapshot that \<open>uart_bridge_drain_rx\<close> offers to
  its writer holds exactly the received bytes at the reader's position in the stream, all of them
  published, and the reader has not moved. The hypotheses say that the backend's test of a snapshot is sound while no update is
  under way, and that fewer than \<open>2 ^ 31\<close> bytes are published during one copy.\<close>

theorem bridge_snapshot_genuine:
  fixes env :: "'e bridge_env" and w :: "'e bridge_world"
  assumes env: "rx_env g b env" "rx_good g w" "b * (unat snapshot_capacity + 6) < 2 ^ 31"
    and current: "\<And>v cs. rx_good g v \<Longrightarrow> even (epoch g (br_other v)) \<Longrightarrow> snapshot_is_current v cs \<Longrightarrow>
        unat (of_nat (live g (br_other v)) - cs :: u32) \<le> rb_capacity (br_ring v)"
    and offer: "bridge_take_snapshot env snapshot_is_current capacity snapshot_capacity total_written snapshot w
        = (Drain_Offer offered, snapshot', w')"
    and "unat snapshot_capacity \<le> length snapshot"
  shows "take (unat offered) snapshot' = map (stream g (br_other w')) [rx_position g w' ..< rx_position g w' + unat offered] \<and>
         rx_position g w' + unat offered \<le> pub g (br_other w') \<and>
         consumer (br_ring w') = of_nat (rx_position g w') \<and> rx_good g w'"
proof -
  let ?w0 = "interfere env w"
  let ?sp = "fst (ring_buffer_read_span (br_ring ?w0))"
  let ?wa = "?w0\<lparr>br_ring := snd (ring_buffer_read_span (br_ring ?w0))\<rparr>"
  let ?wb = "interfere env ?wa" let ?wc = "interfere env ?wb"
  let ?cs = "consumer_reserved_sequence (br_ring ?wb)" and ?off = "unat (the (span_data ?sp))"
  let ?copy = "snapshot_copy env ?off 0 (unat offered) snapshot ?wc"
  have ne: "span_length ?sp \<noteq> 0"
    and off: "offered = bridge_offer capacity total_written snapshot_capacity ?sp"
    and even: "br_stats_sequence ?wc AND 1 = 0"
    and snap': "snapshot' = fst ?copy"
    and valid: "snapshot_valid env snapshot_is_current ?cs (br_stats_sequence ?wc) (snd ?copy) = (True, w')"
    using offer by (auto simp: bridge_take_snapshot_def Let_def case_prod_beta prod_eq_iff split: if_splits)
  have le: "offered \<le> span_length ?sp" "offered \<le> snapshot_capacity"
    unfolding off by (rule bridge_offer_le)+
  note g0 = interfere_good [OF env(1,2)]
  note ga = read_span_good [OF g0]
  note gb = interfere_good [OF env(1) ga]
  note gc = interfere_good [OF env(1) gb]
  note copy = snapshot_copy_path [OF env(1) gc, where off = ?off and i = 0 and n = "unat offered" and snap = snapshot]
  have gd: "rx_good g (snd ?copy)" using copy by (simp add: rx_path_def)
  obtain u v where uv: "rx_path g b (snd ?copy) u" "rx_path g b u v" "rx_path g b v w'"
      "ring_buffer_read_span_is_current (br_ring u)" "snapshot_is_current v ?cs"
      "br_stats_sequence w' = br_stats_sequence ?wc"
    by (rule snapshot_valid_path [OF env(1) gd valid])
  have "b * (unat offered + 6) \<le> b * (unat snapshot_capacity + 6)" using le(2) by (simp add: word_le_nat_alt)
  then have "b * (unat offered + 6) < 2 ^ 31" using env(3) by (rule le_less_trans)
  then have small: "b * unat offered + 6 * b < 2 ^ 31" by (simp add: algebra_simps)
  have ev: "even (epoch g (br_other ?wc))" using even gc even_sequence by (simp add: rx_good_def)
  note bu = rx_path_trans [OF interfere_path [OF env(1) gb] rx_path_trans [OF conjunct1 [OF copy] uv(1)]]
  have cs: "consumer_reserved_sequence (br_ring u) = ?cs"
    using bu current_facts [OF uv(4)] by (auto simp: rx_path_def rx_held_def)
  have win: "rx_quiet g ?wc u" "rx_quiet g u w'" "epoch g (br_other (snd ?copy)) = epoch g (br_other ?wc)"
      "live g (br_other (snd ?copy)) \<le> rx_position g ?wc + rb_capacity (br_ring ?wc)"
    using validated_window [OF conjunct1 [OF copy] uv(1-3) _ gc ev uv(6,4) cs current [OF _ _ uv(5)]] small by simp_all
  note span = reserved_span_position [OF g0 ne rx_path_trans [OF interfere_path [OF env(1) ga] bu] _ uv(4)]
  note same = quiet_ring [OF win(1)] quiet_ring [OF win(2)]
  let ?C = "rx_position g ?wc"
  have pos: "?off = ?C mod rb_capacity (br_ring ?wc)" "?off + unat offered \<le> rb_capacity (br_ring ?wc)"
      "?C + unat offered \<le> pub g (br_other ?wc)" "unat offered \<le> length snapshot"
    using span same small le assms(6) by (simp_all add: word_le_nat_alt)
  have byte: "fst ?copy ! (0 + j) = stream g (br_other ?wc) (?C + 0 + j)" if "j < unat offered" for j
    by (rule snapshot_copy_genuine [OF env(1) gc refl ev win(3) _ win(4) pos(1) _ _ that]) (use pos in simp_all)
  have "take (unat offered) snapshot' = map (stream g (br_other w')) [?C ..< ?C + unat offered]"
    by (rule nth_equalityI) (use copy pos(4) byte same in \<open>simp_all add: snap'\<close>)
  moreover have "rx_good g w'" using uv(3) by (simp add: rx_path_def)
  ultimately show ?thesis using pos(3) same rx_position_consumer [of g w'] by simp
qed

text \<open>An engine that stores the byte numbers, up to the fourth, one in each step.\<close>

definition demo_ghost :: "nat rx_ghost" where
  "demo_ghost = \<lparr>stream = (\<lambda>e. of_nat), live = id, pub = (\<lambda>e. 3), epoch = (\<lambda>e. 0)\<rparr>"

definition demo_env :: "nat bridge_env" where
  "demo_env n w =
     (let r = br_ring w; m = br_other w
      in if m < 4 then w\<lparr>br_ring := r\<lparr>storage := map_option (\<lambda>s. s[m mod rb_capacity r := of_nat m]) (storage r)\<rparr>,
                         br_other := Suc m\<rparr>
         else w)"

definition demo_current :: "nat bridge_world \<Rightarrow> u32 \<Rightarrow> bool" where
  "demo_current w cs \<longleftrightarrow> unat (of_nat (br_other w) - cs :: u32) \<le> rb_capacity (br_ring w)"

definition demo_world :: "nat bridge_world" where
  "demo_world = \<lparr>br_ring = sample_ring\<lparr>storage := Some [0, 1, 2, 7], producer := 3, consumer := 0\<rparr>,
     br_stats_sequence = 0, br_other = 3, br_steps = 0\<rparr>"

lemma mod_neq: "0 < j - i \<Longrightarrow> j - i < m \<Longrightarrow> i mod m \<noteq> j mod (m :: nat)"
  by (metis less_nat_zero_code mod_eq_dvd_iff_nat nat_dvd_not_less nat_less_le zero_less_diff)

lemma demo_rx_env: "rx_env demo_ghost 0 demo_env"
proof -
  have "rx_good demo_ghost (demo_env n w) \<and> rx_held demo_ghost w (demo_env n w) \<and>
      rx_quiet demo_ghost w (demo_env n w)" if good: "rx_good demo_ghost w" for n w
  proof (cases "br_other w < 4")
    case True
    obtain s where s: "storage (br_ring w) = Some s" "length s = rb_capacity (br_ring w)"
        "0 < rb_capacity (br_ring w)"
      using good ring_wf_capacity_pos by (auto simp: rx_good_def ring_wf_def rb_capacity_def)
    let ?m = "br_other w" let ?c = "rb_capacity (br_ring w)"
    have old: "s ! (k mod ?c) = of_nat k" if "k < ?m" "?m \<le> k + ?c" for k
      using good that s by (auto simp: rx_good_def rx_stored_def demo_ghost_def)
    have new: "s[?m mod ?c := of_nat ?m] ! (k mod ?c) = of_nat k" if "k < Suc ?m" "Suc ?m \<le> k + ?c" for k
    proof (cases "k = ?m")
      case False
      then have d: "k < ?m" "?m - k < ?c" "?m \<le> k + ?c" using that by linarith+
      then have "k mod ?c \<noteq> ?m mod ?c" by (intro mod_neq) simp_all
      then show ?thesis using old [OF d(1,3)] by simp
    qed (simp add: s)
    have q: "\<exists>t. br_ring w\<lparr>storage := x\<rparr> = br_ring w\<lparr>storage := t\<rparr>" for x by blast
    show ?thesis
      using good True new s q
      by (auto simp: rx_good_def rx_held_def rx_quiet_def demo_env_def Let_def demo_ghost_def rx_stored_def
          ring_wf_def rb_capacity_def rb_distance_def)
  qed (use good rx_quiet_refl [of demo_ghost w] in \<open>simp add: demo_env_def rx_held_def\<close>)
  then show ?thesis
    by (simp add: rx_env_def) (simp add: demo_ghost_def)
qed

lemma demo_good: "rx_good demo_ghost demo_world"
proof -
  have "s ! (k mod 4) = (of_nat k :: u8)" if "s = [0, 1, 2, 7]" "k < 3" for s k
  proof -
    have "k = 0 \<or> k = 1 \<or> k = 2" using that(2) by auto
    then show ?thesis using that(1) by auto
  qed
  then show ?thesis
    using pow2_size_4
    by (simp add: rx_good_def demo_world_def sample_ring_def demo_ghost_def rx_stored_def ring_wf_def
        rb_capacity_def rb_distance_def)
qed

theorem bridge_snapshot_witness:
  "let res = bridge_take_snapshot demo_env demo_current 0 2 0 [9, 9] demo_world
   in fst res = Drain_Offer 2 \<and> take 2 (fst (snd res)) = [0, 1] \<and> br_other (snd (snd res)) = 4"
proof -
  let ?res = "bridge_take_snapshot demo_env demo_current 0 2 0 [9, 9] demo_world"
  have run: "fst ?res = Drain_Offer 2 \<and> br_other (snd (snd ?res)) = 4 \<and> producer (br_ring (snd (snd ?res))) = 3 \<and>
      consumer (br_ring (snd (snd ?res))) = 0"
    by code_simp
  have cur: "unat (of_nat (live demo_ghost (br_other v)) - cs :: u32) \<le> rb_capacity (br_ring v)"
    if "demo_current v cs" for v cs
    using that by (simp add: demo_current_def demo_ghost_def)
  have "take (unat (2 :: u32)) (fst (snd ?res)) = map (stream demo_ghost (br_other (snd (snd ?res))))
      [rx_position demo_ghost (snd (snd ?res)) ..< rx_position demo_ghost (snd (snd ?res)) + unat (2 :: u32)]"
    using bridge_snapshot_genuine [OF demo_rx_env demo_good, of 2 demo_current 0 0 "[9, 9]" 2 "fst (snd ?res)" "snd (snd ?res)"]
      run cur by (simp add: prod_eq_iff)
  moreover have "rx_position demo_ghost (snd (snd ?res)) = 0"
    using run by (simp add: rx_position_def demo_ghost_def rb_distance_def)
  moreover have "[0..<2] = [0, Suc 0]" by (simp add: upt_rec)
  ultimately have "take 2 (fst (snd ?res)) = [0, 1]" by (simp add: demo_ghost_def)
  with run show ?thesis by (simp add: Let_def)
qed

section \<open>Filling loses nothing\<close>

text \<open>The worker's side of the TX ring: it only consumes, and leaves what the writer owns alone.\<close>

definition tx_env :: "'e bridge_env \<Rightarrow> bool" where
  "tx_env env \<longleftrightarrow> (\<forall>n w. let r = br_ring w; r' = br_ring (env n w) in
     storage r' = storage r \<and> ring_size r' = ring_size r \<and> ring_mask r' = ring_mask r \<and>
     producer r' = producer r \<and> producer_reserved_sequence r' = producer_reserved_sequence r \<and>
     producer_reserved_count r' = producer_reserved_count r \<and> rb_distance r' \<le> rb_distance r)"

definition tx_step :: "ring_buffer_t \<Rightarrow> ring_buffer_t \<Rightarrow> bool" where
  "tx_step r r' \<longleftrightarrow> storage r' = storage r \<and> ring_size r' = ring_size r \<and> ring_mask r' = ring_mask r \<and>
     producer r' = producer r \<and> producer_reserved_sequence r' = producer_reserved_sequence r \<and>
     producer_reserved_count r' = producer_reserved_count r \<and> rb_distance r' \<le> rb_distance r"

lemma interfere_tx: "tx_env env \<Longrightarrow> tx_step (br_ring w) (br_ring (interfere env w))"
  by (simp add: tx_env_def tx_step_def interfere_def Let_def)

lemma tx_step_contents:
  assumes "tx_step r r'" "rb_distance r \<le> rb_capacity r"
  shows "rb_contents r' = drop (rb_distance r - rb_distance r') (rb_contents r)"
  using assms by (simp add: tx_step_def rb_contents_def drop_ring_tail rb_capacity_def)

lemma tx_step_wf: "tx_step r r' \<Longrightarrow> ring_wf r' = ring_wf r"
  by (simp add: tx_step_def ring_wf_def)

lemma tx_step_capacity: "tx_step r r' \<Longrightarrow> rb_capacity r' = rb_capacity r"
  by (simp add: tx_step_def rb_capacity_def)

lemma mem_write_read: "mem_write s off (mem_read s off n) = s"
  by (simp add: mem_write_def mem_read_def min_def)
     (metis append_take_drop_id drop_drop length_drop take_drop add.commute le_cases take_all drop_all)

text \<open>The bytes of a span that is stored but not yet committed.\<close>

definition tx_staged :: "ring_buffer_t \<Rightarrow> u8 list \<Rightarrow> u32 \<Rightarrow> bool" where
  "tx_staged r bs n \<longleftrightarrow> ring_wf r \<and> length bs = unat n \<and> producer_reserved_sequence r = producer r \<and>
     n \<le> producer_reserved_count r \<and> rb_distance r + unat n \<le> rb_capacity r \<and>
     unat (producer r) mod rb_capacity r + unat n \<le> rb_capacity r \<and>
     mem_read (the (storage r)) (unat (producer r) mod rb_capacity r) (unat n) = bs"

lemma tx_staged_step: "tx_step r r' \<Longrightarrow> tx_staged r bs n \<Longrightarrow> tx_staged r' bs n"
  using tx_step_wf [of r r'] tx_step_capacity [of r r'] by (simp add: tx_staged_def) (simp add: tx_step_def)

lemma commit_staged:
  assumes "tx_staged r bs n"
  defines "r' \<equiv> snd (ring_buffer_commit_produced r n)"
  shows "fst (ring_buffer_commit_produced r n) \<and> ring_wf r' \<and> rb_contents r' = rb_contents r @ bs \<and>
         rb_distance r' = rb_distance r + unat n \<and> rb_capacity r' = rb_capacity r"
proof -
  have ok: "ring_buffer_commit_produced r n =
      (True, ring_buffer_update_high_watermark (r\<lparr>producer := producer r + n, producer_reserved_count := 0\<rparr>))"
    using assms(1) by (simp add: ring_buffer_commit_produced_def tx_staged_def not_less)
  obtain s where s: "pow2_size (ring_size r)" "storage r = Some s" "length s = unat (ring_size r)"
    using assms(1) by (auto simp: tx_staged_def ring_wf_def)
  have cap: "rb_capacity r = unat (ring_size r)" by (simp add: rb_capacity_def)
  have small: "rb_distance r + unat n < 2 ^ 32"
    using assms(1) ring_wf_capacity_le [of r] by (simp add: tx_staged_def)
  have d: "rb_distance r' = rb_distance r + unat n"
    by (rule rb_distance_produce [OF small]) (simp_all add: r'_def ok)
  have "ring_tail (mem_write s (unat (producer r) mod unat (ring_size r)) bs) (unat (ring_size r))
          (producer r + of_nat (length bs)) (rb_distance r + length bs)
        = ring_tail s (unat (ring_size r)) (producer r) (rb_distance r) @ bs"
    using assms(1) by (intro ring_tail_store [OF s(1,3)]) (simp_all add: tx_staged_def cap)
  moreover have "mem_write s (unat (producer r) mod unat (ring_size r)) bs = s"
    using mem_write_read [of s "unat (producer r) mod unat (ring_size r)" "unat n"] assms(1) s(2)
    by (simp add: tx_staged_def cap)
  moreover have "of_nat (length bs) = n" "length bs = unat n" using assms(1) by (simp_all add: tx_staged_def)
  ultimately have tail: "ring_tail s (unat (ring_size r)) (producer r + n) (rb_distance r + unat n)
        = ring_tail s (unat (ring_size r)) (producer r) (rb_distance r) @ bs" by simp
  have wf: "ring_wf r'" using assms(1) by (simp add: r'_def ok ring_wf_def tx_staged_def)
  have c': "rb_capacity r' = rb_capacity r" by (simp add: r'_def ok rb_capacity_def)
  have "min (rb_distance r + unat n) (rb_capacity r) = rb_distance r + unat n"
      "min (rb_distance r) (rb_capacity r) = rb_distance r"
    using assms(1) by (simp_all add: tx_staged_def)
  moreover have "storage r' = storage r" "ring_size r' = ring_size r" "producer r' = producer r + n"
    by (simp_all add: r'_def ok)
  ultimately have "rb_contents r' = rb_contents r @ bs"
    using tail by (simp add: rb_contents_def d c' s(2))
  with d wf c' show ?thesis by (simp add: ok)
qed

lemma ring_tail_take:
  "take k (ring_tail s m (p + of_nat n) (k + n)) = ring_tail s m p k"
proof (rule nth_equalityI)
  fix i
  assume "i < length (take k (ring_tail s m (p + of_nat n) (k + n)))"
  then have i: "i < k" by simp
  have "p + of_nat n - of_nat (k + n - i) = p - of_nat (k - i)" using i by (simp add: of_nat_diff)
  then show "take k (ring_tail s m (p + of_nat n) (k + n)) ! i = ring_tail s m p k ! i"
    using i by (simp only: nth_take nth_ring_tail trans_less_add1)
qed simp

lemma stage_span:
  assumes wf: "ring_wf r" and ne: "span_length (fst (ring_buffer_write_span r)) \<noteq> 0"
    and st: "tx_step (snd (ring_buffer_write_span r)) r2"
    and n: "n \<le> span_length (fst (ring_buffer_write_span r))" "length bs = unat n"
  defines "r3 \<equiv> span_store r2 (fst (ring_buffer_write_span r)) bs"
  shows "tx_staged r3 bs n \<and> rb_contents r3 = rb_contents r2 \<and> rb_distance r3 = rb_distance r2"
proof -
  have lt: "rb_distance r < rb_capacity r"
    using ne by (simp add: write_span_empty_iff [OF wf] not_le)
  have len: "unat n \<le> rb_capacity r - rb_distance r"
      "unat n \<le> rb_capacity r - unat (producer r) mod rb_capacity r"
    using n by (simp_all add: word_le_nat_alt write_span_length [OF wf])
  obtain s where s: "pow2_size (ring_size r)" "ring_mask r = ring_size r - 1"
      "storage r = Some s" "length s = unat (ring_size r)"
    using wf by (auto simp: ring_wf_def)
  let ?off = "unat (producer r) mod unat (ring_size r)"
  have r2: "storage r2 = Some s" "ring_size r2 = ring_size r" "ring_mask r2 = ring_mask r"
      "producer r2 = producer r" "producer_reserved_sequence r2 = producer r"
      "producer_reserved_count r2 = span_length (fst (ring_buffer_write_span r))"
      "rb_distance r2 \<le> rb_distance r"
    using st lt s(3) by (auto simp: tx_step_def write_span_eq [OF wf] rb_distance_def)
  have r3: "r3 = r2\<lparr>storage := Some (mem_write s ?off bs)\<rparr>"
    using lt s by (simp add: r3_def write_span_eq [OF wf] span_store_def r2 unat_and_mask)
  have cap: "rb_capacity r = unat (ring_size r)" "rb_capacity r3 = unat (ring_size r)" "rb_capacity r2 = unat (ring_size r)"
    by (simp_all add: rb_capacity_def r3 r2)
  have d: "rb_distance r3 = rb_distance r2" by (simp add: r3 rb_distance_def)
  have off: "?off + length bs \<le> unat (ring_size r)"
    using len(2) n(2) mod_less_divisor [OF ring_wf_capacity_pos [OF wf], of "unat (producer r)"] by (simp add: cap)
  have wf3: "ring_wf r3" using s off by (simp add: ring_wf_def r3 r2)
  have "mem_read (mem_write s ?off bs) ?off (unat n) = bs"
    using off s(4) n(2) by (simp add: mem_read_def mem_write_def min_def)
  then have staged: "tx_staged r3 bs n"
    using wf3 n len lt off r2(7) by (simp add: tx_staged_def cap d) (simp add: r3 r2(1-6))
  have "ring_tail (mem_write s ?off bs) (unat (ring_size r)) (producer r + of_nat (length bs)) (rb_distance r2 + length bs)
        = ring_tail s (unat (ring_size r)) (producer r) (rb_distance r2) @ bs"
    using len(1) lt n(2) r2(7) by (intro ring_tail_store [OF s(1,4) off]) (simp add: cap)
  then have "ring_tail (mem_write s ?off bs) (unat (ring_size r)) (producer r) (rb_distance r2)
      = ring_tail s (unat (ring_size r)) (producer r) (rb_distance r2)"
    using ring_tail_take [of "rb_distance r2" "mem_write s ?off bs" "unat (ring_size r)" "producer r" "length bs"]
    by simp
  moreover have "min (rb_distance r2) (unat (ring_size r)) = rb_distance r2" using r2(7) lt by (simp add: cap)
  ultimately have "rb_contents r3 = rb_contents r2"
    by (simp add: rb_contents_def cap d) (simp add: r3 r2)
  with staged d show ?thesis by simp
qed

text \<open>A source the reader takes its bytes from, in order.\<close>

definition reader_takes :: "('c \<Rightarrow> u8 list) \<Rightarrow> ('c \<Rightarrow> u32 \<Rightarrow> u8 list \<times> u32 \<times> 'c) \<Rightarrow> bool" where
  "reader_takes src reader \<longleftrightarrow> (\<forall>ctx n. let (bs, c, ctx') = reader ctx n in
     length bs = unat c \<and> c \<le> n \<and> src ctx = bs @ src ctx')"

definition fill_ok :: "ring_buffer_t \<Rightarrow> bool" where
  "fill_ok r \<longleftrightarrow> ring_wf r \<and> rb_distance r \<le> rb_capacity r"

lemma fill_ok_step: "tx_step r r' \<Longrightarrow> fill_ok r \<Longrightarrow> fill_ok r'"
  using tx_step_wf [of r r'] tx_step_capacity [of r r'] by (simp add: fill_ok_def) (simp add: tx_step_def)

text \<open>\<open>tx_moves r bs r'\<close>: \<open>bs\<close> was appended and some of the oldest bytes were consumed.\<close>

definition tx_moves :: "ring_buffer_t \<Rightarrow> u8 list \<Rightarrow> ring_buffer_t \<Rightarrow> bool" where
  "tx_moves r bs r' \<longleftrightarrow> (\<exists>k \<le> length (rb_contents r @ bs). rb_contents r' = drop k (rb_contents r @ bs))"

lemma tx_moves_step:
  assumes "fill_ok r" "tx_step r r'"
  shows "tx_moves r [] r'"
  unfolding tx_moves_def using assms tx_step_contents [of r r']
  by (intro exI [of _ "rb_distance r - rb_distance r'"]) (simp add: fill_ok_def)

lemma tx_moves_trans: "tx_moves r bs r' \<Longrightarrow> tx_moves r' cs r'' \<Longrightarrow> tx_moves r (bs @ cs) r''"
proof -
  assume "tx_moves r bs r'" "tx_moves r' cs r''"
  then obtain k l where k: "k \<le> length (rb_contents r @ bs)" "rb_contents r' = drop k (rb_contents r @ bs)"
      and l: "l \<le> length (rb_contents r' @ cs)" "rb_contents r'' = drop l (rb_contents r' @ cs)"
    unfolding tx_moves_def by blast
  have e: "rb_contents r' @ cs = drop k (rb_contents r @ bs @ cs)" using k by simp
  have "k + l \<le> length (rb_contents r @ bs @ cs)" using k l(1) unfolding e by simp
  moreover have "rb_contents r'' = drop (k + l) (rb_contents r @ bs @ cs)"
    using l(2) unfolding e by (simp only: drop_drop add.commute)
  ultimately show ?thesis unfolding tx_moves_def by blast
qed

lemma tx_moves_same: "rb_contents r' = rb_contents r @ bs \<Longrightarrow> tx_moves r bs r'"
  unfolding tx_moves_def by (intro exI [of _ 0]) simp

lemma fill_pass:
  fixes env :: "'e bridge_env"
  assumes env: "tx_env env" and ok: "fill_ok (br_ring w)" and rd: "reader_takes src rd"
  defines "w0 \<equiv> interfere env w"
  defines "sp \<equiv> fst (ring_buffer_write_span (br_ring w0))"
  defines "w1 \<equiv> w0\<lparr>br_ring := snd (ring_buffer_write_span (br_ring w0))\<rparr>"
  defines "w2 \<equiv> interfere env w1"
  shows "fill_ok (br_ring w1) \<and> tx_moves (br_ring w) [] (br_ring w1)"
    and "span_length sp \<noteq> 0 \<Longrightarrow> n \<le> span_length sp \<Longrightarrow> rd ctx n = (bs, c, ctx') \<Longrightarrow>
      (let r3 = span_store (br_ring w2) sp bs;
           w4 = interfere env (w2\<lparr>br_ring := r3\<rparr>);
           r5 = snd (ring_buffer_commit_produced (br_ring w4) c)
       in length bs = unat c \<and> c \<le> n \<and> src ctx = bs @ src ctx' \<and>
          (c = 0 \<longrightarrow> fill_ok r3 \<and> tx_moves (br_ring w) [] r3) \<and>
          fst (ring_buffer_commit_produced (br_ring w4) c) \<and> fill_ok r5 \<and> tx_moves (br_ring w) bs r5)"
proof -
  have s0: "tx_step (br_ring w) (br_ring w0)" unfolding w0_def by (rule interfere_tx [OF env])
  have ok0: "fill_ok (br_ring w0)" by (rule fill_ok_step [OF s0 ok])
  have c1: "rb_contents (br_ring w1) = rb_contents (br_ring w0)" "rb_distance (br_ring w1) = rb_distance (br_ring w0)"
      "rb_capacity (br_ring w1) = rb_capacity (br_ring w0)" "ring_wf (br_ring w1) = ring_wf (br_ring w0)"
    by (simp_all add: w1_def rb_contents_def rb_distance_def rb_capacity_def ring_wf_def)
  have ok1: "fill_ok (br_ring w1)" using ok0 c1 by (simp add: fill_ok_def)
  have m0: "tx_moves (br_ring w) [] (br_ring w0)" by (rule tx_moves_step [OF ok s0])
  have m1: "tx_moves (br_ring w) [] (br_ring w1)"
    using m0 tx_moves_trans [OF m0 tx_moves_same [of "br_ring w1" "br_ring w0" "[]"]] c1(1) by simp
  with ok1 show "fill_ok (br_ring w1) \<and> tx_moves (br_ring w) [] (br_ring w1)" by simp
  assume ne: "span_length sp \<noteq> 0" and n: "n \<le> span_length sp" and call: "rd ctx n = (bs, c, ctx')"
  have bs: "length bs = unat c" "c \<le> n" "src ctx = bs @ src ctx'"
    using rd [unfolded reader_takes_def, rule_format, of ctx n] call by (simp_all add: Let_def)
  have s2: "tx_step (br_ring w1) (br_ring w2)" unfolding w2_def by (rule interfere_tx [OF env])
  have m2: "tx_moves (br_ring w) [] (br_ring w2)"
    using tx_moves_trans [OF m1 tx_moves_step [OF ok1 s2]] by simp
  have ok2: "fill_ok (br_ring w2)" by (rule fill_ok_step [OF s2 ok1])
  let ?r3 = "span_store (br_ring w2) sp bs"
  let ?w4 = "interfere env (w2\<lparr>br_ring := ?r3\<rparr>)"
  have cn: "c \<le> span_length sp" using bs(2) n by simp
  have wf0: "ring_wf (br_ring w0)" using ok0 by (simp add: fill_ok_def)
  have st: "tx_staged ?r3 bs c \<and> rb_contents ?r3 = rb_contents (br_ring w2) \<and>
      rb_distance ?r3 = rb_distance (br_ring w2)"
    using stage_span [OF wf0, of "br_ring w2" c bs] ne cn bs(1) s2 unfolding sp_def by (simp add: w1_def)
  have ok3: "fill_ok ?r3" using st by (simp add: fill_ok_def tx_staged_def)
  have m3: "tx_moves (br_ring w) [] ?r3"
    using tx_moves_trans [OF m2 tx_moves_same [of ?r3 "br_ring w2" "[]"]] st by simp
  have s4: "tx_step ?r3 (br_ring ?w4)" using interfere_tx [OF env, of "w2\<lparr>br_ring := ?r3\<rparr>"] by simp
  have m4: "tx_moves (br_ring w) [] (br_ring ?w4)"
    using tx_moves_trans [OF m3 tx_moves_step [OF ok3 s4]] by simp
  have st4: "tx_staged (br_ring ?w4) bs c" using st tx_staged_step [OF s4] by simp
  note com = commit_staged [OF st4]
  have "fill_ok (snd (ring_buffer_commit_produced (br_ring ?w4) c))"
    using com st4 by (simp add: fill_ok_def tx_staged_def)
  moreover have "tx_moves (br_ring w) bs (snd (ring_buffer_commit_produced (br_ring ?w4) c))"
    using tx_moves_trans [OF m4 tx_moves_same] com by simp
  ultimately show "let r3 = span_store (br_ring w2) sp bs;
           w4 = interfere env (w2\<lparr>br_ring := r3\<rparr>);
           r5 = snd (ring_buffer_commit_produced (br_ring w4) c)
       in length bs = unat c \<and> c \<le> n \<and> src ctx = bs @ src ctx' \<and>
          (c = 0 \<longrightarrow> fill_ok r3 \<and> tx_moves (br_ring w) [] r3) \<and>
          fst (ring_buffer_commit_produced (br_ring w4) c) \<and> fill_ok r5 \<and> tx_moves (br_ring w) bs r5"
    using bs com ok3 m3 by (simp add: Let_def)
qed

lemma fill_loop_lossless:
  fixes env :: "'e bridge_env"
  assumes env: "tx_env env" and rd: "reader_takes src rd" and cap: "capacity \<noteq> 0"
    and "fill_ok (br_ring w)" "moved0 \<le> capacity" "unat (capacity - moved0) < fuel"
  shows "\<exists>n ctx' w' moved. bridge_fill_loop fuel env rd capacity moved0 ctx w = Some (n, ctx', w') \<and>
    n = moved0 + of_nat (length moved) \<and> n \<le> capacity \<and> src ctx = moved @ src ctx' \<and>
    tx_moves (br_ring w) moved (br_ring w')"
  using assms(4-)
proof (induction fuel arbitrary: moved0 ctx w)
  case (Suc fuel)
  show ?case
  proof (cases "moved0 < capacity")
    case False
    then show ?thesis using Suc.prems by (simp add: cap tx_moves_same)
  next
    case lt: True
    let ?w0 = "interfere env w"
    let ?sp = "fst (ring_buffer_write_span (br_ring ?w0))"
    let ?w1 = "?w0\<lparr>br_ring := snd (ring_buffer_write_span (br_ring ?w0))\<rparr>"
    let ?w2 = "interfere env ?w1"
    define offered where "offered = (if span_length ?sp > capacity - moved0 then capacity - moved0 else span_length ?sp)"
    note p1 = fill_pass(1) [OF env Suc.prems(1) rd]
    show ?thesis
    proof (cases "span_length ?sp = 0")
      case True
      then show ?thesis
        using p1 Suc.prems(2) lt by (auto simp: case_prod_beta Let_def intro!: exI [of _ "[]"])
    next
      case ne: False
      have off: "offered \<le> span_length ?sp" "offered \<le> capacity - moved0" by (auto simp: offered_def not_less)
      obtain bs c ctx1 where call: "rd ctx offered = (bs, c, ctx1)" by (cases "rd ctx offered") auto
      let ?r3 = "span_store (br_ring ?w2) ?sp bs"
      let ?w4 = "interfere env (?w2\<lparr>br_ring := ?r3\<rparr>)"
      let ?w5 = "?w4\<lparr>br_ring := snd (ring_buffer_commit_produced (br_ring ?w4) c)\<rparr>"
      note p = fill_pass(2) [OF env Suc.prems(1) rd ne off(1) call, unfolded Let_def]
      have len: "of_nat (length bs) = c" using p by simp
      have step: "moved0 + c \<le> capacity \<and> unat (capacity - (moved0 + c)) < unat (capacity - moved0)" if "c \<noteq> 0"
        proof (rule budget_step [OF that _ Suc.prems(2)])
        have "c \<le> offered" using p by simp
        then show "c \<le> capacity - moved0" using off(2) by simp
      qed
      have coff: "\<not> offered < c" and com: "fst (ring_buffer_commit_produced (br_ring ?w4) c)"
        using p by (simp_all add: not_less)
      have unfold: "bridge_fill_loop (Suc fuel) env rd capacity moved0 ctx w =
          (if c = 0 then Some (moved0, ctx1, ?w2\<lparr>br_ring := ?r3\<rparr>)
           else if c < offered then Some (moved0 + c, ctx1, ?w5)
           else bridge_fill_loop fuel env rd capacity (moved0 + c) ctx1 ?w5)"
        using lt ne cap call coff com
        by (simp add: case_prod_beta Let_def offered_def [symmetric])
      show ?thesis
      proof (cases "c = 0")
        case True
        then show ?thesis using p Suc.prems(2) unfolding unfold by (intro exI [of _ moved0] exI [of _ ctx1] exI conjI) auto
      next
        case nz: False
        have m: "tx_moves (br_ring w) bs (br_ring ?w5)" "fill_ok (br_ring ?w5)" using p by simp_all
        show ?thesis
        proof (cases "c < offered")
          case True
          then show ?thesis using p step [OF nz] nz m len unfolding unfold by auto
        next
          case False
          have "unat (capacity - (moved0 + c)) < fuel" using step [OF nz] Suc.prems(3) by linarith
          from Suc.IH [OF m(2) conjunct1 [OF step [OF nz]] this, of ctx1]
          obtain n ctx' w' moved where r: "bridge_fill_loop fuel env rd capacity (moved0 + c) ctx1 ?w5 = Some (n, ctx', w')"
              "n = moved0 + c + of_nat (length moved)" "n \<le> capacity" "src ctx1 = moved @ src ctx'"
              "tx_moves (br_ring ?w5) moved (br_ring w')" by blast
          have "tx_moves (br_ring w) (bs @ moved) (br_ring w')" by (rule tx_moves_trans [OF m(1) r(5)])
          moreover have "n = moved0 + of_nat (length (bs @ moved))" using r(2) len by (simp add: add.assoc)
          moreover have "src ctx = (bs @ moved) @ src ctx'" using p r(4) by simp
          ultimately show ?thesis using r(1,3) nz False unfolding unfold by (simp only: if_False) blast
        qed
      qed
    qed
  qed
qed simp


text \<open>A worker that consumes a byte in each step, and a reader of a list.\<close>

definition demo_worker :: "nat bridge_env" where
  "demo_worker n w = (let r = br_ring w in
     if producer r = consumer r then w else w\<lparr>br_ring := r\<lparr>consumer := consumer r + 1\<rparr>\<rparr>)"

definition demo_reader :: "u8 list \<Rightarrow> u32 \<Rightarrow> u8 list \<times> u32 \<times> u8 list" where
  "demo_reader bs n = (take (unat n) bs, of_nat (length (take (unat n) bs)), drop (unat n) bs)"

lemma demo_worker_tx: "tx_env demo_worker"
proof -
  have "unat (p - (c + 1)) \<le> unat (p - c)" if "p \<noteq> c" for p c :: u32
  proof -
    have "p - c \<noteq> 0" using that by simp
    then have "1 \<le> p - c" by (simp add: word_le_nat_alt unat_gt_0 Suc_le_eq)
    then have "unat ((p - c) - 1) \<le> unat (p - c)" by (subst unat_sub) simp_all
    then show ?thesis by (simp add: diff_diff_eq)
  qed
  then show ?thesis by (auto simp: tx_env_def demo_worker_def Let_def rb_distance_def)
qed

lemma demo_reader_takes: "reader_takes id demo_reader"
proof -
  have "unat (of_nat (length (take (unat n) bs)) :: u32) = length (take (unat n) bs)" for n :: u32 and bs :: "u8 list"
    using unat_u32_less [of n] by (intro unat_of_nat_u32) simp
  then show ?thesis by (simp add: reader_takes_def demo_reader_def word_le_nat_alt)
qed


end
