(* ===== verification/Service_Load.thy ===== *)
theory Service_Load
  imports Prelude
begin

text \<open>
  The load meter of the two service cores, \<open>firmware/src/platform/service_load.c\<close>: each core marks
  the passes of its service loop that did work, and publishes the busy share of a window of at least one
  second in units of 1/10000. The two windows are the array \<open>cores\<close>; the intrusive timing
  maxima of profiling builds (\<open>PICO_UART_PROFILE_TIMING\<close>, off by default) are not modelled.
\<close>

section \<open>State and operations\<close>

abbreviation SERVICE_LOAD_WINDOW_US :: u32 where "SERVICE_LOAD_WINDOW_US \<equiv> 1000000"
abbreviation SERVICE_LOAD_UNAVAILABLE :: u32 where "SERVICE_LOAD_UNAVAILABLE \<equiv> 65535"

record service_load_core_t =
  window_start :: u32
  pass_start :: u32
  busy_us :: u64
  started :: bool
  measuring :: bool
  worked :: bool
  published :: u32

text \<open>The static array \<open>cores[2]\<close>; the assertions keep every index below 2.\<close>

type_synonym service_load_t = "u32 \<Rightarrow> service_load_core_t"

definition service_load_init :: "service_load_t \<Rightarrow> service_load_t" where
  "service_load_init cores = fold (\<lambda>core cores. cores(core := (cores core)\<lparr>started := False,
     measuring := False, worked := False, busy_us := 0, published := SERVICE_LOAD_UNAVAILABLE\<rparr>)) [0, 1] cores"

definition service_load_begin :: "service_load_t \<Rightarrow> u32 \<Rightarrow> u32 \<Rightarrow> service_load_t" where
  "service_load_begin cores core now_us =
     (let state = cores core;
          state = (if \<not> started state then state\<lparr>window_start := now_us, started := True\<rparr> else state)
      in cores(core := state\<lparr>pass_start := now_us, worked := False, measuring := True\<rparr>))"

definition service_load_note :: "service_load_t \<Rightarrow> u32 \<Rightarrow> service_load_t" where
  "service_load_note cores core =
     (if measuring (cores core) then cores(core := (cores core)\<lparr>worked := True\<rparr>) else cores)"

definition service_load_end :: "service_load_t \<Rightarrow> u32 \<Rightarrow> u32 \<Rightarrow> service_load_t" where
  "service_load_end cores core now_us =
     (let state = cores core;
          state = (if worked state
                   then state\<lparr>busy_us := busy_us state + ucast (now_us - pass_start state)\<rparr> else state);
          state = state\<lparr>measuring := False\<rparr>;
          elapsed = now_us - window_start state
      in cores(core :=
           (if elapsed \<ge> SERVICE_LOAD_WINDOW_US
            then let ratio = (ucast (busy_us state * 10000 div ucast elapsed) :: u32)
                 in state\<lparr>published := ratio, window_start := now_us, busy_us := 0\<rparr>
            else state)))"

definition service_load_read :: "service_load_t \<Rightarrow> u32 \<Rightarrow> u16" where
  "service_load_read cores core = ucast (published (cores core))"

section \<open>The meter in real time\<close>

text \<open>
  A pass of a core's loop: its begin and end in microseconds since boot, not cut to 32 bits, and
  whether it did any work. \<open>passes_from t\<close> holds of passes that follow each other from time
  \<open>t\<close> on, with less than \<open>2 ^ 31\<close> microseconds from one end to the next.
\<close>

record pass =
  t_begin :: nat
  t_end :: nat
  pass_worked :: bool

primrec passes_from :: "nat \<Rightarrow> pass list \<Rightarrow> bool" where
  "passes_from t [] \<longleftrightarrow> True"
| "passes_from t (p # ps) \<longleftrightarrow> t \<le> t_begin p \<and> t_begin p \<le> t_end p \<and> t_end p - t < 2 ^ 31 \<and>
     passes_from (t_end p) ps"

definition run_pass :: "u32 \<Rightarrow> service_load_t \<Rightarrow> pass \<Rightarrow> service_load_t" where
  "run_pass core cores p =
     (let cores = service_load_begin cores core (of_nat (t_begin p));
          cores = (if pass_worked p then service_load_note cores core else cores)
      in service_load_end cores core (of_nat (t_end p)))"

text \<open>The same meter on natural numbers: window start, busy time and the last ratio.\<close>

record meter =
  m_start :: nat
  m_busy :: nat
  m_ratio :: "nat option"

definition meter_pass :: "meter \<Rightarrow> pass \<Rightarrow> meter" where
  "meter_pass m p =
     (let busy = m_busy m + (if pass_worked p then t_end p - t_begin p else 0);
          elapsed = t_end p - m_start m
      in if 1000000 \<le> elapsed
         then \<lparr>m_start = t_end p, m_busy = 0, m_ratio = Some (busy * 10000 div elapsed)\<rparr>
         else m\<lparr>m_busy := busy\<rparr>)"

text \<open>The meter state at time \<open>t\<close>, the end of the last pass.\<close>

definition meter_inv :: "nat \<Rightarrow> service_load_core_t \<Rightarrow> meter \<Rightarrow> bool" where
  "meter_inv t c m \<longleftrightarrow> started c \<and> \<not> measuring c \<and> window_start c = of_nat (m_start m) \<and>
     busy_us c = of_nat (m_busy m) \<and> m_start m \<le> t \<and> t - m_start m < 1000000 \<and>
     m_busy m \<le> t - m_start m \<and>
     published c = (case m_ratio m of None \<Rightarrow> SERVICE_LOAD_UNAVAILABLE | Some r \<Rightarrow> of_nat r) \<and>
     (\<forall>r. m_ratio m = Some r \<longrightarrow> r \<le> 10000)"

lemma run_pass_other: "c \<noteq> core \<Longrightarrow> run_pass core cores p c = cores c"
  by (simp add: run_pass_def service_load_begin_def service_load_note_def service_load_end_def Let_def)

lemma meter_step:
  assumes inv: "meter_inv t (cores core) m"
    and p: "t \<le> t_begin p" "t_begin p \<le> t_end p" "t_end p - t < 2 ^ 31"
  shows "meter_inv (t_end p) (run_pass core cores p core) (meter_pass m p)"
proof -
  define busy where "busy = m_busy m + (if pass_worked p then t_end p - t_begin p else 0)"
  define elapsed where "elapsed = t_end p - m_start m"
  have le: "m_start m \<le> t" "t - m_start m < 1000000" "m_busy m \<le> t - m_start m"
    using inv by (simp_all add: meter_inv_def)
  have e32: "elapsed < 2 ^ 32" using le p by (simp add: elapsed_def)
  have be: "busy \<le> elapsed" using le p by (auto simp: busy_def elapsed_def)
  have ue: "(of_nat (t_end p) :: u32) - of_nat (m_start m) = of_nat elapsed"
    using le p by (simp add: elapsed_def of_nat_diff)
  have ud: "(of_nat (t_end p) :: u32) - of_nat (t_begin p) = of_nat (t_end p - t_begin p)"
    using p by (simp add: of_nat_diff)
  have uc: "ucast (of_nat n :: u32) = (of_nat n :: u64)" if "n < 2 ^ 32" for n
    using that by (metis unat_of_nat_u32 unat_ucast_u64 of_nat_unat ucast_id)
  have d32: "t_end p - t_begin p < 2 ^ 32" using p le by simp
  have state: "run_pass core cores p core =
      (let c = (cores core)\<lparr>pass_start := of_nat (t_begin p), worked := pass_worked p,
                  busy_us := of_nat busy, measuring := False\<rparr>
       in if 1000000 \<le> elapsed
          then c\<lparr>published := ucast (of_nat busy * 10000 div of_nat elapsed :: u64),
                 window_start := of_nat (t_end p), busy_us := 0\<rparr>
          else c)"
    using inv e32 uc [OF d32] uc [OF e32]
    by (simp add: run_pass_def service_load_begin_def service_load_note_def service_load_end_def Let_def
        meter_inv_def ue ud busy_def word_le_nat_alt unat_of_nat_u32 del: of_nat_diff)
  have b64: "unat (of_nat busy * 10000 :: u64) = busy * 10000"
  proof -
    have "unat (of_nat busy :: u64) = busy" using be e32 by (simp add: unat_of_nat)
    then show ?thesis using be e32 by (subst unat_mult_u64) simp_all
  qed
  have ratio: "busy * 10000 div elapsed \<le> 10000" if "1000000 \<le> elapsed"
  proof -
    have "busy * 10000 div elapsed \<le> elapsed * 10000 div elapsed" using be by (intro div_le_mono) simp
    with that show ?thesis by simp
  qed
  have word: "(ucast (of_nat busy * 10000 div of_nat elapsed :: u64) :: u32) = of_nat (busy * 10000 div elapsed)"
  proof -
    have "unat (of_nat elapsed :: u64) = elapsed" using e32 by (simp add: unat_of_nat)
    then have "unat (of_nat busy * 10000 div of_nat elapsed :: u64) = busy * 10000 div elapsed"
      by (simp only: unat_div b64)
    then show ?thesis by (metis of_nat_unat)
  qed
  have m: "meter_pass m p = (if 1000000 \<le> elapsed
      then \<lparr>m_start = t_end p, m_busy = 0, m_ratio = Some (busy * 10000 div elapsed)\<rparr>
      else m\<lparr>m_busy := busy\<rparr>)"
    by (simp add: meter_pass_def Let_def busy_def elapsed_def)
  show ?thesis
  proof (cases "1000000 \<le> elapsed")
    case True
    then show ?thesis using inv ratio by (simp add: state m meter_inv_def word Let_def)
  next
    case False
    then show ?thesis using inv be le p by (simp add: state m meter_inv_def Let_def) (simp add: elapsed_def)
  qed
qed

lemma meter_run:
  "meter_inv t (cores core) m \<Longrightarrow> passes_from t ps \<Longrightarrow>
     \<exists>t'. meter_inv t' (fold (\<lambda>p cores. run_pass core cores p) ps cores core) (fold (\<lambda>p m. meter_pass m p) ps m)"
proof (induction ps arbitrary: t cores m)
  case (Cons p ps)
  then have "meter_inv (t_end p) (run_pass core cores p core) (meter_pass m p)"
    by (intro meter_step) auto
  then show ?case using Cons.prems(2) by (auto intro: Cons.IH)
qed auto

section \<open>Property\<close>

text \<open>The load meter is exact although its clock wraps every 71 minutes: after \<open>service_load_init\<close> and
  any series of passes less than \<open>2 ^ 31\<close> microseconds apart, a core publishes the busy share of the last
  complete window computed in unbounded arithmetic, never more than 10000, or the unavailable mark before the
  first window ends; the 16-bit read does not cut it, and the other core's window is not touched.\<close>

theorem service_load_exact:
  fixes cores :: service_load_t
  assumes "core = 0 \<or> core = 1" "passes_from (t_begin p) (p # ps)"
  defines "start \<equiv> \<lparr>m_start = t_begin p, m_busy = 0, m_ratio = None\<rparr>"
  defines "cores' \<equiv> fold (\<lambda>p cores. run_pass core cores p) (p # ps) (service_load_init cores)"
  shows "unat (service_load_read cores' core) =
           (case m_ratio (fold (\<lambda>p m. meter_pass m p) (p # ps) start) of None \<Rightarrow> 65535 | Some r \<Rightarrow> r) \<and>
         (\<forall>r. m_ratio (fold (\<lambda>p m. meter_pass m p) (p # ps) start) = Some r \<longrightarrow> r \<le> 10000) \<and>
         service_load_read cores' (1 - core) = 65535"
proof -
  define c0 where "c0 = service_load_init cores"
  define c1 where "c1 = c0(core := (c0 core)\<lparr>window_start := of_nat (t_begin p), started := True\<rparr>)"
  have idle: "\<not> started (c0 core) \<and> \<not> measuring (c0 core) \<and> busy_us (c0 core) = 0 \<and> published (c0 core) = 65535"
    "published (c0 (1 - core)) = 65535"
    using assms(1) by (auto simp: c0_def service_load_init_def)
  have same: "run_pass core c0 p = run_pass core c1 p"
    using idle by (simp add: run_pass_def c1_def service_load_begin_def Let_def)
  have "meter_inv (t_begin p) (c1 core) start"
    using idle by (simp add: meter_inv_def c1_def start_def)
  then obtain t' where "meter_inv t' (fold (\<lambda>p cores. run_pass core cores p) (p # ps) c1 core)
      (fold (\<lambda>p m. meter_pass m p) (p # ps) start)"
    using meter_run [OF _ assms(2)] by blast
  then have inv: "meter_inv t' (cores' core) (fold (\<lambda>p m. meter_pass m p) (p # ps) start)"
    using same by (simp add: cores'_def c0_def)
  have other: "fold (\<lambda>p cores. run_pass core cores p) qs c (1 - core) = c (1 - core)" for qs c
  proof (induction qs arbitrary: c)
    case (Cons q qs)
    have "1 - core \<noteq> core" using assms(1) by auto
    with Cons show ?case by (simp add: run_pass_other)
  qed simp
  have u16: "unat (ucast (of_nat r :: u32) :: u16) = r" if "r \<le> 10000" for r
    using that by (simp add: unsigned_ucast_eq unat_of_nat take_bit_nat_eq_self)
  let ?m = "fold (\<lambda>p m. meter_pass m p) (p # ps) start"
  have "unat (service_load_read cores' core) = (case m_ratio ?m of None \<Rightarrow> 65535 | Some r \<Rightarrow> r)"
    using inv u16 by (cases "m_ratio ?m") (auto simp: meter_inv_def service_load_read_def simp del: fold.simps)
  moreover have "\<forall>r. m_ratio ?m = Some r \<longrightarrow> r \<le> 10000"
    using inv by (simp add: meter_inv_def del: fold.simps)
  moreover have "service_load_read cores' (1 - core) = 65535"
    using idle(2) other [of "p # ps" c0] by (simp add: service_load_read_def cores'_def c0_def del: fold.simps)
  ultimately show ?thesis by blast
qed

text \<open>A core that works half of a second, across the wrap of its 32-bit clock.\<close>

theorem service_load_witness:
  "\<forall>cores. let ps = [\<lparr>t_begin = 4294867296, t_end = 4295367296, pass_worked = True\<rparr>,
             \<lparr>t_begin = 4295367296, t_end = 4295867296, pass_worked = False\<rparr>]
   in unat (service_load_read (fold (\<lambda>p cores. run_pass 1 cores p) ps (service_load_init cores)) 1) = 5000"
proof
  fix cores
  show "let ps = [\<lparr>t_begin = 4294867296, t_end = 4295367296, pass_worked = True\<rparr>,
             \<lparr>t_begin = 4295367296, t_end = 4295867296, pass_worked = False\<rparr>]
   in unat (service_load_read (fold (\<lambda>p cores. run_pass 1 cores p) ps (service_load_init cores)) 1) = 5000"
    using service_load_exact [of 1 "\<lparr>t_begin = 4294867296, t_end = 4295367296, pass_worked = True\<rparr>"
        "[\<lparr>t_begin = 4295367296, t_end = 4295867296, pass_worked = False\<rparr>]" cores]
    by (simp add: Let_def meter_pass_def)
qed

end
