(* ===== verification/Control_State.thy ===== *)
theory Control_State
  imports Ring_Buffer Line_Coding Service_Load
begin

text \<open>
  The shared state of the UART control path: the port types of \<open>uart/uart_driver.h\<close> and
  \<open>uart/runtime.h\<close>, the backend operation table of \<open>uart/backend/backend.h\<close>, the mailbox of
  \<open>uart/control/mailbox.c\<close>, the ownership rules of \<open>uart/control/ownership.h\<close> and the plane's
  state of \<open>uart/control/plane.h\<close>, all under \<open>firmware/src\<close>.

  C arrays over the six ports are functions from the port number; every access is guarded by the code or
  comes from a loop below \<open>UART_PORT_COUNT\<close>. A backend instance, with the hardware it drives, is a value of
  the type \<open>'b\<close>; a backend operation takes it and returns it. A pointer to a ring inside an
  instance is the pair of its reading and writing operation. Each read of the microsecond timer is the
  next value of \<open>clk\<close>; \<open>clock_reads\<close> counts them.
\<close>

section \<open>Ports and backends\<close>

type_synonym uart_port_id_t = u32

abbreviation UART_PORT_COUNT :: u32 where "UART_PORT_COUNT \<equiv> 6"

abbreviation UART_DRIVER_PORT_STATUS_READY :: u8 where "UART_DRIVER_PORT_STATUS_READY \<equiv> 1"
abbreviation UART_DRIVER_PORT_STATUS_INIT_FAILED :: u8 where "UART_DRIVER_PORT_STATUS_INIT_FAILED \<equiv> 2"
abbreviation UART_DRIVER_PORT_STATUS_CONTROL_ERROR :: u8 where "UART_DRIVER_PORT_STATUS_CONTROL_ERROR \<equiv> 4"
abbreviation UART_DRIVER_PORT_STATUS_CONTROL_PENDING :: u8 where "UART_DRIVER_PORT_STATUS_CONTROL_PENDING \<equiv> 8"

datatype uart_driver_control_error_t = UART_CONTROL_ERROR_NONE | UART_CONTROL_ERROR_BAUD
  | UART_CONTROL_ERROR_FRAMING | UART_CONTROL_ERROR_BACKEND | UART_CONTROL_ERROR_TIMEOUT
  | UART_CONTROL_ERROR_OTHER

record uart_driver_control_history_t =
  history_reason :: uart_driver_control_error_t
  history_uptime_us :: u64

record uart_driver_port_info_t =
  info_id :: uart_port_id_t
  info_backend :: uart_driver_backend_t
  info_baud_rate :: u32
  info_tx_pin :: u32
  info_rx_pin :: u32
  info_rts_pin :: u32
  info_cts_pin :: u32
  info_data_bits :: u8
  info_stop_bits :: u8
  info_parity :: uart_driver_parity_t

record uart_backend_stats_t =
  stats_uart_tx_bytes :: u32
  stats_uart_rx_bytes :: u32
  stats_rx_error_count :: u32

record 'b uart_backend_ops_t =
  op_load_config :: "'b \<Rightarrow> uart_driver_port_info_t option \<Rightarrow> bool \<times> 'b"
  op_is_initialized :: "'b \<Rightarrow> bool"
  op_init :: "'b \<Rightarrow> bool \<times> 'b"
  op_deinit :: "'b \<Rightarrow> 'b"
  op_poll :: "'b \<Rightarrow> bool \<Rightarrow> 'b"
  op_rx_ring :: "'b \<Rightarrow> ring_buffer_t option"
  op_tx_ring :: "'b \<Rightarrow> ring_buffer_t option"
  op_put_rx_ring :: "ring_buffer_t \<Rightarrow> 'b \<Rightarrow> 'b"
  op_put_tx_ring :: "ring_buffer_t \<Rightarrow> 'b \<Rightarrow> 'b"
  op_line_coding_matches :: "'b \<Rightarrow> uart_driver_line_coding_t option \<Rightarrow> bool"
  op_line_coding_acceptable :: "uart_driver_line_coding_t option \<Rightarrow> bool"
  op_set_line_coding :: "'b \<Rightarrow> uart_driver_line_coding_t option \<Rightarrow> bool \<times> 'b"
  op_restart :: "'b \<Rightarrow> bool \<times> 'b"
  op_rx_snapshot_is_current :: "'b \<Rightarrow> u32 \<Rightarrow> bool"
  op_clear_rx_error_baseline :: "'b \<Rightarrow> 'b"
  op_baud_rate :: "'b \<Rightarrow> u32"
  op_stats :: "'b \<Rightarrow> uart_backend_stats_t"

text \<open>
  Operation tables come only from \<open>uart_backend_ops_for_type\<close>, which hands out complete ones, so
  the code's checks of single operations against \<open>NULL\<close> always pass.
\<close>

record 'b uart_runtime_port_t =
  info :: uart_driver_port_info_t
  ops :: "'b uart_backend_ops_t option"
  backend :: 'b
  control_history :: uart_driver_control_history_t

section \<open>The mailbox\<close>

record uart_control_mailbox_request_t =
  request_port_id :: u32
  request_generation :: u32
  request_tx_boundary :: u32
  request_line_coding :: uart_driver_line_coding_t

record uart_control_mailbox_t =
  occupied :: bool
  mailbox_request :: uart_control_mailbox_request_t

definition zero_line_coding :: uart_driver_line_coding_t where
  "zero_line_coding = \<lparr>baud_rate = 0, data_bits = 0, stop_bits = 0, parity = UART_DRIVER_PARITY_NONE\<rparr>"

definition zero_request :: uart_control_mailbox_request_t where
  "zero_request = \<lparr>request_port_id = 0, request_generation = 0, request_tx_boundary = 0,
                   request_line_coding = zero_line_coding\<rparr>"

definition uart_control_mailbox_reset :: "uart_control_mailbox_t \<Rightarrow> uart_control_mailbox_t" where
  "uart_control_mailbox_reset mailbox = \<lparr>occupied = False, mailbox_request = zero_request\<rparr>"

definition uart_control_mailbox_can_publish :: "uart_control_mailbox_t \<Rightarrow> bool" where
  "uart_control_mailbox_can_publish mailbox \<longleftrightarrow> \<not> occupied mailbox"

definition uart_control_mailbox_publish ::
    "uart_control_mailbox_t \<Rightarrow> uart_control_mailbox_request_t option \<Rightarrow> bool \<times> uart_control_mailbox_t" where
  "uart_control_mailbox_publish mailbox request =
     (case request of None \<Rightarrow> (False, mailbox)
      | Some r \<Rightarrow> if \<not> uart_control_mailbox_can_publish mailbox then (False, mailbox)
                  else (True, mailbox\<lparr>mailbox_request := r, occupied := True\<rparr>))"

text \<open>The output cell is given and returned; \<open>None\<close> is the null pointer.\<close>

definition uart_control_mailbox_take ::
    "uart_control_mailbox_t \<Rightarrow> uart_control_mailbox_request_t option \<Rightarrow>
       bool \<times> uart_control_mailbox_request_t option \<times> uart_control_mailbox_t" where
  "uart_control_mailbox_take mailbox request =
     (if request = None \<or> \<not> occupied mailbox then (False, request, mailbox)
      else (True, Some (mailbox_request mailbox), mailbox\<lparr>occupied := False\<rparr>))"

definition uart_control_mailbox_has_pending_port :: "uart_control_mailbox_t \<Rightarrow> u32 \<Rightarrow> bool" where
  "uart_control_mailbox_has_pending_port mailbox port_id \<longleftrightarrow>
     occupied mailbox \<and> request_port_id (mailbox_request mailbox) = port_id"

section \<open>Ownership rules\<close>

definition uart_control_pending_should_clear :: "bool \<Rightarrow> bool \<Rightarrow> bool \<Rightarrow> bool" where
  "uart_control_pending_should_clear soft_pending mailbox_pending worker_pending \<longleftrightarrow>
     \<not> soft_pending \<and> \<not> mailbox_pending \<and> \<not> worker_pending"

definition uart_control_tx_should_block :: "u8 \<Rightarrow> u8 \<Rightarrow> bool" where
  "uart_control_tx_should_block status_flags control_pending_bit \<longleftrightarrow> (status_flags AND control_pending_bit) \<noteq> 0"

definition uart_control_tx_boundary_drained :: "u32 \<Rightarrow> u32 \<Rightarrow> bool" where
  "uart_control_tx_boundary_drained consumer_sequence boundary_sequence \<longleftrightarrow> consumer_sequence = boundary_sequence"

definition uart_control_worker_should_set_deadline :: "bool \<Rightarrow> bool \<Rightarrow> bool" where
  "uart_control_worker_should_set_deadline was_pending same_request \<longleftrightarrow> \<not> was_pending \<or> \<not> same_request"

definition uart_control_completion_is_current :: "u32 \<Rightarrow> u32 \<Rightarrow> bool" where
  "uart_control_completion_is_current completion_generation latest_generation \<longleftrightarrow>
     completion_generation = latest_generation"

text \<open>The flag byte is given and returned; \<open>None\<close> is the null pointer.\<close>

definition uart_control_apply_completion_error ::
    "u8 option \<Rightarrow> u8 \<Rightarrow> u32 \<Rightarrow> u32 \<Rightarrow> bool \<Rightarrow> u8 option" where
  "uart_control_apply_completion_error flags control_error_bit completion_generation latest_generation success =
     (case flags of None \<Rightarrow> None
      | Some v \<Rightarrow>
          if \<not> uart_control_completion_is_current completion_generation latest_generation then Some v
          else if success then Some (v AND NOT control_error_bit) else Some (v OR control_error_bit))"

definition uart_control_apply_reject_error ::
    "u32 option \<Rightarrow> u8 option \<Rightarrow> u8 \<Rightarrow> u32 option \<times> u8 option" where
  "uart_control_apply_reject_error generation flags control_error_bit =
     (if generation = None \<or> flags = None then (generation, flags)
      else (map_option (\<lambda>g. g + 1) generation, map_option (\<lambda>v. v OR control_error_bit) flags))"

section \<open>The plane's state\<close>

text \<open>\<open>absolute_time_t\<close> is the 64-bit microsecond count since boot.\<close>

record uart_control_pending_t =
  pending :: bool
  pending_generation :: u32
  pending_tx_boundary :: u32
  pending_deadline :: u64
  pending_line_coding :: uart_driver_line_coding_t

definition zero_pending :: uart_control_pending_t where
  "zero_pending = \<lparr>pending = False, pending_generation = 0, pending_tx_boundary = 0, pending_deadline = 0,
                   pending_line_coding = zero_line_coding\<rparr>"

text \<open>
  The views of \<open>uart_control_plane_t\<close> point into the driver's state, which extends this record;
  \<open>views_bound\<close> says that \<open>uart_driver_bind_state_views\<close> has set them.
\<close>

record 'b uart_control_plane_t =
  views_bound :: bool
  ports :: "uart_port_id_t \<Rightarrow> 'b uart_runtime_port_t"
  mailboxes :: "uart_port_id_t \<Rightarrow> uart_control_mailbox_t"
  pending_controls :: "uart_port_id_t \<Rightarrow> uart_control_pending_t"
  soft_pending_controls :: "uart_port_id_t \<Rightarrow> bool"
  control_generations :: "uart_port_id_t \<Rightarrow> u32"
  status_flags :: "uart_port_id_t \<Rightarrow> u8"
  stats_sequence :: "uart_port_id_t \<Rightarrow> u32"
  poll_start_index :: u32
  load_meter :: service_load_t
  clock_reads :: nat

text \<open>Writes of one array element.\<close>

definition put_port :: "uart_port_id_t \<Rightarrow> 'b uart_runtime_port_t \<Rightarrow> ('b, 'z) uart_control_plane_t_scheme \<Rightarrow>
    ('b, 'z) uart_control_plane_t_scheme" where
  "put_port p v st = st\<lparr>ports := (ports st)(p := v)\<rparr>"

definition put_mailbox :: "uart_port_id_t \<Rightarrow> uart_control_mailbox_t \<Rightarrow> ('b, 'z) uart_control_plane_t_scheme \<Rightarrow>
    ('b, 'z) uart_control_plane_t_scheme" where
  "put_mailbox p v st = st\<lparr>mailboxes := (mailboxes st)(p := v)\<rparr>"

definition put_pending :: "uart_port_id_t \<Rightarrow> uart_control_pending_t \<Rightarrow> ('b, 'z) uart_control_plane_t_scheme \<Rightarrow>
    ('b, 'z) uart_control_plane_t_scheme" where
  "put_pending p v st = st\<lparr>pending_controls := (pending_controls st)(p := v)\<rparr>"

definition put_soft :: "uart_port_id_t \<Rightarrow> bool \<Rightarrow> ('b, 'z) uart_control_plane_t_scheme \<Rightarrow>
    ('b, 'z) uart_control_plane_t_scheme" where
  "put_soft p v st = st\<lparr>soft_pending_controls := (soft_pending_controls st)(p := v)\<rparr>"

definition put_generation :: "uart_port_id_t \<Rightarrow> u32 \<Rightarrow> ('b, 'z) uart_control_plane_t_scheme \<Rightarrow>
    ('b, 'z) uart_control_plane_t_scheme" where
  "put_generation p v st = st\<lparr>control_generations := (control_generations st)(p := v)\<rparr>"

definition put_flags :: "uart_port_id_t \<Rightarrow> u8 \<Rightarrow> ('b, 'z) uart_control_plane_t_scheme \<Rightarrow>
    ('b, 'z) uart_control_plane_t_scheme" where
  "put_flags p v st = st\<lparr>status_flags := (status_flags st)(p := v)\<rparr>"

definition bump_stats :: "uart_port_id_t \<Rightarrow> ('b, 'z) uart_control_plane_t_scheme \<Rightarrow>
    ('b, 'z) uart_control_plane_t_scheme" where
  "bump_stats p st = st\<lparr>stats_sequence := (stats_sequence st)(p := stats_sequence st p + 1)\<rparr>"

definition put_backend :: "uart_port_id_t \<Rightarrow> 'b \<Rightarrow> ('b, 'z) uart_control_plane_t_scheme \<Rightarrow>
    ('b, 'z) uart_control_plane_t_scheme" where
  "put_backend p v st = put_port p ((ports st p)\<lparr>backend := v\<rparr>) st"

text \<open>The timer: \<open>time_us_64\<close>, \<open>make_timeout_time_ms\<close> and \<open>time_reached\<close> of the SDK.\<close>

definition read_clock :: "(nat \<Rightarrow> u64) \<Rightarrow> ('b, 'z) uart_control_plane_t_scheme \<Rightarrow>
    u64 \<times> ('b, 'z) uart_control_plane_t_scheme" where
  "read_clock clk st = (clk (clock_reads st), st\<lparr>clock_reads := Suc (clock_reads st)\<rparr>)"

definition time_reached :: "(nat \<Rightarrow> u64) \<Rightarrow> u64 \<Rightarrow> ('b, 'z) uart_control_plane_t_scheme \<Rightarrow>
    bool \<times> ('b, 'z) uart_control_plane_t_scheme" where
  "time_reached clk t st = (let (now, st) = read_clock clk st in (t \<le> now, st))"

definition make_timeout_time_ms :: "(nat \<Rightarrow> u64) \<Rightarrow> u32 \<Rightarrow> ('b, 'z) uart_control_plane_t_scheme \<Rightarrow>
    u64 \<times> ('b, 'z) uart_control_plane_t_scheme" where
  "make_timeout_time_ms clk ms st = (let (now, st) = read_clock clk st in (now + 1000 * ucast ms, st))"

definition note_load :: "u32 \<Rightarrow> ('b, 'z) uart_control_plane_t_scheme \<Rightarrow> ('b, 'z) uart_control_plane_t_scheme" where
  "note_load core st = st\<lparr>load_meter := service_load_note (load_meter st) core\<rparr>"

definition uart_control_record_error :: "(nat \<Rightarrow> u64) \<Rightarrow> uart_port_id_t \<Rightarrow> uart_driver_control_error_t \<Rightarrow>
    ('b, 'z) uart_control_plane_t_scheme \<Rightarrow> ('b, 'z) uart_control_plane_t_scheme" where
  "uart_control_record_error clk p reason st =
     (let (now, st) = read_clock clk st
      in put_port p ((ports st p)\<lparr>control_history :=
           \<lparr>history_reason = reason, history_uptime_us = now\<rparr>\<rparr>) st)"

lemmas put_defs = put_port_def put_mailbox_def put_pending_def put_soft_def put_generation_def put_flags_def
  bump_stats_def put_backend_def

lemmas clock_defs = read_clock_def time_reached_def make_timeout_time_ms_def note_load_def
  uart_control_record_error_def

end
