(* ===== verification/Control_Plane.thy ===== *)
theory Control_Plane
  imports Control_State
begin

text \<open>
  The worker's side of the control path, \<open>firmware/src/uart/control/plane.c\<close>: requests are taken from
  the mailboxes, validated, deferred until the old-format bytes have left, applied and reported. Each
  stretch the code runs under \<open>status_lock\<close> is a definition of its own (\<open>..._locked\<close>), so that the
  same text serves the sequential model here and the interleaved one of \<open>Control_Invariant\<close>.
\<close>

abbreviation UART_CONTROL_PLANE_APPLY_TIMEOUT_MS :: u32 where "UART_CONTROL_PLANE_APPLY_TIMEOUT_MS \<equiv> 1000"

section \<open>Error reasons and completions\<close>

text \<open>The port pointer of the calls is never null; its operation table can be.\<close>

definition uart_control_plane_line_coding_error ::
    "'b uart_runtime_port_t option \<Rightarrow> uart_driver_line_coding_t option \<Rightarrow> uart_driver_control_error_t" where
  "uart_control_plane_line_coding_error port line_coding =
     (case line_coding of None \<Rightarrow> UART_CONTROL_ERROR_OTHER
      | Some lc \<Rightarrow>
          if baud_rate lc < UART_LINE_CODING_BAUD_MIN \<or> baud_rate lc > UART_LINE_CODING_BAUD_MAX
          then UART_CONTROL_ERROR_BAUD
          else if \<not> uart_line_coding_is_valid line_coding then UART_CONTROL_ERROR_FRAMING
          else if port = None \<or> ops (the port) = None then UART_CONTROL_ERROR_BACKEND
          else if info_backend (info (the port)) = UART_DRIVER_BACKEND_PIO \<and>
                  (data_bits lc \<noteq> 8 \<or> stop_bits lc \<noteq> 1 \<or> parity lc \<noteq> UART_DRIVER_PARITY_NONE)
          then UART_CONTROL_ERROR_FRAMING
          else UART_CONTROL_ERROR_BAUD)"

definition uart_control_plane_mailbox_has_pending_port ::
    "('b, 'z) uart_control_plane_t_scheme \<Rightarrow> uart_port_id_t \<Rightarrow> bool" where
  "uart_control_plane_mailbox_has_pending_port st port_id \<longleftrightarrow>
     port_id < UART_PORT_COUNT \<and> uart_control_mailbox_has_pending_port (mailboxes st port_id) port_id"

text \<open>The applied line coding as published in the port's metadata.\<close>

definition set_info_coding :: "uart_driver_line_coding_t \<Rightarrow> 'b uart_runtime_port_t \<Rightarrow> 'b uart_runtime_port_t" where
  "set_info_coding lc port = port\<lparr>info := (info port)\<lparr>info_baud_rate := baud_rate lc,
     info_data_bits := data_bits lc, info_stop_bits := stop_bits lc, info_parity := parity lc\<rparr>\<rparr>"

definition clear_pending_flag :: "uart_port_id_t \<Rightarrow> ('b, 'z) uart_control_plane_t_scheme \<Rightarrow>
    ('b, 'z) uart_control_plane_t_scheme" where
  "clear_pending_flag p st = put_flags p (status_flags st p AND NOT UART_DRIVER_PORT_STATUS_CONTROL_PENDING) st"

definition complete_error :: "uart_port_id_t \<Rightarrow> u32 \<Rightarrow> bool \<Rightarrow> ('b, 'z) uart_control_plane_t_scheme \<Rightarrow>
    ('b, 'z) uart_control_plane_t_scheme" where
  "complete_error p generation success st =
     put_flags p (the (uart_control_apply_completion_error (Some (status_flags st p))
       UART_DRIVER_PORT_STATUS_CONTROL_ERROR generation (control_generations st p) success)) st"

definition finish_worker_locked ::
    "(nat \<Rightarrow> u64) \<Rightarrow> uart_port_id_t \<Rightarrow> u32 \<Rightarrow> bool \<Rightarrow> uart_driver_line_coding_t option \<Rightarrow>
     uart_driver_control_error_t \<Rightarrow> ('b, 'z) uart_control_plane_t_scheme \<Rightarrow>
       ('b, 'z) uart_control_plane_t_scheme" where
  "finish_worker_locked clk port_id control_generation success applied_line_coding err st =
     (let st = (case (success, applied_line_coding) of
                  (True, Some lc) \<Rightarrow> put_port port_id (set_info_coding lc (ports st port_id)) st
                | _ \<Rightarrow> st);
          st = (if \<not> success then uart_control_record_error clk port_id err st else st);
          st = put_pending port_id ((pending_controls st port_id)\<lparr>pending := False\<rparr>) st;
          st = (if uart_control_pending_should_clear (soft_pending_controls st port_id)
                     (uart_control_plane_mailbox_has_pending_port st port_id) False
                then clear_pending_flag port_id st else st)
      in complete_error port_id control_generation success st)"

definition uart_control_plane_finish_worker_control ::
    "(nat \<Rightarrow> u64) \<Rightarrow> uart_port_id_t \<Rightarrow> u32 \<Rightarrow> bool \<Rightarrow> uart_driver_line_coding_t option \<Rightarrow>
     uart_driver_control_error_t \<Rightarrow> ('b, 'z) uart_control_plane_t_scheme \<Rightarrow>
       ('b, 'z) uart_control_plane_t_scheme" where
  "uart_control_plane_finish_worker_control clk port_id control_generation success applied_line_coding err st =
     finish_worker_locked clk port_id control_generation success applied_line_coding err (note_load 1 st)"

definition uart_control_plane_finish_mailbox_control ::
    "(nat \<Rightarrow> u64) \<Rightarrow> uart_port_id_t \<Rightarrow> u32 \<Rightarrow> bool \<Rightarrow> bool \<Rightarrow> u32 \<Rightarrow> bool \<Rightarrow>
     uart_driver_control_error_t \<Rightarrow> ('b, 'z) uart_control_plane_t_scheme \<Rightarrow>
       ('b, 'z) uart_control_plane_t_scheme" where
  "uart_control_plane_finish_mailbox_control clk port_id control_generation success drop_provisional_pending
       worker_generation complete_worker err st =
     (let st = (if \<not> success then uart_control_record_error clk port_id err st else st);
          st = (if drop_provisional_pending \<or> complete_worker
                then put_pending port_id ((pending_controls st port_id)\<lparr>pending := False\<rparr>) st else st);
          st = (if complete_worker then complete_error port_id worker_generation True st else st);
          st = (if uart_control_pending_should_clear (soft_pending_controls st port_id)
                     (uart_control_plane_mailbox_has_pending_port st port_id)
                     (pending (pending_controls st port_id))
                then clear_pending_flag port_id st else st)
      in complete_error port_id control_generation success st)"

definition uart_control_plane_set_worker_pending ::
    "uart_port_id_t \<Rightarrow> u32 \<Rightarrow> ('b, 'z) uart_control_plane_t_scheme \<Rightarrow> ('b, 'z) uart_control_plane_t_scheme" where
  "uart_control_plane_set_worker_pending port_id control_generation st =
     (let st = put_pending port_id ((pending_controls st port_id)\<lparr>pending := True,
                                     pending_generation := control_generation\<rparr>) st;
          st = put_flags port_id (status_flags st port_id OR UART_DRIVER_PORT_STATUS_CONTROL_PENDING) st
      in if uart_control_completion_is_current control_generation (control_generations st port_id)
         then put_flags port_id (status_flags st port_id AND NOT UART_DRIVER_PORT_STATUS_CONTROL_ERROR) st
         else st)"

section \<open>Deferred requests\<close>

definition uart_control_plane_tx_boundary_drained :: "'b uart_runtime_port_t option \<Rightarrow> u32 \<Rightarrow> bool" where
  "uart_control_plane_tx_boundary_drained port boundary_sequence =
     (case port of None \<Rightarrow> False
      | Some p \<Rightarrow>
          (case ops p of None \<Rightarrow> False
           | Some o' \<Rightarrow>
               (case op_tx_ring o' (backend p) of None \<Rightarrow> False
                | Some tx_ring \<Rightarrow> uart_control_tx_boundary_drained (consumer tx_ring) boundary_sequence)))"

definition backend_stopped_locked :: "uart_port_id_t \<Rightarrow> ('b, 'z) uart_control_plane_t_scheme \<Rightarrow>
    ('b, 'z) uart_control_plane_t_scheme" where
  "backend_stopped_locked port_id st =
     (let st = put_flags port_id (status_flags st port_id OR UART_DRIVER_PORT_STATUS_INIT_FAILED) st
      in put_flags port_id (status_flags st port_id AND NOT UART_DRIVER_PORT_STATUS_READY) st)"

definition uart_control_plane_service_pending ::
    "(nat \<Rightarrow> u64) \<Rightarrow> uart_port_id_t \<Rightarrow> ('b, 'z) uart_control_plane_t_scheme \<Rightarrow>
       ('b, 'z) uart_control_plane_t_scheme" where
  "uart_control_plane_service_pending clk port_id st =
     (let pend = pending_controls st port_id;
          finish = (\<lambda>success applied err. uart_control_plane_finish_worker_control clk port_id
                      (pending_generation pend) success applied err)
      in if \<not> pending pend then st
         else if \<not> uart_control_plane_tx_boundary_drained (Some (ports st port_id)) (pending_tx_boundary pend)
         then let (late, st) = time_reached clk (pending_deadline pend) st
              in if late then finish False None UART_CONTROL_ERROR_TIMEOUT st else st
         else case ops (ports st port_id) of None \<Rightarrow> finish False None UART_CONTROL_ERROR_BACKEND st
         | Some o' \<Rightarrow>
             let (late, st) = time_reached clk (pending_deadline pend) st
             in if late then finish False None UART_CONTROL_ERROR_TIMEOUT st
                else let st = note_load 1 st;
                         (applied, b) = op_set_line_coding o' (backend (ports st port_id))
                                          (Some (pending_line_coding pend));
                         st = put_backend port_id b st
                     in if \<not> applied
                        then if \<not> op_is_initialized o' b
                             then finish False None UART_CONTROL_ERROR_BACKEND (backend_stopped_locked port_id st)
                             else let (late, st) = time_reached clk (pending_deadline pend) st
                                  in if late then finish False None UART_CONTROL_ERROR_TIMEOUT st else st
                        else finish True (Some (pending_line_coding pend)) UART_CONTROL_ERROR_NONE st)"

definition uart_control_plane_set_line_coding ::
    "(nat \<Rightarrow> u64) \<Rightarrow> uart_control_mailbox_request_t \<Rightarrow> bool \<Rightarrow> ('b, 'z) uart_control_plane_t_scheme \<Rightarrow>
       ('b, 'z) uart_control_plane_t_scheme" where
  "uart_control_plane_set_line_coding clk request prior_pending st =
     (let port_id = request_port_id request;
          lc = request_line_coding request;
          generation = request_generation request
      in if port_id \<ge> UART_PORT_COUNT then st
         else let port = ports st port_id;
                  pend = pending_controls st port_id;
                  reject = (\<lambda>st. uart_control_plane_finish_mailbox_control clk port_id generation False
                              (\<not> prior_pending) 0 False
                              (uart_control_plane_line_coding_error (Some port) (Some lc)) st)
         in if \<not> uart_line_coding_is_valid (Some lc) then reject st
         else let same_request = (prior_pending \<and>
                    baud_rate (pending_line_coding pend) = baud_rate lc \<and>
                    data_bits (pending_line_coding pend) = data_bits lc \<and>
                    stop_bits (pending_line_coding pend) = stop_bits lc \<and>
                    parity (pending_line_coding pend) = parity lc)
         in if (case ops port of None \<Rightarrow> False | Some o' \<Rightarrow> op_line_coding_matches o' (backend port) (Some lc))
            then let st = put_port port_id (set_info_coding lc (ports st port_id)) st
                 in uart_control_plane_finish_mailbox_control clk port_id generation True (\<not> prior_pending)
                      (pending_generation pend) prior_pending UART_CONTROL_ERROR_NONE st
            else if (case ops port of None \<Rightarrow> True | Some o' \<Rightarrow> \<not> op_line_coding_acceptable o' (Some lc))
            then reject st
            else let st = put_pending port_id (pend\<lparr>pending_line_coding := lc\<rparr>) st;
                     st = (if uart_control_worker_should_set_deadline prior_pending same_request
                           then let (deadline, st) =
                                      make_timeout_time_ms clk UART_CONTROL_PLANE_APPLY_TIMEOUT_MS st
                                in put_pending port_id
                                     ((pending_controls st port_id)\<lparr>pending_deadline := deadline\<rparr>) st
                           else st);
                     st = put_pending port_id ((pending_controls st port_id)\<lparr>
                            pending_tx_boundary := request_tx_boundary request\<rparr>) st
                 in uart_control_plane_set_worker_pending port_id generation st)"

section \<open>The service sweep\<close>

text \<open>
  The first locked stretch of the sweep: the request is taken and, when no other one is deferred, the worker
  registers as its owner. The payload is \<open>None\<close> when the port is not ready or its mailbox is empty.
\<close>

definition plane_take_locked ::
    "uart_port_id_t \<Rightarrow> ('b, 'z) uart_control_plane_t_scheme \<Rightarrow>
       uart_control_mailbox_request_t option \<times> bool \<times> ('b, 'z) uart_control_plane_t_scheme" where
  "plane_take_locked index st =
     (if (status_flags st index AND UART_DRIVER_PORT_STATUS_READY) = 0 then (None, False, st)
      else let (taken, request, mailbox) = uart_control_mailbox_take (mailboxes st index) (Some zero_request);
               st = put_mailbox index mailbox st;
               prior_pending = (taken \<and> pending (pending_controls st index));
               st = (if taken \<and> \<not> prior_pending
                     then put_pending index ((pending_controls st index)\<lparr>pending := True,
                            pending_generation := request_generation (the request)\<rparr>) st
                     else st)
           in (if taken then request else None, prior_pending, st))"

definition plane_service_mailbox ::
    "(nat \<Rightarrow> u64) \<Rightarrow> uart_port_id_t \<Rightarrow> ('b, 'z) uart_control_plane_t_scheme \<Rightarrow>
       ('b, 'z) uart_control_plane_t_scheme" where
  "plane_service_mailbox clk index st =
     (let (taken, prior_pending, st) = plane_take_locked index st
      in case taken of None \<Rightarrow> st
         | Some request \<Rightarrow>
             let st = note_load 1 st
             in if request_port_id request \<noteq> index
                then uart_control_plane_finish_mailbox_control clk index (request_generation request) False
                       (\<not> prior_pending) 0 False UART_CONTROL_ERROR_OTHER st
                else uart_control_plane_set_line_coding clk request prior_pending st)"

definition plane_service_deferred ::
    "(nat \<Rightarrow> u64) \<Rightarrow> uart_port_id_t \<Rightarrow> ('b, 'z) uart_control_plane_t_scheme \<Rightarrow>
       ('b, 'z) uart_control_plane_t_scheme" where
  "plane_service_deferred clk index st =
     (if \<not> pending (pending_controls st index) then st
      else if (status_flags st index AND UART_DRIVER_PORT_STATUS_READY) = 0 then st
      else bump_stats index (uart_control_plane_service_pending clk index (bump_stats index st)))"

definition uart_control_plane_service ::
    "(nat \<Rightarrow> u64) \<Rightarrow> ('b, 'z) uart_control_plane_t_scheme \<Rightarrow> ('b, 'z) uart_control_plane_t_scheme" where
  "uart_control_plane_service clk st =
     (if \<not> views_bound st then st
      else let st = fold (\<lambda>offset st. plane_service_mailbox clk ((poll_start_index st + offset) mod UART_PORT_COUNT) st)
                      [0, 1, 2, 3, 4, 5] st
           in fold (\<lambda>offset st. plane_service_deferred clk ((poll_start_index st + offset) mod UART_PORT_COUNT) st)
                [0, 1, 2, 3, 4, 5] st)"

section \<open>Starting a port\<close>

definition start_take_locked ::
    "uart_port_id_t \<Rightarrow> ('b, 'z) uart_control_plane_t_scheme \<Rightarrow>
       uart_control_mailbox_request_t option \<times> uart_driver_line_coding_t \<times>
       ('b, 'z) uart_control_plane_t_scheme" where
  "start_take_locked port_id st =
     (let i = info (ports st port_id);
          previous = \<lparr>baud_rate = info_baud_rate i, data_bits = info_data_bits i,
                      stop_bits = info_stop_bits i, parity = info_parity i\<rparr>;
          (taken, request, mailbox) = uart_control_mailbox_take (mailboxes st port_id) (Some zero_request);
          st = put_mailbox port_id mailbox st;
          st = (if taken then put_pending port_id ((pending_controls st port_id)\<lparr>pending := True,
                                pending_generation := request_generation (the request)\<rparr>) st
                else st)
      in (if taken then request else None, previous, st))"

definition uart_control_plane_start_port ::
    "(nat \<Rightarrow> u64) \<Rightarrow> uart_port_id_t \<Rightarrow> ('b, 'z) uart_control_plane_t_scheme \<Rightarrow>
       bool \<times> ('b, 'z) uart_control_plane_t_scheme" where
  "uart_control_plane_start_port clk port_id st =
     (if port_id \<ge> UART_PORT_COUNT then (False, st)
      else let (taken, previous, st) = start_take_locked port_id st;
               initial = (case taken of Some request \<Rightarrow> request_line_coding request | None \<Rightarrow> previous);
               port = ports st port_id;
               (started, b) =
                 (case ops port of None \<Rightarrow> (False, backend port)
                  | Some o' \<Rightarrow>
                      if (case taken of Some request \<Rightarrow> request_port_id request \<noteq> port_id | None \<Rightarrow> False) \<or>
                         \<not> uart_line_coding_is_valid (Some initial) \<or> \<not> op_line_coding_acceptable o' (Some initial)
                      then (False, backend port)
                      else let (staged, b) = op_set_line_coding o' (backend port) (Some initial)
                           in if \<not> staged then (False, b) else op_restart o' b);
               st = put_backend port_id b st
           in (started,
               (case taken of None \<Rightarrow> st
                | Some request \<Rightarrow>
                    uart_control_plane_finish_worker_control clk port_id (request_generation request) started
                      (if started then Some (request_line_coding request) else None)
                      UART_CONTROL_ERROR_BACKEND st)))"

definition uart_control_plane_tx_launch_allowed ::
    "('b, 'z) uart_control_plane_t_scheme \<Rightarrow> uart_port_id_t \<Rightarrow> bool" where
  "uart_control_plane_tx_launch_allowed st port_id =
     (if port_id \<ge> UART_PORT_COUNT then False
      else \<not> pending (pending_controls st port_id) \<or>
           \<not> uart_control_plane_tx_boundary_drained (Some (ports st port_id))
                (pending_tx_boundary (pending_controls st port_id)))"

end
