(* ===== verification/Worker.thy ===== *)
theory Worker
  imports Service_Load
begin

text \<open>
  The loop of core 1, \<open>firmware/src/uart/worker.c\<close> and \<open>worker.h\<close>, and the liveness check that decides
  whether core 0 feeds the watchdog. The hooks work on a state \<open>'s\<close>; \<open>on_load\<close> updates the load
  meter in it, and the clock reads of \<open>time_us_32\<close> are the values of \<open>clk\<close>, two for each sweep.
\<close>

abbreviation UART_WORKER_HEARTBEAT_STALE_MS :: u32 where "UART_WORKER_HEARTBEAT_STALE_MS \<equiv> 2000"

text \<open>A hook that is a null function pointer is \<open>None\<close>; the heartbeat pointer is the update of its target.\<close>

record 's uart_worker_hooks_t =
  hook_initialize :: "('s \<Rightarrow> 's) option"
  hook_service_control :: "('s \<Rightarrow> 's) option"
  hook_poll_io :: "('s \<Rightarrow> 's) option"
  hook_heartbeat :: "((u32 \<Rightarrow> u32) \<Rightarrow> 's \<Rightarrow> 's) option"

definition uart_worker_step :: "'s uart_worker_hooks_t option \<Rightarrow> 's \<Rightarrow> 's" where
  "uart_worker_step hooks s =
     (case hooks of None \<Rightarrow> s
      | Some h \<Rightarrow>
          (case (hook_service_control h, hook_poll_io h, hook_heartbeat h) of
             (Some service_control, Some poll_io, Some heartbeat) \<Rightarrow>
               heartbeat (\<lambda>n. n + 1) (poll_io (service_control s))
           | _ \<Rightarrow> s))"

text \<open>One pass of the endless loop, and the state after \<open>n\<close> passes; a call without hooks never makes one.\<close>

definition uart_worker_sweep ::
    "((service_load_t \<Rightarrow> service_load_t) \<Rightarrow> 's \<Rightarrow> 's) \<Rightarrow> (nat \<Rightarrow> u32) \<Rightarrow> 's uart_worker_hooks_t option \<Rightarrow>
       nat \<Rightarrow> 's \<Rightarrow> 's" where
  "uart_worker_sweep on_load clk hooks k s =
     (let s = on_load (\<lambda>load. service_load_begin load 1 (clk (2 * k))) s;
          s = uart_worker_step hooks s
      in on_load (\<lambda>load. service_load_end load 1 (clk (2 * k + 1))) s)"

definition uart_worker_run ::
    "((service_load_t \<Rightarrow> service_load_t) \<Rightarrow> 's \<Rightarrow> 's) \<Rightarrow> (nat \<Rightarrow> u32) \<Rightarrow> 's uart_worker_hooks_t option \<Rightarrow>
       nat \<Rightarrow> 's \<Rightarrow> 's" where
  "uart_worker_run on_load clk hooks n s =
     (case hooks of None \<Rightarrow> s
      | Some h \<Rightarrow> (case hook_initialize h of None \<Rightarrow> s
                  | Some initialize \<Rightarrow> fold (uart_worker_sweep on_load clk hooks) [0..<n] (initialize s)))"

text \<open>The in-out cells are given and returned; the comparison is between signed values.\<close>

definition uart_worker_heartbeat_is_fresh ::
    "u32 \<Rightarrow> u32 option \<Rightarrow> u32 \<Rightarrow> u32 option \<Rightarrow> u32 \<Rightarrow> bool \<times> u32 option \<times> u32 option" where
  "uart_worker_heartbeat_is_fresh heartbeat last_heartbeat now_ms last_change_ms stale_ms =
     (if last_heartbeat = None \<or> last_change_ms = None \<or> stale_ms = 0
      then (False, last_heartbeat, last_change_ms)
      else if heartbeat \<noteq> the last_heartbeat then (True, Some heartbeat, Some now_ms)
      else (sint (now_ms - the last_change_ms) < sint stale_ms, last_heartbeat, last_change_ms))"

section \<open>Properties\<close>

text \<open>Every sweep of the worker loop serves control before I/O exactly once and then advances the heartbeat by
  one: with complete hooks that leave the counter alone, the heartbeat after \<open>n\<close> sweeps has advanced
  by exactly \<open>n\<close> (modulo the counter's wrap), and an incomplete hook table moves nothing.\<close>

theorem worker_heartbeat_counts_sweeps:
  fixes get :: "'s \<Rightarrow> u32"
  assumes hooks: "hook_initialize h = Some initialize" "hook_service_control h = Some control"
      "hook_poll_io h = Some io" "hook_heartbeat h = Some heartbeat"
    and beat: "\<And>f s. get (heartbeat f s) = f (get s)"
    and frame: "\<And>s. get (initialize s) = get s" "\<And>s. get (control s) = get s" "\<And>s. get (io s) = get s"
      "\<And>f s. get (on_load f s) = get s"
  shows "get (uart_worker_run on_load clk (Some h) n s) = get s + of_nat n \<and>
    uart_worker_step (Some h) s = heartbeat (\<lambda>k. k + 1) (io (control s)) \<and>
    uart_worker_step (Some (h\<lparr>hook_poll_io := None\<rparr>)) s = s \<and>
    uart_worker_run on_load clk (Some (h\<lparr>hook_initialize := None\<rparr>)) n s = s"
proof -
  have sweep: "get (uart_worker_sweep on_load clk (Some h) k t) = get t + 1" for k t
    by (simp add: uart_worker_sweep_def uart_worker_step_def Let_def hooks beat frame)
  have "get (fold (uart_worker_sweep on_load clk (Some h)) [0..<n] t) = get t + of_nat n" for t
    by (induction n) (simp_all add: sweep)
  then show ?thesis
    by (simp add: uart_worker_run_def uart_worker_step_def hooks frame)
qed

theorem worker_heartbeat_witness:
  "uart_worker_run (\<lambda>f s. s) (\<lambda>k. 0)
     (Some \<lparr>hook_initialize = Some id, hook_service_control = Some (apsnd ((+) 2)),
            hook_poll_io = Some (apsnd ((*) 3)), hook_heartbeat = Some apfst\<rparr>) 2 (UINT32_MAX, 1 :: nat)
     = (1, 33)"
proof -
  let ?h = "\<lparr>hook_initialize = Some id, hook_service_control = Some (apsnd ((+) 2)),
            hook_poll_io = Some (apsnd ((*) 3)), hook_heartbeat = Some apfst\<rparr>
            :: (u32 \<times> nat) uart_worker_hooks_t"
  let ?r = "uart_worker_run (\<lambda>f s. s) (\<lambda>k. 0) (Some ?h) 2 (UINT32_MAX, 1 :: nat)"
  have "fst ?r = 1"
    using worker_heartbeat_counts_sweeps [of ?h id "apsnd ((+) 2)" "apsnd ((*) 3)" apfst fst "\<lambda>f s. s" "\<lambda>k. 0" 2]
    by simp
  moreover have "snd ?r = 33"
    by (simp add: uart_worker_run_def uart_worker_sweep_def uart_worker_step_def numeral_2_eq_2)
  ultimately show ?thesis by (simp add: prod_eq_iff)
qed

text \<open>The checks core 0 makes while the counter it reads stays the same, with their results.\<close>

primrec stuck_checks :: "u32 \<Rightarrow> u32 option \<Rightarrow> u32 option \<Rightarrow> nat list \<Rightarrow> bool list" where
  "stuck_checks heartbeat last_heartbeat last_change_ms [] = []"
| "stuck_checks heartbeat last_heartbeat last_change_ms (t # ts) =
     (let (fresh, last_heartbeat, last_change_ms) = uart_worker_heartbeat_is_fresh heartbeat last_heartbeat
            (of_nat t) last_change_ms UART_WORKER_HEARTBEAT_STALE_MS
      in fresh # stuck_checks heartbeat last_heartbeat last_change_ms ts)"

lemma stuck_fresh:
  assumes "c \<le> t" "t - c < 2 ^ 31"
  shows "uart_worker_heartbeat_is_fresh h (Some h) (of_nat t) (Some (of_nat c)) UART_WORKER_HEARTBEAT_STALE_MS
     = (t - c < 2000, Some h, Some (of_nat c))"
proof -
  let ?d = "(of_nat t :: u32) - of_nat c"
  have u: "unat ?d = t - c" using assms by (intro unat_diff_of_nat) simp_all
  have ui: "uint ?d = int (t - c)" by (metis u uint_nat)
  have "sint ?d = int (t - c)"
    unfolding sint_uint ui using assms(2) by (intro signed_take_bit_int_eq_self) simp_all
  moreover have "sint (2000 :: u32) = 2000" by simp
  ultimately show ?thesis by (simp add: uart_worker_heartbeat_is_fresh_def)
qed


text \<open>A hung worker is noticed in time. When core 0 keeps reading the same counter at times \<open>ts\<close>, in order
  and within \<open>2 ^ 31\<close> milliseconds, it goes on feeding the watchdog exactly at the checks less than
  2000 milliseconds after the moment it last saw the counter change (which is the first of these checks
  when the counter is new to it), and never after that, across any wrap of the millisecond clock.\<close>

theorem stuck_worker_stops_feeding:
  fixes c :: nat
  assumes "sorted (t # ts)" "c \<le> t" "\<forall>u \<in> set (t # ts). u - c < 2 ^ 31"
  shows "stuck_checks h (Some h) (Some (of_nat c)) (t # ts) = map (\<lambda>u. u - c < 2000) (t # ts) \<and>
         (h \<noteq> g \<longrightarrow> stuck_checks h (Some g) (Some (of_nat c)) (t # ts) = map (\<lambda>u. u - t < 2000) (t # ts))"
proof -
  have run: "stuck_checks h (Some h) (Some (of_nat c)) us = map (\<lambda>u. u - c < 2000) us"
    if "\<forall>u \<in> set us. c \<le> u \<and> u - c < 2 ^ 31" for us c
    using that by (induction us) (simp_all add: stuck_fresh)
  have same: "\<forall>u \<in> set (t # ts). c \<le> u \<and> u - c < 2 ^ 31" using assms by auto
  have first: "\<forall>u \<in> set ts. t \<le> u \<and> u - t < 2 ^ 31" using assms by fastforce
  have change: "uart_worker_heartbeat_is_fresh h (Some g) (of_nat t) (Some (of_nat c)) UART_WORKER_HEARTBEAT_STALE_MS
      = (True, Some h, Some (of_nat t))" if "h \<noteq> g"
    using that by (simp add: uart_worker_heartbeat_is_fresh_def)
  show ?thesis
    using run [OF same] run [OF first] change by simp
qed

theorem stuck_worker_witness:
  "stuck_checks 7 (Some 6) (Some 4294966000) [4294966296, 4294968000, 4294968400] = [True, True, False]"
  using stuck_worker_stops_feeding [of 4294966296 "[4294968000, 4294968400]" 4294966000 7 6]
  by (simp del: stuck_checks.simps)

end
