(* ===== verification/Uart_Driver.thy ===== *)
theory Uart_Driver
  imports Control_Plane Worker Bridge
begin

text \<open>
  The port facade both cores share, \<open>firmware/src/uart/uart_driver.c\<close>: start-up, the start/stop
  handshakes, the worker's hooks, the host's line-coding requests, status and statistics, and the two byte
  pumps. The driver's static state is \<open>uart_driver_state_t\<close>; it contains the control plane's views as the
  same fields (\<open>uart_driver_bind_state_views\<close> points them at it). Each stretch under the status lock is
  a definition of its own, named \<open>..._locked\<close>, when the function around it does more.
\<close>

abbreviation UART_DRIVER_STATS_SNAPSHOT_ATTEMPTS :: nat where "UART_DRIVER_STATS_SNAPSHOT_ATTEMPTS \<equiv> 3"

section \<open>State\<close>

record uart_driver_lifecycle_t =
  stop_pending :: bool
  usb_quiesced :: bool
  start_pending :: bool

definition zero_lifecycle :: uart_driver_lifecycle_t where
  "zero_lifecycle = \<lparr>stop_pending = False, usb_quiesced = False, start_pending = False\<rparr>"

record uart_driver_port_stats_t =
  ps_uart_tx_bytes :: u32
  ps_uart_rx_bytes :: u32
  ps_tx_ring_high_watermark :: u16
  ps_rx_ring_high_watermark :: u16
  ps_tx_ring_overflow_count :: u32
  ps_rx_ring_overflow_count :: u32
  ps_rx_ring_pending_overflow_count :: u32
  ps_rx_error_count :: u32

text \<open>\<open>status_lock\<close>: the spin lock has been claimed; the last two fields are the statics of the heartbeat check.\<close>

record 'b uart_driver_state_t = "'b uart_control_plane_t" +
  worker_started :: bool
  worker_heartbeat :: u32
  status_lock :: bool
  lifecycle :: "uart_port_id_t \<Rightarrow> uart_driver_lifecycle_t"
  last_heartbeat :: u32
  last_change_ms :: u32

definition put_lifecycle :: "uart_port_id_t \<Rightarrow> uart_driver_lifecycle_t \<Rightarrow> ('b, 'z) uart_driver_state_t_scheme \<Rightarrow>
    ('b, 'z) uart_driver_state_t_scheme" where
  "put_lifecycle p v st = st\<lparr>lifecycle := (lifecycle st)(p := v)\<rparr>"

definition all_ports :: "uart_port_id_t list" where "all_ports = [0, 1, 2, 3, 4, 5]"

section \<open>Ports, rings and flags\<close>

definition uart_driver_port :: "('b, 'z) uart_driver_state_t_scheme \<Rightarrow> uart_port_id_t \<Rightarrow> 'b uart_runtime_port_t option" where
  "uart_driver_port st port_id = (if port_id < UART_PORT_COUNT then Some (ports st port_id) else None)"

definition uart_driver_backend_is_initialized :: "'b uart_runtime_port_t option \<Rightarrow> bool" where
  "uart_driver_backend_is_initialized port \<longleftrightarrow>
     (case port of None \<Rightarrow> False
      | Some p \<Rightarrow> (case ops p of None \<Rightarrow> False | Some o' \<Rightarrow> op_is_initialized o' (backend p)))"

definition uart_driver_rx_ring :: "'b uart_runtime_port_t option \<Rightarrow> ring_buffer_t option" where
  "uart_driver_rx_ring port =
     (case port of None \<Rightarrow> None
      | Some p \<Rightarrow> (case ops p of None \<Rightarrow> None | Some o' \<Rightarrow> op_rx_ring o' (backend p)))"

definition uart_driver_tx_ring :: "'b uart_runtime_port_t option \<Rightarrow> ring_buffer_t option" where
  "uart_driver_tx_ring port =
     (case port of None \<Rightarrow> None
      | Some p \<Rightarrow> (case ops p of None \<Rightarrow> None | Some o' \<Rightarrow> op_tx_ring o' (backend p)))"

definition uart_driver_rx_snapshot_is_current :: "'b uart_runtime_port_t option \<Rightarrow> u32 \<Rightarrow> bool" where
  "uart_driver_rx_snapshot_is_current port consumer_sequence \<longleftrightarrow>
     (case port of None \<Rightarrow> False
      | Some p \<Rightarrow> (case ops p of None \<Rightarrow> False
                  | Some o' \<Rightarrow> op_rx_snapshot_is_current o' (backend p) consumer_sequence))"

definition uart_driver_begin_port_stats_update ::
    "uart_port_id_t \<Rightarrow> ('b, 'z) uart_driver_state_t_scheme \<Rightarrow> ('b, 'z) uart_driver_state_t_scheme" where
  "uart_driver_begin_port_stats_update port_id st = bump_stats port_id st"

definition uart_driver_end_port_stats_update ::
    "uart_port_id_t \<Rightarrow> ('b, 'z) uart_driver_state_t_scheme \<Rightarrow> ('b, 'z) uart_driver_state_t_scheme" where
  "uart_driver_end_port_stats_update port_id st = bump_stats port_id st"

definition uart_driver_set_port_status_flag ::
    "uart_port_id_t \<Rightarrow> u8 \<Rightarrow> ('b, 'z) uart_driver_state_t_scheme \<Rightarrow> ('b, 'z) uart_driver_state_t_scheme" where
  "uart_driver_set_port_status_flag port_id flag st =
     (if port_id \<ge> UART_PORT_COUNT then st else put_flags port_id (status_flags st port_id OR flag) st)"

definition uart_driver_clear_port_status_flag ::
    "uart_port_id_t \<Rightarrow> u8 \<Rightarrow> ('b, 'z) uart_driver_state_t_scheme \<Rightarrow> ('b, 'z) uart_driver_state_t_scheme" where
  "uart_driver_clear_port_status_flag port_id flag st =
     (if port_id \<ge> UART_PORT_COUNT then st else put_flags port_id (status_flags st port_id AND NOT flag) st)"

definition uart_driver_mailbox_has_pending_port ::
    "('b, 'z) uart_driver_state_t_scheme \<Rightarrow> uart_port_id_t \<Rightarrow> bool" where
  "uart_driver_mailbox_has_pending_port st port_id \<longleftrightarrow>
     port_id < UART_PORT_COUNT \<and> uart_control_mailbox_has_pending_port (mailboxes st port_id) port_id"

section \<open>The start and stop handshakes\<close>

text \<open>
  The worker's pass over one port. \<open>lifecycle_due\<close> is the first locked look: \<open>None\<close> when there is
  nothing to do, otherwise whether a stop is due.
\<close>

definition lifecycle_due :: "uart_port_id_t \<Rightarrow> ('b, 'z) uart_driver_state_t_scheme \<Rightarrow> bool option" where
  "lifecycle_due index st =
     (let reset_pending = stop_pending (lifecycle st index)
      in if \<not> reset_pending \<and> \<not> start_pending (lifecycle st index) then None
         else if reset_pending \<and> \<not> usb_quiesced (lifecycle st index) then None
         else Some reset_pending)"

definition lifecycle_deinit ::
    "uart_port_id_t \<Rightarrow> ('b, 'z) uart_driver_state_t_scheme \<Rightarrow> ('b, 'z) uart_driver_state_t_scheme" where
  "lifecycle_deinit index st =
     (case ops (ports st index) of None \<Rightarrow> st
      | Some o' \<Rightarrow>
          if op_is_initialized o' (backend (ports st index))
          then let st = uart_driver_begin_port_stats_update index st;
                   st = put_backend index (op_deinit o' (backend (ports st index))) st
               in uart_driver_end_port_stats_update index st
          else st)"

definition lifecycle_stop_locked ::
    "uart_port_id_t \<Rightarrow> ('b, 'z) uart_driver_state_t_scheme \<Rightarrow> ('b, 'z) uart_driver_state_t_scheme" where
  "lifecycle_stop_locked index st =
     (let st = put_mailbox index (uart_control_mailbox_reset (mailboxes st index)) st;
          st = put_pending index zero_pending st;
          st = put_lifecycle index ((lifecycle st index)\<lparr>stop_pending := False\<rparr>) st;
          st = put_lifecycle index ((lifecycle st index)\<lparr>usb_quiesced := False\<rparr>) st;
          st = put_flags index (status_flags st index AND
                 NOT (UART_DRIVER_PORT_STATUS_READY OR UART_DRIVER_PORT_STATUS_INIT_FAILED)) st
      in if \<not> soft_pending_controls st index
         then put_flags index (status_flags st index AND NOT UART_DRIVER_PORT_STATUS_CONTROL_PENDING) st
         else st)"

definition lifecycle_start_locked ::
    "uart_port_id_t \<Rightarrow> ('b, 'z) uart_driver_state_t_scheme \<Rightarrow> bool \<times> ('b, 'z) uart_driver_state_t_scheme" where
  "lifecycle_start_locked index st =
     (if \<not> start_pending (lifecycle st index) then (False, st)
      else if stop_pending (lifecycle st index) then (False, st)
      else (True, put_lifecycle index ((lifecycle st index)\<lparr>start_pending := False\<rparr>) st))"

definition lifecycle_start ::
    "(nat \<Rightarrow> u64) \<Rightarrow> uart_port_id_t \<Rightarrow> ('b, 'z) uart_driver_state_t_scheme \<Rightarrow>
       bool \<times> ('b, 'z) uart_driver_state_t_scheme" where
  "lifecycle_start clk index st =
     (case ops (ports st index) of None \<Rightarrow> (False, st)
      | Some o' \<Rightarrow>
          let st = uart_driver_begin_port_stats_update index st;
              (lifecycle_ok, st) = uart_control_plane_start_port clk index st;
              st = (if lifecycle_ok
                    then put_backend index (op_clear_rx_error_baseline o' (backend (ports st index))) st
                    else st)
          in (lifecycle_ok, uart_driver_end_port_stats_update index st))"

definition lifecycle_publish_locked ::
    "uart_port_id_t \<Rightarrow> bool \<Rightarrow> ('b, 'z) uart_driver_state_t_scheme \<Rightarrow> ('b, 'z) uart_driver_state_t_scheme" where
  "lifecycle_publish_locked index lifecycle_ok st =
     (if stop_pending (lifecycle st index) \<or> start_pending (lifecycle st index) then st
      else if lifecycle_ok
      then let st = put_flags index (status_flags st index AND NOT UART_DRIVER_PORT_STATUS_INIT_FAILED) st
           in put_flags index (status_flags st index OR UART_DRIVER_PORT_STATUS_READY) st
      else let st = put_flags index (status_flags st index OR UART_DRIVER_PORT_STATUS_INIT_FAILED) st
           in put_flags index (status_flags st index AND NOT UART_DRIVER_PORT_STATUS_READY) st)"

definition service_port_lifecycle ::
    "(nat \<Rightarrow> u64) \<Rightarrow> uart_port_id_t \<Rightarrow> ('b, 'z) uart_driver_state_t_scheme \<Rightarrow> ('b, 'z) uart_driver_state_t_scheme" where
  "service_port_lifecycle clk index st =
     (case lifecycle_due index st of None \<Rightarrow> st
      | Some reset_pending \<Rightarrow>
          let st = (if reset_pending then lifecycle_stop_locked index (lifecycle_deinit index st) else st);
              (go, st) = lifecycle_start_locked index st
          in if \<not> go then st
             else let (lifecycle_ok, st) = lifecycle_start clk index st
                  in lifecycle_publish_locked index lifecycle_ok st)"

definition uart_driver_service_channel_lifecycle ::
    "(nat \<Rightarrow> u64) \<Rightarrow> ('b, 'z) uart_driver_state_t_scheme \<Rightarrow> ('b, 'z) uart_driver_state_t_scheme" where
  "uart_driver_service_channel_lifecycle clk st = fold (service_port_lifecycle clk) all_ports st"

section \<open>The worker's hooks\<close>

definition uart_driver_bind_state_views ::
    "('b, 'z) uart_driver_state_t_scheme \<Rightarrow> ('b, 'z) uart_driver_state_t_scheme" where
  "uart_driver_bind_state_views st = st\<lparr>views_bound := True\<rparr>"

definition uart_driver_worker_service_control ::
    "(nat \<Rightarrow> u64) \<Rightarrow> ('b, 'z) uart_driver_state_t_scheme \<Rightarrow> ('b, 'z) uart_driver_state_t_scheme" where
  "uart_driver_worker_service_control clk st =
     uart_control_plane_service clk (uart_driver_service_channel_lifecycle clk st)"

definition uart_driver_channel_stop_is_quiesced ::
    "('b, 'z) uart_driver_state_t_scheme \<Rightarrow> uart_port_id_t \<Rightarrow> bool" where
  "uart_driver_channel_stop_is_quiesced st port_id \<longleftrightarrow>
     (if port_id \<ge> UART_PORT_COUNT \<or> \<not> status_lock st then False
      else stop_pending (lifecycle st port_id) \<and> usb_quiesced (lifecycle st port_id))"

definition poll_port_io ::
    "uart_port_id_t \<Rightarrow> ('b, 'z) uart_driver_state_t_scheme \<Rightarrow> ('b, 'z) uart_driver_state_t_scheme" where
  "poll_port_io index st =
     (if uart_driver_channel_stop_is_quiesced st index then st
      else case ops (ports st index) of None \<Rightarrow> st
      | Some o' \<Rightarrow>
          if op_is_initialized o' (backend (ports st index))
          then let tx_launch_allowed = uart_control_plane_tx_launch_allowed st index;
                   st = uart_driver_begin_port_stats_update index st;
                   st = put_backend index (op_poll o' (backend (ports st index)) tx_launch_allowed) st
               in uart_driver_end_port_stats_update index st
          else st)"

definition uart_driver_poll_io ::
    "('b, 'z) uart_driver_state_t_scheme \<Rightarrow> ('b, 'z) uart_driver_state_t_scheme" where
  "uart_driver_poll_io st =
     (let st = fold (\<lambda>offset st. poll_port_io ((poll_start_index st + offset) mod UART_PORT_COUNT) st) all_ports st
      in st\<lparr>poll_start_index := (poll_start_index st + 1) mod UART_PORT_COUNT\<rparr>)"

text \<open>The first hook belongs to the SDK (flash lock-out) and the drivers' interrupt enables; it is a parameter.\<close>

definition uart_driver_worker_hooks ::
    "(nat \<Rightarrow> u64) \<Rightarrow> (('b, 'z) uart_driver_state_t_scheme \<Rightarrow> ('b, 'z) uart_driver_state_t_scheme) \<Rightarrow>
       ('b, 'z) uart_driver_state_t_scheme uart_worker_hooks_t" where
  "uart_driver_worker_hooks clk initialize =
     \<lparr>hook_initialize = Some initialize,
      hook_service_control = Some (uart_driver_worker_service_control clk),
      hook_poll_io = Some uart_driver_poll_io,
      hook_heartbeat = Some (\<lambda>f st. st\<lparr>worker_heartbeat := f (worker_heartbeat st)\<rparr>)\<rparr>"

section \<open>Start-up\<close>

text \<open>
  \<open>board\<close> is the table \<open>uart_board_ports\<close>; \<open>ops_for_type\<close> the backend table
  (\<open>uart_backend_ops_for_type\<close>); \<open>attach_storage\<close> stores the port's RX buffer pointer in the instance.
\<close>

definition load_port_config ::
    "(uart_port_id_t \<Rightarrow> uart_driver_port_info_t) \<Rightarrow> (uart_driver_backend_t \<Rightarrow> 'b uart_backend_ops_t option) \<Rightarrow>
     (uart_driver_backend_t \<Rightarrow> uart_port_id_t \<Rightarrow> 'b \<Rightarrow> 'b) \<Rightarrow> uart_port_id_t \<Rightarrow>
     ('b, 'z) uart_driver_state_t_scheme \<Rightarrow> ('b, 'z) uart_driver_state_t_scheme" where
  "load_port_config board ops_for_type attach_storage index st =
     (let board_port = board index;
          st = put_port index ((ports st index)\<lparr>info := board_port,
                 ops := ops_for_type (info_backend board_port)\<rparr>) st
      in case ops (ports st index) of None \<Rightarrow> st
         | Some o' \<Rightarrow>
             let (loaded, b) = op_load_config o' (backend (ports st index)) (Some board_port);
                 st = put_backend index b st
             in if \<not> loaded then put_port index ((ports st index)\<lparr>ops := None\<rparr>) st
                else put_backend index (attach_storage (info_backend board_port) index
                                          (backend (ports st index))) st)"

definition uart_driver_load_board_config ::
    "(uart_port_id_t \<Rightarrow> uart_driver_port_info_t) \<Rightarrow> (uart_driver_backend_t \<Rightarrow> 'b uart_backend_ops_t option) \<Rightarrow>
     (uart_driver_backend_t \<Rightarrow> uart_port_id_t \<Rightarrow> 'b \<Rightarrow> 'b) \<Rightarrow>
     ('b, 'z) uart_driver_state_t_scheme \<Rightarrow> ('b, 'z) uart_driver_state_t_scheme" where
  "uart_driver_load_board_config board ops_for_type attach_storage st =
     fold (load_port_config board ops_for_type attach_storage) all_ports st"

definition init_port_backend ::
    "uart_port_id_t \<Rightarrow> bool \<times> ('b, 'z) uart_driver_state_t_scheme \<Rightarrow>
       bool \<times> ('b, 'z) uart_driver_state_t_scheme" where
  "init_port_backend index r =
     (let (init_ok, st) = r;
          (port_ok, st) = (case ops (ports st index) of None \<Rightarrow> (False, st)
                           | Some o' \<Rightarrow> let (ok, b) = op_init o' (backend (ports st index))
                                       in (ok, put_backend index b st))
      in if \<not> port_ok
         then (False, uart_driver_set_port_status_flag index UART_DRIVER_PORT_STATUS_INIT_FAILED
                        (uart_driver_clear_port_status_flag index UART_DRIVER_PORT_STATUS_READY st))
         else (init_ok, uart_driver_set_port_status_flag index UART_DRIVER_PORT_STATUS_READY
                 (uart_driver_clear_port_status_flag index
                    (UART_DRIVER_PORT_STATUS_INIT_FAILED OR UART_DRIVER_PORT_STATUS_CONTROL_ERROR) st)))"

definition uart_driver_init_backends ::
    "('b, 'z) uart_driver_state_t_scheme \<Rightarrow> bool \<times> ('b, 'z) uart_driver_state_t_scheme" where
  "uart_driver_init_backends st = fold init_port_backend all_ports (True, st)"

definition rollback_port ::
    "uart_port_id_t \<Rightarrow> ('b, 'z) uart_driver_state_t_scheme \<Rightarrow> ('b, 'z) uart_driver_state_t_scheme" where
  "rollback_port index st =
     (let st = (case ops (ports st index) of None \<Rightarrow> st
                | Some o' \<Rightarrow>
                    if op_is_initialized o' (backend (ports st index))
                    then put_backend index (op_deinit o' (backend (ports st index))) st else st)
      in put_flags index 0 st)"

definition uart_driver_rollback_initialized_backends ::
    "('b, 'z) uart_driver_state_t_scheme \<Rightarrow> ('b, 'z) uart_driver_state_t_scheme" where
  "uart_driver_rollback_initialized_backends st = fold rollback_port all_ports st"

definition reset_port_state ::
    "(uart_port_id_t \<Rightarrow> uart_driver_port_info_t) \<Rightarrow> uart_port_id_t \<Rightarrow> ('b, 'z) uart_driver_state_t_scheme \<Rightarrow>
       ('b, 'z) uart_driver_state_t_scheme" where
  "reset_port_state board index st =
     (let st = put_flags index 0 st;
          st = put_soft index False st;
          st = put_lifecycle index zero_lifecycle st;
          st = put_generation index 0 st;
          st = st\<lparr>stats_sequence := (stats_sequence st)(index := 0)\<rparr>
      in put_pending index (zero_pending\<lparr>pending_line_coding :=
           \<lparr>baud_rate = info_baud_rate (board index), data_bits = info_data_bits (board index),
            stop_bits = info_stop_bits (board index), parity = info_parity (board index)\<rparr>\<rparr>) st)"

definition park_port ::
    "uart_port_id_t \<Rightarrow> ('b, 'z) uart_driver_state_t_scheme \<Rightarrow> ('b, 'z) uart_driver_state_t_scheme" where
  "park_port index st =
     (case ops (ports st index) of None \<Rightarrow> st
      | Some o' \<Rightarrow>
          let st = put_backend index (op_clear_rx_error_baseline o' (backend (ports st index))) st;
              st = put_backend index (op_deinit o' (backend (ports st index))) st
          in uart_driver_clear_port_status_flag index UART_DRIVER_PORT_STATUS_READY st)"

text \<open>Launching core 1 is the SDK's; from \<open>worker_started\<close> on, the worker's steps may happen.\<close>

definition uart_driver_init ::
    "(uart_port_id_t \<Rightarrow> uart_driver_port_info_t) \<Rightarrow> (uart_driver_backend_t \<Rightarrow> 'b uart_backend_ops_t option) \<Rightarrow>
     (uart_driver_backend_t \<Rightarrow> uart_port_id_t \<Rightarrow> 'b \<Rightarrow> 'b) \<Rightarrow>
     ('b, 'z) uart_driver_state_t_scheme \<Rightarrow> bool \<times> ('b, 'z) uart_driver_state_t_scheme" where
  "uart_driver_init board ops_for_type attach_storage st =
     (if worker_started st then (True, st)
      else let st = (if \<not> status_lock st then st\<lparr>status_lock := True\<rparr> else st);
               st = uart_driver_bind_state_views st;
               st = uart_driver_load_board_config board ops_for_type attach_storage st;
               st = fold (reset_port_state board) all_ports st;
               st = fold (\<lambda>index st. put_mailbox index (uart_control_mailbox_reset (mailboxes st index)) st)
                      all_ports st;
               st = st\<lparr>poll_start_index := 0\<rparr>;
               st = st\<lparr>worker_heartbeat := 0\<rparr>;
               (init_ok, st) = uart_driver_init_backends st
           in if \<not> init_ok then (False, uart_driver_rollback_initialized_backends st)
              else let st = fold park_port all_ports st
                   in (True, st\<lparr>worker_started := True\<rparr>))"

section \<open>Core 0: starting and stopping a port\<close>

definition uart_driver_port_count :: size_t where
  "uart_driver_port_count = UART_PORT_COUNT"

definition channel_request_allowed :: "('b, 'z) uart_driver_state_t_scheme \<Rightarrow> uart_port_id_t \<Rightarrow> bool" where
  "channel_request_allowed st port_id \<longleftrightarrow>
     \<not> (port_id \<ge> UART_PORT_COUNT \<or> \<not> worker_started st \<or> \<not> status_lock st \<or> ops (ports st port_id) = None)"

definition uart_driver_request_channel_stop ::
    "uart_port_id_t \<Rightarrow> ('b, 'z) uart_driver_state_t_scheme \<Rightarrow> bool \<times> ('b, 'z) uart_driver_state_t_scheme" where
  "uart_driver_request_channel_stop port_id st =
     (if \<not> channel_request_allowed st port_id then (False, st)
      else let st = put_lifecycle port_id ((lifecycle st port_id)\<lparr>start_pending := False\<rparr>) st;
               st = put_generation port_id (control_generations st port_id + 1) st;
               st = put_soft port_id False st;
               st = put_flags port_id (status_flags st port_id AND
                      NOT (UART_DRIVER_PORT_STATUS_READY OR UART_DRIVER_PORT_STATUS_INIT_FAILED OR
                           UART_DRIVER_PORT_STATUS_CONTROL_ERROR)) st;
               st = put_flags port_id (status_flags st port_id OR UART_DRIVER_PORT_STATUS_CONTROL_PENDING) st
           in if \<not> stop_pending (lifecycle st port_id)
              then (True, put_lifecycle port_id ((lifecycle st port_id)\<lparr>stop_pending := True,
                                                    usb_quiesced := False\<rparr>) st)
              else (False, st))"

definition uart_driver_request_channel_start ::
    "uart_port_id_t \<Rightarrow> ('b, 'z) uart_driver_state_t_scheme \<Rightarrow> bool \<times> ('b, 'z) uart_driver_state_t_scheme" where
  "uart_driver_request_channel_start port_id st =
     (if \<not> channel_request_allowed st port_id then (False, st)
      else (True, put_lifecycle port_id ((lifecycle st port_id)\<lparr>start_pending := True\<rparr>) st))"

definition uart_driver_channel_start_pending ::
    "('b, 'z) uart_driver_state_t_scheme \<Rightarrow> uart_port_id_t \<Rightarrow> bool" where
  "uart_driver_channel_start_pending st port_id \<longleftrightarrow>
     (if port_id \<ge> UART_PORT_COUNT \<or> \<not> status_lock st then False else start_pending (lifecycle st port_id))"

definition uart_driver_channel_stop_pending ::
    "('b, 'z) uart_driver_state_t_scheme \<Rightarrow> uart_port_id_t \<Rightarrow> bool" where
  "uart_driver_channel_stop_pending st port_id \<longleftrightarrow>
     (if port_id \<ge> UART_PORT_COUNT \<or> \<not> status_lock st then False else stop_pending (lifecycle st port_id))"

definition uart_driver_channel_stop_usb_quiesced ::
    "uart_port_id_t \<Rightarrow> ('b, 'z) uart_driver_state_t_scheme \<Rightarrow> ('b, 'z) uart_driver_state_t_scheme" where
  "uart_driver_channel_stop_usb_quiesced port_id st =
     (if port_id \<ge> UART_PORT_COUNT \<or> \<not> status_lock st then st
      else if stop_pending (lifecycle st port_id)
      then put_lifecycle port_id ((lifecycle st port_id)\<lparr>usb_quiesced := True\<rparr>) st
      else st)"

section \<open>Core 0: status\<close>

definition uart_driver_port_status :: "('b, 'z) uart_driver_state_t_scheme \<Rightarrow> uart_port_id_t \<Rightarrow> u8" where
  "uart_driver_port_status st port_id =
     (if port_id \<ge> UART_PORT_COUNT \<or> \<not> status_lock st then 0 else status_flags st port_id)"

definition uart_driver_port_is_ready :: "('b, 'z) uart_driver_state_t_scheme \<Rightarrow> uart_port_id_t \<Rightarrow> bool" where
  "uart_driver_port_is_ready st port_id \<longleftrightarrow>
     (uart_driver_port_status st port_id AND UART_DRIVER_PORT_STATUS_READY) \<noteq> 0 \<and>
     uart_driver_backend_is_initialized (uart_driver_port st port_id)"

definition uart_driver_port_tx_is_blocked :: "('b, 'z) uart_driver_state_t_scheme \<Rightarrow> uart_port_id_t \<Rightarrow> bool" where
  "uart_driver_port_tx_is_blocked st port_id \<longleftrightarrow>
     (if port_id \<ge> UART_PORT_COUNT \<or> \<not> status_lock st then True
      else uart_control_tx_should_block (status_flags st port_id) UART_DRIVER_PORT_STATUS_CONTROL_PENDING)"

text \<open>An output pointer that may be null is an option, given and returned.\<close>

definition uart_driver_control_history ::
    "('b, 'z) uart_driver_state_t_scheme \<Rightarrow> uart_port_id_t \<Rightarrow> uart_driver_control_history_t option \<Rightarrow>
       bool \<times> uart_driver_control_history_t option" where
  "uart_driver_control_history st port_id history =
     (if port_id \<ge> UART_PORT_COUNT \<or> history = None \<or> \<not> status_lock st then (False, history)
      else (True, Some (control_history (ports st port_id))))"

definition uart_driver_port_snapshot ::
    "('b, 'z) uart_driver_state_t_scheme \<Rightarrow> uart_port_id_t \<Rightarrow> uart_driver_port_info_t option \<Rightarrow> u8 option \<Rightarrow>
       bool \<times> uart_driver_port_info_t option \<times> u8 option" where
  "uart_driver_port_snapshot st port_id out_info status =
     (if port_id \<ge> UART_PORT_COUNT \<or> out_info = None \<or> status = None \<or> \<not> status_lock st then (False, out_info, status)
      else (True, Some (info (ports st port_id)), Some (status_flags st port_id)))"

definition uart_driver_worker_is_running :: "('b, 'z) uart_driver_state_t_scheme \<Rightarrow> bool" where
  "uart_driver_worker_is_running st \<longleftrightarrow> worker_started st"

definition uart_driver_worker_heartbeat_is_fresh ::
    "u32 \<Rightarrow> ('b, 'z) uart_driver_state_t_scheme \<Rightarrow> bool \<times> ('b, 'z) uart_driver_state_t_scheme" where
  "uart_driver_worker_heartbeat_is_fresh now_ms st =
     (let (fresh, last_hb, last_ms) = uart_worker_heartbeat_is_fresh (worker_heartbeat st)
            (Some (last_heartbeat st)) now_ms (Some (last_change_ms st)) UART_WORKER_HEARTBEAT_STALE_MS
      in (fresh, st\<lparr>last_heartbeat := the last_hb, last_change_ms := the last_ms\<rparr>))"

definition uart_driver_port_info ::
    "('b, 'z) uart_driver_state_t_scheme \<Rightarrow> uart_port_id_t \<Rightarrow> uart_driver_port_info_t option \<Rightarrow>
       bool \<times> uart_driver_port_info_t option" where
  "uart_driver_port_info st port_id out_info =
     (case uart_driver_port st port_id of None \<Rightarrow> (False, out_info)
      | Some port \<Rightarrow> if out_info = None \<or> \<not> status_lock st then (False, out_info)
                     else (True, Some (info port)))"

section \<open>Core 0: control requests\<close>

definition uart_driver_line_coding_acceptable ::
    "('b, 'z) uart_driver_state_t_scheme \<Rightarrow> uart_port_id_t \<Rightarrow> uart_driver_line_coding_t option \<Rightarrow> bool" where
  "uart_driver_line_coding_acceptable st port_id line_coding \<longleftrightarrow>
     (case uart_driver_port st port_id of None \<Rightarrow> False
      | Some port \<Rightarrow>
          if \<not> status_lock st \<or> \<not> uart_line_coding_is_valid line_coding then False
          else (case ops port of None \<Rightarrow> False | Some o' \<Rightarrow> op_line_coding_acceptable o' line_coding))"

definition uart_driver_report_control_error ::
    "(nat \<Rightarrow> u64) \<Rightarrow> uart_port_id_t \<Rightarrow> uart_driver_control_error_t \<Rightarrow> ('b, 'z) uart_driver_state_t_scheme \<Rightarrow>
       ('b, 'z) uart_driver_state_t_scheme" where
  "uart_driver_report_control_error clk port_id reason st =
     (if port_id \<ge> UART_PORT_COUNT \<or> \<not> status_lock st then st
      else let st = uart_control_record_error clk port_id reason st;
               (generation, flags) = uart_control_apply_reject_error (Some (control_generations st port_id))
                                       (Some (status_flags st port_id)) UART_DRIVER_PORT_STATUS_CONTROL_ERROR
           in put_flags port_id (the flags) (put_generation port_id (the generation) st))"

definition uart_driver_report_soft_pending_error ::
    "(nat \<Rightarrow> u64) \<Rightarrow> uart_port_id_t \<Rightarrow> u32 \<Rightarrow> uart_driver_control_error_t \<Rightarrow> ('b, 'z) uart_driver_state_t_scheme \<Rightarrow>
       ('b, 'z) uart_driver_state_t_scheme" where
  "uart_driver_report_soft_pending_error clk port_id control_generation reason st =
     (if port_id \<ge> UART_PORT_COUNT \<or> \<not> status_lock st then st
      else let st = uart_control_record_error clk port_id reason st;
               st = put_soft port_id False st;
               st = (if uart_control_completion_is_current control_generation (control_generations st port_id)
                     then put_flags port_id (status_flags st port_id OR UART_DRIVER_PORT_STATUS_CONTROL_ERROR) st
                     else st)
           in if uart_control_pending_should_clear False (uart_driver_mailbox_has_pending_port st port_id)
                   (pending (pending_controls st port_id))
              then put_flags port_id (status_flags st port_id AND
                     NOT UART_DRIVER_PORT_STATUS_CONTROL_PENDING) st
              else st)"

definition uart_driver_mark_control_pending ::
    "uart_port_id_t \<Rightarrow> ('b, 'z) uart_driver_state_t_scheme \<Rightarrow> u32 \<times> ('b, 'z) uart_driver_state_t_scheme" where
  "uart_driver_mark_control_pending port_id st =
     (if port_id \<ge> UART_PORT_COUNT \<or> \<not> status_lock st then (0, st)
      else let st = put_generation port_id (control_generations st port_id + 1) st;
               control_generation = control_generations st port_id;
               st = put_soft port_id True st;
               st = put_flags port_id (status_flags st port_id OR UART_DRIVER_PORT_STATUS_CONTROL_PENDING) st;
               st = put_flags port_id (status_flags st port_id AND NOT UART_DRIVER_PORT_STATUS_CONTROL_ERROR) st
           in (control_generation, st))"

definition uart_driver_reset_soft_pending ::
    "uart_port_id_t \<Rightarrow> ('b, 'z) uart_driver_state_t_scheme \<Rightarrow> ('b, 'z) uart_driver_state_t_scheme" where
  "uart_driver_reset_soft_pending port_id st =
     (if port_id \<ge> UART_PORT_COUNT \<or> \<not> status_lock st then st
      else let st = put_soft port_id False st
           in if uart_control_pending_should_clear False (uart_driver_mailbox_has_pending_port st port_id)
                   (pending (pending_controls st port_id))
              then put_flags port_id (status_flags st port_id AND
                     NOT UART_DRIVER_PORT_STATUS_CONTROL_PENDING) st
              else st)"

definition queue_locked ::
    "uart_port_id_t \<Rightarrow> uart_driver_line_coding_t \<Rightarrow> u32 \<Rightarrow> u32 \<Rightarrow> ('b, 'z) uart_driver_state_t_scheme \<Rightarrow>
       bool \<times> ('b, 'z) uart_driver_state_t_scheme" where
  "queue_locked port_id line_coding control_generation tx_producer st =
     (if \<not> uart_control_mailbox_can_publish (mailboxes st port_id) then (False, st)
      else let st = put_soft port_id False st;
               st = put_flags port_id (status_flags st port_id OR UART_DRIVER_PORT_STATUS_CONTROL_PENDING) st;
               request = \<lparr>request_port_id = port_id, request_generation = control_generation,
                          request_tx_boundary = tx_producer, request_line_coding = line_coding\<rparr>;
               (published, mailbox) = uart_control_mailbox_publish (mailboxes st port_id) (Some request)
           in (True, put_mailbox port_id mailbox st))"

text \<open>The ring's producer is core 0's own: reading it before or inside the lock is the same.\<close>

definition uart_driver_queue_line_coding ::
    "(nat \<Rightarrow> u64) \<Rightarrow> uart_port_id_t \<Rightarrow> uart_driver_line_coding_t option \<Rightarrow> u32 \<Rightarrow>
     ('b, 'z) uart_driver_state_t_scheme \<Rightarrow> bool \<times> ('b, 'z) uart_driver_state_t_scheme" where
  "uart_driver_queue_line_coding clk port_id line_coding control_generation st =
     (if \<not> worker_started st then (False, st)
      else if \<not> uart_driver_line_coding_acceptable st port_id line_coding
      then (False, uart_driver_report_control_error clk port_id UART_CONTROL_ERROR_OTHER st)
      else case op_tx_ring (the (ops (ports st port_id))) (backend (ports st port_id)) of
             None \<Rightarrow> (False, st)
           | Some tx_ring \<Rightarrow> queue_locked port_id (the line_coding) control_generation (producer tx_ring) st)"

section \<open>Core 0: the byte pumps\<close>

text \<open>
  The pump works on the ring inside the backend instance and on the port's statistics sequence:
  \<open>pump_world\<close> takes both out of the state, \<open>pump_state\<close> puts them back.
\<close>

type_synonym ('b, 'z) pump = "('b, 'z) uart_driver_state_t_scheme bridge_world"

definition pump_world :: "uart_port_id_t \<Rightarrow> ring_buffer_t \<Rightarrow> ('b, 'z) uart_driver_state_t_scheme \<Rightarrow> ('b, 'z) pump" where
  "pump_world p ring st = \<lparr>br_ring = ring, br_stats_sequence = stats_sequence st p, br_other = st, br_steps = 0\<rparr>"

definition pump_state :: "uart_port_id_t \<Rightarrow> (ring_buffer_t \<Rightarrow> 'b \<Rightarrow> 'b) \<Rightarrow> ('b, 'z) pump \<Rightarrow>
    ('b, 'z) uart_driver_state_t_scheme" where
  "pump_state p put w =
     (let st = br_other w
      in put_backend p (put (br_ring w) (backend (ports st p)))
           (st\<lparr>stats_sequence := (stats_sequence st)(p := br_stats_sequence w)\<rparr>))"

definition uart_driver_drain_rx ::
    "nat \<Rightarrow> ('b, 'z) uart_driver_state_t_scheme bridge_env \<Rightarrow> uart_port_id_t \<Rightarrow> size_t \<Rightarrow>
     ('c \<Rightarrow> u8 list \<Rightarrow> u32 \<times> 'c) option \<Rightarrow> 'c \<Rightarrow> u8 list option \<Rightarrow> size_t \<Rightarrow>
     ('b, 'z) uart_driver_state_t_scheme \<Rightarrow>
       (size_t \<times> u8 list option \<times> 'c \<times> ('b, 'z) uart_driver_state_t_scheme) option" where
  "uart_driver_drain_rx fuel env port_id capacity writer ctx snapshot snapshot_capacity st =
     (let port = uart_driver_port st port_id
      in case uart_driver_rx_ring port of None \<Rightarrow> Some (0, snapshot, ctx, st)
         | Some rx_ring \<Rightarrow>
             if \<not> uart_driver_backend_is_initialized port \<or> writer = None \<or> snapshot = None \<or>
                snapshot_capacity = 0
             then Some (0, snapshot, ctx, st)
             else let put = op_put_rx_ring (the (ops (the port)));
                      current = (\<lambda>w consumer_sequence. uart_driver_rx_snapshot_is_current
                                   (uart_driver_port (pump_state port_id put w) port_id) consumer_sequence)
                  in map_option (\<lambda>(n, buf, ctx, w). (n, buf, ctx, pump_state port_id put w))
                       (uart_bridge_drain_rx fuel env capacity writer ctx snapshot snapshot_capacity
                          (Some current) (pump_world port_id rx_ring st)))"

definition uart_driver_recover_rx ::
    "uart_port_id_t \<Rightarrow> ('b, 'z) uart_driver_state_t_scheme \<Rightarrow> size_t \<times> ('b, 'z) uart_driver_state_t_scheme" where
  "uart_driver_recover_rx port_id st =
     (let port = uart_driver_port st port_id
      in case uart_driver_rx_ring port of None \<Rightarrow> (0, st)
         | Some rx_ring \<Rightarrow>
             if \<not> uart_driver_backend_is_initialized port then (0, st)
             else let (n, w) = uart_bridge_recover_rx (pump_world port_id rx_ring st)
                  in (n, pump_state port_id (op_put_rx_ring (the (ops (the port)))) w))"

definition uart_driver_fill_tx ::
    "nat \<Rightarrow> ('b, 'z) uart_driver_state_t_scheme bridge_env \<Rightarrow> uart_port_id_t \<Rightarrow> size_t \<Rightarrow>
     ('c \<Rightarrow> u32 \<Rightarrow> u8 list \<times> u32 \<times> 'c) option \<Rightarrow> 'c \<Rightarrow>
     ('b, 'z) uart_driver_state_t_scheme \<Rightarrow> (size_t \<times> 'c \<times> ('b, 'z) uart_driver_state_t_scheme) option" where
  "uart_driver_fill_tx fuel env port_id capacity reader ctx st =
     (let port = uart_driver_port st port_id
      in case uart_driver_tx_ring port of None \<Rightarrow> Some (0, ctx, st)
         | Some tx_ring \<Rightarrow>
             if \<not> uart_driver_backend_is_initialized port \<or> reader = None \<or>
                uart_driver_port_tx_is_blocked st port_id
             then Some (0, ctx, st)
             else map_option (\<lambda>(n, ctx, w). (n, ctx, pump_state port_id (op_put_tx_ring (the (ops (the port)))) w))
                    (uart_bridge_fill_tx fuel env capacity reader ctx (pump_world port_id tx_ring st)))"

section \<open>Core 0: statistics\<close>

text \<open>
  The statistics are read while the worker runs: \<open>env k\<close> is what the rest of the system does before
  the k-th read of the loop. One attempt makes eight reads: the sequence, the five ring counters, the
  backend's counters and the sequence again.
\<close>

definition read_port_stats ::
    "uart_port_id_t \<Rightarrow> (nat \<Rightarrow> ('b, 'z) uart_driver_state_t_scheme \<Rightarrow> ('b, 'z) uart_driver_state_t_scheme) \<Rightarrow> nat \<Rightarrow>
     ('b, 'z) uart_driver_state_t_scheme \<Rightarrow>
       uart_driver_port_stats_t \<times> ('b, 'z) uart_driver_state_t_scheme" where
  "read_port_stats p env k st =
     (let tx = (\<lambda>st. the (uart_driver_tx_ring (uart_driver_port st p)));
          rx = (\<lambda>st. the (uart_driver_rx_ring (uart_driver_port st p)));
          st = env (k + 1) st; tx_high = ring_buffer_high_watermark (tx st);
          st = env (k + 2) st; rx_high = ring_buffer_high_watermark (rx st);
          st = env (k + 3) st; tx_over = ring_buffer_overflow_count (tx st);
          st = env (k + 4) st; rx_over = ring_buffer_overflow_count (rx st);
          st = env (k + 5) st; rx_pend = ring_buffer_pending_overflow (rx st);
          st = env (k + 6) st; b = op_stats (the (ops (ports st p))) (backend (ports st p))
      in (\<lparr>ps_uart_tx_bytes = stats_uart_tx_bytes b, ps_uart_rx_bytes = stats_uart_rx_bytes b,
           ps_tx_ring_high_watermark = ucast tx_high, ps_rx_ring_high_watermark = ucast rx_high,
           ps_tx_ring_overflow_count = tx_over, ps_rx_ring_overflow_count = rx_over,
           ps_rx_ring_pending_overflow_count = rx_pend, ps_rx_error_count = stats_rx_error_count b\<rparr>, st))"

primrec port_stats_loop ::
    "nat \<Rightarrow> uart_port_id_t \<Rightarrow> (nat \<Rightarrow> ('b, 'z) uart_driver_state_t_scheme \<Rightarrow> ('b, 'z) uart_driver_state_t_scheme) \<Rightarrow>
     nat \<Rightarrow> ('b, 'z) uart_driver_state_t_scheme \<Rightarrow>
       uart_driver_port_stats_t option \<times> ('b, 'z) uart_driver_state_t_scheme" where
  "port_stats_loop 0 p env k st = (None, st)"
| "port_stats_loop (Suc attempts) p env k st =
     (let st = env k st;
          first_sequence = stats_sequence st p
      in if first_sequence AND 1 \<noteq> 0 then port_stats_loop attempts p env (k + 8) st
         else if storage (the (uart_driver_rx_ring (uart_driver_port st p))) = None \<or>
                 storage (the (uart_driver_tx_ring (uart_driver_port st p))) = None then (None, st)
         else let (candidate, st) = read_port_stats p env k st;
                  st = env (k + 7) st;
                  second_sequence = stats_sequence st p
              in if first_sequence = second_sequence \<and> second_sequence AND 1 = 0 then (Some candidate, st)
                 else port_stats_loop attempts p env (k + 8) st)"

definition uart_driver_port_stats ::
    "uart_port_id_t \<Rightarrow> (nat \<Rightarrow> ('b, 'z) uart_driver_state_t_scheme \<Rightarrow> ('b, 'z) uart_driver_state_t_scheme) \<Rightarrow>
     uart_driver_port_stats_t option \<Rightarrow> ('b, 'z) uart_driver_state_t_scheme \<Rightarrow>
       bool \<times> uart_driver_port_stats_t option \<times> ('b, 'z) uart_driver_state_t_scheme" where
  "uart_driver_port_stats port_id env stats st =
     (let port = uart_driver_port st port_id
      in if stats = None \<or> port = None \<or> ops (the port) = None then (False, stats, st)
         else if uart_driver_rx_ring port = None \<or> uart_driver_tx_ring port = None then (False, stats, st)
         else case port_stats_loop UART_DRIVER_STATS_SNAPSHOT_ATTEMPTS port_id env 0 st of
                (Some candidate, st) \<Rightarrow> (True, Some candidate, st)
              | (None, st) \<Rightarrow> (False, stats, st))"

end
