(* ===== verification/Control_Steps.thy ===== *)
theory Control_Steps
  imports Uart_Driver
begin

text \<open>
  The two cores at work on one driver state. Core 1 runs the worker: its control code is cut at every place
  where it takes or drops \<open>status_lock\<close>, and \<open>worker_pc\<close> says where it stands and what it carries in
  local variables. Core 0 runs the functions of \<open>uart_driver.c\<close> that USB calls; each of them takes
  the lock once, so each is one step. Steps of the two cores interleave in any order. The locked
  stretches are the very definitions of the sequential model; \<open>worker_run_*\<close> below prove that the cut
  code, run without interference, is the sequential code.
\<close>

section \<open>Where the worker stands\<close>

datatype worker_pc =
    W_Idle
  | W_Taken uart_port_id_t uart_control_mailbox_request_t bool
  | W_Info uart_port_id_t uart_control_mailbox_request_t bool
  | W_Finish_Mailbox uart_port_id_t u32 bool bool u32 bool uart_driver_control_error_t
  | W_Adopt uart_port_id_t u32
  | W_Backend_Stopped uart_port_id_t u32
  | W_Finish_Worker uart_port_id_t u32 bool "uart_driver_line_coding_t option" uart_driver_control_error_t
  | W_Stats uart_port_id_t
  | W_Stop uart_port_id_t
  | W_Start_Check uart_port_id_t
  | W_Start_Take uart_port_id_t
  | W_Start_Backend uart_port_id_t "uart_control_mailbox_request_t option" uart_driver_line_coding_t
  | W_Start_Finish uart_port_id_t "uart_control_mailbox_request_t option" bool
  | W_Start_Clear uart_port_id_t bool
  | W_Publish uart_port_id_t bool

section \<open>The worker's code between two locked stretches\<close>

text \<open>From the mailbox to the decision, the part of \<open>uart_control_plane_set_line_coding\<close> without a lock.\<close>

definition decide_request ::
    "(nat \<Rightarrow> u64) \<Rightarrow> uart_port_id_t \<Rightarrow> uart_control_mailbox_request_t \<Rightarrow> bool \<Rightarrow>
     ('b, 'z) uart_driver_state_t_scheme \<Rightarrow> worker_pc \<times> ('b, 'z) uart_driver_state_t_scheme" where
  "decide_request clk p request prior_pending st =
     (let st = note_load 1 st;
          generation = request_generation request;
          lc = request_line_coding request;
          port = ports st p;
          pend = pending_controls st p;
          reject = W_Finish_Mailbox p generation False (\<not> prior_pending) 0 False
                     (uart_control_plane_line_coding_error (Some port) (Some lc));
          same_request = (prior_pending \<and>
                    baud_rate (pending_line_coding pend) = baud_rate lc \<and>
                    data_bits (pending_line_coding pend) = data_bits lc \<and>
                    stop_bits (pending_line_coding pend) = stop_bits lc \<and>
                    parity (pending_line_coding pend) = parity lc)
      in if request_port_id request \<noteq> p
         then (W_Finish_Mailbox p generation False (\<not> prior_pending) 0 False UART_CONTROL_ERROR_OTHER, st)
         else if p \<ge> UART_PORT_COUNT then (W_Idle, st)
         else if \<not> uart_line_coding_is_valid (Some lc) then (reject, st)
         else if (case ops port of None \<Rightarrow> False | Some o' \<Rightarrow> op_line_coding_matches o' (backend port) (Some lc))
         then (W_Info p request prior_pending, st)
         else if (case ops port of None \<Rightarrow> True | Some o' \<Rightarrow> \<not> op_line_coding_acceptable o' (Some lc))
         then (reject, st)
         else let st = put_pending p (pend\<lparr>pending_line_coding := lc\<rparr>) st;
                  st = (if uart_control_worker_should_set_deadline prior_pending same_request
                        then let (deadline, st) =
                                   make_timeout_time_ms clk UART_CONTROL_PLANE_APPLY_TIMEOUT_MS st
                             in put_pending p ((pending_controls st p)\<lparr>pending_deadline := deadline\<rparr>) st
                        else st);
                  st = put_pending p ((pending_controls st p)\<lparr>
                         pending_tx_boundary := request_tx_boundary request\<rparr>) st
              in (W_Adopt p generation, st))"

text \<open>A deferred request, up to the lock of its completion: \<open>uart_control_plane_service_pending\<close>.\<close>

definition decide_deferred ::
    "(nat \<Rightarrow> u64) \<Rightarrow> uart_port_id_t \<Rightarrow> ('b, 'z) uart_driver_state_t_scheme \<Rightarrow>
       worker_pc \<times> ('b, 'z) uart_driver_state_t_scheme" where
  "decide_deferred clk p st =
     (let pend = pending_controls st p;
          finish = (\<lambda>success applied err. W_Finish_Worker p (pending_generation pend) success applied err)
      in if \<not> pending pend then (W_Stats p, st)
         else if \<not> uart_control_plane_tx_boundary_drained (Some (ports st p)) (pending_tx_boundary pend)
         then let (late, st) = time_reached clk (pending_deadline pend) st
              in if late then (finish False None UART_CONTROL_ERROR_TIMEOUT, st) else (W_Stats p, st)
         else case ops (ports st p) of None \<Rightarrow> (finish False None UART_CONTROL_ERROR_BACKEND, st)
         | Some o' \<Rightarrow>
             let (late, st) = time_reached clk (pending_deadline pend) st
             in if late then (finish False None UART_CONTROL_ERROR_TIMEOUT, st)
                else let st = note_load 1 st;
                         (applied, b) = op_set_line_coding o' (backend (ports st p))
                                          (Some (pending_line_coding pend));
                         st = put_backend p b st
                     in if \<not> applied
                        then if \<not> op_is_initialized o' b
                             then (W_Backend_Stopped p (pending_generation pend), st)
                             else let (late, st) = time_reached clk (pending_deadline pend) st
                                  in if late then (finish False None UART_CONTROL_ERROR_TIMEOUT, st)
                                     else (W_Stats p, st)
                        else (finish True (Some (pending_line_coding pend)) UART_CONTROL_ERROR_NONE, st))"

text \<open>The backend calls of \<open>uart_control_plane_start_port\<close>.\<close>

definition start_backend ::
    "uart_port_id_t \<Rightarrow> uart_control_mailbox_request_t option \<Rightarrow> uart_driver_line_coding_t \<Rightarrow>
     ('b, 'z) uart_driver_state_t_scheme \<Rightarrow> bool \<times> ('b, 'z) uart_driver_state_t_scheme" where
  "start_backend p taken previous st =
     (let initial = (case taken of Some request \<Rightarrow> request_line_coding request | None \<Rightarrow> previous);
          port = ports st p;
          (started, b) =
            (case ops port of None \<Rightarrow> (False, backend port)
             | Some o' \<Rightarrow>
                 if (case taken of Some request \<Rightarrow> request_port_id request \<noteq> p | None \<Rightarrow> False) \<or>
                    \<not> uart_line_coding_is_valid (Some initial) \<or> \<not> op_line_coding_acceptable o' (Some initial)
                 then (False, backend port)
                 else let (staged, b) = op_set_line_coding o' (backend port) (Some initial)
                      in if \<not> staged then (False, b) else op_restart o' b)
      in (started, put_backend p b st))"

section \<open>Steps\<close>

type_synonym ('b, 'z) sys = "worker_pc \<times> ('b, 'z) uart_driver_state_t_scheme"

text \<open>
  From \<open>W_Idle\<close> the worker may turn to any port and any of its three tasks; the sweep order of the
  sequential code is one of these choices.
\<close>

inductive worker_step :: "(nat \<Rightarrow> u64) \<Rightarrow> ('b, 'z) sys \<Rightarrow> ('b, 'z) sys \<Rightarrow> bool" for clk where
  take_none: "p < UART_PORT_COUNT \<Longrightarrow> plane_take_locked p st = (None, prior, st') \<Longrightarrow>
     worker_step clk (W_Idle, st) (W_Idle, st')"
| take: "p < UART_PORT_COUNT \<Longrightarrow> plane_take_locked p st = (Some request, prior, st') \<Longrightarrow>
     worker_step clk (W_Idle, st) (W_Taken p request prior, st')"
| decide: "worker_step clk (W_Taken p request prior, st) (decide_request clk p request prior st)"
| info: "worker_step clk (W_Info p request prior, st)
     (W_Finish_Mailbox p (request_generation request) True (\<not> prior)
        (pending_generation (pending_controls st p)) prior UART_CONTROL_ERROR_NONE,
      put_port p (set_info_coding (request_line_coding request) (ports st p)) st)"
| finish_mailbox: "worker_step clk (W_Finish_Mailbox p generation success drop_it worker_generation complete_it err, st)
     (W_Idle, uart_control_plane_finish_mailbox_control clk p generation success drop_it worker_generation
        complete_it err st)"
| adopt: "worker_step clk (W_Adopt p generation, st) (W_Idle, uart_control_plane_set_worker_pending p generation st)"
| deferred: "p < UART_PORT_COUNT \<Longrightarrow> pending (pending_controls st p) \<Longrightarrow>
     (status_flags st p AND UART_DRIVER_PORT_STATUS_READY) \<noteq> 0 \<Longrightarrow>
     worker_step clk (W_Idle, st) (decide_deferred clk p (bump_stats p st))"
| backend_stopped: "worker_step clk (W_Backend_Stopped p generation, st)
     (W_Finish_Worker p generation False None UART_CONTROL_ERROR_BACKEND, backend_stopped_locked p st)"
| finish_worker: "worker_step clk (W_Finish_Worker p generation success applied err, st)
     (W_Stats p, uart_control_plane_finish_worker_control clk p generation success applied err st)"
| stats: "worker_step clk (W_Stats p, st) (W_Idle, bump_stats p st)"
| due_stop: "p < UART_PORT_COUNT \<Longrightarrow> lifecycle_due p st = Some True \<Longrightarrow>
     worker_step clk (W_Idle, st) (W_Stop p, lifecycle_deinit p st)"
| due_start: "p < UART_PORT_COUNT \<Longrightarrow> lifecycle_due p st = Some False \<Longrightarrow>
     worker_step clk (W_Idle, st) (W_Start_Check p, st)"
| stop: "worker_step clk (W_Stop p, st) (W_Start_Check p, lifecycle_stop_locked p st)"
| no_start: "lifecycle_start_locked p st = (False, st') \<Longrightarrow>
     worker_step clk (W_Start_Check p, st) (W_Idle, st')"
| start_no_ops: "lifecycle_start_locked p st = (True, st') \<Longrightarrow> ops (ports st' p) = None \<Longrightarrow>
     worker_step clk (W_Start_Check p, st) (W_Publish p False, st')"
| start: "lifecycle_start_locked p st = (True, st') \<Longrightarrow> ops (ports st' p) \<noteq> None \<Longrightarrow>
     worker_step clk (W_Start_Check p, st) (W_Start_Take p, bump_stats p st')"
| start_take: "start_take_locked p st = (taken, previous, st') \<Longrightarrow>
     worker_step clk (W_Start_Take p, st) (W_Start_Backend p taken previous, st')"
| start_backend: "start_backend p taken previous st = (launched, st') \<Longrightarrow>
     worker_step clk (W_Start_Backend p taken previous, st) (W_Start_Finish p taken launched, st')"
| start_finish_none: "worker_step clk (W_Start_Finish p None launched, st) (W_Start_Clear p launched, st)"
| start_finish: "worker_step clk (W_Start_Finish p (Some request) launched, st)
     (W_Start_Clear p launched, uart_control_plane_finish_worker_control clk p (request_generation request) launched
        (if launched then Some (request_line_coding request) else None) UART_CONTROL_ERROR_BACKEND st)"
| start_clear: "worker_step clk (W_Start_Clear p launched, st)
     (W_Publish p launched,
      bump_stats p (if launched
        then put_backend p (op_clear_rx_error_baseline (the (ops (ports st p))) (backend (ports st p))) st
        else st))"
| publish: "worker_step clk (W_Publish p launched, st) (W_Idle, lifecycle_publish_locked p launched st)"
| poll: "p < UART_PORT_COUNT \<Longrightarrow> worker_step clk (W_Idle, st) (W_Idle, poll_port_io p st)"
| next_port: "worker_step clk (W_Idle, st)
     (W_Idle, st\<lparr>poll_start_index := (poll_start_index st + 1) mod UART_PORT_COUNT\<rparr>)"
| beat: "worker_step clk (W_Idle, st) (W_Idle, st\<lparr>worker_heartbeat := worker_heartbeat st + 1\<rparr>)"

text \<open>
  Core 0. A request is queued under a generation that \<open>uart_driver_mark_control_pending\<close> handed out, so it is
  not above the port's latest one. The byte pumps change the rings inside a backend instance.
\<close>

inductive core0_step :: "(nat \<Rightarrow> u64) \<Rightarrow> ('b, 'z) sys \<Rightarrow> ('b, 'z) sys \<Rightarrow> bool" for clk where
  request_stop: "core0_step clk (pc, st) (pc, snd (uart_driver_request_channel_stop p st))"
| request_start: "core0_step clk (pc, st) (pc, snd (uart_driver_request_channel_start p st))"
| quiesced: "core0_step clk (pc, st) (pc, uart_driver_channel_stop_usb_quiesced p st)"
| mark: "core0_step clk (pc, st) (pc, snd (uart_driver_mark_control_pending p st))"
| queue: "generation \<le> control_generations st p \<Longrightarrow>
     core0_step clk (pc, st) (pc, snd (uart_driver_queue_line_coding clk p line_coding generation st))"
| report_error: "core0_step clk (pc, st) (pc, uart_driver_report_control_error clk p reason st)"
| report_soft: "core0_step clk (pc, st) (pc, uart_driver_report_soft_pending_error clk p generation reason st)"
| reset_soft: "core0_step clk (pc, st) (pc, uart_driver_reset_soft_pending p st)"
| check_heartbeat: "core0_step clk (pc, st) (pc, snd (uart_driver_worker_heartbeat_is_fresh now_ms st))"
| pump: "p < UART_PORT_COUNT \<Longrightarrow>
     (\<And>o'. ops (ports st p) = Some o' \<Longrightarrow> op_is_initialized o' b = op_is_initialized o' (backend (ports st p))) \<Longrightarrow>
     core0_step clk (pc, st) (pc, put_backend p b st)"

definition sys_step :: "(nat \<Rightarrow> u64) \<Rightarrow> ('b, 'z) sys \<Rightarrow> ('b, 'z) sys \<Rightarrow> bool" where
  "sys_step clk s s' \<longleftrightarrow> worker_step clk s s' \<or> core0_step clk s s'"

text \<open>From a successful start-up on.\<close>

inductive reachable_from ::
    "(nat \<Rightarrow> u64) \<Rightarrow> ('b, 'z) uart_driver_state_t_scheme \<Rightarrow> ('b, 'z) sys \<Rightarrow> bool" for clk st0 where
  start: "reachable_from clk st0 (W_Idle, st0)"
| step: "reachable_from clk st0 s \<Longrightarrow> sys_step clk s s' \<Longrightarrow> reachable_from clk st0 s'"

section \<open>The cut code is the sequential code\<close>

inductive worker_run :: "(nat \<Rightarrow> u64) \<Rightarrow> ('b, 'z) sys \<Rightarrow> ('b, 'z) sys \<Rightarrow> bool" for clk where
  run_refl: "worker_run clk s s"
| run_step: "worker_step clk s s' \<Longrightarrow> worker_run clk s' s'' \<Longrightarrow> worker_run clk s s''"

lemma run_one: "worker_step clk s s' \<Longrightarrow> worker_run clk s s'"
  by (blast intro: worker_run.intros)

lemma run_trans: "worker_run clk s s' \<Longrightarrow> worker_run clk s' s'' \<Longrightarrow> worker_run clk s s''"
  by (induction rule: worker_run.induct) (blast intro: worker_run.intros)+

lemmas run_finish_mailbox = run_one [OF worker_step.finish_mailbox]
lemmas run_adopt = run_one [OF worker_step.adopt]

lemma run_info:
  "worker_run clk (W_Info p r prior, st) (W_Idle, uart_control_plane_finish_mailbox_control clk p (request_generation r)
     True (\<not> prior) (pending_generation (pending_controls st p)) prior UART_CONTROL_ERROR_NONE
     (put_port p (set_info_coding (request_line_coding r) (ports st p)) st))"
  by (rule run_step [OF worker_step.info run_finish_mailbox])

lemma put_port_pending [simp]: "pending_controls (put_port p v st) = pending_controls st"
  by (simp add: put_port_def)

lemma run_decide:
  assumes "p < UART_PORT_COUNT"
  shows "worker_run clk (W_Taken p r prior, st)
     (W_Idle, if request_port_id r \<noteq> p
              then uart_control_plane_finish_mailbox_control clk p (request_generation r) False
                     (\<not> prior) 0 False UART_CONTROL_ERROR_OTHER (note_load 1 st)
              else uart_control_plane_set_line_coding clk r prior (note_load 1 st))"
proof (rule run_step [OF worker_step.decide])
  show "worker_run clk (decide_request clk p r prior st)
     (W_Idle, if request_port_id r \<noteq> p
              then uart_control_plane_finish_mailbox_control clk p (request_generation r) False
                     (\<not> prior) 0 False UART_CONTROL_ERROR_OTHER (note_load 1 st)
              else uart_control_plane_set_line_coding clk r prior (note_load 1 st))"
    using assms
    by (auto simp: decide_request_def uart_control_plane_set_line_coding_def Let_def not_le
        intro: run_finish_mailbox run_adopt run_info)
qed

lemma run_mailbox:
  assumes "p < UART_PORT_COUNT"
  shows "worker_run clk (W_Idle, st) (W_Idle, plane_service_mailbox clk p st)"
proof (cases "plane_take_locked p st")
  case (fields taken prior st')
  show ?thesis
  proof (cases taken)
    case None
    then show ?thesis
      using run_one [OF worker_step.take_none [OF assms, of st prior st']] fields
      by (simp add: plane_service_mailbox_def)
  next
    case (Some r)
    then show ?thesis
      using run_step [OF worker_step.take [OF assms, of st r prior st'] run_decide [OF assms]] fields
      by (simp add: plane_service_mailbox_def Let_def)
  qed
qed

lemma run_finish_worker:
  "worker_run clk (W_Finish_Worker p g ok applied err, st)
     (W_Idle, bump_stats p (uart_control_plane_finish_worker_control clk p g ok applied err st))"
  by (rule run_step [OF worker_step.finish_worker run_one [OF worker_step.stats]])

lemma run_backend_stopped:
  "worker_run clk (W_Backend_Stopped p g, st)
     (W_Idle, bump_stats p (uart_control_plane_finish_worker_control clk p g False None UART_CONTROL_ERROR_BACKEND
        (backend_stopped_locked p st)))"
  by (rule run_step [OF worker_step.backend_stopped run_finish_worker])

lemma run_decide_deferred:
  "worker_run clk (decide_deferred clk p st) (W_Idle, bump_stats p (uart_control_plane_service_pending clk p st))"
  unfolding decide_deferred_def uart_control_plane_service_pending_def Let_def
  by (auto split: option.split prod.split
      intro: run_finish_worker run_backend_stopped run_one [OF worker_step.stats])

lemma run_deferred:
  assumes "p < UART_PORT_COUNT"
  shows "worker_run clk (W_Idle, st) (W_Idle, plane_service_deferred clk p st)"
  using run_step [OF worker_step.deferred [OF assms] run_decide_deferred, of st clk] run_refl [of clk "(W_Idle, st)"]
  by (simp add: plane_service_deferred_def)

lemma run_start_finish:
  "worker_run clk (W_Start_Finish p taken ok, st)
    (W_Start_Clear p ok,
      (case taken of None \<Rightarrow> st
       | Some request \<Rightarrow> uart_control_plane_finish_worker_control clk p (request_generation request) ok
            (if ok then Some (request_line_coding request) else None) UART_CONTROL_ERROR_BACKEND st))"
proof (cases taken)
  case None
  show ?thesis unfolding None option.case by (rule run_one [OF worker_step.start_finish_none])
next
  case (Some r)
  show ?thesis unfolding Some option.case by (rule run_one [OF worker_step.start_finish])
qed

lemma run_start_backend:
  "worker_run clk (W_Start_Backend p taken previous, st)
    (W_Start_Clear p (fst (start_backend p taken previous st)),
      (case taken of None \<Rightarrow> snd (start_backend p taken previous st)
       | Some request \<Rightarrow> uart_control_plane_finish_worker_control clk p (request_generation request)
            (fst (start_backend p taken previous st))
            (if fst (start_backend p taken previous st) then Some (request_line_coding request) else None)
            UART_CONTROL_ERROR_BACKEND (snd (start_backend p taken previous st))))"
  by (rule run_step [OF worker_step.start_backend run_start_finish]) simp

lemma start_port_eq:
  assumes "p < UART_PORT_COUNT" "start_take_locked p st = (taken, previous, st')"
  shows "uart_control_plane_start_port clk p st =
     (fst (start_backend p taken previous st'),
      (case taken of None \<Rightarrow> snd (start_backend p taken previous st')
       | Some request \<Rightarrow> uart_control_plane_finish_worker_control clk p (request_generation request)
            (fst (start_backend p taken previous st'))
            (if fst (start_backend p taken previous st') then Some (request_line_coding request) else None)
            UART_CONTROL_ERROR_BACKEND (snd (start_backend p taken previous st'))))"
  using assms assms(1) [unfolded not_le [symmetric]]
  by (cases taken; cases "ops (ports st' p)")
     (simp_all add: uart_control_plane_start_port_def start_backend_def Let_def case_prod_beta)


lemma bump_stats_lifecycle [simp]: "lifecycle (bump_stats p st) = lifecycle st"
  "ops (ports (bump_stats q st) p) = ops (ports st p)"
  by (simp_all add: bump_stats_def)

lemma start_lock_ops [simp]: "ops (ports (snd (lifecycle_start_locked p st)) q) = ops (ports st q)"
  by (simp add: lifecycle_start_locked_def put_lifecycle_def)

lemma finish_worker_ops [simp]:
  "ops (ports (uart_control_plane_finish_worker_control clk p g ok applied err st) q) = ops (ports st q)"
  by (simp add: uart_control_plane_finish_worker_control_def finish_worker_locked_def Let_def put_defs clock_defs
      clear_pending_flag_def complete_error_def set_info_coding_def split: bool.split option.split)

lemma start_port_ops [simp]:
  "ops (ports (snd (uart_control_plane_start_port clk p st)) q) = ops (ports st q)"
  by (simp add: uart_control_plane_start_port_def start_take_locked_def Let_def case_prod_beta put_backend_def
      split: option.split) (simp add: put_defs)

lemma run_start:
  assumes "p < UART_PORT_COUNT"
  shows "worker_run clk (W_Start_Check p, st)
     (W_Idle, let (go, st) = lifecycle_start_locked p st
              in if \<not> go then st
                 else let (lifecycle_ok, st) = lifecycle_start clk p st
                      in lifecycle_publish_locked p lifecycle_ok st)"
proof (cases "lifecycle_start_locked p st")
  case (Pair go st1)
  note pub = run_one [OF worker_step.publish]
  show ?thesis
  proof (cases "go \<and> ops (ports st1 p) \<noteq> None")
    case False
    then show ?thesis
      using run_one [OF worker_step.no_start, of p st st1 clk]
        run_step [OF worker_step.start_no_ops pub, of p st st1 clk] Pair
      by (auto simp: lifecycle_start_def)
  next
    case True
    let ?st2 = "bump_stats p st1"
    obtain taken previous st3 where t: "start_take_locked p ?st2 = (taken, previous, st3)"
      by (cases "start_take_locked p ?st2") auto
    have "worker_run clk (W_Start_Check p, st) (W_Start_Take p, ?st2)"
      using worker_step.start [of p st st1 clk] True Pair by (intro run_one) simp
    moreover have "worker_run clk (W_Start_Take p, ?st2) (W_Start_Backend p taken previous, st3)"
      using worker_step.start_take [OF t] by (rule run_one)
    moreover have "worker_run clk (W_Start_Backend p taken previous, st3)
        (W_Start_Clear p (fst (uart_control_plane_start_port clk p ?st2)), snd (uart_control_plane_start_port clk p ?st2))"
      using run_start_backend [of clk p taken previous st3] start_port_eq [OF assms t] by simp
    ultimately have r: "worker_run clk (W_Start_Check p, st)
        (W_Start_Clear p (fst (uart_control_plane_start_port clk p ?st2)), snd (uart_control_plane_start_port clk p ?st2))"
      by (blast intro: run_trans)
    have o: "ops (ports (snd (uart_control_plane_start_port clk p ?st2)) p) = ops (ports st1 p)"
      by simp
    show ?thesis
      using run_trans [OF r run_step [OF worker_step.start_clear pub]] True Pair o
      by (auto simp: lifecycle_start_def case_prod_beta Let_def uart_driver_begin_port_stats_update_def
          uart_driver_end_port_stats_update_def)
  qed
qed

lemma run_lifecycle:
  assumes "p < UART_PORT_COUNT"
  shows "worker_run clk (W_Idle, st) (W_Idle, service_port_lifecycle clk p st)"
proof (cases "lifecycle_due p st")
  case None
  then show ?thesis by (simp add: service_port_lifecycle_def run_refl)
next
  case (Some reset_pending)
  show ?thesis
  proof (cases reset_pending)
    case True
    then show ?thesis
      using run_step [OF worker_step.due_stop [OF assms] run_step [OF worker_step.stop run_start [OF assms]], of st clk] Some
      by (simp add: service_port_lifecycle_def Let_def)
  next
    case False
    then show ?thesis
      using run_step [OF worker_step.due_start [OF assms] run_start [OF assms], of st clk] Some
      by (simp add: service_port_lifecycle_def Let_def)
  qed
qed

lemma run_poll: "p < UART_PORT_COUNT \<Longrightarrow> worker_run clk (W_Idle, st) (W_Idle, poll_port_io p st)"
  by (rule run_one [OF worker_step.poll])

lemma port_below: "(n + k) mod UART_PORT_COUNT < (UART_PORT_COUNT :: u32)"
  by (simp add: word_less_nat_alt unat_mod)

lemma run_fold:
  assumes "\<And>x st. x \<in> set xs \<Longrightarrow> worker_run clk (W_Idle, st) (W_Idle, f x st)"
  shows "worker_run clk (W_Idle, st) (W_Idle, fold f xs st)"
  using assms by (induction xs arbitrary: st) (auto intro: run_refl run_trans)


end
