(* ===== verification/Control_Invariant.thy ===== *)
theory Control_Invariant
  imports Control_Steps
begin

text \<open>
  What every interleaving of the two cores keeps: who owns the \<open>CONTROL_PENDING\<close> flag that blocks TX,
  that a port being stopped is not ready, that a mailbox holds its own port's request, and that a stale
  completion cannot hide a newer failure. Each operation preserves the invariant of every port; rule
  induction over the steps lifts it to all reachable states.
\<close>

section \<open>Flag bits\<close>

lemma flag_iff [simp]:
  fixes v :: u8
  shows "v AND 1 = 0 \<longleftrightarrow> \<not> bit v 0" "v AND 2 = 0 \<longleftrightarrow> \<not> bit v 1"
    "v AND 4 = 0 \<longleftrightarrow> \<not> bit v 2" "v AND 8 = 0 \<longleftrightarrow> \<not> bit v 3"
proof -
  have *: "v AND 2 ^ n = 0 \<longleftrightarrow> \<not> bit v n" if "n < 8" for n
  proof
    assume "v AND 2 ^ n = 0"
    then have "\<not> bit (v AND 2 ^ n) n" by simp
    with that show "\<not> bit v n" by (simp add: bit_simps)
  next
    assume "\<not> bit v n"
    then show "v AND 2 ^ n = 0" by (intro bit_eqI) (auto simp: bit_simps)
  qed
  from * [of 0] * [of 1] * [of 2] * [of 3]
  show "v AND 1 = 0 \<longleftrightarrow> \<not> bit v 0" "v AND 2 = 0 \<longleftrightarrow> \<not> bit v 1"
    "v AND 4 = 0 \<longleftrightarrow> \<not> bit v 2" "v AND 8 = 0 \<longleftrightarrow> \<not> bit v 3"
    by simp_all
qed

lemma bit_flags [simp]:
  "bit (1 :: u8) n \<longleftrightarrow> n = 0" "bit (2 :: u8) n \<longleftrightarrow> n = 1" "bit (4 :: u8) n \<longleftrightarrow> n = 2" "bit (8 :: u8) n \<longleftrightarrow> n = 3"
proof -
  have *: "bit (2 ^ k :: u8) n \<longleftrightarrow> n = k" if "k < 8" for k using that by (auto simp: bit_simps)
  from * [of 0] * [of 1] * [of 2] * [of 3]
  show "bit (1 :: u8) n \<longleftrightarrow> n = 0" "bit (2 :: u8) n \<longleftrightarrow> n = 1" "bit (4 :: u8) n \<longleftrightarrow> n = 2"
    "bit (8 :: u8) n \<longleftrightarrow> n = 3"
    by simp_all
qed

lemma bit_not_u8 [simp]: "n < 8 \<Longrightarrow> bit (NOT v :: u8) n \<longleftrightarrow> \<not> bit v n"
  by (simp add: bit_simps)

section \<open>The invariant of a port\<close>

definition port_owned :: "('b, 'z) uart_driver_state_t_scheme \<Rightarrow> uart_port_id_t \<Rightarrow> bool" where
  "port_owned st p \<longleftrightarrow> soft_pending_controls st p \<or> occupied (mailboxes st p) \<or> pending (pending_controls st p)"

definition port_inv :: "('b, 'z) uart_driver_state_t_scheme \<Rightarrow> uart_port_id_t \<Rightarrow> bool" where
  "port_inv st p \<longleftrightarrow>
     (port_owned st p \<longrightarrow> bit (status_flags st p) 3) \<and>
     (bit (status_flags st p) 3 \<longrightarrow> port_owned st p \<or> stop_pending (lifecycle st p)) \<and>
     (occupied (mailboxes st p) \<longrightarrow> request_port_id (mailbox_request (mailboxes st p)) = p) \<and>
     (stop_pending (lifecycle st p) \<longrightarrow> \<not> bit (status_flags st p) 0)"

lemmas inv_defs = port_inv_def port_owned_def put_defs put_lifecycle_def Let_def

lemmas rule_defs = uart_control_pending_should_clear_def uart_control_apply_completion_error_def
  uart_control_completion_is_current_def uart_control_mailbox_has_pending_port_def
  uart_control_plane_mailbox_has_pending_port_def uart_driver_mailbox_has_pending_port_def
  uart_control_mailbox_take_def uart_control_mailbox_publish_def uart_control_mailbox_can_publish_def
  uart_control_mailbox_reset_def uart_control_apply_reject_error_def clear_pending_flag_def complete_error_def
  clock_defs

text \<open>Only these fields matter.\<close>

lemma port_inv_cong:
  assumes "soft_pending_controls st' p = soft_pending_controls st p" "mailboxes st' p = mailboxes st p"
    "pending (pending_controls st' p) = pending (pending_controls st p)" "lifecycle st' p = lifecycle st p"
    "bit (status_flags st' p) 0 = bit (status_flags st p) 0" "bit (status_flags st' p) 3 = bit (status_flags st p) 3"
  shows "port_inv st' p = port_inv st p"
  using assms by (simp add: port_inv_def port_owned_def)

lemma port_inv_put_port [simp]: "port_inv (put_port q v st) p = port_inv st p"
  by (rule port_inv_cong) (simp_all add: put_defs)

lemma port_inv_put_backend [simp]: "port_inv (put_backend q v st) p = port_inv st p"
  by (simp add: put_backend_def)

lemma port_inv_bump [simp]: "port_inv (bump_stats q st) p = port_inv st p"
  by (rule port_inv_cong) (simp_all add: put_defs)

lemma port_inv_clock [simp]: "port_inv (st\<lparr>clock_reads := n\<rparr>) p = port_inv st p"
  by (rule port_inv_cong) simp_all

lemma port_inv_note [simp]: "port_inv (note_load c st) p = port_inv st p"
  by (rule port_inv_cong) (simp_all add: note_load_def)

lemma port_inv_record [simp]: "port_inv (uart_control_record_error clk q reason st) p = port_inv st p"
  by (rule port_inv_cong) (simp_all add: uart_control_record_error_def read_clock_def put_defs)

section \<open>The worker's operations\<close>

lemma inv_finish_worker:
  "port_inv st p \<Longrightarrow> q < UART_PORT_COUNT \<Longrightarrow>
   port_inv (uart_control_plane_finish_worker_control clk q g ok applied err st) p"
  by (cases "p = q") (simp_all add: uart_control_plane_finish_worker_control_def finish_worker_locked_def inv_defs
      rule_defs set_info_coding_def bit_simps split: bool.split option.split)

lemma inv_finish_mailbox:
  "port_inv st p \<Longrightarrow> q < UART_PORT_COUNT \<Longrightarrow>
   port_inv (uart_control_plane_finish_mailbox_control clk q g ok drop_it wg complete_it err st) p"
  by (cases "p = q") (simp_all add: uart_control_plane_finish_mailbox_control_def inv_defs rule_defs bit_simps)

lemma inv_adopt: "port_inv st p \<Longrightarrow> port_inv (uart_control_plane_set_worker_pending q g st) p"
  by (cases "p = q") (auto simp: uart_control_plane_set_worker_pending_def inv_defs rule_defs bit_simps)

lemma inv_take: "port_inv st p \<Longrightarrow> port_inv (snd (snd (plane_take_locked q st))) p"
  by (cases "p = q") (auto simp: plane_take_locked_def inv_defs rule_defs)

lemma inv_backend_stopped: "port_inv st p \<Longrightarrow> port_inv (backend_stopped_locked q st) p"
  by (cases "p = q") (auto simp: backend_stopped_locked_def inv_defs bit_simps)

lemma inv_deinit: "port_inv st p \<Longrightarrow> port_inv (lifecycle_deinit q st) p"
  by (simp add: lifecycle_deinit_def Let_def uart_driver_begin_port_stats_update_def
      uart_driver_end_port_stats_update_def split: option.split)

lemma inv_stop: "port_inv st p \<Longrightarrow> port_inv (lifecycle_stop_locked q st) p"
  by (cases "p = q") (auto simp: lifecycle_stop_locked_def inv_defs rule_defs zero_pending_def bit_simps)

lemma inv_start_locked: "port_inv st p \<Longrightarrow> port_inv (snd (lifecycle_start_locked q st)) p"
  by (cases "p = q") (auto simp: lifecycle_start_locked_def inv_defs)

lemma inv_start_take: "port_inv st p \<Longrightarrow> port_inv (snd (snd (start_take_locked q st))) p"
  by (cases "p = q") (auto simp: start_take_locked_def inv_defs rule_defs)

lemma inv_publish: "port_inv st p \<Longrightarrow> port_inv (lifecycle_publish_locked q ok st) p"
  by (cases "p = q") (auto simp: lifecycle_publish_locked_def inv_defs bit_simps)

lemma inv_decide_request: "port_inv st p \<Longrightarrow> port_inv (snd (decide_request clk q r prior st)) p"
  by (cases "p = q") (auto simp: decide_request_def inv_defs rule_defs)

lemma inv_decide_deferred: "port_inv st p \<Longrightarrow> port_inv (snd (decide_deferred clk q st)) p"
  by (simp add: decide_deferred_def Let_def case_prod_beta time_reached_def read_clock_def split: option.split)

lemma inv_start_backend: "port_inv st p \<Longrightarrow> port_inv (snd (start_backend q taken previous st)) p"
  by (simp add: start_backend_def Let_def case_prod_beta)

lemma inv_poll: "port_inv st p \<Longrightarrow> port_inv (poll_port_io q st) p"
  by (simp add: poll_port_io_def Let_def uart_driver_begin_port_stats_update_def
      uart_driver_end_port_stats_update_def split: option.split)

section \<open>Core 0's operations\<close>

lemma inv_request_stop: "port_inv st p \<Longrightarrow> port_inv (snd (uart_driver_request_channel_stop q st)) p"
  by (cases "p = q") (auto simp: uart_driver_request_channel_stop_def inv_defs bit_simps)

lemma inv_request_start: "port_inv st p \<Longrightarrow> port_inv (snd (uart_driver_request_channel_start q st)) p"
  by (cases "p = q") (auto simp: uart_driver_request_channel_start_def inv_defs)

lemma inv_quiesced: "port_inv st p \<Longrightarrow> port_inv (uart_driver_channel_stop_usb_quiesced q st) p"
  by (cases "p = q") (auto simp: uart_driver_channel_stop_usb_quiesced_def inv_defs)

lemma inv_mark: "port_inv st p \<Longrightarrow> port_inv (snd (uart_driver_mark_control_pending q st)) p"
  by (cases "p = q") (auto simp: uart_driver_mark_control_pending_def inv_defs bit_simps)

lemma inv_report_error: "port_inv st p \<Longrightarrow> port_inv (uart_driver_report_control_error clk q reason st) p"
  by (cases "p = q") (auto simp: uart_driver_report_control_error_def inv_defs rule_defs bit_simps)

lemma inv_report_soft: "port_inv st p \<Longrightarrow> port_inv (uart_driver_report_soft_pending_error clk q g reason st) p"
  by (cases "p = q") (auto simp: uart_driver_report_soft_pending_error_def inv_defs rule_defs bit_simps)

lemma inv_reset_soft: "port_inv st p \<Longrightarrow> port_inv (uart_driver_reset_soft_pending q st) p"
  by (cases "p = q") (auto simp: uart_driver_reset_soft_pending_def inv_defs rule_defs bit_simps)

lemma inv_queue: "port_inv st p \<Longrightarrow> port_inv (snd (uart_driver_queue_line_coding clk q lc g st)) p"
proof -
  assume i: "port_inv st p"
  have "port_inv (snd (queue_locked q l g n st)) p" for l n
    using i by (cases "p = q") (auto simp: queue_locked_def inv_defs rule_defs bit_simps)
  then show ?thesis
    using i inv_report_error [OF i] by (simp add: uart_driver_queue_line_coding_def split: option.split)
qed

section \<open>All steps\<close>

primrec pc_port :: "worker_pc \<Rightarrow> uart_port_id_t option" where
  "pc_port W_Idle = None"
| "pc_port (W_Taken p r prior) = Some p"
| "pc_port (W_Info p r prior) = Some p"
| "pc_port (W_Finish_Mailbox p g ok d wg c err) = Some p"
| "pc_port (W_Adopt p g) = Some p"
| "pc_port (W_Backend_Stopped p g) = Some p"
| "pc_port (W_Finish_Worker p g ok applied err) = Some p"
| "pc_port (W_Stats p) = Some p"
| "pc_port (W_Stop p) = Some p"
| "pc_port (W_Start_Check p) = Some p"
| "pc_port (W_Start_Take p) = Some p"
| "pc_port (W_Start_Backend p taken previous) = Some p"
| "pc_port (W_Start_Finish p taken ok) = Some p"
| "pc_port (W_Start_Clear p ok) = Some p"
| "pc_port (W_Publish p ok) = Some p"

definition sys_inv :: "('b, 'z) sys \<Rightarrow> bool" where
  "sys_inv s \<longleftrightarrow> (\<forall>p < UART_PORT_COUNT. port_inv (snd s) p) \<and> (\<forall>p. pc_port (fst s) = Some p \<longrightarrow> p < UART_PORT_COUNT)"

lemma decide_request_port: "pc_port (fst (decide_request clk p r prior st)) \<in> {None, Some p}"
  by (simp add: decide_request_def Let_def case_prod_beta)

lemma decide_deferred_port: "pc_port (fst (decide_deferred clk p st)) = Some p"
  by (simp add: decide_deferred_def Let_def case_prod_beta split: option.split)

lemma worker_step_inv: "worker_step clk s s' \<Longrightarrow> sys_inv s \<Longrightarrow> sys_inv s'"
proof (induction rule: worker_step.induct)
  case (decide p r prior st)
  then show ?case
    using decide_request_port [of clk p r prior st] by (auto simp: sys_inv_def intro: inv_decide_request)
next
  case (deferred p st)
  then show ?case
    using decide_deferred_port [of clk p "bump_stats p st"] by (auto simp: sys_inv_def intro!: inv_decide_deferred)
next
  case (take_none p st prior st')
  then show ?case using inv_take [of st _ p] by (simp add: sys_inv_def)
next
  case (take p st r prior st')
  then show ?case using inv_take [of st _ p] by (simp add: sys_inv_def)
next
  case (no_start p st st')
  then show ?case using inv_start_locked [of st _ p] by (simp add: sys_inv_def)
next
  case (start_no_ops p st st')
  then show ?case using inv_start_locked [of st _ p] by (simp add: sys_inv_def)
next
  case (start p st st')
  then show ?case using inv_start_locked [of st _ p] by (simp add: sys_inv_def)
next
  case (start_take p st taken previous st')
  then show ?case using inv_start_take [of st _ p] by (simp add: sys_inv_def)
next
  case (start_backend p taken previous st ok st')
  then show ?case using inv_start_backend [of st _ p taken previous] by (simp add: sys_inv_def)
next
  case (next_port st)
  then show ?case by (simp add: sys_inv_def port_inv_def port_owned_def)
next
  case (beat st)
  then show ?case by (simp add: sys_inv_def port_inv_def port_owned_def)
qed (auto simp: sys_inv_def inv_finish_mailbox inv_finish_worker inv_adopt inv_backend_stopped inv_deinit
      inv_stop inv_publish inv_poll)

lemma core0_step_inv: "core0_step clk s s' \<Longrightarrow> sys_inv s \<Longrightarrow> sys_inv s'"
proof (induction rule: core0_step.induct)
  case (check_heartbeat pc st now_ms)
  then show ?case
    by (simp add: sys_inv_def uart_driver_worker_heartbeat_is_fresh_def case_prod_beta port_inv_def port_owned_def)
qed (auto simp: sys_inv_def inv_request_stop inv_request_start inv_quiesced inv_mark inv_queue inv_report_error
      inv_report_soft inv_reset_soft)

lemma reachable_inv: "reachable_from clk st0 s \<Longrightarrow> sys_inv (W_Idle, st0) \<Longrightarrow> sys_inv s"
  by (induction rule: reachable_from.induct) (auto simp: sys_step_def intro: worker_step_inv core0_step_inv)

section \<open>The start\<close>

lemma port_cases: "p < UART_PORT_COUNT \<Longrightarrow> p \<in> set all_ports"
proof -
  assume "p < UART_PORT_COUNT"
  then have "unat p < 6" by (simp add: word_less_nat_alt)
  then have "unat p = 0 \<or> unat p = 1 \<or> unat p = 2 \<or> unat p = 3 \<or> unat p = 4 \<or> unat p = 5" by linarith
  then show ?thesis by (auto simp: all_ports_def word_unat_eq_iff)
qed

lemma fold_keeps: "(\<And>q s. P s \<Longrightarrow> P (f q s)) \<Longrightarrow> P s \<Longrightarrow> P (fold f xs s)"
  by (induction xs arbitrary: s) auto

lemma fold_establishes:
  "p \<in> set xs \<Longrightarrow> (\<And>s. P (f p s)) \<Longrightarrow> (\<And>q s. P s \<Longrightarrow> P (f q s)) \<Longrightarrow> P (fold f xs s)"
  by (induction xs arbitrary: s) (auto intro: fold_keeps [where P = P and f = f])

text \<open>A port nobody has asked anything of.\<close>

definition port_fresh :: "('b, 'z) uart_driver_state_t_scheme \<Rightarrow> uart_port_id_t \<Rightarrow> bool" where
  "port_fresh st p \<longleftrightarrow> \<not> soft_pending_controls st p \<and> \<not> pending (pending_controls st p) \<and>
     lifecycle st p = zero_lifecycle \<and> \<not> bit (status_flags st p) 3 \<and> control_generations st p = 0"

definition port_quiet :: "('b, 'z) uart_driver_state_t_scheme \<Rightarrow> uart_port_id_t \<Rightarrow> bool" where
  "port_quiet st p \<longleftrightarrow> port_fresh st p \<and> \<not> occupied (mailboxes st p)"

lemmas fresh_defs = port_quiet_def port_fresh_def put_defs put_lifecycle_def Let_def

lemma reset_fresh: "port_fresh (reset_port_state board p st) p"
  by (simp add: reset_port_state_def fresh_defs zero_pending_def)

lemma reset_keeps: "port_fresh st p \<Longrightarrow> port_fresh (reset_port_state board q st) p"
  by (cases "p = q") (simp_all add: reset_port_state_def fresh_defs zero_pending_def)

lemma init_keeps: "port_quiet (snd r) p \<Longrightarrow> port_quiet (snd (init_port_backend q r)) p"
  by (cases "p = q") (simp_all add: init_port_backend_def fresh_defs case_prod_beta bit_simps
      uart_driver_set_port_status_flag_def uart_driver_clear_port_status_flag_def split: option.split)

lemma park_keeps: "port_quiet st p \<Longrightarrow> port_quiet (park_port q st) p"
  by (cases "p = q") (simp_all add: park_port_def fresh_defs bit_simps
      uart_driver_clear_port_status_flag_def split: option.split)

lemma port_quiet_clear [simp]:
  "port_quiet (s\<lparr>poll_start_index := a, worker_heartbeat := b\<rparr>) p = port_quiet s p"
  "port_quiet (s\<lparr>worker_started := c\<rparr>) p = port_quiet s p"
  by (simp_all add: port_quiet_def port_fresh_def)

lemma init_quiet:
  assumes "uart_driver_init board ops_of attach st = (True, st')" "\<not> worker_started st" "p < UART_PORT_COUNT"
  shows "port_quiet st' p"
proof -
  let ?load = "uart_driver_load_board_config board ops_of attach (uart_driver_bind_state_views
      (if \<not> status_lock st then st\<lparr>status_lock := True\<rparr> else st))"
  let ?reset = "fold (reset_port_state board) all_ports ?load"
  let ?box = "fold (\<lambda>index st. put_mailbox index (uart_control_mailbox_reset (mailboxes st index)) st) all_ports ?reset"
  let ?clear = "?box\<lparr>poll_start_index := 0\<rparr>\<lparr>worker_heartbeat := 0\<rparr>"
  let ?init = "uart_driver_init_backends ?clear"
  have st': "st' = (fold park_port all_ports (snd ?init))\<lparr>worker_started := True\<rparr>"
    using assms(1,2) unfolding uart_driver_init_def Let_def case_prod_beta
    by (auto split: if_splits)
  note p = port_cases [OF assms(3)]
  have r: "port_fresh ?reset p"
    by (rule fold_establishes [where P = "\<lambda>s. port_fresh s p" and f = "reset_port_state board", OF p reset_fresh reset_keeps])
  have b: "port_fresh ?box p"
    by (rule fold_keeps [where P = "\<lambda>s. port_fresh s p", OF _ r]) (simp add: fresh_defs)
  have "\<not> occupied (mailboxes ?box p)"
    by (rule fold_establishes [where P = "\<lambda>s. \<not> occupied (mailboxes s p)", OF p])
       (auto simp: put_mailbox_def uart_control_mailbox_reset_def)
  with b have "port_quiet ?box p" unfolding port_quiet_def by (rule conjI)
  then have c: "port_quiet ?clear p" unfolding port_quiet_clear .
  have i: "port_quiet (snd ?init) p"
    unfolding uart_driver_init_backends_def
    by (rule fold_keeps [where P = "\<lambda>r. port_quiet (snd r) p" and f = init_port_backend, OF init_keeps])
       (assumption, unfold snd_conv, rule c)
  have "port_quiet (fold park_port all_ports (snd ?init)) p"
    by (rule fold_keeps [where P = "\<lambda>s. port_quiet s p" and f = park_port, OF park_keeps i])
  then show ?thesis unfolding st' port_quiet_clear .
qed

lemma init_inv:
  assumes "uart_driver_init board ops_of attach st = (True, st')" "\<not> worker_started st"
  shows "sys_inv (W_Idle, st')"
  using init_quiet [OF assms]
  by (auto simp: sys_inv_def port_inv_def port_owned_def port_quiet_def port_fresh_def zero_lifecycle_def)

section \<open>Generations\<close>

text \<open>
  \<open>gens_ok p Q s\<close>: every request for port \<open>p\<close> that is still under way, in the mailbox, deferred or in the
  worker's hands, carries a generation with \<open>Q\<close>. The worker hands generations on and makes none.
\<close>

primrec pc_gens_ok :: "uart_port_id_t \<Rightarrow> (u32 \<Rightarrow> bool) \<Rightarrow> bool \<Rightarrow> worker_pc \<Rightarrow> bool" where
  "pc_gens_ok p Q deferred_now W_Idle \<longleftrightarrow> True"
| "pc_gens_ok p Q deferred_now (W_Taken q r prior) \<longleftrightarrow> (q = p \<longrightarrow> Q (request_generation r) \<and> (prior \<longrightarrow> deferred_now))"
| "pc_gens_ok p Q deferred_now (W_Info q r prior) \<longleftrightarrow> (q = p \<longrightarrow> Q (request_generation r) \<and> (prior \<longrightarrow> deferred_now))"
| "pc_gens_ok p Q deferred_now (W_Finish_Mailbox q g ok d wg c err) \<longleftrightarrow> (q = p \<longrightarrow> Q g \<and> (c \<longrightarrow> Q wg))"
| "pc_gens_ok p Q deferred_now (W_Adopt q g) \<longleftrightarrow> (q = p \<longrightarrow> Q g)"
| "pc_gens_ok p Q deferred_now (W_Backend_Stopped q g) \<longleftrightarrow> (q = p \<longrightarrow> Q g)"
| "pc_gens_ok p Q deferred_now (W_Finish_Worker q g ok applied err) \<longleftrightarrow> (q = p \<longrightarrow> Q g)"
| "pc_gens_ok p Q deferred_now (W_Stats q) \<longleftrightarrow> True"
| "pc_gens_ok p Q deferred_now (W_Stop q) \<longleftrightarrow> True"
| "pc_gens_ok p Q deferred_now (W_Start_Check q) \<longleftrightarrow> True"
| "pc_gens_ok p Q deferred_now (W_Start_Take q) \<longleftrightarrow> True"
| "pc_gens_ok p Q deferred_now (W_Start_Backend q taken previous) \<longleftrightarrow>
     (q = p \<longrightarrow> (\<forall>r. taken = Some r \<longrightarrow> Q (request_generation r)))"
| "pc_gens_ok p Q deferred_now (W_Start_Finish q taken ok) \<longleftrightarrow>
     (q = p \<longrightarrow> (\<forall>r. taken = Some r \<longrightarrow> Q (request_generation r)))"
| "pc_gens_ok p Q deferred_now (W_Start_Clear q ok) \<longleftrightarrow> True"
| "pc_gens_ok p Q deferred_now (W_Publish q ok) \<longleftrightarrow> True"

definition gens_ok :: "uart_port_id_t \<Rightarrow> (u32 \<Rightarrow> bool) \<Rightarrow> ('b, 'z) sys \<Rightarrow> bool" where
  "gens_ok p Q s \<longleftrightarrow>
     (occupied (mailboxes (snd s) p) \<longrightarrow> Q (request_generation (mailbox_request (mailboxes (snd s) p)))) \<and>
     (pending (pending_controls (snd s) p) \<longrightarrow> Q (pending_generation (pending_controls (snd s) p))) \<and>
     pc_gens_ok p Q (pending (pending_controls (snd s) p)) (fst s)"

lemma gens_ok_mono: "gens_ok p Q s \<Longrightarrow> (\<And>g. Q g \<Longrightarrow> R g) \<Longrightarrow> gens_ok p R s"
  by (cases "fst s") (auto simp: gens_ok_def)

lemmas gens_defs = gens_ok_def put_defs put_lifecycle_def Let_def rule_defs

lemmas worker_defs = uart_control_plane_finish_mailbox_control_def uart_control_plane_finish_worker_control_def
  finish_worker_locked_def uart_control_plane_set_worker_pending_def backend_stopped_locked_def
  lifecycle_stop_locked_def zero_pending_def lifecycle_publish_locked_def plane_take_locked_def
  start_take_locked_def lifecycle_start_locked_def

lemma gens_decide_request:
  "gens_ok p Q (W_Taken q r prior, st) \<Longrightarrow> gens_ok p Q (decide_request clk q r prior st)"
  by (cases "p = q") (auto simp: decide_request_def gens_defs)

lemma gens_decide_deferred:
  "gens_ok p Q (W_Idle, st) \<Longrightarrow> pending (pending_controls st q) \<Longrightarrow> gens_ok p Q (decide_deferred clk q st)"
  by (cases "p = q") (auto simp: decide_deferred_def gens_defs case_prod_beta split: option.split)

lemma gens_lifecycle_deinit: "gens_ok p Q (pc, lifecycle_deinit q st) = gens_ok p Q (pc, st)"
  by (simp add: lifecycle_deinit_def gens_defs uart_driver_begin_port_stats_update_def
      uart_driver_end_port_stats_update_def split: option.split)

lemma gens_poll: "gens_ok p Q (pc, poll_port_io q st) = gens_ok p Q (pc, st)"
  by (simp add: poll_port_io_def gens_defs uart_driver_begin_port_stats_update_def
      uart_driver_end_port_stats_update_def split: option.split)

lemma gens_bump [simp]: "gens_ok p Q (pc, bump_stats q st) = gens_ok p Q (pc, st)"
  by (simp add: gens_defs)

lemma gens_put_backend [simp]: "gens_ok p Q (pc, put_backend q b st) = gens_ok p Q (pc, st)"
  by (simp add: gens_defs)

lemma worker_step_gens: "worker_step clk s s' \<Longrightarrow> gens_ok p Q s \<Longrightarrow> gens_ok p Q s'"
proof (induction rule: worker_step.induct)
  case (decide q r prior st)
  then show ?case by (rule gens_decide_request)
next
  case (deferred q st)
  then show ?case by (intro gens_decide_deferred) (simp, simp add: bump_stats_def)
next
  case (start_backend q taken previous st ok st')
  then show ?case by (auto simp: start_backend_def Let_def case_prod_beta) (simp_all add: gens_ok_def)
next
  case (finish_worker q g ok applied err st)
  then show ?case
    by (cases "p = q") (auto simp: gens_defs worker_defs set_info_coding_def split: bool.splits option.splits)
next
  case (start_finish q r ok st)
  then show ?case
    by (cases "p = q") (auto simp: gens_defs worker_defs set_info_coding_def split: bool.splits option.splits)
next
  case (start_take q st taken previous st')
  then show ?case by (cases "p = q") (auto simp: gens_defs worker_defs split: if_splits)
next
  case (take q st r prior st')
  then show ?case by (cases "p = q") (auto simp: gens_defs worker_defs split: if_splits)
next
  case (take_none q st prior st')
  then show ?case by (cases "p = q") (auto simp: gens_defs worker_defs split: if_splits)
next
  case (due_stop q st)
  then show ?case by (simp add: gens_lifecycle_deinit) (simp add: gens_ok_def)
next
  case (poll q st)
  then show ?case by (simp add: gens_poll)
qed (auto simp: gens_defs worker_defs set_info_coding_def split: if_splits)

text \<open>What core 0's operations do to the requests under way: nothing, except for the one that is queued.\<close>

lemma gens_soft_ops:
  "gens_ok p Q (pc, snd (uart_driver_request_channel_stop q st)) = gens_ok p Q (pc, st)"
  "gens_ok p Q (pc, snd (uart_driver_request_channel_start q st)) = gens_ok p Q (pc, st)"
  "gens_ok p Q (pc, uart_driver_channel_stop_usb_quiesced q st) = gens_ok p Q (pc, st)"
  "gens_ok p Q (pc, snd (uart_driver_mark_control_pending q st)) = gens_ok p Q (pc, st)"
  "gens_ok p Q (pc, uart_driver_report_control_error clk q reason st) = gens_ok p Q (pc, st)"
  "gens_ok p Q (pc, uart_driver_report_soft_pending_error clk q g reason st) = gens_ok p Q (pc, st)"
  "gens_ok p Q (pc, uart_driver_reset_soft_pending q st) = gens_ok p Q (pc, st)"
  "gens_ok p Q (pc, snd (uart_driver_worker_heartbeat_is_fresh now_ms st)) = gens_ok p Q (pc, st)"
  by (simp_all add: gens_defs uart_driver_request_channel_stop_def uart_driver_request_channel_start_def
      uart_driver_channel_stop_usb_quiesced_def uart_driver_mark_control_pending_def
      uart_driver_report_control_error_def uart_driver_report_soft_pending_error_def
      uart_driver_reset_soft_pending_def uart_driver_worker_heartbeat_is_fresh_def case_prod_beta)

lemma gens_queue:
  assumes "gens_ok p Q (pc, st)" "q = p \<Longrightarrow> Q g"
  shows "gens_ok p Q (pc, snd (uart_driver_queue_line_coding clk q lc g st))"
proof -
  have "gens_ok p Q (pc, snd (queue_locked q l g n st))" for l n
    using assms by (cases "p = q") (auto simp: queue_locked_def gens_defs)
  then show ?thesis
    using assms by (simp add: uart_driver_queue_line_coding_def gens_soft_ops split: option.split)
qed

lemma core0_step_gens:
  assumes "core0_step clk s s'" "gens_ok p Q s"
    and "\<And>g. g \<le> control_generations (snd s) p \<Longrightarrow> Q g"
  shows "gens_ok p Q s'"
  using assms by (induction rule: core0_step.induct) (auto simp: gens_soft_ops intro: gens_queue)

text \<open>Runs in which the generation counter of \<open>p\<close> does not wrap.\<close>

inductive unwrapped ::
    "uart_port_id_t \<Rightarrow> (nat \<Rightarrow> u64) \<Rightarrow> ('b, 'z) uart_driver_state_t_scheme \<Rightarrow> ('b, 'z) sys \<Rightarrow> bool" for p clk st0 where
  start: "unwrapped p clk st0 (W_Idle, st0)"
| step: "unwrapped p clk st0 s \<Longrightarrow> sys_step clk s s' \<Longrightarrow>
     control_generations (snd s) p \<le> control_generations (snd s') p \<Longrightarrow> unwrapped p clk st0 s'"

lemma unwrapped_gens:
  "unwrapped p clk st0 s \<Longrightarrow> port_quiet st0 p \<Longrightarrow> gens_ok p (\<lambda>g. g \<le> control_generations (snd s) p) s"
proof (induction rule: unwrapped.induct)
  case start
  then show ?case by (simp add: gens_ok_def port_quiet_def port_fresh_def)
next
  case (step s s')
  then have "gens_ok p (\<lambda>g. g \<le> control_generations (snd s) p) s'"
    using worker_step_gens core0_step_gens unfolding sys_step_def by blast
  then show ?case by (rule gens_ok_mono) (use step.hyps(3) in auto)
qed

section \<open>A newer failure stays visible\<close>

text \<open>
  What can happen to port \<open>p\<close> while core 0 issues no newer generation for it: every worker step, and
  every core-0 step on other ports; a queued request of \<open>p\<close> is one from before.
\<close>

inductive undisturbed :: "uart_port_id_t \<Rightarrow> (nat \<Rightarrow> u64) \<Rightarrow> ('b, 'z) sys \<Rightarrow> ('b, 'z) sys \<Rightarrow> bool" for p clk s where
  same: "undisturbed p clk s s"
| worker: "undisturbed p clk s s' \<Longrightarrow> worker_step clk s' s'' \<Longrightarrow> undisturbed p clk s s''"
| core0: "undisturbed p clk s s' \<Longrightarrow> core0_step clk s' s'' \<Longrightarrow>
     control_generations (snd s'') p = control_generations (snd s') p \<Longrightarrow>
     (mailboxes (snd s'') p = mailboxes (snd s') p \<or>
      request_generation (mailbox_request (mailboxes (snd s'') p)) \<noteq> control_generations (snd s') p) \<Longrightarrow>
     undisturbed p clk s s''"

lemma worker_step_frame:
  "worker_step clk s s' \<Longrightarrow> control_generations (snd s') = control_generations (snd s) \<and>
     status_lock (snd s') = status_lock (snd s)"
proof (induction rule: worker_step.induct)
  case (finish_worker q g ok applied err st)
  then show ?case by (auto simp: gens_defs worker_defs set_info_coding_def split: bool.splits option.splits)
next
  case (start_finish q r ok st)
  then show ?case by (auto simp: gens_defs worker_defs set_info_coding_def split: bool.splits option.splits)
next
  case (start_take q st taken previous st')
  then show ?case by (auto simp: gens_defs worker_defs split: if_splits)
next
  case (take q st r prior st')
  then show ?case by (auto simp: gens_defs worker_defs split: if_splits)
next
  case (take_none q st prior st')
  then show ?case by (auto simp: gens_defs worker_defs split: if_splits)
next
  case (start_backend q taken previous st ok st')
  then show ?case by (auto simp: start_backend_def Let_def case_prod_beta put_defs)
next
  case (decide q r prior st)
  then show ?case by (simp add: decide_request_def gens_defs)
next
  case (deferred q st)
  then show ?case by (simp add: decide_deferred_def gens_defs case_prod_beta split: option.split)
next
  case (due_stop q st)
  then show ?case by (simp add: lifecycle_deinit_def gens_defs uart_driver_begin_port_stats_update_def
      uart_driver_end_port_stats_update_def split: option.split)
next
  case (poll q st)
  then show ?case by (simp add: poll_port_io_def gens_defs uart_driver_begin_port_stats_update_def
      uart_driver_end_port_stats_update_def split: option.split)
qed (auto simp: gens_defs worker_defs split: if_splits)

text \<open>No worker step clears \<open>CONTROL_ERROR\<close> on behalf of an outdated request.\<close>

lemma worker_step_sticky:
  "worker_step clk s s' \<Longrightarrow> gens_ok p (\<lambda>g. g \<noteq> control_generations (snd s) p) s \<Longrightarrow>
   bit (status_flags (snd s) p) 2 \<Longrightarrow> bit (status_flags (snd s') p) 2"
proof (induction rule: worker_step.induct)
  case (finish_worker q g ok applied err st)
  then show ?case
    by (auto simp: gens_defs worker_defs set_info_coding_def bit_simps split: bool.splits option.splits)
next
  case (start_finish q r ok st)
  then show ?case
    by (auto simp: gens_defs worker_defs set_info_coding_def bit_simps split: bool.splits option.splits)
next
  case (decide q r prior st)
  then show ?case by (simp add: decide_request_def gens_defs)
next
  case (deferred q st)
  then show ?case by (simp add: decide_deferred_def gens_defs case_prod_beta split: option.split)
next
  case (start_backend q taken previous st ok st')
  then show ?case by (auto simp: start_backend_def Let_def case_prod_beta put_defs)
next
  case (due_stop q st)
  then show ?case by (simp add: lifecycle_deinit_def gens_defs uart_driver_begin_port_stats_update_def
      uart_driver_end_port_stats_update_def split: option.split)
next
  case (poll q st)
  then show ?case by (simp add: poll_port_io_def gens_defs uart_driver_begin_port_stats_update_def
      uart_driver_end_port_stats_update_def split: option.split)
qed (auto simp: gens_defs worker_defs set_info_coding_def bit_simps split: if_splits)

lemma core0_step_sticky:
  "core0_step clk s s' \<Longrightarrow> control_generations (snd s') p = control_generations (snd s) p \<Longrightarrow>
   bit (status_flags (snd s) p) 2 \<Longrightarrow> bit (status_flags (snd s') p) 2"
proof (induction rule: core0_step.induct)
  case (queue g st q pc lc)
  then show ?case
    by (auto simp: uart_driver_queue_line_coding_def queue_locked_def uart_driver_report_control_error_def
        gens_defs bit_simps split: option.splits if_splits)
qed (auto simp: gens_defs uart_driver_request_channel_stop_def uart_driver_request_channel_start_def
      uart_driver_channel_stop_usb_quiesced_def uart_driver_mark_control_pending_def
      uart_driver_report_control_error_def uart_driver_report_soft_pending_error_def
      uart_driver_reset_soft_pending_def uart_driver_worker_heartbeat_is_fresh_def case_prod_beta bit_simps
      split: if_splits)

lemma core0_step_mailbox:
  "core0_step clk s s' \<Longrightarrow> gens_ok p Q s \<Longrightarrow>
   mailboxes (snd s') p = mailboxes (snd s) p \<or> Q (request_generation (mailbox_request (mailboxes (snd s') p))) \<Longrightarrow>
   gens_ok p Q s'"
proof (induction rule: core0_step.induct)
  case (queue g st q pc lc)
  have "gens_ok p Q (pc, snd (queue_locked q l g n st))"
    if "mailboxes (snd (queue_locked q l g n st)) p = mailboxes st p \<or>
        Q (request_generation (mailbox_request (mailboxes (snd (queue_locked q l g n st)) p)))" for l n
    using queue.prems(1) that
    by (cases "p = q") (auto simp: queue_locked_def gens_defs split: if_splits,
        (drule arg_cong [where f = occupied], simp)+)
  then show ?case
    using queue.prems
    by (auto simp: uart_driver_queue_line_coding_def gens_soft_ops split: option.splits if_splits)
qed (auto simp: gens_soft_ops)

lemma undisturbed_error:
  assumes "undisturbed p clk s s'" "gens_ok p (\<lambda>g. g \<noteq> control_generations (snd s) p) s"
    and "bit (status_flags (snd s) p) 2"
  shows "bit (status_flags (snd s') p) 2 \<and> control_generations (snd s') p = control_generations (snd s) p \<and>
         gens_ok p (\<lambda>g. g \<noteq> control_generations (snd s) p) s'"
  using assms
proof (induction rule: undisturbed.induct)
  case (worker s' s'')
  then show ?case
    using worker_step_sticky [of clk s' s'' p] worker_step_frame [of clk s' s''] worker_step_gens [of clk s' s'' p]
    by auto
next
  case (core0 s' s'')
  then show ?case
    using core0_step_sticky [of clk s' s'' p]
      core0_step_mailbox [of clk s' s'' p "\<lambda>g. g \<noteq> control_generations (snd s) p"]
    by auto
qed simp

section \<open>The lock\<close>

lemma core0_step_lock: "core0_step clk s s' \<Longrightarrow> status_lock (snd s') = status_lock (snd s)"
proof (induction rule: core0_step.induct)
  case (queue g st q pc lc)
  then show ?case
    by (simp add: uart_driver_queue_line_coding_def queue_locked_def uart_driver_report_control_error_def
        gens_defs case_prod_beta split: option.split)
qed (simp_all add: gens_defs uart_driver_request_channel_stop_def uart_driver_request_channel_start_def
      uart_driver_channel_stop_usb_quiesced_def uart_driver_mark_control_pending_def
      uart_driver_report_control_error_def uart_driver_report_soft_pending_error_def
      uart_driver_reset_soft_pending_def uart_driver_worker_heartbeat_is_fresh_def case_prod_beta)

lemma reachable_lock: "reachable_from clk st0 s \<Longrightarrow> status_lock (snd s) = status_lock st0"
  by (induction rule: reachable_from.induct)
     (auto simp: sys_step_def dest: worker_step_frame core0_step_lock)

lemma fold_lock:
  "(\<And>q s. status_lock (f q s) = status_lock s) \<Longrightarrow> status_lock (fold f xs s) = status_lock s"
  by (induction xs arbitrary: s) auto

lemma init_lock:
  assumes "uart_driver_init board ops_of attach st = (True, st')" "\<not> worker_started st"
  shows "status_lock st'"
proof -
  let ?lock = "(if \<not> status_lock st then st\<lparr>status_lock := True\<rparr> else st)"
  have l: "status_lock ?lock" by simp
  have load: "status_lock (load_port_config board ops_of attach q s) = status_lock s" for q s
    by (simp add: load_port_config_def Let_def put_defs case_prod_beta split: option.split)
  have reset: "status_lock (reset_port_state board q s) = status_lock s" for q s
    by (simp add: reset_port_state_def Let_def put_defs put_lifecycle_def)
  have init: "status_lock (snd (init_port_backend q r)) = status_lock (snd r)" for q r
    by (simp add: init_port_backend_def Let_def put_defs case_prod_beta uart_driver_set_port_status_flag_def
        uart_driver_clear_port_status_flag_def split: option.split)
  have inits: "status_lock (snd (fold init_port_backend xs r)) = status_lock (snd r)" for xs r
    by (induction xs arbitrary: r) (simp_all add: init)
  have park: "status_lock (park_port q s) = status_lock s" for q s
    by (simp add: park_port_def Let_def put_defs uart_driver_clear_port_status_flag_def split: option.split)
  show ?thesis
    using assms l unfolding uart_driver_init_def Let_def case_prod_beta
    by (auto simp: fold_lock load reset park inits put_mailbox_def uart_driver_load_board_config_def
        uart_driver_bind_state_views_def uart_driver_init_backends_def split: if_splits)
qed

section \<open>A start-up that succeeds\<close>

definition ports_have :: "(uart_port_id_t \<Rightarrow> 'b uart_backend_ops_t) \<Rightarrow> ('b, 'z) uart_driver_state_t_scheme \<Rightarrow> bool" where
  "ports_have o' st \<longleftrightarrow> (\<forall>p < UART_PORT_COUNT. ops (ports st p) = Some (o' p))"

lemma ports_have_clear:
  "ports_have o' (s\<lparr>poll_start_index := a, worker_heartbeat := b\<rparr>) = ports_have o' s"
  by (simp add: ports_have_def)

lemma all_ports_below: "p \<in> set all_ports \<Longrightarrow> p < UART_PORT_COUNT"
  by (auto simp: all_ports_def)

lemma fold_ports:
  "(\<And>p s. p < UART_PORT_COUNT \<Longrightarrow> P s \<Longrightarrow> P (f p s)) \<Longrightarrow> P s \<Longrightarrow> P (fold f all_ports s)"
proof -
  assume f: "\<And>p s. p < UART_PORT_COUNT \<Longrightarrow> P s \<Longrightarrow> P (f p s)" and "P s"
  then have "P (fold f xs s)" if "set xs \<subseteq> set all_ports" for xs
    using that by (induction xs arbitrary: s) (auto dest: all_ports_below)
  then show ?thesis by simp
qed

lemma load_ports_have:
  assumes "\<And>p. p < UART_PORT_COUNT \<Longrightarrow> ops_of (info_backend (board p)) = Some (o' p)"
    and "\<And>p b. p < UART_PORT_COUNT \<Longrightarrow> fst (op_load_config (o' p) b (Some (board p)))"
  shows "ports_have o' (uart_driver_load_board_config board ops_of attach st)"
proof -
  have "ops (ports (fold (load_port_config board ops_of attach) all_ports st) p) = Some (o' p)"
    if p: "p < UART_PORT_COUNT" for p
  proof (rule fold_establishes [where P = "\<lambda>s. ops (ports s p) = Some (o' p)", OF port_cases [OF p]])
    show "ops (ports (load_port_config board ops_of attach p s) p) = Some (o' p)" for s
      using assms(1) [OF p] assms(2) [OF p] by (simp add: load_port_config_def put_defs case_prod_beta Let_def)
    show "ops (ports (load_port_config board ops_of attach q s) p) = Some (o' p)"
      if "ops (ports s p) = Some (o' p)" for q s
      using that assms(1) [OF p] assms(2) [OF p]
      by (cases "p = q") (auto simp: load_port_config_def put_defs case_prod_beta Let_def split: option.splits)
  qed
  then show ?thesis by (simp add: ports_have_def uart_driver_load_board_config_def)
qed

lemma init_backends_succeed:
  assumes "ports_have o' st" "\<And>p b. p < UART_PORT_COUNT \<Longrightarrow> fst (op_init (o' p) b)"
  shows "fst (uart_driver_init_backends st) \<and> ports_have o' (snd (uart_driver_init_backends st))"
  unfolding uart_driver_init_backends_def
proof (rule fold_ports [where P = "\<lambda>r. fst r \<and> ports_have o' (snd r)"])
  fix p and r :: "bool \<times> ('a, 'b) uart_driver_state_t_scheme"
  assume "p < UART_PORT_COUNT" "fst r \<and> ports_have o' (snd r)"
  then show "fst (init_port_backend p r) \<and> ports_have o' (snd (init_port_backend p r))"
    using assms(2) [of p]
    by (auto simp: init_port_backend_def case_prod_beta ports_have_def put_defs
        uart_driver_set_port_status_flag_def uart_driver_clear_port_status_flag_def)
qed (use assms(1) in simp)

lemma init_succeeds:
  assumes "\<not> worker_started st"
    and load: "\<And>p. p < UART_PORT_COUNT \<Longrightarrow> ops_of (info_backend (board p)) = Some (o' p)"
      "\<And>p b. p < UART_PORT_COUNT \<Longrightarrow> fst (op_load_config (o' p) b (Some (board p)))"
    and init: "\<And>p b. p < UART_PORT_COUNT \<Longrightarrow> fst (op_init (o' p) b)"
  shows "\<exists>st'. uart_driver_init board ops_of attach st = (True, st') \<and> worker_started st' \<and> ports_have o' st'"
proof -
  let ?load = "uart_driver_load_board_config board ops_of attach (uart_driver_bind_state_views
      (if \<not> status_lock st then st\<lparr>status_lock := True\<rparr> else st))"
  let ?box = "fold (\<lambda>index st. put_mailbox index (uart_control_mailbox_reset (mailboxes st index)) st) all_ports
      (fold (reset_port_state board) all_ports ?load)"
  let ?init = "uart_driver_init_backends (?box\<lparr>poll_start_index := 0\<rparr>\<lparr>worker_heartbeat := 0\<rparr>)"
  let ?st' = "(fold park_port all_ports (snd ?init))\<lparr>worker_started := True\<rparr>"
  have l: "ports_have o' ?load" using load by (rule load_ports_have)
  have r: "ports_have o' (fold (reset_port_state board) all_ports ?load)"
    by (rule fold_ports [where P = "ports_have o'", OF _ l]) (simp add: ports_have_def reset_port_state_def put_defs put_lifecycle_def Let_def)
  have b: "ports_have o' ?box" by (rule fold_ports [where P = "ports_have o'", OF _ r]) (simp add: ports_have_def put_defs)
  then have b': "ports_have o' (?box\<lparr>poll_start_index := 0\<rparr>\<lparr>worker_heartbeat := 0\<rparr>)"
    unfolding ports_have_clear .
  note i = init_backends_succeed [OF b' init]
  have "ports_have o' (fold park_port all_ports (snd ?init))"
    by (rule fold_ports [where P = "ports_have o'", OF _ conjunct2 [OF i]])
       (auto simp: ports_have_def park_port_def put_defs Let_def uart_driver_clear_port_status_flag_def split: option.split)
  moreover have "uart_driver_init board ops_of attach st = (True, ?st')"
    using i assms(1) unfolding uart_driver_init_def Let_def case_prod_beta by (simp only: if_True if_False simp_thms)
  ultimately show ?thesis by (auto simp: ports_have_def)
qed

end
