(* ===== verification/Control_Properties.thy ===== *)
theory Control_Properties
  imports Control_Invariant
begin

text \<open>
  What the control path promises, for every interleaving of the cores and for each of its operations, with
  a small concrete backend (\<open>demo_ops\<close>) for the witnesses.
\<close>

section \<open>A backend for the witnesses\<close>

record demo_port =
  demo_on :: bool
  demo_coding :: uart_driver_line_coding_t
  demo_rx :: ring_buffer_t
  demo_tx :: ring_buffer_t

definition demo_ring :: ring_buffer_t where
  "demo_ring = \<lparr>storage = Some [0, 0, 0, 0], ring_size = 4, ring_mask = 3, producer = 0, consumer = 0,
     high_watermark = 0, overflow_count = 0, producer_reserved_sequence = 0, producer_reserved_count = 0,
     consumer_reserved_sequence = 0, consumer_reserved_count = 0\<rparr>"

definition demo_ops :: "demo_port uart_backend_ops_t" where
  "demo_ops = \<lparr>op_load_config = (\<lambda>b cfg. (cfg \<noteq> None, b)),
     op_is_initialized = demo_on,
     op_init = (\<lambda>b. (True, b\<lparr>demo_on := True\<rparr>)),
     op_deinit = demo_on_update (\<lambda>_. False),
     op_poll = (\<lambda>b launch. b),
     op_rx_ring = (\<lambda>b. Some (demo_rx b)),
     op_tx_ring = (\<lambda>b. Some (demo_tx b)),
     op_put_rx_ring = (\<lambda>r b. b\<lparr>demo_rx := r\<rparr>),
     op_put_tx_ring = (\<lambda>r b. b\<lparr>demo_tx := r\<rparr>),
     op_line_coding_matches = (\<lambda>b lc. Some (demo_coding b) = lc),
     op_line_coding_acceptable = uart_line_coding_is_valid,
     op_set_line_coding = (\<lambda>b lc. (lc \<noteq> None, b\<lparr>demo_coding := the lc\<rparr>)),
     op_restart = (\<lambda>b. (True, b\<lparr>demo_on := True\<rparr>)),
     op_rx_snapshot_is_current = (\<lambda>b c. True),
     op_clear_rx_error_baseline = (\<lambda>b. b),
     op_baud_rate = (\<lambda>b. baud_rate (demo_coding b)),
     op_stats = (\<lambda>b. \<lparr>stats_uart_tx_bytes = 1, stats_uart_rx_bytes = 2, stats_rx_error_count = 3\<rparr>)\<rparr>"

definition demo_coding0 :: uart_driver_line_coding_t where
  "demo_coding0 = \<lparr>baud_rate = 115200, data_bits = 8, stop_bits = 1, parity = UART_DRIVER_PARITY_NONE\<rparr>"

definition demo_board :: "uart_port_id_t \<Rightarrow> uart_driver_port_info_t" where
  "demo_board p = \<lparr>info_id = p, info_backend = UART_DRIVER_BACKEND_HW, info_baud_rate = 115200, info_tx_pin = 0,
     info_rx_pin = 1, info_rts_pin = 3, info_cts_pin = 2, info_data_bits = 8, info_stop_bits = 1,
     info_parity = UART_DRIVER_PARITY_NONE\<rparr>"

definition demo_port0 :: demo_port where
  "demo_port0 = \<lparr>demo_on = False, demo_coding = demo_coding0, demo_rx = demo_ring, demo_tx = demo_ring\<rparr>"

definition demo_boot :: "demo_port uart_driver_state_t" where
  "demo_boot = \<lparr>views_bound = False,
     ports = (\<lambda>p. \<lparr>info = demo_board p, ops = None, backend = demo_port0,
       control_history = \<lparr>history_reason = UART_CONTROL_ERROR_NONE, history_uptime_us = 0\<rparr>\<rparr>),
     mailboxes = (\<lambda>p. \<lparr>occupied = False, mailbox_request = zero_request\<rparr>),
     pending_controls = (\<lambda>p. zero_pending), soft_pending_controls = (\<lambda>p. False),
     control_generations = (\<lambda>p. 0), status_flags = (\<lambda>p. 0), stats_sequence = (\<lambda>p. 0),
     poll_start_index = 0,
     load_meter = (\<lambda>c. \<lparr>window_start = 0, pass_start = 0, busy_us = 0, started = False, measuring = False,
                         worked = False, published = 0\<rparr>),
     clock_reads = 0, worker_started = False, worker_heartbeat = 0, status_lock = False,
     lifecycle = (\<lambda>p. zero_lifecycle), last_heartbeat = 0, last_change_ms = 0\<rparr>"

definition demo_up :: "demo_port uart_driver_state_t" where
  "demo_up = snd (uart_driver_init demo_board (\<lambda>t. Some demo_ops) (\<lambda>t p b. b) demo_boot)"

lemma demo_boot_stopped: "\<not> worker_started demo_boot"
  by (simp add: demo_boot_def)

lemma demo_init: "uart_driver_init demo_board (\<lambda>t. Some demo_ops) (\<lambda>t p b. b) demo_boot = (True, demo_up)"
  and demo_up_started: "worker_started demo_up"
  and demo_up_ops: "p < UART_PORT_COUNT \<Longrightarrow> ops (ports demo_up p) = Some demo_ops"
proof -
  have "\<exists>st'. uart_driver_init demo_board (\<lambda>t. Some demo_ops) (\<lambda>t p b. b) demo_boot = (True, st') \<and>
      worker_started st' \<and> ports_have (\<lambda>p. demo_ops) st'"
    by (rule init_succeeds [OF demo_boot_stopped]) (simp_all add: demo_ops_def)
  then show "uart_driver_init demo_board (\<lambda>t. Some demo_ops) (\<lambda>t p b. b) demo_boot = (True, demo_up)"
    "worker_started demo_up" "p < UART_PORT_COUNT \<Longrightarrow> ops (ports demo_up p) = Some demo_ops"
    by (auto simp: demo_up_def ports_have_def)
qed

lemma demo_up_lock: "status_lock demo_up"
  by (rule init_lock [OF demo_init demo_boot_stopped])

lemma demo_up_quiet: "p < UART_PORT_COUNT \<Longrightarrow> port_quiet demo_up p"
  by (rule init_quiet [OF demo_init demo_boot_stopped])

section \<open>TX stays blocked while a request is under way\<close>

text \<open>C8: No byte of a new line format can overtake the change. In every state the two cores can reach after
  start-up, by any interleaving of the worker's critical sections with core 0's calls, a port with a
  line-coding request anywhere on its way (waiting on core 0, in the mailbox, or deferred by the worker) reports
  its TX blocked, and a fill admits no byte and changes nothing.\<close>

theorem pending_blocks_tx:
  assumes "uart_driver_init board ops_of attach st0 = (True, st1)" "\<not> worker_started st0"
    and "reachable_from clk st1 (pc, st)" "p < UART_PORT_COUNT"
    and "soft_pending_controls st p \<or> occupied (mailboxes st p) \<or> pending (pending_controls st p)"
  shows "uart_driver_port_tx_is_blocked st p \<and>
         uart_driver_fill_tx fuel env p capacity reader ctx st = Some (0, ctx, st)"
proof -
  have "port_inv st p"
    using reachable_inv [OF assms(3) init_inv [OF assms(1,2)]] assms(4) by (simp add: sys_inv_def)
  then have "uart_driver_port_tx_is_blocked st p"
    using assms(5) by (simp add: port_inv_def port_owned_def uart_driver_port_tx_is_blocked_def
        uart_control_tx_should_block_def)
  then show ?thesis
    by (simp add: uart_driver_fill_tx_def Let_def split: option.split)
qed

theorem pending_blocks_tx_witness:
  "uart_driver_port_tx_is_blocked (snd (uart_driver_mark_control_pending 2 demo_up)) 2"
proof -
  let ?st = "snd (uart_driver_mark_control_pending 2 demo_up)"
  have soft: "soft_pending_controls ?st 2"
    by (simp add: demo_up_lock uart_driver_mark_control_pending_def put_defs Let_def)
  have "reachable_from (\<lambda>k. 0) demo_up (W_Idle, ?st)"
    by (rule reachable_from.step [OF reachable_from.start]) (simp add: sys_step_def core0_step.mark)
  from pending_blocks_tx [OF demo_init demo_boot_stopped this, of 2 0 "\<lambda>k w. w" 0 None "()"] soft
  show ?thesis by simp
qed

text \<open>C9: And TX is never blocked for nothing, nor for the wrong port: in every reachable state a set
  \<open>CONTROL_PENDING\<close> flag has an owner (core 0's wait, an occupied mailbox, the worker's deferred request, or a
  stop in progress), an occupied mailbox holds a request for its own port, and a port whose stop
  is in progress is not \<open>READY\<close>.\<close>

theorem tx_block_has_owner:
  assumes "uart_driver_init board ops_of attach st0 = (True, st1)" "\<not> worker_started st0"
    and "reachable_from clk st1 (pc, st)" "p < UART_PORT_COUNT"
  shows "((uart_driver_port_status st p AND UART_DRIVER_PORT_STATUS_CONTROL_PENDING) \<noteq> 0 \<longrightarrow>
            soft_pending_controls st p \<or> occupied (mailboxes st p) \<or> pending (pending_controls st p) \<or>
            uart_driver_channel_stop_pending st p) \<and>
         (occupied (mailboxes st p) \<longrightarrow> uart_control_mailbox_has_pending_port (mailboxes st p) p) \<and>
         (uart_driver_channel_stop_pending st p \<longrightarrow> \<not> uart_driver_port_is_ready st p)"
proof -
  have i: "port_inv st p"
    using reachable_inv [OF assms(3) init_inv [OF assms(1,2)]] assms(4) by (simp add: sys_inv_def)
  have "status_lock st" using reachable_lock [OF assms(3)] init_lock [OF assms(1,2)] by simp
  moreover have "\<not> UART_PORT_COUNT \<le> p" using assms(4) by simp
  ultimately show ?thesis
    using i by (auto simp: port_inv_def port_owned_def uart_driver_port_status_def uart_driver_port_is_ready_def
        uart_driver_channel_stop_pending_def uart_control_mailbox_has_pending_port_def)
qed

theorem tx_block_has_owner_witness:
  "\<not> uart_driver_port_is_ready (snd (uart_driver_request_channel_stop 1 demo_up)) 1"
proof -
  let ?st = "snd (uart_driver_request_channel_stop 1 demo_up)"
  have stop: "uart_driver_channel_stop_pending ?st 1"
    by (simp add: uart_driver_channel_stop_pending_def uart_driver_request_channel_stop_def put_defs put_lifecycle_def
        channel_request_allowed_def demo_up_lock demo_up_started demo_up_ops Let_def word_le_nat_alt word_less_nat_alt)
  have "reachable_from (\<lambda>k. 0) demo_up (W_Idle, ?st)"
    by (rule reachable_from.step [OF reachable_from.start]) (simp add: sys_step_def core0_step.request_stop)
  from tx_block_has_owner [OF demo_init demo_boot_stopped this, of 1] stop show ?thesis by simp
qed

section \<open>A newer failure stays visible\<close>

text \<open>A completion of an older request cannot hide a newer failure. When core 0 reports a rejected request
  in any reachable state (of a run whose generation counter has not wrapped), \<open>CONTROL_ERROR\<close> stays set
  whatever the worker does afterwards with the requests still under way, successes included, and
  whatever core 0 does that issues no newer generation for the port.\<close>

theorem newer_error_stays:
  assumes "uart_driver_init board ops_of attach st0 = (True, st1)" "\<not> worker_started st0" "p < UART_PORT_COUNT"
    and "unwrapped p clk st1 (pc, st)" "control_generations st p \<noteq> UINT32_MAX" "status_lock st"
    and "undisturbed p clk (pc, uart_driver_report_control_error clk p reason st) (pc', st')"
  shows "(status_flags st' p AND UART_DRIVER_PORT_STATUS_CONTROL_ERROR) \<noteq> 0"
proof -
  let ?st = "uart_driver_report_control_error clk p reason st"
  have g: "gens_ok p (\<lambda>g. g \<le> control_generations st p) (pc, st)"
    using unwrapped_gens [OF assms(4) init_quiet [OF assms(1-3)]] by simp
  have np: "\<not> UART_PORT_COUNT \<le> p" using assms(3) by simp
  have new: "control_generations ?st p = control_generations st p + 1" "bit (status_flags ?st p) 2"
    using np assms(6) by (simp_all add: uart_driver_report_control_error_def gens_defs bit_simps)
  have "g \<noteq> control_generations st p + 1" if "g \<le> control_generations st p" for g
    using that assms(5) unat_u32_le_max [of "control_generations st p"]
    by (auto simp: word_le_nat_alt unat_word_ariths word_unat_eq_iff)
  then have "gens_ok p (\<lambda>g. g \<noteq> control_generations ?st p) (pc, st)"
    using gens_ok_mono [OF g] new(1) by simp
  then have "gens_ok p (\<lambda>g. g \<noteq> control_generations ?st p) (pc, ?st)" by (simp only: gens_soft_ops)
  from undisturbed_error [OF assms(7)] this new(2) show ?thesis by simp
qed

theorem newer_error_witness:
  "let st = snd (uart_driver_mark_control_pending 3 demo_up);
       st' = uart_driver_report_control_error (\<lambda>k. 7) 3 UART_CONTROL_ERROR_BAUD st
   in (status_flags (st'\<lparr>worker_heartbeat := worker_heartbeat st' + 1\<rparr>) 3 AND
        UART_DRIVER_PORT_STATUS_CONTROL_ERROR) \<noteq> 0"
proof -
  let ?st = "snd (uart_driver_mark_control_pending 3 demo_up)"
  let ?st' = "uart_driver_report_control_error (\<lambda>k. 7) 3 UART_CONTROL_ERROR_BAUD ?st"
  let ?s = "(W_Idle, ?st'\<lparr>worker_heartbeat := worker_heartbeat ?st' + 1\<rparr>)"
  have gen0: "control_generations demo_up 3 = 0"
    using demo_up_quiet [of 3] by (simp add: port_quiet_def port_fresh_def)
  have gen: "control_generations ?st 3 = 1" "status_lock ?st"
    by (simp_all add: uart_driver_mark_control_pending_def put_defs Let_def gen0 demo_up_lock)
  have un: "unwrapped 3 (\<lambda>k. 7) demo_up (W_Idle, ?st)"
    by (rule unwrapped.step [OF unwrapped.start])
       (simp_all add: sys_step_def core0_step.mark gen gen0)
  have "undisturbed 3 (\<lambda>k. 7) (W_Idle, ?st') ?s"
    by (rule undisturbed.worker [OF undisturbed.same worker_step.beat])
  from newer_error_stays [OF demo_init demo_boot_stopped _ un _ gen(2) this] gen show ?thesis
    by (simp add: Let_def)
qed

section \<open>A deferred request\<close>

lemma finish_worker_effect:
  fixes st :: "('b, 'z) uart_control_plane_t_scheme" and clk :: "nat \<Rightarrow> u64"
  assumes "p < UART_PORT_COUNT"
    and "uart_control_plane_finish_worker_control clk p g ok applied err st = st'"
  shows "\<not> pending (pending_controls st' p)" "backend (ports st' p) = backend (ports st p)"
    "ops (ports st' p) = ops (ports st p)"
    "info (ports st' p) = (case (ok, applied) of
       (True, Some lc) \<Rightarrow> info (set_info_coding lc (ports st p)) | _ \<Rightarrow> info (ports st p))"
    "\<not> ok \<Longrightarrow> control_history (ports st' p) = \<lparr>history_reason = err, history_uptime_us = clk (clock_reads st)\<rparr>"
    "bit (status_flags st' p) 0 = bit (status_flags st p) 0"
    "bit (status_flags st' p) 2 = (if g = control_generations st p then \<not> ok else bit (status_flags st p) 2)"
    "control_generations st' = control_generations st"
  unfolding assms(2) [symmetric]
  using assms(1)
  by (auto simp: worker_defs rule_defs put_defs set_info_coding_def bit_simps Let_def
      split: bool.split option.split)



end
