(* ===== verification/Control_Service.thy ===== *)
theory Control_Service
  imports Control_Properties
begin

text \<open>
  What one pass of the worker does for a port, as equations a caller can use: the outcome of a queued request on
  every branch, the end of a request whose deadline has come, and the order of the stop and start
  handshakes.
\<close>

section \<open>Outcome of a queued request\<close>

lemma finish_mailbox_effect:
  fixes st :: "('b, 'z) uart_control_plane_t_scheme" and clk :: "nat \<Rightarrow> u64"
  assumes "p < UART_PORT_COUNT"
    and "uart_control_plane_finish_mailbox_control clk p g ok dropped wg complete err st = st'"
  shows "pending_controls st' p = (pending_controls st p)\<lparr>pending := pending (pending_controls st p) \<and> \<not> dropped \<and> \<not> complete\<rparr>"
    "backend (ports st' p) = backend (ports st p)" "info (ports st' p) = info (ports st p)"
    "mailboxes st' p = mailboxes st p"
    "\<not> ok \<Longrightarrow> control_history (ports st' p) = \<lparr>history_reason = err, history_uptime_us = clk (clock_reads st)\<rparr>"
    "g = control_generations st p \<Longrightarrow> bit (status_flags st' p) 2 = (\<not> ok)"
  unfolding assms(2) [symmetric]
  using assms(1) by (auto simp: worker_defs rule_defs put_defs bit_simps Let_def)

lemma coding_eq:
  "(baud_rate a = baud_rate b \<and> data_bits a = data_bits b \<and> stop_bits a = stop_bits b \<and> parity a = parity b) =
    (a = b)" for a b :: uart_driver_line_coding_t
  by (cases a, cases b) auto

lemma adopt_effect:
  assumes "uart_control_plane_set_worker_pending p g st = st'"
  shows "pending_controls st' p = (pending_controls st p)\<lparr>pending := True, pending_generation := g\<rparr>"
    "ports st' = ports st" "mailboxes st' = mailboxes st" "bit (status_flags st' p) 3"
  unfolding assms [symmetric] by (simp_all add: worker_defs rule_defs put_defs bit_simps Let_def)

lemma defer_effect:
  fixes st :: "('b, 'z) uart_control_plane_t_scheme" and clk :: "nat \<Rightarrow> u64"
  assumes "p < UART_PORT_COUNT" "request_port_id r = p"
    and "uart_control_plane_set_line_coding clk r prior st = st'"
    and "ops (ports st p) = Some o'"
    and "uart_line_coding_is_valid (Some (request_line_coding r))"
    and "\<not> op_line_coding_matches o' (backend (ports st p)) (Some (request_line_coding r))"
    and "op_line_coding_acceptable o' (Some (request_line_coding r))"
  shows "pending_controls st' p = \<lparr>pending = True, pending_generation = request_generation r,
           pending_tx_boundary = request_tx_boundary r,
           pending_deadline = (if prior \<and> pending_line_coding (pending_controls st p) = request_line_coding r
             then pending_deadline (pending_controls st p) else clk (clock_reads st) + 1000000),
           pending_line_coding = request_line_coding r\<rparr>"
    "ports st' = ports st" "mailboxes st' = mailboxes st" "bit (status_flags st' p) 3"
proof -
  let ?st1 = "put_pending p ((pending_controls st p)\<lparr>pending_line_coding := request_line_coding r\<rparr>) st"
  let ?st2 = "put_pending p ((pending_controls ?st1 p)\<lparr>pending_deadline := clk (clock_reads st) + 1000000\<rparr>)
     (?st1\<lparr>clock_reads := Suc (clock_reads st)\<rparr>)"
  let ?st3 = "if prior \<and> pending_line_coding (pending_controls st p) = request_line_coding r then ?st1 else ?st2"
  have "\<not> UART_PORT_COUNT \<le> p" using assms(1) by simp
  then have "uart_control_plane_set_worker_pending p (request_generation r)
      (put_pending p ((pending_controls ?st3 p)\<lparr>pending_tx_boundary := request_tx_boundary r\<rparr>) ?st3) = st'"
    unfolding assms(3) [symmetric]
    using assms(2,4-7)
    by (simp add: uart_control_plane_set_line_coding_def Let_def uart_control_worker_should_set_deadline_def
        coding_eq make_timeout_time_ms_def read_clock_def put_pending_def)
  from adopt_effect [OF this]
  show "pending_controls st' p = \<lparr>pending = True, pending_generation = request_generation r,
           pending_tx_boundary = request_tx_boundary r,
           pending_deadline = (if prior \<and> pending_line_coding (pending_controls st p) = request_line_coding r
             then pending_deadline (pending_controls st p) else clk (clock_reads st) + 1000000),
           pending_line_coding = request_line_coding r\<rparr>"
    "ports st' = ports st" "mailboxes st' = mailboxes st" "bit (status_flags st' p) 3"
    by (simp_all add: put_pending_def)
qed

text \<open>C11: Every queued request gets exactly one of three outcomes. When the worker services the mailbox of a ready
  port it empties it and never touches the backend; a format that is invalid, or that the backend neither has nor accepts,
  is rejected: the reason is recorded with its time, a request already deferred stays as it was, and a current
  rejection sets \<open>CONTROL_ERROR\<close>; a format the backend already has completes at once, together with the
  deferred request, and is published; any other is deferred with its own boundary and generation, TX blocked, with a
  fresh deadline one second ahead unless it repeats the format already deferred, whose deadline it keeps.\<close>

theorem mailbox_request_outcome:
  fixes st :: "('b, 'z) uart_control_plane_t_scheme" and clk :: "nat \<Rightarrow> u64"
  assumes "p < UART_PORT_COUNT" "(status_flags st p AND UART_DRIVER_PORT_STATUS_READY) \<noteq> 0"
    and "mailboxes st p = \<lparr>occupied = True, mailbox_request = r\<rparr>" "request_port_id r = p"
    and "ops (ports st p) = Some o'"
  defines "st' \<equiv> plane_service_mailbox clk p st"
  defines "lc \<equiv> request_line_coding r" and "pend \<equiv> pending_controls st p"
  defines "same \<equiv> pending pend \<and> pending_line_coding pend = lc"
  defines "current \<equiv> request_generation r = control_generations st p"
  defines "matches \<equiv> op_line_coding_matches o' (backend (ports st p)) (Some lc)"
  defines "bad \<equiv> \<not> uart_line_coding_is_valid (Some lc) \<or> \<not> matches \<and> \<not> op_line_coding_acceptable o' (Some lc)"
  shows "\<not> occupied (mailboxes st' p) \<and> backend (ports st' p) = backend (ports st p) \<and>
    (bad \<longrightarrow> pending (pending_controls st' p) = pending pend \<and>
       (pending pend \<longrightarrow> pending_controls st' p = pend) \<and> info (ports st' p) = info (ports st p) \<and>
       control_history (ports st' p) = \<lparr>history_reason =
         uart_control_plane_line_coding_error (Some (ports st p)) (Some lc),
         history_uptime_us = clk (clock_reads st)\<rparr> \<and>
       (current \<longrightarrow> (status_flags st' p AND UART_DRIVER_PORT_STATUS_CONTROL_ERROR) \<noteq> 0)) \<and>
    (\<not> bad \<and> matches \<longrightarrow> \<not> pending (pending_controls st' p) \<and>
       info (ports st' p) = info (set_info_coding lc (ports st p)) \<and>
       (current \<longrightarrow> (status_flags st' p AND UART_DRIVER_PORT_STATUS_CONTROL_ERROR) = 0)) \<and>
    (\<not> bad \<and> \<not> matches \<longrightarrow> pending_controls st' p = \<lparr>pending = True, pending_generation = request_generation r,
         pending_tx_boundary = request_tx_boundary r,
         pending_deadline = (if same then pending_deadline pend else clk (clock_reads st) + 1000000),
         pending_line_coding = lc\<rparr> \<and> info (ports st' p) = info (ports st p) \<and>
       (status_flags st' p AND UART_DRIVER_PORT_STATUS_CONTROL_PENDING) \<noteq> 0)"
proof -
  have np: "\<not> UART_PORT_COUNT \<le> p" using assms(1) by simp
  let ?prior = "pending pend"
  let ?take = "note_load 1 (snd (snd (plane_take_locked p st)))"
  have take: "plane_take_locked p st = (Some r, ?prior, snd (snd (plane_take_locked p st)))"
    using assms(2,3) by (simp add: plane_take_locked_def uart_control_mailbox_take_def Let_def pend_def put_defs)
  have st': "st' = uart_control_plane_set_line_coding clk r ?prior ?take"
    unfolding st'_def plane_service_mailbox_def using assms(4) by (subst take) (simp add: Let_def)
  have t: "ports ?take p = ports st p" "clock_reads ?take = clock_reads st" "status_flags ?take = status_flags st"
    "control_generations ?take = control_generations st" "\<not> occupied (mailboxes ?take p)"
    "pending_controls ?take p = (if ?prior then pend else pend\<lparr>pending := True, pending_generation := request_generation r\<rparr>)"
    using assms(2,3) by (auto simp: plane_take_locked_def uart_control_mailbox_take_def Let_def pend_def put_defs note_load_def)
  note sd = st' uart_control_plane_set_line_coding_def Let_def assms(4,5) np t
    lc_def [symmetric] matches_def [symmetric]
  note eff = finish_mailbox_effect [OF assms(1) sym]
  consider "bad" | "\<not> bad" "matches" | "\<not> bad" "\<not> matches" by blast
  then show ?thesis
  proof cases
    case 1
    then have "st' = uart_control_plane_finish_mailbox_control clk p (request_generation r) False (\<not> ?prior) 0 False
        (uart_control_plane_line_coding_error (Some (ports st p)) (Some lc)) ?take"
      by (auto simp: bad_def sd)
    from eff [OF this] 1 show ?thesis by (simp add: t current_def)
  next
    case 2
    then have "st' = uart_control_plane_finish_mailbox_control clk p (request_generation r) True (\<not> ?prior)
        (pending_generation (pending_controls ?take p)) ?prior UART_CONTROL_ERROR_NONE
        (put_port p (set_info_coding lc (ports ?take p)) ?take)"
      by (simp add: bad_def sd)
    from eff [OF this] 2 show ?thesis by (simp add: t current_def put_defs set_info_coding_def)
  next
    case 3
    have "st' = uart_control_plane_set_line_coding clk r ?prior ?take" by (rule st')
    note d = defer_effect [OF assms(1,4) this [symmetric], unfolded t, OF assms(5), folded lc_def, folded matches_def]
    show ?thesis using 3 d by (auto simp: bad_def same_def t)
  qed
qed

definition demo_request :: uart_control_mailbox_request_t where
  "demo_request = \<lparr>request_port_id = 1, request_generation = 0, request_tx_boundary = 3,
     request_line_coding = demo_coding0\<lparr>baud_rate := 2400\<rparr>\<rparr>"

definition demo_ready :: "demo_port uart_driver_state_t" where
  "demo_ready = put_mailbox 1 \<lparr>occupied = True, mailbox_request = demo_request\<rparr>
     (put_flags 1 (UART_DRIVER_PORT_STATUS_READY) (put_port 1 ((ports demo_boot 1)\<lparr>ops := Some demo_ops\<rparr>)
       (demo_boot\<lparr>views_bound := True\<rparr>)))"

lemma demo_ready_simps:
  "status_flags demo_ready 1 = 1" "ops (ports demo_ready 1) = Some demo_ops"
  "mailboxes demo_ready 1 = \<lparr>occupied = True, mailbox_request = demo_request\<rparr>"
  "backend (ports demo_ready 1) = demo_port0" "pending_controls demo_ready 1 = zero_pending"
  "views_bound demo_ready" "poll_start_index demo_ready = 0" "clock_reads demo_ready = 0"
  by (simp_all add: demo_ready_def put_defs demo_boot_def)

theorem mailbox_request_witness:
  "pending_controls (plane_service_mailbox (\<lambda>k. 5) 1 demo_ready) 1 = \<lparr>pending = True, pending_generation = 0,
     pending_tx_boundary = 3, pending_deadline = 1000005, pending_line_coding = demo_coding0\<lparr>baud_rate := 2400\<rparr>\<rparr>"
  using mailbox_request_outcome [of 1 demo_ready demo_request demo_ops "\<lambda>k. 5"]
  by (simp add: demo_ready_simps demo_request_def demo_ops_def demo_port0_def demo_coding0_def zero_pending_def
      uart_line_coding_is_valid_def word_le_nat_alt word_less_nat_alt)

section \<open>No request is deferred for ever\<close>

text \<open>What the passes over other ports leave alone.\<close>

definition same_port :: "uart_port_id_t \<Rightarrow> ('b, 'z) uart_control_plane_t_scheme \<Rightarrow>
    ('b, 'z) uart_control_plane_t_scheme \<Rightarrow> bool" where
  "same_port p st st' \<longleftrightarrow> ports st' p = ports st p \<and> mailboxes st' p = mailboxes st p \<and>
     pending_controls st' p = pending_controls st p \<and> status_flags st' p = status_flags st p \<and>
     control_generations st' p = control_generations st p \<and> poll_start_index st' = poll_start_index st \<and>
     clock_reads st \<le> clock_reads st'"

lemma same_port_refl [simp]: "same_port p st st"
  by (simp add: same_port_def)

named_theorems same_port

lemma same_port_updates [same_port]:
  assumes "same_port p st0 st"
  shows "q \<noteq> p \<Longrightarrow> same_port p st0 (put_port q v1 st)" "q \<noteq> p \<Longrightarrow> same_port p st0 (put_mailbox q v2 st)"
    "q \<noteq> p \<Longrightarrow> same_port p st0 (put_pending q v3 st)" "q \<noteq> p \<Longrightarrow> same_port p st0 (put_flags q v4 st)"
    "q \<noteq> p \<Longrightarrow> same_port p st0 (put_backend q v5 st)"
    "same_port p st0 (bump_stats r st)" "same_port p st0 (note_load c st)"
    "same_port p st0 (st\<lparr>clock_reads := Suc (clock_reads st)\<rparr>)"
  using assms by (simp_all add: same_port_def put_defs note_load_def)

lemmas clock_step = time_reached_def make_timeout_time_ms_def read_clock_def Let_def

lemma same_port_locked [same_port]:
  assumes "same_port p st0 st" "q \<noteq> p"
  shows "same_port p st0 (uart_control_record_error clk q reason st)"
    "same_port p st0 (clear_pending_flag q st)" "same_port p st0 (complete_error q g ok st)"
    "same_port p st0 (backend_stopped_locked q st)" "same_port p st0 (uart_control_plane_set_worker_pending q g st)"
  using assms
  by (simp_all add: uart_control_record_error_def clear_pending_flag_def complete_error_def backend_stopped_locked_def
      uart_control_plane_set_worker_pending_def clock_step same_port)

lemma same_port_finish [same_port]:
  assumes "same_port p st0 st" "q \<noteq> p"
  shows "same_port p st0 (uart_control_plane_finish_worker_control clk q g ok applied err st)"
    "same_port p st0 (uart_control_plane_finish_mailbox_control clk q g ok dropped wg complete err st)"
    "same_port p st0 (snd (snd (plane_take_locked q st)))"
  using assms
  by (simp_all add: uart_control_plane_finish_worker_control_def finish_worker_locked_def plane_take_locked_def
      uart_control_plane_finish_mailbox_control_def Let_def same_port case_prod_beta split: option.split bool.split)

lemma same_port_request:
  assumes "same_port p st0 st" "request_port_id r \<noteq> p"
  shows "same_port p st0 (uart_control_plane_set_line_coding clk r prior st)"
  using assms
  by (simp add: uart_control_plane_set_line_coding_def clock_step same_port case_prod_beta split: option.split)

lemma same_port_mailbox: "same_port p st0 st \<Longrightarrow> q \<noteq> p \<Longrightarrow> same_port p st0 (plane_service_mailbox clk q st)"
  by (simp add: plane_service_mailbox_def Let_def case_prod_beta same_port same_port_request split: option.split)

lemma same_port_deferred: "same_port p st0 st \<Longrightarrow> q \<noteq> p \<Longrightarrow> same_port p st0 (plane_service_deferred clk q st)"
  by (simp add: plane_service_deferred_def uart_control_plane_service_pending_def clock_step case_prod_beta same_port
      split: option.split)

lemma service_expired:
  fixes st :: "('b, 'z) uart_control_plane_t_scheme" and clk :: "nat \<Rightarrow> u64"
  assumes "p < UART_PORT_COUNT" "pending (pending_controls st p)"
    and "pending_deadline (pending_controls st p) \<le> clk (clock_reads st)"
    and "uart_control_plane_service_pending clk p st = st'"
  shows "\<not> pending (pending_controls st' p) \<and>
    history_reason (control_history (ports st' p)) = UART_CONTROL_ERROR_TIMEOUT \<and>
    (pending_generation (pending_controls st p) = control_generations st p \<longrightarrow> bit (status_flags st' p) 2)"
proof -
  have "\<not> uart_control_plane_tx_boundary_drained (Some (ports st p)) b" if "ops (ports st p) = None" for b
    using that by (simp add: uart_control_plane_tx_boundary_drained_def)
  then have "uart_control_plane_finish_worker_control clk p (pending_generation (pending_controls st p)) False None
      UART_CONTROL_ERROR_TIMEOUT (st\<lparr>clock_reads := Suc (clock_reads st)\<rparr>) = st'"
    using assms(2,3) unfolding assms(4) [symmetric]
    by (simp add: uart_control_plane_service_pending_def clock_step split: option.split)
  from finish_worker_effect [OF assms(1) this] show ?thesis by simp
qed

text \<open>The rotation visits each port exactly once.\<close>

lemma sweep_visits:
  fixes s p :: u32
  assumes "s < UART_PORT_COUNT" "p < UART_PORT_COUNT"
  obtains pre k post where "[0, 1, 2, 3, 4, 5] = pre @ k # post" "(s + k) mod UART_PORT_COUNT = p"
    "\<And>x. x \<in> set pre \<union> set post \<Longrightarrow> (s + x) mod UART_PORT_COUNT \<noteq> p"
proof -
  have *: "\<forall>s \<in> set all_ports. \<forall>p \<in> set all_ports. \<exists>n \<in> {..< 6}. (s + [0, 1, 2, 3, 4, 5] ! n) mod UART_PORT_COUNT = p \<and>
      (\<forall>x \<in> set (take n [0, 1, 2, 3, 4, 5]) \<union> set (drop (Suc n) [0, 1, 2, 3, 4, 5]). (s + x) mod UART_PORT_COUNT \<noteq> p)"
    by code_simp
  have "s \<in> set all_ports" "p \<in> set all_ports" using assms by (simp_all only: port_cases)
  with * have "\<exists>n < 6. (s + [0, 1, 2, 3, 4, 5] ! n) mod UART_PORT_COUNT = p \<and>
      (\<forall>x \<in> set (take n [0, 1, 2, 3, 4, 5]) \<union> set (drop (Suc n) [0, 1, 2, 3, 4, 5]). (s + x) mod UART_PORT_COUNT \<noteq> p)"
    by blast
  then obtain n where n: "n < 6" "(s + [0, 1, 2, 3, 4, 5] ! n) mod UART_PORT_COUNT = p"
    "\<And>x. x \<in> set (take n [0, 1, 2, 3, 4, 5]) \<union> set (drop (Suc n) [0, 1, 2, 3, 4, 5]) \<Longrightarrow>
       (s + x) mod UART_PORT_COUNT \<noteq> p"
    by blast
  show ?thesis
    by (rule that [OF id_take_nth_drop n(2,3)]) (use n(1) in simp_all)
qed

lemma fold_other_ports:
  assumes "\<And>q st. same_port p st0 st \<Longrightarrow> q \<noteq> p \<Longrightarrow> same_port p st0 (f q st)"
    and "same_port p st0 st" "\<And>x. x \<in> set xs \<Longrightarrow> (poll_start_index st0 + x) mod UART_PORT_COUNT \<noteq> p"
  shows "same_port p st0 (fold (\<lambda>x st. f ((poll_start_index st + x) mod UART_PORT_COUNT) st) xs st)"
  using assms(2,3)
proof (induction xs arbitrary: st)
  case (Cons x xs)
  have "poll_start_index st = poll_start_index st0" using Cons.prems(1) by (simp add: same_port_def)
  then show ?case using Cons assms(1) by simp
qed simp

lemma mailbox_empty_same:
  "same_port p st0 st \<Longrightarrow> \<not> occupied (mailboxes st0 p) \<Longrightarrow> same_port p st0 (plane_service_mailbox clk p st)"
  by (simp add: plane_service_mailbox_def plane_take_locked_def uart_control_mailbox_take_def same_port_def put_defs
      Let_def fun_upd_idem)

lemma fold_all_ports:
  assumes "\<And>q st. same_port p st0 st \<Longrightarrow> same_port p st0 (f q st)" "same_port p st0 st"
  shows "same_port p st0 (fold (\<lambda>x st. f ((poll_start_index st + x) mod UART_PORT_COUNT) st) xs st)"
  using assms(2) by (induction xs arbitrary: st) (simp_all add: assms(1))

text \<open>C12: A deferred request does not linger. If the deadline has come by the time a sweep of the control plane starts,
  then after that one sweep, whatever the other five ports are doing and wherever the rotation starts, the
  request is no longer pending, \<open>TIMEOUT\<close> is recorded, and a current request leaves \<open>CONTROL_ERROR\<close> set.\<close>

theorem expired_request_resolved:
  fixes st :: "('b, 'z) uart_control_plane_t_scheme" and clk :: "nat \<Rightarrow> u64"
  assumes "views_bound st" "poll_start_index st < UART_PORT_COUNT" "p < UART_PORT_COUNT"
    and "(status_flags st p AND UART_DRIVER_PORT_STATUS_READY) \<noteq> 0" "\<not> occupied (mailboxes st p)"
    and "pending (pending_controls st p)"
    and "\<forall>k \<ge> clock_reads st. pending_deadline (pending_controls st p) \<le> clk k"
  shows "let st' = uart_control_plane_service clk st in \<not> pending (pending_controls st' p) \<and>
    history_reason (control_history (ports st' p)) = UART_CONTROL_ERROR_TIMEOUT \<and>
    (pending_generation (pending_controls st p) = control_generations st p \<longrightarrow>
      (status_flags st' p AND UART_DRIVER_PORT_STATUS_CONTROL_ERROR) \<noteq> 0)"
proof -
  let ?go = "\<lambda>f x s. f ((poll_start_index s + x) mod UART_PORT_COUNT) s"
  obtain pre k post where visit: "[0, 1, 2, 3, 4, 5] = pre @ k # post" "(poll_start_index st + k) mod UART_PORT_COUNT = p"
    "\<And>x. x \<in> set pre \<union> set post \<Longrightarrow> (poll_start_index st + x) mod UART_PORT_COUNT \<noteq> p"
    using sweep_visits [OF assms(2,3)] by metis
  define s1 where "s1 = fold (?go (plane_service_mailbox clk)) [0, 1, 2, 3, 4, 5] st"
  define s2 where "s2 = fold (?go (plane_service_deferred clk)) pre s1"
  define s3 where "s3 = plane_service_deferred clk p s2"
  have "same_port p st s1" unfolding s1_def
    by (rule fold_all_ports) (metis same_port_mailbox mailbox_empty_same assms(5), simp)
  then have s2: "same_port p st s2" unfolding s2_def
    by (intro fold_other_ports same_port_deferred) (simp_all add: visit(3))
  let ?b = "bump_stats p s2"
  have "s3 = bump_stats p (uart_control_plane_service_pending clk p ?b)"
    using s2 assms(4,6) by (simp add: s3_def plane_service_deferred_def same_port_def)
  moreover have "pending_deadline (pending_controls ?b p) \<le> clk (clock_reads ?b)" "pending (pending_controls ?b p)"
    "pending_controls ?b p = pending_controls st p" "control_generations ?b p = control_generations st p"
    using s2 assms(6,7) by (simp_all add: same_port_def put_defs)
  ultimately have fin: "\<not> pending (pending_controls s3 p) \<and>
    history_reason (control_history (ports s3 p)) = UART_CONTROL_ERROR_TIMEOUT \<and>
    (pending_generation (pending_controls st p) = control_generations st p \<longrightarrow> bit (status_flags s3 p) 2)"
    using service_expired [OF assms(3) _ _ refl, of ?b clk] by (simp add: bump_stats_def)
  have "poll_start_index s3 = poll_start_index st"
    using same_port_deferred [of "p + 1" s2 s2 p clk] s2 by (simp add: s3_def same_port_def)
  then have "same_port p s3 (fold (?go (plane_service_deferred clk)) post s3)"
    by (intro fold_other_ports same_port_deferred) (simp_all add: visit(3))
  moreover have "uart_control_plane_service clk st = fold (?go (plane_service_deferred clk)) [0, 1, 2, 3, 4, 5] s1"
    using assms(1) by (simp only: uart_control_plane_service_def s1_def Let_def not_True_eq_False if_False)
  then have "uart_control_plane_service clk st = fold (?go (plane_service_deferred clk)) post s3"
    using s2 visit(2) unfolding visit(1) by (simp add: s2_def [symmetric] s3_def same_port_def)
  ultimately show ?thesis using fin by (simp add: same_port_def)
qed

theorem expired_request_witness:
  "let st = put_pending 1 (zero_pending\<lparr>pending := True, pending_deadline := 50\<rparr>)
              (put_mailbox 1 \<lparr>occupied = False, mailbox_request = demo_request\<rparr> demo_ready);
       st' = uart_control_plane_service (\<lambda>k. 60) st
   in \<not> pending (pending_controls st' 1) \<and>
      history_reason (control_history (ports st' 1)) = UART_CONTROL_ERROR_TIMEOUT"
proof -
  let ?st = "put_pending 1 (zero_pending\<lparr>pending := True, pending_deadline := 50\<rparr>)
              (put_mailbox 1 \<lparr>occupied = False, mailbox_request = demo_request\<rparr> demo_ready)"
  have "views_bound ?st" "poll_start_index ?st = 0" "status_flags ?st 1 = 1" "\<not> occupied (mailboxes ?st 1)"
    "pending_controls ?st 1 = zero_pending\<lparr>pending := True, pending_deadline := 50\<rparr>"
    using demo_ready_simps by (simp_all add: put_mailbox_def put_pending_def)
  with expired_request_resolved [of ?st 1 "\<lambda>k. 60"] show ?thesis
    by (simp add: Let_def word_le_nat_alt word_less_nat_alt)
qed

section \<open>The stop and start handshakes\<close>

lemma start_port_effect:
  fixes st :: "('b, 'z) uart_control_plane_t_scheme" and clk :: "nat \<Rightarrow> u64"
  assumes "p < UART_PORT_COUNT" "ops (ports st p) = Some o'"
    and "uart_control_plane_start_port clk p st = (started', st')"
  shows "ops (ports st' p) = Some o'" "bit (status_flags st' p) 0 = bit (status_flags st p) 0"
    "\<not> occupied (mailboxes st' p)"
    "occupied (mailboxes st p) \<Longrightarrow> \<not> pending (pending_controls st' p)"
    "started' \<Longrightarrow> \<exists>lc b1. uart_line_coding_is_valid (Some lc) \<and> op_line_coding_acceptable o' (Some lc) \<and>
       op_set_line_coding o' (backend (ports st p)) (Some lc) = (True, b1) \<and>
       op_restart o' b1 = (True, backend (ports st' p)) \<and>
       (if occupied (mailboxes st p)
        then lc = request_line_coding (mailbox_request (mailboxes st p)) \<and>
             info (ports st' p) = info (set_info_coding lc (ports st p))
        else lc = \<lparr>baud_rate = info_baud_rate (info (ports st p)), data_bits = info_data_bits (info (ports st p)),
                   stop_bits = info_stop_bits (info (ports st p)), parity = info_parity (info (ports st p))\<rparr> \<and>
             info (ports st' p) = info (ports st p))"
proof -
  have np: "\<not> UART_PORT_COUNT \<le> p" using assms(1) by simp
  let ?i = "info (ports st p)"
  let ?occ = "occupied (mailboxes st p)" and ?r = "mailbox_request (mailboxes st p)"
  define lc where "lc = (if ?occ then request_line_coding ?r
    else \<lparr>baud_rate = info_baud_rate ?i, data_bits = info_data_bits ?i, stop_bits = info_stop_bits ?i, parity = info_parity ?i\<rparr>)"
  define s0 where "s0 = snd (snd (start_take_locked p st))"
  have take: "start_take_locked p st = (if ?occ then Some ?r else None,
      \<lparr>baud_rate = info_baud_rate ?i, data_bits = info_data_bits ?i, stop_bits = info_stop_bits ?i, parity = info_parity ?i\<rparr>, s0)"
    by (simp add: start_take_locked_def uart_control_mailbox_take_def Let_def s0_def)
  have s0: "ports s0 = ports st" "status_flags s0 = status_flags st" "\<not> occupied (mailboxes s0 p)"
    by (auto simp: s0_def start_take_locked_def uart_control_mailbox_take_def Let_def put_defs)
  define r where "r = (if (?occ \<and> request_port_id ?r \<noteq> p) \<or> \<not> uart_line_coding_is_valid (Some lc) \<or>
      \<not> op_line_coding_acceptable o' (Some lc) then (False, backend (ports st p))
    else if \<not> fst (op_set_line_coding o' (backend (ports st p)) (Some lc))
      then (False, snd (op_set_line_coding o' (backend (ports st p)) (Some lc)))
    else op_restart o' (snd (op_set_line_coding o' (backend (ports st p)) (Some lc))))"
  have res: "(started', st') = (fst r, if ?occ then uart_control_plane_finish_worker_control clk p (request_generation ?r)
      (fst r) (if fst r then Some lc else None) UART_CONTROL_ERROR_BACKEND (put_backend p (snd r) s0)
      else put_backend p (snd r) s0)"
    unfolding assms(3) [symmetric] uart_control_plane_start_port_def
    by (simp add: np take Let_def s0 assms(2) case_prod_beta r_def lc_def split: if_split)
  have mb: "mailboxes (uart_control_plane_finish_worker_control clk q g ok applied err s) = mailboxes s"
    for q g ok applied err and s :: "('b, 'z) uart_control_plane_t_scheme"
    by (simp add: worker_defs rule_defs put_defs Let_def split: option.split bool.split)
  note eff = finish_worker_effect [OF assms(1) refl]
  show "ops (ports st' p) = Some o'" "bit (status_flags st' p) 0 = bit (status_flags st p) 0"
    "\<not> occupied (mailboxes st' p)"
    using res s0 assms(2) by (simp_all add: eff(3,6) mb put_defs)
  show "\<not> pending (pending_controls st' p)" if "?occ"
    using res that by (simp add: eff(1))
  assume started'
  then have "fst r" using res by simp
  then obtain b1 where "uart_line_coding_is_valid (Some lc)" "op_line_coding_acceptable o' (Some lc)"
    "op_set_line_coding o' (backend (ports st p)) (Some lc) = (True, b1)" "op_restart o' b1 = (True, snd r)"
    unfolding r_def by (auto split: if_splits simp: prod_eq_iff)
  moreover have "backend (ports st' p) = snd r"
    using res by (simp add: eff(2) put_defs)
  moreover have "info (ports st' p) = (if ?occ then info (set_info_coding lc (ports st p)) else ?i)"
    using res s0 \<open>fst r\<close> by (simp add: eff(4) put_defs set_info_coding_def)
  ultimately show "\<exists>lc b1. uart_line_coding_is_valid (Some lc) \<and> op_line_coding_acceptable o' (Some lc) \<and>
       op_set_line_coding o' (backend (ports st p)) (Some lc) = (True, b1) \<and>
       op_restart o' b1 = (True, backend (ports st' p)) \<and>
       (if occupied (mailboxes st p)
        then lc = request_line_coding (mailbox_request (mailboxes st p)) \<and>
             info (ports st' p) = info (set_info_coding lc (ports st p))
        else lc = \<lparr>baud_rate = info_baud_rate (info (ports st p)), data_bits = info_data_bits (info (ports st p)),
                   stop_bits = info_stop_bits (info (ports st p)), parity = info_parity (info (ports st p))\<rparr> \<and>
             info (ports st' p) = info (ports st p))"
    by (intro exI [of _ lc] exI [of _ b1]) (simp add: lc_def)
qed

lemma start_port_lifecycle:
  fixes st :: "('b, 'z) uart_driver_state_t_scheme"
  shows "lifecycle (snd (uart_control_plane_start_port clk p st)) = lifecycle st"
proof -
  have "lifecycle (uart_control_plane_finish_worker_control clk q g ok applied err s) = lifecycle s"
    for q g ok applied err and s :: "('b, 'z) uart_driver_state_t_scheme"
    by (simp add: worker_defs rule_defs put_defs Let_def split: option.split bool.split)
  then show ?thesis
    by (simp add: uart_control_plane_start_port_def start_take_locked_def Let_def case_prod_beta put_backend_def
      split: option.split) (simp add: put_defs)
qed

lemma deinit_effect:
  assumes "ops (ports st p) = Some o'" "lifecycle_deinit p st = st'"
  shows "ops (ports st' p) = Some o'" "info (ports st' p) = info (ports st p)" "lifecycle st' = lifecycle st"
    "mailboxes st' = mailboxes st"
    "backend (ports st' p) = (if op_is_initialized o' (backend (ports st p)) then op_deinit o' (backend (ports st p))
       else backend (ports st p))"
  unfolding assms(2) [symmetric] using assms(1)
  by (simp_all add: lifecycle_deinit_def uart_driver_begin_port_stats_update_def uart_driver_end_port_stats_update_def
      put_defs Let_def)

lemma stop_effect:
  assumes "lifecycle_stop_locked p st = st'"
  shows "ports st' = ports st" "lifecycle st' p = (lifecycle st p)\<lparr>stop_pending := False, usb_quiesced := False\<rparr>"
    "mailboxes st' p = uart_control_mailbox_reset (mailboxes st p)" "pending_controls st' p = zero_pending"
    "\<not> bit (status_flags st' p) 0" "\<not> bit (status_flags st' p) 1"
  unfolding assms [symmetric]
  by (simp_all add: lifecycle_stop_locked_def put_defs put_lifecycle_def Let_def bit_simps)

text \<open>The start that a service begins: it ends with exactly one of the two flags, and with the port's own format.\<close>

lemma started_outcome:
  fixes s1 :: "('b, 'z) uart_driver_state_t_scheme"
  assumes "p < UART_PORT_COUNT" "ops (ports s1 p) = Some o'" "\<not> stop_pending (lifecycle s1 p)"
    and st': "st' = (let (ok, s) = lifecycle_start clk p (put_lifecycle p ((lifecycle s1 p)\<lparr>start_pending := False\<rparr>) s1)
      in lifecycle_publish_locked p ok s)"
  shows "\<not> stop_pending (lifecycle st' p) \<and> \<not> start_pending (lifecycle st' p) \<and> \<not> occupied (mailboxes st' p) \<and>
    (bit (status_flags st' p) 0 \<longleftrightarrow> \<not> bit (status_flags st' p) 1) \<and>
    (bit (status_flags st' p) 0 \<longrightarrow>
      (\<exists>lc b1 b2. uart_line_coding_is_valid (Some lc) \<and> op_set_line_coding o' (backend (ports s1 p)) (Some lc) = (True, b1) \<and>
         op_restart o' b1 = (True, b2) \<and> backend (ports st' p) = op_clear_rx_error_baseline o' b2 \<and>
         (occupied (mailboxes s1 p) \<longrightarrow> lc = request_line_coding (mailbox_request (mailboxes s1 p)) \<and>
            info (ports st' p) = info (set_info_coding lc (ports s1 p)))))"
proof -
  let ?s2 = "bump_stats p (put_lifecycle p ((lifecycle s1 p)\<lparr>start_pending := False\<rparr>) s1)"
  obtain ok s3 where s3: "uart_control_plane_start_port clk p ?s2 = (ok, s3)" by fastforce
  have s2: "ops (ports ?s2 p) = Some o'" "backend (ports ?s2 p) = backend (ports s1 p)" "info (ports ?s2 p) = info (ports s1 p)"
    "mailboxes ?s2 p = mailboxes s1 p"
    using assms(2) by (simp_all add: put_defs put_lifecycle_def)
  note eff = start_port_effect [OF assms(1) s2(1) s3]
  have life: "lifecycle s3 p = (lifecycle s1 p)\<lparr>start_pending := False\<rparr>"
    using start_port_lifecycle [of clk p ?s2] s3 by (simp add: put_defs put_lifecycle_def)
  let ?s4 = "bump_stats p (if ok then put_backend p (op_clear_rx_error_baseline o' (backend (ports s3 p))) s3 else s3)"
  have "lifecycle_start clk p (put_lifecycle p ((lifecycle s1 p)\<lparr>start_pending := False\<rparr>) s1) = (ok, ?s4)"
    using assms(2) eff(1) s3 by (simp add: lifecycle_start_def uart_driver_begin_port_stats_update_def
        uart_driver_end_port_stats_update_def put_lifecycle_def put_defs)
  with st' have "st' = lifecycle_publish_locked p ok ?s4" by simp
  then have pub: "mailboxes st' p = mailboxes s3 p" "info (ports st' p) = info (ports s3 p)"
    "ok \<Longrightarrow> backend (ports st' p) = op_clear_rx_error_baseline o' (backend (ports s3 p))"
    "bit (status_flags st' p) 0 = ok" "bit (status_flags st' p) 1 = (\<not> ok)" "lifecycle st' p = lifecycle s3 p"
    using life assms(3) by (auto simp: lifecycle_publish_locked_def put_defs Let_def bit_simps)
  show ?thesis
  proof (intro conjI impI)
    show "\<not> stop_pending (lifecycle st' p)" "\<not> start_pending (lifecycle st' p)" "\<not> occupied (mailboxes st' p)"
      "bit (status_flags st' p) 0 \<longleftrightarrow> \<not> bit (status_flags st' p) 1"
      using pub life assms(3) eff(3) by simp_all
    assume "bit (status_flags st' p) 0"
    then have ok using pub(4) by simp
    with eff(5) s2 pub(2,3) show "\<exists>lc b1 b2. uart_line_coding_is_valid (Some lc) \<and>
        op_set_line_coding o' (backend (ports s1 p)) (Some lc) = (True, b1) \<and>
        op_restart o' b1 = (True, b2) \<and> backend (ports st' p) = op_clear_rx_error_baseline o' b2 \<and>
        (occupied (mailboxes s1 p) \<longrightarrow> lc = request_line_coding (mailbox_request (mailboxes s1 p)) \<and>
           info (ports st' p) = info (set_info_coding lc (ports s1 p)))"
      by (auto simp: set_info_coding_def)
  qed
qed

text \<open>C13: The stop and start handshakes keep their order. Until core 0 has confirmed that USB let go of the port, a
  requested stop changes nothing at all; once confirmed, the worker takes the backend down (a backend whose deinit
  works is not initialised any more), drops the mailbox and the deferred request, and clears \<open>READY\<close>, \<open>INIT_FAILED\<close>
  and the handshake. A start is consumed only together with or after the stop, and ends
  with exactly one of \<open>READY\<close> and \<open>INIT_FAILED\<close>: \<open>READY\<close> means that the backend accepted a valid format (that of the
  waiting request, which is then published, unless a stop dropped it) and restarted with it.\<close>

theorem lifecycle_outcome:
  fixes st :: "('b, 'z) uart_driver_state_t_scheme" and clk :: "nat \<Rightarrow> u64"
  assumes "p < UART_PORT_COUNT" "ops (ports st p) = Some o'" "\<forall>b. \<not> op_is_initialized o' (op_deinit o' b)"
  defines "st' \<equiv> service_port_lifecycle clk p st"
  defines "stop \<equiv> stop_pending (lifecycle st p)" and "start \<equiv> start_pending (lifecycle st p)"
  defines "b0 \<equiv> if stop \<and> op_is_initialized o' (backend (ports st p))
    then op_deinit o' (backend (ports st p)) else backend (ports st p)"
  shows "((stop \<and> \<not> usb_quiesced (lifecycle st p)) \<or> (\<not> stop \<and> \<not> start) \<longrightarrow> st' = st) \<and>
    (stop \<and> usb_quiesced (lifecycle st p) \<and> \<not> start \<longrightarrow>
       \<not> op_is_initialized o' (backend (ports st' p)) \<and> lifecycle st' p = zero_lifecycle \<and>
       \<not> occupied (mailboxes st' p) \<and> \<not> pending (pending_controls st' p) \<and>
       (status_flags st' p AND UART_DRIVER_PORT_STATUS_READY) = 0 \<and>
       (status_flags st' p AND UART_DRIVER_PORT_STATUS_INIT_FAILED) = 0) \<and>
    (start \<and> (stop \<longrightarrow> usb_quiesced (lifecycle st p)) \<longrightarrow>
       \<not> stop_pending (lifecycle st' p) \<and> \<not> start_pending (lifecycle st' p) \<and> \<not> occupied (mailboxes st' p) \<and>
       ((status_flags st' p AND UART_DRIVER_PORT_STATUS_READY) \<noteq> 0 \<longleftrightarrow>
        (status_flags st' p AND UART_DRIVER_PORT_STATUS_INIT_FAILED) = 0) \<and>
       ((status_flags st' p AND UART_DRIVER_PORT_STATUS_READY) \<noteq> 0 \<longrightarrow>
        (\<exists>lc b1 b2. uart_line_coding_is_valid (Some lc) \<and> op_set_line_coding o' b0 (Some lc) = (True, b1) \<and>
           op_restart o' b1 = (True, b2) \<and> backend (ports st' p) = op_clear_rx_error_baseline o' b2 \<and>
           (\<not> stop \<and> occupied (mailboxes st p) \<longrightarrow>
              lc = request_line_coding (mailbox_request (mailboxes st p)) \<and>
              info (ports st' p) = info (set_info_coding lc (ports st p))))))"
proof -
  have idle: "st' = st" if "(stop \<and> \<not> usb_quiesced (lifecycle st p)) \<or> (\<not> stop \<and> \<not> start)"
    using that by (auto simp: st'_def service_port_lifecycle_def lifecycle_due_def Let_def stop_def start_def)
  define s1 where "s1 = (if stop then lifecycle_stop_locked p (lifecycle_deinit p st) else st)"
  have s1: "ops (ports s1 p) = Some o'" "backend (ports s1 p) = b0" "info (ports s1 p) = info (ports st p)"
    "lifecycle s1 p = (if stop then (lifecycle st p)\<lparr>stop_pending := False, usb_quiesced := False\<rparr> else lifecycle st p)"
    "mailboxes s1 p = (if stop then uart_control_mailbox_reset (mailboxes st p) else mailboxes st p)"
    "stop \<Longrightarrow> pending_controls s1 p = zero_pending" "stop \<Longrightarrow> \<not> bit (status_flags s1 p) 0 \<and> \<not> bit (status_flags s1 p) 1"
    using assms(2) deinit_effect [OF assms(2) refl] stop_effect [OF refl, of p "lifecycle_deinit p st"]
    by (simp_all add: s1_def b0_def)
  have go: "lifecycle_start_locked p s1 = (start, if start then put_lifecycle p ((lifecycle s1 p)\<lparr>start_pending := False\<rparr>) s1 else s1)"
    if "stop \<longrightarrow> usb_quiesced (lifecycle st p)"
    using s1(4) by (simp add: lifecycle_start_locked_def start_def stop_def)
  have st': "st' = (if start then let (ok, s) = lifecycle_start clk p (put_lifecycle p ((lifecycle s1 p)\<lparr>start_pending := False\<rparr>) s1)
      in lifecycle_publish_locked p ok s else s1)"
    if "stop \<longrightarrow> usb_quiesced (lifecycle st p)" "stop \<or> start"
  proof -
    have "lifecycle_due p st = Some stop"
      using that by (auto simp: lifecycle_due_def Let_def stop_def start_def)
    then have "st' = (let (go, s) = lifecycle_start_locked p s1 in if \<not> go then s
        else let (ok, s) = lifecycle_start clk p s in lifecycle_publish_locked p ok s)"
      by (simp add: st'_def service_port_lifecycle_def s1_def Let_def)
    with go [OF that(1)] show ?thesis by simp
  qed
  have stopped: "\<not> op_is_initialized o' (backend (ports st' p)) \<and> lifecycle st' p = zero_lifecycle \<and>
       \<not> occupied (mailboxes st' p) \<and> \<not> pending (pending_controls st' p) \<and>
       \<not> bit (status_flags st' p) 0 \<and> \<not> bit (status_flags st' p) 1"
    if "stop \<and> usb_quiesced (lifecycle st p) \<and> \<not> start"
    using that st' s1 assms(3)
    by (cases "lifecycle st p") (simp add: b0_def zero_lifecycle_def start_def uart_control_mailbox_reset_def zero_pending_def)
  have ran: "\<not> stop_pending (lifecycle st' p) \<and> \<not> start_pending (lifecycle st' p) \<and> \<not> occupied (mailboxes st' p) \<and>
       (bit (status_flags st' p) 0 \<longleftrightarrow> \<not> bit (status_flags st' p) 1) \<and>
       (bit (status_flags st' p) 0 \<longrightarrow>
        (\<exists>lc b1 b2. uart_line_coding_is_valid (Some lc) \<and> op_set_line_coding o' b0 (Some lc) = (True, b1) \<and>
           op_restart o' b1 = (True, b2) \<and> backend (ports st' p) = op_clear_rx_error_baseline o' b2 \<and>
           (\<not> stop \<and> occupied (mailboxes st p) \<longrightarrow>
              lc = request_line_coding (mailbox_request (mailboxes st p)) \<and>
              info (ports st' p) = info (set_info_coding lc (ports st p)))))"
    if "start" "stop \<longrightarrow> usb_quiesced (lifecycle st p)"
  proof -
    have a: "\<not> stop_pending (lifecycle s1 p)" using s1(4) by (simp add: stop_def)
    have b: "st' = (let (ok, s) = lifecycle_start clk p (put_lifecycle p ((lifecycle s1 p)\<lparr>start_pending := False\<rparr>) s1)
        in lifecycle_publish_locked p ok s)" using st' that by simp
    have c: "info (set_info_coding lc (ports s1 p)) = info (set_info_coding lc (ports st p))" for lc
      using s1(3) by (simp add: set_info_coding_def)
    have d: "mailboxes s1 p = mailboxes st p" if "\<not> stop" using that s1(5) by simp
    show ?thesis
      using started_outcome [OF assms(1) s1(1) a b] d unfolding s1(2) c by (metis (no_types, lifting))
  qed
  show ?thesis using idle stopped ran by simp
qed

theorem lifecycle_witness:
  "let st = put_lifecycle 1 \<lparr>stop_pending = True, usb_quiesced = True, start_pending = False\<rparr>
              (put_backend 1 (demo_port0\<lparr>demo_on := True\<rparr>) demo_ready);
       st' = service_port_lifecycle (\<lambda>k. 0) 1 st
   in \<not> demo_on (backend (ports st' 1)) \<and> lifecycle st' 1 = zero_lifecycle \<and> \<not> occupied (mailboxes st' 1)"
  using lifecycle_outcome [of 1 "put_lifecycle 1 \<lparr>stop_pending = True, usb_quiesced = True, start_pending = False\<rparr>
              (put_backend 1 (demo_port0\<lparr>demo_on := True\<rparr>) demo_ready)" demo_ops "\<lambda>k. 0"] demo_ready_simps
  by (simp add: Let_def put_lifecycle_def put_defs demo_ops_def word_less_nat_alt)

section \<open>Start-up is all or nothing\<close>

definition port_parked :: "uart_port_id_t \<Rightarrow> 'b uart_backend_ops_t option \<Rightarrow> ('b, 'z) uart_driver_state_t_scheme \<Rightarrow> bool" where
  "port_parked p o' st \<longleftrightarrow> ops (ports st p) = o' \<and>
     (\<forall>b. o' = Some b \<longrightarrow> \<not> op_is_initialized b (backend (ports st p))) \<and> \<not> bit (status_flags st p) 0"

definition deinit_works :: "'b uart_backend_ops_t option \<Rightarrow> bool" where
  "deinit_works o' \<longleftrightarrow> (\<forall>ops'. o' = Some ops' \<longrightarrow> (\<forall>b. \<not> op_is_initialized ops' (op_deinit ops' b)))"

lemma rollback_parks:
  assumes "deinit_works o'" "ops (ports st p) = o'"
  shows "port_parked p o' (rollback_port p st) \<and> status_flags (rollback_port p st) p = 0"
  using assms by (auto simp: rollback_port_def port_parked_def deinit_works_def put_defs Let_def split: option.split)

lemma park_parks:
  assumes "deinit_works o'" "ops (ports st p) = o'" "p < UART_PORT_COUNT" "o' \<noteq> None"
  shows "port_parked p o' (park_port p st)"
proof -
  have "\<not> UART_PORT_COUNT \<le> p" using assms(3) by simp
  then show ?thesis
    using assms by (auto simp: park_port_def port_parked_def deinit_works_def put_defs Let_def bit_simps
        uart_driver_clear_port_status_flag_def)
qed

text \<open>A pass over all ports in which each port's turn only concerns that port.\<close>

lemma fold_each:
  assumes "p < UART_PORT_COUNT" "\<And>q s. P s \<Longrightarrow> P (f q s)" "P st" "\<And>s. P s \<Longrightarrow> Q (f p s)"
    and "\<And>q s. q \<noteq> p \<Longrightarrow> Q s \<Longrightarrow> Q (f q s)"
  shows "Q (fold f all_ports st)"
proof -
  have step: "P (f q s) \<and> Q (f q s)" if "P s \<and> Q s" for q s
    using that assms(2,4,5) by (cases "q = p") auto
  have keep: "P s \<and> Q s \<Longrightarrow> P (fold f xs s) \<and> Q (fold f xs s)" for xs s
    by (rule fold_keeps [where P = "\<lambda>s. P s \<and> Q s" and f = f, OF step])
  have "P s \<Longrightarrow> p \<in> set xs \<Longrightarrow> P (fold f xs s) \<and> Q (fold f xs s)" for xs s
    using keep assms(2,4) by (induction xs arbitrary: s) auto
  then show ?thesis using assms(3) port_cases [OF assms(1)] by blast
qed

lemmas startup_defs = load_port_config_def reset_port_state_def init_port_backend_def rollback_port_def park_port_def
  uart_driver_set_port_status_flag_def uart_driver_clear_port_status_flag_def put_defs put_lifecycle_def Let_def case_prod_beta

lemma startup_ops:
  "ops (ports (reset_port_state board q s) p) = ops (ports s p)"
  "ops (ports (snd (init_port_backend q r)) p) = ops (ports (snd r) p)"
  "ops (ports (rollback_port q s) p) = ops (ports s p)" "ops (ports (park_port q s) p) = ops (ports s p)"
  "ops (ports (put_mailbox q m s) p) = ops (ports s p)"
  by (simp_all add: startup_defs split: option.split)

lemma startup_not_started:
  "worker_started (load_port_config board ops_of attach q s) = worker_started s"
  "worker_started (reset_port_state board q s) = worker_started s"
  "worker_started (snd (init_port_backend q r)) = worker_started (snd r)"
  "worker_started (rollback_port q s) = worker_started s" "worker_started (put_mailbox q m s) = worker_started s"
  by (simp_all add: startup_defs split: option.split)

text \<open>A port whose turn is over stays parked while the others have theirs.\<close>

lemma parked_keeps:
  assumes "q \<noteq> p"
  shows "port_parked p o' (rollback_port q s) = port_parked p o' s" "port_parked p o' (park_port q s) = port_parked p o' s"
    "status_flags (rollback_port q s) p = status_flags s p"
  using assms by (simp_all add: port_parked_def startup_defs split: option.split)

lemma fold_not_started:
  fixes f :: "uart_port_id_t \<Rightarrow> ('b, 'z) uart_driver_state_t_scheme \<Rightarrow> ('b, 'z) uart_driver_state_t_scheme"
  assumes "\<And>q s. worker_started (f q s) = worker_started s"
  shows "worker_started (fold f xs s) = worker_started s"
  using assms by (induction xs arbitrary: s) auto

lemma init_backends_not_started:
  fixes s :: "('b, 'z) uart_driver_state_t_scheme"
  shows "worker_started (snd (uart_driver_init_backends s)) = worker_started s"
  unfolding uart_driver_init_backends_def
  by (rule fold_keeps [where P = "\<lambda>r. worker_started (snd r) = worker_started s"]) (simp_all add: startup_not_started)

text \<open>C14: Start-up is all or nothing, and never leaves a UART running. Whatever backends the board names and whichever of
  them fail to load or start, \<open>uart_driver_init\<close> ends with every port's backend taken down and not \<open>READY\<close>; the worker is
  marked started exactly on success; on success every port has its operation table and nothing is
  pending for it, on failure all status flags of all ports are zero again.\<close>

theorem init_all_or_nothing:
  fixes st :: "('b, 'z) uart_driver_state_t_scheme"
  assumes "\<not> worker_started st" "\<forall>t. deinit_works (ops_of t)" "p < UART_PORT_COUNT"
    and "uart_driver_init board ops_of attach st = (ok, st')"
  shows "\<not> uart_driver_backend_is_initialized (uart_driver_port st' p) \<and> \<not> uart_driver_port_is_ready st' p \<and>
    (status_flags st' p AND UART_DRIVER_PORT_STATUS_READY) = 0 \<and> worker_started st' = ok \<and>
    (ok \<longrightarrow> ops (ports st' p) \<noteq> None \<and> \<not> uart_driver_channel_stop_pending st' p \<and>
       \<not> uart_driver_channel_start_pending st' p \<and> \<not> occupied (mailboxes st' p) \<and>
       \<not> pending (pending_controls st' p)) \<and>
    (\<not> ok \<longrightarrow> status_flags st' p = 0)"
proof -
  let ?load = "uart_driver_load_board_config board ops_of attach (uart_driver_bind_state_views
      (if \<not> status_lock st then st\<lparr>status_lock := True\<rparr> else st))"
  let ?reset = "fold (reset_port_state board) all_ports ?load"
  let ?box = "fold (\<lambda>index st. put_mailbox index (uart_control_mailbox_reset (mailboxes st index)) st) all_ports ?reset"
  let ?clear = "?box\<lparr>poll_start_index := 0\<rparr>\<lparr>worker_heartbeat := 0\<rparr>"
  let ?init = "uart_driver_init_backends ?clear"
  define o' where "o' = ops (ports ?clear p)"
  have load: "deinit_works (ops (ports (fold (load_port_config board ops_of attach) all_ports s) p))"
    for s :: "('b, 'z) uart_driver_state_t_scheme"
    by (rule fold_establishes [where P = "\<lambda>s. deinit_works (ops (ports s p))", OF port_cases [OF assms(3)]])
       (use assms(2) in \<open>auto simp: load_port_config_def put_defs case_prod_beta Let_def deinit_works_def split: option.splits\<close>)
  have "ops (ports ?reset p) = ops (ports ?load p)"
    by (rule fold_keeps [where P = "\<lambda>s. ops (ports s p) = ops (ports ?load p)"]) (simp_all add: startup_ops)
  moreover have "ops (ports ?box p) = ops (ports ?reset p)"
    by (rule fold_keeps [where P = "\<lambda>s. ops (ports s p) = ops (ports ?reset p)"]) (simp_all add: startup_ops)
  ultimately have works: "deinit_works o'" using load by (simp add: o'_def uart_driver_load_board_config_def)
  have i: "ops (ports (snd ?init) p) = o'"
    unfolding uart_driver_init_backends_def
    by (rule fold_keeps [where P = "\<lambda>r. ops (ports (snd r) p) = o'"]) (simp_all add: startup_ops o'_def)
  have some: "fst ?init \<longrightarrow> o' \<noteq> None"
    unfolding i [symmetric] unfolding uart_driver_init_backends_def
    by (rule fold_establishes [where P = "\<lambda>r. fst r \<longrightarrow> ops (ports (snd r) p) \<noteq> None", OF port_cases [OF assms(3)]])
       (auto simp: startup_defs split: option.splits if_splits)
  have parked: "port_parked p o' (fold park_port all_ports (snd ?init))" if "fst ?init"
    by (rule fold_each [where P = "\<lambda>s. ops (ports s p) = o'" and f = park_port and p = p])
       (use assms(3) i some that works in \<open>simp_all add: startup_ops parked_keeps park_parks\<close>)
  have rolled: "port_parked p o' (fold rollback_port all_ports (snd ?init)) \<and>
      status_flags (fold rollback_port all_ports (snd ?init)) p = 0"
    by (rule fold_each [where P = "\<lambda>s. ops (ports s p) = o'" and f = rollback_port and p = p])
       (use assms(3) i works in \<open>simp_all add: startup_ops parked_keeps rollback_parks\<close>)
  have off: "\<not> worker_started (fold rollback_port all_ports (snd ?init))"
    using assms(1) by (simp add: fold_not_started init_backends_not_started startup_not_started
        uart_driver_load_board_config_def uart_driver_bind_state_views_def)
  show ?thesis
  proof (cases "fst ?init")
    case True
    then have st': "ok" "st' = (fold park_port all_ports (snd ?init))\<lparr>worker_started := True\<rparr>"
      using assms(1,4) unfolding uart_driver_init_def Let_def case_prod_beta by (simp_all split: if_splits)
    have "port_quiet st' p"
      using init_quiet [OF _ assms(1,3)] assms(4) st'(1) by simp
    with parked [OF True] some True st' show ?thesis
      by (auto simp: port_parked_def uart_driver_backend_is_initialized_def uart_driver_port_def port_quiet_def
          port_fresh_def uart_driver_port_is_ready_def uart_driver_channel_stop_pending_def zero_lifecycle_def
          uart_driver_channel_start_pending_def split: option.split)
  next
    case False
    then have st': "\<not> ok" "st' = fold rollback_port all_ports (snd ?init)"
      using assms(1,4) unfolding uart_driver_init_def Let_def case_prod_beta uart_driver_rollback_initialized_backends_def
      by (simp_all split: if_splits)
    with rolled off show ?thesis
      by (auto simp: port_parked_def uart_driver_backend_is_initialized_def uart_driver_port_def
          uart_driver_port_is_ready_def split: option.split)
  qed
qed

theorem init_all_or_nothing_witness:
  "\<not> uart_driver_port_is_ready demo_up 4 \<and> worker_started demo_up"
  using init_all_or_nothing [OF demo_boot_stopped _ _ demo_init, of 4]
  by (simp add: deinit_works_def demo_ops_def word_less_nat_alt)

section \<open>Statistics read while the worker runs\<close>

text \<open>
  The rest of the system between two reads, as the worker's protocol has it: the sequence only moves forward, by fewer than
  \<open>2 ^ 28\<close> steps at a time, and while it is even and stands still the port's statistics stand still. \<open>stats_of\<close> is
  what the reads give in one unchanging state.
\<close>

definition stats_of :: "uart_port_id_t \<Rightarrow> ('b, 'z) uart_driver_state_t_scheme \<Rightarrow> uart_driver_port_stats_t" where
  "stats_of p st = fst (read_port_stats p (\<lambda>k st. st) 0 st)"

definition seqlock_env :: "uart_port_id_t \<Rightarrow>
    (nat \<Rightarrow> ('b, 'z) uart_driver_state_t_scheme \<Rightarrow> ('b, 'z) uart_driver_state_t_scheme) \<Rightarrow> bool" where
  "seqlock_env p env \<longleftrightarrow> (\<forall>k st. \<exists>d < 2 ^ 28. stats_sequence (env k st) p = stats_sequence st p + of_nat d \<and>
     (d = 0 \<and> \<not> bit (stats_sequence st p) 0 \<longrightarrow> stats_of p (env k st) = stats_of p st))"

primrec env_run :: "(nat \<Rightarrow> 's \<Rightarrow> 's) \<Rightarrow> nat \<Rightarrow> 's \<Rightarrow> 's" where
  "env_run env 0 st = st"
| "env_run env (Suc n) st = env n (env_run env n st)"

text \<open>Seven moves that end where they began moved nowhere.\<close>

lemma seqlock_still:
  assumes "seqlock_env p env" "n < 16"
    and "\<not> bit (stats_sequence (env_run env k st) p) 0"
    and "stats_sequence (env_run env (k + n) st) p = stats_sequence (env_run env k st) p" "j \<le> n"
  shows "stats_of p (env_run env (k + j) st) = stats_of p (env_run env k st)"
proof -
  let ?seq = "\<lambda>i. stats_sequence (env_run env (k + i) st) p"
  let ?stats = "\<lambda>i. stats_of p (env_run env (k + i) st)"
  have "\<forall>i. \<exists>d. d < 2 ^ 28 \<and> ?seq (Suc i) = ?seq i + of_nat d \<and> (d = 0 \<and> \<not> bit (?seq i) 0 \<longrightarrow> ?stats (Suc i) = ?stats i)"
    using assms(1) by (simp only: seqlock_env_def add_Suc_right env_run.simps simp_thms)
  then obtain d where "\<forall>i. d i < 2 ^ 28 \<and> ?seq (Suc i) = ?seq i + of_nat (d i) \<and>
      (d i = 0 \<and> \<not> bit (?seq i) 0 \<longrightarrow> ?stats (Suc i) = ?stats i)"
    by (rule choice [THEN exE])
  then have d: "\<And>i. d i < 2 ^ 28" "\<And>i. ?seq (Suc i) = ?seq i + of_nat (d i)"
    "\<And>i. d i = 0 \<Longrightarrow> \<not> bit (?seq i) 0 \<Longrightarrow> ?stats (Suc i) = ?stats i"
    by blast+
  define m where "m i = (\<Sum>j<i. d j)" for i
  have m: "m (Suc i) = m i + d i" "m 0 = 0" for i by (simp_all add: m_def)
  have s: "?seq i = ?seq 0 + of_nat (m i)" for i
    by (induction i) (simp add: m, simp only: d(2) m of_nat_add add.assoc)
  have b: "m i \<le> i * 2 ^ 28" for i
  proof (induction i)
    case (Suc i)
    with d(1) [of i] show ?case by (simp add: m(1))
  qed (simp add: m(2))
  have "of_nat (m n) = (0 :: u32)" using s [of n] assms(4) by simp
  moreover have "m n < 2 ^ 32" using le_less_trans [OF b [of n], of "16 * 2 ^ 28"] assms(2) by simp
  ultimately have "m n = 0" by (metis unat_of_nat_u32 unat_0)
  then have z: "d i = 0" if "i < n" for i using that by (simp add: m_def)
  have "?seq i = ?seq 0 \<and> stats_of p (env_run env (k + i) st) = stats_of p (env_run env k st)" if "i \<le> n" for i
    using that by (induction i) (use assms(3) z d(2,3) in \<open>simp_all add: Suc_le_eq\<close>)
  with assms(5) show ?thesis by simp
qed

lemma stats_fields:
  "stats_of p st = \<lparr>
     ps_uart_tx_bytes = stats_uart_tx_bytes (op_stats (the (ops (ports st p))) (backend (ports st p))),
     ps_uart_rx_bytes = stats_uart_rx_bytes (op_stats (the (ops (ports st p))) (backend (ports st p))),
     ps_tx_ring_high_watermark = ucast (ring_buffer_high_watermark (the (uart_driver_tx_ring (uart_driver_port st p)))),
     ps_rx_ring_high_watermark = ucast (ring_buffer_high_watermark (the (uart_driver_rx_ring (uart_driver_port st p)))),
     ps_tx_ring_overflow_count = ring_buffer_overflow_count (the (uart_driver_tx_ring (uart_driver_port st p))),
     ps_rx_ring_overflow_count = ring_buffer_overflow_count (the (uart_driver_rx_ring (uart_driver_port st p))),
     ps_rx_ring_pending_overflow_count = ring_buffer_pending_overflow (the (uart_driver_rx_ring (uart_driver_port st p))),
     ps_rx_error_count = stats_rx_error_count (op_stats (the (ops (ports st p))) (backend (ports st p)))\<rparr>"
  by (simp add: stats_of_def read_port_stats_def Let_def)

lemma read_coherent:
  assumes "\<And>j. j \<le> 6 \<Longrightarrow> stats_of p (env_run (\<lambda>i. env (k + 1 + i)) j st) = s"
  shows "read_port_stats p env k st = (s, env_run (\<lambda>i. env (k + 1 + i)) 6 st)"
proof -
  define r where "r j = env_run (\<lambda>i. env (k + 1 + i)) j st" for j
  have run: "r 0 = st" "r 1 = env (k + 1) (r 0)" "r 2 = env (k + 2) (r 1)" "r 3 = env (k + 3) (r 2)"
    "r 4 = env (k + 4) (r 3)" "r 5 = env (k + 5) (r 4)" "r 6 = env (k + 6) (r 5)"
    by (simp_all add: r_def eval_nat_numeral)
  have f: "ring_buffer_high_watermark (the (uart_driver_tx_ring (uart_driver_port (r 1) p))) = x1 \<Longrightarrow>
      ring_buffer_high_watermark (the (uart_driver_rx_ring (uart_driver_port (r 2) p))) = x2 \<Longrightarrow>
      ring_buffer_overflow_count (the (uart_driver_tx_ring (uart_driver_port (r 3) p))) = x3 \<Longrightarrow>
      ring_buffer_overflow_count (the (uart_driver_rx_ring (uart_driver_port (r 4) p))) = x4 \<Longrightarrow>
      ring_buffer_pending_overflow (the (uart_driver_rx_ring (uart_driver_port (r 5) p))) = x5 \<Longrightarrow>
      op_stats (the (ops (ports (r 6) p))) (backend (ports (r 6) p)) = b \<Longrightarrow>
      read_port_stats p env k st = (\<lparr>ps_uart_tx_bytes = stats_uart_tx_bytes b, ps_uart_rx_bytes = stats_uart_rx_bytes b,
           ps_tx_ring_high_watermark = ucast x1, ps_rx_ring_high_watermark = ucast x2,
           ps_tx_ring_overflow_count = x3, ps_rx_ring_overflow_count = x4,
           ps_rx_ring_pending_overflow_count = x5, ps_rx_error_count = stats_rx_error_count b\<rparr>, r 6)"
    for x1 x2 x3 x4 x5 b
    by (simp only: read_port_stats_def Let_def run)
  have s: "stats_of p (r 1) = s" "stats_of p (r 2) = s" "stats_of p (r 3) = s" "stats_of p (r 4) = s"
    "stats_of p (r 5) = s" "stats_of p (r 6) = s"
    unfolding r_def by (rule assms, simp)+
  show ?thesis
    unfolding f [OF refl refl refl refl refl refl] r_def [symmetric]
    using s by (cases s) (simp add: stats_fields)
qed

inductive env_reaches :: "(nat \<Rightarrow> 's \<Rightarrow> 's) \<Rightarrow> 's \<Rightarrow> 's \<Rightarrow> bool" for env s where
  here: "env_reaches env s s"
| move: "env_reaches env s t \<Longrightarrow> env_reaches env s (env k t)"

lemma env_reaches_run: "env_reaches env s t \<Longrightarrow> env_reaches env s (env_run (\<lambda>i. env (k + i)) n t)"
  by (induction n) (auto intro: env_reaches.move)

lemma read_stats_state: "snd (read_port_stats p env k st) = env_run (\<lambda>i. env (k + 1 + i)) 6 st"
  by (simp add: read_port_stats_def Let_def eval_nat_numeral)

lemma even_and_1: "(v :: u32) AND 1 = 0 \<longleftrightarrow> \<not> bit v 0"
  by (simp add: and_one_eq bit_0 even_iff_mod_2_eq_zero)

lemma stats_loop_coherent:
  assumes "seqlock_env p env" "env_reaches env st0 st" "port_stats_loop a p env k st = (Some s, st')"
  shows "\<exists>t. env_reaches env st0 t \<and> s = stats_of p t"
  using assms(2,3)
proof (induction a arbitrary: k st)
  case (Suc a)
  let ?env = "\<lambda>i. env (k + 1 + i)" and ?t = "env k st"
  have t: "env_reaches env st0 ?t" using Suc.prems(1) by (rule env_reaches.move)
  consider "port_stats_loop a p env (k + 8) ?t = (Some s, st')"
    | "port_stats_loop a p env (k + 8) (env (k + 7) (snd (read_port_stats p env k ?t))) = (Some s, st')"
    | "fst (read_port_stats p env k ?t) = s" "\<not> bit (stats_sequence ?t p) 0"
      "stats_sequence (env (k + 7) (snd (read_port_stats p env k ?t))) p = stats_sequence ?t p"
    using Suc.prems(2) unfolding port_stats_loop.simps Let_def case_prod_beta even_and_1 [symmetric]
    by (auto simp only: prod.inject option.inject option.distinct simp_thms split: if_split_asm)
  then show ?case
  proof cases
    case 1
    with Suc.IH [OF t] show ?thesis .
  next
    case 2
    have "env_reaches env st0 (env (k + 7) (snd (read_port_stats p env k ?t)))"
      unfolding read_stats_state by (rule env_reaches.move [OF env_reaches_run [OF t]])
    with Suc.IH 2 show ?thesis by blast
  next
    case 3
    have "seqlock_env p ?env" using assms(1) by (simp add: seqlock_env_def)
    moreover have "env (k + 7) (snd (read_port_stats p env k ?t)) = env_run ?env 7 ?t"
      unfolding read_stats_state by (simp add: eval_nat_numeral)
    ultimately have "stats_of p (env_run ?env (0 + j) ?t) = stats_of p (env_run ?env 0 ?t)" if "j \<le> 7" for j
      using seqlock_still [of p ?env 7 0 ?t j] 3(2,3) that by simp
    then have "read_port_stats p env k ?t = (stats_of p ?t, env_run ?env 6 ?t)"
      by (intro read_coherent) simp
    with 3(1) t show ?thesis by auto
  qed
qed simp

text \<open>C15: A statistics snapshot is coherent. While the worker keeps polling and updating, a call of
  \<open>uart_driver_port_stats\<close> that succeeds returns counters that the port had all together in one state the
  system went through during the call, never a mixture of two updates; a call that fails leaves the output untouched.\<close>

theorem port_stats_coherent:
  fixes st :: "('b, 'z) uart_driver_state_t_scheme"
  assumes "seqlock_env p env" "uart_driver_port_stats p env (Some old) st = (ok, out, st')"
  shows "(ok \<longrightarrow> (\<exists>t. env_reaches env st t \<and> out = Some (stats_of p t))) \<and> (\<not> ok \<longrightarrow> out = Some old)"
  using assms(2) stats_loop_coherent [OF assms(1) env_reaches.here [of env st]]
  unfolding uart_driver_port_stats_def Let_def
  by (auto split: if_splits prod.splits option.splits)

text \<open>The worker updates the port once, between the third and the fourth read.\<close>

definition demo_update :: "nat \<Rightarrow> demo_port uart_driver_state_t \<Rightarrow> demo_port uart_driver_state_t" where
  "demo_update k st = (if k = 2 then bump_stats 1 (bump_stats 1 st) else st)"

theorem port_stats_witness:
  "\<exists>old s st'. uart_driver_port_stats 1 demo_update (Some old) demo_ready = (True, Some s, st') \<and>
     (\<exists>t. env_reaches demo_update demo_ready t \<and> s = stats_of 1 t)"
proof -
  let ?old = "\<lparr>ps_uart_tx_bytes = 0, ps_uart_rx_bytes = 0, ps_tx_ring_high_watermark = 0, ps_rx_ring_high_watermark = 0,
    ps_tx_ring_overflow_count = 0, ps_rx_ring_overflow_count = 0, ps_rx_ring_pending_overflow_count = 0,
    ps_rx_error_count = 0\<rparr>"
  let ?up = "bump_stats 1 (bump_stats 1 demo_ready)"
  have seq: "seqlock_env 1 demo_update"
    unfolding seqlock_env_def demo_update_def
    by (auto intro: exI [of _ 2] exI [of _ 0] simp: bump_stats_def)
  have p: "(1 :: u32) < UART_PORT_COUNT" by (simp add: word_less_nat_alt)
  have r: "ops (ports ?up 1) = Some demo_ops" "backend (ports ?up 1) = demo_port0" "stats_sequence ?up 1 = 2"
      "stats_sequence demo_ready 1 = 0"
    by (simp_all add: bump_stats_def demo_ready_def put_defs demo_boot_def)
  have "fst (uart_driver_port_stats 1 demo_update (Some ?old) demo_ready)"
    by (simp add: uart_driver_port_stats_def Let_def eval_nat_numeral case_prod_beta
      read_port_stats_def demo_update_def r demo_ready_simps uart_driver_rx_ring_def uart_driver_tx_ring_def
      uart_driver_port_def p demo_ops_def demo_port0_def demo_ring_def split: option.split)
  then obtain out st' where *: "uart_driver_port_stats 1 demo_update (Some ?old) demo_ready = (True, out, st')"
    by (metis prod.collapse)
  from port_stats_coherent [OF seq this] * show ?thesis by auto
qed

end
