(* ===== verification/Backend_Contract.thy ===== *)
theory Backend_Contract
  imports Control_Service
begin

text \<open>
  The interface between the port facade and a UART backend: the laws the code relies on of every
  operation table, as a locale, and what the worker's passes guarantee from them alone: a port that
  reports \<open>READY\<close> has a running backend. The backends' theories interpret the locale on their tables.
\<close>

locale backend_contract =
  fixes backend_ops :: "'b uart_backend_ops_t"
  assumes deinit_stops: "\<not> op_is_initialized backend_ops (op_deinit backend_ops b)"
    and init_starts: "op_init backend_ops b = (True, b') \<Longrightarrow> op_is_initialized backend_ops b'"
    and restart_starts: "op_restart backend_ops b = (True, b') \<Longrightarrow> op_is_initialized backend_ops b'"
    and poll_keeps: "op_is_initialized backend_ops (op_poll backend_ops b launch) = op_is_initialized backend_ops b"
    and baseline_keeps:
      "op_is_initialized backend_ops (op_clear_rx_error_baseline backend_ops b) = op_is_initialized backend_ops b"
    and staging_keeps: "\<not> op_is_initialized backend_ops b \<Longrightarrow>
      \<not> op_is_initialized backend_ops (snd (op_set_line_coding backend_ops b lc))"
    and apply_keeps: "op_is_initialized backend_ops b \<Longrightarrow> op_set_line_coding backend_ops b lc = (True, b') \<Longrightarrow>
      op_is_initialized backend_ops b'"
    and put_rings: "op_rx_ring backend_ops (op_put_rx_ring backend_ops r b) = Some r"
      "op_tx_ring backend_ops (op_put_tx_ring backend_ops r b) = Some r"
      "op_is_initialized backend_ops (op_put_rx_ring backend_ops r b) = op_is_initialized backend_ops b"
      "op_is_initialized backend_ops (op_put_tx_ring backend_ops r b) = op_is_initialized backend_ops b"

definition ready_runs :: "'b uart_backend_ops_t \<Rightarrow> uart_port_id_t \<Rightarrow> ('b, 'z) uart_control_plane_t_scheme \<Rightarrow> bool" where
  "ready_runs o' p st \<longleftrightarrow> ops (ports st p) = Some o' \<and>
     (bit (status_flags st p) 0 \<longrightarrow> op_is_initialized o' (backend (ports st p)))"

lemma ready_runs_same: "same_port p st st' \<Longrightarrow> ready_runs o' p st \<Longrightarrow> ready_runs o' p st'"
  by (simp add: ready_runs_def same_port_def)

lemma ready_runs_cong:
  assumes "ops (ports st' p) = ops (ports st p)" "backend (ports st' p) = backend (ports st p)"
    "bit (status_flags st' p) 0 \<Longrightarrow> bit (status_flags st p) 0" "ready_runs o' p st"
  shows "ready_runs o' p st'"
  using assms by (auto simp: ready_runs_def)

text \<open>What a mailbox pass leaves of the port.\<close>

lemma finish_mailbox_frame:
  "ops (ports (uart_control_plane_finish_mailbox_control clk q g ok d wg c err s) p) = ops (ports s p)"
  "backend (ports (uart_control_plane_finish_mailbox_control clk q g ok d wg c err s) p) = backend (ports s p)"
  "bit (status_flags (uart_control_plane_finish_mailbox_control clk q g ok d wg c err s) p) 0 = bit (status_flags s p) 0"
  by (auto simp: worker_defs rule_defs put_defs bit_simps Let_def)

lemma request_frame:
  assumes "uart_control_plane_set_line_coding clk r prior st = st'"
  shows "ops (ports st' p) = ops (ports st p)" "backend (ports st' p) = backend (ports st p)"
    "bit (status_flags st' p) 0 = bit (status_flags st p) 0"
proof -
  have adopt: "ports (uart_control_plane_set_worker_pending q g s) = ports s"
    "bit (status_flags (uart_control_plane_set_worker_pending q g s) p) 0 = bit (status_flags s p) 0"
    for q g and s :: "('a, 'b) uart_control_plane_t_scheme"
    by (auto simp: worker_defs rule_defs put_defs bit_simps Let_def)
  have put: "ports (put_pending q v s) = ports s" "status_flags (put_pending q v s) = status_flags s"
    "status_flags (put_port q x s) = status_flags s"
    "ops (ports (put_port q (set_info_coding lc (ports s q)) s) p) = ops (ports s p)"
    "backend (ports (put_port q (set_info_coding lc (ports s q)) s) p) = backend (ports s p)"
    for q v x lc and s :: "('a, 'b) uart_control_plane_t_scheme"
    by (simp_all add: put_defs set_info_coding_def)
  show "ops (ports st' p) = ops (ports st p)" "backend (ports st' p) = backend (ports st p)"
    "bit (status_flags st' p) 0 = bit (status_flags st p) 0"
    unfolding assms [symmetric] uart_control_plane_set_line_coding_def clock_step case_prod_beta
    by (simp_all add: finish_mailbox_frame adopt put split: option.split)
qed

lemma mailbox_frame:
  "ops (ports (plane_service_mailbox clk q st) p) = ops (ports st p)"
  "backend (ports (plane_service_mailbox clk q st) p) = backend (ports st p)"
  "bit (status_flags (plane_service_mailbox clk q st) p) 0 = bit (status_flags st p) 0"
proof -
  let ?take = "snd (snd (plane_take_locked q st))"
  have t: "ports ?take = ports st" "status_flags ?take = status_flags st"
    by (simp_all add: plane_take_locked_def Let_def case_prod_beta put_defs)
  have n: "ports (note_load c s) = ports s" "status_flags (note_load c s) = status_flags s"
    for c and s :: "('a, 'b) uart_control_plane_t_scheme" by (simp_all add: note_load_def)
  show "ops (ports (plane_service_mailbox clk q st) p) = ops (ports st p)"
    "backend (ports (plane_service_mailbox clk q st) p) = backend (ports st p)"
    "bit (status_flags (plane_service_mailbox clk q st) p) 0 = bit (status_flags st p) 0"
    unfolding plane_service_mailbox_def Let_def case_prod_beta
    using request_frame [OF refl, where p = p and clk = clk and st = "note_load 1 ?take"]
    by (simp_all add: finish_mailbox_frame t n split: option.split)
qed

section \<open>Passes over other ports\<close>

lemma same_port_driver [same_port]:
  fixes st :: "('b, 'z) uart_driver_state_t_scheme"
  assumes "same_port p st0 st"
  shows "same_port p st0 (put_lifecycle q v st)"
  using assms by (simp add: same_port_def put_lifecycle_def)

lemma same_port_start:
  fixes st :: "('b, 'z) uart_control_plane_t_scheme"
  assumes "same_port p st0 st" "q \<noteq> p"
  shows "same_port p st0 (snd (uart_control_plane_start_port clk q st))"
proof -
  have "same_port p st0 (snd (snd (start_take_locked q st)))"
    using assms by (simp add: start_take_locked_def Let_def case_prod_beta same_port)
  then show ?thesis
    using assms by (simp add: uart_control_plane_start_port_def Let_def case_prod_beta same_port split: option.split)
qed

lemma same_port_lifecycle:
  fixes st :: "('b, 'z) uart_driver_state_t_scheme"
  assumes "same_port p st0 st" "q \<noteq> p"
  shows "same_port p st0 (service_port_lifecycle clk q st)"
proof -
  have d: "same_port p st0 (lifecycle_deinit q st)"
    using assms by (simp add: lifecycle_deinit_def uart_driver_begin_port_stats_update_def
        uart_driver_end_port_stats_update_def Let_def same_port split: option.split)
  have s: "same_port p st0 (lifecycle_stop_locked q s)" if "same_port p st0 s" for s :: "('b, 'z) uart_driver_state_t_scheme"
    using that assms(2) by (simp add: lifecycle_stop_locked_def Let_def same_port)
  have g: "same_port p st0 (snd (lifecycle_start_locked q s))" if "same_port p st0 s" for s :: "('b, 'z) uart_driver_state_t_scheme"
    using that by (simp add: lifecycle_start_locked_def same_port)
  have r: "same_port p st0 (snd (lifecycle_start clk q s))" if "same_port p st0 s" for s :: "('b, 'z) uart_driver_state_t_scheme"
    using that assms(2)
    by (simp add: lifecycle_start_def uart_driver_begin_port_stats_update_def uart_driver_end_port_stats_update_def
        Let_def case_prod_beta same_port same_port_start split: option.split)
  have b: "same_port p st0 (lifecycle_publish_locked q ok s)" if "same_port p st0 s" for ok and s :: "('b, 'z) uart_driver_state_t_scheme"
    using that assms(2) by (simp add: lifecycle_publish_locked_def Let_def same_port)
  show ?thesis
    using assms(1) by (simp add: service_port_lifecycle_def Let_def case_prod_beta d s g r b split: option.split)
qed

lemma same_port_poll:
  fixes st :: "('b, 'z) uart_driver_state_t_scheme"
  assumes "same_port p st0 st" "q \<noteq> p"
  shows "same_port p st0 (poll_port_io q st)"
  using assms by (simp add: poll_port_io_def uart_driver_begin_port_stats_update_def uart_driver_end_port_stats_update_def
      Let_def same_port split: option.split)

section \<open>Ready means running\<close>

context backend_contract
begin

lemma pending_pass:
  fixes st :: "('b, 'z) uart_control_plane_t_scheme"
  assumes "p < UART_PORT_COUNT" "ready_runs backend_ops p st"
  shows "ready_runs backend_ops p (uart_control_plane_service_pending clk p st)"
proof -
  have fin: "ready_runs backend_ops p (uart_control_plane_finish_worker_control clk p g ok applied err s)"
    if "ready_runs backend_ops p s" for g ok applied err and s :: "('b, 'z) uart_control_plane_t_scheme"
    using that finish_worker_effect(2,3,6) [OF assms(1) refl, of clk g ok applied err s] by (simp add: ready_runs_def)
  have clock: "ready_runs backend_ops p (s\<lparr>clock_reads := n\<rparr>) = ready_runs backend_ops p s"
    for n and s :: "('b, 'z) uart_control_plane_t_scheme" by (simp add: ready_runs_def)
  let ?s = "st\<lparr>clock_reads := Suc (clock_reads st)\<rparr>"
  let ?r = "op_set_line_coding backend_ops (backend (ports st p)) (Some (pending_line_coding (pending_controls st p)))"
  have o': "ops (ports st p) = Some backend_ops" using assms(2) by (simp add: ready_runs_def)
  have ok: "fst ?r \<Longrightarrow> ready_runs backend_ops p (put_backend p (snd ?r) (note_load 1 ?s))"
    using assms(2) apply_keeps [of "backend (ports st p)" _ "snd ?r"]
    by (auto simp: ready_runs_def put_defs note_load_def prod_eq_iff)
  have stopped: "ready_runs backend_ops p (backend_stopped_locked p (put_backend p b (note_load 1 ?s)))" for b
    using o' by (simp add: ready_runs_def backend_stopped_locked_def put_defs note_load_def bit_simps Let_def)
  have still: "op_is_initialized backend_ops (snd ?r) \<Longrightarrow> ready_runs backend_ops p (put_backend p (snd ?r) (note_load 1 ?s))"
    using o' by (simp add: ready_runs_def put_defs note_load_def)
  have ports: "ports (note_load 1 ?s) p = ports st p" by (simp add: note_load_def)
  show ?thesis
    unfolding uart_control_plane_service_pending_def clock_step case_prod_beta
    using assms(2) ok stopped still
    by (simp add: o' fin clock ports)
qed

lemma deferred_pass:
  assumes "p < UART_PORT_COUNT" "ready_runs backend_ops p st"
  shows "ready_runs backend_ops p (plane_service_deferred clk q st)"
proof (cases "q = p")
  case True
  have bump: "ready_runs backend_ops p (bump_stats r s) = ready_runs backend_ops p s"
    for r and s :: "('b, 'c) uart_control_plane_t_scheme" by (simp add: ready_runs_def bump_stats_def)
  show ?thesis
    unfolding True using assms pending_pass [OF assms(1), of "bump_stats p st"]
    by (simp add: plane_service_deferred_def bump)
next
  case False
  show ?thesis by (rule ready_runs_same [OF same_port_deferred [OF same_port_refl False] assms(2)])
qed

lemma mailbox_pass:
  "ready_runs backend_ops p st \<Longrightarrow> ready_runs backend_ops p (plane_service_mailbox clk q st)"
  by (rule ready_runs_cong [where st = st]) (simp_all add: mailbox_frame)

lemma lifecycle_pass:
  fixes st :: "('b, 'z) uart_driver_state_t_scheme"
  assumes "p < UART_PORT_COUNT" "ready_runs backend_ops p st"
  shows "ready_runs backend_ops p (service_port_lifecycle clk q st)"
proof (cases "q = p")
  case False
  show ?thesis by (rule ready_runs_same [OF same_port_lifecycle [OF same_port_refl False] assms(2)])
next
  case True
  have o': "ops (ports st p) = Some backend_ops" using assms(2) by (simp add: ready_runs_def)
  have deinit: "ops (ports (lifecycle_deinit p st) p) = Some backend_ops"
    using deinit_effect(1) [OF o' refl] .
  have stop: "ready_runs backend_ops p (lifecycle_stop_locked p (lifecycle_deinit p st))"
    using stop_effect [OF refl, of p "lifecycle_deinit p st"] deinit by (simp add: ready_runs_def)
  have go: "ready_runs backend_ops p (snd (lifecycle_start_locked p s)) = ready_runs backend_ops p s"
    for s :: "('b, 'z) uart_driver_state_t_scheme"
    by (simp add: lifecycle_start_locked_def ready_runs_def put_lifecycle_def)
  have started: "ready_runs backend_ops p (lifecycle_publish_locked p (fst (lifecycle_start clk p s)) (snd (lifecycle_start clk p s)))"
    if "ready_runs backend_ops p s" "\<not> stop_pending (lifecycle s p)" "\<not> start_pending (lifecycle s p)"
    for s :: "('b, 'z) uart_driver_state_t_scheme"
  proof -
    let ?s = "bump_stats p s"
    obtain ok s3 where s3: "uart_control_plane_start_port clk p ?s = (ok, s3)" by fastforce
    have b: "ops (ports ?s p) = Some backend_ops" using that(1) by (simp add: ready_runs_def bump_stats_def)
    note eff = start_port_effect [OF assms(1) b s3]
    have run: "ok \<Longrightarrow> op_is_initialized backend_ops (backend (ports s3 p))"
      using eff(5) restart_starts by blast
    have life: "lifecycle s3 p = lifecycle s p"
      using start_port_lifecycle [of clk p ?s] s3 by (simp add: bump_stats_def)
    let ?s4 = "bump_stats p (if ok then put_backend p (op_clear_rx_error_baseline backend_ops (backend (ports s3 p))) s3 else s3)"
    have "lifecycle_start clk p s = (ok, ?s4)"
      using that(1) eff(1) s3 by (simp add: ready_runs_def lifecycle_start_def uart_driver_begin_port_stats_update_def
          uart_driver_end_port_stats_update_def)
    moreover have "ready_runs backend_ops p (lifecycle_publish_locked p ok ?s4)"
      using run life that(2,3) eff(1) baseline_keeps
      by (auto simp: ready_runs_def lifecycle_publish_locked_def put_defs Let_def bit_simps)
    ultimately show ?thesis by simp
  qed
  have begun: "\<not> stop_pending (lifecycle (snd (lifecycle_start_locked p s)) p) \<and>
      \<not> start_pending (lifecycle (snd (lifecycle_start_locked p s)) p)"
    if "fst (lifecycle_start_locked p s)" for s :: "('b, 'z) uart_driver_state_t_scheme"
    using that by (simp add: lifecycle_start_locked_def put_lifecycle_def split: if_splits)
  show ?thesis
    unfolding True service_port_lifecycle_def case_prod_beta Let_def
    using assms(2) stop go started begun by (simp split: option.split)
qed

lemma poll_pass:
  assumes "ready_runs backend_ops p st"
  shows "ready_runs backend_ops p (poll_port_io q st)"
proof (cases "q = p")
  case False
  show ?thesis by (rule ready_runs_same [OF same_port_poll [OF same_port_refl False] assms])
next
  case True
  with assms poll_keeps show ?thesis
    by (auto simp: poll_port_io_def ready_runs_def uart_driver_begin_port_stats_update_def
        uart_driver_end_port_stats_update_def put_defs Let_def)
qed

lemma sweep_keeps:
  fixes st :: "('b, 'z) uart_driver_state_t_scheme"
  assumes "p < UART_PORT_COUNT" "ready_runs backend_ops p st"
  shows "ready_runs backend_ops p (uart_driver_poll_io (uart_driver_worker_service_control clk st))"
proof -
  have l: "ready_runs backend_ops p (uart_driver_service_channel_lifecycle clk st)"
    unfolding uart_driver_service_channel_lifecycle_def
    by (rule fold_keeps [where P = "ready_runs backend_ops p", OF _ assms(2)]) (rule lifecycle_pass [OF assms(1)])
  have c: "ready_runs backend_ops p (uart_control_plane_service clk s)" if "ready_runs backend_ops p s"
    for s :: "('b, 'z) uart_driver_state_t_scheme"
    unfolding uart_control_plane_service_def Let_def
    using that by (auto intro!: fold_keeps [where P = "ready_runs backend_ops p"] mailbox_pass deferred_pass [OF assms(1)])
  have i: "ready_runs backend_ops p (uart_driver_poll_io s)" if "ready_runs backend_ops p s"
    for s :: "('b, 'z) uart_driver_state_t_scheme"
  proof -
    have "ready_runs backend_ops p (fold (\<lambda>offset st. poll_port_io ((poll_start_index st + offset) mod UART_PORT_COUNT) st) all_ports s)"
      by (rule fold_keeps [where P = "ready_runs backend_ops p", OF _ that]) (rule poll_pass)
    then show ?thesis by (simp add: uart_driver_poll_io_def ready_runs_def Let_def)
  qed
  show ?thesis unfolding uart_driver_worker_service_control_def by (intro i c l)
qed

end

end
