(* ===== verification/Sdk.thy ===== *)
theory Sdk
  imports Dma_Progress Service_Load
begin

text \<open>
  The boundary to the Pico SDK and the hardware. Every register access and SDK call the UART backends
  make is a value of \<open>sdk_call\<close>; what it does to an arbitrary hardware state \<open>'h\<close> and what it returns is the
  parameter \<open>sdk\<close> of the backend models, together with the chip and the SDK's encoding of a transfer count. Reads are calls
  too, so that time may pass and the engines may run between any two of them. Results that are not
  32-bit numbers are encoded in one: a truth value is nonzero, a signed channel number is its two's complement.
\<close>

datatype uart_parity_t = UART_PARITY_NONE | UART_PARITY_EVEN | UART_PARITY_ODD

datatype gpio_function_t = GPIO_FUNC_UART | GPIO_FUNC_SIO | GPIO_FUNC_NULL

text \<open>
  The two PIO blocks, the three programs of \<open>uart.pio\<close>, and a state machine's configuration as the SDK's
  setters build it. A clock divider is a single-precision quotient the model does not evaluate: it keeps the
  operands, the system clock, the clocks per bit and the rate.
\<close>

datatype pio_t = PIO0 | PIO1

datatype pio_program_t = PIO_UART_TX_PROGRAM | PIO_UART_TX_CTS_PROGRAM | PIO_UART_RX_PROGRAM

datatype pio_fifo_join_t = PIO_FIFO_JOIN_TX | PIO_FIFO_JOIN_RX

type_synonym clkdiv_t = "u32 \<times> u32 \<times> u32"

record pio_sm_config =
  smc_program :: pio_program_t
  smc_offset :: u32
  smc_out_pins :: "(u32 \<times> u32) option"
  smc_sideset_pin :: "u32 option"
  smc_out_shift :: "(bool \<times> bool \<times> u32) option"
  smc_in_pin :: "u32 option"
  smc_jmp_pin :: "u32 option"
  smc_in_shift :: "(bool \<times> bool \<times> u32) option"
  smc_fifo_join :: pio_fifo_join_t
  smc_clkdiv :: clkdiv_t

datatype sdk_call =
    Clock_peri_hz
  | Uart_init u32 u32
  | Uart_deinit u32
  | Uart_set_hw_flow u32 bool bool
  | Uart_set_format u32 u8 u8 uart_parity_t
  | Uart_set_fifo_enabled u32 bool
  | Uart_is_readable u32
  | Uart_fr_busy u32
  | Uart_rsr u32
  | Uart_clear_rsr u32
  | Gpio_put u32 bool
  | Gpio_set_function u32 gpio_function_t
  | Gpio_set_dir_out u32
  | Gpio_set_slew_rate_fast u32
  | Gpio_set_drive_12ma u32
  | Gpio_pull_down u32
  | Gpio_disable_pulls u32
  | Dma_claim_unused bool
  | Dma_unclaim u32
  | Dma_is_busy u32
  | Dma_abort u32
  | Dma_transfer_count u32
  | Dma_set_trans_count u32 u32
  | Dma_set_read_addr u32 size_t
  | Dma_clear_en u32
  | Dma_set_en u32
  | Dma_configure_uart_rx u32 u32 u32 u32
  | Dma_configure_uart_tx u32 u32
  | Dma_configure_pio_rx u32 pio_t u32 u32 u32
  | Dma_configure_pio_tx u32 pio_t u32
  | Dma_irq_status u32 u32
  | Dma_irq_acknowledge u32 u32
  | Dma_irq_set_enabled u32 u32 bool
  | Irq_install_dma_handler u32
  | Save_and_disable_interrupts
  | Restore_interrupts u32
  | Busy_wait_us u32
  | Passes_before_deadline_us u32
  | Clock_sys_hz
  | Gpio_get u32
  | Gpio_deinit u32
  | Gpio_pull_up u32
  | Pio_gpio_init pio_t u32
  | Pio_set_input_sync_bypass pio_t u32 u32
  | Pio_can_add_program pio_t pio_program_t
  | Pio_add_program pio_t pio_program_t
  | Pio_sm_is_claimed pio_t u32
  | Pio_sm_claim pio_t u32
  | Pio_sm_unclaim pio_t u32
  | Pio_sm_set_enabled pio_t u32 bool
  | Pio_sm_clear_fifos pio_t u32
  | Pio_sm_restart pio_t u32
  | Pio_sm_init pio_t u32 u32 pio_sm_config
  | Pio_sm_set_clkdiv pio_t u32 clkdiv_t
  | Pio_clkdiv_restart_sm_mask pio_t u32
  | Pio_sm_set_consecutive_pindirs pio_t u32 u32 u32 bool
  | Pio_sm_set_pins_with_mask pio_t u32 u32 u32
  | Pio_sm_get_pc pio_t u32
  | Pio_sm_put pio_t u32 u8
  | Pio_sm_get_tx_fifo_level pio_t u32
  | Pio_sm_is_tx_fifo_empty pio_t u32
  | Pio_sm_is_rx_fifo_empty pio_t u32
  | Pio_interrupt_get pio_t u32
  | Pio_interrupt_clear pio_t u32
  | Pio_fdebug pio_t
  | Pio_set_fdebug pio_t u32

definition num_dma_channels :: "pico_target \<Rightarrow> nat" where
  "num_dma_channels c = (case c of RP2040 \<Rightarrow> 12 | RP2350 \<Rightarrow> 16)"

record 'h platform =
  sdk :: "sdk_call \<Rightarrow> 'h \<Rightarrow> u32 \<times> 'h"
  chip :: pico_target
  dma_encode_transfer_count :: "u32 \<Rightarrow> u32"

text \<open>
  A backend instance with what it touches: its own driver record \<open>'d\<close>, the hardware, and the load
  meter of the worker's core.
\<close>

record ('d, 'h) device =
  driver :: 'd
  hw :: 'h
  meter :: service_load_t

definition call :: "'h platform \<Rightarrow> sdk_call \<Rightarrow> ('d, 'h, 'z) device_scheme \<Rightarrow> u32 \<times> ('d, 'h, 'z) device_scheme" where
  "call P c w = (fst (sdk P c (hw w)), w\<lparr>hw := snd (sdk P c (hw w))\<rparr>)"

definition run :: "'h platform \<Rightarrow> sdk_call \<Rightarrow> ('d, 'h, 'z) device_scheme \<Rightarrow> ('d, 'h, 'z) device_scheme" where
  "run P c w = snd (call P c w)"

definition ask :: "'h platform \<Rightarrow> sdk_call \<Rightarrow> ('d, 'h, 'z) device_scheme \<Rightarrow> bool \<times> ('d, 'h, 'z) device_scheme" where
  "ask P c w = (fst (call P c w) \<noteq> 0, snd (call P c w))"

definition drv :: "('d \<Rightarrow> 'd) \<Rightarrow> ('d, 'h, 'z) device_scheme \<Rightarrow> ('d, 'h, 'z) device_scheme" where
  "drv f w = w\<lparr>driver := f (driver w)\<rparr>"

definition note_work :: "('d, 'h, 'z) device_scheme \<Rightarrow> ('d, 'h, 'z) device_scheme" where
  "note_work w = w\<lparr>meter := service_load_note (meter w) 1\<rparr>"

lemmas device_defs = call_def run_def ask_def drv_def note_work_def

section \<open>DMA progress over the boundary\<close>

abbreviation UART_DMA_RX_PAUSE_SETTLE_FLOOR_US :: u32 where "UART_DMA_RX_PAUSE_SETTLE_FLOOR_US \<equiv> 5"
abbreviation UART_DMA_RX_PAUSE_SETTLE_TIMEOUT_US :: u32 where "UART_DMA_RX_PAUSE_SETTLE_TIMEOUT_US \<equiv> 50"
abbreviation UART_DMA_RX_PAUSE_SETTLE_GRACE_US :: u32 where "UART_DMA_RX_PAUSE_SETTLE_GRACE_US \<equiv> 2"

text \<open>The register reads of \<open>uart/dma/progress.h\<close> as calls.\<close>

definition dma_remaining :: "'h platform \<Rightarrow> u32 \<Rightarrow> ('d, 'h, 'z) device_scheme \<Rightarrow>
    u32 \<times> ('d, 'h, 'z) device_scheme" where
  "dma_remaining P channel w =
     (let (raw, w) = call P (Dma_transfer_count channel) w
      in (uart_dma_rx_transfer_count_remaining (chip P) raw, w))"

definition dma_progress :: "'h platform \<Rightarrow> u32 \<Rightarrow> ('d, 'h, 'z) device_scheme \<Rightarrow>
    u32 \<times> ('d, 'h, 'z) device_scheme" where
  "dma_progress P channel w =
     (let (raw, w) = call P (Dma_transfer_count channel) w in (uart_dma_rx_progress (chip P) raw, w))"

text \<open>
  \<open>uart_dma_rx_wait_paused_progress_stable\<close> on the hardware: the deadline ends the loop after the number of passes
  the clock allows, which is the answer to \<open>Passes_before_deadline_us\<close>.
\<close>

primrec settle_loop :: "'h platform \<Rightarrow> u32 \<Rightarrow> nat \<Rightarrow> u32 \<Rightarrow> u32 \<Rightarrow> ('d, 'h, 'z) device_scheme \<Rightarrow>
    bool \<times> ('d, 'h, 'z) device_scheme" where
  "settle_loop P channel 0 last_sample streak w =
     (let w = run P (Busy_wait_us UART_DMA_RX_PAUSE_SETTLE_GRACE_US) w;
          (now, w) = dma_remaining P channel w;
          (stabilized, _, _) = uart_dma_rx_paused_progress_sample now (Some last_sample) (Some streak)
                                 UART_DMA_RX_PAUSE_STABLE_SAMPLES
      in (uart_dma_rx_pause_progress_publishable stabilized, w))"
| "settle_loop P channel (Suc passes) last_sample streak w =
     (let (now, w) = dma_remaining P channel w;
          (done_now, last_sample', streak') =
            uart_dma_rx_paused_progress_sample now (Some last_sample) (Some streak) UART_DMA_RX_PAUSE_STABLE_SAMPLES
      in if done_now then (uart_dma_rx_pause_progress_publishable True, w)
         else settle_loop P channel passes (the last_sample') (the streak') w)"

definition dma_wait_paused :: "'h platform \<Rightarrow> u32 \<Rightarrow> ('d, 'h, 'z) device_scheme \<Rightarrow>
    bool \<times> ('d, 'h, 'z) device_scheme" where
  "dma_wait_paused P channel w =
     (let w = run P (Busy_wait_us UART_DMA_RX_PAUSE_SETTLE_FLOOR_US) w;
          (last_sample, w) = dma_remaining P channel w;
          (passes, w) = call P (Passes_before_deadline_us UART_DMA_RX_PAUSE_SETTLE_TIMEOUT_US) w
      in settle_loop P channel (unat passes) last_sample 0 w)"

end
