(* ===== verification/Hw_Uart.thy ===== *)
theory Hw_Uart
  imports Sdk Control_State Baud_Rate Backend_Policy
begin

text \<open>
  The hardware UART backend: \<open>uart/hw/hw_uart_driver.c\<close>, \<open>uart/hw/dma_claim.c\<close>,
  \<open>uart/hw/hw_uart_backend.c\<close> and the two HW entries of \<open>uart/hw/hw_uart_board_config.c\<close>. Every SDK call
  and register access is one \<open>sdk_call\<close>, in the order of the code. The context pointer of the operations
  is the instance and never null. \<open>uart_board_ports\<close> is one table, and the descriptor of a port
  is recognised by its contents instead of its address.
\<close>

abbreviation UART_DRIVER_PIN_UNASSIGNED :: u32 where "UART_DRIVER_PIN_UNASSIGNED \<equiv> UINT32_MAX"
abbreviation HW_UART_DRIVER_RX_DMA_IRQ_INDEX :: u32 where "HW_UART_DRIVER_RX_DMA_IRQ_INDEX \<equiv> 0"
abbreviation HW_UART_DRIVER_TX_DMA_BUDGET_MS :: u32 where "HW_UART_DRIVER_TX_DMA_BUDGET_MS \<equiv> 25"
abbreviation PICO_UART_HW_UART_RX_BUFFER_SIZE :: u32 where "PICO_UART_HW_UART_RX_BUFFER_SIZE \<equiv> 4096"
abbreviation PICO_UART_HW_UART_TX_BUFFER_SIZE :: u32 where "PICO_UART_HW_UART_TX_BUFFER_SIZE \<equiv> 4096"

section \<open>State\<close>

record hw_uart_driver_config_t =
  cfg_port :: "uart_driver_port_info_t option"
  cfg_instance :: "u32 option"
  cfg_hardware_flow_control :: bool

record hw_uart_driver_t =
  hw_config :: "hw_uart_driver_config_t option"
  hw_baud_rate :: u32
  hw_data_bits :: u8
  hw_stop_bits :: u8
  hw_parity :: uart_parity_t
  hw_initialized :: bool
  hw_rx_dma_channel :: int
  hw_tx_dma_channel :: int
  hw_tx_dma_bytes_in_flight :: size_t
  hw_tx_active :: bool
  hw_rx_rts_asserted :: bool
  hw_uart_tx_bytes :: u32
  hw_uart_rx_bytes :: u32
  hw_rx_error_count :: u32
  hw_rx_dma_last_progress :: u32
  hw_rx_ring :: ring_buffer_t
  hw_tx_ring :: ring_buffer_t
  hw_rx_storage :: "u8 list option"
  hw_rx_storage_address :: u32
  hw_tx_storage :: "u8 list"

text \<open>
  The statics of the file: the interrupt owners, each with the one field the handler reads of it, its RX
  channel, and whether the shared handler is installed.
\<close>

record 'h hw_device = "(hw_uart_driver_t, 'h) device" +
  hw_uart_driver_rx_irq_owners :: "u32 \<Rightarrow> int option"
  hw_uart_driver_rx_dma_irq_installed :: bool

definition put_owner :: "int \<Rightarrow> int option \<Rightarrow> 'h hw_device \<Rightarrow> 'h hw_device" where
  "put_owner ch owner w =
     w\<lparr>hw_uart_driver_rx_irq_owners := (hw_uart_driver_rx_irq_owners w)(of_int ch := owner)\<rparr>"

definition hw_instance :: "'h hw_device \<Rightarrow> u32" where
  "hw_instance w = the (cfg_instance (the (hw_config (driver w))))"

definition hw_flow :: "'h hw_device \<Rightarrow> bool" where
  "hw_flow w = cfg_hardware_flow_control (the (hw_config (driver w)))"

definition hw_pins :: "'h hw_device \<Rightarrow> uart_driver_port_info_t" where
  "hw_pins w = the (cfg_port (the (hw_config (driver w))))"

definition hw_rx_channel :: "'h hw_device \<Rightarrow> u32" where
  "hw_rx_channel w = of_int (hw_rx_dma_channel (driver w))"

definition hw_tx_channel :: "'h hw_device \<Rightarrow> u32" where
  "hw_tx_channel w = of_int (hw_tx_dma_channel (driver w))"

lemmas hw_access = hw_instance_def hw_flow_def hw_pins_def hw_rx_channel_def hw_tx_channel_def put_owner_def

section \<open>Claiming the DMA channels\<close>

text \<open>\<open>ops->claim_channel(false)\<close> and \<open>ops->unclaim_channel\<close> of the production table.\<close>

definition hw_uart_driver_claim_dma_channels ::
    "'h platform \<Rightarrow> int option \<Rightarrow> int option \<Rightarrow> ('d, 'h, 'z) device_scheme \<Rightarrow>
       bool \<times> int option \<times> int option \<times> ('d, 'h, 'z) device_scheme" where
  "hw_uart_driver_claim_dma_channels P rx_dma_channel tx_dma_channel w =
     (if rx_dma_channel = None \<or> tx_dma_channel = None then (False, rx_dma_channel, tx_dma_channel, w)
      else let (rx, w) = call P (Dma_claim_unused False) w
           in if sint rx < 0 then (False, Some (sint rx), Some (-1), w)
              else let (tx, w) = call P (Dma_claim_unused False) w
                   in if sint tx < 0 then (False, Some (-1), Some (sint tx), run P (Dma_unclaim rx) w)
                      else (True, Some (sint rx), Some (sint tx), w))"

section \<open>Line format\<close>

definition hw_uart_driver_configure_uart :: "'h platform \<Rightarrow> 'h hw_device \<Rightarrow> bool \<times> 'h hw_device" where
  "hw_uart_driver_configure_uart P w =
     (let (peripheral_hz, w) = call P Clock_peri_hz w
      in if \<not> fst (hw_uart_baud_rate_supported (hw_baud_rate (driver w)) peripheral_hz (Some 0)) then (False, w)
         else let (rate, w) = call P (Uart_init (hw_instance w) (hw_baud_rate (driver w))) w;
                  w = drv (hw_baud_rate_update (\<lambda>_. rate)) w;
                  w = run P (Uart_set_hw_flow (hw_instance w) (hw_flow w) False) w;
                  w = run P (Uart_set_format (hw_instance w) (hw_data_bits (driver w))
                                 (hw_stop_bits (driver w)) (hw_parity (driver w))) w
              in (True, run P (Uart_set_fifo_enabled (hw_instance w) True) w))"

definition hw_uart_driver_configure_rts :: "'h platform \<Rightarrow> 'h hw_device \<Rightarrow> 'h hw_device" where
  "hw_uart_driver_configure_rts P w =
     (if \<not> hw_flow w then w
      else let occupancy = ring_buffer_occupancy (hw_rx_ring (driver w));
               asserted = uart_rx_rts_should_assert (hw_rx_rts_asserted (driver w)) occupancy
                            (ring_size (hw_rx_ring (driver w)));
               w = drv (hw_rx_rts_asserted_update (\<lambda>_. asserted)) w;
               w = run P (Gpio_put (info_rts_pin (hw_pins w)) (\<not> asserted)) w;
               w = run P (Gpio_set_function (info_rts_pin (hw_pins w)) GPIO_FUNC_SIO) w
           in run P (Gpio_set_dir_out (info_rts_pin (hw_pins w))) w)"

definition hw_uart_driver_update_rts :: "'h platform \<Rightarrow> 'h hw_device \<Rightarrow> 'h hw_device" where
  "hw_uart_driver_update_rts P w =
     (if \<not> hw_flow w then w
      else let occupancy = ring_buffer_occupancy (hw_rx_ring (driver w));
               should_assert = uart_rx_rts_should_assert (hw_rx_rts_asserted (driver w)) occupancy
                                 (ring_size (hw_rx_ring (driver w)))
           in if should_assert \<noteq> hw_rx_rts_asserted (driver w)
              then drv (hw_rx_rts_asserted_update (\<lambda>_. should_assert))
                     (run P (Gpio_put (info_rts_pin (hw_pins w)) (\<not> should_assert)) w)
              else w)"

text \<open>\<open>uart_parity_t\<close> has only the three values the last check admits.\<close>

definition hw_uart_driver_line_format_supported :: "u32 \<Rightarrow> u8 \<Rightarrow> u8 \<Rightarrow> uart_parity_t \<Rightarrow> bool" where
  "hw_uart_driver_line_format_supported rate data stop par =
     (if rate = 0 then False
      else if data < 5 \<or> data > 8 then False
      else if stop \<noteq> 1 \<and> stop \<noteq> 2 then False
      else par = UART_PARITY_NONE \<or> par = UART_PARITY_ODD \<or> par = UART_PARITY_EVEN)"

section \<open>RX DMA\<close>

definition hw_uart_driver_rearm_rx_dma :: "'h platform \<Rightarrow> int \<Rightarrow> ('d, 'h, 'z) device_scheme \<Rightarrow> ('d, 'h, 'z) device_scheme" where
  "hw_uart_driver_rearm_rx_dma P rx_dma_channel w =
     run P (Dma_set_trans_count (of_int rx_dma_channel)
       (uart_dma_rx_transfer_count_encoded (dma_encode_transfer_count P) (chip P))) w"

text \<open>One channel of the shared handler, and the handler.\<close>

definition rx_irq_channel :: "'h platform \<Rightarrow> u32 \<Rightarrow> 'h hw_device \<Rightarrow> 'h hw_device" where
  "rx_irq_channel P channel w =
     (let owner = hw_uart_driver_rx_irq_owners w channel;
          (irq_pending, w) = ask P (Dma_irq_status HW_UART_DRIVER_RX_DMA_IRQ_INDEX channel) w
      in if \<not> uart_dma_irq_should_service_owner (owner \<noteq> None) irq_pending then w
         else let w = run P (Dma_irq_acknowledge HW_UART_DRIVER_RX_DMA_IRQ_INDEX channel) w;
                  (busy, w) = ask P (Dma_is_busy channel) w;
                  (remaining, w) = dma_remaining P channel w
              in if uart_rx_dma_irq_should_rearm True irq_pending busy remaining
                 then hw_uart_driver_rearm_rx_dma P (the owner) w else w)"

definition hw_uart_driver_rx_dma_irq_handler :: "'h platform \<Rightarrow> 'h hw_device \<Rightarrow> 'h hw_device" where
  "hw_uart_driver_rx_dma_irq_handler P w =
     fold (\<lambda>n. rx_irq_channel P (of_nat n)) [0..<num_dma_channels (chip P)] w"

definition hw_uart_driver_enable_rx_dma_irq :: "'h platform \<Rightarrow> 'h hw_device \<Rightarrow> 'h hw_device" where
  "hw_uart_driver_enable_rx_dma_irq P w =
     (let w = (if \<not> hw_uart_driver_rx_dma_irq_installed w
               then (run P (Irq_install_dma_handler HW_UART_DRIVER_RX_DMA_IRQ_INDEX) w)\<lparr>hw_uart_driver_rx_dma_irq_installed := True\<rparr> else w)
      in fold (\<lambda>n w. if hw_uart_driver_rx_irq_owners w (of_nat n) \<noteq> None
                     then run P (Dma_irq_set_enabled HW_UART_DRIVER_RX_DMA_IRQ_INDEX (of_nat n) True) w else w)
           [0..<num_dma_channels (chip P)] w)"

definition hw_uart_driver_clear_rx_error_baseline :: "'h platform \<Rightarrow> 'h hw_device \<Rightarrow> 'h hw_device" where
  "hw_uart_driver_clear_rx_error_baseline P w =
     (if \<not> hw_initialized (driver w) then w else run P (Uart_clear_rsr (hw_instance w)) w)"

definition hw_uart_driver_start_rx_dma :: "'h platform \<Rightarrow> 'h hw_device \<Rightarrow> 'h hw_device" where
  "hw_uart_driver_start_rx_dma P w =
     (let w = drv (hw_rx_dma_last_progress_update (\<lambda>_. 0)) w;
          w = run P (Dma_configure_uart_rx (hw_rx_channel w) (hw_instance w)
                (ring_buffer_producer_index (hw_rx_ring (driver w)))
                (uart_dma_rx_transfer_count_encoded (dma_encode_transfer_count P) (chip P))) w;
          w = put_owner (hw_rx_dma_channel (driver w)) (Some (hw_rx_dma_channel (driver w))) w;
          w = run P (Dma_irq_acknowledge HW_UART_DRIVER_RX_DMA_IRQ_INDEX (hw_rx_channel w)) w
      in if hw_uart_driver_rx_dma_irq_installed w then run P (Dma_irq_set_enabled HW_UART_DRIVER_RX_DMA_IRQ_INDEX (hw_rx_channel w) True) w else w)"

definition hw_uart_driver_abort_dma_channel :: "'h platform \<Rightarrow> u32 \<Rightarrow> ('d, 'h, 'z) device_scheme \<Rightarrow> ('d, 'h, 'z) device_scheme" where
  "hw_uart_driver_abort_dma_channel P channel w = run P (Dma_abort channel) (run P (Dma_clear_en channel) w)"

definition hw_uart_driver_pause_rx_dma_for_reconfig :: "'h platform \<Rightarrow> 'h hw_device \<Rightarrow> bool \<times> 'h hw_device" where
  "hw_uart_driver_pause_rx_dma_for_reconfig P w =
     (let channel = hw_rx_channel w;
          w = run P (Dma_irq_set_enabled HW_UART_DRIVER_RX_DMA_IRQ_INDEX channel False) w;
          w = run P (Dma_clear_en channel) w;
          (settled, w) = dma_wait_paused P channel w
      in if settled then (True, w)
         else let w = run P (Dma_set_en channel) w
              in (False, run P (Dma_irq_set_enabled HW_UART_DRIVER_RX_DMA_IRQ_INDEX channel True) w))"

definition hw_uart_driver_rx_progress :: "'h platform \<Rightarrow> 'h hw_device \<Rightarrow> u32 \<times> 'h hw_device" where
  "hw_uart_driver_rx_progress P w = dma_progress P (hw_rx_channel w) w"

definition hw_uart_driver_publish_rx :: "'h platform \<Rightarrow> 'h hw_device \<Rightarrow> 'h hw_device" where
  "hw_uart_driver_publish_rx P w =
     (if \<not> hw_initialized (driver w) then w
      else let (progress, w) = hw_uart_driver_rx_progress P w;
               produced = uart_dma_rx_bytes_produced progress (hw_rx_dma_last_progress (driver w))
                            (uart_dma_rx_transfer_count_max (chip P));
               w = drv (hw_uart_rx_bytes_update (\<lambda>n. n + produced)) w;
               w = (if produced \<noteq> 0 then note_work w else w);
               w = drv (hw_rx_dma_last_progress_update (\<lambda>_. progress)) w
           in drv (hw_rx_ring_update (\<lambda>r. ring_buffer_produce_external r produced)) w)"

definition hw_uart_driver_finish_rx_dma_stop_locked :: "'h platform \<Rightarrow> 'h hw_device \<Rightarrow> 'h hw_device" where
  "hw_uart_driver_finish_rx_dma_stop_locked P w =
     (let channel = hw_rx_channel w;
          w = hw_uart_driver_publish_rx P w;
          w = run P (Dma_abort channel) w
      in run P (Dma_irq_acknowledge HW_UART_DRIVER_RX_DMA_IRQ_INDEX channel) w)"

definition hw_uart_driver_release_dma :: "'h platform \<Rightarrow> 'h hw_device \<Rightarrow> 'h hw_device" where
  "hw_uart_driver_release_dma P w =
     (let w = (if hw_rx_dma_channel (driver w) \<ge> 0
               then let w = run P (Dma_irq_set_enabled HW_UART_DRIVER_RX_DMA_IRQ_INDEX (hw_rx_channel w) False) w;
                        w = put_owner (hw_rx_dma_channel (driver w)) None w;
                        w = hw_uart_driver_abort_dma_channel P (hw_rx_channel w) w;
                        w = run P (Dma_irq_acknowledge HW_UART_DRIVER_RX_DMA_IRQ_INDEX (hw_rx_channel w)) w;
                        w = run P (Dma_unclaim (hw_rx_channel w)) w
                    in drv (hw_rx_dma_channel_update (\<lambda>_. -1)) w
               else w)
      in if hw_tx_dma_channel (driver w) \<ge> 0
         then let w = hw_uart_driver_abort_dma_channel P (hw_tx_channel w) w;
                  w = run P (Dma_unclaim (hw_tx_channel w)) w
              in drv (hw_tx_dma_channel_update (\<lambda>_. -1)) w
         else w)"

text \<open>
  The check of a snapshot reads the live countdown and changes nothing of the driver: it is given the register's
  value.
\<close>

definition hw_uart_driver_rx_snapshot_is_current :: "'h platform \<Rightarrow> 'h hw_device \<Rightarrow> u32 \<Rightarrow> bool" where
  "hw_uart_driver_rx_snapshot_is_current P w consumer_sequence =
     (if \<not> hw_initialized (driver w) \<or> hw_rx_dma_channel (driver w) < 0 then False
      else let progress = fst (hw_uart_driver_rx_progress P w);
               produced = uart_dma_rx_bytes_produced progress (hw_rx_dma_last_progress (driver w))
                            (uart_dma_rx_transfer_count_max (chip P));
               live_producer = producer (hw_rx_ring (driver w)) + produced
           in live_producer - consumer_sequence \<le> ring_size (hw_rx_ring (driver w)))"

section \<open>TX DMA\<close>

definition hw_uart_driver_configure_tx_dma :: "'h platform \<Rightarrow> 'h hw_device \<Rightarrow> 'h hw_device" where
  "hw_uart_driver_configure_tx_dma P w = run P (Dma_configure_uart_tx (hw_tx_channel w) (hw_instance w)) w"

definition hw_uart_driver_start_tx_dma :: "'h platform \<Rightarrow> 'h hw_device \<Rightarrow> bool \<times> 'h hw_device" where
  "hw_uart_driver_start_tx_dma P w =
     (if hw_tx_active (driver w) then (False, w)
      else let (span, ring) = ring_buffer_read_span (hw_tx_ring (driver w));
               w = drv (hw_tx_ring_update (\<lambda>_. ring)) w
           in if span_length span = 0 then (False, w)
              else let (busy, w) = ask P (Uart_fr_busy (hw_instance w)) w
                   in if busy then (False, w)
                      else let d = driver w;
                               bits_per_frame = 1 + ucast (hw_data_bits d) + ucast (hw_stop_bits d) +
                                                (if hw_parity d = UART_PARITY_NONE then 0 else 1);
                               transfer_length = uart_tx_transfer_bytes (span_length span) (span_length span)
                                 (hw_baud_rate d) bits_per_frame HW_UART_DRIVER_TX_DMA_BUDGET_MS
                           in if transfer_length = 0 then (False, w)
                              else let w = drv (hw_tx_dma_bytes_in_flight_update (\<lambda>_. transfer_length)) w;
                                       w = drv (hw_tx_active_update (\<lambda>_. True)) w;
                                       w = run P (Dma_set_read_addr (hw_tx_channel w) (the (span_data span))) w;
                                       w = run P (Dma_set_en (hw_tx_channel w)) w;
                                       w = run P (Dma_set_trans_count (hw_tx_channel w) transfer_length) w
                                   in (True, note_work w))"

definition hw_uart_driver_poll_tx_completion :: "'h platform \<Rightarrow> 'h hw_device \<Rightarrow> 'h hw_device" where
  "hw_uart_driver_poll_tx_completion P w =
     (if \<not> hw_tx_active (driver w) then w
      else let (busy, w) = ask P (Dma_is_busy (hw_tx_channel w)) w
           in if \<not> busy
              then let w = note_work w;
                       n = hw_tx_dma_bytes_in_flight (driver w);
                       w = drv (hw_tx_ring_update (\<lambda>r. snd (ring_buffer_commit_consumed r n))) w;
                       w = drv (hw_uart_tx_bytes_update (\<lambda>t. t + n)) w;
                       w = drv (hw_tx_active_update (\<lambda>_. False)) w
                   in drv (hw_tx_dma_bytes_in_flight_update (\<lambda>_. 0)) w
              else w)"

section \<open>Polling\<close>

text \<open>The receive-status read is masked with \<open>UART_UARTRSR_BITS\<close>, the low four bits.\<close>

definition hw_uart_driver_record_rx_errors :: "'h platform \<Rightarrow> 'h hw_device \<Rightarrow> 'h hw_device" where
  "hw_uart_driver_record_rx_errors P w =
     (if \<not> hw_initialized (driver w) then w
      else let (errors, w) = call P (Uart_rsr (hw_instance w)) w
           in if errors AND 0xF \<noteq> 0
              then let w = note_work w;
                       w = drv (hw_rx_error_count_update (\<lambda>n. uart_saturating_add_u32 n 1)) w
                   in run P (Uart_clear_rsr (hw_instance w)) w
              else w)"

definition poll_should_rearm :: "'h platform \<Rightarrow> 'h hw_device \<Rightarrow> bool \<times> 'h hw_device" where
  "poll_should_rearm P w =
     (let (busy, w) = ask P (Dma_is_busy (hw_rx_channel w)) w;
          (remaining, w) = dma_remaining P (hw_rx_channel w) w
      in (uart_rx_dma_poll_should_rearm True busy remaining, w))"

definition hw_uart_driver_poll :: "'h platform \<Rightarrow> 'h hw_device \<Rightarrow> bool \<Rightarrow> 'h hw_device" where
  "hw_uart_driver_poll P w tx_launch_allowed =
     (if \<not> hw_initialized (driver w) then w
      else let w = hw_uart_driver_publish_rx P w;
               w = hw_uart_driver_update_rts P w;
               w = hw_uart_driver_record_rx_errors P w;
               (idle, w) = poll_should_rearm P w;
               w = (if idle
                    then let (interrupt_status, w) = call P Save_and_disable_interrupts w;
                             (still, w) = poll_should_rearm P w;
                             w = (if still
                                  then let w = run P (Dma_irq_acknowledge HW_UART_DRIVER_RX_DMA_IRQ_INDEX (hw_rx_channel w)) w;
                                           w = hw_uart_driver_rearm_rx_dma P (hw_rx_dma_channel (driver w)) w
                                       in note_work w
                                  else w)
                         in run P (Restore_interrupts interrupt_status) w
                    else w);
               w = hw_uart_driver_poll_tx_completion P w
           in if tx_launch_allowed \<and> \<not> hw_tx_active (driver w)
              then snd (hw_uart_driver_start_tx_dma P w) else w)"

section \<open>Start and stop\<close>

definition hw_uart_driver_park_pins :: "'h platform \<Rightarrow> 'h hw_device \<Rightarrow> 'h hw_device" where
  "hw_uart_driver_park_pins P w =
     (let pins = hw_pins w;
          w = run P (Gpio_put (info_tx_pin pins) True) w;
          w = run P (Gpio_set_dir_out (info_tx_pin pins)) w;
          w = run P (Gpio_set_function (info_tx_pin pins) GPIO_FUNC_SIO) w;
          w = run P (Gpio_set_function (info_rx_pin pins) GPIO_FUNC_NULL) w
      in if hw_flow w
         then let w = run P (Gpio_set_function (info_rts_pin pins) GPIO_FUNC_NULL) w;
                  w = run P (Gpio_set_function (info_cts_pin pins) GPIO_FUNC_NULL) w
              in run P (Gpio_disable_pulls (info_cts_pin pins)) w
         else w)"

text \<open>The checks before anything is touched.\<close>

definition hw_start_allowed :: "hw_uart_driver_t \<Rightarrow> bool" where
  "hw_start_allowed d =
     (case hw_config d of None \<Rightarrow> False
      | Some c \<Rightarrow>
          (case cfg_port c of None \<Rightarrow> False
           | Some pins \<Rightarrow>
               if cfg_instance c = None \<or> hw_rx_storage d = None \<or>
                  hw_rx_storage_address d mod PICO_UART_HW_UART_RX_BUFFER_SIZE \<noteq> 0
               then False
               else \<not> (info_tx_pin pins = UART_DRIVER_PIN_UNASSIGNED \<or> info_rx_pin pins = UART_DRIVER_PIN_UNASSIGNED \<or>
                       (cfg_hardware_flow_control c \<and> (info_cts_pin pins = UART_DRIVER_PIN_UNASSIGNED \<or>
                                                        info_rts_pin pins = UART_DRIVER_PIN_UNASSIGNED)))))"

text \<open>A ring that has no storage yet is initialised; both are cleared.\<close>

definition hw_start_rings :: "hw_uart_driver_t \<Rightarrow> bool \<times> hw_uart_driver_t" where
  "hw_start_rings d =
     (let (ok, rx) = (if storage (hw_rx_ring d) = None
                      then ring_buffer_init (hw_rx_ring d) (hw_rx_storage d) PICO_UART_HW_UART_RX_BUFFER_SIZE
                      else (True, hw_rx_ring d));
          d = d\<lparr>hw_rx_ring := rx\<rparr>
      in if \<not> ok then (False, d)
         else let (ok, tx) = (if storage (hw_tx_ring d) = None
                              then ring_buffer_init (hw_tx_ring d) (Some (hw_tx_storage d)) PICO_UART_HW_UART_TX_BUFFER_SIZE
                              else (True, hw_tx_ring d));
                  d = d\<lparr>hw_tx_ring := tx\<rparr>
              in if \<not> ok then (False, d)
                 else (True, d\<lparr>hw_rx_ring := ring_buffer_clear (hw_rx_ring d),
                               hw_tx_ring := ring_buffer_clear (hw_tx_ring d)\<rparr>))"

definition hw_start_pins :: "'h platform \<Rightarrow> 'h hw_device \<Rightarrow> 'h hw_device" where
  "hw_start_pins P w =
     (let pins = hw_pins w;
          w = run P (Gpio_set_function (info_tx_pin pins) GPIO_FUNC_UART) w;
          w = run P (Gpio_set_function (info_rx_pin pins) GPIO_FUNC_UART) w;
          w = run P (Gpio_set_slew_rate_fast (info_tx_pin pins)) w;
          w = run P (Gpio_set_drive_12ma (info_tx_pin pins)) w
      in if hw_flow w
         then run P (Gpio_pull_down (info_cts_pin pins)) (run P (Gpio_set_function (info_cts_pin pins) GPIO_FUNC_UART) w)
         else w)"

definition hw_uart_driver_start :: "'h platform \<Rightarrow> 'h hw_device \<Rightarrow> bool \<times> 'h hw_device" where
  "hw_uart_driver_start P w =
     (if \<not> hw_start_allowed (driver w) then (False, w)
      else let w = drv (\<lambda>d. d\<lparr>hw_rx_dma_channel := -1, hw_tx_dma_channel := -1, hw_tx_dma_bytes_in_flight := 0,
                             hw_tx_active := False, hw_rx_rts_asserted := False, hw_rx_dma_last_progress := 0\<rparr>) w;
               (ok, d) = hw_start_rings (driver w);
               w = drv (\<lambda>_. d) w
           in if \<not> ok then (False, w)
              else let (claimed, rx, tx, w) = hw_uart_driver_claim_dma_channels P (Some (hw_rx_dma_channel (driver w)))
                                                (Some (hw_tx_dma_channel (driver w))) w;
                       w = drv (\<lambda>d. d\<lparr>hw_rx_dma_channel := the rx, hw_tx_dma_channel := the tx\<rparr>) w
                   in if \<not> claimed then (False, w)
                      else let w = hw_start_pins P w;
                               (configured, w) = hw_uart_driver_configure_uart P w
                           in if \<not> configured
                              then (False, hw_uart_driver_park_pins P (hw_uart_driver_release_dma P w))
                              else let w = hw_uart_driver_configure_tx_dma P w;
                                       w = hw_uart_driver_configure_rts P w;
                                       w = hw_uart_driver_start_rx_dma P w
                                   in (True, drv (hw_initialized_update (\<lambda>_. True)) w))"

definition hw_uart_driver_deinit :: "'h platform \<Rightarrow> 'h hw_device \<Rightarrow> 'h hw_device" where
  "hw_uart_driver_deinit P w =
     (if \<not> hw_initialized (driver w) then w
      else let w = hw_uart_driver_publish_rx P w;
               w = hw_uart_driver_release_dma P w;
               w = hw_uart_driver_park_pins P w;
               w = run P (Uart_deinit (hw_instance w)) w
           in drv (hw_initialized_update (\<lambda>_. False)) w)"

definition hw_uart_driver_restart :: "'h platform \<Rightarrow> 'h hw_device \<Rightarrow> bool \<times> 'h hw_device" where
  "hw_uart_driver_restart P w =
     (if hw_config (driver w) = None then (False, w)
      else let w = hw_uart_driver_deinit P w;
               w = drv (hw_rx_ring_update (\<lambda>r. snd (ring_buffer_recover_overflow r))) w
           in hw_uart_driver_start P w)"

section \<open>Changing the line format\<close>

text \<open>The stretch with interrupts disabled: \<open>False\<close> when a byte arrived meanwhile and reception goes on.\<close>

definition hw_stop_for_reconfig :: "'h platform \<Rightarrow> 'h hw_device \<Rightarrow> bool \<times> 'h hw_device" where
  "hw_stop_for_reconfig P w =
     (let (interrupt_status, w) = call P Save_and_disable_interrupts w;
          w = hw_uart_driver_finish_rx_dma_stop_locked P w;
          (readable, w) = ask P (Uart_is_readable (hw_instance w)) w
      in if readable
         then (False, run P (Restore_interrupts interrupt_status) (hw_uart_driver_start_rx_dma P w))
         else let w = hw_uart_driver_abort_dma_channel P (hw_tx_channel w) w;
                  w = drv (hw_tx_dma_bytes_in_flight_update (\<lambda>_. 0)) w;
                  w = drv (hw_tx_active_update (\<lambda>_. False)) w;
                  w = drv (hw_rx_dma_last_progress_update (\<lambda>_. 0)) w;
                  w = run P (Uart_deinit (hw_instance w)) w
              in (True, run P (Restore_interrupts interrupt_status) w))"

definition hw_resume :: "'h platform \<Rightarrow> 'h hw_device \<Rightarrow> 'h hw_device" where
  "hw_resume P w =
     (let w = hw_uart_driver_configure_rts P w;
          w = run P (Uart_clear_rsr (hw_instance w)) w
      in hw_uart_driver_start_rx_dma P w)"

definition set_format :: "u32 \<Rightarrow> u8 \<Rightarrow> u8 \<Rightarrow> uart_parity_t \<Rightarrow> hw_uart_driver_t \<Rightarrow> hw_uart_driver_t" where
  "set_format rate data stop par d =
     d\<lparr>hw_baud_rate := rate, hw_data_bits := data, hw_stop_bits := stop, hw_parity := par\<rparr>"

text \<open>The new format, or the previous one, or neither.\<close>

definition hw_switch_format :: "'h platform \<Rightarrow> u32 \<Rightarrow> u8 \<Rightarrow> u8 \<Rightarrow> uart_parity_t \<Rightarrow> 'h hw_device \<Rightarrow> bool \<times> 'h hw_device" where
  "hw_switch_format P actual_rate data stop par w =
     (let d = driver w;
          w = drv (set_format actual_rate data stop par) w;
          (configured, w) = hw_uart_driver_configure_uart P w
      in if \<not> configured
         then let w = drv (set_format (hw_baud_rate d) (hw_data_bits d) (hw_stop_bits d) (hw_parity d)) w;
                  (restored, w) = hw_uart_driver_configure_uart P w
              in if restored then (False, hw_resume P w)
                 else let w = hw_uart_driver_release_dma P w;
                          w = hw_uart_driver_park_pins P w
                      in (False, drv (hw_initialized_update (\<lambda>_. False)) w)
         else (True, hw_resume P w))"

definition hw_uart_driver_apply_line_format ::
    "'h platform \<Rightarrow> 'h hw_device \<Rightarrow> u32 \<Rightarrow> u8 \<Rightarrow> u8 \<Rightarrow> uart_parity_t \<Rightarrow> bool \<times> 'h hw_device" where
  "hw_uart_driver_apply_line_format P w rate data stop par =
     (if \<not> hw_initialized (driver w) \<or> \<not> hw_uart_driver_line_format_supported rate data stop par then (False, w)
      else let (peripheral_hz, w) = call P Clock_peri_hz w;
               (supported, actual_rate) = hw_uart_baud_rate_supported rate peripheral_hz (Some 0)
           in if \<not> supported then (False, w)
              else let (busy, w) = ask P (Uart_fr_busy (hw_instance w)) w;
                       (readable, w) = ask P (Uart_is_readable (hw_instance w)) w
                   in if \<not> uart_hw_line_format_idle (hw_tx_active (driver w)) busy readable then (False, w)
                      else let (paused, w) = hw_uart_driver_pause_rx_dma_for_reconfig P w
                           in if \<not> paused then (False, w)
                              else let (stopped, w) = hw_stop_for_reconfig P w
                                   in if \<not> stopped then (False, w)
                                      else hw_switch_format P (the actual_rate) data stop par w)"

section \<open>The backend's operations\<close>

definition hw_uart_driver_init :: "'h platform \<Rightarrow> 'h hw_device \<Rightarrow> bool \<times> 'h hw_device" where
  "hw_uart_driver_init P w = (if hw_initialized (driver w) then (False, w) else hw_uart_driver_start P w)"

definition hw_uart_backend_parity :: "uart_driver_parity_t \<Rightarrow> uart_parity_t" where
  "hw_uart_backend_parity par =
     (if par = UART_DRIVER_PARITY_ODD then UART_PARITY_ODD
      else if par = UART_DRIVER_PARITY_EVEN then UART_PARITY_EVEN else UART_PARITY_NONE)"

definition hw_uart_driver_load_port_config ::
    "(u32 \<Rightarrow> hw_uart_driver_config_t) \<Rightarrow> 'h hw_device \<Rightarrow> uart_driver_port_info_t option \<Rightarrow> bool \<times> 'h hw_device" where
  "hw_uart_driver_load_port_config configs w port_info =
     (case port_info of None \<Rightarrow> (False, w)
      | Some i \<Rightarrow>
          if hw_initialized (driver w) \<or> info_id i \<ge> UART_PORT_COUNT \<or> info_backend i \<noteq> UART_DRIVER_BACKEND_HW \<or>
             cfg_port (configs (info_id i)) \<noteq> Some i
          then (False, w)
          else (True, drv (\<lambda>d. set_format (info_baud_rate i) (info_data_bits i) (info_stop_bits i)
                  (hw_uart_backend_parity (info_parity i)) (d\<lparr>hw_config := Some (configs (info_id i))\<rparr>)) w))"

definition hw_uart_driver_set_line_coding ::
    "'h platform \<Rightarrow> 'h hw_device \<Rightarrow> uart_driver_line_coding_t option \<Rightarrow> bool \<times> 'h hw_device" where
  "hw_uart_driver_set_line_coding P w line_coding =
     (if \<not> uart_line_coding_is_valid line_coding then (False, w)
      else let lc = the line_coding;
               (peripheral_hz, w) = call P Clock_peri_hz w
           in if \<not> fst (hw_uart_baud_rate_supported (baud_rate lc) peripheral_hz (Some 0)) then (False, w)
              else if \<not> hw_initialized (driver w)
              then if hw_config (driver w) = None then (False, w)
                   else (True, drv (set_format (baud_rate lc) (data_bits lc) (stop_bits lc)
                                      (hw_uart_backend_parity (parity lc))) w)
              else hw_uart_driver_apply_line_format P w (baud_rate lc) (data_bits lc) (stop_bits lc)
                     (hw_uart_backend_parity (parity lc)))"

definition hw_uart_driver_is_initialized :: "'h hw_device \<Rightarrow> bool" where
  "hw_uart_driver_is_initialized w = hw_initialized (driver w)"

definition hw_uart_driver_rx_ring :: "'h hw_device \<Rightarrow> ring_buffer_t option" where
  "hw_uart_driver_rx_ring w = Some (hw_rx_ring (driver w))"

definition hw_uart_driver_tx_ring :: "'h hw_device \<Rightarrow> ring_buffer_t option" where
  "hw_uart_driver_tx_ring w = Some (hw_tx_ring (driver w))"

text \<open>The peripheral clock's value is all these queries need of the hardware.\<close>

definition hw_uart_driver_line_coding_matches ::
    "'h platform \<Rightarrow> 'h hw_device \<Rightarrow> uart_driver_line_coding_t option \<Rightarrow> bool" where
  "hw_uart_driver_line_coding_matches P w line_coding =
     (let d = driver w; lc = the line_coding;
          (supported, actual_rate) = hw_uart_baud_rate_supported (baud_rate lc) (fst (call P Clock_peri_hz w)) (Some 0)
      in hw_initialized d \<and> uart_line_coding_is_valid line_coding \<and> supported \<and>
         Some (hw_baud_rate d) = actual_rate \<and> hw_data_bits d = data_bits lc \<and> hw_stop_bits d = stop_bits lc \<and>
         hw_parity d = hw_uart_backend_parity (parity lc))"

definition hw_uart_driver_line_coding_acceptable :: "u32 \<Rightarrow> uart_driver_line_coding_t option \<Rightarrow> bool" where
  "hw_uart_driver_line_coding_acceptable peripheral_hz line_coding \<longleftrightarrow>
     uart_line_coding_is_valid line_coding \<and>
     fst (hw_uart_baud_rate_supported (baud_rate (the line_coding)) peripheral_hz (Some 0))"

definition hw_uart_driver_baud_rate :: "'h hw_device \<Rightarrow> u32" where
  "hw_uart_driver_baud_rate w = hw_baud_rate (driver w)"

definition hw_uart_driver_stats :: "'h hw_device \<Rightarrow> uart_backend_stats_t" where
  "hw_uart_driver_stats w =
     \<lparr>stats_uart_tx_bytes = hw_uart_tx_bytes (driver w), stats_uart_rx_bytes = hw_uart_rx_bytes (driver w),
      stats_rx_error_count = hw_rx_error_count (driver w)\<rparr>"

definition uart_backend_hw_ops ::
    "'h platform \<Rightarrow> (u32 \<Rightarrow> hw_uart_driver_config_t) \<Rightarrow> u32 \<Rightarrow> 'h hw_device uart_backend_ops_t" where
  "uart_backend_hw_ops P configs peripheral_hz =
     \<lparr>op_load_config = hw_uart_driver_load_port_config configs,
      op_is_initialized = hw_uart_driver_is_initialized,
      op_init = hw_uart_driver_init P,
      op_deinit = hw_uart_driver_deinit P,
      op_poll = hw_uart_driver_poll P,
      op_rx_ring = hw_uart_driver_rx_ring,
      op_tx_ring = hw_uart_driver_tx_ring,
      op_put_rx_ring = (\<lambda>r. drv (hw_rx_ring_update (\<lambda>_. r))),
      op_put_tx_ring = (\<lambda>r. drv (hw_tx_ring_update (\<lambda>_. r))),
      op_line_coding_matches = hw_uart_driver_line_coding_matches P,
      op_line_coding_acceptable = hw_uart_driver_line_coding_acceptable peripheral_hz,
      op_set_line_coding = hw_uart_driver_set_line_coding P,
      op_restart = hw_uart_driver_restart P,
      op_rx_snapshot_is_current = hw_uart_driver_rx_snapshot_is_current P,
      op_clear_rx_error_baseline = hw_uart_driver_clear_rx_error_baseline P,
      op_baud_rate = hw_uart_driver_baud_rate,
      op_stats = hw_uart_driver_stats\<rparr>"

section \<open>The board\<close>

definition board_port :: "u32 \<Rightarrow> uart_driver_backend_t \<Rightarrow> u32 \<Rightarrow> u32 \<Rightarrow> u32 \<Rightarrow> u32 \<Rightarrow> uart_driver_port_info_t" where
  "board_port i b tx rx rts cts = \<lparr>info_id = i, info_backend = b, info_baud_rate = 115200, info_tx_pin = tx,
     info_rx_pin = rx, info_rts_pin = rts, info_cts_pin = cts, info_data_bits = 8, info_stop_bits = 1,
     info_parity = UART_DRIVER_PARITY_NONE\<rparr>"

definition uart_board_ports :: "u32 \<Rightarrow> uart_driver_port_info_t" where
  "uart_board_ports i =
     [board_port 0 UART_DRIVER_BACKEND_HW 0 1 3 2, board_port 1 UART_DRIVER_BACKEND_HW 4 5 7 6,
      board_port 2 UART_DRIVER_BACKEND_PIO 8 9 10 11, board_port 3 UART_DRIVER_BACKEND_PIO 12 13 14 15,
      board_port 4 UART_DRIVER_BACKEND_PIO 16 17 18 19, board_port 5 UART_DRIVER_BACKEND_PIO 20 21 22 26] ! unat i"

definition hw_uart_driver_configs :: "u32 \<Rightarrow> hw_uart_driver_config_t" where
  "hw_uart_driver_configs i =
     (if i = 0 \<or> i = 1
      then \<lparr>cfg_port = Some (uart_board_ports i), cfg_instance = Some i, cfg_hardware_flow_control = False\<rparr>
      else \<lparr>cfg_port = None, cfg_instance = None, cfg_hardware_flow_control = False\<rparr>)"

end
