(* ===== verification/Hw_Facts.thy ===== *)
theory Hw_Facts
  imports Hw_Uart
begin

text \<open>
  What the pieces of the hardware UART driver keep: which of its routines can change the driver's state of being
  initialised, its configuration, its rings and its DMA channels.
\<close>

section \<open>SDK calls leave the driver alone\<close>

lemma call_keeps [simp]:
  "driver (snd (call P c w)) = driver w" "meter (snd (call P c w)) = meter w"
  "driver (run P c w) = driver w" "driver (snd (ask P c w)) = driver w"
  "hw_uart_driver_rx_irq_owners (snd (call P c v)) = hw_uart_driver_rx_irq_owners v"
  "hw_uart_driver_rx_irq_owners (run P c v) = hw_uart_driver_rx_irq_owners v"
  "hw_uart_driver_rx_irq_owners (snd (ask P c v)) = hw_uart_driver_rx_irq_owners v"
  by (simp_all add: device_defs)

lemma drv_simps [simp]:
  "driver (drv f w) = f (driver w)" "hw (drv f w) = hw w" "driver (note_work w) = driver w" "hw (note_work w) = hw w"
  "driver (put_owner ch o' v) = driver v" "hw (put_owner ch o' v) = hw v"
  "driver (if b then note_work w else w) = driver w" "hw (if b then note_work w else w) = hw w"
  by (simp_all add: device_defs put_owner_def)

lemma dma_reads_keep [simp]:
  "driver (snd (dma_remaining P ch w)) = driver w" "driver (snd (dma_progress P ch w)) = driver w"
  by (simp_all add: dma_remaining_def dma_progress_def case_prod_beta)

lemma settle_keeps [simp]: "driver (snd (settle_loop P ch n l s w)) = driver w"
  by (induction n arbitrary: l s w) (simp_all add: case_prod_beta Let_def)

lemma wait_paused_keeps [simp]: "driver (snd (dma_wait_paused P ch w)) = driver w"
  by (simp add: dma_wait_paused_def case_prod_beta Let_def)

section \<open>What each routine changes\<close>

text \<open>\<open>hw_frame f d d'\<close>: the driver changed at most in the fields that \<open>f\<close> makes equal.\<close>

lemma quiet_routines [simp]:
  "driver (hw_uart_driver_rearm_rx_dma P ch w) = driver w"
  "driver (hw_uart_driver_abort_dma_channel P c w) = driver w"
  "driver (snd (hw_uart_driver_pause_rx_dma_for_reconfig P v)) = driver v"
  "driver (hw_uart_driver_configure_tx_dma P v) = driver v"
  "driver (hw_uart_driver_park_pins P v) = driver v" "driver (hw_start_pins P v) = driver v"
  "driver (hw_uart_driver_clear_rx_error_baseline P v) = driver v"
  "driver (rx_irq_channel P c v) = driver v"
  "driver (snd (poll_should_rearm P v)) = driver v"
  "driver (snd (hw_uart_driver_rx_progress P v)) = driver v"
  by (simp_all add: hw_uart_driver_rearm_rx_dma_def hw_uart_driver_abort_dma_channel_def
      hw_uart_driver_pause_rx_dma_for_reconfig_def hw_uart_driver_configure_tx_dma_def hw_uart_driver_park_pins_def
      hw_start_pins_def hw_uart_driver_clear_rx_error_baseline_def rx_irq_channel_def poll_should_rearm_def
      hw_uart_driver_rx_progress_def case_prod_beta Let_def)

lemma fold_driver: "(\<And>x w. driver (f x w) = driver w) \<Longrightarrow> driver (fold f xs w) = driver w"
  by (induction xs arbitrary: w) simp_all

lemma irq_handler_keeps [simp]: "driver (hw_uart_driver_rx_dma_irq_handler P w) = driver w"
  by (simp add: hw_uart_driver_rx_dma_irq_handler_def fold_driver)

lemma enable_irq_keeps [simp]: "driver (hw_uart_driver_enable_rx_dma_irq P w) = driver w"
  by (simp add: hw_uart_driver_enable_rx_dma_irq_def fold_driver Let_def)

text \<open>The routines that write single fields.\<close>

definition configured_rate :: "'h platform \<Rightarrow> 'h hw_device \<Rightarrow> u32" where
  "configured_rate P w = fst (call P (Uart_init (hw_instance w) (hw_baud_rate (driver w))) (snd (call P Clock_peri_hz w)))"

lemma hw_access_call [simp]:
  "hw_instance (snd (call P c w)) = hw_instance w" "hw_instance (run P c w) = hw_instance w"
  "hw_flow (snd (call P c w)) = hw_flow w" "hw_flow (run P c w) = hw_flow w"
  "hw_instance (snd (ask P c w)) = hw_instance w"
  by (simp_all add: hw_access)

lemma configure_uart_driver:
  "driver (snd (hw_uart_driver_configure_uart P w)) =
     (if fst (hw_uart_driver_configure_uart P w) then (driver w)\<lparr>hw_baud_rate := configured_rate P w\<rparr> else driver w)"
  by (simp add: hw_uart_driver_configure_uart_def configured_rate_def case_prod_beta Let_def)

lemma configure_uart_ok:
  "fst (hw_uart_driver_configure_uart P w) =
     fst (hw_uart_baud_rate_supported (hw_baud_rate (driver w)) (fst (call P Clock_peri_hz w)) (Some 0))"
  by (simp add: hw_uart_driver_configure_uart_def case_prod_beta Let_def)

definition rts_after :: "'h hw_device \<Rightarrow> bool" where
  "rts_after w = (if hw_flow w then uart_rx_rts_should_assert (hw_rx_rts_asserted (driver w))
     (ring_buffer_occupancy (hw_rx_ring (driver w))) (ring_size (hw_rx_ring (driver w)))
     else hw_rx_rts_asserted (driver w))"

lemma rts_driver:
  "driver (hw_uart_driver_configure_rts P w) = (driver w)\<lparr>hw_rx_rts_asserted := rts_after w\<rparr>"
  "driver (hw_uart_driver_update_rts P w) = (driver w)\<lparr>hw_rx_rts_asserted := rts_after w\<rparr>"
  unfolding hw_uart_driver_configure_rts_def hw_uart_driver_update_rts_def Let_def rts_after_def
  by (cases "driver w", simp)+

definition error_seen :: "'h platform \<Rightarrow> 'h hw_device \<Rightarrow> bool" where
  "error_seen P w \<longleftrightarrow> hw_initialized (driver w) \<and> fst (call P (Uart_rsr (hw_instance w)) w) AND 0xF \<noteq> 0"

lemma record_errors_driver:
  "driver (hw_uart_driver_record_rx_errors P w) = (if error_seen P w
     then (driver w)\<lparr>hw_rx_error_count := uart_saturating_add_u32 (hw_rx_error_count (driver w)) 1\<rparr> else driver w)"
  by (simp add: hw_uart_driver_record_rx_errors_def error_seen_def case_prod_beta Let_def)

lemma start_rx_driver:
  "driver (hw_uart_driver_start_rx_dma P w) = (driver w)\<lparr>hw_rx_dma_last_progress := 0\<rparr>"
  by (simp add: hw_uart_driver_start_rx_dma_def Let_def)

lemma release_driver:
  "driver (hw_uart_driver_release_dma P w) =
     (driver w)\<lparr>hw_rx_dma_channel := (if 0 \<le> hw_rx_dma_channel (driver w) then -1 else hw_rx_dma_channel (driver w)),
               hw_tx_dma_channel := (if 0 \<le> hw_tx_dma_channel (driver w) then -1 else hw_tx_dma_channel (driver w))\<rparr>"
  by (simp add: hw_uart_driver_release_dma_def Let_def)

definition rx_produced :: "'h platform \<Rightarrow> 'h hw_device \<Rightarrow> u32" where
  "rx_produced P w = uart_dma_rx_bytes_produced (fst (hw_uart_driver_rx_progress P w))
     (hw_rx_dma_last_progress (driver w)) (uart_dma_rx_transfer_count_max (chip P))"

lemma publish_driver:
  "driver (hw_uart_driver_publish_rx P w) =
     (if \<not> hw_initialized (driver w) then driver w
      else (driver w)\<lparr>hw_uart_rx_bytes := hw_uart_rx_bytes (driver w) + rx_produced P w,
             hw_rx_dma_last_progress := fst (hw_uart_driver_rx_progress P w),
             hw_rx_ring := ring_buffer_produce_external (hw_rx_ring (driver w)) (rx_produced P w)\<rparr>)"
proof (cases "hw_initialized (driver w)")
  case True
  from True show ?thesis
    unfolding hw_uart_driver_publish_rx_def case_prod_beta Let_def rx_produced_def
    by (simp only: True not_True_eq_False if_False if_True drv_simps quiet_routines simp_thms) (rule hw_uart_driver_t.equality; simp)
qed (simp add: hw_uart_driver_publish_rx_def)

lemma resume_driver:
  "driver (hw_resume P w) = (driver w)\<lparr>hw_rx_rts_asserted := rts_after w, hw_rx_dma_last_progress := 0\<rparr>"
  by (simp add: hw_resume_def Let_def start_rx_driver rts_driver)

lemma finish_stop_driver: "driver (hw_uart_driver_finish_rx_dma_stop_locked P w) = driver (hw_uart_driver_publish_rx P w)"
  by (simp add: hw_uart_driver_finish_rx_dma_stop_locked_def Let_def)

lemma set_format_simps [simp]:
  "hw_initialized (set_format r d s p x) = hw_initialized x" "hw_config (set_format r d s p x) = hw_config x"
  "hw_rx_ring (set_format r d s p x) = hw_rx_ring x" "hw_tx_ring (set_format r d s p x) = hw_tx_ring x"
  "hw_rx_dma_channel (set_format r d s p x) = hw_rx_dma_channel x"
  "hw_tx_dma_channel (set_format r d s p x) = hw_tx_dma_channel x"
  "hw_baud_rate (set_format r d s p x) = r" "hw_data_bits (set_format r d s p x) = d"
  "hw_stop_bits (set_format r d s p x) = s" "hw_parity (set_format r d s p x) = p"
  "hw_tx_active (set_format r d s p x) = hw_tx_active x" "hw_uart_rx_bytes (set_format r d s p x) = hw_uart_rx_bytes x"
  "hw_uart_tx_bytes (set_format r d s p x) = hw_uart_tx_bytes x"
  by (simp_all add: set_format_def)

lemmas hw_drivers = configure_uart_driver rts_driver record_errors_driver start_rx_driver release_driver publish_driver
  resume_driver finish_stop_driver

section \<open>Starting and stopping\<close>

lemma start_rings_keep:
  "hw_initialized (snd (hw_start_rings d)) = hw_initialized d" "hw_config (snd (hw_start_rings d)) = hw_config d"
  "hw_rx_dma_channel (snd (hw_start_rings d)) = hw_rx_dma_channel d"
  "hw_tx_dma_channel (snd (hw_start_rings d)) = hw_tx_dma_channel d"
  by (simp_all add: hw_start_rings_def Let_def case_prod_beta)

lemma claim_keeps [simp]:
  "driver (snd (snd (snd (hw_uart_driver_claim_dma_channels P rx tx w)))) = driver w"
  by (simp add: hw_uart_driver_claim_dma_channels_def Let_def case_prod_beta)

lemma start_driver:
  "fst (hw_uart_driver_start P w) \<Longrightarrow> hw_initialized (driver (snd (hw_uart_driver_start P w)))"
  "\<not> fst (hw_uart_driver_start P w) \<Longrightarrow>
     hw_initialized (driver (snd (hw_uart_driver_start P w))) = hw_initialized (driver w)"
  "hw_config (driver (snd (hw_uart_driver_start P w))) = hw_config (driver w)"
  by (auto simp: hw_uart_driver_start_def Let_def case_prod_beta hw_drivers start_rings_keep)

lemma deinit_driver:
  "\<not> hw_initialized (driver (hw_uart_driver_deinit P w))"
  "hw_config (driver (hw_uart_driver_deinit P w)) = hw_config (driver w)"
  by (simp_all add: hw_uart_driver_deinit_def Let_def hw_drivers)

lemma restart_driver:
  "hw_config (driver w) \<noteq> None \<Longrightarrow>
     hw_initialized (driver (snd (hw_uart_driver_restart P w))) = fst (hw_uart_driver_restart P w)"
  "fst (hw_uart_driver_restart P w) \<Longrightarrow> hw_initialized (driver (snd (hw_uart_driver_restart P w)))"
  "hw_config (driver (snd (hw_uart_driver_restart P w))) = hw_config (driver w)"
  using start_driver [of P "drv (hw_rx_ring_update (\<lambda>r. snd (ring_buffer_recover_overflow r))) (hw_uart_driver_deinit P w)"]
  by (auto simp: hw_uart_driver_restart_def Let_def deinit_driver)

lemma tx_driver:
  "hw_initialized (driver (snd (hw_uart_driver_start_tx_dma P w))) = hw_initialized (driver w)"
  "hw_initialized (driver (hw_uart_driver_poll_tx_completion P w)) = hw_initialized (driver w)"
  "hw_config (driver (snd (hw_uart_driver_start_tx_dma P w))) = hw_config (driver w)"
  "hw_config (driver (hw_uart_driver_poll_tx_completion P w)) = hw_config (driver w)"
  "hw_rx_dma_channel (driver (snd (hw_uart_driver_start_tx_dma P w))) = hw_rx_dma_channel (driver w)"
  "hw_rx_dma_channel (driver (hw_uart_driver_poll_tx_completion P w)) = hw_rx_dma_channel (driver w)"
  "hw_tx_dma_channel (driver (snd (hw_uart_driver_start_tx_dma P w))) = hw_tx_dma_channel (driver w)"
  "hw_tx_dma_channel (driver (hw_uart_driver_poll_tx_completion P w)) = hw_tx_dma_channel (driver w)"
  by (simp_all add: hw_uart_driver_start_tx_dma_def hw_uart_driver_poll_tx_completion_def Let_def case_prod_beta)

lemma poll_driver:
  "hw_initialized (driver (hw_uart_driver_poll P w launch)) = hw_initialized (driver w)"
  "hw_config (driver (hw_uart_driver_poll P w launch)) = hw_config (driver w)"
  by (simp_all add: hw_uart_driver_poll_def Let_def case_prod_beta hw_drivers tx_driver)

lemma poll_channels:
  "hw_rx_dma_channel (driver (hw_uart_driver_poll P w launch)) = hw_rx_dma_channel (driver w)"
  "hw_tx_dma_channel (driver (hw_uart_driver_poll P w launch)) = hw_tx_dma_channel (driver w)"
  by (simp_all add: hw_uart_driver_poll_def Let_def case_prod_beta hw_drivers tx_driver)

section \<open>Changing the format\<close>

lemma stop_reconfig_driver:
  assumes "hw_initialized (driver w)"
  shows "\<exists>n progress. driver (snd (hw_stop_for_reconfig P w)) =
    (let d = (driver w)\<lparr>hw_uart_rx_bytes := hw_uart_rx_bytes (driver w) + n, hw_rx_dma_last_progress := 0,
               hw_rx_ring := ring_buffer_produce_external (hw_rx_ring (driver w)) n\<rparr>
     in if fst (hw_stop_for_reconfig P w) then d\<lparr>hw_tx_dma_bytes_in_flight := 0, hw_tx_active := False\<rparr> else d)"
  using assms
  by (intro exI [of _ "rx_produced P (snd (call P Save_and_disable_interrupts w))"])
     (simp add: hw_stop_for_reconfig_def Let_def case_prod_beta hw_drivers)

lemma switch_driver:
  fixes w :: "'h hw_device" and P :: "'h platform" and rate :: u32 and data stop :: u8 and par :: uart_parity_t
  defines "r \<equiv> hw_switch_format P rate data stop par w" and "d \<equiv> driver w"
  shows "hw_config (driver (snd r)) = hw_config d" "hw_rx_ring (driver (snd r)) = hw_rx_ring d"
    "hw_tx_ring (driver (snd r)) = hw_tx_ring d" "hw_tx_active (driver (snd r)) = hw_tx_active d"
    "hw_uart_rx_bytes (driver (snd r)) = hw_uart_rx_bytes d"
    "fst r \<Longrightarrow> hw_initialized (driver (snd r)) = hw_initialized d \<and> hw_data_bits (driver (snd r)) = data \<and>
       hw_stop_bits (driver (snd r)) = stop \<and> hw_parity (driver (snd r)) = par \<and>
       hw_baud_rate (driver (snd r)) = configured_rate P (drv (set_format rate data stop par) w)"
    "\<not> fst r \<Longrightarrow> hw_initialized (driver (snd r)) \<Longrightarrow> hw_data_bits (driver (snd r)) = hw_data_bits d \<and>
       hw_stop_bits (driver (snd r)) = hw_stop_bits d \<and> hw_parity (driver (snd r)) = hw_parity d"
    "hw_initialized (driver (snd r)) \<Longrightarrow> hw_initialized d \<and>
       hw_rx_dma_channel (driver (snd r)) = hw_rx_dma_channel d \<and> hw_tx_dma_channel (driver (snd r)) = hw_tx_dma_channel d"
    "\<not> hw_initialized (driver (snd r)) \<Longrightarrow> hw_initialized d \<Longrightarrow> \<not> fst r \<and>
       hw_rx_dma_channel (driver (snd r)) < 0 \<and> hw_tx_dma_channel (driver (snd r)) < 0"
  by (simp_all add: r_def d_def hw_switch_format_def Let_def case_prod_beta hw_drivers split: if_splits)

text \<open>The ways through \<open>apply_line_format\<close>: refused with the driver untouched, refused after the pause, or switched.\<close>

lemma apply_cases:
  fixes w :: "'h hw_device" and P :: "'h platform" and rate :: u32 and data stop :: u8 and par :: uart_parity_t
  assumes "hw_initialized (driver w)"
  defines "r \<equiv> hw_uart_driver_apply_line_format P w rate data stop par"
  obtains (refused) "\<not> fst r" "driver (snd r) = driver w"
  | (resumed) v where "\<not> hw_tx_active (driver w)" "driver v = driver w" "\<not> fst (hw_stop_for_reconfig P v)"
      "r = (False, snd (hw_stop_for_reconfig P v))"
  | (switched) v actual where "\<not> hw_tx_active (driver w)" "driver v = driver w" "fst (hw_stop_for_reconfig P v)"
      "hw_uart_baud_rate_supported rate (fst (call P Clock_peri_hz w)) (Some 0) = (True, Some actual)"
      "r = hw_switch_format P actual data stop par (snd (hw_stop_for_reconfig P v))"
proof -
  define w1 where "w1 = snd (call P Clock_peri_hz w)"
  define w2 where "w2 = snd (ask P (Uart_fr_busy (hw_instance w1)) w1)"
  define w3 where "w3 = snd (ask P (Uart_is_readable (hw_instance w2)) w2)"
  define v where "v = snd (hw_uart_driver_pause_rx_dma_for_reconfig P w3)"
  define sup where "sup = hw_uart_baud_rate_supported rate (fst (call P Clock_peri_hz w)) (Some 0)"
  have d: "driver w1 = driver w" "driver w2 = driver w" "driver w3 = driver w" "driver v = driver w"
    by (simp_all add: w1_def w2_def w3_def v_def)
  have some: "fst sup \<Longrightarrow> \<exists>a. snd sup = Some a"
    by (auto simp: sup_def hw_uart_baud_rate_supported_def hw_uart_baud_rate_calculate_def Let_def split: if_splits)
  have r: "r = (if \<not> hw_uart_driver_line_format_supported rate data stop par then (False, w)
      else if \<not> fst sup then (False, w1)
      else if \<not> uart_hw_line_format_idle (hw_tx_active (driver w)) (fst (ask P (Uart_fr_busy (hw_instance w1)) w1))
                  (fst (ask P (Uart_is_readable (hw_instance w2)) w2)) then (False, w3)
      else if \<not> fst (hw_uart_driver_pause_rx_dma_for_reconfig P w3) then (False, v)
      else if \<not> fst (hw_stop_for_reconfig P v) then (False, snd (hw_stop_for_reconfig P v))
      else hw_switch_format P (the (snd sup)) data stop par (snd (hw_stop_for_reconfig P v)))"
    using assms(1) unfolding r_def hw_uart_driver_apply_line_format_def Let_def case_prod_beta
    by (simp add: w1_def [symmetric] w2_def [symmetric] w3_def [symmetric] v_def [symmetric] sup_def [symmetric] d)
  show thesis
  proof (cases "hw_uart_driver_line_format_supported rate data stop par \<and> fst sup \<and>
      uart_hw_line_format_idle (hw_tx_active (driver w)) (fst (ask P (Uart_fr_busy (hw_instance w1)) w1))
        (fst (ask P (Uart_is_readable (hw_instance w2)) w2)) \<and> fst (hw_uart_driver_pause_rx_dma_for_reconfig P w3)")
    case True
    then have "\<not> hw_tx_active (driver w)" by (simp add: uart_hw_line_format_idle_def)
    moreover obtain a where "sup = (True, Some a)" using some True by (cases sup) auto
    ultimately show thesis
      using resumed [of v] switched [of v a] r d(4) True by (simp add: sup_def [symmetric] split: if_splits)
  next
    case False
    with r d have "\<not> fst r \<and> driver (snd r) = driver w" by (auto split: if_splits)
    then show thesis using refused by simp
  qed
qed

lemma apply_driver:
  fixes w :: "'h hw_device" and P :: "'h platform" and rate :: u32 and data stop :: u8 and par :: uart_parity_t
  assumes "hw_initialized (driver w)"
  defines "r \<equiv> hw_uart_driver_apply_line_format P w rate data stop par" and "d \<equiv> driver w"
  shows "hw_config (driver (snd r)) = hw_config d" "hw_tx_ring (driver (snd r)) = hw_tx_ring d"
    "\<exists>n. hw_rx_ring (driver (snd r)) = ring_buffer_produce_external (hw_rx_ring d) n \<and>
         hw_uart_rx_bytes (driver (snd r)) = hw_uart_rx_bytes d + n"
    "fst r \<Longrightarrow> hw_initialized (driver (snd r)) \<and> \<not> hw_tx_active (driver (snd r)) \<and> hw_data_bits (driver (snd r)) = data \<and>
       hw_stop_bits (driver (snd r)) = stop \<and> hw_parity (driver (snd r)) = par"
    "\<not> fst r \<Longrightarrow> hw_initialized (driver (snd r)) \<Longrightarrow> hw_data_bits (driver (snd r)) = hw_data_bits d \<and>
       hw_stop_bits (driver (snd r)) = hw_stop_bits d \<and> hw_parity (driver (snd r)) = hw_parity d"
    "\<not> hw_initialized (driver (snd r)) \<Longrightarrow> \<not> fst r \<and> hw_rx_dma_channel (driver (snd r)) < 0 \<and>
       hw_tx_dma_channel (driver (snd r)) < 0"
    "hw_initialized (driver (snd r)) \<Longrightarrow> hw_rx_dma_channel (driver (snd r)) = hw_rx_dma_channel d \<and>
       hw_tx_dma_channel (driver (snd r)) = hw_tx_dma_channel d"
    "hw_tx_active d \<Longrightarrow> \<not> fst r \<and> driver (snd r) = d"
proof -
  have zero: "\<exists>n. x = ring_buffer_produce_external x n \<and> n = 0" for x
    by (intro exI [of _ 0]) (simp add: ring_buffer_produce_external_def)
  have "hw_config (driver (snd r)) = hw_config d \<and> hw_tx_ring (driver (snd r)) = hw_tx_ring d \<and>
    (\<exists>n. hw_rx_ring (driver (snd r)) = ring_buffer_produce_external (hw_rx_ring d) n \<and>
         hw_uart_rx_bytes (driver (snd r)) = hw_uart_rx_bytes d + n) \<and>
    (fst r \<longrightarrow> hw_initialized (driver (snd r)) \<and> \<not> hw_tx_active (driver (snd r)) \<and> hw_data_bits (driver (snd r)) = data \<and>
       hw_stop_bits (driver (snd r)) = stop \<and> hw_parity (driver (snd r)) = par) \<and>
    (\<not> fst r \<longrightarrow> hw_initialized (driver (snd r)) \<longrightarrow> hw_data_bits (driver (snd r)) = hw_data_bits d \<and>
       hw_stop_bits (driver (snd r)) = hw_stop_bits d \<and> hw_parity (driver (snd r)) = hw_parity d) \<and>
    (\<not> hw_initialized (driver (snd r)) \<longrightarrow> \<not> fst r \<and> hw_rx_dma_channel (driver (snd r)) < 0 \<and>
       hw_tx_dma_channel (driver (snd r)) < 0) \<and>
    (hw_initialized (driver (snd r)) \<longrightarrow> hw_rx_dma_channel (driver (snd r)) = hw_rx_dma_channel d \<and>
       hw_tx_dma_channel (driver (snd r)) = hw_tx_dma_channel d) \<and>
    (hw_tx_active d \<longrightarrow> \<not> fst r \<and> driver (snd r) = d)"
    using assms(1)
  proof (cases rule: apply_cases [of w P rate data stop par])
    case refused
    with assms(1) zero show ?thesis by (simp add: r_def d_def)
  next
    case (resumed v)
    then obtain n where "driver (snd r) = d\<lparr>hw_uart_rx_bytes := hw_uart_rx_bytes d + n, hw_rx_dma_last_progress := 0,
               hw_rx_ring := ring_buffer_produce_external (hw_rx_ring d) n\<rparr>"
      using stop_reconfig_driver [of v P] assms(1) by (auto simp: r_def d_def)
    with resumed assms(1) show ?thesis by (auto simp: r_def d_def)
  next
    case (switched v actual)
    then obtain n where s: "driver (snd (hw_stop_for_reconfig P v)) =
       d\<lparr>hw_uart_rx_bytes := hw_uart_rx_bytes d + n, hw_rx_dma_last_progress := 0,
               hw_rx_ring := ring_buffer_produce_external (hw_rx_ring d) n, hw_tx_dma_bytes_in_flight := 0, hw_tx_active := False\<rparr>"
      using stop_reconfig_driver [of v P] assms(1) by (auto simp: Let_def d_def)
    have r: "r = hw_switch_format P actual data stop par (snd (hw_stop_for_reconfig P v))"
      using switched(5) by (simp add: r_def)
    note sw = switch_driver [of P actual data stop par "snd (hw_stop_for_reconfig P v)", folded r, unfolded s]
    have init: "hw_initialized d" using assms(1) by (simp add: d_def)
    show ?thesis using sw init switched(1) by (auto simp: d_def [symmetric])
  qed
  then show "hw_config (driver (snd r)) = hw_config d" "hw_tx_ring (driver (snd r)) = hw_tx_ring d"
    "\<exists>n. hw_rx_ring (driver (snd r)) = ring_buffer_produce_external (hw_rx_ring d) n \<and>
         hw_uart_rx_bytes (driver (snd r)) = hw_uart_rx_bytes d + n"
    "fst r \<Longrightarrow> hw_initialized (driver (snd r)) \<and> \<not> hw_tx_active (driver (snd r)) \<and> hw_data_bits (driver (snd r)) = data \<and>
       hw_stop_bits (driver (snd r)) = stop \<and> hw_parity (driver (snd r)) = par"
    "\<not> fst r \<Longrightarrow> hw_initialized (driver (snd r)) \<Longrightarrow> hw_data_bits (driver (snd r)) = hw_data_bits d \<and>
       hw_stop_bits (driver (snd r)) = hw_stop_bits d \<and> hw_parity (driver (snd r)) = hw_parity d"
    "\<not> hw_initialized (driver (snd r)) \<Longrightarrow> \<not> fst r \<and> hw_rx_dma_channel (driver (snd r)) < 0 \<and>
       hw_tx_dma_channel (driver (snd r)) < 0"
    "hw_initialized (driver (snd r)) \<Longrightarrow> hw_rx_dma_channel (driver (snd r)) = hw_rx_dma_channel d \<and>
       hw_tx_dma_channel (driver (snd r)) = hw_tx_dma_channel d"
    "hw_tx_active d \<Longrightarrow> \<not> fst r \<and> driver (snd r) = d"
    by simp_all
qed

end
