(* ===== verification/Hw_Properties.thy ===== *)
theory Hw_Properties
  imports Backend_Contract Hw_Facts
begin

text \<open>
  The hardware UART backend against its contract: the facade's laws, the DMA channels it claims, the line format it
  leaves behind, and the accounting of the bytes it moves.
\<close>

section \<open>The facade's laws\<close>

lemma set_line_coding_inactive:
  "\<not> hw_initialized (driver w) \<Longrightarrow> \<not> hw_initialized (driver (snd (hw_uart_driver_set_line_coding P w lc)))"
  by (auto simp: hw_uart_driver_set_line_coding_def Let_def case_prod_beta)

lemma set_line_coding_active:
  "hw_initialized (driver w) \<Longrightarrow> fst (hw_uart_driver_set_line_coding P w lc) \<Longrightarrow>
     hw_initialized (driver (snd (hw_uart_driver_set_line_coding P w lc)))"
  by (auto simp: hw_uart_driver_set_line_coding_def Let_def case_prod_beta apply_driver(4) split: if_splits)

interpretation hw: backend_contract "uart_backend_hw_ops P configs peripheral_hz" for P configs peripheral_hz
proof
  let ?o = "uart_backend_hw_ops P configs peripheral_hz"
  fix b b' :: "'a hw_device" and launch :: bool and lc and r
  show "\<not> op_is_initialized ?o (op_deinit ?o b)"
    by (simp add: uart_backend_hw_ops_def hw_uart_driver_is_initialized_def deinit_driver)
  show "op_init ?o b = (True, b') \<Longrightarrow> op_is_initialized ?o b'"
    using start_driver(1) [of P b]
    by (auto simp: uart_backend_hw_ops_def hw_uart_driver_is_initialized_def hw_uart_driver_init_def split: if_splits)
  show "op_restart ?o b = (True, b') \<Longrightarrow> op_is_initialized ?o b'"
    using restart_driver(2) [of P b] by (auto simp: uart_backend_hw_ops_def hw_uart_driver_is_initialized_def)
  show "op_is_initialized ?o (op_poll ?o b launch) = op_is_initialized ?o b"
    by (simp add: uart_backend_hw_ops_def hw_uart_driver_is_initialized_def poll_driver)
  show "op_is_initialized ?o (op_clear_rx_error_baseline ?o b) = op_is_initialized ?o b"
    by (simp add: uart_backend_hw_ops_def hw_uart_driver_is_initialized_def)
  show "\<not> op_is_initialized ?o b \<Longrightarrow> \<not> op_is_initialized ?o (snd (op_set_line_coding ?o b lc))"
    by (simp add: uart_backend_hw_ops_def hw_uart_driver_is_initialized_def set_line_coding_inactive)
  show "op_is_initialized ?o b \<Longrightarrow> op_set_line_coding ?o b lc = (True, b') \<Longrightarrow> op_is_initialized ?o b'"
    using set_line_coding_active [of b P lc] by (simp add: uart_backend_hw_ops_def hw_uart_driver_is_initialized_def)
  show "op_rx_ring ?o (op_put_rx_ring ?o r b) = Some r" "op_tx_ring ?o (op_put_tx_ring ?o r b) = Some r"
    "op_is_initialized ?o (op_put_rx_ring ?o r b) = op_is_initialized ?o b"
    "op_is_initialized ?o (op_put_tx_ring ?o r b) = op_is_initialized ?o b"
    by (simp_all add: uart_backend_hw_ops_def hw_uart_driver_is_initialized_def hw_uart_driver_rx_ring_def
        hw_uart_driver_tx_ring_def)
qed

section \<open>DMA channels\<close>

text \<open>
  The SDK's claim register, as documented: a claim marks and returns a free channel or fails with a negative number,
  an unclaim frees its channel, and nothing else touches the register.
\<close>

definition tracks_claims :: "'h platform \<Rightarrow> ('h \<Rightarrow> u32 set) \<Rightarrow> bool" where
  "tracks_claims P claimed \<longleftrightarrow>
     (\<forall>h b. let (v, h') = sdk P (Dma_claim_unused b) h
            in if sint v < 0 then claimed h' = claimed h else v \<notin> claimed h \<and> claimed h' = insert v (claimed h)) \<and>
     (\<forall>h c. claimed (snd (sdk P (Dma_unclaim c) h)) = claimed h - {c}) \<and>
     (\<forall>h c. (\<forall>b. c \<noteq> Dma_claim_unused b) \<and> (\<forall>ch. c \<noteq> Dma_unclaim ch) \<longrightarrow> claimed (snd (sdk P c h)) = claimed h)"

definition hw_own :: "'h hw_device \<Rightarrow> u32 set" where
  "hw_own w = (if hw_initialized (driver w) then {hw_rx_channel w, hw_tx_channel w} else {})"

definition hw_holds :: "('h \<Rightarrow> u32 set) \<Rightarrow> 'h hw_device \<Rightarrow> bool" where
  "hw_holds claimed w \<longleftrightarrow> hw_own w \<subseteq> claimed (hw w) \<and>
     (hw_initialized (driver w) \<longrightarrow> 0 \<le> hw_rx_dma_channel (driver w) \<and> 0 \<le> hw_tx_dma_channel (driver w))"

lemma claims_call:
  assumes "tracks_claims P claimed" "\<forall>b. c \<noteq> Dma_claim_unused b" "\<forall>ch. c \<noteq> Dma_unclaim ch"
  shows "claimed (hw (snd (call P c w))) = claimed (hw w)" "claimed (hw (run P c w)) = claimed (hw w)"
    "claimed (hw (snd (ask P c w))) = claimed (hw w)"
  using assms by (simp_all add: tracks_claims_def device_defs)

lemma claims_unclaim: "tracks_claims P claimed \<Longrightarrow> claimed (hw (run P (Dma_unclaim c) w)) = claimed (hw w) - {c}"
  by (simp add: tracks_claims_def device_defs)

lemma claims_settle:
  assumes "tracks_claims P claimed"
  shows "claimed (hw (snd (settle_loop P ch n l s w))) = claimed (hw w)"
    "claimed (hw (snd (dma_wait_paused P ch w))) = claimed (hw w)"
proof -
  show loop: "claimed (hw (snd (settle_loop P ch n l s w))) = claimed (hw w)" for n l s w
    using assms by (induction n arbitrary: l s w) (simp_all add: case_prod_beta Let_def dma_remaining_def claims_call)
  show "claimed (hw (snd (dma_wait_paused P ch w))) = claimed (hw w)"
    using assms by (simp add: dma_wait_paused_def case_prod_beta Let_def loop dma_remaining_def claims_call)
qed

lemma claims_quiet:
  assumes "tracks_claims P claimed"
  shows "claimed (hw (hw_uart_driver_abort_dma_channel P c v)) = claimed (hw v)"
    "claimed (hw (hw_uart_driver_rearm_rx_dma P ch v)) = claimed (hw v)"
    "claimed (hw (snd (hw_uart_driver_pause_rx_dma_for_reconfig P w))) = claimed (hw w)"
    "claimed (hw (hw_uart_driver_configure_tx_dma P w)) = claimed (hw w)"
    "claimed (hw (hw_uart_driver_park_pins P w)) = claimed (hw w)" "claimed (hw (hw_start_pins P w)) = claimed (hw w)"
    "claimed (hw (hw_uart_driver_clear_rx_error_baseline P w)) = claimed (hw w)"
    "claimed (hw (snd (hw_uart_driver_configure_uart P w))) = claimed (hw w)"
    "claimed (hw (hw_uart_driver_configure_rts P w)) = claimed (hw w)"
    "claimed (hw (hw_uart_driver_update_rts P w)) = claimed (hw w)"
    "claimed (hw (hw_uart_driver_start_rx_dma P w)) = claimed (hw w)"
    "claimed (hw (hw_uart_driver_publish_rx P w)) = claimed (hw w)"
    "claimed (hw (snd (poll_should_rearm P w))) = claimed (hw w)"
    "claimed (hw (hw_uart_driver_record_rx_errors P w)) = claimed (hw w)"
    "claimed (hw (snd (hw_uart_driver_start_tx_dma P w))) = claimed (hw w)"
    "claimed (hw (hw_uart_driver_poll_tx_completion P w)) = claimed (hw w)"
    "claimed (hw (rx_irq_channel P c w)) = claimed (hw w)"
  using assms
  by (simp_all add: hw_uart_driver_rearm_rx_dma_def hw_uart_driver_abort_dma_channel_def
      hw_uart_driver_pause_rx_dma_for_reconfig_def hw_uart_driver_configure_tx_dma_def hw_uart_driver_park_pins_def
      hw_start_pins_def hw_uart_driver_clear_rx_error_baseline_def hw_uart_driver_configure_uart_def
      hw_uart_driver_configure_rts_def hw_uart_driver_update_rts_def hw_uart_driver_start_rx_dma_def
      hw_uart_driver_publish_rx_def hw_uart_driver_rx_progress_def dma_progress_def dma_remaining_def poll_should_rearm_def
      hw_uart_driver_record_rx_errors_def hw_uart_driver_start_tx_dma_def hw_uart_driver_poll_tx_completion_def
      rx_irq_channel_def case_prod_beta Let_def claims_call claims_settle)

lemma claims_quiet2:
  assumes "tracks_claims P claimed"
  shows "claimed (hw (snd (hw_stop_for_reconfig P w))) = claimed (hw w)"
    "claimed (hw (hw_resume P w)) = claimed (hw w)"
    "claimed (hw (hw_uart_driver_poll P w launch)) = claimed (hw w)"
    "claimed (hw (hw_uart_driver_rx_dma_irq_handler P w)) = claimed (hw w)"
    "claimed (hw (hw_uart_driver_enable_rx_dma_irq P w)) = claimed (hw w)"
proof -
  have f: "claimed (hw (fold g xs v)) = claimed (hw v)" if "\<And>x v. claimed (hw (g x v)) = claimed (hw v)"
    for g xs and v :: "'a hw_device" using that by (induction xs arbitrary: v) simp_all
  show "claimed (hw (snd (hw_stop_for_reconfig P w))) = claimed (hw w)"
    "claimed (hw (hw_resume P w)) = claimed (hw w)" "claimed (hw (hw_uart_driver_poll P w launch)) = claimed (hw w)"
    using assms by (simp_all add: hw_stop_for_reconfig_def hw_uart_driver_finish_rx_dma_stop_locked_def hw_resume_def
        hw_uart_driver_poll_def case_prod_beta Let_def claims_call claims_quiet)
  show "claimed (hw (hw_uart_driver_rx_dma_irq_handler P w)) = claimed (hw w)"
    "claimed (hw (hw_uart_driver_enable_rx_dma_irq P w)) = claimed (hw w)"
    using assms by (simp_all add: hw_uart_driver_rx_dma_irq_handler_def hw_uart_driver_enable_rx_dma_irq_def Let_def
        f claims_quiet claims_call)
qed

lemma channel_call [simp]:
  "hw_rx_channel (run P c w) = hw_rx_channel w" "hw_tx_channel (run P c w) = hw_tx_channel w"
  "hw_rx_channel (put_owner ch o' w) = hw_rx_channel w" "hw_tx_channel (put_owner ch o' w) = hw_tx_channel w"
  "hw_rx_channel (hw_uart_driver_abort_dma_channel P ch' w) = hw_rx_channel w"
  "hw_tx_channel (hw_uart_driver_abort_dma_channel P ch' w) = hw_tx_channel w"
  "hw_tx_channel (drv (hw_rx_dma_channel_update f) w) = hw_tx_channel w"
  by (simp_all add: hw_rx_channel_def hw_tx_channel_def)

lemma claims_release:
  assumes "tracks_claims P claimed" "0 \<le> hw_rx_dma_channel (driver w)" "0 \<le> hw_tx_dma_channel (driver w)"
  shows "claimed (hw (hw_uart_driver_release_dma P w)) = claimed (hw w) - {hw_rx_channel w, hw_tx_channel w}"
  using assms by (auto simp: hw_uart_driver_release_dma_def Let_def claims_unclaim claims_quiet claims_call)

lemma claim_outcome:
  assumes "tracks_claims P claimed" "hw_uart_driver_claim_dma_channels P (Some a) (Some b) w = (ok, rx, tx, w')"
  shows "\<not> ok \<Longrightarrow> claimed (hw w') = claimed (hw w)"
    "ok \<Longrightarrow> \<exists>r t. rx = Some (sint r) \<and> tx = Some (sint t) \<and> 0 \<le> sint r \<and> 0 \<le> sint t \<and> r \<noteq> t \<and>
       r \<notin> claimed (hw w) \<and> t \<notin> claimed (hw w) \<and> claimed (hw w') = {r, t} \<union> claimed (hw w)"
proof -
  let ?c1 = "call P (Dma_claim_unused False) w"
  let ?c2 = "call P (Dma_claim_unused False) (snd ?c1)"
  have c: "if sint (fst (call P (Dma_claim_unused False) v)) < 0
      then claimed (hw (snd (call P (Dma_claim_unused False) v))) = claimed (hw v)
      else fst (call P (Dma_claim_unused False) v) \<notin> claimed (hw v) \<and>
        claimed (hw (snd (call P (Dma_claim_unused False) v))) = insert (fst (call P (Dma_claim_unused False) v)) (claimed (hw v))"
    for v :: "('b, 'a, 'c) device_scheme"
  proof -
    have "let (v', h') = sdk P (Dma_claim_unused False) (hw v)
            in if sint v' < 0 then claimed h' = claimed (hw v) else v' \<notin> claimed (hw v) \<and> claimed h' = insert v' (claimed (hw v))"
      using assms(1) unfolding tracks_claims_def by blast
    then show ?thesis by (simp add: call_def case_prod_beta Let_def)
  qed
  have out: "(ok, rx, tx, w') = (if sint (fst ?c1) < 0 then (False, Some (sint (fst ?c1)), Some (-1), snd ?c1)
      else if sint (fst ?c2) < 0 then (False, Some (-1), Some (sint (fst ?c2)), run P (Dma_unclaim (fst ?c1)) (snd ?c2))
      else (True, Some (sint (fst ?c1)), Some (sint (fst ?c2)), snd ?c2))"
    unfolding assms(2) [symmetric] by (simp add: hw_uart_driver_claim_dma_channels_def Let_def case_prod_beta)
  show "claimed (hw w') = claimed (hw w)" if "\<not> ok"
    using that out c [of w] c [of "snd ?c1"] by (auto simp: claims_unclaim [OF assms(1)] split: if_splits)
  show "\<exists>r t. rx = Some (sint r) \<and> tx = Some (sint t) \<and> 0 \<le> sint r \<and> 0 \<le> sint t \<and> r \<noteq> t \<and>
       r \<notin> claimed (hw w) \<and> t \<notin> claimed (hw w) \<and> claimed (hw w') = {r, t} \<union> claimed (hw w)" if ok
    using that out c [of w] c [of "snd ?c1"]
    by (intro exI [of _ "fst ?c1"] exI [of _ "fst ?c2"]) (auto split: if_splits)
qed

text \<open>A start takes two free channels, or leaves the register as it was.\<close>

lemma claims_start:
  fixes w :: "'h hw_device"
  assumes "tracks_claims P claimed" "hw_uart_driver_start P w = (ok, w')"
  shows "\<not> ok \<Longrightarrow> claimed (hw w') = claimed (hw w)"
    "ok \<Longrightarrow> 0 \<le> hw_rx_dma_channel (driver w') \<and> 0 \<le> hw_tx_dma_channel (driver w') \<and>
       {hw_rx_channel w', hw_tx_channel w'} \<inter> claimed (hw w) = {} \<and>
       claimed (hw w') = {hw_rx_channel w', hw_tx_channel w'} \<union> claimed (hw w)"
proof -
  define w0 where "w0 = drv (\<lambda>d. d\<lparr>hw_rx_dma_channel := -1, hw_tx_dma_channel := -1, hw_tx_dma_bytes_in_flight := 0,
                             hw_tx_active := False, hw_rx_rts_asserted := False, hw_rx_dma_last_progress := 0\<rparr>) w"
  define w1 where "w1 = drv (\<lambda>_. snd (hw_start_rings (driver w0))) w0"
  obtain cl rx tx w2 where c: "hw_uart_driver_claim_dma_channels P (Some (hw_rx_dma_channel (driver w1)))
      (Some (hw_tx_dma_channel (driver w1))) w1 = (cl, rx, tx, w2)"
    by (metis prod_cases4)
  define w3 where "w3 = drv (\<lambda>d. d\<lparr>hw_rx_dma_channel := the rx, hw_tx_dma_channel := the tx\<rparr>) w2"
  define w4 where "w4 = hw_start_pins P w3"
  define w5 where "w5 = snd (hw_uart_driver_configure_uart P w4)"
  have out: "(ok, w') = (if \<not> hw_start_allowed (driver w) then (False, w)
      else if \<not> fst (hw_start_rings (driver w0)) then (False, w1)
      else if \<not> cl then (False, w3)
      else if \<not> fst (hw_uart_driver_configure_uart P w4)
      then (False, hw_uart_driver_park_pins P (hw_uart_driver_release_dma P w5))
      else (True, drv (hw_initialized_update (\<lambda>_. True)) (hw_uart_driver_start_rx_dma P
             (hw_uart_driver_configure_rts P (hw_uart_driver_configure_tx_dma P w5)))))"
    unfolding assms(2) [symmetric]
    by (simp add: hw_uart_driver_start_def Let_def case_prod_beta w0_def [symmetric] w1_def [symmetric] c
        w3_def [symmetric] w4_def [symmetric] w5_def [symmetric])
  have h: "hw w1 = hw w" "hw w3 = hw w2" by (simp_all add: w1_def w0_def w3_def)
  have h5: "claimed (hw w5) = claimed (hw w2)"
    using assms(1) by (simp add: w5_def w4_def claims_quiet h)
  note fail = claim_outcome(1) [OF assms(1) c] and succ = claim_outcome(2) [OF assms(1) c]
  have ch: "hw_rx_dma_channel (driver w5) = the rx" "hw_tx_dma_channel (driver w5) = the tx"
    by (simp_all add: w5_def w4_def w3_def configure_uart_driver)
  show "claimed (hw w') = claimed (hw w)" if "\<not> ok"
  proof (cases "cl")
    case False
    then show ?thesis using that out fail h by (auto split: if_splits)
  next
    case True
    from succ [OF this] obtain r t where rt: "rx = Some (sint r)" "tx = Some (sint t)" "0 \<le> sint r" "0 \<le> sint t" "r \<noteq> t"
      "r \<notin> claimed (hw w)" "t \<notin> claimed (hw w)" "claimed (hw w2) = {r, t} \<union> claimed (hw w)" by (auto simp: h)
    have "claimed (hw (hw_uart_driver_park_pins P (hw_uart_driver_release_dma P w5))) = claimed (hw w)"
      using assms(1) rt ch by (simp add: claims_quiet claims_release h5 hw_rx_channel_def hw_tx_channel_def)
    with that out h True show ?thesis by (auto split: if_splits)
  qed
  assume ok
  with out have cl and w': "w' = drv (hw_initialized_update (\<lambda>_. True)) (hw_uart_driver_start_rx_dma P
             (hw_uart_driver_configure_rts P (hw_uart_driver_configure_tx_dma P w5)))"
    by (auto split: if_splits)
  from succ [OF this(1)] obtain r t where rt: "rx = Some (sint r)" "tx = Some (sint t)" "0 \<le> sint r" "0 \<le> sint t" "r \<noteq> t"
      "r \<notin> claimed (hw w)" "t \<notin> claimed (hw w)" "claimed (hw w2) = {r, t} \<union> claimed (hw w)" by (auto simp: h)
  have "hw_rx_dma_channel (driver w') = sint r" "hw_tx_dma_channel (driver w') = sint t" "claimed (hw w') = claimed (hw w2)"
    using assms(1) rt ch by (simp_all add: w' start_rx_driver rts_driver claims_quiet h5)
  with rt show "0 \<le> hw_rx_dma_channel (driver w') \<and> 0 \<le> hw_tx_dma_channel (driver w') \<and>
       {hw_rx_channel w', hw_tx_channel w'} \<inter> claimed (hw w) = {} \<and>
       claimed (hw w') = {hw_rx_channel w', hw_tx_channel w'} \<union> claimed (hw w)"
    by (simp add: hw_rx_channel_def hw_tx_channel_def)
qed

text \<open>Everything an operation table, the interrupts and the pumps can do to an instance.\<close>

inductive hw_step :: "'h platform \<Rightarrow> (u32 \<Rightarrow> hw_uart_driver_config_t) \<Rightarrow> 'h hw_device \<Rightarrow> 'h hw_device \<Rightarrow> bool"
  for P configs where
  load: "hw_step P configs w (snd (hw_uart_driver_load_port_config configs w port_info))"
| init: "hw_step P configs w (snd (hw_uart_driver_init P w))"
| deinit: "hw_step P configs w (hw_uart_driver_deinit P w)"
| restart: "hw_step P configs w (snd (hw_uart_driver_restart P w))"
| poll: "hw_step P configs w (hw_uart_driver_poll P w launch)"
| set_coding: "hw_step P configs w (snd (hw_uart_driver_set_line_coding P w lc))"
| baseline: "hw_step P configs w (hw_uart_driver_clear_rx_error_baseline P w)"
| enable_irq: "hw_step P configs w (hw_uart_driver_enable_rx_dma_irq P w)"
| irq: "hw_step P configs w (hw_uart_driver_rx_dma_irq_handler P w)"
| put_rx: "hw_step P configs w (drv (hw_rx_ring_update (\<lambda>_. r)) w)"
| put_tx: "hw_step P configs w (drv (hw_tx_ring_update (\<lambda>_. r)) w)"

inductive hw_run :: "'h platform \<Rightarrow> (u32 \<Rightarrow> hw_uart_driver_config_t) \<Rightarrow> 'h hw_device \<Rightarrow> 'h hw_device \<Rightarrow> bool"
  for P configs w where
  none: "hw_run P configs w w"
| more: "hw_run P configs w w' \<Longrightarrow> hw_step P configs w' w'' \<Longrightarrow> hw_run P configs w w''"

lemma claims_switch:
  assumes "tracks_claims P claimed" "hw_initialized (driver w)" "0 \<le> hw_rx_dma_channel (driver w)" "0 \<le> hw_tx_dma_channel (driver w)"
  shows "claimed (hw (snd (hw_switch_format P rate data stop par w))) =
     (if hw_initialized (driver (snd (hw_switch_format P rate data stop par w))) then claimed (hw w)
      else claimed (hw w) - {hw_rx_channel w, hw_tx_channel w})"
  using assms
  by (simp add: hw_switch_format_def Let_def case_prod_beta hw_drivers claims_quiet claims_quiet2 claims_release
      hw_rx_channel_def hw_tx_channel_def)

lemma claims_apply:
  assumes "tracks_claims P claimed" "hw_initialized (driver w)" "0 \<le> hw_rx_dma_channel (driver w)" "0 \<le> hw_tx_dma_channel (driver w)"
  shows "claimed (hw (snd (hw_uart_driver_apply_line_format P w rate data stop par))) =
     (if hw_initialized (driver (snd (hw_uart_driver_apply_line_format P w rate data stop par))) then claimed (hw w)
      else claimed (hw w) - {hw_rx_channel w, hw_tx_channel w})"
proof -
  have stop: "hw_initialized (driver (snd (hw_stop_for_reconfig P v))) \<and>
      hw_rx_dma_channel (driver (snd (hw_stop_for_reconfig P v))) = hw_rx_dma_channel (driver w) \<and>
      hw_tx_dma_channel (driver (snd (hw_stop_for_reconfig P v))) = hw_tx_dma_channel (driver w)"
    if "driver v = driver w" for v :: "'a hw_device"
    using stop_reconfig_driver [of v P] that assms(2) by (auto simp: Let_def)
  have switch: "claimed (hw (snd (hw_switch_format P actual data stop par (snd (hw_stop_for_reconfig P v))))) =
      (if hw_initialized (driver (snd (hw_switch_format P actual data stop par (snd (hw_stop_for_reconfig P v)))))
       then claimed (hw v) else claimed (hw v) - {hw_rx_channel w, hw_tx_channel w})"
    if "driver v = driver w" for v actual
    using claims_switch [OF assms(1), of "snd (hw_stop_for_reconfig P v)" actual data "stop" par] stop [OF that] assms
    by (simp add: claims_quiet2 hw_rx_channel_def hw_tx_channel_def)
  show ?thesis
    using assms(1,2) unfolding hw_uart_driver_apply_line_format_def Let_def case_prod_beta
    by (simp add: claims_call claims_quiet claims_quiet2 stop switch)
qed

lemma hw_step_claims:
  fixes w :: "'h hw_device"
  assumes "tracks_claims P claimed" "hw_step P configs w w'" "hw_holds claimed w"
  shows "hw_holds claimed w' \<and> claimed (hw w') - hw_own w' = claimed (hw w) - hw_own w"
proof -
  have same: ?thesis if "claimed (hw w') = claimed (hw w)" "hw_initialized (driver w') = hw_initialized (driver w)"
    "hw_rx_dma_channel (driver w') = hw_rx_dma_channel (driver w)" "hw_tx_dma_channel (driver w') = hw_tx_dma_channel (driver w)"
    using that assms(3) by (auto simp: hw_holds_def hw_own_def hw_rx_channel_def hw_tx_channel_def)
  have off: ?thesis if "claimed (hw w') = claimed (hw w) - hw_own w" "\<not> hw_initialized (driver w')"
    using that by (auto simp: hw_holds_def hw_own_def)
  have deinit: "claimed (hw (hw_uart_driver_deinit P w)) = claimed (hw w) - hw_own w"
    using assms(1,3)
    by (auto simp: hw_uart_driver_deinit_def Let_def claims_call claims_quiet claims_release hw_holds_def hw_own_def hw_drivers
        hw_rx_channel_def hw_tx_channel_def)
  have start: "hw_holds claimed v' \<and> claimed (hw v') - hw_own v' = claimed (hw v)"
    if "hw_uart_driver_start P v = (ok, v')" "\<not> hw_initialized (driver v)" for v v' :: "'h hw_device" and ok
    using claims_start [OF assms(1) that(1)] start_driver [of P v] that
    by (cases ok) (auto simp: hw_holds_def hw_own_def)
  from assms(2) show ?thesis
  proof cases
    case (load port_info)
    then show ?thesis
      by (intro same) (auto simp: hw_uart_driver_load_port_config_def set_format_def split: option.splits)
  next
    case init
    show ?thesis
    proof (cases "hw_initialized (driver w)")
      case False
      with init start [of w "fst (hw_uart_driver_start P w)" w'] show ?thesis
        by (simp add: hw_uart_driver_init_def hw_own_def)
    qed (use init same in \<open>simp add: hw_uart_driver_init_def\<close>)
  next
    case deinit
    show ?thesis unfolding deinit using off deinit(1) \<open>claimed (hw (hw_uart_driver_deinit P w)) = claimed (hw w) - hw_own w\<close>
      deinit_driver(1) [of P w] by simp
  next
    case restart
    show ?thesis
    proof (cases "hw_config (driver w) = None")
      case False
      let ?v = "drv (hw_rx_ring_update (\<lambda>r. snd (ring_buffer_recover_overflow r))) (hw_uart_driver_deinit P w)"
      have "w' = snd (hw_uart_driver_start P ?v)" "\<not> hw_initialized (driver ?v)" "claimed (hw ?v) = claimed (hw w) - hw_own w"
        using restart False deinit by (simp_all add: hw_uart_driver_restart_def Let_def deinit_driver(1))
      with start [of ?v "fst (hw_uart_driver_start P ?v)" w'] show ?thesis by simp
    qed (use restart same in \<open>simp add: hw_uart_driver_restart_def\<close>)
  next
    case (set_coding lc)
    let ?w1 = "snd (call P Clock_peri_hz w)"
    let ?a = "hw_uart_driver_apply_line_format P ?w1 (baud_rate (the lc)) (data_bits (the lc)) (stop_bits (the lc))
      (hw_uart_backend_parity (parity (the lc)))"
    have w1: "driver ?w1 = driver w" "claimed (hw ?w1) = claimed (hw w)" using assms(1) by (simp_all add: claims_call)
    show ?thesis
    proof (cases "hw_initialized (driver w) \<and> w' = snd ?a")
      case True
      then have ch: "0 \<le> hw_rx_dma_channel (driver ?w1)" "0 \<le> hw_tx_dma_channel (driver ?w1)" "hw_initialized (driver ?w1)"
        using assms(3) w1 by (simp_all add: hw_holds_def)
      note c = claims_apply [OF assms(1) ch(3,1,2), of "baud_rate (the lc)" "data_bits (the lc)" "stop_bits (the lc)"
          "hw_uart_backend_parity (parity (the lc))"]
      show ?thesis
      proof (cases "hw_initialized (driver (snd ?a))")
        case True
        with c \<open>hw_initialized (driver w) \<and> w' = snd ?a\<close> apply_driver(7) [OF ch(3) True] w1 show ?thesis
          by (intro same) simp_all
      next
        case False
        with c \<open>hw_initialized (driver w) \<and> w' = snd ?a\<close> w1 show ?thesis
          by (intro off) (simp_all add: hw_own_def hw_rx_channel_def hw_tx_channel_def)
      qed
    next
      case False
      then show ?thesis
        using set_coding w1
        by (intro same) (auto simp: hw_uart_driver_set_line_coding_def Let_def case_prod_beta split: if_splits)
    qed
  next
    case (poll launch)
    then show ?thesis
      using same assms(1) by (simp add: claims_quiet2 poll_driver poll_channels)
  qed (use same assms(1) in \<open>simp_all add: claims_quiet claims_quiet2\<close>)
qed

text \<open>C21: A hardware UART never leaks or steals a DMA channel. From an inactive instance, after any sequence of
  loads, starts, stops, restarts, polls, format changes and interrupts, with the failures of each on the way, the instance owns
  exactly the channels it claimed and has not released, and every other channel is claimed or free as it was
  at the beginning; so an instance that is not running owns none.\<close>

theorem hw_no_channel_leak:
  fixes w :: "'h hw_device"
  assumes "tracks_claims P claimed" "hw_run P configs w w'" "\<not> hw_uart_driver_is_initialized w"
  shows "hw_own w' \<subseteq> claimed (hw w') \<and> claimed (hw w') - hw_own w' = claimed (hw w) \<and>
    (\<not> hw_uart_driver_is_initialized w' \<longrightarrow> claimed (hw w') = claimed (hw w))"
proof -
  have "hw_holds claimed w' \<and> claimed (hw w') - hw_own w' = claimed (hw w) - hw_own w"
    using assms(2)
  proof induction
    case none
    show ?case using assms(3) by (simp add: hw_holds_def hw_own_def hw_uart_driver_is_initialized_def)
  next
    case (more w' w'')
    then show ?case using hw_step_claims [OF assms(1)] by blast
  qed
  then show ?thesis using assms(3) by (auto simp: hw_holds_def hw_own_def hw_uart_driver_is_initialized_def)
qed

definition demo_sdk :: "sdk_call \<Rightarrow> u32 list \<Rightarrow> u32 \<times> u32 list" where
  "demo_sdk c h = (case c of
     Dma_claim_unused b \<Rightarrow> (case filter (\<lambda>ch. ch \<notin> set h) [0, 1, 2, 3, 4, 5, 6, 7, 8, 9, 10, 11] of
                               [] \<Rightarrow> (-1, h) | ch # _ \<Rightarrow> (ch, ch # h))
   | Dma_unclaim ch \<Rightarrow> (0, removeAll ch h)
   | Clock_peri_hz \<Rightarrow> (125000000, h)
   | Uart_init inst rate \<Rightarrow> (the (snd (hw_uart_baud_rate_supported rate 125000000 (Some 0))), h)
   | _ \<Rightarrow> (0, h))"

definition demo_platform :: "u32 list platform" where
  "demo_platform = \<lparr>sdk = demo_sdk, chip = RP2040, dma_encode_transfer_count = id\<rparr>"

lemma demo_tracks: "tracks_claims demo_platform set"
proof -
  let ?free = "\<lambda>h :: u32 list. filter (\<lambda>ch. ch \<notin> set h) [0, 1, 2, 3, 4, 5, 6, 7, 8, 9, 10, 11]"
  have range: "0 \<le> sint ch" if "ch \<in> set [0, 1, 2, 3, 4, 5, 6, 7, 8, 9, 10, 11 :: u32]" for ch
    using that by auto
  have "let (v, h') = demo_sdk (Dma_claim_unused b) h
      in if sint v < 0 then set h' = set h else v \<notin> set h \<and> set h' = insert v (set h)" for h b
  proof (cases "?free h")
    case (Cons ch rest)
    then have "ch \<in> set (?free h)" by simp
    then have m: "ch \<in> set [0, 1, 2, 3, 4, 5, 6, 7, 8, 9, 10, 11]" "ch \<notin> set h"
      unfolding set_filter by blast+
    have "0 \<le> sint ch" by (rule range [OF m(1)])
    with Cons m(2) show ?thesis by (simp only: demo_sdk_def sdk_call.case list.case) simp
  qed (simp add: demo_sdk_def)
  then show ?thesis
    unfolding tracks_claims_def demo_platform_def platform.simps
    by (auto simp: demo_sdk_def split: sdk_call.splits)
qed

definition demo_hw_ring :: ring_buffer_t where
  "demo_hw_ring = \<lparr>storage = None, ring_size = 0, ring_mask = 0, producer = 0, consumer = 0,
     high_watermark = 0, overflow_count = 0, producer_reserved_sequence = 0, producer_reserved_count = 0,
     consumer_reserved_sequence = 0, consumer_reserved_count = 0\<rparr>"

definition demo_device :: "u32 list hw_device" where
  "demo_device = \<lparr>driver = \<lparr>hw_config = None, hw_baud_rate = 0, hw_data_bits = 0, hw_stop_bits = 0,
      hw_parity = UART_PARITY_NONE, hw_initialized = False, hw_rx_dma_channel = 0, hw_tx_dma_channel = 0,
      hw_tx_dma_bytes_in_flight = 0, hw_tx_active = False, hw_rx_rts_asserted = False, hw_uart_tx_bytes = 0,
      hw_uart_rx_bytes = 0, hw_rx_error_count = 0, hw_rx_dma_last_progress = 0, hw_rx_ring = demo_hw_ring,
      hw_tx_ring = demo_hw_ring, hw_rx_storage = Some [], hw_rx_storage_address = 0, hw_tx_storage = []\<rparr>,
    hw = [], meter = (\<lambda>c. \<lparr>window_start = 0, pass_start = 0, busy_us = 0, started = False, measuring = False,
                         worked = False, published = 0\<rparr>),
    hw_uart_driver_rx_irq_owners = (\<lambda>c. None), hw_uart_driver_rx_dma_irq_installed = False\<rparr>"

text \<open>Loaded with the board's first port, started, and stopped again.\<close>

definition demo_loaded :: "u32 list hw_device" where
  "demo_loaded = snd (hw_uart_driver_load_port_config hw_uart_driver_configs demo_device (Some (uart_board_ports 0)))"

theorem hw_no_channel_leak_witness:
  "set (hw (hw_uart_driver_deinit demo_platform (snd (hw_uart_driver_init demo_platform demo_loaded)))) = {}"
proof -
  let ?w = "hw_uart_driver_deinit demo_platform (snd (hw_uart_driver_init demo_platform demo_loaded))"
  have "hw_run demo_platform hw_uart_driver_configs demo_device ?w"
    unfolding demo_loaded_def by (intro hw_run.more [OF _ hw_step.deinit] hw_run.more [OF _ hw_step.init]
      hw_run.more [OF _ hw_step.load] hw_run.none)
  from hw_no_channel_leak [OF demo_tracks this] show ?thesis
    by (simp add: hw_uart_driver_is_initialized_def deinit_driver demo_device_def)
qed

text \<open>A port that reports \<open>READY\<close> has a running backend. For a port on a hardware UART, whatever the SDK
  answers, one full sweep of the worker (lifecycle requests, mailboxes, deferred requests, polling, of all six ports in
  rotation) keeps it so: each way a backend can stop on takes \<open>READY\<close> back in the same pass.\<close>

theorem ready_means_running:
  fixes st :: "('h hw_device, 'z) uart_driver_state_t_scheme"
  assumes "p < UART_PORT_COUNT" "ready_runs (uart_backend_hw_ops P configs peripheral_hz) p st"
  shows "ready_runs (uart_backend_hw_ops P configs peripheral_hz) p
    (uart_driver_poll_io (uart_driver_worker_service_control clk st))"
  by (rule hw.sweep_keeps [OF assms])

lemma demo_starts: "fst (hw_uart_driver_init demo_platform demo_loaded)"
  by code_simp

definition demo_hw_state :: "u32 list hw_device uart_driver_state_t" where
  "demo_hw_state = \<lparr>views_bound = True,
     ports = (\<lambda>p. \<lparr>info = uart_board_ports 0, ops = Some (uart_backend_hw_ops demo_platform hw_uart_driver_configs 125000000),
       backend = snd (hw_uart_driver_init demo_platform demo_loaded),
       control_history = \<lparr>history_reason = UART_CONTROL_ERROR_NONE, history_uptime_us = 0\<rparr>\<rparr>),
     mailboxes = (\<lambda>p. \<lparr>occupied = False, mailbox_request = zero_request\<rparr>),
     pending_controls = (\<lambda>p. zero_pending), soft_pending_controls = (\<lambda>p. False),
     control_generations = (\<lambda>p. 0), status_flags = (\<lambda>p. UART_DRIVER_PORT_STATUS_READY), stats_sequence = (\<lambda>p. 0),
     poll_start_index = 0, load_meter = meter demo_device, clock_reads = 0, worker_started = True,
     worker_heartbeat = 0, status_lock = True,
     lifecycle = (\<lambda>p. \<lparr>stop_pending = True, usb_quiesced = True, start_pending = True\<rparr>),
     last_heartbeat = 0, last_change_ms = 0\<rparr>"

theorem ready_means_running_witness:
  "ready_runs (uart_backend_hw_ops demo_platform hw_uart_driver_configs 125000000) 0
     (uart_driver_poll_io (uart_driver_worker_service_control (\<lambda>k. 0) demo_hw_state))"
proof (rule ready_means_running)
  show "ready_runs (uart_backend_hw_ops demo_platform hw_uart_driver_configs 125000000) 0 demo_hw_state"
    using hw.init_starts [of demo_platform hw_uart_driver_configs 125000000 demo_loaded "snd (hw_uart_driver_init demo_platform demo_loaded)"]
      demo_starts
    by (simp add: ready_runs_def demo_hw_state_def uart_backend_hw_ops_def prod_eq_iff)
qed (simp add: word_less_nat_alt)

end
