(* ===== verification/Hw_Format.thy ===== *)
theory Hw_Format
  imports Hw_Properties
begin

text \<open>
  What a line-format request does to a running hardware UART, and the rate it ends with.
\<close>

section \<open>The request as a whole\<close>

lemma set_line_coding_running:
  assumes "hw_initialized (driver w)"
  shows "hw_uart_driver_set_line_coding P w (Some lc) =
    (let v = snd (call P Clock_peri_hz w)
     in if \<not> uart_line_coding_is_valid (Some lc) then (False, w)
        else if \<not> fst (hw_uart_baud_rate_supported (baud_rate lc) (fst (call P Clock_peri_hz w)) (Some 0)) then (False, v)
        else hw_uart_driver_apply_line_format P v (baud_rate lc) (data_bits lc) (stop_bits lc)
               (hw_uart_backend_parity (parity lc)))"
  using assms by (simp add: hw_uart_driver_set_line_coding_def Let_def case_prod_beta)


section \<open>The rate\<close>

text \<open>
  The SDK's clock and \<open>uart_init\<close>, as documented: the peripheral clock is fixed, and \<open>uart_init\<close> returns the
  rate of the divisor it rounds to, the calculation that \<open>baud_rate.h\<close> repeats.
\<close>

definition pl011_sdk :: "'h platform \<Rightarrow> u32 \<Rightarrow> bool" where
  "pl011_sdk P hz \<longleftrightarrow> (\<forall>h. fst (sdk P Clock_peri_hz h) = hz) \<and>
     (\<forall>h i r. Some (fst (sdk P (Uart_init i r) h)) = snd (hw_uart_baud_rate_supported r hz (Some 0)))"

definition quantised :: "u32 \<Rightarrow> u32 \<Rightarrow> u32" where
  "quantised hz r = the (snd (hw_uart_baud_rate_supported r hz (Some 0)))"

lemma pl011_call:
  assumes "pl011_sdk P hz"
  shows "fst (call P Clock_peri_hz w) = hz" "fst (call P (Uart_init i r) w) = quantised hz r"
proof -
  have "Some (fst (sdk P (Uart_init i r) (hw w))) = snd (hw_uart_baud_rate_supported r hz (Some 0))"
    using assms by (simp add: pl011_sdk_def)
  then show "fst (call P (Uart_init i r) w) = quantised hz r"
    by (simp add: call_def quantised_def option.sel flip: option.sel)
       (metis option.sel)
  show "fst (call P Clock_peri_hz w) = hz" using assms by (simp add: call_def pl011_sdk_def)
qed

lemma applied_rate:
  assumes "pl011_sdk P hz" "hw_initialized (driver w)" "hw_uart_driver_apply_line_format P w rate data stop par = (True, w')"
  shows "hw_baud_rate (driver w') = quantised hz (quantised hz rate)"
  using assms(2)
proof (cases rule: apply_cases [of w P rate data stop par])
  case (switched v actual)
  have q: "actual = quantised hz rate" using switched(4) assms(1) by (simp add: pl011_call quantised_def)
  have "hw_switch_format P actual data stop par (snd (hw_stop_for_reconfig P v)) = (True, w')"
    using switched(5) assms(3) by simp
  then have "hw_baud_rate (driver w') = configured_rate P (drv (set_format actual data stop par) (snd (hw_stop_for_reconfig P v)))"
    using switch_driver(6) [of P actual data stop par "snd (hw_stop_for_reconfig P v)"] by simp
  then show ?thesis using assms(1) by (simp add: configured_rate_def pl011_call q)
qed (use assms(3) in simp_all)

text \<open>C23: The rate of a running port is rounded twice. A request rounds the wanted rate to what the divisor can make, stores the
  result as the rate and programs the divisor from that; the rate truncated to whole bits per second can round to another
  divisor. So after a successful request the port's rate is the rounding of the rounded rate, and the port recognises the
  setting it has just applied exactly when a second rounding changes nothing.\<close>

theorem hw_rate_requantised:
  fixes w :: "'h hw_device"
  assumes "pl011_sdk P hz" "hw_uart_driver_is_initialized w" "hw_uart_driver_set_line_coding P w (Some lc) = (True, w')"
  shows "hw_uart_driver_baud_rate w' = quantised hz (quantised hz (baud_rate lc)) \<and>
    (hw_uart_driver_line_coding_matches P w' (Some lc) \<longleftrightarrow>
       quantised hz (quantised hz (baud_rate lc)) = quantised hz (baud_rate lc))"
proof -
  let ?v = "snd (call P Clock_peri_hz w)"
  have i: "hw_initialized (driver ?v)" using assms(2) by (simp add: hw_uart_driver_is_initialized_def)
  have sup: "uart_line_coding_is_valid (Some lc)" "fst (hw_uart_baud_rate_supported (baud_rate lc) hz (Some 0))"
    and app: "hw_uart_driver_apply_line_format P ?v (baud_rate lc) (data_bits lc) (stop_bits lc)
               (hw_uart_backend_parity (parity lc)) = (True, w')"
    using assms by (auto simp: set_line_coding_running hw_uart_driver_is_initialized_def Let_def pl011_call split: if_splits)
  have d: "hw_initialized (driver w')" "hw_data_bits (driver w') = data_bits lc" "hw_stop_bits (driver w') = stop_bits lc"
    "hw_parity (driver w') = hw_uart_backend_parity (parity lc)"
    using apply_driver(4) [OF i, of P "baud_rate lc" "data_bits lc" "stop_bits lc" "hw_uart_backend_parity (parity lc)"] app
    by simp_all
  have some: "snd (hw_uart_baud_rate_supported (baud_rate lc) hz (Some 0)) = Some (quantised hz (baud_rate lc))"
    using sup(2) by (auto simp: quantised_def hw_uart_baud_rate_supported_def hw_uart_baud_rate_calculate_def Let_def split: if_splits)
  note rate = applied_rate [OF assms(1) i app]
  show ?thesis
    using sup d some rate by (simp add: hw_uart_driver_baud_rate_def hw_uart_driver_line_coding_matches_def Let_def
        case_prod_beta pl011_call [OF assms(1)])
qed

section \<open>A port at 250 MHz\<close>

definition fast_sdk :: "sdk_call \<Rightarrow> u32 list \<Rightarrow> u32 \<times> u32 list" where
  "fast_sdk c h = (case c of
     Clock_peri_hz \<Rightarrow> (250000000, h)
   | Uart_init inst rate \<Rightarrow> (the (snd (hw_uart_baud_rate_supported rate 250000000 (Some 0))), h)
   | Passes_before_deadline_us t \<Rightarrow> (5, h)
   | _ \<Rightarrow> demo_sdk c h)"

definition fast_platform :: "u32 list platform" where
  "fast_platform = \<lparr>sdk = fast_sdk, chip = RP2040, dma_encode_transfer_count = id\<rparr>"

definition fast_running :: "u32 list hw_device" where
  "fast_running = drv (\<lambda>d. d\<lparr>hw_config := Some (hw_uart_driver_configs 0), hw_initialized := True\<rparr>) demo_device"

definition coding_9600 :: uart_driver_line_coding_t where
  "coding_9600 = \<lparr>baud_rate = 9600, data_bits = 8, stop_bits = 1, parity = UART_DRIVER_PARITY_NONE\<rparr>"

lemma fast_pl011: "pl011_sdk fast_platform 250000000"
  by (auto simp: pl011_sdk_def fast_platform_def fast_sdk_def hw_uart_baud_rate_supported_def hw_uart_baud_rate_calculate_def Let_def)

lemma fast_quantised:
  "quantised 250000000 9600 = 9599" "quantised 250000000 9599 = 9598"
  by code_simp+

text \<open>The hardware's answers do not depend on its state, except for the claim register.\<close>

lemma fast_answers:
  "fst (call fast_platform Clock_peri_hz w) = 250000000" "fst (ask fast_platform (Uart_fr_busy i) w) = False"
  "fst (ask fast_platform (Uart_is_readable i) w) = False" "fst (dma_remaining fast_platform ch w) = 0"
  "fst (call fast_platform (Passes_before_deadline_us t) w) = 5"
  by (simp_all add: device_defs fast_platform_def fast_sdk_def demo_sdk_def dma_remaining_def
      uart_dma_rx_transfer_count_remaining_def uart_dma_rx_mask_remaining_def)

lemma fast_settles:
  fixes w :: "('b, u32 list, 'c) device_scheme"
  shows "fst (dma_wait_paused fast_platform ch w)"
proof -
  have "fst (settle_loop fast_platform ch (Suc (Suc (Suc (Suc (Suc 0))))) 0 0 v)" for v :: "('b, u32 list, 'c) device_scheme"
    by (simp add: Let_def case_prod_beta fast_answers
        uart_dma_rx_paused_progress_sample_def uart_dma_rx_pause_progress_publishable_def)
  moreover have "unat (5 :: u32) = Suc (Suc (Suc (Suc (Suc 0))))" by simp
  ultimately show ?thesis by (simp only: dma_wait_paused_def Let_def case_prod_beta fast_answers)
qed

lemma fast_applies: "fst (hw_uart_driver_set_line_coding fast_platform fast_running (Some coding_9600))"
proof -
  have r: "hw_initialized (driver fast_running)" by (simp add: fast_running_def)
  have valid: "uart_line_coding_is_valid (Some coding_9600)"
    "hw_uart_baud_rate_supported 9600 250000000 (Some 0) = (True, Some 9599)"
    "hw_uart_baud_rate_supported 9599 250000000 (Some 0) = (True, Some 9598)"
    "hw_uart_driver_line_format_supported 9600 8 1 (hw_uart_backend_parity UART_DRIVER_PARITY_NONE)"
    by code_simp+
  have pause: "fst (hw_uart_driver_pause_rx_dma_for_reconfig fast_platform w)" for w
    by (simp add: hw_uart_driver_pause_rx_dma_for_reconfig_def Let_def case_prod_beta fast_settles)
  have stop: "fst (hw_stop_for_reconfig fast_platform w)" for w
    by (simp add: hw_stop_for_reconfig_def Let_def case_prod_beta fast_answers)
  have switch: "fst (hw_switch_format fast_platform 9599 8 1 par w)" for par w
    by (simp add: hw_switch_format_def Let_def case_prod_beta configure_uart_ok fast_answers valid)
  have idle: "\<not> hw_tx_active (driver fast_running)" by (simp add: fast_running_def demo_device_def)
  show ?thesis
    using r valid idle
    by (simp add: set_line_coding_running coding_9600_def fast_answers Let_def hw_uart_driver_apply_line_format_def
        uart_hw_line_format_idle_def case_prod_beta pause stop switch)
qed


text \<open>At 250 MHz a port set to 9600 baud runs at 9598 and does not recognise 9600 as its setting.\<close>

theorem hw_rate_requantised_witness:
  "\<not> hw_uart_driver_line_coding_matches fast_platform
     (snd (hw_uart_driver_set_line_coding fast_platform fast_running (Some coding_9600))) (Some coding_9600)"
proof -
  let ?r = "hw_uart_driver_set_line_coding fast_platform fast_running (Some coding_9600)"
  have "hw_uart_driver_is_initialized fast_running" by (simp add: fast_running_def hw_uart_driver_is_initialized_def)
  moreover have "?r = (True, snd ?r)" using fast_applies by (simp add: prod_eq_iff)
  ultimately show ?thesis
    using hw_rate_requantised [OF fast_pl011] fast_quantised by (simp add: coding_9600_def)
qed

end
