(* ===== verification/Pio_Uart.thy ===== *)
theory Pio_Uart
  imports Hw_Uart
begin

text \<open>
  The PIO UART backend: \<open>uart/pio/pio_uart_driver.c\<close>, \<open>resource_claim.c\<close>, \<open>txstall_wait.h\<close>,
  \<open>pio_uart_backend.c\<close> and \<open>pio_uart_board_config.c\<close>. As in \<open>Hw_Uart\<close>, the context is the instance and
  never null, and every SDK call and register access is one \<open>sdk_call\<close> in the order of the code.
\<close>

abbreviation PIO_UART_DRIVER_TX_FIFO_DEPTH :: size_t where "PIO_UART_DRIVER_TX_FIFO_DEPTH \<equiv> 8"
abbreviation PIO_UART_DRIVER_DEFAULT_TX_DMA_MAX_TRANSFER_BYTES :: size_t where "PIO_UART_DRIVER_DEFAULT_TX_DMA_MAX_TRANSFER_BYTES \<equiv> 256"
abbreviation PIO_UART_DRIVER_TX_DMA_BUDGET_MS :: u32 where "PIO_UART_DRIVER_TX_DMA_BUDGET_MS \<equiv> 25"
abbreviation PIO_UART_DRIVER_RX_DMA_IRQ_INDEX :: u32 where "PIO_UART_DRIVER_RX_DMA_IRQ_INDEX \<equiv> 1"
abbreviation PICO_UART_PIO_UART_RX_BUFFER_SIZE :: u32 where "PICO_UART_PIO_UART_RX_BUFFER_SIZE \<equiv> 4096"
abbreviation PICO_UART_PIO_UART_TX_BUFFER_SIZE :: u32 where "PICO_UART_PIO_UART_TX_BUFFER_SIZE \<equiv> 4096"
abbreviation PICO_UART_PIO_UART_TX_DMA_START_THRESHOLD :: u32 where "PICO_UART_PIO_UART_TX_DMA_START_THRESHOLD \<equiv> 64"
abbreviation PIO_FDEBUG_TXSTALL_LSB :: nat where "PIO_FDEBUG_TXSTALL_LSB \<equiv> 24"

abbreviation PIO_UART_DRIVER_PIN_FLAG_RX_PULL_UP :: u32 where "PIO_UART_DRIVER_PIN_FLAG_RX_PULL_UP \<equiv> 1"
abbreviation PIO_UART_DRIVER_PIN_FLAG_REQUIRE_RX_IDLE_HIGH :: u32 where "PIO_UART_DRIVER_PIN_FLAG_REQUIRE_RX_IDLE_HIGH \<equiv> 2"
abbreviation PIO_UART_DRIVER_PIN_FLAG_RX_FLOW_CONTROL :: u32 where "PIO_UART_DRIVER_PIN_FLAG_RX_FLOW_CONTROL \<equiv> 4"
abbreviation PIO_UART_DRIVER_PIN_FLAG_TX_FLOW_CONTROL :: u32 where "PIO_UART_DRIVER_PIN_FLAG_TX_FLOW_CONTROL \<equiv> 8"

section \<open>State\<close>

record pio_uart_driver_config_t =
  pc_port :: "uart_driver_port_info_t option"
  pc_pio :: "pio_t option"
  pc_tx_state_machine :: u32
  pc_rx_state_machine :: u32
  pc_pin_flags :: u32
  pc_tx_dma_start_threshold :: u32

record pio_uart_driver_t =
  p_config :: "pio_uart_driver_config_t option"
  p_baud_rate :: u32
  p_initialized :: bool
  p_tx_sm_claimed :: bool
  p_rx_sm_claimed :: bool
  p_rx_dma_channel :: int
  p_tx_dma_channel :: int
  p_tx_dma_active :: bool
  p_txstall_waiting :: bool
  p_rx_rts_asserted :: bool
  p_tx_cts_enabled :: bool
  p_tx_dma_bytes_in_flight :: size_t
  p_tx_polled_bytes :: size_t
  p_tx_dma_bytes :: size_t
  p_uart_rx_bytes :: u32
  p_rx_error_count :: u32
  p_rx_dma_last_progress :: u32
  p_rx_ring :: ring_buffer_t
  p_tx_ring :: ring_buffer_t
  p_rx_storage :: "u8 list option"
  p_rx_storage_address :: u32
  p_tx_storage :: "u8 list"

record pio_uart_program_state_t =
  tx_loaded :: bool
  tx_cts_loaded :: bool
  rx_loaded :: bool
  tx_offset :: u32
  tx_cts_offset :: u32
  rx_offset :: u32

text \<open>The statics of the file, as for the hardware UARTs, with the programs of the two blocks.\<close>

record 'h pio_device = "(pio_uart_driver_t, 'h) device" +
  pio_uart_program_state :: "u32 \<Rightarrow> pio_uart_program_state_t"
  pio_uart_driver_rx_irq_owners :: "u32 \<Rightarrow> int option"
  pio_uart_driver_rx_dma_irq_installed :: bool

definition p_put_owner :: "int \<Rightarrow> int option \<Rightarrow> 'h pio_device \<Rightarrow> 'h pio_device" where
  "p_put_owner ch owner w =
     w\<lparr>pio_uart_driver_rx_irq_owners := (pio_uart_driver_rx_irq_owners w)(of_int ch := owner)\<rparr>"

definition p_cfg :: "'h pio_device \<Rightarrow> pio_uart_driver_config_t" where
  "p_cfg w = the (p_config (driver w))"

definition p_pio :: "'h pio_device \<Rightarrow> pio_t" where
  "p_pio w = the (pc_pio (p_cfg w))"

definition p_tx_sm :: "'h pio_device \<Rightarrow> u32" where
  "p_tx_sm w = pc_tx_state_machine (p_cfg w)"

definition p_rx_sm :: "'h pio_device \<Rightarrow> u32" where
  "p_rx_sm w = pc_rx_state_machine (p_cfg w)"

definition p_pins :: "'h pio_device \<Rightarrow> uart_driver_port_info_t" where
  "p_pins w = the (pc_port (p_cfg w))"

definition p_flag :: "u32 \<Rightarrow> 'h pio_device \<Rightarrow> bool" where
  "p_flag flag w \<longleftrightarrow> pc_pin_flags (p_cfg w) AND flag \<noteq> 0"

definition p_rx_channel :: "'h pio_device \<Rightarrow> u32" where
  "p_rx_channel w = of_int (p_rx_dma_channel (driver w))"

definition p_tx_channel :: "'h pio_device \<Rightarrow> u32" where
  "p_tx_channel w = of_int (p_tx_dma_channel (driver w))"

lemmas p_access = p_cfg_def p_pio_def p_tx_sm_def p_rx_sm_def p_pins_def p_flag_def p_rx_channel_def p_tx_channel_def

section \<open>Claiming state machines and channels\<close>

text \<open>The output cells are given and returned; \<open>None\<close> is the null pointer.\<close>

definition pio_unclaim_state_machines :: "'h platform \<Rightarrow> pio_t \<Rightarrow> u32 \<Rightarrow> u32 \<Rightarrow> ('d, 'h, 'z) device_scheme \<Rightarrow>
    ('d, 'h, 'z) device_scheme" where
  "pio_unclaim_state_machines P pio tx_sm rx_sm w =
     run P (Pio_sm_unclaim pio tx_sm) (run P (Pio_sm_unclaim pio rx_sm) w)"

definition pio_uart_driver_claim_resources ::
    "'h platform \<Rightarrow> pio_t \<Rightarrow> u32 \<Rightarrow> u32 \<Rightarrow> bool option \<Rightarrow> bool option \<Rightarrow> int option \<Rightarrow> int option \<Rightarrow>
       ('d, 'h, 'z) device_scheme \<Rightarrow>
       bool \<times> bool option \<times> bool option \<times> int option \<times> int option \<times> ('d, 'h, 'z) device_scheme" where
  "pio_uart_driver_claim_resources P pio tx_sm rx_sm tx_sm_claimed rx_sm_claimed rx_dma_channel tx_dma_channel w =
     (if tx_sm_claimed = None \<or> rx_sm_claimed = None \<or> rx_dma_channel = None \<or> tx_dma_channel = None
      then (False, tx_sm_claimed, rx_sm_claimed, rx_dma_channel, tx_dma_channel, w)
      else let (taken, w) = ask P (Pio_sm_is_claimed pio tx_sm) w;
               (taken, w) = (if taken then (True, w) else ask P (Pio_sm_is_claimed pio rx_sm) w)
           in if taken then (False, Some False, Some False, Some (-1), Some (-1), w)
              else let w = run P (Pio_sm_claim pio tx_sm) w;
                       w = run P (Pio_sm_claim pio rx_sm) w;
                       (rx, w) = call P (Dma_claim_unused False) w
                   in if sint rx < 0
                      then (False, Some False, Some False, Some (sint rx), Some (-1),
                            pio_unclaim_state_machines P pio tx_sm rx_sm w)
                      else let (tx, w) = call P (Dma_claim_unused False) w
                           in if sint tx < 0
                              then (False, Some False, Some False, Some (-1), Some (sint tx),
                                    pio_unclaim_state_machines P pio tx_sm rx_sm (run P (Dma_unclaim rx) w))
                              else (True, Some True, Some True, Some (sint rx), Some (sint tx), w))"

section \<open>Flow control\<close>

definition pio_uart_driver_dma_threshold :: "'h pio_device \<Rightarrow> size_t" where
  "pio_uart_driver_dma_threshold w =
     (if pc_tx_dma_start_threshold (p_cfg w) \<noteq> 0 then pc_tx_dma_start_threshold (p_cfg w)
      else PICO_UART_PIO_UART_TX_DMA_START_THRESHOLD)"

definition pio_uart_driver_configure_rts :: "'h platform \<Rightarrow> 'h pio_device \<Rightarrow> 'h pio_device" where
  "pio_uart_driver_configure_rts P w =
     (if \<not> p_flag PIO_UART_DRIVER_PIN_FLAG_RX_FLOW_CONTROL w then w
      else let occupancy = ring_buffer_occupancy (p_rx_ring (driver w));
               asserted = uart_rx_rts_should_assert (p_rx_rts_asserted (driver w)) occupancy
                            (ring_size (p_rx_ring (driver w)));
               w = drv (p_rx_rts_asserted_update (\<lambda>_. asserted)) w;
               w = run P (Gpio_put (info_rts_pin (p_pins w)) (\<not> asserted)) w;
               w = run P (Gpio_set_function (info_rts_pin (p_pins w)) GPIO_FUNC_SIO) w
           in run P (Gpio_set_dir_out (info_rts_pin (p_pins w))) w)"

definition pio_uart_driver_update_rts :: "'h platform \<Rightarrow> 'h pio_device \<Rightarrow> 'h pio_device" where
  "pio_uart_driver_update_rts P w =
     (if \<not> p_flag PIO_UART_DRIVER_PIN_FLAG_RX_FLOW_CONTROL w then w
      else let occupancy = ring_buffer_occupancy (p_rx_ring (driver w));
               should_assert = uart_rx_rts_should_assert (p_rx_rts_asserted (driver w)) occupancy
                                 (ring_size (p_rx_ring (driver w)))
           in if should_assert \<noteq> p_rx_rts_asserted (driver w)
              then drv (p_rx_rts_asserted_update (\<lambda>_. should_assert))
                     (run P (Gpio_put (info_rts_pin (p_pins w)) (\<not> should_assert)) w)
              else w)"

section \<open>RX DMA\<close>

definition pio_uart_driver_abort_dma_channel :: "'h platform \<Rightarrow> u32 \<Rightarrow> ('d, 'h, 'z) device_scheme \<Rightarrow> ('d, 'h, 'z) device_scheme" where
  "pio_uart_driver_abort_dma_channel P channel w = run P (Dma_abort channel) (run P (Dma_clear_en channel) w)"

definition pio_uart_driver_pause_rx_dma_for_reconfig :: "'h platform \<Rightarrow> 'h pio_device \<Rightarrow> bool \<times> 'h pio_device" where
  "pio_uart_driver_pause_rx_dma_for_reconfig P w =
     (let channel = p_rx_channel w;
          w = run P (Dma_irq_set_enabled PIO_UART_DRIVER_RX_DMA_IRQ_INDEX channel False) w;
          w = run P (Dma_clear_en channel) w;
          (settled, w) = dma_wait_paused P channel w
      in if settled then (True, w)
         else let w = run P (Dma_set_en channel) w
              in (False, run P (Dma_irq_set_enabled PIO_UART_DRIVER_RX_DMA_IRQ_INDEX channel True) w))"

definition pio_uart_driver_rx_progress :: "'h platform \<Rightarrow> 'h pio_device \<Rightarrow> u32 \<times> 'h pio_device" where
  "pio_uart_driver_rx_progress P w = dma_progress P (p_rx_channel w) w"

definition pio_uart_driver_publish_rx :: "'h platform \<Rightarrow> 'h pio_device \<Rightarrow> 'h pio_device" where
  "pio_uart_driver_publish_rx P w =
     (if \<not> p_initialized (driver w) \<or> p_rx_dma_channel (driver w) < 0 then w
      else let (progress, w) = pio_uart_driver_rx_progress P w;
               produced = uart_dma_rx_bytes_produced progress (p_rx_dma_last_progress (driver w))
                            (uart_dma_rx_transfer_count_max (chip P));
               w = drv (p_uart_rx_bytes_update (\<lambda>n. n + produced)) w;
               w = (if produced \<noteq> 0 then note_work w else w);
               w = drv (p_rx_dma_last_progress_update (\<lambda>_. progress)) w
           in drv (p_rx_ring_update (\<lambda>r. ring_buffer_produce_external r produced)) w)"

definition pio_uart_driver_finish_rx_dma_stop_locked :: "'h platform \<Rightarrow> 'h pio_device \<Rightarrow> 'h pio_device" where
  "pio_uart_driver_finish_rx_dma_stop_locked P w =
     (let channel = p_rx_channel w;
          w = pio_uart_driver_publish_rx P w;
          w = run P (Dma_abort channel) w
      in run P (Dma_irq_acknowledge PIO_UART_DRIVER_RX_DMA_IRQ_INDEX channel) w)"

definition pio_uart_driver_rearm_rx_dma :: "'h platform \<Rightarrow> int \<Rightarrow> ('d, 'h, 'z) device_scheme \<Rightarrow> ('d, 'h, 'z) device_scheme" where
  "pio_uart_driver_rearm_rx_dma P rx_dma_channel w =
     run P (Dma_set_trans_count (of_int rx_dma_channel)
       (uart_dma_rx_transfer_count_encoded (dma_encode_transfer_count P) (chip P))) w"

definition pio_rx_irq_channel :: "'h platform \<Rightarrow> u32 \<Rightarrow> 'h pio_device \<Rightarrow> 'h pio_device" where
  "pio_rx_irq_channel P channel w =
     (let owner = pio_uart_driver_rx_irq_owners w channel;
          (irq_pending, w) = ask P (Dma_irq_status PIO_UART_DRIVER_RX_DMA_IRQ_INDEX channel) w
      in if \<not> uart_dma_irq_should_service_owner (owner \<noteq> None) irq_pending then w
         else let w = run P (Dma_irq_acknowledge PIO_UART_DRIVER_RX_DMA_IRQ_INDEX channel) w;
                  (busy, w) = ask P (Dma_is_busy channel) w;
                  (remaining, w) = dma_remaining P channel w
              in if uart_rx_dma_irq_should_rearm True irq_pending busy remaining
                 then pio_uart_driver_rearm_rx_dma P (the owner) w else w)"

definition pio_uart_driver_rx_dma_irq_handler :: "'h platform \<Rightarrow> 'h pio_device \<Rightarrow> 'h pio_device" where
  "pio_uart_driver_rx_dma_irq_handler P w =
     fold (\<lambda>n. pio_rx_irq_channel P (of_nat n)) [0..<num_dma_channels (chip P)] w"

definition pio_uart_driver_enable_rx_dma_irq :: "'h platform \<Rightarrow> 'h pio_device \<Rightarrow> 'h pio_device" where
  "pio_uart_driver_enable_rx_dma_irq P w =
     (let w = (if \<not> pio_uart_driver_rx_dma_irq_installed w
               then (run P (Irq_install_dma_handler PIO_UART_DRIVER_RX_DMA_IRQ_INDEX) w)
                      \<lparr>pio_uart_driver_rx_dma_irq_installed := True\<rparr>
               else w)
      in fold (\<lambda>n w. if pio_uart_driver_rx_irq_owners w (of_nat n) \<noteq> None
                     then run P (Dma_irq_set_enabled PIO_UART_DRIVER_RX_DMA_IRQ_INDEX (of_nat n) True) w else w)
           [0..<num_dma_channels (chip P)] w)"

definition pio_uart_driver_release_dma :: "'h platform \<Rightarrow> 'h pio_device \<Rightarrow> 'h pio_device" where
  "pio_uart_driver_release_dma P w =
     (let w = (if p_rx_dma_channel (driver w) \<ge> 0
               then let w = run P (Dma_irq_set_enabled PIO_UART_DRIVER_RX_DMA_IRQ_INDEX (p_rx_channel w) False) w;
                        w = p_put_owner (p_rx_dma_channel (driver w)) None w;
                        w = pio_uart_driver_abort_dma_channel P (p_rx_channel w) w;
                        w = run P (Dma_irq_acknowledge PIO_UART_DRIVER_RX_DMA_IRQ_INDEX (p_rx_channel w)) w;
                        w = run P (Dma_unclaim (p_rx_channel w)) w
                    in drv (p_rx_dma_channel_update (\<lambda>_. -1)) w
               else w);
          w = (if p_tx_dma_channel (driver w) \<ge> 0
               then let w = pio_uart_driver_abort_dma_channel P (p_tx_channel w) w;
                        w = run P (Dma_unclaim (p_tx_channel w)) w
                    in drv (p_tx_dma_channel_update (\<lambda>_. -1)) w
               else w)
      in drv (\<lambda>d. d\<lparr>p_tx_dma_bytes_in_flight := 0, p_tx_dma_active := False, p_txstall_waiting := False,
                    p_rx_dma_last_progress := 0\<rparr>) w)"

definition pio_uart_driver_start_rx_dma :: "'h platform \<Rightarrow> 'h pio_device \<Rightarrow> 'h pio_device" where
  "pio_uart_driver_start_rx_dma P w =
     (let w = drv (p_rx_dma_last_progress_update (\<lambda>_. 0)) w;
          w = run P (Dma_configure_pio_rx (p_rx_channel w) (p_pio w) (p_rx_sm w)
                (ring_buffer_producer_index (p_rx_ring (driver w)))
                (uart_dma_rx_transfer_count_encoded (dma_encode_transfer_count P) (chip P))) w;
          w = p_put_owner (p_rx_dma_channel (driver w)) (Some (p_rx_dma_channel (driver w))) w;
          w = run P (Dma_irq_acknowledge PIO_UART_DRIVER_RX_DMA_IRQ_INDEX (p_rx_channel w)) w
      in if pio_uart_driver_rx_dma_irq_installed w
         then run P (Dma_irq_set_enabled PIO_UART_DRIVER_RX_DMA_IRQ_INDEX (p_rx_channel w) True) w else w)"

definition pio_uart_driver_rx_snapshot_is_current :: "'h platform \<Rightarrow> 'h pio_device \<Rightarrow> u32 \<Rightarrow> bool" where
  "pio_uart_driver_rx_snapshot_is_current P w consumer_sequence =
     (if \<not> p_initialized (driver w) \<or> p_rx_dma_channel (driver w) < 0 then False
      else let progress = fst (pio_uart_driver_rx_progress P w);
               produced = uart_dma_rx_bytes_produced progress (p_rx_dma_last_progress (driver w))
                            (uart_dma_rx_transfer_count_max (chip P));
               live_producer = producer (p_rx_ring (driver w)) + produced
           in live_producer - consumer_sequence \<le> ring_size (p_rx_ring (driver w)))"

section \<open>Programs and clocks\<close>

definition pio_uart_driver_block_index :: "pio_t \<Rightarrow> u32" where
  "pio_uart_driver_block_index pio = (if pio = PIO0 then 0 else 1)"

definition pio_uart_driver_clock_divider :: "'h platform \<Rightarrow> u32 \<Rightarrow> ('d, 'h, 'z) device_scheme \<Rightarrow>
    clkdiv_t \<times> ('d, 'h, 'z) device_scheme" where
  "pio_uart_driver_clock_divider P rate w = (let (hz, w) = call P Clock_sys_hz w in ((hz, 8, rate), w))"

definition pio_uart_driver_rx_clock_divider :: "'h platform \<Rightarrow> u32 \<Rightarrow> ('d, 'h, 'z) device_scheme \<Rightarrow>
    clkdiv_t \<times> ('d, 'h, 'z) device_scheme" where
  "pio_uart_driver_rx_clock_divider P rate w =
     (let (hz, w) = call P Clock_sys_hz w in ((hz, UART_LINE_CODING_PIO_RX_CLOCKS_PER_BIT, rate), w))"

definition pio_uart_driver_baud_rate_supported :: "'h platform \<Rightarrow> u32 \<Rightarrow> ('d, 'h, 'z) device_scheme \<Rightarrow>
    bool \<times> ('d, 'h, 'z) device_scheme" where
  "pio_uart_driver_baud_rate_supported P rate w =
     (let (sys_hz, w) = call P Clock_sys_hz w
      in (uart_line_coding_pio_baud_feasible rate sys_hz \<and> uart_line_coding_pio_rx_baud_feasible rate sys_hz, w))"

definition p_programs :: "'h pio_device \<Rightarrow> pio_t \<Rightarrow> pio_uart_program_state_t" where
  "p_programs w pio = pio_uart_program_state w (pio_uart_driver_block_index pio)"

definition pio_uart_driver_tx_offset :: "'h pio_device \<Rightarrow> pio_t \<Rightarrow> u32" where
  "pio_uart_driver_tx_offset w pio = tx_offset (p_programs w pio)"

definition pio_uart_driver_tx_cts_offset :: "'h pio_device \<Rightarrow> pio_t \<Rightarrow> u32" where
  "pio_uart_driver_tx_cts_offset w pio = tx_cts_offset (p_programs w pio)"

definition pio_uart_driver_rx_offset :: "'h pio_device \<Rightarrow> pio_t \<Rightarrow> u32" where
  "pio_uart_driver_rx_offset w pio = rx_offset (p_programs w pio)"

text \<open>One program: \<open>record_it\<close> stores its offset and its flag.\<close>

definition pio_load_program :: "'h platform \<Rightarrow> pio_program_t \<Rightarrow> bool \<Rightarrow>
    (u32 \<Rightarrow> pio_uart_program_state_t \<Rightarrow> pio_uart_program_state_t) \<Rightarrow> 'h pio_device \<Rightarrow> bool \<times> 'h pio_device" where
  "pio_load_program P program loaded record_it w =
     (if loaded then (True, w)
      else let pio = p_pio w; block_index = pio_uart_driver_block_index pio;
               (room, w) = ask P (Pio_can_add_program pio program) w
           in if \<not> room then (False, w)
              else let (offset, w) = call P (Pio_add_program pio program) w
                   in (True, w\<lparr>pio_uart_program_state := (pio_uart_program_state w)
                               (block_index := record_it offset (pio_uart_program_state w block_index))\<rparr>))"

definition pio_uart_driver_ensure_programs :: "'h platform \<Rightarrow> 'h pio_device \<Rightarrow> bool \<times> 'h pio_device" where
  "pio_uart_driver_ensure_programs P w =
     (let st = p_programs w (p_pio w);
          (ok, w) = (if p_tx_cts_enabled (driver w)
                     then pio_load_program P PIO_UART_TX_CTS_PROGRAM (tx_cts_loaded st)
                            (\<lambda>offset s. s\<lparr>tx_cts_offset := offset, tx_cts_loaded := True\<rparr>) w
                     else pio_load_program P PIO_UART_TX_PROGRAM (tx_loaded st)
                            (\<lambda>offset s. s\<lparr>tx_offset := offset, tx_loaded := True\<rparr>) w)
      in if \<not> ok then (False, w)
         else pio_load_program P PIO_UART_RX_PROGRAM (rx_loaded (p_programs w (p_pio w)))
                (\<lambda>offset s. s\<lparr>rx_offset := offset, rx_loaded := True\<rparr>) w)"

definition pio_uart_driver_unclaim_state_machines :: "'h platform \<Rightarrow> 'h pio_device \<Rightarrow> 'h pio_device" where
  "pio_uart_driver_unclaim_state_machines P w =
     (let w = (if p_rx_sm_claimed (driver w)
               then drv (p_rx_sm_claimed_update (\<lambda>_. False)) (run P (Pio_sm_unclaim (p_pio w) (p_rx_sm w)) w) else w)
      in if p_tx_sm_claimed (driver w)
         then drv (p_tx_sm_claimed_update (\<lambda>_. False)) (run P (Pio_sm_unclaim (p_pio w) (p_tx_sm w)) w) else w)"

definition pio_uart_driver_release_gpio :: "'h platform \<Rightarrow> 'h pio_device \<Rightarrow> 'h pio_device" where
  "pio_uart_driver_release_gpio P w =
     (let pins = p_pins w;
          w = (if info_tx_pin pins \<noteq> UART_DRIVER_PIN_UNASSIGNED
               then let w = run P (Gpio_put (info_tx_pin pins) True) w;
                        w = run P (Gpio_set_dir_out (info_tx_pin pins)) w
                    in run P (Gpio_set_function (info_tx_pin pins) GPIO_FUNC_SIO) w
               else w);
          w = (if info_rx_pin pins \<noteq> UART_DRIVER_PIN_UNASSIGNED
               then run P (Gpio_deinit (info_rx_pin pins))
                      (run P (Pio_set_input_sync_bypass (p_pio w) 0 (push_bit (unat (info_rx_pin pins)) 1)) w)
               else w);
          w = (if p_tx_cts_enabled (driver w) \<and> info_cts_pin pins \<noteq> UART_DRIVER_PIN_UNASSIGNED
               then run P (Gpio_deinit (info_cts_pin pins)) w else w)
      in if p_flag PIO_UART_DRIVER_PIN_FLAG_RX_FLOW_CONTROL w \<and> info_rts_pin pins \<noteq> UART_DRIVER_PIN_UNASSIGNED
         then run P (Gpio_deinit (info_rts_pin pins)) w else w)"

definition pio_uart_driver_cleanup_partial :: "'h platform \<Rightarrow> 'h pio_device \<Rightarrow> 'h pio_device" where
  "pio_uart_driver_cleanup_partial P w =
     (let w = run P (Pio_sm_set_enabled (p_pio w) (p_tx_sm w) False) w;
          w = run P (Pio_sm_set_enabled (p_pio w) (p_rx_sm w) False) w;
          w = pio_uart_driver_release_dma P w;
          w = pio_uart_driver_unclaim_state_machines P w
      in pio_uart_driver_release_gpio P w)"

section \<open>The state machines\<close>

definition pio_uart_driver_init_tx_sm :: "'h platform \<Rightarrow> 'h pio_device \<Rightarrow> bool \<times> 'h pio_device" where
  "pio_uart_driver_init_tx_sm P w =
     (let pio = p_pio w; sm = p_tx_sm w; pins = p_pins w; cts = p_tx_cts_enabled (driver w);
          offset = (if cts then pio_uart_driver_tx_cts_offset w pio else pio_uart_driver_tx_offset w pio);
          (divider, w) = pio_uart_driver_clock_divider P (p_baud_rate (driver w)) w;
          config = \<lparr>smc_program = (if cts then PIO_UART_TX_CTS_PROGRAM else PIO_UART_TX_PROGRAM), smc_offset = offset,
                    smc_out_pins = Some (info_tx_pin pins, 1), smc_sideset_pin = Some (info_tx_pin pins),
                    smc_out_shift = Some (True, False, 32),
                    smc_in_pin = (if cts then Some (info_cts_pin pins) else None), smc_jmp_pin = None,
                    smc_in_shift = None, smc_fifo_join = PIO_FIFO_JOIN_TX, smc_clkdiv = divider\<rparr>;
          w = run P (Pio_gpio_init pio (info_tx_pin pins)) w;
          w = run P (Gpio_set_slew_rate_fast (info_tx_pin pins)) w;
          w = run P (Gpio_set_drive_12ma (info_tx_pin pins)) w;
          w = run P (Pio_sm_set_consecutive_pindirs pio sm (info_tx_pin pins) 1 True) w;
          w = (if cts
               then let w = run P (Pio_gpio_init pio (info_cts_pin pins)) w;
                        w = run P (Gpio_pull_down (info_cts_pin pins)) w
                    in run P (Pio_sm_set_consecutive_pindirs pio sm (info_cts_pin pins) 1 False) w
               else w);
          (failed, w) = ask P (Pio_sm_init pio sm offset config) w
      in if failed then (False, w)
         else let w = run P (Pio_sm_set_pins_with_mask pio sm (push_bit (unat (info_tx_pin pins)) 1)
                                (push_bit (unat (info_tx_pin pins)) 1)) w
              in (True, run P (Pio_sm_set_enabled pio sm True) w))"

definition pio_uart_driver_init_rx_sm :: "'h platform \<Rightarrow> 'h pio_device \<Rightarrow> bool \<times> 'h pio_device" where
  "pio_uart_driver_init_rx_sm P w =
     (let pio = p_pio w; sm = p_rx_sm w; pins = p_pins w;
          offset = pio_uart_driver_rx_offset w pio;
          (divider, w) = pio_uart_driver_rx_clock_divider P (p_baud_rate (driver w)) w;
          config = \<lparr>smc_program = PIO_UART_RX_PROGRAM, smc_offset = offset, smc_out_pins = None,
                    smc_sideset_pin = None, smc_out_shift = None, smc_in_pin = Some (info_rx_pin pins),
                    smc_jmp_pin = Some (info_rx_pin pins), smc_in_shift = Some (True, False, 32),
                    smc_fifo_join = PIO_FIFO_JOIN_RX, smc_clkdiv = divider\<rparr>;
          w = run P (Pio_gpio_init pio (info_rx_pin pins)) w;
          w = (if p_flag PIO_UART_DRIVER_PIN_FLAG_RX_PULL_UP w then run P (Gpio_pull_up (info_rx_pin pins)) w else w);
          w = run P (Pio_sm_set_consecutive_pindirs pio sm (info_rx_pin pins) 1 False) w;
          w = run P (Pio_interrupt_clear pio sm) w;
          (failed, w) = ask P (Pio_sm_init pio sm offset config) w
      in if failed then (False, w) else (True, run P (Pio_sm_set_enabled pio sm True) w))"

section \<open>TX\<close>

text \<open>The FIFO words are stored one call at a time, from the bytes the span shows.\<close>

definition pio_uart_driver_drain_tx_fifo :: "'h platform \<Rightarrow> 'h pio_device \<Rightarrow> 'h pio_device" where
  "pio_uart_driver_drain_tx_fifo P w =
     (let (span, ring) = ring_buffer_read_span (p_tx_ring (driver w));
          w = drv (p_tx_ring_update (\<lambda>_. ring)) w;
          (level, w) = call P (Pio_sm_get_tx_fifo_level (p_pio w) (p_tx_sm w)) w;
          fifo_headroom = PIO_UART_DRIVER_TX_FIFO_DEPTH - level
      in if span_length span = 0 \<or> fifo_headroom = 0 then w
         else let chunk = (if span_length span < fifo_headroom then span_length span else fifo_headroom);
                  chunk = uart_tx_transfer_bytes chunk chunk (p_baud_rate (driver w)) 10 PIO_UART_DRIVER_TX_DMA_BUDGET_MS;
                  w = drv (p_txstall_waiting_update (\<lambda>_. False)) w;
                  w = fold (\<lambda>b w. run P (Pio_sm_put (p_pio w) (p_tx_sm w) b) w) (span_load ring span chunk) w;
                  w = drv (p_tx_ring_update (\<lambda>r. snd (ring_buffer_commit_consumed r chunk))) w;
                  w = drv (p_tx_polled_bytes_update (\<lambda>n. n + chunk)) w
              in note_work w)"

definition pio_uart_driver_configure_tx_dma :: "'h platform \<Rightarrow> 'h pio_device \<Rightarrow> 'h pio_device" where
  "pio_uart_driver_configure_tx_dma P w = run P (Dma_configure_pio_tx (p_tx_channel w) (p_pio w) (p_tx_sm w)) w"

definition pio_uart_driver_start_tx_dma :: "'h platform \<Rightarrow> size_t \<Rightarrow> 'h pio_device \<Rightarrow> bool \<times> 'h pio_device" where
  "pio_uart_driver_start_tx_dma P max_transfer_bytes w =
     (if p_tx_dma_active (driver w) then (False, w)
      else if p_tx_dma_channel (driver w) < 0 then (False, w)
      else let (span, ring) = ring_buffer_read_span (p_tx_ring (driver w));
               w = drv (p_tx_ring_update (\<lambda>_. ring)) w
           in if span_length span = 0 then (False, w)
              else let transfer_length = uart_tx_transfer_bytes (span_length span) max_transfer_bytes
                         (p_baud_rate (driver w)) 10 PIO_UART_DRIVER_TX_DMA_BUDGET_MS
                   in if transfer_length = 0 then (False, w)
                      else let w = drv (\<lambda>d. d\<lparr>p_tx_dma_bytes_in_flight := transfer_length, p_tx_dma_active := True,
                                             p_txstall_waiting := False\<rparr>) w;
                               w = run P (Dma_set_read_addr (p_tx_channel w) (the (span_data span))) w;
                               w = run P (Dma_set_trans_count (p_tx_channel w) transfer_length) w
                           in (True, note_work w))"

definition pio_uart_driver_poll_tx_dma :: "'h platform \<Rightarrow> 'h pio_device \<Rightarrow> 'h pio_device" where
  "pio_uart_driver_poll_tx_dma P w =
     (if \<not> p_tx_dma_active (driver w) then w
      else let (busy, w) = ask P (Dma_is_busy (p_tx_channel w)) w
           in if busy then w
              else let n = p_tx_dma_bytes_in_flight (driver w);
                       w = drv (p_tx_ring_update (\<lambda>r. snd (ring_buffer_commit_consumed r n))) w;
                       w = drv (p_tx_dma_bytes_update (\<lambda>t. t + n)) w;
                       w = note_work w
                   in drv (\<lambda>d. d\<lparr>p_tx_dma_bytes_in_flight := 0, p_tx_dma_active := False\<rparr>) w)"

definition pio_uart_driver_service_tx :: "'h platform \<Rightarrow> 'h pio_device \<Rightarrow> 'h pio_device" where
  "pio_uart_driver_service_tx P w =
     (let w = (if p_tx_dma_active (driver w) then pio_uart_driver_poll_tx_dma P w else w);
          (queued, w) = (if p_tx_dma_active (driver w) then (False, w)
                         else let (fifo_empty, w) = ask P (Pio_sm_is_tx_fifo_empty (p_pio w) (p_tx_sm w)) w
                              in (\<not> fifo_empty, w))
      in if queued then w
         else let occupancy = ring_buffer_occupancy (p_tx_ring (driver w));
                  threshold = pio_uart_driver_dma_threshold w
              in case uart_pio_tx_action (p_tx_dma_active (driver w)) occupancy threshold of
                   UART_PIO_TX_KEEP_DMA \<Rightarrow> w
                 | UART_PIO_TX_START_DMA \<Rightarrow>
                     let w = snd (pio_uart_driver_start_tx_dma P PIO_UART_DRIVER_DEFAULT_TX_DMA_MAX_TRANSFER_BYTES w)
                     in if p_tx_dma_active (driver w) then w else pio_uart_driver_drain_tx_fifo P w
                 | UART_PIO_TX_DRAIN_FIFO \<Rightarrow> pio_uart_driver_drain_tx_fifo P w)"

section \<open>Polling\<close>

definition pio_uart_driver_harvest_framing_errors :: "'h platform \<Rightarrow> 'h pio_device \<Rightarrow> 'h pio_device" where
  "pio_uart_driver_harvest_framing_errors P w =
     (let (flagged, w) = ask P (Pio_interrupt_get (p_pio w) (p_rx_sm w)) w
      in if flagged
         then let w = run P (Pio_interrupt_clear (p_pio w) (p_rx_sm w)) w;
                  w = drv (p_rx_error_count_update (\<lambda>n. uart_saturating_add_u32 n 1)) w
              in note_work w
         else w)"

definition pio_uart_driver_clear_rx_error_baseline :: "'h platform \<Rightarrow> 'h pio_device \<Rightarrow> 'h pio_device" where
  "pio_uart_driver_clear_rx_error_baseline P w =
     (if \<not> p_initialized (driver w) \<or> pc_pio (p_cfg w) = None then w
      else let (flagged, w) = ask P (Pio_interrupt_get (p_pio w) (p_rx_sm w)) w
           in if flagged then run P (Pio_interrupt_clear (p_pio w) (p_rx_sm w)) w else w)"

definition pio_poll_should_rearm :: "'h platform \<Rightarrow> 'h pio_device \<Rightarrow> bool \<times> 'h pio_device" where
  "pio_poll_should_rearm P w =
     (let (busy, w) = ask P (Dma_is_busy (p_rx_channel w)) w;
          (remaining, w) = dma_remaining P (p_rx_channel w) w
      in (uart_rx_dma_poll_should_rearm True busy remaining, w))"

text \<open>The safety net for a masked or delayed interrupt.\<close>

definition pio_poll_rearm :: "'h platform \<Rightarrow> 'h pio_device \<Rightarrow> 'h pio_device" where
  "pio_poll_rearm P w =
     (let (idle, w) = (if p_rx_dma_channel (driver w) \<ge> 0 then pio_poll_should_rearm P w else (False, w))
      in if idle
         then let (interrupt_status, w) = call P Save_and_disable_interrupts w;
                  (still, w) = pio_poll_should_rearm P w;
                  w = (if still
                       then let w = run P (Dma_irq_acknowledge PIO_UART_DRIVER_RX_DMA_IRQ_INDEX (p_rx_channel w)) w;
                                w = pio_uart_driver_rearm_rx_dma P (p_rx_dma_channel (driver w)) w
                            in note_work w
                       else w)
              in run P (Restore_interrupts interrupt_status) w
         else w)"

definition pio_uart_driver_poll :: "'h platform \<Rightarrow> 'h pio_device \<Rightarrow> bool \<Rightarrow> 'h pio_device" where
  "pio_uart_driver_poll P w tx_launch_allowed =
     (if \<not> p_initialized (driver w) then w
      else let w = pio_uart_driver_publish_rx P w;
               w = pio_uart_driver_update_rts P w;
               w = pio_uart_driver_harvest_framing_errors P w;
               w = pio_poll_rearm P w
           in if \<not> tx_launch_allowed then pio_uart_driver_poll_tx_dma P w
              else if \<not> p_tx_dma_active (driver w) \<and> ring_buffer_occupancy (p_tx_ring (driver w)) = 0 then w
              else pio_uart_driver_service_tx P w)"

section \<open>Start and stop\<close>

text \<open>The checks before anything is touched; the rate is checked last, against the clock.\<close>

definition pio_start_allowed :: "pio_uart_driver_t \<Rightarrow> bool" where
  "pio_start_allowed d =
     (case p_config d of None \<Rightarrow> False
      | Some c \<Rightarrow>
          (case pc_port c of None \<Rightarrow> False
           | Some pins \<Rightarrow>
               if pc_pio c = None \<or> p_rx_storage d = None \<or>
                  p_rx_storage_address d mod PICO_UART_PIO_UART_RX_BUFFER_SIZE \<noteq> 0
               then False
               else if info_tx_pin pins = UART_DRIVER_PIN_UNASSIGNED \<or> info_rx_pin pins = UART_DRIVER_PIN_UNASSIGNED
               then False
               else if pc_pin_flags c AND PIO_UART_DRIVER_PIN_FLAG_RX_FLOW_CONTROL \<noteq> 0 \<and>
                       info_rts_pin pins = UART_DRIVER_PIN_UNASSIGNED then False
               else if pc_pin_flags c AND PIO_UART_DRIVER_PIN_FLAG_TX_FLOW_CONTROL \<noteq> 0 \<and>
                       info_cts_pin pins = UART_DRIVER_PIN_UNASSIGNED then False
               else if pc_tx_state_machine c = pc_rx_state_machine c then False
               else \<not> (pc_tx_state_machine c \<ge> 4 \<or> pc_rx_state_machine c \<ge> 4)))"

definition pio_start_rings :: "pio_uart_driver_t \<Rightarrow> bool \<times> pio_uart_driver_t" where
  "pio_start_rings d =
     (let (ok, rx) = (if storage (p_rx_ring d) = None
                      then ring_buffer_init (p_rx_ring d) (p_rx_storage d) PICO_UART_PIO_UART_RX_BUFFER_SIZE
                      else (True, p_rx_ring d));
          d = d\<lparr>p_rx_ring := rx\<rparr>
      in if \<not> ok then (False, d)
         else let (ok, tx) = (if storage (p_tx_ring d) = None
                              then ring_buffer_init (p_tx_ring d) (Some (p_tx_storage d)) PICO_UART_PIO_UART_TX_BUFFER_SIZE
                              else (True, p_tx_ring d));
                  d = d\<lparr>p_tx_ring := tx\<rparr>
              in if \<not> ok then (False, d)
                 else (True, d\<lparr>p_rx_ring := ring_buffer_clear (p_rx_ring d), p_tx_ring := ring_buffer_clear (p_tx_ring d)\<rparr>))"

definition pio_start_reset :: "pio_uart_driver_t \<Rightarrow> pio_uart_driver_t" where
  "pio_start_reset d =
     d\<lparr>p_rx_dma_channel := -1, p_tx_dma_channel := -1, p_tx_sm_claimed := False, p_rx_sm_claimed := False,
       p_tx_dma_active := False, p_txstall_waiting := False, p_rx_rts_asserted := False,
       p_tx_cts_enabled := pc_pin_flags (the (p_config d)) AND PIO_UART_DRIVER_PIN_FLAG_TX_FLOW_CONTROL \<noteq> 0,
       p_tx_dma_bytes_in_flight := 0, p_rx_dma_last_progress := 0\<rparr>"

definition pio_quiet_state_machines :: "'h platform \<Rightarrow> 'h pio_device \<Rightarrow> 'h pio_device" where
  "pio_quiet_state_machines P w =
     (let pio = p_pio w;
          w = run P (Pio_sm_set_enabled pio (p_tx_sm w) False) w;
          w = run P (Pio_sm_set_enabled pio (p_rx_sm w) False) w;
          w = run P (Pio_sm_clear_fifos pio (p_tx_sm w)) w;
          w = run P (Pio_sm_clear_fifos pio (p_rx_sm w)) w;
          w = run P (Pio_sm_restart pio (p_tx_sm w)) w
      in run P (Pio_sm_restart pio (p_rx_sm w)) w)"

definition pio_uart_driver_start :: "'h platform \<Rightarrow> 'h pio_device \<Rightarrow> bool \<times> 'h pio_device" where
  "pio_uart_driver_start P w =
     (if \<not> pio_start_allowed (driver w) then (False, w)
      else let (supported, w) = pio_uart_driver_baud_rate_supported P (p_baud_rate (driver w)) w
      in if \<not> supported then (False, w)
      else let w = drv pio_start_reset w;
               (ok, d) = pio_start_rings (driver w);
               w = drv (\<lambda>_. d) w
      in if \<not> ok then (False, w)
      else let (ok, w) = pio_uart_driver_ensure_programs P w
      in if \<not> ok then (False, w)
      else let (claimed, tx_cl, rx_cl, rx, tx, w) = pio_uart_driver_claim_resources P (p_pio w) (p_tx_sm w) (p_rx_sm w)
                 (Some (p_tx_sm_claimed (driver w))) (Some (p_rx_sm_claimed (driver w)))
                 (Some (p_rx_dma_channel (driver w))) (Some (p_tx_dma_channel (driver w))) w;
               w = drv (\<lambda>d. d\<lparr>p_tx_sm_claimed := the tx_cl, p_rx_sm_claimed := the rx_cl,
                              p_rx_dma_channel := the rx, p_tx_dma_channel := the tx\<rparr>) w
      in if \<not> claimed then (False, w)
      else let w = pio_quiet_state_machines P w;
               (ok, w) = pio_uart_driver_init_tx_sm P w;
               (ok, w) = (if ok then pio_uart_driver_init_rx_sm P w else (False, w))
      in if \<not> ok then (False, pio_uart_driver_cleanup_partial P w)
      else let w = pio_uart_driver_configure_tx_dma P w;
               w = pio_uart_driver_configure_rts P w;
               w = pio_uart_driver_start_rx_dma P w
           in (True, drv (p_initialized_update (\<lambda>_. True)) w))"

definition pio_uart_driver_deinit :: "'h platform \<Rightarrow> 'h pio_device \<Rightarrow> 'h pio_device" where
  "pio_uart_driver_deinit P w =
     (let w = (if p_initialized (driver w)
               then pio_uart_driver_cleanup_partial P (pio_uart_driver_publish_rx P w) else w)
      in drv (p_initialized_update (\<lambda>_. False)) w)"

definition pio_uart_driver_restart :: "'h platform \<Rightarrow> 'h pio_device \<Rightarrow> bool \<times> 'h pio_device" where
  "pio_uart_driver_restart P w =
     (if p_config (driver w) = None then (False, w)
      else let w = pio_uart_driver_deinit P w;
               w = drv (p_rx_ring_update (\<lambda>r. snd (ring_buffer_recover_overflow r))) w
           in pio_uart_driver_start P w)"

section \<open>Changing the rate\<close>

datatype pio_uart_txstall_action_t = PIO_UART_TXSTALL_WAIT | PIO_UART_TXSTALL_CLEAR | PIO_UART_TXSTALL_IDLE

definition pio_uart_txstall_sample :: "bool \<Rightarrow> bool \<Rightarrow> pio_uart_txstall_action_t \<times> bool" where
  "pio_uart_txstall_sample waiting stalled =
     (if \<not> waiting then if \<not> stalled then (PIO_UART_TXSTALL_WAIT, waiting) else (PIO_UART_TXSTALL_CLEAR, True)
      else if \<not> stalled then (PIO_UART_TXSTALL_WAIT, waiting) else (PIO_UART_TXSTALL_IDLE, False))"

definition pio_uart_driver_rx_quiescent :: "'h platform \<Rightarrow> 'h pio_device \<Rightarrow> bool \<times> 'h pio_device" where
  "pio_uart_driver_rx_quiescent P w =
     (let (instruction, w) = call P (Pio_sm_get_pc (p_pio w) (p_rx_sm w)) w;
          require_idle_high = p_flag PIO_UART_DRIVER_PIN_FLAG_REQUIRE_RX_IDLE_HIGH w
      in if instruction \<noteq> pio_uart_driver_rx_offset w (p_pio w) then (False, w)
         else if \<not> require_idle_high then (True, w) else ask P (Gpio_get (info_rx_pin (p_pins w))) w)"

definition pio_uart_driver_tx_shifter_idle :: "'h platform \<Rightarrow> 'h pio_device \<Rightarrow> bool \<times> 'h pio_device" where
  "pio_uart_driver_tx_shifter_idle P w =
     (let mask_bits = push_bit (PIO_FDEBUG_TXSTALL_LSB + unat (p_tx_sm w)) (1 :: u32);
          (fdebug, w) = call P (Pio_fdebug (p_pio w)) w;
          (action, waiting) = pio_uart_txstall_sample (p_txstall_waiting (driver w)) (fdebug AND mask_bits \<noteq> 0);
          w = drv (p_txstall_waiting_update (\<lambda>_. waiting)) w;
          w = (if action = PIO_UART_TXSTALL_CLEAR then run P (Pio_set_fdebug (p_pio w) mask_bits) w else w)
      in (action = PIO_UART_TXSTALL_IDLE, w))"

text \<open>The checks before the pause, each made only when those before it passed.\<close>

definition pio_change_idle :: "'h platform \<Rightarrow> 'h pio_device \<Rightarrow> bool \<times> 'h pio_device" where
  "pio_change_idle P w =
     (if p_tx_dma_active (driver w) then (False, w)
      else let (tx_empty, w) = ask P (Pio_sm_is_tx_fifo_empty (p_pio w) (p_tx_sm w)) w
      in if \<not> tx_empty then (False, w)
      else let (shifted, w) = pio_uart_driver_tx_shifter_idle P w
      in if \<not> shifted then (False, w)
      else let (rx_empty, w) = ask P (Pio_sm_is_rx_fifo_empty (p_pio w) (p_rx_sm w)) w
      in if \<not> rx_empty then (False, w) else pio_uart_driver_rx_quiescent P w)"

text \<open>The re-check with the state machines stopped.\<close>

definition pio_still_idle :: "'h platform \<Rightarrow> 'h pio_device \<Rightarrow> bool \<times> 'h pio_device" where
  "pio_still_idle P w =
     (let (rx_empty, w) = ask P (Pio_sm_is_rx_fifo_empty (p_pio w) (p_rx_sm w)) w
      in if \<not> rx_empty then (False, w)
      else let (tx_empty, w) = ask P (Pio_sm_is_tx_fifo_empty (p_pio w) (p_tx_sm w)) w
      in if \<not> tx_empty then (False, w) else pio_uart_driver_rx_quiescent P w)"

text \<open>The stretch with interrupts disabled: \<open>False\<close> when the port was not idle after all and goes on.\<close>

definition pio_stop_for_reconfig :: "'h platform \<Rightarrow> 'h pio_device \<Rightarrow> bool \<times> 'h pio_device" where
  "pio_stop_for_reconfig P w =
     (let (interrupt_status, w) = call P Save_and_disable_interrupts w;
          w = (if p_rx_dma_channel (driver w) \<ge> 0 then pio_uart_driver_finish_rx_dma_stop_locked P w else w);
          w = drv (p_rx_dma_last_progress_update (\<lambda>_. 0)) w;
          w = run P (Pio_sm_set_enabled (p_pio w) (p_tx_sm w) False) w;
          w = run P (Pio_sm_set_enabled (p_pio w) (p_rx_sm w) False) w;
          (idle, w) = pio_still_idle P w
      in if \<not> idle
         then let w = run P (Pio_sm_set_enabled (p_pio w) (p_tx_sm w) True) w;
                  w = run P (Pio_sm_set_enabled (p_pio w) (p_rx_sm w) True) w;
                  w = (if p_rx_dma_channel (driver w) \<ge> 0 then pio_uart_driver_start_rx_dma P w else w)
              in (False, run P (Restore_interrupts interrupt_status) w)
         else (True, run P (Restore_interrupts interrupt_status) w))"

definition pio_uart_driver_prepare_baud_change :: "'h platform \<Rightarrow> 'h pio_device \<Rightarrow> bool \<times> 'h pio_device" where
  "pio_uart_driver_prepare_baud_change P w =
     (let w = pio_uart_driver_publish_rx P w;
          w = pio_uart_driver_poll_tx_dma P w;
          (idle, w) = pio_change_idle P w
      in if \<not> idle then (False, w)
         else let (paused, w) = (if p_rx_dma_channel (driver w) \<ge> 0
                                 then pio_uart_driver_pause_rx_dma_for_reconfig P w else (True, w))
              in if \<not> paused then (False, w) else pio_stop_for_reconfig P w)"

definition pio_uart_driver_apply_baud :: "'h platform \<Rightarrow> u32 \<Rightarrow> 'h pio_device \<Rightarrow> 'h pio_device" where
  "pio_uart_driver_apply_baud P rate w =
     (let (tx_divider, w) = pio_uart_driver_clock_divider P rate w;
          (rx_divider, w) = pio_uart_driver_rx_clock_divider P rate w;
          pio = p_pio w; tx = p_tx_sm w; rx = p_rx_sm w;
          w = drv (\<lambda>d. d\<lparr>p_baud_rate := rate, p_txstall_waiting := False\<rparr>) w;
          w = run P (Pio_sm_set_clkdiv pio tx tx_divider) w;
          w = run P (Pio_sm_set_clkdiv pio rx rx_divider) w;
          w = run P (Pio_clkdiv_restart_sm_mask pio (push_bit (unat tx) 1 OR push_bit (unat rx) 1)) w;
          w = run P (Pio_sm_clear_fifos pio tx) w;
          w = run P (Pio_sm_clear_fifos pio rx) w;
          w = run P (Pio_sm_restart pio tx) w;
          w = run P (Pio_sm_restart pio rx) w;
          w = run P (Pio_sm_set_enabled pio tx True) w;
          w = run P (Pio_sm_set_enabled pio rx True) w
      in if p_rx_dma_channel (driver w) \<ge> 0 then pio_uart_driver_start_rx_dma P w else w)"

definition pio_uart_driver_apply_baud_rate :: "'h platform \<Rightarrow> 'h pio_device \<Rightarrow> u32 \<Rightarrow> bool \<times> 'h pio_device" where
  "pio_uart_driver_apply_baud_rate P w rate =
     (if \<not> p_initialized (driver w) then (False, w)
      else let (supported, w) = pio_uart_driver_baud_rate_supported P rate w
      in if \<not> supported then (False, w)
      else let (prepared, w) = pio_uart_driver_prepare_baud_change P w
      in if \<not> prepared then (False, w)
      else let w = pio_uart_driver_apply_baud P rate w;
               w = drv (\<lambda>d. d\<lparr>p_tx_dma_bytes_in_flight := 0, p_tx_dma_active := False\<rparr>) w
           in (True, pio_uart_driver_poll P w True))"

section \<open>The backend's operations\<close>

definition pio_uart_driver_init :: "'h platform \<Rightarrow> 'h pio_device \<Rightarrow> bool \<times> 'h pio_device" where
  "pio_uart_driver_init P w = (if p_initialized (driver w) then (False, w) else pio_uart_driver_start P w)"

definition pio_uart_driver_load_port_config ::
    "(u32 \<Rightarrow> pio_uart_driver_config_t) \<Rightarrow> 'h pio_device \<Rightarrow> uart_driver_port_info_t option \<Rightarrow> bool \<times> 'h pio_device" where
  "pio_uart_driver_load_port_config configs w port_info =
     (case port_info of None \<Rightarrow> (False, w)
      | Some i \<Rightarrow>
          if p_initialized (driver w) \<or> info_id i \<ge> UART_PORT_COUNT \<or> info_backend i \<noteq> UART_DRIVER_BACKEND_PIO \<or>
             pc_port (configs (info_id i)) \<noteq> Some i
          then (False, w)
          else (True, drv (\<lambda>d. d\<lparr>p_config := Some (configs (info_id i)), p_baud_rate := info_baud_rate i\<rparr>) w))"

definition pio_uart_driver_set_line_coding ::
    "'h platform \<Rightarrow> 'h pio_device \<Rightarrow> uart_driver_line_coding_t option \<Rightarrow> bool \<times> 'h pio_device" where
  "pio_uart_driver_set_line_coding P w line_coding =
     (if \<not> uart_line_coding_is_valid line_coding then (False, w)
      else let (sys_hz, w) = call P Clock_sys_hz w
      in if \<not> uart_line_coding_pio_supported line_coding sys_hz then (False, w)
      else if \<not> p_initialized (driver w)
      then if p_config (driver w) = None then (False, w)
           else (True, drv (p_baud_rate_update (\<lambda>_. baud_rate (the line_coding))) w)
      else pio_uart_driver_apply_baud_rate P w (baud_rate (the line_coding)))"

definition pio_uart_driver_is_initialized :: "'h pio_device \<Rightarrow> bool" where
  "pio_uart_driver_is_initialized w = p_initialized (driver w)"

definition pio_uart_driver_rx_ring :: "'h pio_device \<Rightarrow> ring_buffer_t option" where
  "pio_uart_driver_rx_ring w = Some (p_rx_ring (driver w))"

definition pio_uart_driver_tx_ring :: "'h pio_device \<Rightarrow> ring_buffer_t option" where
  "pio_uart_driver_tx_ring w = Some (p_tx_ring (driver w))"

definition pio_uart_driver_line_coding_matches ::
    "'h platform \<Rightarrow> 'h pio_device \<Rightarrow> uart_driver_line_coding_t option \<Rightarrow> bool" where
  "pio_uart_driver_line_coding_matches P w line_coding \<longleftrightarrow>
     p_initialized (driver w) \<and> uart_line_coding_is_valid line_coding \<and>
     uart_line_coding_pio_supported line_coding (fst (call P Clock_sys_hz w)) \<and>
     p_baud_rate (driver w) = baud_rate (the line_coding)"

definition pio_uart_driver_line_coding_acceptable :: "u32 \<Rightarrow> uart_driver_line_coding_t option \<Rightarrow> bool" where
  "pio_uart_driver_line_coding_acceptable sys_hz line_coding \<longleftrightarrow>
     uart_line_coding_is_valid line_coding \<and> uart_line_coding_pio_supported line_coding sys_hz"

definition pio_uart_driver_baud_rate :: "'h pio_device \<Rightarrow> u32" where
  "pio_uart_driver_baud_rate w = p_baud_rate (driver w)"

definition pio_uart_driver_stats :: "'h pio_device \<Rightarrow> uart_backend_stats_t" where
  "pio_uart_driver_stats w =
     \<lparr>stats_uart_tx_bytes = p_tx_polled_bytes (driver w) + p_tx_dma_bytes (driver w),
      stats_uart_rx_bytes = p_uart_rx_bytes (driver w), stats_rx_error_count = p_rx_error_count (driver w)\<rparr>"

definition uart_backend_pio_ops ::
    "'h platform \<Rightarrow> (u32 \<Rightarrow> pio_uart_driver_config_t) \<Rightarrow> u32 \<Rightarrow> 'h pio_device uart_backend_ops_t" where
  "uart_backend_pio_ops P configs sys_hz =
     \<lparr>op_load_config = pio_uart_driver_load_port_config configs,
      op_is_initialized = pio_uart_driver_is_initialized,
      op_init = pio_uart_driver_init P,
      op_deinit = pio_uart_driver_deinit P,
      op_poll = pio_uart_driver_poll P,
      op_rx_ring = pio_uart_driver_rx_ring,
      op_tx_ring = pio_uart_driver_tx_ring,
      op_put_rx_ring = (\<lambda>r. drv (p_rx_ring_update (\<lambda>_. r))),
      op_put_tx_ring = (\<lambda>r. drv (p_tx_ring_update (\<lambda>_. r))),
      op_line_coding_matches = pio_uart_driver_line_coding_matches P,
      op_line_coding_acceptable = pio_uart_driver_line_coding_acceptable sys_hz,
      op_set_line_coding = pio_uart_driver_set_line_coding P,
      op_restart = pio_uart_driver_restart P,
      op_rx_snapshot_is_current = pio_uart_driver_rx_snapshot_is_current P,
      op_clear_rx_error_baseline = pio_uart_driver_clear_rx_error_baseline P,
      op_baud_rate = pio_uart_driver_baud_rate,
      op_stats = pio_uart_driver_stats\<rparr>"

section \<open>The board\<close>

definition pio_board_config :: "u32 \<Rightarrow> pio_t \<Rightarrow> u32 \<Rightarrow> u32 \<Rightarrow> pio_uart_driver_config_t" where
  "pio_board_config i pio tx_sm rx_sm = \<lparr>pc_port = Some (uart_board_ports i), pc_pio = Some pio,
     pc_tx_state_machine = tx_sm, pc_rx_state_machine = rx_sm,
     pc_pin_flags = PIO_UART_DRIVER_PIN_FLAG_RX_PULL_UP OR PIO_UART_DRIVER_PIN_FLAG_REQUIRE_RX_IDLE_HIGH,
     pc_tx_dma_start_threshold = PICO_UART_PIO_UART_TX_DMA_START_THRESHOLD\<rparr>"

definition pio_uart_driver_configs :: "u32 \<Rightarrow> pio_uart_driver_config_t" where
  "pio_uart_driver_configs i =
     (if i = 2 then pio_board_config 2 PIO0 0 1
      else if i = 3 then pio_board_config 3 PIO0 2 3
      else if i = 4 then pio_board_config 4 PIO1 0 1
      else if i = 5 then pio_board_config 5 PIO1 2 3
      else \<lparr>pc_port = None, pc_pio = None, pc_tx_state_machine = 0, pc_rx_state_machine = 0, pc_pin_flags = 0,
            pc_tx_dma_start_threshold = 0\<rparr>)"

end
