(* ===== verification/Pio_Facts.thy ===== *)
theory Pio_Facts
  imports Pio_Uart Hw_Facts
begin

text \<open>
  What the routines of the PIO driver change of its record, one equation or frame per routine.
\<close>

section \<open>Routines that leave the driver alone\<close>

lemma fold_run_driver [simp]: "driver (fold (\<lambda>b w. run P (c b w) w) xs w) = driver w"
  by (induction xs arbitrary: w) simp_all

lemma p_owner_simps [simp]: "driver (p_put_owner ch o' v) = driver v" "hw (p_put_owner ch o' v) = hw v"
  by (simp_all add: p_put_owner_def)

lemma p_statics_call [simp]:
  "pio_uart_program_state (snd (call P c v)) = pio_uart_program_state v"
  "pio_uart_program_state (run P c v) = pio_uart_program_state v"
  "pio_uart_program_state (snd (ask P c v)) = pio_uart_program_state v"
  by (simp_all add: device_defs)

lemma p_access_call [simp]:
  "p_cfg (snd (call P c w)) = p_cfg w" "p_cfg (run P c w) = p_cfg w" "p_cfg (snd (ask P c w)) = p_cfg w"
  "p_pio (snd (call P c w)) = p_pio w" "p_pio (run P c w) = p_pio w" "p_pio (snd (ask P c w)) = p_pio w"
  "p_tx_sm (snd (call P c w)) = p_tx_sm w" "p_tx_sm (run P c w) = p_tx_sm w" "p_tx_sm (snd (ask P c w)) = p_tx_sm w"
  "p_rx_sm (snd (call P c w)) = p_rx_sm w" "p_rx_sm (run P c w) = p_rx_sm w" "p_rx_sm (snd (ask P c w)) = p_rx_sm w"
  "p_rx_channel (run P c w) = p_rx_channel w" "p_tx_channel (run P c w) = p_tx_channel w"
  "p_flag f (run P c w) = p_flag f w" "p_flag f (snd (call P c w)) = p_flag f w"
  by (simp_all add: p_access)

lemma p_quiet [simp]:
  "driver (pio_uart_driver_abort_dma_channel P c w) = driver w"
  "driver (snd (pio_uart_driver_pause_rx_dma_for_reconfig P v)) = driver v"
  "driver (snd (pio_uart_driver_rx_progress P v)) = driver v"
  "driver (pio_uart_driver_rearm_rx_dma P ch w) = driver w"
  "driver (pio_rx_irq_channel P c v) = driver v"
  "driver (snd (pio_uart_driver_clock_divider P r w)) = driver w"
  "driver (snd (pio_uart_driver_rx_clock_divider P r w)) = driver w"
  "driver (snd (pio_uart_driver_baud_rate_supported P r w)) = driver w"
  "driver (pio_uart_driver_release_gpio P v) = driver v"
  "driver (pio_unclaim_state_machines P pio tx rx w) = driver w"
  "driver (pio_uart_driver_configure_tx_dma P v) = driver v"
  "driver (pio_uart_driver_clear_rx_error_baseline P v) = driver v"
  "driver (snd (pio_poll_should_rearm P v)) = driver v"
  "driver (pio_quiet_state_machines P v) = driver v"
  "driver (snd (pio_uart_driver_rx_quiescent P v)) = driver v"
  by (simp_all add: pio_uart_driver_abort_dma_channel_def pio_uart_driver_pause_rx_dma_for_reconfig_def
      pio_uart_driver_rx_progress_def pio_uart_driver_rearm_rx_dma_def pio_rx_irq_channel_def
      pio_uart_driver_clock_divider_def pio_uart_driver_rx_clock_divider_def pio_uart_driver_baud_rate_supported_def
      pio_uart_driver_release_gpio_def pio_unclaim_state_machines_def pio_uart_driver_configure_tx_dma_def
      pio_uart_driver_clear_rx_error_baseline_def pio_poll_should_rearm_def pio_quiet_state_machines_def
      pio_uart_driver_rx_quiescent_def case_prod_beta Let_def)

lemma p_quiet2 [simp]:
  "driver (pio_uart_driver_rx_dma_irq_handler P w) = driver w"
  "driver (pio_uart_driver_enable_rx_dma_irq P w) = driver w"
  "driver (snd (pio_load_program P prog l f w)) = driver w"
  "driver (snd (pio_uart_driver_ensure_programs P w)) = driver w"
  "driver (snd (pio_uart_driver_init_tx_sm P w)) = driver w"
  "driver (snd (pio_uart_driver_init_rx_sm P w)) = driver w"
  "driver (pio_poll_rearm P w) = driver w"
  "driver (snd (pio_still_idle P w)) = driver w"
proof -
  show load: "driver (snd (pio_load_program P prog l f w)) = driver w" for prog l f w
    by (simp add: pio_load_program_def Let_def case_prod_beta)
  show "driver (pio_uart_driver_rx_dma_irq_handler P w) = driver w"
    by (simp add: pio_uart_driver_rx_dma_irq_handler_def fold_driver)
  show "driver (pio_uart_driver_enable_rx_dma_irq P w) = driver w"
    by (simp add: pio_uart_driver_enable_rx_dma_irq_def fold_driver Let_def)
  show "driver (snd (pio_uart_driver_ensure_programs P w)) = driver w"
    by (simp add: pio_uart_driver_ensure_programs_def Let_def case_prod_beta load)
  show "driver (snd (pio_uart_driver_init_tx_sm P w)) = driver w"
    by (simp add: pio_uart_driver_init_tx_sm_def Let_def case_prod_beta)
  show "driver (snd (pio_uart_driver_init_rx_sm P w)) = driver w"
    by (simp add: pio_uart_driver_init_rx_sm_def Let_def case_prod_beta)
  show "driver (pio_poll_rearm P w) = driver w"
    by (simp add: pio_poll_rearm_def Let_def case_prod_beta)
  show "driver (snd (pio_still_idle P w)) = driver w"
    by (simp add: pio_still_idle_def Let_def case_prod_beta)
qed

lemma p_claim_keeps [simp]:
  "driver (snd (snd (snd (snd (snd (pio_uart_driver_claim_resources P pio tx rx a b c d w)))))) = driver w"
  by (simp add: pio_uart_driver_claim_resources_def Let_def case_prod_beta)

section \<open>Routines that write fields\<close>

definition p_rts_after :: "'h pio_device \<Rightarrow> bool" where
  "p_rts_after w = (if p_flag PIO_UART_DRIVER_PIN_FLAG_RX_FLOW_CONTROL w
     then uart_rx_rts_should_assert (p_rx_rts_asserted (driver w)) (ring_buffer_occupancy (p_rx_ring (driver w)))
            (ring_size (p_rx_ring (driver w)))
     else p_rx_rts_asserted (driver w))"

lemma p_rts_driver:
  "driver (pio_uart_driver_configure_rts P w) = (driver w)\<lparr>p_rx_rts_asserted := p_rts_after w\<rparr>"
  "driver (pio_uart_driver_update_rts P w) = (driver w)\<lparr>p_rx_rts_asserted := p_rts_after w\<rparr>"
  unfolding pio_uart_driver_configure_rts_def pio_uart_driver_update_rts_def Let_def p_rts_after_def
  by (cases "driver w", simp)+

definition p_produced :: "'h platform \<Rightarrow> 'h pio_device \<Rightarrow> u32" where
  "p_produced P w = (if \<not> p_initialized (driver w) \<or> p_rx_dma_channel (driver w) < 0 then 0
     else uart_dma_rx_bytes_produced (fst (pio_uart_driver_rx_progress P w)) (p_rx_dma_last_progress (driver w))
            (uart_dma_rx_transfer_count_max (chip P)))"

definition p_progress :: "'h platform \<Rightarrow> 'h pio_device \<Rightarrow> u32" where
  "p_progress P w = (if \<not> p_initialized (driver w) \<or> p_rx_dma_channel (driver w) < 0
     then p_rx_dma_last_progress (driver w) else fst (pio_uart_driver_rx_progress P w))"

lemma p_publish_driver:
  "driver (pio_uart_driver_publish_rx P w) = (driver w)\<lparr>p_uart_rx_bytes := p_uart_rx_bytes (driver w) + p_produced P w,
     p_rx_dma_last_progress := p_progress P w,
     p_rx_ring := ring_buffer_produce_external (p_rx_ring (driver w)) (p_produced P w)\<rparr>"
proof (cases "\<not> p_initialized (driver w) \<or> p_rx_dma_channel (driver w) < 0")
  case True
  then show ?thesis
    unfolding pio_uart_driver_publish_rx_def p_produced_def p_progress_def
    by (simp only: True if_True) (rule pio_uart_driver_t.equality; simp add: ring_buffer_produce_external_def)
next
  case False
  then show ?thesis
    unfolding pio_uart_driver_publish_rx_def case_prod_beta Let_def p_produced_def p_progress_def
    by (simp only: False if_False drv_simps p_quiet) (rule pio_uart_driver_t.equality; simp)
qed

lemma p_start_rx_driver:
  "driver (pio_uart_driver_start_rx_dma P w) = (driver w)\<lparr>p_rx_dma_last_progress := 0\<rparr>"
  by (simp add: pio_uart_driver_start_rx_dma_def Let_def)

lemma p_finish_stop_driver:
  "driver (pio_uart_driver_finish_rx_dma_stop_locked P w) = driver (pio_uart_driver_publish_rx P w)"
  by (simp add: pio_uart_driver_finish_rx_dma_stop_locked_def Let_def)

definition dropped_channel :: "int \<Rightarrow> int" where
  "dropped_channel ch = (if 0 \<le> ch then -1 else ch)"

lemma p_release_driver:
  "driver (pio_uart_driver_release_dma P w) = (driver w)\<lparr>
     p_rx_dma_channel := dropped_channel (p_rx_dma_channel (driver w)),
     p_tx_dma_channel := dropped_channel (p_tx_dma_channel (driver w)),
     p_tx_dma_bytes_in_flight := 0, p_tx_dma_active := False, p_txstall_waiting := False, p_rx_dma_last_progress := 0\<rparr>"
  by (simp add: pio_uart_driver_release_dma_def Let_def dropped_channel_def)

lemma p_unclaim_driver:
  "driver (pio_uart_driver_unclaim_state_machines P w) = (driver w)\<lparr>p_rx_sm_claimed := False, p_tx_sm_claimed := False\<rparr>"
  by (cases "driver w") (simp add: pio_uart_driver_unclaim_state_machines_def Let_def)

lemma p_cleanup_driver:
  "driver (pio_uart_driver_cleanup_partial P w) = (driver w)\<lparr>
     p_rx_dma_channel := dropped_channel (p_rx_dma_channel (driver w)),
     p_tx_dma_channel := dropped_channel (p_tx_dma_channel (driver w)),
     p_tx_dma_bytes_in_flight := 0, p_tx_dma_active := False, p_txstall_waiting := False, p_rx_dma_last_progress := 0,
     p_rx_sm_claimed := False, p_tx_sm_claimed := False\<rparr>"
  by (simp add: pio_uart_driver_cleanup_partial_def Let_def p_release_driver p_unclaim_driver)

lemma p_harvest_driver:
  "driver (pio_uart_driver_harvest_framing_errors P w) =
     (if fst (ask P (Pio_interrupt_get (p_pio w) (p_rx_sm w)) w)
      then (driver w)\<lparr>p_rx_error_count := uart_saturating_add_u32 (p_rx_error_count (driver w)) 1\<rparr> else driver w)"
  by (simp add: pio_uart_driver_harvest_framing_errors_def Let_def case_prod_beta)

lemma p_shifter_driver:
  "\<exists>waiting. driver (snd (pio_uart_driver_tx_shifter_idle P w)) = (driver w)\<lparr>p_txstall_waiting := waiting\<rparr>"
  by (auto simp: pio_uart_driver_tx_shifter_idle_def Let_def case_prod_beta)

lemma p_change_idle_driver:
  "\<exists>waiting. driver (snd (pio_change_idle P w)) = (driver w)\<lparr>p_txstall_waiting := waiting\<rparr>"
proof -
  have same: "\<exists>waiting. driver w = (driver w)\<lparr>p_txstall_waiting := waiting\<rparr>"
    by (rule exI [of _ "p_txstall_waiting (driver w)"]) simp
  show ?thesis
    using same p_shifter_driver [of P "snd (ask P (Pio_sm_is_tx_fifo_empty (p_pio w) (p_tx_sm w)) w)"]
    by (auto simp: pio_change_idle_def Let_def case_prod_beta)
qed

lemma p_apply_driver:
  "driver (pio_uart_driver_apply_baud P rate w) = (driver w)\<lparr>p_baud_rate := rate, p_txstall_waiting := False,
     p_rx_dma_last_progress := (if 0 \<le> p_rx_dma_channel (driver w) then 0 else p_rx_dma_last_progress (driver w))\<rparr>"
  by (simp add: pio_uart_driver_apply_baud_def Let_def case_prod_beta p_start_rx_driver)

lemmas p_drivers = p_rts_driver p_publish_driver p_start_rx_driver p_finish_stop_driver p_release_driver p_unclaim_driver
  p_cleanup_driver p_harvest_driver p_apply_driver

section \<open>Starting and stopping\<close>

lemma p_start_rings_keep:
  "p_initialized (snd (pio_start_rings d)) = p_initialized d" "p_config (snd (pio_start_rings d)) = p_config d"
  "p_rx_dma_channel (snd (pio_start_rings d)) = p_rx_dma_channel d"
  "p_tx_dma_channel (snd (pio_start_rings d)) = p_tx_dma_channel d"
  by (simp_all add: pio_start_rings_def Let_def case_prod_beta)

text \<open>A start without its continuations: the states it passes through, named.\<close>

lemma p_start_steps:
  fixes w :: "'h pio_device" and P :: "'h platform"
  obtains w1 w2 w3 w4 w5 claimed tx_cl rx_cl rx tx where
    "driver w1 = driver w"
    "w2 = drv (\<lambda>_. snd (pio_start_rings (pio_start_reset (driver w)))) w1"
    "driver w3 = driver w2"
    "pio_uart_driver_claim_resources P (p_pio w3) (p_tx_sm w3) (p_rx_sm w3) (Some (p_tx_sm_claimed (driver w3)))
       (Some (p_rx_sm_claimed (driver w3))) (Some (p_rx_dma_channel (driver w3))) (Some (p_tx_dma_channel (driver w3))) w3
       = (claimed, tx_cl, rx_cl, rx, tx, w4)"
    "w5 = drv (\<lambda>d. d\<lparr>p_tx_sm_claimed := the tx_cl, p_rx_sm_claimed := the rx_cl,
                              p_rx_dma_channel := the rx, p_tx_dma_channel := the tx\<rparr>) w4"
    "w1 = snd (pio_uart_driver_baud_rate_supported P (p_baud_rate (driver w)) w)"
    "w3 = snd (pio_uart_driver_ensure_programs P w2)"
    "pio_uart_driver_start P w =
       (if \<not> pio_start_allowed (driver w) then (False, w)
        else if \<not> fst (pio_uart_driver_baud_rate_supported P (p_baud_rate (driver w)) w) then (False, w1)
        else if \<not> fst (pio_start_rings (pio_start_reset (driver w))) then (False, w2)
        else if \<not> fst (pio_uart_driver_ensure_programs P w2) then (False, w3)
        else if \<not> claimed then (False, w5)
        else let (ok, v) = pio_uart_driver_init_tx_sm P (pio_quiet_state_machines P w5);
                 (ok, v) = (if ok then pio_uart_driver_init_rx_sm P v else (False, v))
             in if \<not> ok then (False, pio_uart_driver_cleanup_partial P v)
                else (True, drv (p_initialized_update (\<lambda>_. True)) (pio_uart_driver_start_rx_dma P
                       (pio_uart_driver_configure_rts P (pio_uart_driver_configure_tx_dma P v)))))"
proof -
  define w1 where "w1 = snd (pio_uart_driver_baud_rate_supported P (p_baud_rate (driver w)) w)"
  define w2 where "w2 = drv (\<lambda>_. snd (pio_start_rings (pio_start_reset (driver w)))) w1"
  define w3 where "w3 = snd (pio_uart_driver_ensure_programs P w2)"
  obtain claimed tx_cl rx_cl rx tx w4 where c: "pio_uart_driver_claim_resources P (p_pio w3) (p_tx_sm w3) (p_rx_sm w3)
      (Some (p_tx_sm_claimed (driver w3))) (Some (p_rx_sm_claimed (driver w3))) (Some (p_rx_dma_channel (driver w3)))
      (Some (p_tx_dma_channel (driver w3))) w3 = (claimed, tx_cl, rx_cl, rx, tx, w4)"
    by (metis prod_cases6)
  have d1: "driver w1 = driver w" by (simp add: w1_def)
  have d: "drv (\<lambda>_. x) (drv f v) = drv (\<lambda>_. x) v" for x f and v :: "'h pio_device" by (simp add: drv_def)
  show thesis
  proof (rule that [OF d1 w2_def _ c HOL.refl w1_def w3_def])
    show "driver w3 = driver w2" by (simp add: w3_def)
  qed (simp add: pio_uart_driver_start_def case_prod_beta Let_def w1_def [symmetric] d1 d w2_def [symmetric]
      w3_def [symmetric] c)
qed

lemma p_start_driver:
  "fst (pio_uart_driver_start P w) \<Longrightarrow> p_initialized (driver (snd (pio_uart_driver_start P w)))"
  "\<not> fst (pio_uart_driver_start P w) \<Longrightarrow>
     p_initialized (driver (snd (pio_uart_driver_start P w))) = p_initialized (driver w)"
  "p_config (driver (snd (pio_uart_driver_start P w))) = p_config (driver w)"
  by (auto simp: pio_uart_driver_start_def Let_def case_prod_beta p_drivers p_start_rings_keep pio_start_reset_def)

lemma p_deinit_driver:
  "\<not> p_initialized (driver (pio_uart_driver_deinit P w))"
  "p_config (driver (pio_uart_driver_deinit P w)) = p_config (driver w)"
  by (simp_all add: pio_uart_driver_deinit_def Let_def p_drivers)

lemma p_restart_driver:
  "fst (pio_uart_driver_restart P w) \<Longrightarrow> p_initialized (driver (snd (pio_uart_driver_restart P w)))"
  "p_config (driver (snd (pio_uart_driver_restart P w))) = p_config (driver w)"
  using p_start_driver [of P "drv (p_rx_ring_update (\<lambda>r. snd (ring_buffer_recover_overflow r))) (pio_uart_driver_deinit P w)"]
  by (auto simp: pio_uart_driver_restart_def Let_def p_deinit_driver)

section \<open>Polling and rate changes keep the instance\<close>

text \<open>\<open>p_same d d'\<close>: the same configuration, the same claims, and running or not as before.\<close>

definition p_same :: "pio_uart_driver_t \<Rightarrow> pio_uart_driver_t \<Rightarrow> bool" where
  "p_same d d' \<longleftrightarrow> p_initialized d' = p_initialized d \<and> p_config d' = p_config d \<and>
     p_rx_dma_channel d' = p_rx_dma_channel d \<and> p_tx_dma_channel d' = p_tx_dma_channel d \<and>
     p_tx_sm_claimed d' = p_tx_sm_claimed d \<and> p_rx_sm_claimed d' = p_rx_sm_claimed d"

lemma p_same_refl [simp]: "p_same d d" by (simp add: p_same_def)

lemma p_same_trans: "p_same d d' \<Longrightarrow> p_same d' d'' \<Longrightarrow> p_same d d''" by (simp add: p_same_def)

lemma p_tx_same:
  "p_same (driver w) (driver (pio_uart_driver_drain_tx_fifo P w))"
  "p_same (driver w) (driver (snd (pio_uart_driver_start_tx_dma P m w)))"
  "p_same (driver w) (driver (pio_uart_driver_poll_tx_dma P w))"
  by (simp_all add: pio_uart_driver_drain_tx_fifo_def pio_uart_driver_start_tx_dma_def pio_uart_driver_poll_tx_dma_def
      Let_def case_prod_beta p_same_def)

lemma p_service_same: "p_same (driver w) (driver (pio_uart_driver_service_tx P w))"
proof -
  define v where "v = (if p_tx_dma_active (driver w) then pio_uart_driver_poll_tx_dma P w else w)"
  define u where "u = (if p_tx_dma_active (driver v) then v else snd (ask P (Pio_sm_is_tx_fifo_empty (p_pio v) (p_tx_sm v)) v))"
  have v: "p_same (driver w) (driver v)" by (simp add: v_def p_tx_same)
  have u: "p_same (driver w) (driver u)" using v by (simp add: u_def)
  let ?s = "snd (pio_uart_driver_start_tx_dma P PIO_UART_DRIVER_DEFAULT_TX_DMA_MAX_TRANSFER_BYTES u)"
  have s: "p_same (driver w) (driver ?s)" using p_same_trans [OF u p_tx_same(2)] .
  have out: "pio_uart_driver_service_tx P w \<in> {u, ?s, pio_uart_driver_drain_tx_fifo P ?s, pio_uart_driver_drain_tx_fifo P u}"
    unfolding pio_uart_driver_service_tx_def
    by (simp add: Let_def case_prod_beta v_def [symmetric] u_def split: uart_pio_tx_action_t.split)
  then show ?thesis using u s p_same_trans [OF u p_tx_same(1)] p_same_trans [OF s p_tx_same(1)] by auto
qed

lemma p_poll_same: "p_same (driver w) (driver (pio_uart_driver_poll P w launch))"
proof (cases "p_initialized (driver w)")
  case True
  define v where "v = pio_poll_rearm P (pio_uart_driver_harvest_framing_errors P (pio_uart_driver_update_rts P (pio_uart_driver_publish_rx P w)))"
  have v: "p_same (driver w) (driver v)" by (simp add: v_def p_drivers p_same_def)
  show ?thesis
    using True v p_same_trans [OF v p_tx_same(3)] p_same_trans [OF v p_service_same]
    by (simp add: pio_uart_driver_poll_def v_def [symmetric] Let_def)
qed (simp add: pio_uart_driver_poll_def)

lemma p_stop_same: "p_same (driver w) (driver (snd (pio_stop_for_reconfig P w)))"
  by (simp add: pio_stop_for_reconfig_def Let_def case_prod_beta p_drivers p_same_def)

lemma p_prepare_same: "p_same (driver w) (driver (snd (pio_uart_driver_prepare_baud_change P w)))"
proof -
  define v where "v = pio_uart_driver_poll_tx_dma P (pio_uart_driver_publish_rx P w)"
  define u where "u = snd (pio_change_idle P v)"
  define x where "x = (if 0 \<le> p_rx_dma_channel (driver u) then snd (pio_uart_driver_pause_rx_dma_for_reconfig P u) else u)"
  have v: "p_same (driver w) (driver v)"
    using p_same_trans [OF _ p_tx_same(3), of "driver w" "pio_uart_driver_publish_rx P w" P] by (simp add: v_def p_drivers p_same_def)
  have u: "p_same (driver w) (driver u)"
    using v p_change_idle_driver [of P v] by (auto simp: u_def p_same_def)
  have x: "p_same (driver w) (driver x)" using u by (simp add: x_def)
  have "snd (pio_uart_driver_prepare_baud_change P w) \<in> {u, x, snd (pio_stop_for_reconfig P x)}"
    by (simp add: pio_uart_driver_prepare_baud_change_def Let_def case_prod_beta v_def [symmetric] u_def [symmetric] x_def)
  then show ?thesis using u x p_same_trans [OF x p_stop_same] by auto
qed

lemma p_apply_rate_same: "p_same (driver w) (driver (snd (pio_uart_driver_apply_baud_rate P w rate)))"
proof -
  let ?v = "snd (pio_uart_driver_baud_rate_supported P rate w)"
  let ?u = "snd (pio_uart_driver_prepare_baud_change P ?v)"
  let ?x = "drv (\<lambda>d. d\<lparr>p_tx_dma_bytes_in_flight := 0, p_tx_dma_active := False\<rparr>) (pio_uart_driver_apply_baud P rate ?u)"
  have u: "p_same (driver w) (driver ?u)" using p_prepare_same [of ?v P] by simp
  have x: "p_same (driver w) (driver ?x)" using u by (simp add: p_drivers p_same_def)
  show ?thesis
    using u p_same_trans [OF x p_poll_same]
    by (simp add: pio_uart_driver_apply_baud_rate_def Let_def case_prod_beta)
qed

lemma p_set_coding_inactive:
  "\<not> p_initialized (driver w) \<Longrightarrow> \<not> p_initialized (driver (snd (pio_uart_driver_set_line_coding P w lc)))"
  by (simp add: pio_uart_driver_set_line_coding_def Let_def case_prod_beta)

lemma p_set_coding_active:
  "p_initialized (driver w) \<Longrightarrow> p_same (driver w) (driver (snd (pio_uart_driver_set_line_coding P w lc)))"
  using p_apply_rate_same [of "snd (call P Clock_sys_hz w)" P "baud_rate (the lc)"]
  by (simp add: pio_uart_driver_set_line_coding_def Let_def case_prod_beta)

end
