(* ===== verification/Pio_Properties.thy ===== *)
theory Pio_Properties
  imports Backend_Contract Pio_Facts
begin

text \<open>
  The PIO UART backend against its contract, the state machines and DMA channels it claims, and the
  interpretation of the facade's laws.
\<close>

section \<open>The facade's laws\<close>

interpretation pio: backend_contract "uart_backend_pio_ops P configs sys_hz" for P configs sys_hz
proof
  let ?o = "uart_backend_pio_ops P configs sys_hz"
  note i = uart_backend_pio_ops_def pio_uart_driver_is_initialized_def
  fix b b' :: "'a pio_device" and launch :: bool and lc and r
  show "\<not> op_is_initialized ?o (op_deinit ?o b)" by (simp add: i p_deinit_driver)
  show "op_init ?o b = (True, b') \<Longrightarrow> op_is_initialized ?o b'"
    using p_start_driver(1) [of P b] by (auto simp: i pio_uart_driver_init_def split: if_splits)
  show "op_restart ?o b = (True, b') \<Longrightarrow> op_is_initialized ?o b'"
    using p_restart_driver(1) [of P b] by (auto simp: i)
  show "op_is_initialized ?o (op_poll ?o b launch) = op_is_initialized ?o b"
    using p_poll_same [of b P launch] by (simp add: i p_same_def)
  show "op_is_initialized ?o (op_clear_rx_error_baseline ?o b) = op_is_initialized ?o b" by (simp add: i)
  show "\<not> op_is_initialized ?o b \<Longrightarrow> \<not> op_is_initialized ?o (snd (op_set_line_coding ?o b lc))"
    by (simp add: i p_set_coding_inactive)
  show "op_is_initialized ?o b \<Longrightarrow> op_set_line_coding ?o b lc = (True, b') \<Longrightarrow> op_is_initialized ?o b'"
    using p_set_coding_active [of b P lc] by (simp add: i p_same_def)
  show "op_rx_ring ?o (op_put_rx_ring ?o r b) = Some r" "op_tx_ring ?o (op_put_tx_ring ?o r b) = Some r"
    "op_is_initialized ?o (op_put_rx_ring ?o r b) = op_is_initialized ?o b"
    "op_is_initialized ?o (op_put_tx_ring ?o r b) = op_is_initialized ?o b"
    by (simp_all add: i pio_uart_driver_rx_ring_def pio_uart_driver_tx_ring_def)
qed

section \<open>State machines and DMA channels\<close>

text \<open>
  The SDK's claim registers, as documented: DMA channels on the left, state machines on the right. A claim of a
  channel marks and returns a free one or fails with a negative number; a state machine can be asked for, claimed and
  released; nothing else touches the registers.
\<close>

definition claim_call :: "sdk_call \<Rightarrow> bool" where
  "claim_call c \<longleftrightarrow> (case c of Dma_claim_unused b \<Rightarrow> True | Dma_unclaim ch \<Rightarrow> True | Pio_sm_claim p s \<Rightarrow> True
     | Pio_sm_unclaim p s \<Rightarrow> True | _ \<Rightarrow> False)"

definition tracks_pio :: "'h platform \<Rightarrow> ('h \<Rightarrow> (u32 + pio_t \<times> u32) set) \<Rightarrow> bool" where
  "tracks_pio P held \<longleftrightarrow>
     (\<forall>h b. let (v, h') = sdk P (Dma_claim_unused b) h
            in if sint v < 0 then held h' = held h else Inl v \<notin> held h \<and> held h' = insert (Inl v) (held h)) \<and>
     (\<forall>h c. held (snd (sdk P (Dma_unclaim c) h)) = held h - {Inl c}) \<and>
     (\<forall>h p s. (fst (sdk P (Pio_sm_is_claimed p s) h) \<noteq> 0) = (Inr (p, s) \<in> held h)) \<and>
     (\<forall>h p s. held (snd (sdk P (Pio_sm_claim p s) h)) = insert (Inr (p, s)) (held h)) \<and>
     (\<forall>h p s. held (snd (sdk P (Pio_sm_unclaim p s) h)) = held h - {Inr (p, s)}) \<and>
     (\<forall>h c. \<not> claim_call c \<longrightarrow> held (snd (sdk P c h)) = held h)"

definition p_resources :: "'h pio_device \<Rightarrow> (u32 + pio_t \<times> u32) set" where
  "p_resources w = {Inl (p_rx_channel w), Inl (p_tx_channel w), Inr (p_pio w, p_tx_sm w), Inr (p_pio w, p_rx_sm w)}"

definition p_own :: "'h pio_device \<Rightarrow> (u32 + pio_t \<times> u32) set" where
  "p_own w = (if p_initialized (driver w) then p_resources w else {})"

definition p_holds :: "('h \<Rightarrow> (u32 + pio_t \<times> u32) set) \<Rightarrow> 'h pio_device \<Rightarrow> bool" where
  "p_holds held w \<longleftrightarrow> p_own w \<subseteq> held (hw w) \<and>
     (p_initialized (driver w) \<longrightarrow> 0 \<le> p_rx_dma_channel (driver w) \<and> 0 \<le> p_tx_dma_channel (driver w) \<and>
        p_tx_sm_claimed (driver w) \<and> p_rx_sm_claimed (driver w))"

text \<open>
  Most routines make none of these calls, nor a launch of transmission nor a clear of the stall flag: whatever
  depends on those calls only, they leave alone.
\<close>

definition launch_call :: "sdk_call \<Rightarrow> bool" where
  "launch_call c \<longleftrightarrow> (case c of Pio_sm_put p s b \<Rightarrow> True | Dma_set_read_addr ch a \<Rightarrow> True | _ \<Rightarrow> False)"

definition probe_call :: "sdk_call \<Rightarrow> bool" where
  "probe_call c \<longleftrightarrow> (case c of Pio_set_fdebug p m \<Rightarrow> True | _ \<Rightarrow> False)"

lemmas call_kinds = claim_call_def launch_call_def probe_call_def

definition quiet :: "'h platform \<Rightarrow> ('h \<Rightarrow> 'x) \<Rightarrow> bool" where
  "quiet P obs \<longleftrightarrow> (\<forall>h c. \<not> claim_call c \<and> \<not> launch_call c \<and> \<not> probe_call c \<longrightarrow> obs (snd (sdk P c h)) = obs h)"

lemma tracks_quiet [simp]: "tracks_pio P held \<Longrightarrow> quiet P held"
  by (simp add: tracks_pio_def quiet_def)

lemma quiet_call:
  assumes "quiet P obs" "\<not> claim_call c" "\<not> launch_call c" "\<not> probe_call c"
  shows "obs (hw (snd (call P c w))) = obs (hw w)" "obs (hw (run P c w)) = obs (hw w)"
    "obs (hw (snd (ask P c w))) = obs (hw w)"
  using assms by (simp_all add: quiet_def device_defs)

lemma held_call:
  assumes "tracks_pio P held" "\<not> claim_call c"
  shows "held (hw (snd (call P c w))) = held (hw w)" "held (hw (run P c w)) = held (hw w)"
    "held (hw (snd (ask P c w))) = held (hw w)"
  using assms by (simp_all add: tracks_pio_def device_defs)

lemma held_claim:
  assumes "tracks_pio P held"
  shows "held (hw (run P (Dma_unclaim ch) w)) = held (hw w) - {Inl ch}"
    "held (hw (run P (Pio_sm_claim p s) w)) = insert (Inr (p, s)) (held (hw w))"
    "held (hw (run P (Pio_sm_unclaim p s) w)) = held (hw w) - {Inr (p, s)}"
    "fst (ask P (Pio_sm_is_claimed p s) w) = (Inr (p, s) \<in> held (hw w))"
  using assms by (simp_all add: tracks_pio_def device_defs)

lemma held_claim_channel:
  assumes "tracks_pio P held"
  shows "if sint (fst (call P (Dma_claim_unused b) w)) < 0
      then held (hw (snd (call P (Dma_claim_unused b) w))) = held (hw w)
      else Inl (fst (call P (Dma_claim_unused b) w)) \<notin> held (hw w) \<and>
        held (hw (snd (call P (Dma_claim_unused b) w))) = insert (Inl (fst (call P (Dma_claim_unused b) w))) (held (hw w))"
proof -
  have "let (v, h') = sdk P (Dma_claim_unused b) (hw w)
     in if sint v < 0 then held h' = held (hw w) else Inl v \<notin> held (hw w) \<and> held h' = insert (Inl v) (held (hw w))"
    using assms [unfolded tracks_pio_def, THEN conjunct1] by (elim allE) assumption
  then show ?thesis by (simp add: call_def case_prod_beta Let_def)
qed

lemma quiet_settle:
  assumes "quiet P obs"
  shows "obs (hw (snd (settle_loop P ch n l s w))) = obs (hw w)" "obs (hw (snd (dma_wait_paused P ch w))) = obs (hw w)"
    "obs (hw (snd (dma_remaining P ch w))) = obs (hw w)" "obs (hw (snd (dma_progress P ch w))) = obs (hw w)"
proof -
  show r: "obs (hw (snd (dma_remaining P ch w))) = obs (hw w)" "obs (hw (snd (dma_progress P ch w))) = obs (hw w)" for w
    using assms by (simp_all add: dma_remaining_def dma_progress_def case_prod_beta quiet_call call_kinds)
  show loop: "obs (hw (snd (settle_loop P ch n l s w))) = obs (hw w)" for n l s w
    using assms by (induction n arbitrary: l s w) (simp_all add: case_prod_beta Let_def r quiet_call call_kinds)
  show "obs (hw (snd (dma_wait_paused P ch w))) = obs (hw w)"
    using assms by (simp add: dma_wait_paused_def case_prod_beta Let_def loop r quiet_call call_kinds)
qed

lemma hw_fold:
  "(\<And>x v. obs (hw (f x v)) = obs (hw v)) \<Longrightarrow> obs (hw (fold f xs w)) = obs (hw w)"
  by (induction xs arbitrary: w) simp_all

lemma quiet_pio_routines:
  assumes "quiet P obs"
  shows "obs (hw (pio_uart_driver_abort_dma_channel P c v)) = obs (hw v)"
    "obs (hw (pio_uart_driver_rearm_rx_dma P ch v)) = obs (hw v)"
    "obs (hw (snd (pio_uart_driver_pause_rx_dma_for_reconfig P w))) = obs (hw w)"
    "obs (hw (pio_uart_driver_publish_rx P w)) = obs (hw w)"
    "obs (hw (pio_uart_driver_configure_rts P w)) = obs (hw w)"
    "obs (hw (pio_uart_driver_update_rts P w)) = obs (hw w)"
    "obs (hw (pio_rx_irq_channel P c w)) = obs (hw w)"
    "obs (hw (pio_uart_driver_start_rx_dma P w)) = obs (hw w)"
    "obs (hw (snd (pio_uart_driver_baud_rate_supported P r w))) = obs (hw w)"
    "obs (hw (pio_uart_driver_release_gpio P w)) = obs (hw w)"
    "obs (hw (pio_uart_driver_configure_tx_dma P w)) = obs (hw w)"
    "obs (hw (pio_uart_driver_clear_rx_error_baseline P w)) = obs (hw w)"
    "obs (hw (pio_uart_driver_harvest_framing_errors P w)) = obs (hw w)"
    "obs (hw (snd (pio_poll_should_rearm P w))) = obs (hw w)"
    "obs (hw (pio_quiet_state_machines P w)) = obs (hw w)"
    "obs (hw (snd (pio_load_program P prog l f w))) = obs (hw w)"
    "obs (hw (snd (pio_uart_driver_rx_quiescent P w))) = obs (hw w)"
    "obs (hw (pio_uart_driver_poll_tx_dma P w)) = obs (hw w)"
  using assms
  by (simp_all add: pio_uart_driver_abort_dma_channel_def pio_uart_driver_rearm_rx_dma_def
      pio_uart_driver_pause_rx_dma_for_reconfig_def pio_uart_driver_publish_rx_def pio_uart_driver_rx_progress_def
      pio_uart_driver_configure_rts_def pio_uart_driver_update_rts_def pio_rx_irq_channel_def pio_uart_driver_start_rx_dma_def
      pio_uart_driver_baud_rate_supported_def pio_uart_driver_release_gpio_def pio_uart_driver_configure_tx_dma_def
      pio_uart_driver_clear_rx_error_baseline_def pio_uart_driver_harvest_framing_errors_def pio_poll_should_rearm_def
      pio_quiet_state_machines_def pio_load_program_def pio_uart_driver_rx_quiescent_def
      pio_uart_driver_poll_tx_dma_def case_prod_beta Let_def quiet_call quiet_settle hw_fold call_kinds)

lemma quiet_pio_routines2:
  assumes "quiet P obs"
  shows "obs (hw (snd (pio_uart_driver_ensure_programs P w))) = obs (hw w)"
    "obs (hw (snd (pio_uart_driver_init_tx_sm P w))) = obs (hw w)"
    "obs (hw (snd (pio_uart_driver_init_rx_sm P w))) = obs (hw w)"
    "obs (hw (pio_poll_rearm P w)) = obs (hw w)" "obs (hw (snd (pio_still_idle P w))) = obs (hw w)"
    "obs (hw (pio_uart_driver_rx_dma_irq_handler P w)) = obs (hw w)"
    "obs (hw (pio_uart_driver_enable_rx_dma_irq P w)) = obs (hw w)"
    "obs (hw (pio_uart_driver_apply_baud P r w)) = obs (hw w)"
    "obs (hw (pio_uart_driver_finish_rx_dma_stop_locked P w)) = obs (hw w)"
  using assms
  by (simp_all add: pio_uart_driver_ensure_programs_def pio_uart_driver_init_tx_sm_def pio_uart_driver_init_rx_sm_def
      pio_uart_driver_clock_divider_def pio_uart_driver_rx_clock_divider_def pio_poll_rearm_def
      pio_still_idle_def pio_uart_driver_rx_dma_irq_handler_def pio_uart_driver_enable_rx_dma_irq_def
      pio_uart_driver_apply_baud_def pio_uart_driver_finish_rx_dma_stop_locked_def
      case_prod_beta Let_def quiet_call quiet_pio_routines hw_fold call_kinds)

lemma quiet_stop:
  "quiet P obs \<Longrightarrow> obs (hw (snd (pio_stop_for_reconfig P w))) = obs (hw w)"
  by (simp add: pio_stop_for_reconfig_def Let_def case_prod_beta quiet_call quiet_pio_routines quiet_pio_routines2 call_kinds)

lemma held_tx:
  assumes "tracks_pio P held"
  shows "held (hw (snd (pio_uart_driver_tx_shifter_idle P w))) = held (hw w)"
    "held (hw (snd (pio_uart_driver_start_tx_dma P m w))) = held (hw w)"
    "held (hw (pio_uart_driver_drain_tx_fifo P w)) = held (hw w)"
  using assms
  by (simp_all add: pio_uart_driver_tx_shifter_idle_def pio_uart_driver_start_tx_dma_def pio_uart_driver_drain_tx_fifo_def
      case_prod_beta Let_def held_call hw_fold claim_call_def)

lemma held_changes:
  assumes "tracks_pio P held"
  shows "held (hw (pio_uart_driver_poll P w launch)) = held (hw w)"
    "held (hw (snd (pio_uart_driver_set_line_coding P w lc))) = held (hw w)"
proof -
  have service: "held (hw (pio_uart_driver_service_tx P w)) = held (hw w)" for w
    using assms by (simp add: pio_uart_driver_service_tx_def Let_def case_prod_beta held_call held_tx quiet_pio_routines
        claim_call_def split: uart_pio_tx_action_t.split)
  show poll: "held (hw (pio_uart_driver_poll P w launch)) = held (hw w)" for w launch
    using assms by (simp add: pio_uart_driver_poll_def Let_def quiet_pio_routines quiet_pio_routines2 service)
  have idle: "held (hw (snd (pio_change_idle P w))) = held (hw w)" for w
    using assms by (simp add: pio_change_idle_def Let_def case_prod_beta held_call held_tx quiet_pio_routines claim_call_def)
  have prep: "held (hw (snd (pio_uart_driver_prepare_baud_change P w))) = held (hw w)" for w
    using assms by (simp add: pio_uart_driver_prepare_baud_change_def Let_def case_prod_beta quiet_pio_routines quiet_stop idle)
  have apply_rate: "held (hw (snd (pio_uart_driver_apply_baud_rate P w r))) = held (hw w)" for w r
    using assms by (simp add: pio_uart_driver_apply_baud_rate_def Let_def case_prod_beta quiet_pio_routines quiet_pio_routines2 poll prep)
  show "held (hw (snd (pio_uart_driver_set_line_coding P w lc))) = held (hw w)"
    using assms by (simp add: pio_uart_driver_set_line_coding_def Let_def case_prod_beta held_call claim_call_def apply_rate)
qed

lemma p_channel_call [simp]:
  "p_rx_channel (p_put_owner ch o' w) = p_rx_channel w" "p_tx_channel (p_put_owner ch o' w) = p_tx_channel w"
  "p_rx_channel (pio_uart_driver_abort_dma_channel P ch' w) = p_rx_channel w"
  "p_tx_channel (pio_uart_driver_abort_dma_channel P ch' w) = p_tx_channel w"
  "p_tx_channel (drv (p_rx_dma_channel_update f) w) = p_tx_channel w"
  by (simp_all add: p_rx_channel_def p_tx_channel_def)

lemma held_release:
  assumes "tracks_pio P held" "0 \<le> p_rx_dma_channel (driver w)" "0 \<le> p_tx_dma_channel (driver w)"
  shows "held (hw (pio_uart_driver_release_dma P w)) = held (hw w) - {Inl (p_rx_channel w), Inl (p_tx_channel w)}"
  using assms by (auto simp: pio_uart_driver_release_dma_def Let_def held_claim quiet_pio_routines held_call claim_call_def)

lemma p_access_same:
  "p_config (driver v) = p_config (driver w) \<Longrightarrow> p_cfg v = p_cfg w \<and> p_pio v = p_pio w \<and> p_tx_sm v = p_tx_sm w \<and> p_rx_sm v = p_rx_sm w"
  by (simp add: p_access)

lemma held_unclaim:
  assumes "tracks_pio P held" "p_tx_sm_claimed (driver w)" "p_rx_sm_claimed (driver w)"
  shows "held (hw (pio_uart_driver_unclaim_state_machines P w)) =
    held (hw w) - {Inr (p_pio w, p_tx_sm w), Inr (p_pio w, p_rx_sm w)}"
  using assms by (auto simp: pio_uart_driver_unclaim_state_machines_def Let_def held_claim p_access)

lemma held_cleanup:
  assumes "tracks_pio P held" "0 \<le> p_rx_dma_channel (driver w)" "0 \<le> p_tx_dma_channel (driver w)"
    "p_tx_sm_claimed (driver w)" "p_rx_sm_claimed (driver w)"
  shows "held (hw (pio_uart_driver_cleanup_partial P w)) = held (hw w) - p_resources w"
proof -
  define v where "v = run P (Pio_sm_set_enabled (p_pio w) (p_rx_sm w) False) (run P (Pio_sm_set_enabled (p_pio w) (p_tx_sm w) False) w)"
  have v: "driver v = driver w" "held (hw v) = held (hw w)" "p_rx_channel v = p_rx_channel w" "p_tx_channel v = p_tx_channel w"
    using assms(1) by (simp_all add: v_def held_call claim_call_def)
  let ?r = "pio_uart_driver_release_dma P v"
  have r: "p_tx_sm_claimed (driver ?r)" "p_rx_sm_claimed (driver ?r)" "p_config (driver ?r) = p_config (driver w)"
    using assms(4,5) by (simp_all add: p_release_driver v)
  have "held (hw (pio_uart_driver_cleanup_partial P w)) = held (hw (pio_uart_driver_unclaim_state_machines P ?r))"
    using assms(1) by (simp add: pio_uart_driver_cleanup_partial_def Let_def v_def [symmetric] quiet_pio_routines)
  also have "\<dots> = held (hw ?r) - {Inr (p_pio ?r, p_tx_sm ?r), Inr (p_pio ?r, p_rx_sm ?r)}"
    by (rule held_unclaim [OF assms(1) r(1,2)])
  also have "held (hw ?r) = held (hw w) - {Inl (p_rx_channel w), Inl (p_tx_channel w)}"
    using held_release [OF assms(1), of v] assms(2,3) by (simp add: v)
  finally show ?thesis using p_access_same [OF r(3)] by (auto simp: p_resources_def)
qed

text \<open>A claim takes all four resources or leaves the registers as they were.\<close>

lemma p_claim_outcome:
  assumes "tracks_pio P held" "tx_sm \<noteq> rx_sm"
    "pio_uart_driver_claim_resources P pio tx_sm rx_sm (Some a) (Some b) (Some c) (Some d) w = (ok, tx_cl, rx_cl, rx, tx, w')"
  shows "\<not> ok \<Longrightarrow> held (hw w') = held (hw w)"
    "ok \<Longrightarrow> \<exists>r t. tx_cl = Some True \<and> rx_cl = Some True \<and> rx = Some (sint r) \<and> tx = Some (sint t) \<and>
       0 \<le> sint r \<and> 0 \<le> sint t \<and> {Inl r, Inl t, Inr (pio, tx_sm), Inr (pio, rx_sm)} \<inter> held (hw w) = {} \<and>
       held (hw w') = {Inl r, Inl t, Inr (pio, tx_sm), Inr (pio, rx_sm)} \<union> held (hw w)"
proof -
  define w1 where "w1 = snd (ask P (Pio_sm_is_claimed pio tx_sm) w)"
  define w2 where "w2 = snd (ask P (Pio_sm_is_claimed pio rx_sm) w1)"
  define w3 where "w3 = run P (Pio_sm_claim pio rx_sm) (run P (Pio_sm_claim pio tx_sm) w2)"
  define c1 where "c1 = call P (Dma_claim_unused False) w3"
  define c2 where "c2 = call P (Dma_claim_unused False) (snd c1)"
  have h: "held (hw w1) = held (hw w)" "held (hw w2) = held (hw w)"
    "held (hw w3) = {Inr (pio, tx_sm), Inr (pio, rx_sm)} \<union> held (hw w)"
    using assms(1) by (auto simp: w1_def w2_def w3_def held_call held_claim claim_call_def)
  have out: "(ok, tx_cl, rx_cl, rx, tx, w') =
    (if Inr (pio, tx_sm) \<in> held (hw w) then (False, Some False, Some False, Some (-1), Some (-1), w1)
     else if Inr (pio, rx_sm) \<in> held (hw w) then (False, Some False, Some False, Some (-1), Some (-1), w2)
     else if sint (fst c1) < 0
     then (False, Some False, Some False, Some (sint (fst c1)), Some (-1), pio_unclaim_state_machines P pio tx_sm rx_sm (snd c1))
     else if sint (fst c2) < 0
     then (False, Some False, Some False, Some (-1), Some (sint (fst c2)),
           pio_unclaim_state_machines P pio tx_sm rx_sm (run P (Dma_unclaim (fst c1)) (snd c2)))
     else (True, Some True, Some True, Some (sint (fst c1)), Some (sint (fst c2)), snd c2))"
    using assms(1) unfolding assms(3) [symmetric] pio_uart_driver_claim_resources_def
    by (simp add: Let_def case_prod_beta w1_def [symmetric] w2_def [symmetric] w3_def [symmetric] c1_def [symmetric]
        c2_def [symmetric] held_claim h)
  have d1: "if sint (fst c1) < 0 then held (hw (snd c1)) = held (hw w3)
      else Inl (fst c1) \<notin> held (hw w3) \<and> held (hw (snd c1)) = insert (Inl (fst c1)) (held (hw w3))"
    unfolding c1_def by (rule held_claim_channel [OF assms(1)])
  have d2: "if sint (fst c2) < 0 then held (hw (snd c2)) = held (hw (snd c1))
      else Inl (fst c2) \<notin> held (hw (snd c1)) \<and> held (hw (snd c2)) = insert (Inl (fst c2)) (held (hw (snd c1)))"
    unfolding c2_def by (rule held_claim_channel [OF assms(1)])
  have un: "held (hw (pio_unclaim_state_machines P pio tx_sm rx_sm v)) = held (hw v) - {Inr (pio, tx_sm), Inr (pio, rx_sm)}" for v
    using assms(1) by (auto simp: pio_unclaim_state_machines_def held_claim)
  show "held (hw w') = held (hw w)" if "\<not> ok"
    using that out d1 d2 h by (auto simp: un held_claim [OF assms(1)] split: if_splits)
  show "\<exists>r t. tx_cl = Some True \<and> rx_cl = Some True \<and> rx = Some (sint r) \<and> tx = Some (sint t) \<and>
       0 \<le> sint r \<and> 0 \<le> sint t \<and> {Inl r, Inl t, Inr (pio, tx_sm), Inr (pio, rx_sm)} \<inter> held (hw w) = {} \<and>
       held (hw w') = {Inl r, Inl t, Inr (pio, tx_sm), Inr (pio, rx_sm)} \<union> held (hw w)" if ok
    using that out d1 d2 h by (intro exI [of _ "fst c1"] exI [of _ "fst c2"]) (auto split: if_splits)
qed

text \<open>A start takes all four, or leaves the registers as they were.\<close>

lemma held_start:
  fixes w :: "'h pio_device" and P :: "'h platform"
  assumes "tracks_pio P held" "pio_uart_driver_start P w = (ok, w')"
  shows "\<not> ok \<Longrightarrow> held (hw w') = held (hw w)"
    "ok \<Longrightarrow> p_holds held w' \<and> p_resources w' \<inter> held (hw w) = {} \<and> held (hw w') = p_resources w' \<union> held (hw w)"
proof -
  obtain w1 w2 w3 w4 w5 claimed tx_cl rx_cl rx tx where s:
    "driver w1 = driver w"
    "w2 = drv (\<lambda>_. snd (pio_start_rings (pio_start_reset (driver w)))) w1" "driver w3 = driver w2"
    and c: "pio_uart_driver_claim_resources P (p_pio w3) (p_tx_sm w3) (p_rx_sm w3) (Some (p_tx_sm_claimed (driver w3)))
       (Some (p_rx_sm_claimed (driver w3))) (Some (p_rx_dma_channel (driver w3))) (Some (p_tx_dma_channel (driver w3))) w3
       = (claimed, tx_cl, rx_cl, rx, tx, w4)"
    and w5: "w5 = drv (\<lambda>d. d\<lparr>p_tx_sm_claimed := the tx_cl, p_rx_sm_claimed := the rx_cl,
                              p_rx_dma_channel := the rx, p_tx_dma_channel := the tx\<rparr>) w4"
    and w13: "w1 = snd (pio_uart_driver_baud_rate_supported P (p_baud_rate (driver w)) w)"
      "w3 = snd (pio_uart_driver_ensure_programs P w2)"
    and out: "pio_uart_driver_start P w =
       (if \<not> pio_start_allowed (driver w) then (False, w)
        else if \<not> fst (pio_uart_driver_baud_rate_supported P (p_baud_rate (driver w)) w) then (False, w1)
        else if \<not> fst (pio_start_rings (pio_start_reset (driver w))) then (False, w2)
        else if \<not> fst (pio_uart_driver_ensure_programs P w2) then (False, w3)
        else if \<not> claimed then (False, w5)
        else let (ok, v) = pio_uart_driver_init_tx_sm P (pio_quiet_state_machines P w5);
                 (ok, v) = (if ok then pio_uart_driver_init_rx_sm P v else (False, v))
             in if \<not> ok then (False, pio_uart_driver_cleanup_partial P v)
                else (True, drv (p_initialized_update (\<lambda>_. True)) (pio_uart_driver_start_rx_dma P
                       (pio_uart_driver_configure_rts P (pio_uart_driver_configure_tx_dma P v)))))"
    by (rule p_start_steps [where P = P and w = w]) blast
  have h: "held (hw w1) = held (hw w)" "held (hw w2) = held (hw w)" "held (hw w3) = held (hw w)"
    using assms(1) by (simp_all add: w13 s(2) quiet_pio_routines quiet_pio_routines2)
  have h5: "held (hw w5) = held (hw w4)" by (simp add: w5)
  define t where "t = pio_uart_driver_init_tx_sm P (pio_quiet_state_machines P w5)"
  define u where "u = (if fst t then pio_uart_driver_init_rx_sm P (snd t) else (False, snd t))"
  have u: "driver (snd u) = driver w5" "held (hw (snd u)) = held (hw w4)"
    using assms(1) by (simp_all add: u_def t_def quiet_pio_routines quiet_pio_routines2 h5)
  have out': "(ok, w') = (if \<not> pio_start_allowed (driver w) then (False, w)
        else if \<not> fst (pio_uart_driver_baud_rate_supported P (p_baud_rate (driver w)) w) then (False, w1)
        else if \<not> fst (pio_start_rings (pio_start_reset (driver w))) then (False, w2)
        else if \<not> fst (pio_uart_driver_ensure_programs P w2) then (False, w3)
        else if \<not> claimed then (False, w5)
        else if \<not> fst u then (False, pio_uart_driver_cleanup_partial P (snd u))
        else (True, drv (p_initialized_update (\<lambda>_. True)) (pio_uart_driver_start_rx_dma P
                       (pio_uart_driver_configure_rts P (pio_uart_driver_configure_tx_dma P (snd u))))))"
    unfolding assms(2) [symmetric] out Let_def case_prod_beta t_def [symmetric] u_def [symmetric] by simp
  have cfg: "p_config (driver w3) = p_config (driver w)" "p_config (driver w5) = p_config (driver w)"
  proof -
    have "driver w4 = driver w3" using p_claim_keeps [of P "p_pio w3" "p_tx_sm w3" "p_rx_sm w3"] c by (metis snd_conv)
    then show "p_config (driver w3) = p_config (driver w)" "p_config (driver w5) = p_config (driver w)"
      by (simp_all add: w5 s p_start_rings_keep pio_start_reset_def)
  qed
  note a3 = p_access_same [OF cfg(1)] and a5 = p_access_same [OF cfg(2)]
  have distinct: "p_tx_sm w3 \<noteq> p_rx_sm w3" if "pio_start_allowed (driver w)"
    using that a3 by (auto simp: pio_start_allowed_def p_access split: option.splits if_splits)
  note fail = p_claim_outcome(1) [OF assms(1) distinct c] and succ = p_claim_outcome(2) [OF assms(1) distinct c]
  have got: "held (hw w4) = p_resources w5 \<union> held (hw w)" "p_resources w5 \<inter> held (hw w) = {}"
    "0 \<le> p_rx_dma_channel (driver w5)" "0 \<le> p_tx_dma_channel (driver w5)" "p_tx_sm_claimed (driver w5)" "p_rx_sm_claimed (driver w5)"
    if claimed "pio_start_allowed (driver w)"
  proof -
    note k = that
    obtain r q where rq: "tx_cl = Some True" "rx_cl = Some True" "rx = Some (sint r)" "tx = Some (sint q)" "0 \<le> sint r" "0 \<le> sint q"
      and hh: "{Inl r, Inl q, Inr (p_pio w3, p_tx_sm w3), Inr (p_pio w3, p_rx_sm w3)} \<inter> held (hw w) = {}"
       "held (hw w4) = {Inl r, Inl q, Inr (p_pio w3, p_tx_sm w3), Inr (p_pio w3, p_rx_sm w3)} \<union> held (hw w)"
      using succ [OF k(2,1)] unfolding h by blast
    have "p_resources w5 = {Inl r, Inl q, Inr (p_pio w3, p_tx_sm w3), Inr (p_pio w3, p_rx_sm w3)}"
      using a3 a5 rq by (simp add: p_resources_def p_rx_channel_def p_tx_channel_def w5)
    with hh rq show "held (hw w4) = p_resources w5 \<union> held (hw w)" "p_resources w5 \<inter> held (hw w) = {}"
      "0 \<le> p_rx_dma_channel (driver w5)" "0 \<le> p_tx_dma_channel (driver w5)" "p_tx_sm_claimed (driver w5)" "p_rx_sm_claimed (driver w5)"
      by (simp_all only: w5 drv_simps) simp_all
  qed
  have res: "p_resources (snd u) = p_resources w5" using u(1) by (simp add: p_resources_def p_access)
  show "held (hw w') = held (hw w)" if "\<not> ok"
  proof (cases "claimed \<and> pio_start_allowed (driver w)")
    case True
    have "held (hw (pio_uart_driver_cleanup_partial P (snd u))) = held (hw w)"
      using held_cleanup [OF assms(1), of "snd u"] got True u res by auto
    with that out' h True show ?thesis by (auto split: if_splits)
  qed (use that out' fail h h5 in \<open>auto split: if_splits\<close>)
  assume ok
  with out' have k: claimed "pio_start_allowed (driver w)"
    and w': "w' = drv (p_initialized_update (\<lambda>_. True)) (pio_uart_driver_start_rx_dma P
                       (pio_uart_driver_configure_rts P (pio_uart_driver_configure_tx_dma P (snd u))))"
    by (auto split: if_splits)
  have "held (hw w') = held (hw w4)" using assms(1) by (simp add: w' quiet_pio_routines u)
  moreover have d: "p_resources w' = p_resources w5" "p_initialized (driver w')"
    "p_rx_dma_channel (driver w') = p_rx_dma_channel (driver w5)" "p_tx_dma_channel (driver w') = p_tx_dma_channel (driver w5)"
    "p_tx_sm_claimed (driver w') = p_tx_sm_claimed (driver w5)" "p_rx_sm_claimed (driver w') = p_rx_sm_claimed (driver w5)"
    using u(1) by (simp_all add: w' p_resources_def p_access p_drivers)
  ultimately show "p_holds held w' \<and> p_resources w' \<inter> held (hw w) = {} \<and> held (hw w') = p_resources w' \<union> held (hw w)"
    using got [OF k] by (simp add: p_holds_def p_own_def)
qed

text \<open>Everything an operation table, the interrupts and the pumps can do to an instance.\<close>

inductive pio_step :: "'h platform \<Rightarrow> (u32 \<Rightarrow> pio_uart_driver_config_t) \<Rightarrow> 'h pio_device \<Rightarrow> 'h pio_device \<Rightarrow> bool"
  for P configs where
  load: "pio_step P configs w (snd (pio_uart_driver_load_port_config configs w port_info))"
| init: "pio_step P configs w (snd (pio_uart_driver_init P w))"
| deinit: "pio_step P configs w (pio_uart_driver_deinit P w)"
| restart: "pio_step P configs w (snd (pio_uart_driver_restart P w))"
| poll: "pio_step P configs w (pio_uart_driver_poll P w launch)"
| set_coding: "pio_step P configs w (snd (pio_uart_driver_set_line_coding P w lc))"
| baseline: "pio_step P configs w (pio_uart_driver_clear_rx_error_baseline P w)"
| enable_irq: "pio_step P configs w (pio_uart_driver_enable_rx_dma_irq P w)"
| irq: "pio_step P configs w (pio_uart_driver_rx_dma_irq_handler P w)"
| put_rx: "pio_step P configs w (drv (p_rx_ring_update (\<lambda>_. r)) w)"
| put_tx: "pio_step P configs w (drv (p_tx_ring_update (\<lambda>_. r)) w)"
| other_port: "pio_step P configs w (w\<lparr>pio_uart_program_state := programs, pio_uart_driver_rx_irq_owners := owners\<rparr>)"

inductive pio_run :: "'h platform \<Rightarrow> (u32 \<Rightarrow> pio_uart_driver_config_t) \<Rightarrow> 'h pio_device \<Rightarrow> 'h pio_device \<Rightarrow> bool"
  for P configs w where
  none: "pio_run P configs w w"
| more: "pio_run P configs w w' \<Longrightarrow> pio_step P configs w' w'' \<Longrightarrow> pio_run P configs w w''"

lemma held_deinit:
  assumes "tracks_pio P held" "p_holds held w"
  shows "held (hw (pio_uart_driver_deinit P w)) = held (hw w) - p_own w"
proof (cases "p_initialized (driver w)")
  case True
  let ?v = "pio_uart_driver_publish_rx P w"
  have "p_resources ?v = p_resources w" by (simp add: p_resources_def p_access p_drivers)
  then show ?thesis
    using True assms held_cleanup [OF assms(1), of ?v]
    by (simp add: pio_uart_driver_deinit_def p_drivers quiet_pio_routines p_holds_def p_own_def)
qed (simp add: pio_uart_driver_deinit_def p_own_def)

lemma pio_step_held:
  fixes w :: "'h pio_device"
  assumes "tracks_pio P held" "pio_step P configs w w'" "p_holds held w"
  shows "p_holds held w' \<and> held (hw w') - p_own w' = held (hw w) - p_own w"
proof -
  have same: ?thesis if "held (hw w') = held (hw w)" "p_same (driver w) (driver w')"
  proof -
    have "p_resources w' = p_resources w" using that(2) by (simp add: p_resources_def p_access p_same_def)
    then show ?thesis using that assms(3) by (auto simp: p_holds_def p_own_def p_same_def)
  qed
  have start: "p_holds held v' \<and> held (hw v') - p_own v' = held (hw v)"
    if "pio_uart_driver_start P v = (ok, v')" "\<not> p_initialized (driver v)" for v v' :: "'h pio_device" and ok
    using held_start [OF assms(1) that(1)] p_start_driver [of P v] that
    by (cases ok) (auto simp: p_holds_def p_own_def)
  from assms(2) show ?thesis
  proof cases
    case (load port_info)
    show ?thesis
    proof (cases "p_initialized (driver w)")
      case True
      then show ?thesis
        using load by (intro same) (auto simp: pio_uart_driver_load_port_config_def split: option.splits)
    next
      case False
      then have "\<not> p_initialized (driver w')" "hw w' = hw w"
        using load by (auto simp: pio_uart_driver_load_port_config_def split: option.splits)
      with False show ?thesis by (simp add: p_holds_def p_own_def)
    qed
  next
    case init
    show ?thesis
    proof (cases "p_initialized (driver w)")
      case False
      with init start [of w "fst (pio_uart_driver_start P w)" w'] show ?thesis
        by (simp add: pio_uart_driver_init_def p_own_def)
    qed (use init same in \<open>simp add: pio_uart_driver_init_def\<close>)
  next
    case deinit
    show ?thesis unfolding deinit
      using held_deinit [OF assms(1,3)] p_deinit_driver(1) [of P w] by (simp add: p_holds_def p_own_def)
  next
    case restart
    show ?thesis
    proof (cases "p_config (driver w) = None")
      case False
      let ?v = "drv (p_rx_ring_update (\<lambda>r. snd (ring_buffer_recover_overflow r))) (pio_uart_driver_deinit P w)"
      have "w' = snd (pio_uart_driver_start P ?v)" "\<not> p_initialized (driver ?v)" "held (hw ?v) = held (hw w) - p_own w"
        using restart False held_deinit [OF assms(1,3)]
        by (simp_all add: pio_uart_driver_restart_def Let_def p_deinit_driver(1))
      with start [of ?v "fst (pio_uart_driver_start P ?v)" w'] show ?thesis by simp
    qed (use restart same in \<open>simp add: pio_uart_driver_restart_def\<close>)
  next
    case (set_coding lc)
    show ?thesis
    proof (cases "p_initialized (driver w)")
      case True
      then show ?thesis
        using same set_coding assms(1) p_set_coding_active [OF True, of P lc] by (simp add: held_changes)
    next
      case False
      then show ?thesis
        using set_coding assms(1) p_set_coding_inactive [OF False, of P lc] by (simp add: held_changes p_holds_def p_own_def)
    qed
  next
    case (poll launch)
    then show ?thesis using same assms(1) p_poll_same [of w P launch] by (simp add: held_changes)
  qed (use same assms(1) in \<open>simp_all add: quiet_pio_routines quiet_pio_routines2 p_same_def\<close>)
qed

text \<open>C24: A PIO port never leaks or steals a state machine or a DMA channel. From an inactive instance, after any
  sequence of loads, starts, stops, restarts, polls, rate changes and interrupts, with the failures of each on the
  way and the other ports loading programs in between, the instance owns exactly the two state machines and two channels
  it claimed and has not released, all others are claimed or free as at the beginning, and an instance that
  is not running owns none.\<close>

theorem pio_no_resource_leak:
  fixes w :: "'h pio_device"
  assumes "tracks_pio P held" "pio_run P configs w w'" "\<not> pio_uart_driver_is_initialized w"
  shows "p_own w' \<subseteq> held (hw w') \<and> held (hw w') - p_own w' = held (hw w) \<and>
    (\<not> pio_uart_driver_is_initialized w' \<longrightarrow> held (hw w') = held (hw w))"
proof -
  have "p_holds held w' \<and> held (hw w') - p_own w' = held (hw w) - p_own w"
    using assms(2)
  proof induction
    case none
    show ?case using assms(3) by (simp add: p_holds_def p_own_def pio_uart_driver_is_initialized_def)
  next
    case (more w' w'')
    then show ?case using pio_step_held [OF assms(1)] by blast
  qed
  then show ?thesis using assms(3) by (auto simp: p_holds_def p_own_def pio_uart_driver_is_initialized_def)
qed

end
