(* ===== verification/Tx_Accounting.thy ===== *)
theory Tx_Accounting
  imports Ring_Facts Backend_Policy
begin

text \<open>
  The transmit ring while a span of it is handed to a DMA engine or copied to a FIFO, for both backends: the
  reservation stays valid until its commit, so the commit frees exactly the bytes that were sent.
\<close>

text \<open>\<open>tx_room r\<close>: the ring of a producer that never overwrites.\<close>

definition tx_room :: "ring_buffer_t \<Rightarrow> bool" where
  "tx_room r \<longleftrightarrow> ring_wf r \<and> rb_distance r \<le> rb_capacity r"

definition tx_owned :: "ring_buffer_t \<Rightarrow> size_t \<Rightarrow> bool" where
  "tx_owned r n \<longleftrightarrow> tx_room r \<and> consumer_reserved_sequence r = consumer r \<and> n \<le> consumer_reserved_count r \<and>
     unat n \<le> rb_distance r"

lemma tx_commit:
  assumes "tx_owned r n"
  shows "ring_buffer_commit_consumed r n = (True, r\<lparr>consumer := consumer r + n, consumer_reserved_count := 0\<rparr>)"
proof -
  have "\<not> producer r - consumer r > ring_size r"
    using assms by (simp add: tx_owned_def tx_room_def rb_distance_def rb_capacity_def word_less_nat_alt not_less)
  then show ?thesis using assms by (simp add: ring_buffer_commit_consumed_def tx_owned_def Let_def not_less)
qed

lemma tx_commit_room:
  assumes "tx_owned r n"
  shows "tx_room (snd (ring_buffer_commit_consumed r n))"
proof -
  have "unat n \<le> rb_distance r" using assms by (simp add: tx_owned_def)
  from rb_distance_consume [OF this]
  have "rb_distance (r\<lparr>consumer := consumer r + n, consumer_reserved_count := 0\<rparr>) = rb_distance r - unat n"
    by (simp add: rb_distance_def)
  then show ?thesis
    using assms by (auto simp: tx_commit [OF assms] tx_room_def tx_owned_def ring_wf_def rb_capacity_def)
qed

lemma tx_span:
  assumes "tx_room r"
  defines "s \<equiv> ring_buffer_read_span r"
  shows "tx_room (snd s)" "consumer (snd s) = consumer r" "producer (snd s) = producer r"
    "span_length (fst s) \<noteq> 0 \<Longrightarrow> n \<le> span_length (fst s) \<Longrightarrow> tx_owned (snd s) n"
proof -
  have wf: "ring_wf r" and d: "rb_distance r \<le> rb_capacity r" using assms(1) by (simp_all add: tx_room_def)
  have rec: "snd (ring_buffer_recover_overflow r) = r" using d by (simp add: recover_snd)
  note eq = read_span_eq [OF wf, unfolded rec]
  show "tx_room (snd s)" "consumer (snd s) = consumer r" "producer (snd s) = producer r"
    using wf d by (auto simp: s_def eq tx_room_def ring_wf_def rb_distance_def rb_capacity_def)
  assume ne: "span_length (fst s) \<noteq> 0" and n: "n \<le> span_length (fst s)"
  then have c: "rb_contents r \<noteq> []" using read_span_empty_iff [OF wf] by (simp add: s_def)
  have "unat (span_length (fst s)) \<le> length (rb_contents r)" unfolding s_def read_span_length [OF wf] by (rule min.cobounded1)
  then have "unat n \<le> rb_distance r" using n by (simp add: word_le_nat_alt)
  moreover have "tx_room (snd s)" using wf d by (auto simp: s_def eq tx_room_def ring_wf_def rb_distance_def rb_capacity_def)
  ultimately show "tx_owned (snd s) n"
    using n c by (simp add: tx_owned_def s_def eq rb_distance_def)
qed

lemma transfer_le: "uart_tx_transfer_bytes occ m rate bits ms \<le> occ"
  by (auto simp: uart_tx_transfer_bytes_def Let_def not_less)

end
