(* ===== verification/Pio_Rate.thy ===== *)
theory Pio_Rate
  imports Pio_Properties Tx_Accounting
begin

text \<open>
  What polling and rate changes of a PIO port do to its bytes and its rate.
\<close>

section \<open>Transmit accounting\<close>

definition p_tx_ok :: "pio_uart_driver_t \<Rightarrow> bool" where
  "p_tx_ok d \<longleftrightarrow> tx_room (p_tx_ring d) \<and> (p_tx_dma_active d \<longrightarrow> tx_owned (p_tx_ring d) (p_tx_dma_bytes_in_flight d))"

definition p_sent :: "pio_uart_driver_t \<Rightarrow> u32" where
  "p_sent d = p_tx_polled_bytes d + p_tx_dma_bytes d"

text \<open>\<open>p_sends d d'\<close>: the bytes counted are the bytes that left the ring, and nothing else of the two rings' data moved.\<close>

definition p_sends :: "pio_uart_driver_t \<Rightarrow> pio_uart_driver_t \<Rightarrow> bool" where
  "p_sends d d' \<longleftrightarrow> p_tx_ok d' \<and> p_sent d' - p_sent d = consumer (p_tx_ring d') - consumer (p_tx_ring d) \<and>
     producer (p_tx_ring d') = producer (p_tx_ring d) \<and> p_rx_ring d' = p_rx_ring d \<and> p_uart_rx_bytes d' = p_uart_rx_bytes d \<and>
     p_baud_rate d' = p_baud_rate d"

lemma p_sends_refl: "p_tx_ok d \<Longrightarrow> p_sends d d" by (simp add: p_sends_def)

lemma p_sends_trans:
  assumes "p_sends d d'" "p_sends d' d''"
  shows "p_sends d d''"
proof -
  have "p_sent d'' - p_sent d = (p_sent d'' - p_sent d') + (p_sent d' - p_sent d)" by simp
  also have "\<dots> = consumer (p_tx_ring d'') - consumer (p_tx_ring d)" using assms by (simp add: p_sends_def)
  finally show ?thesis using assms by (simp add: p_sends_def)
qed

lemma p_drain_sends:
  assumes "p_tx_ok (driver w)" "\<not> p_tx_dma_active (driver w)"
  shows "p_sends (driver w) (driver (pio_uart_driver_drain_tx_fifo P w))"
proof -
  let ?s = "ring_buffer_read_span (p_tx_ring (driver w))"
  have room: "tx_room (p_tx_ring (driver w))" using assms(1) by (simp add: p_tx_ok_def)
  note span = tx_span [OF room]
  have moved: "p_sends (driver w) ((driver w)\<lparr>p_txstall_waiting := False,
      p_tx_ring := snd (ring_buffer_commit_consumed (snd ?s) n), p_tx_polled_bytes := p_tx_polled_bytes (driver w) + n\<rparr>)"
    if "span_length (fst ?s) \<noteq> 0" "n \<le> span_length (fst ?s)" for n
    using tx_commit [OF span(4) [OF that]] tx_commit_room [OF span(4) [OF that]] span(2,3) assms(2)
    by (simp add: p_sends_def p_tx_ok_def p_sent_def)
  have chunk: "uart_tx_transfer_bytes c c r b m \<le> span_length (fst ?s)" if "c \<le> span_length (fst ?s)" for c r b m
    using order_trans [OF transfer_le that] .
  show ?thesis
  proof (cases "span_length (fst ?s) = 0 \<or> PIO_UART_DRIVER_TX_FIFO_DEPTH - fst (call P (Pio_sm_get_tx_fifo_level (p_pio w) (p_tx_sm w))
      (drv (p_tx_ring_update (\<lambda>_. snd ?s)) w)) = 0")
    case True
    have "p_sends (driver w) ((driver w)\<lparr>p_tx_ring := snd ?s\<rparr>)"
      using span(1-3) assms(2) by (simp add: p_sends_def p_tx_ok_def p_sent_def)
    with True show ?thesis
      by (simp add: pio_uart_driver_drain_tx_fifo_def Let_def case_prod_beta p_access)
  next
    case False
    define h where "h = PIO_UART_DRIVER_TX_FIFO_DEPTH - fst (call P (Pio_sm_get_tx_fifo_level (p_pio w) (p_tx_sm w))
      (drv (p_tx_ring_update (\<lambda>_. snd ?s)) w))"
    define c where "c = (if span_length (fst ?s) < h then span_length (fst ?s) else h)"
    define n where "n = uart_tx_transfer_bytes c c (p_baud_rate (driver w)) 10 PIO_UART_DRIVER_TX_DMA_BUDGET_MS"
    have "c \<le> span_length (fst ?s)" by (simp add: c_def not_less)
    from chunk [OF this] have "n \<le> span_length (fst ?s)" by (simp add: n_def)
    moreover have "driver (pio_uart_driver_drain_tx_fifo P w) = (driver w)\<lparr>p_txstall_waiting := False,
      p_tx_ring := snd (ring_buffer_commit_consumed (snd ?s) n), p_tx_polled_bytes := p_tx_polled_bytes (driver w) + n\<rparr>"
      using False by (simp add: pio_uart_driver_drain_tx_fifo_def Let_def case_prod_beta p_access n_def c_def h_def)
    ultimately show ?thesis using moved False by simp
  qed
qed

lemma p_start_tx_sends:
  assumes "p_tx_ok (driver w)"
  shows "p_sends (driver w) (driver (snd (pio_uart_driver_start_tx_dma P m w)))"
proof -
  let ?s = "ring_buffer_read_span (p_tx_ring (driver w))"
  have room: "tx_room (p_tx_ring (driver w))" using assms by (simp add: p_tx_ok_def)
  note span = tx_span [OF room]
  let ?n = "uart_tx_transfer_bytes (span_length (fst ?s)) m (p_baud_rate (driver w)) 10 PIO_UART_DRIVER_TX_DMA_BUDGET_MS"
  have go: "p_sends (driver w) ((driver w)\<lparr>p_tx_ring := snd ?s, p_tx_dma_bytes_in_flight := ?n, p_tx_dma_active := True,
      p_txstall_waiting := False\<rparr>)" if "span_length (fst ?s) \<noteq> 0"
    using span(1-3) span(4) [OF that transfer_le] by (simp add: p_sends_def p_tx_ok_def p_sent_def)
  have idle: "p_sends (driver w) ((driver w)\<lparr>p_tx_ring := snd ?s\<rparr>)" if "\<not> p_tx_dma_active (driver w)"
    using span(1-3) that by (simp add: p_sends_def p_tx_ok_def p_sent_def)
  show ?thesis
    using go idle p_sends_refl [OF assms]
    by (simp add: pio_uart_driver_start_tx_dma_def Let_def case_prod_beta)
qed

lemma p_poll_tx_sends:
  assumes "p_tx_ok (driver w)"
  shows "p_sends (driver w) (driver (pio_uart_driver_poll_tx_dma P w))"
proof (cases "p_tx_dma_active (driver w)")
  case True
  then have own: "tx_owned (p_tx_ring (driver w)) (p_tx_dma_bytes_in_flight (driver w))" using assms by (simp add: p_tx_ok_def)
  show ?thesis
    using True tx_commit [OF own] tx_commit_room [OF own] p_sends_refl [OF assms]
    by (simp add: pio_uart_driver_poll_tx_dma_def Let_def case_prod_beta p_sends_def p_tx_ok_def p_sent_def)
qed (simp add: pio_uart_driver_poll_tx_dma_def p_sends_refl assms)

lemma p_service_sends:
  assumes "p_tx_ok (driver w)"
  shows "p_sends (driver w) (driver (pio_uart_driver_service_tx P w))"
proof -
  define v where "v = (if p_tx_dma_active (driver w) then pio_uart_driver_poll_tx_dma P w else w)"
  define u where "u = (if p_tx_dma_active (driver v) then v else snd (ask P (Pio_sm_is_tx_fifo_empty (p_pio v) (p_tx_sm v)) v))"
  have v: "p_sends (driver w) (driver v)" using assms by (simp add: v_def p_poll_tx_sends p_sends_refl)
  have uv: "driver u = driver v" by (simp add: u_def)
  with v have u: "p_sends (driver w) (driver u)" "p_tx_ok (driver u)" by (simp_all add: p_sends_def)
  let ?s = "snd (pio_uart_driver_start_tx_dma P PIO_UART_DRIVER_DEFAULT_TX_DMA_MAX_TRANSFER_BYTES u)"
  have s: "p_sends (driver w) (driver ?s)" "p_tx_ok (driver ?s)"
    using p_sends_trans [OF u(1) p_start_tx_sends [OF u(2)]] p_start_tx_sends [OF u(2)] by (simp_all add: p_sends_def)
  have d: "p_sends (driver w) (driver (pio_uart_driver_drain_tx_fifo P x))"
    if "p_sends (driver w) (driver x)" "\<not> p_tx_dma_active (driver x)" for x
    using that p_sends_trans [OF that(1) p_drain_sends] by (simp add: p_sends_def)
  have out: "pio_uart_driver_service_tx P w = u \<or>
      pio_uart_driver_service_tx P w = (if p_tx_dma_active (driver ?s) then ?s else pio_uart_driver_drain_tx_fifo P ?s) \<or>
      \<not> p_tx_dma_active (driver u) \<and> pio_uart_driver_service_tx P w = pio_uart_driver_drain_tx_fifo P u"
    unfolding pio_uart_driver_service_tx_def
    by (simp add: Let_def case_prod_beta v_def [symmetric] u_def uart_pio_tx_action_def
        split: uart_pio_tx_action_t.split)
  show ?thesis using out u(1) s(1) d [OF u(1)] d [OF s(1)] by (cases "p_tx_dma_active (driver ?s)") auto
qed

text \<open>
  \<open>p_accounts d d'\<close>: bytes only leave the transmit ring as counted, and only enter the receive ring as counted.
\<close>

definition p_accounts :: "pio_uart_driver_t \<Rightarrow> pio_uart_driver_t \<Rightarrow> bool" where
  "p_accounts d d' \<longleftrightarrow> p_tx_ok d' \<and> p_sent d' - p_sent d = consumer (p_tx_ring d') - consumer (p_tx_ring d) \<and>
     producer (p_tx_ring d') = producer (p_tx_ring d) \<and>
     p_uart_rx_bytes d' - p_uart_rx_bytes d = producer (p_rx_ring d') - producer (p_rx_ring d) \<and>
     consumer (p_rx_ring d') = consumer (p_rx_ring d) \<and> p_baud_rate d' = p_baud_rate d"

lemma p_sends_accounts: "p_sends d d' \<Longrightarrow> p_accounts d d'"
  by (simp add: p_sends_def p_accounts_def)

lemma p_accounts_trans:
  assumes "p_accounts d d'" "p_accounts d' d''"
  shows "p_accounts d d''"
proof -
  have "p_sent d'' - p_sent d = (p_sent d'' - p_sent d') + (p_sent d' - p_sent d)" by simp
  also have "\<dots> = consumer (p_tx_ring d'') - consumer (p_tx_ring d)" using assms by (simp add: p_accounts_def)
  finally have tx: "p_sent d'' - p_sent d = consumer (p_tx_ring d'') - consumer (p_tx_ring d)" .
  have "p_uart_rx_bytes d'' - p_uart_rx_bytes d = (p_uart_rx_bytes d'' - p_uart_rx_bytes d') + (p_uart_rx_bytes d' - p_uart_rx_bytes d)"
    by simp
  also have "\<dots> = producer (p_rx_ring d'') - producer (p_rx_ring d)" using assms by (simp add: p_accounts_def)
  finally show ?thesis using tx assms by (simp add: p_accounts_def)
qed

text \<open>Fields that no byte passes through.\<close>

definition p_unmoved :: "pio_uart_driver_t \<Rightarrow> pio_uart_driver_t \<Rightarrow> bool" where
  "p_unmoved d d' \<longleftrightarrow> p_tx_ring d' = p_tx_ring d \<and> p_rx_ring d' = p_rx_ring d \<and> p_tx_polled_bytes d' = p_tx_polled_bytes d \<and>
     p_tx_dma_bytes d' = p_tx_dma_bytes d \<and> p_uart_rx_bytes d' = p_uart_rx_bytes d \<and> p_baud_rate d' = p_baud_rate d \<and>
     p_tx_dma_active d' = p_tx_dma_active d \<and> p_tx_dma_bytes_in_flight d' = p_tx_dma_bytes_in_flight d"

lemma p_unmoved_accounts: "p_tx_ok d \<Longrightarrow> p_unmoved d d' \<Longrightarrow> p_accounts d d'"
  by (simp add: p_accounts_def p_unmoved_def p_tx_ok_def p_sent_def)

lemma p_publish_accounts: "p_tx_ok (driver w) \<Longrightarrow> p_accounts (driver w) (driver (pio_uart_driver_publish_rx P w))"
  by (simp add: p_publish_driver p_accounts_def p_tx_ok_def p_sent_def ring_buffer_produce_external_def)

text \<open>A poll up to its transmit side.\<close>

definition p_received :: "'h platform \<Rightarrow> 'h pio_device \<Rightarrow> 'h pio_device" where
  "p_received P w = pio_poll_rearm P (pio_uart_driver_harvest_framing_errors P (pio_uart_driver_update_rts P
     (pio_uart_driver_publish_rx P w)))"

lemma p_poll_parts:
  "pio_uart_driver_poll P w launch = (if \<not> p_initialized (driver w) then w
     else if \<not> launch then pio_uart_driver_poll_tx_dma P (p_received P w)
     else if \<not> p_tx_dma_active (driver (p_received P w)) \<and> ring_buffer_occupancy (p_tx_ring (driver (p_received P w))) = 0
     then p_received P w else pio_uart_driver_service_tx P (p_received P w))"
  by (simp add: pio_uart_driver_poll_def Let_def p_received_def)

lemma p_receive_accounts:
  fixes w :: "'h pio_device"
  assumes "p_tx_ok (driver w)"
  shows "p_accounts (driver w) (driver (p_received P w))"
    "p_tx_dma_active (driver (p_received P w)) = p_tx_dma_active (driver w)"
    "p_tx_polled_bytes (driver (p_received P w)) = p_tx_polled_bytes (driver w)"
    "p_txstall_waiting (driver (p_received P w)) = p_txstall_waiting (driver w)"
proof -
  let ?v = "p_received P w"
  have "p_unmoved (driver (pio_uart_driver_publish_rx P w)) (driver ?v)"
    by (simp add: p_received_def p_drivers p_unmoved_def)
  with p_publish_accounts [OF assms, of P] show "p_accounts (driver w) (driver ?v)"
    by (meson p_accounts_def p_accounts_trans p_unmoved_accounts)
  show "p_tx_dma_active (driver ?v) = p_tx_dma_active (driver w)" "p_tx_polled_bytes (driver ?v) = p_tx_polled_bytes (driver w)"
    "p_txstall_waiting (driver ?v) = p_txstall_waiting (driver w)"
    by (simp_all add: p_received_def p_drivers)
qed

lemma p_poll_accounts:
  assumes "p_tx_ok (driver w)"
  shows "p_accounts (driver w) (driver (pio_uart_driver_poll P w launch))"
proof -
  note r = p_receive_accounts(1) [OF assms, of P]
  then have ok: "p_tx_ok (driver (p_received P w))" by (simp add: p_accounts_def)
  have "p_accounts (driver w) (driver w)" using p_unmoved_accounts [OF assms] by (simp add: p_unmoved_def)
  then show ?thesis
    using r p_accounts_trans [OF r p_sends_accounts [OF p_poll_tx_sends [OF ok]]]
      p_accounts_trans [OF r p_sends_accounts [OF p_service_sends [OF ok]]]
    by (simp add: p_poll_parts)
qed

lemma p_poll_tx_launches:
  "p_tx_dma_active (driver (pio_uart_driver_poll_tx_dma P w)) \<Longrightarrow> p_tx_dma_active (driver w)"
  "p_tx_polled_bytes (driver (pio_uart_driver_poll_tx_dma P w)) = p_tx_polled_bytes (driver w)"
  by (simp_all add: pio_uart_driver_poll_tx_dma_def Let_def case_prod_beta split: if_splits)

lemma p_poll_launches:
  assumes "p_tx_ok (driver w)"
  shows "p_tx_dma_active (driver (pio_uart_driver_poll P w False)) \<Longrightarrow> p_tx_dma_active (driver w)"
    "p_tx_polled_bytes (driver (pio_uart_driver_poll P w False)) = p_tx_polled_bytes (driver w)"
  using p_receive_accounts(2,3) [OF assms, of P] p_poll_tx_launches [of P "p_received P w"]
  by (auto simp: p_poll_parts split: if_splits)

section \<open>A change of rate\<close>

lemma p_stop_accounts:
  assumes "p_tx_ok (driver w)"
  shows "p_accounts (driver w) (driver (snd (pio_stop_for_reconfig P w)))"
    "p_tx_dma_active (driver (snd (pio_stop_for_reconfig P w))) = p_tx_dma_active (driver w)"
    "p_txstall_waiting (driver (snd (pio_stop_for_reconfig P w))) = p_txstall_waiting (driver w)"
proof -
  let ?v = "snd (call P Save_and_disable_interrupts w)"
  have a: "p_accounts (driver w) (driver (if p_rx_dma_channel (driver w) \<ge> 0
      then pio_uart_driver_finish_rx_dma_stop_locked P ?v else ?v))"
    using p_publish_accounts [of ?v P] p_unmoved_accounts [OF assms, of "driver w"] assms
    by (simp add: p_finish_stop_driver p_unmoved_def)
  then have b: "p_tx_ok (driver (if p_rx_dma_channel (driver w) \<ge> 0
      then pio_uart_driver_finish_rx_dma_stop_locked P ?v else ?v))" by (simp add: p_accounts_def)
  have "p_unmoved (driver (if p_rx_dma_channel (driver w) \<ge> 0
      then pio_uart_driver_finish_rx_dma_stop_locked P ?v else ?v)) (driver (snd (pio_stop_for_reconfig P w)))"
    by (simp add: pio_stop_for_reconfig_def Let_def case_prod_beta p_start_rx_driver p_unmoved_def)
  from p_accounts_trans [OF a p_unmoved_accounts [OF b this]]
  show "p_accounts (driver w) (driver (snd (pio_stop_for_reconfig P w)))" .
  show "p_tx_dma_active (driver (snd (pio_stop_for_reconfig P w))) = p_tx_dma_active (driver w)"
    "p_txstall_waiting (driver (snd (pio_stop_for_reconfig P w))) = p_txstall_waiting (driver w)"
    by (simp_all add: pio_stop_for_reconfig_def Let_def case_prod_beta p_drivers)
qed

text \<open>A port prepared for the change has nothing in flight, and had been seen to stall before.\<close>

lemma p_idle_needs:
  assumes "fst (pio_change_idle P w)"
  shows "\<not> p_tx_dma_active (driver w)" "p_txstall_waiting (driver w)"
  using assms
  by (auto simp: pio_change_idle_def Let_def case_prod_beta pio_uart_driver_tx_shifter_idle_def pio_uart_txstall_sample_def
      split: if_splits)

lemma p_prepare_waits:
  assumes "fst (pio_uart_driver_prepare_baud_change P w)"
  shows "p_txstall_waiting (driver w)"
proof -
  let ?v = "pio_uart_driver_poll_tx_dma P (pio_uart_driver_publish_rx P w)"
  have "p_txstall_waiting (driver ?v)"
    using assms p_idle_needs(2) [of P ?v]
    by (auto simp: pio_uart_driver_prepare_baud_change_def Let_def case_prod_beta split: if_splits)
  then show ?thesis by (simp add: pio_uart_driver_poll_tx_dma_def Let_def case_prod_beta p_drivers split: if_splits)
qed

lemma p_prepare_steps:
  assumes "p_tx_ok (driver w)"
  shows "p_accounts (driver w) (driver (snd (pio_uart_driver_prepare_baud_change P w)))"
    "fst (pio_uart_driver_prepare_baud_change P w) \<Longrightarrow>
       \<not> p_tx_dma_active (driver (snd (pio_uart_driver_prepare_baud_change P w)))"
proof -
  define t where "t = pio_uart_driver_publish_rx P w"
  define v where "v = pio_uart_driver_poll_tx_dma P t"
  define u where "u = snd (pio_change_idle P v)"
  define x where "x = (if 0 \<le> p_rx_dma_channel (driver u) then snd (pio_uart_driver_pause_rx_dma_for_reconfig P u) else u)"
  have t: "p_accounts (driver w) (driver t)" using assms by (simp add: t_def p_publish_accounts)
  then have "p_tx_ok (driver t)" by (simp add: p_accounts_def)
  from p_accounts_trans [OF t p_sends_accounts [OF p_poll_tx_sends [OF this]]]
  have v: "p_accounts (driver w) (driver v)" "p_tx_ok (driver v)" by (simp_all add: v_def p_accounts_def)
  obtain b where b: "driver u = (driver v)\<lparr>p_txstall_waiting := b\<rparr>" using p_change_idle_driver [of P v] by (auto simp: u_def)
  have "p_unmoved (driver v) (driver x)" using b by (simp add: x_def p_unmoved_def)
  from p_accounts_trans [OF v(1) p_unmoved_accounts [OF v(2) this]]
  have x: "p_accounts (driver w) (driver x)" "p_tx_ok (driver x)" by (simp_all add: p_accounts_def)
  have "p_unmoved (driver v) (driver u)" using b by (simp add: p_unmoved_def)
  from p_accounts_trans [OF v(1) p_unmoved_accounts [OF v(2) this]] have u: "p_accounts (driver w) (driver u)" .
  note s = p_stop_accounts [OF x(2), of P]
  have out: "pio_uart_driver_prepare_baud_change P w =
      (if \<not> fst (pio_change_idle P v) then (False, u)
       else if 0 \<le> p_rx_dma_channel (driver u) \<and> \<not> fst (pio_uart_driver_pause_rx_dma_for_reconfig P u) then (False, x)
       else pio_stop_for_reconfig P x)"
    by (simp add: pio_uart_driver_prepare_baud_change_def Let_def case_prod_beta t_def [symmetric] v_def [symmetric]
        u_def [symmetric] x_def)
  show "p_accounts (driver w) (driver (snd (pio_uart_driver_prepare_baud_change P w)))"
    using u x p_accounts_trans [OF x(1) s(1)] by (simp add: out)
  assume "fst (pio_uart_driver_prepare_baud_change P w)"
  then have idle: "fst (pio_change_idle P v)" and eq: "pio_uart_driver_prepare_baud_change P w = pio_stop_for_reconfig P x"
    by (auto simp: out split: if_splits)
  show "\<not> p_tx_dma_active (driver (snd (pio_uart_driver_prepare_baud_change P w)))"
    using p_idle_needs(1) [OF idle] b s(2) by (simp add: eq x_def)
qed

lemma p_poll_tx_active:
  "p_baud_rate (driver (pio_uart_driver_poll P w launch)) = p_baud_rate (driver w)" if "p_tx_ok (driver w)"
  using p_poll_accounts [OF that, of P launch] by (simp add: p_accounts_def)

text \<open>The outcome of a request to a running port.\<close>

lemma p_apply_rate_outcome:
  fixes w :: "'h pio_device" and P :: "'h platform" and rate :: u32
  assumes "p_tx_ok (driver w)" "p_initialized (driver w)"
  defines "r \<equiv> pio_uart_driver_apply_baud_rate P w rate"
  shows "p_accounts ((driver w)\<lparr>p_baud_rate := p_baud_rate (driver (snd r))\<rparr>) (driver (snd r))"
    "p_baud_rate (driver (snd r)) = (if fst r then rate else p_baud_rate (driver w))"
proof -
  let ?v = "snd (pio_uart_driver_baud_rate_supported P rate w)"
  let ?p = "pio_uart_driver_prepare_baud_change P ?v"
  let ?x = "drv (\<lambda>d. d\<lparr>p_tx_dma_bytes_in_flight := 0, p_tx_dma_active := False\<rparr>) (pio_uart_driver_apply_baud P rate (snd ?p))"
  have v: "p_tx_ok (driver ?v)" "driver ?v = driver w" using assms(1) by simp_all
  note prep = p_prepare_steps [OF v(1), of P, unfolded v(2)]
  have out: "r = (if \<not> fst (pio_uart_driver_baud_rate_supported P rate w) then (False, ?v)
      else if \<not> fst ?p then (False, snd ?p) else (True, pio_uart_driver_poll P ?x True))"
    using assms(2) by (simp add: r_def pio_uart_driver_apply_baud_rate_def Let_def case_prod_beta)
  have refl: "p_accounts (driver w) (driver w)" using p_unmoved_accounts [OF assms(1)] by (simp add: p_unmoved_def)
  have x: "p_accounts ((driver w)\<lparr>p_baud_rate := rate\<rparr>) (driver ?x)" if "fst ?p"
    using prep(1) prep(2) [OF that] by (auto simp: p_drivers p_accounts_def p_tx_ok_def p_sent_def)
  have done_: "p_accounts ((driver w)\<lparr>p_baud_rate := rate\<rparr>) (driver (pio_uart_driver_poll P ?x True))" if "fst ?p"
  proof -
    from x [OF that] have "p_tx_ok (driver ?x)" by (simp add: p_accounts_def)
    from p_accounts_trans [OF x [OF that] p_poll_accounts [OF this]] show ?thesis .
  qed
  have rate: "p_baud_rate (driver (snd ?p)) = p_baud_rate (driver w)" using prep(1) by (simp add: p_accounts_def)
  have rate': "p_baud_rate (driver (pio_uart_driver_poll P ?x True)) = rate" if "fst ?p"
    using done_ [OF that] by (simp add: p_accounts_def)
  show "p_accounts ((driver w)\<lparr>p_baud_rate := p_baud_rate (driver (snd r))\<rparr>) (driver (snd r))"
    using refl prep(1) rate rate' done_ by (simp add: out)
  show "p_baud_rate (driver (snd r)) = (if fst r then rate else p_baud_rate (driver w))"
    using rate rate' by (simp add: out)
qed

lemma p_set_coding_outcome:
  fixes w :: "'h pio_device" and P :: "'h platform" and lc :: "uart_driver_line_coding_t option"
  assumes "p_tx_ok (driver w)" "p_initialized (driver w)"
  defines "r \<equiv> pio_uart_driver_set_line_coding P w lc"
  shows "p_accounts ((driver w)\<lparr>p_baud_rate := p_baud_rate (driver (snd r))\<rparr>) (driver (snd r))"
    "p_baud_rate (driver (snd r)) = (if fst r then baud_rate (the lc) else p_baud_rate (driver w))"
    "fst r \<Longrightarrow> uart_line_coding_is_valid lc \<and>
       uart_line_coding_pio_supported lc (fst (call P Clock_sys_hz w))"
proof -
  let ?v = "snd (call P Clock_sys_hz w)"
  have refl: "p_accounts (driver w) (driver w)" using p_unmoved_accounts [OF assms(1)] by (simp add: p_unmoved_def)
  have out: "r = (if \<not> uart_line_coding_is_valid lc then (False, w)
      else if \<not> uart_line_coding_pio_supported lc (fst (call P Clock_sys_hz w)) then (False, ?v)
      else pio_uart_driver_apply_baud_rate P ?v (baud_rate (the lc)))"
    using assms(2) by (simp add: r_def pio_uart_driver_set_line_coding_def Let_def case_prod_beta)
  have v: "p_tx_ok (driver ?v)" "p_initialized (driver ?v)" using assms by simp_all
  note a = p_apply_rate_outcome [OF v, of P "baud_rate (the lc)"]
  show "p_accounts ((driver w)\<lparr>p_baud_rate := p_baud_rate (driver (snd r))\<rparr>) (driver (snd r))"
    "p_baud_rate (driver (snd r)) = (if fst r then baud_rate (the lc) else p_baud_rate (driver w))"
    using refl a by (simp_all add: out)
  show "fst r \<Longrightarrow> uart_line_coding_is_valid lc \<and>
       uart_line_coding_pio_supported lc (fst (call P Clock_sys_hz w))"
    by (auto simp: out split: if_splits)
qed

lemma p_set_coding_waits:
  assumes "p_initialized (driver w)" "fst (pio_uart_driver_set_line_coding P w lc)"
  shows "p_txstall_waiting (driver w)"
  using assms p_prepare_waits [of P "snd (pio_uart_driver_baud_rate_supported P (baud_rate (the lc)) (snd (call P Clock_sys_hz w)))"]
  by (auto simp: pio_uart_driver_set_line_coding_def pio_uart_driver_apply_baud_rate_def Let_def case_prod_beta split: if_splits)

lemma p_counters:
  "stats_uart_tx_bytes (pio_uart_driver_stats w) = p_sent (driver w)"
  "stats_uart_rx_bytes (pio_uart_driver_stats w) = p_uart_rx_bytes (driver w)"
  by (simp_all add: pio_uart_driver_stats_def p_sent_def)

text \<open>C26: The byte counters of a running PIO port are exact, modulo 2^32. Over a poll or a change of rate, successful or
  refused, on every path (DMA, FIFO writes, deferred completions, the publications on the way), the transmitted count grows by what
  left the transmit ring and the received count by what entered the receive ring. The queue of bytes to send is never
  overrun or consumed beyond its end, and a poll without launch permission neither starts a DMA nor feeds the FIFO.\<close>

theorem pio_bytes_accounted:
  fixes w w' :: "'h pio_device"
  assumes "pio_uart_driver_is_initialized w" "p_tx_ok (driver w)"
    "w' = pio_uart_driver_poll P w launch \<or> w' = snd (pio_uart_driver_set_line_coding P w lc)"
  shows "p_tx_ok (driver w') \<and> producer (p_tx_ring (driver w')) = producer (p_tx_ring (driver w)) \<and>
    stats_uart_tx_bytes (pio_uart_driver_stats w') - stats_uart_tx_bytes (pio_uart_driver_stats w) =
      consumer (p_tx_ring (driver w')) - consumer (p_tx_ring (driver w)) \<and>
    stats_uart_rx_bytes (pio_uart_driver_stats w') - stats_uart_rx_bytes (pio_uart_driver_stats w) =
      producer (p_rx_ring (driver w')) - producer (p_rx_ring (driver w)) \<and>
    consumer (p_rx_ring (driver w')) = consumer (p_rx_ring (driver w)) \<and>
    (w' = pio_uart_driver_poll P w False \<longrightarrow>
       (p_tx_dma_active (driver w') \<longrightarrow> p_tx_dma_active (driver w)) \<and>
       p_tx_polled_bytes (driver w') = p_tx_polled_bytes (driver w))"
proof -
  have "\<exists>q. p_accounts ((driver w)\<lparr>p_baud_rate := q\<rparr>) (driver w')"
    using assms(3) p_poll_accounts [OF assms(2), of P launch] p_set_coding_outcome(1) [OF assms(2), of P lc] assms(1)
    by (fastforce simp: pio_uart_driver_is_initialized_def p_accounts_def)
  then show ?thesis
    using p_poll_launches [OF assms(2), of P] by (auto simp: p_accounts_def p_counters p_sent_def)
qed


end
