(* ===== verification/Pio_Idle.thy ===== *)
theory Pio_Idle
  imports Pio_Rate
begin

text \<open>
  The stall flag of a PIO transmitter is sticky: it tells that the shifter ran empty at some time, perhaps before the
  last byte. A change of rate therefore clears it and waits for it to be raised again. Here: that no path skips this.
\<close>

definition p_stall_mask :: "'h pio_device \<Rightarrow> u32" where
  "p_stall_mask w = push_bit (PIO_FDEBUG_TXSTALL_LSB + unat (p_tx_sm w)) 1"

text \<open>
  \<open>cleared h\<close>: the stall flags cleared since a state machine was last given a byte, a history the environment keeps:
  a write of FDEBUG adds its flags, a FIFO write or the start of a transmission removes them all.
\<close>

definition tracks_stall :: "'h platform \<Rightarrow> ('h \<Rightarrow> (pio_t \<times> u32) set) \<Rightarrow> bool" where
  "tracks_stall P cleared \<longleftrightarrow>
     (\<forall>h p m. cleared (snd (sdk P (Pio_set_fdebug p m) h)) = insert (p, m) (cleared h)) \<and>
     (\<forall>h c. launch_call c \<longrightarrow> cleared (snd (sdk P c h)) = {}) \<and>
     (\<forall>h c. \<not> launch_call c \<and> \<not> probe_call c \<longrightarrow> cleared (snd (sdk P c h)) = cleared h)"

lemma stall_quiet [simp]: "tracks_stall P cleared \<Longrightarrow> quiet P cleared"
  by (simp add: tracks_stall_def quiet_def)

lemma stall_call:
  assumes "tracks_stall P cleared" "\<not> launch_call c" "\<not> probe_call c"
  shows "cleared (hw (snd (call P c w))) = cleared (hw w)" "cleared (hw (run P c w)) = cleared (hw w)"
    "cleared (hw (snd (ask P c w))) = cleared (hw w)"
  using assms by (simp_all add: tracks_stall_def device_defs)

lemma stall_set:
  assumes "tracks_stall P cleared"
  shows "cleared (hw (run P (Pio_set_fdebug p m) w)) = insert (p, m) (cleared (hw w))"
  using assms by (simp add: tracks_stall_def device_defs)

text \<open>\<open>p_calm\<close>: a step that leaves the port waiting for a stall only if it gave the transmitter nothing.\<close>

definition p_calm :: "('h \<Rightarrow> (pio_t \<times> u32) set) \<Rightarrow> 'h pio_device \<Rightarrow> 'h pio_device \<Rightarrow> bool" where
  "p_calm cleared w w' \<longleftrightarrow> (p_txstall_waiting (driver w') \<longrightarrow>
     p_txstall_waiting (driver w) \<and> cleared (hw w') = cleared (hw w))"

lemma p_calm_trans: "p_calm cleared w w' \<Longrightarrow> p_calm cleared w' w'' \<Longrightarrow> p_calm cleared w w''"
  by (auto simp: p_calm_def)

lemma p_calm_refl [simp]: "p_calm cleared w w" by (simp add: p_calm_def)

lemma p_calm_same:
  "p_txstall_waiting (driver w') = p_txstall_waiting (driver w) \<Longrightarrow> cleared (hw w') = cleared (hw w) \<Longrightarrow> p_calm cleared w w'"
  by (simp add: p_calm_def)

lemma p_tx_calm:
  assumes "tracks_stall P cleared"
  shows "p_calm cleared w (pio_uart_driver_drain_tx_fifo P w)"
    "p_calm cleared w (snd (pio_uart_driver_start_tx_dma P m w))"
    "p_calm cleared w (pio_uart_driver_poll_tx_dma P w)"
proof -
  show "p_calm cleared w (pio_uart_driver_drain_tx_fifo P w)"
    using assms by (auto simp: p_calm_def pio_uart_driver_drain_tx_fifo_def Let_def case_prod_beta stall_call call_kinds)
  show "p_calm cleared w (snd (pio_uart_driver_start_tx_dma P m w))"
    by (auto simp: p_calm_def pio_uart_driver_start_tx_dma_def Let_def case_prod_beta)
  show "p_calm cleared w (pio_uart_driver_poll_tx_dma P w)"
    using assms by (auto simp: p_calm_def pio_uart_driver_poll_tx_dma_def Let_def case_prod_beta stall_call call_kinds)
qed

lemma p_service_calm:
  assumes "tracks_stall P cleared"
  shows "p_calm cleared w (pio_uart_driver_service_tx P w)"
proof -
  define v where "v = (if p_tx_dma_active (driver w) then pio_uart_driver_poll_tx_dma P w else w)"
  define u where "u = (if p_tx_dma_active (driver v) then v else snd (ask P (Pio_sm_is_tx_fifo_empty (p_pio v) (p_tx_sm v)) v))"
  have v: "p_calm cleared w v" using p_tx_calm(3) [OF assms] by (simp add: v_def)
  have "p_calm cleared v u" using assms by (simp add: u_def p_calm_def stall_call call_kinds)
  with v have u: "p_calm cleared w u" by (rule p_calm_trans)
  let ?s = "snd (pio_uart_driver_start_tx_dma P PIO_UART_DRIVER_DEFAULT_TX_DMA_MAX_TRANSFER_BYTES u)"
  have s: "p_calm cleared w ?s" using p_calm_trans [OF u p_tx_calm(2) [OF assms]] .
  have out: "pio_uart_driver_service_tx P w \<in> {u, ?s, pio_uart_driver_drain_tx_fifo P ?s, pio_uart_driver_drain_tx_fifo P u}"
    unfolding pio_uart_driver_service_tx_def
    by (simp add: Let_def case_prod_beta v_def [symmetric] u_def split: uart_pio_tx_action_t.split)
  then show ?thesis using u s p_calm_trans [OF u p_tx_calm(1) [OF assms]] p_calm_trans [OF s p_tx_calm(1) [OF assms]] by auto
qed

lemma p_poll_calm:
  assumes "tracks_stall P cleared"
  shows "p_calm cleared w (pio_uart_driver_poll P w launch)"
proof -
  have r: "p_calm cleared w (p_received P w)"
    using assms by (intro p_calm_same) (simp_all add: p_received_def p_drivers quiet_pio_routines quiet_pio_routines2)
  show ?thesis
    using r p_calm_trans [OF r p_tx_calm(3) [OF assms]] p_calm_trans [OF r p_service_calm [OF assms]]
    by (simp add: p_poll_parts)
qed

section \<open>The invariant\<close>

definition p_fresh :: "('h \<Rightarrow> (pio_t \<times> u32) set) \<Rightarrow> 'h pio_device \<Rightarrow> bool" where
  "p_fresh cleared w \<longleftrightarrow>
     (p_initialized (driver w) \<and> p_txstall_waiting (driver w) \<longrightarrow> (p_pio w, p_stall_mask w) \<in> cleared (hw w))"

lemma p_fresh_calm:
  assumes "p_fresh cleared w" "p_calm cleared w w'" "p_same (driver w) (driver w')"
  shows "p_fresh cleared w'"
proof -
  have "p_pio w' = p_pio w" "p_stall_mask w' = p_stall_mask w"
    using assms(3) by (simp_all add: p_access p_stall_mask_def p_same_def)
  then show ?thesis using assms by (auto simp: p_fresh_def p_calm_def p_same_def)
qed

lemma p_shifter_fresh:
  assumes "tracks_stall P cleared" "p_fresh cleared w"
  shows "p_fresh cleared (snd (pio_uart_driver_tx_shifter_idle P w))"
  using assms
  by (auto simp: p_fresh_def pio_uart_driver_tx_shifter_idle_def Let_def case_prod_beta pio_uart_txstall_sample_def
      p_stall_mask_def p_access stall_call stall_set call_kinds split: if_splits)

lemma p_fresh_same:
  "p_fresh cleared w \<Longrightarrow> cleared (hw w') = cleared (hw w) \<Longrightarrow> driver w' = driver w \<Longrightarrow> p_fresh cleared w'"
  by (simp add: p_fresh_def p_access p_stall_mask_def)

lemma p_idle_fresh:
  assumes "tracks_stall P cleared" "p_fresh cleared w"
  shows "p_fresh cleared (snd (pio_change_idle P w))"
proof -
  define v where "v = snd (ask P (Pio_sm_is_tx_fifo_empty (p_pio w) (p_tx_sm w)) w)"
  define u where "u = snd (pio_uart_driver_tx_shifter_idle P v)"
  define x where "x = snd (ask P (Pio_sm_is_rx_fifo_empty (p_pio u) (p_rx_sm u)) u)"
  have v: "p_fresh cleared v"
    by (rule p_fresh_same [OF assms(2)]) (simp_all add: v_def stall_call [OF assms(1)] call_kinds)
  have u: "p_fresh cleared u" using p_shifter_fresh [OF assms(1) v] by (simp add: u_def)
  have x: "p_fresh cleared x"
    by (rule p_fresh_same [OF u]) (simp_all add: x_def stall_call [OF assms(1)] call_kinds)
  have y: "p_fresh cleared (snd (pio_uart_driver_rx_quiescent P x))"
    by (rule p_fresh_same [OF x]) (use assms(1) in \<open>simp_all add: quiet_pio_routines\<close>)
  have "snd (pio_change_idle P w) \<in> {w, v, u, x, snd (pio_uart_driver_rx_quiescent P x)}"
    by (simp add: pio_change_idle_def Let_def case_prod_beta v_def [symmetric] u_def [symmetric] x_def [symmetric])
  with assms(2) v u x y show ?thesis by auto
qed

lemma p_prepare_fresh:
  assumes "tracks_stall P cleared" "p_fresh cleared w"
  shows "p_fresh cleared (snd (pio_uart_driver_prepare_baud_change P w))"
proof -
  define t where "t = pio_uart_driver_publish_rx P w"
  define v where "v = pio_uart_driver_poll_tx_dma P t"
  define u where "u = snd (pio_change_idle P v)"
  define x where "x = (if 0 \<le> p_rx_dma_channel (driver u) then snd (pio_uart_driver_pause_rx_dma_for_reconfig P u) else u)"
  have t: "p_fresh cleared t"
    by (rule p_fresh_calm [OF assms(2)]) (use assms(1) in \<open>simp_all add: t_def p_calm_def quiet_pio_routines p_drivers p_same_def\<close>)
  have v: "p_fresh cleared v" unfolding v_def by (rule p_fresh_calm [OF t p_tx_calm(3) [OF assms(1)] p_tx_same(3)])
  have u: "p_fresh cleared u" unfolding u_def by (rule p_idle_fresh [OF assms(1) v])
  have x: "p_fresh cleared x" by (rule p_fresh_same [OF u]) (use assms(1) in \<open>simp_all add: x_def quiet_pio_routines\<close>)
  have y: "p_fresh cleared (snd (pio_stop_for_reconfig P x))"
  proof (rule p_fresh_calm [OF x _ p_stop_same])
    have "p_txstall_waiting (driver (snd (pio_stop_for_reconfig P x))) = p_txstall_waiting (driver x)"
      by (simp add: pio_stop_for_reconfig_def Let_def case_prod_beta p_drivers)
    then show "p_calm cleared x (snd (pio_stop_for_reconfig P x))"
      using assms(1) by (intro p_calm_same) (simp_all add: quiet_stop)
  qed
  have "snd (pio_uart_driver_prepare_baud_change P w) \<in> {u, x, snd (pio_stop_for_reconfig P x)}"
    by (simp add: pio_uart_driver_prepare_baud_change_def Let_def case_prod_beta t_def [symmetric] v_def [symmetric]
        u_def [symmetric] x_def)
  with u x y show ?thesis by auto
qed

lemma p_set_coding_fresh:
  assumes "tracks_stall P cleared" "p_fresh cleared w"
  shows "p_fresh cleared (snd (pio_uart_driver_set_line_coding P w lc))"
proof (cases "p_initialized (driver w)")
  case True
  have rate: "p_fresh cleared (snd (pio_uart_driver_apply_baud_rate P v r))" if "p_fresh cleared v" for v r
  proof -
    let ?v = "snd (pio_uart_driver_baud_rate_supported P r v)"
    let ?p = "pio_uart_driver_prepare_baud_change P ?v"
    let ?x = "drv (\<lambda>d. d\<lparr>p_tx_dma_bytes_in_flight := 0, p_tx_dma_active := False\<rparr>) (pio_uart_driver_apply_baud P r (snd ?p))"
    have v: "p_fresh cleared ?v" by (rule p_fresh_same [OF that]) (use assms(1) in \<open>simp_all add: quiet_pio_routines\<close>)
    note p = p_prepare_fresh [OF assms(1) v]
    have x: "p_fresh cleared ?x" by (simp add: p_fresh_def p_drivers)
    note y = p_fresh_calm [OF x p_poll_calm [OF assms(1)] p_poll_same]
    show ?thesis using that v p y by (simp add: pio_uart_driver_apply_baud_rate_def Let_def case_prod_beta)
  qed
  have v: "p_fresh cleared (snd (call P Clock_sys_hz w))"
    by (rule p_fresh_same [OF assms(2)]) (simp_all add: stall_call [OF assms(1)] call_kinds)
  show ?thesis
    using True assms(2) v rate [OF v] by (simp add: pio_uart_driver_set_line_coding_def Let_def case_prod_beta)
next
  case False
  then show ?thesis using p_set_coding_inactive [OF False, of P lc] by (simp add: p_fresh_def)
qed

text \<open>A port that has just started waits for nothing.\<close>

lemma p_start_waits:
  "fst (pio_uart_driver_start P w) \<Longrightarrow> \<not> p_txstall_waiting (driver (snd (pio_uart_driver_start P w)))"
proof -
  have rings: "p_txstall_waiting (snd (pio_start_rings d)) = p_txstall_waiting d" for d
    by (simp add: pio_start_rings_def Let_def case_prod_beta)
  show "fst (pio_uart_driver_start P w) \<Longrightarrow> \<not> p_txstall_waiting (driver (snd (pio_uart_driver_start P w)))"
    by (auto simp: pio_uart_driver_start_def Let_def case_prod_beta p_drivers rings pio_start_reset_def split: if_splits)
qed

lemma p_start_fresh:
  assumes "\<not> p_initialized (driver w)"
  shows "p_fresh cleared (snd (pio_uart_driver_start P w))"
  using assms p_start_waits [of P w] p_start_driver(2) [of P w]
  by (cases "fst (pio_uart_driver_start P w)") (auto simp: p_fresh_def)

lemma pio_step_fresh:
  assumes "tracks_stall P cleared" "pio_step P configs w w'" "p_fresh cleared w"
  shows "p_fresh cleared w'"
  using assms(2)
proof cases
  case (load port_info)
  show ?thesis
  proof (cases "p_initialized (driver w)")
    case True
    then show ?thesis using load assms(3) by (auto simp: pio_uart_driver_load_port_config_def split: option.splits)
  next
    case False
    then show ?thesis using load by (auto simp: pio_uart_driver_load_port_config_def p_fresh_def split: option.splits)
  qed
next
  case init
  then show ?thesis using assms(3) p_start_fresh [of w cleared P] by (simp add: pio_uart_driver_init_def)
next
  case deinit
  then show ?thesis using p_deinit_driver(1) [of P w] by (simp add: p_fresh_def)
next
  case restart
  let ?v = "drv (p_rx_ring_update (\<lambda>r. snd (ring_buffer_recover_overflow r))) (pio_uart_driver_deinit P w)"
  show ?thesis
    using restart assms(3) p_start_fresh [of ?v cleared P] p_deinit_driver(1) [of P w]
    by (simp add: pio_uart_driver_restart_def Let_def)
next
  case (poll launch)
  then show ?thesis using p_fresh_calm [OF assms(3) p_poll_calm [OF assms(1)] p_poll_same] by simp
next
  case (set_coding lc)
  then show ?thesis using p_set_coding_fresh [OF assms(1,3)] by simp
next
  case baseline
  show ?thesis unfolding baseline
    by (rule p_fresh_same [OF assms(3)]) (use assms(1) in \<open>simp_all add: quiet_pio_routines\<close>)
next
  case enable_irq
  show ?thesis unfolding enable_irq
    by (rule p_fresh_same [OF assms(3)]) (use assms(1) in \<open>simp_all add: quiet_pio_routines2\<close>)
next
  case irq
  show ?thesis unfolding irq
    by (rule p_fresh_same [OF assms(3)]) (use assms(1) in \<open>simp_all add: quiet_pio_routines2\<close>)
qed (use assms(3) in \<open>simp_all add: p_fresh_def p_access p_stall_mask_def\<close>)


end
