(* ===== verification/Pio_Demo.thy ===== *)
theory Pio_Demo
  imports Pio_Idle
begin

text \<open>
  A small PIO block to run a port on: it keeps the claim registers and the history of cleared stall flags,
  its transmitters are always found empty and stalled, and its receivers wait for a start bit.
\<close>

record pio_block =
  block_held :: "(u32 + pio_t \<times> u32) list"
  block_cleared :: "(pio_t \<times> u32) list"

definition block_sdk :: "sdk_call \<Rightarrow> pio_block \<Rightarrow> u32 \<times> pio_block" where
  "block_sdk c h = (case c of
     Dma_claim_unused b \<Rightarrow> (case filter (\<lambda>ch. Inl ch \<notin> set (block_held h)) [0, 1, 2, 3] of
                               [] \<Rightarrow> (-1, h) | ch # _ \<Rightarrow> (ch, h\<lparr>block_held := Inl ch # block_held h\<rparr>))
   | Dma_unclaim ch \<Rightarrow> (0, h\<lparr>block_held := removeAll (Inl ch) (block_held h)\<rparr>)
   | Pio_sm_is_claimed p s \<Rightarrow> (if Inr (p, s) \<in> set (block_held h) then 1 else 0, h)
   | Pio_sm_claim p s \<Rightarrow> (0, h\<lparr>block_held := Inr (p, s) # block_held h\<rparr>)
   | Pio_sm_unclaim p s \<Rightarrow> (0, h\<lparr>block_held := removeAll (Inr (p, s)) (block_held h)\<rparr>)
   | Pio_set_fdebug p m \<Rightarrow> (0, h\<lparr>block_cleared := (p, m) # block_cleared h\<rparr>)
   | Pio_sm_put p s b \<Rightarrow> (0, h\<lparr>block_cleared := []\<rparr>)
   | Dma_set_read_addr ch a \<Rightarrow> (0, h\<lparr>block_cleared := []\<rparr>)
   | Pio_fdebug p \<Rightarrow> (-1, h)
   | Clock_sys_hz \<Rightarrow> (125000000, h)
   | Passes_before_deadline_us t \<Rightarrow> (5, h)
   | Pio_can_add_program p prog \<Rightarrow> (1, h)
   | Pio_sm_is_tx_fifo_empty p s \<Rightarrow> (1, h)
   | Pio_sm_is_rx_fifo_empty p s \<Rightarrow> (1, h)
   | Gpio_get g \<Rightarrow> (1, h)
   | _ \<Rightarrow> (0, h))"

definition block_platform :: "pio_block platform" where
  "block_platform = \<lparr>sdk = block_sdk, chip = RP2040, dma_encode_transfer_count = id\<rparr>"

lemma block_tracks: "tracks_pio block_platform (\<lambda>h. set (block_held h))"
proof -
  let ?free = "\<lambda>h. filter (\<lambda>ch. Inl ch \<notin> set (block_held h)) [0, 1, 2, 3 :: u32]"
  have range: "0 \<le> sint ch" if "ch \<in> set [0, 1, 2, 3 :: u32]" for ch
    using that by auto
  have "let (v, h') = block_sdk (Dma_claim_unused b) h
      in if sint v < 0 then set (block_held h') = set (block_held h)
         else Inl v \<notin> set (block_held h) \<and> set (block_held h') = insert (Inl v) (set (block_held h))" for h b
  proof (cases "?free h")
    case (Cons ch rest)
    then have "ch \<in> set (?free h)" by simp
    then have m: "ch \<in> set [0, 1, 2, 3]" "Inl ch \<notin> set (block_held h)"
      unfolding set_filter by blast+
    have "0 \<le> sint ch" by (rule range [OF m(1)])
    with Cons m(2) show ?thesis by (simp only: block_sdk_def sdk_call.case list.case) simp
  qed (simp add: block_sdk_def)
  then show ?thesis
    unfolding tracks_pio_def block_platform_def platform.simps
    by (auto simp: block_sdk_def claim_call_def split: sdk_call.splits)
qed

lemma block_stalls: "tracks_stall block_platform (\<lambda>h. set (block_cleared h))"
  unfolding tracks_stall_def block_platform_def platform.simps
  by (auto simp: block_sdk_def launch_call_def probe_call_def split: sdk_call.splits list.splits)

definition block_ring :: ring_buffer_t where
  "block_ring = \<lparr>storage = None, ring_size = 0, ring_mask = 0, producer = 0, consumer = 0,
     high_watermark = 0, overflow_count = 0, producer_reserved_sequence = 0, producer_reserved_count = 0,
     consumer_reserved_sequence = 0, consumer_reserved_count = 0\<rparr>"

definition block_programs :: "u32 \<Rightarrow> pio_uart_program_state_t" where
  "block_programs = (\<lambda>b. \<lparr>tx_loaded = False, tx_cts_loaded = False, rx_loaded = False, tx_offset = 0, tx_cts_offset = 0,
     rx_offset = 0\<rparr>)"

definition block_device :: "pio_block pio_device" where
  "block_device = \<lparr>driver = \<lparr>p_config = None, p_baud_rate = 0, p_initialized = False, p_tx_sm_claimed = False,
      p_rx_sm_claimed = False, p_rx_dma_channel = 0, p_tx_dma_channel = 0, p_tx_dma_active = False, p_txstall_waiting = False,
      p_rx_rts_asserted = False, p_tx_cts_enabled = False, p_tx_dma_bytes_in_flight = 0, p_tx_polled_bytes = 0,
      p_tx_dma_bytes = 0, p_uart_rx_bytes = 0, p_rx_error_count = 0, p_rx_dma_last_progress = 0, p_rx_ring = block_ring,
      p_tx_ring = block_ring, p_rx_storage = Some [], p_rx_storage_address = 0, p_tx_storage = []\<rparr>,
    hw = \<lparr>block_held = [], block_cleared = []\<rparr>,
    meter = (\<lambda>c. \<lparr>window_start = 0, pass_start = 0, busy_us = 0, started = False, measuring = False,
                         worked = False, published = 0\<rparr>),
    pio_uart_program_state = block_programs, pio_uart_driver_rx_irq_owners = (\<lambda>c. None),
    pio_uart_driver_rx_dma_irq_installed = False\<rparr>"

text \<open>Loaded with the board's first PIO port, and started.\<close>

definition block_loaded :: "pio_block pio_device" where
  "block_loaded = snd (pio_uart_driver_load_port_config pio_uart_driver_configs block_device (Some (uart_board_ports 2)))"

definition block_running :: "pio_block pio_device" where
  "block_running = snd (pio_uart_driver_init block_platform block_loaded)"

lemma block_answers:
  "fst (call block_platform Clock_sys_hz w) = 125000000" "fst (ask block_platform (Pio_can_add_program p prog) w)"
  "\<not> fst (ask block_platform (Pio_sm_init p s off c) w)" "fst (call block_platform (Passes_before_deadline_us t) w) = 5"
  "fst (dma_remaining block_platform ch w) = 0" "fst (ask block_platform (Pio_sm_is_tx_fifo_empty p s) w)"
  "fst (ask block_platform (Pio_sm_is_rx_fifo_empty p s) w)" "fst (ask block_platform (Gpio_get g) w)"
  "fst (call block_platform (Pio_fdebug p) w) = -1" "fst (call block_platform (Pio_sm_get_pc p s) w) = 0"
  "fst (ask block_platform (Pio_interrupt_get p s) w) = False"
  by (simp_all add: device_defs block_platform_def block_sdk_def dma_remaining_def
      uart_dma_rx_transfer_count_remaining_def uart_dma_rx_mask_remaining_def)

lemma block_quiet: "quiet block_platform block_held"
  unfolding quiet_def block_platform_def platform.simps
  by (auto simp: block_sdk_def launch_call_def probe_call_def claim_call_def split: sdk_call.splits list.splits)

lemma block_claims:
  assumes "block_held (hw w) = []"
  shows "fst (pio_uart_driver_claim_resources block_platform p t r (Some a) (Some b) (Some c) (Some d) w)"
  using assms by (simp add: pio_uart_driver_claim_resources_def Let_def device_defs block_platform_def block_sdk_def)

lemma block_settles:
  fixes w :: "('b, pio_block, 'c) device_scheme"
  shows "fst (dma_wait_paused block_platform ch w)"
proof -
  have "fst (settle_loop block_platform ch (Suc (Suc (Suc (Suc (Suc 0))))) 0 0 v)" for v :: "('b, pio_block, 'c) device_scheme"
    by (simp add: Let_def case_prod_beta block_answers
        uart_dma_rx_paused_progress_sample_def uart_dma_rx_pause_progress_publishable_def)
  moreover have "unat (5 :: u32) = Suc (Suc (Suc (Suc (Suc 0))))" by simp
  ultimately show ?thesis by (simp only: dma_wait_paused_def Let_def case_prod_beta block_answers)
qed

lemma block_starts: "fst (pio_uart_driver_start block_platform block_loaded)"
proof -
  let ?P = block_platform and ?w = block_loaded
  obtain w1 w2 w3 w4 w5 claimed tx_cl rx_cl rx tx where s:
    "driver w1 = driver ?w"
    "w2 = drv (\<lambda>_. snd (pio_start_rings (pio_start_reset (driver ?w)))) w1" "driver w3 = driver w2"
    and c: "pio_uart_driver_claim_resources ?P (p_pio w3) (p_tx_sm w3) (p_rx_sm w3) (Some (p_tx_sm_claimed (driver w3)))
       (Some (p_rx_sm_claimed (driver w3))) (Some (p_rx_dma_channel (driver w3))) (Some (p_tx_dma_channel (driver w3))) w3
       = (claimed, tx_cl, rx_cl, rx, tx, w4)"
    and w13: "w1 = snd (pio_uart_driver_baud_rate_supported ?P (p_baud_rate (driver ?w)) ?w)"
      "w3 = snd (pio_uart_driver_ensure_programs ?P w2)"
    and out: "pio_uart_driver_start ?P ?w =
       (if \<not> pio_start_allowed (driver ?w) then (False, ?w)
        else if \<not> fst (pio_uart_driver_baud_rate_supported ?P (p_baud_rate (driver ?w)) ?w) then (False, w1)
        else if \<not> fst (pio_start_rings (pio_start_reset (driver ?w))) then (False, w2)
        else if \<not> fst (pio_uart_driver_ensure_programs ?P w2) then (False, w3)
        else if \<not> claimed then (False, w5)
        else let (ok, v) = pio_uart_driver_init_tx_sm ?P (pio_quiet_state_machines ?P w5);
                 (ok, v) = (if ok then pio_uart_driver_init_rx_sm ?P v else (False, v))
             in if \<not> ok then (False, pio_uart_driver_cleanup_partial ?P v)
                else (True, drv (p_initialized_update (\<lambda>_. True)) (pio_uart_driver_start_rx_dma ?P
                       (pio_uart_driver_configure_rts ?P (pio_uart_driver_configure_tx_dma ?P v)))))"
    by (rule p_start_steps [where P = ?P and w = ?w]) blast
  have allowed: "pio_start_allowed (driver ?w)" "p_baud_rate (driver ?w) = 115200"
    "fst (pio_start_rings (pio_start_reset (driver ?w)))" "block_held (hw ?w) = []"
    by code_simp+
  have rate: "uart_line_coding_pio_baud_feasible 115200 125000000" "uart_line_coding_pio_rx_baud_feasible 115200 125000000"
    by code_simp+
  have "block_held (hw w3) = []"
    using allowed(4) by (simp add: w13 s(2) quiet_pio_routines [OF block_quiet] quiet_pio_routines2 [OF block_quiet])
  from block_claims [OF this] have "claimed" using c by (metis fst_conv)
  then show ?thesis
    using allowed rate
    by (simp add: out pio_uart_driver_baud_rate_supported_def Let_def case_prod_beta block_answers
        pio_uart_driver_ensure_programs_def pio_load_program_def pio_uart_driver_init_tx_sm_def pio_uart_driver_init_rx_sm_def)
qed

section \<open>Changes of rate on the block\<close>

definition coding_115200 :: uart_driver_line_coding_t where
  "coding_115200 = \<lparr>baud_rate = 115200, data_bits = 8, stop_bits = 1, parity = UART_DRIVER_PARITY_NONE\<rparr>"

lemma programs_call [simp]:
  fixes w :: "'h pio_device"
  shows "pio_uart_program_state (snd (call P c w)) = pio_uart_program_state w"
    "pio_uart_program_state (run P c w) = pio_uart_program_state w"
    "pio_uart_program_state (snd (ask P c w)) = pio_uart_program_state w"
    "pio_uart_program_state (drv f w) = pio_uart_program_state w"
    "pio_uart_program_state (note_work w) = pio_uart_program_state w"
    "pio_uart_program_state (snd (dma_remaining P ch w)) = pio_uart_program_state w"
    "pio_uart_program_state (snd (dma_progress P ch w)) = pio_uart_program_state w"
  by (simp_all add: device_defs dma_remaining_def dma_progress_def)

lemma programs_settle:
  fixes w :: "'h pio_device"
  shows "pio_uart_program_state (snd (settle_loop P ch n l s w)) = pio_uart_program_state w"
  by (induction n arbitrary: l s w) (simp_all add: case_prod_beta Let_def)

lemma programs_keep [simp]:
  fixes w :: "'h pio_device"
  shows "pio_uart_program_state (pio_uart_driver_publish_rx P w) = pio_uart_program_state w"
    "pio_uart_program_state (pio_uart_driver_poll_tx_dma P w) = pio_uart_program_state w"
    "pio_uart_program_state (snd (pio_uart_driver_pause_rx_dma_for_reconfig P w)) = pio_uart_program_state w"
    "pio_uart_program_state (pio_uart_driver_finish_rx_dma_stop_locked P w) = pio_uart_program_state w"
  by (simp_all add: pio_uart_driver_publish_rx_def pio_uart_driver_rx_progress_def pio_uart_driver_poll_tx_dma_def
      pio_uart_driver_pause_rx_dma_for_reconfig_def pio_uart_driver_finish_rx_dma_stop_locked_def dma_wait_paused_def
      programs_settle case_prod_beta Let_def)

text \<open>A port of the block with its program at offset zero and nothing in flight.\<close>

definition block_port :: "pio_block pio_device \<Rightarrow> bool" where
  "block_port w \<longleftrightarrow> p_initialized (driver w) \<and> p_config (driver w) = Some (pio_uart_driver_configs 2) \<and>
     \<not> p_tx_dma_active (driver w) \<and> rx_offset (pio_uart_program_state w 0) = 0"

lemma block_quiescent:
  assumes "p_config (driver w) = Some (pio_uart_driver_configs 2)" "rx_offset (pio_uart_program_state w 0) = 0"
  shows "fst (pio_uart_driver_rx_quiescent block_platform w)"
proof -
  have pio: "p_pio v = PIO0" if "p_config (driver v) = Some (pio_uart_driver_configs 2)" for v :: "pio_block pio_device"
    using that by (simp add: p_access pio_uart_driver_configs_def pio_board_config_def)
  show ?thesis
    using assms
    by (simp add: pio_uart_driver_rx_quiescent_def Let_def case_prod_beta block_answers pio_uart_driver_rx_offset_def
        p_programs_def pio pio_uart_driver_block_index_def)
qed

lemma block_stop:
  assumes "p_config (driver w) = Some (pio_uart_driver_configs 2)" "rx_offset (pio_uart_program_state w 0) = 0"
  shows "fst (pio_stop_for_reconfig block_platform w)"
  using assms
  by (simp add: pio_stop_for_reconfig_def pio_still_idle_def Let_def case_prod_beta block_answers block_quiescent
      p_drivers)

lemma block_idle:
  assumes "block_port w"
  shows "fst (pio_change_idle block_platform w) = p_txstall_waiting (driver w)"
    "pio_uart_program_state (snd (pio_change_idle block_platform w)) = pio_uart_program_state w"
    "p_txstall_waiting (driver (snd (pio_change_idle block_platform w))) = (\<not> p_txstall_waiting (driver w))"
proof -
  have shifter: "fst (pio_uart_driver_tx_shifter_idle block_platform v) = p_txstall_waiting (driver v)"
    "pio_uart_program_state (snd (pio_uart_driver_tx_shifter_idle block_platform v)) = pio_uart_program_state v"
    "p_txstall_waiting (driver (snd (pio_uart_driver_tx_shifter_idle block_platform v))) = (\<not> p_txstall_waiting (driver v))"
    "p_config (driver (snd (pio_uart_driver_tx_shifter_idle block_platform v))) = p_config (driver v)"
    if "p_config (driver v) = Some (pio_uart_driver_configs 2)" for v
    using that by (simp_all add: pio_uart_driver_tx_shifter_idle_def Let_def case_prod_beta block_answers
        pio_uart_txstall_sample_def p_access pio_uart_driver_configs_def pio_board_config_def)
  have quiescent: "pio_uart_program_state (snd (pio_uart_driver_rx_quiescent P v)) = pio_uart_program_state v"
    for P and v :: "'h pio_device"
    by (simp add: pio_uart_driver_rx_quiescent_def Let_def case_prod_beta)
  show "fst (pio_change_idle block_platform w) = p_txstall_waiting (driver w)"
    "pio_uart_program_state (snd (pio_change_idle block_platform w)) = pio_uart_program_state w"
    "p_txstall_waiting (driver (snd (pio_change_idle block_platform w))) = (\<not> p_txstall_waiting (driver w))"
    using assms shifter
    by (simp_all add: block_port_def pio_change_idle_def Let_def case_prod_beta block_answers block_quiescent quiescent)
qed

lemma block_prepare:
  assumes "block_port w"
  shows "fst (pio_uart_driver_prepare_baud_change block_platform w) = p_txstall_waiting (driver w)"
    "\<not> p_txstall_waiting (driver w) \<Longrightarrow>
       p_txstall_waiting (driver (snd (pio_uart_driver_prepare_baud_change block_platform w)))"
proof -
  define v where "v = pio_uart_driver_poll_tx_dma block_platform (pio_uart_driver_publish_rx block_platform w)"
  have v: "block_port v" "p_txstall_waiting (driver v) = p_txstall_waiting (driver w)"
    using assms by (simp_all add: v_def block_port_def pio_uart_driver_poll_tx_dma_def p_drivers)
  define u where "u = snd (pio_change_idle block_platform v)"
  note i = block_idle [OF v(1), folded u_def]
  have u: "p_config (driver u) = Some (pio_uart_driver_configs 2)" "rx_offset (pio_uart_program_state u 0) = 0"
    using i(2) v(1) p_change_idle_driver [of block_platform v] by (auto simp: u_def block_port_def)
  have pause: "fst (pio_uart_driver_pause_rx_dma_for_reconfig block_platform u)"
    by (simp add: pio_uart_driver_pause_rx_dma_for_reconfig_def Let_def case_prod_beta block_settles)
  show "fst (pio_uart_driver_prepare_baud_change block_platform w) = p_txstall_waiting (driver w)"
    using i u v(2) pause
    by (simp add: pio_uart_driver_prepare_baud_change_def Let_def case_prod_beta v_def [symmetric] u_def [symmetric] block_stop)
  assume "\<not> p_txstall_waiting (driver w)"
  then show "p_txstall_waiting (driver (snd (pio_uart_driver_prepare_baud_change block_platform w)))"
    using i v(2) by (simp add: pio_uart_driver_prepare_baud_change_def Let_def case_prod_beta v_def [symmetric] u_def [symmetric])
qed

text \<open>So the first request clears the flag and is refused, the second is served.\<close>

lemma block_change:
  assumes "block_port w"
  shows "fst (pio_uart_driver_set_line_coding block_platform w (Some coding_115200)) = p_txstall_waiting (driver w)"
    "\<not> p_txstall_waiting (driver w) \<Longrightarrow>
       p_txstall_waiting (driver (snd (pio_uart_driver_set_line_coding block_platform w (Some coding_115200))))"
proof -
  have coding: "uart_line_coding_is_valid (Some coding_115200)" "uart_line_coding_pio_supported (Some coding_115200) 125000000"
    "uart_line_coding_pio_baud_feasible 115200 125000000" "uart_line_coding_pio_rx_baud_feasible 115200 125000000"
    by code_simp+
  let ?v = "snd (pio_uart_driver_baud_rate_supported block_platform 115200 (snd (call block_platform Clock_sys_hz w)))"
  have v: "block_port ?v" "p_txstall_waiting (driver ?v) = p_txstall_waiting (driver w)" "p_initialized (driver w)"
    using assms by (simp_all add: block_port_def pio_uart_driver_baud_rate_supported_def Let_def case_prod_beta)
  have sup: "fst (pio_uart_driver_baud_rate_supported block_platform 115200 u)" for u :: "pio_block pio_device"
    using coding by (simp add: pio_uart_driver_baud_rate_supported_def Let_def case_prod_beta block_answers)
  have out: "pio_uart_driver_set_line_coding block_platform w (Some coding_115200) =
    (if \<not> fst (pio_uart_driver_prepare_baud_change block_platform ?v)
     then (False, snd (pio_uart_driver_prepare_baud_change block_platform ?v))
     else (True, pio_uart_driver_poll block_platform (drv (\<lambda>d. d\<lparr>p_tx_dma_bytes_in_flight := 0, p_tx_dma_active := False\<rparr>)
       (pio_uart_driver_apply_baud block_platform 115200 (snd (pio_uart_driver_prepare_baud_change block_platform ?v)))) True))"
    using v(3) coding sup
    by (simp add: pio_uart_driver_set_line_coding_def pio_uart_driver_apply_baud_rate_def Let_def case_prod_beta block_answers
        coding_115200_def)
  show "fst (pio_uart_driver_set_line_coding block_platform w (Some coding_115200)) = p_txstall_waiting (driver w)"
    "\<not> p_txstall_waiting (driver w) \<Longrightarrow>
       p_txstall_waiting (driver (snd (pio_uart_driver_set_line_coding block_platform w (Some coding_115200))))"
    using block_prepare [OF v(1)] v(2) by (simp_all add: out)
qed

section \<open>The properties on the block\<close>

lemma block_running_state:
  "p_initialized (driver block_running)" "p_config (driver block_running) = Some (pio_uart_driver_configs 2)"
  "\<not> p_tx_dma_active (driver block_running)" "\<not> p_txstall_waiting (driver block_running)"
  "\<not> p_initialized (driver block_loaded)"
proof -
  have d: "\<not> p_initialized (driver block_loaded)" "p_config (driver block_loaded) = Some (pio_uart_driver_configs 2)"
    by (simp_all add: block_loaded_def pio_uart_driver_load_port_config_def block_device_def pio_uart_driver_configs_def
        pio_board_config_def uart_board_ports_def board_port_def)
  then show "\<not> p_initialized (driver block_loaded)" by simp
  from d have r: "block_running = snd (pio_uart_driver_start block_platform block_loaded)"
    by (simp add: block_running_def pio_uart_driver_init_def)
  have rings: "p_tx_dma_active (snd (pio_start_rings x)) = p_tx_dma_active x" for x
    by (simp add: pio_start_rings_def Let_def case_prod_beta)
  have active: "\<not> p_tx_dma_active (driver (snd (pio_uart_driver_start block_platform block_loaded)))"
    using block_starts
    by (auto simp: pio_uart_driver_start_def Let_def case_prod_beta p_drivers rings pio_start_reset_def split: if_splits)
  show "p_initialized (driver block_running)" "p_config (driver block_running) = Some (pio_uart_driver_configs 2)"
    "\<not> p_tx_dma_active (driver block_running)" "\<not> p_txstall_waiting (driver block_running)"
    using p_start_driver [of block_platform block_loaded] p_start_waits block_starts d active by (simp_all add: r)
qed

lemma block_run: "pio_run block_platform pio_uart_driver_configs block_device block_running"
  unfolding block_running_def block_loaded_def
  by (intro pio_run.more [OF _ pio_step.init] pio_run.more [OF _ pio_step.load] pio_run.none)

theorem pio_no_resource_leak_witness:
  "set (block_held (hw (pio_uart_driver_deinit block_platform block_running))) = {}"
proof -
  have "pio_run block_platform pio_uart_driver_configs block_device (pio_uart_driver_deinit block_platform block_running)"
    by (rule pio_run.more [OF block_run pio_step.deinit])
  from pio_no_resource_leak [OF block_tracks this] show ?thesis
    by (simp add: pio_uart_driver_is_initialized_def p_deinit_driver block_device_def)
qed

text \<open>The port after a request that was refused, and with another port's programs loaded since.\<close>

definition block_waiting :: "pio_block pio_device" where
  "block_waiting = (snd (pio_uart_driver_set_line_coding block_platform
       (block_running\<lparr>pio_uart_program_state := block_programs, pio_uart_driver_rx_irq_owners := (\<lambda>c. None)\<rparr>) (Some coding_115200)))
     \<lparr>pio_uart_program_state := block_programs, pio_uart_driver_rx_irq_owners := (\<lambda>c. None)\<rparr>"

lemma block_waiting_port: "block_port block_waiting" "p_txstall_waiting (driver block_waiting)"
proof -
  let ?w = "block_running\<lparr>pio_uart_program_state := block_programs, pio_uart_driver_rx_irq_owners := (\<lambda>c. None)\<rparr>"
  have w: "block_port ?w" "\<not> p_txstall_waiting (driver ?w)"
    using block_running_state by (simp_all add: block_port_def block_programs_def)
  let ?v = "snd (pio_uart_driver_set_line_coding block_platform ?w (Some coding_115200))"
  have same: "p_same (driver ?w) (driver ?v)" by (rule p_set_coding_active) (use block_running_state in simp)
  show waits: "p_txstall_waiting (driver block_waiting)" using block_change(2) [OF w] by (simp add: block_waiting_def)
  have "\<not> p_tx_dma_active (driver ?v)"
  proof -
    have "\<not> p_tx_dma_active (driver (snd (pio_uart_driver_prepare_baud_change block_platform x)))"
      if "\<not> p_tx_dma_active (driver x)" for x
      using that p_change_idle_driver [of block_platform "pio_uart_driver_poll_tx_dma block_platform (pio_uart_driver_publish_rx block_platform x)"]
      by (auto simp: pio_uart_driver_prepare_baud_change_def Let_def case_prod_beta pio_stop_for_reconfig_def p_drivers
          pio_uart_driver_poll_tx_dma_def split: if_splits)
    then show ?thesis
      using block_change(1) [OF w(1)] w(2) block_running_state
      by (auto simp: pio_uart_driver_set_line_coding_def pio_uart_driver_apply_baud_rate_def Let_def case_prod_beta split: if_splits)
  qed
  then show "block_port block_waiting"
    using same block_running_state by (simp add: block_port_def block_waiting_def p_same_def block_programs_def)
qed


text \<open>A port with four bytes queued, the first two on their way, and one with nothing to send.\<close>

definition block_queue :: "u32 \<Rightarrow> ring_buffer_t" where
  "block_queue queued = \<lparr>storage = Some (replicate 4 65), ring_size = 4, ring_mask = 3, producer = 2 + queued, consumer = 2,
     high_watermark = 0, overflow_count = 0, producer_reserved_sequence = 0, producer_reserved_count = 0,
     consumer_reserved_sequence = 2, consumer_reserved_count = 2\<rparr>"

definition block_sending :: "u32 \<Rightarrow> pio_block pio_device" where
  "block_sending queued = drv (\<lambda>d. d\<lparr>p_config := Some (pio_uart_driver_configs 2), p_initialized := True, p_baud_rate := 9600,
     p_txstall_waiting := True, p_rx_dma_channel := 0, p_tx_dma_channel := 1, p_tx_dma_active := queued \<noteq> 0,
     p_tx_dma_bytes_in_flight := 2, p_tx_ring := block_queue queued\<rparr>) block_device"

lemma block_sending_state:
  "p_tx_ok (driver (block_sending 4))" "p_initialized (driver (block_sending 4))"
  "p_tx_ok (driver (block_sending 0))" "block_port (block_sending 0)" "p_txstall_waiting (driver (block_sending 0))"
proof -
  have "pow2_size 4" by (simp add: pow2_size_def) (rule exI [of _ 2], simp)
  then show "p_tx_ok (driver (block_sending 4))" "p_tx_ok (driver (block_sending 0))"
    by (simp_all add: block_sending_def block_queue_def p_tx_ok_def tx_room_def tx_owned_def ring_wf_def rb_distance_def
        rb_capacity_def block_device_def)
qed (simp_all add: block_sending_def block_device_def block_port_def block_programs_def)

theorem pio_bytes_accounted_witness:
  "stats_uart_tx_bytes (pio_uart_driver_stats (pio_uart_driver_poll block_platform (block_sending 4) True)) =
     consumer (p_tx_ring (driver (pio_uart_driver_poll block_platform (block_sending 4) True))) - 2"
proof -
  have "stats_uart_tx_bytes (pio_uart_driver_stats (block_sending 4)) = 0" "consumer (p_tx_ring (driver (block_sending 4))) = 2"
    by (simp_all add: p_counters p_sent_def block_sending_def block_device_def block_queue_def)
  then show ?thesis
    using pio_bytes_accounted [OF _ block_sending_state(1) disjI1 [OF HOL.refl], of block_platform True] block_sending_state(2)
    by (simp add: pio_uart_driver_is_initialized_def)
qed


end
