(* ===== verification/Board.thy ===== *)
theory Board
  imports Hw_Properties Pio_Demo
begin

text \<open>
  The whole board: the backend table of \<open>uart/backend/backend.h\<close> over both backends, the storage that
  \<open>uart_driver_load_board_config\<close> gives the ports, and the start-up of the six ports.
\<close>

section \<open>Both backends behind one port\<close>

text \<open>
  A port's backend is a union of the two instances; the port uses the member its board entry selects, and so does
  the table it is given. Operation tables are total here, so \<open>uart_backend_ops_is_complete\<close> holds of every one.
\<close>

type_synonym 'h port_backend = "'h hw_device \<times> 'h pio_device"

definition on_fst :: "'a uart_backend_ops_t \<Rightarrow> ('a \<times> 'c) uart_backend_ops_t" where
  "on_fst o' = \<lparr>op_load_config = (\<lambda>b i. let (ok, x) = op_load_config o' (fst b) i in (ok, (x, snd b))),
     op_is_initialized = op_is_initialized o' \<circ> fst,
     op_init = (\<lambda>b. let (ok, x) = op_init o' (fst b) in (ok, (x, snd b))),
     op_deinit = apfst (op_deinit o'),
     op_poll = (\<lambda>b launch. apfst (\<lambda>x. op_poll o' x launch) b),
     op_rx_ring = op_rx_ring o' \<circ> fst, op_tx_ring = op_tx_ring o' \<circ> fst,
     op_put_rx_ring = apfst \<circ> op_put_rx_ring o', op_put_tx_ring = apfst \<circ> op_put_tx_ring o',
     op_line_coding_matches = op_line_coding_matches o' \<circ> fst,
     op_line_coding_acceptable = op_line_coding_acceptable o',
     op_set_line_coding = (\<lambda>b lc. let (ok, x) = op_set_line_coding o' (fst b) lc in (ok, (x, snd b))),
     op_restart = (\<lambda>b. let (ok, x) = op_restart o' (fst b) in (ok, (x, snd b))),
     op_rx_snapshot_is_current = op_rx_snapshot_is_current o' \<circ> fst,
     op_clear_rx_error_baseline = apfst (op_clear_rx_error_baseline o'),
     op_baud_rate = op_baud_rate o' \<circ> fst, op_stats = op_stats o' \<circ> fst\<rparr>"

definition on_snd :: "'a uart_backend_ops_t \<Rightarrow> ('c \<times> 'a) uart_backend_ops_t" where
  "on_snd o' = \<lparr>op_load_config = (\<lambda>b i. let (ok, x) = op_load_config o' (snd b) i in (ok, (fst b, x))),
     op_is_initialized = op_is_initialized o' \<circ> snd,
     op_init = (\<lambda>b. let (ok, x) = op_init o' (snd b) in (ok, (fst b, x))),
     op_deinit = apsnd (op_deinit o'),
     op_poll = (\<lambda>b launch. apsnd (\<lambda>x. op_poll o' x launch) b),
     op_rx_ring = op_rx_ring o' \<circ> snd, op_tx_ring = op_tx_ring o' \<circ> snd,
     op_put_rx_ring = apsnd \<circ> op_put_rx_ring o', op_put_tx_ring = apsnd \<circ> op_put_tx_ring o',
     op_line_coding_matches = op_line_coding_matches o' \<circ> snd,
     op_line_coding_acceptable = op_line_coding_acceptable o',
     op_set_line_coding = (\<lambda>b lc. let (ok, x) = op_set_line_coding o' (snd b) lc in (ok, (fst b, x))),
     op_restart = (\<lambda>b. let (ok, x) = op_restart o' (snd b) in (ok, (fst b, x))),
     op_rx_snapshot_is_current = op_rx_snapshot_is_current o' \<circ> snd,
     op_clear_rx_error_baseline = apsnd (op_clear_rx_error_baseline o'),
     op_baud_rate = op_baud_rate o' \<circ> snd, op_stats = op_stats o' \<circ> snd\<rparr>"

lemma contract_on_fst:
  assumes "backend_contract o'"
  shows "backend_contract (on_fst o')"
  using assms unfolding backend_contract_def on_fst_def
  by (auto simp: case_prod_beta Let_def prod_eq_iff apfst_def map_prod_def)

lemma contract_on_snd:
  assumes "backend_contract o'"
  shows "backend_contract (on_snd o')"
  using assms unfolding backend_contract_def on_snd_def
  by (auto simp: case_prod_beta Let_def prod_eq_iff apsnd_def map_prod_def)

interpretation board_hw: backend_contract "on_fst (uart_backend_hw_ops P configs peripheral_hz)" for P configs peripheral_hz
  by (rule contract_on_fst) unfold_locales

interpretation board_pio: backend_contract "on_snd (uart_backend_pio_ops P configs sys_hz)" for P configs sys_hz
  by (rule contract_on_snd) unfold_locales

definition uart_backend_ops_for_type :: "'h platform \<Rightarrow> u32 \<Rightarrow> u32 \<Rightarrow> uart_driver_backend_t \<Rightarrow>
    'h port_backend uart_backend_ops_t option" where
  "uart_backend_ops_for_type P peripheral_hz sys_hz b =
     Some (case b of UART_DRIVER_BACKEND_HW \<Rightarrow> on_fst (uart_backend_hw_ops P hw_uart_driver_configs peripheral_hz)
           | UART_DRIVER_BACKEND_PIO \<Rightarrow> on_snd (uart_backend_pio_ops P pio_uart_driver_configs sys_hz))"

text \<open>\<open>address index\<close> is the address of the port's element of \<open>uart_driver_rx_storage\<close>, zeroed by the C start-up.\<close>

definition attach_rx_storage :: "(u32 \<Rightarrow> u32) \<Rightarrow> uart_driver_backend_t \<Rightarrow> uart_port_id_t \<Rightarrow> 'h port_backend \<Rightarrow> 'h port_backend" where
  "attach_rx_storage address b index =
     (case b of
        UART_DRIVER_BACKEND_HW \<Rightarrow> apfst (drv (\<lambda>d. d\<lparr>hw_rx_storage := Some (replicate 4096 0), hw_rx_storage_address := address index\<rparr>))
      | UART_DRIVER_BACKEND_PIO \<Rightarrow> apsnd (drv (\<lambda>d. d\<lparr>p_rx_storage := Some (replicate 4096 0), p_rx_storage_address := address index\<rparr>)))"

section \<open>Loading the board's configuration\<close>

definition loaded_port where
  "loaded_port board ops_for_type attach_storage index q =
     (let i = board index; q = q\<lparr>info := i, ops := ops_for_type (info_backend i)\<rparr>
      in case ops q of None \<Rightarrow> q
         | Some o' \<Rightarrow> let (loaded, b) = op_load_config o' (backend q) (Some i); q = q\<lparr>backend := b\<rparr>
                    in if \<not> loaded then q\<lparr>ops := None\<rparr> else q\<lparr>backend := attach_storage (info_backend i) index b\<rparr>)"

lemma load_port_eq:
  "ports (load_port_config board ops_for_type attach index st) =
     (ports st)(index := loaded_port board ops_for_type attach index (ports st index))"
  by (auto simp: load_port_config_def loaded_port_def put_port_def put_backend_def Let_def case_prod_beta split: option.split)

lemma fold_load_ports:
  "distinct xs \<Longrightarrow> ports (fold (load_port_config board ops_for_type attach) xs st) =
     (\<lambda>p. if p \<in> set xs then loaded_port board ops_for_type attach p (ports st p) else ports st p)"
  by (induction xs arbitrary: st) (auto simp: load_port_eq fun_eq_iff)

lemma six_ports: "p < UART_PORT_COUNT \<Longrightarrow> p \<in> {0, 1, 2, 3, 4, 5}"
  using port_cases [of p] by (auto simp: all_ports_def)

text \<open>\<open>board_ready p q\<close>: port \<open>p\<close> is bound to its own board entry and passes every check its start makes of the configuration.\<close>

definition board_ready :: "uart_port_id_t \<Rightarrow> 'h port_backend uart_runtime_port_t \<Rightarrow> bool" where
  "board_ready p q \<longleftrightarrow> info q = uart_board_ports p \<and>
     (case info_backend (info q) of
        UART_DRIVER_BACKEND_HW \<Rightarrow> hw_config (driver (fst (backend q))) = Some (hw_uart_driver_configs p) \<and>
          hw_start_allowed (driver (fst (backend q)))
      | UART_DRIVER_BACKEND_PIO \<Rightarrow> p_config (driver (snd (backend q))) = Some (pio_uart_driver_configs p) \<and>
          pio_start_allowed (driver (snd (backend q))))"

lemma loaded_hw:
  fixes P :: "'h platform" and q :: "'h port_backend uart_runtime_port_t" and peripheral_hz sys_hz :: u32
  assumes "p \<in> {0, 1}" "\<not> hw_initialized (driver (fst (backend q)))" "address p mod 4096 = 0"
  defines "q' \<equiv> loaded_port uart_board_ports (uart_backend_ops_for_type P peripheral_hz sys_hz) (attach_rx_storage address) p q"
  shows "board_ready p q'" "ops q' = uart_backend_ops_for_type P peripheral_hz sys_hz UART_DRIVER_BACKEND_HW"
    "op_baud_rate (the (ops q')) (backend q') = 115200" "info_backend (uart_board_ports p) = UART_DRIVER_BACKEND_HW"
proof -
  have i: "info_id (uart_board_ports p) = p" "info_backend (uart_board_ports p) = UART_DRIVER_BACKEND_HW"
    "info_baud_rate (uart_board_ports p) = 115200" "cfg_port (hw_uart_driver_configs p) = Some (uart_board_ports p)"
    "cfg_instance (hw_uart_driver_configs p) \<noteq> None" "\<not> cfg_hardware_flow_control (hw_uart_driver_configs p)"
    "info_tx_pin (uart_board_ports p) \<noteq> UART_DRIVER_PIN_UNASSIGNED" "info_rx_pin (uart_board_ports p) \<noteq> UART_DRIVER_PIN_UNASSIGNED"
    using assms(1) by (auto simp: uart_board_ports_def board_port_def hw_uart_driver_configs_def)
  have p: "\<not> 6 \<le> p" using assms(1) by (auto simp: word_le_nat_alt)
  show "board_ready p q'" "ops q' = uart_backend_ops_for_type P peripheral_hz sys_hz UART_DRIVER_BACKEND_HW"
    "op_baud_rate (the (ops q')) (backend q') = 115200" "info_backend (uart_board_ports p) = UART_DRIVER_BACKEND_HW"
    using assms(2,3) i p unfolding q'_def
    by (simp_all add: loaded_port_def uart_backend_ops_for_type_def on_fst_def uart_backend_hw_ops_def Let_def
        hw_uart_driver_load_port_config_def attach_rx_storage_def board_ready_def hw_start_allowed_def set_format_def
        hw_uart_driver_baud_rate_def option.case_eq_if)
qed

lemma loaded_pio:
  fixes P :: "'h platform" and q :: "'h port_backend uart_runtime_port_t" and peripheral_hz sys_hz :: u32
  assumes "p \<in> {2, 3, 4, 5}" "\<not> p_initialized (driver (snd (backend q)))" "address p mod 4096 = 0"
  defines "q' \<equiv> loaded_port uart_board_ports (uart_backend_ops_for_type P peripheral_hz sys_hz) (attach_rx_storage address) p q"
  shows "board_ready p q'" "ops q' = uart_backend_ops_for_type P peripheral_hz sys_hz UART_DRIVER_BACKEND_PIO"
    "op_baud_rate (the (ops q')) (backend q') = 115200" "info_backend (uart_board_ports p) = UART_DRIVER_BACKEND_PIO"
proof -
  have i: "info_id (uart_board_ports p) = p" "info_backend (uart_board_ports p) = UART_DRIVER_BACKEND_PIO"
    "info_baud_rate (uart_board_ports p) = 115200" "pc_port (pio_uart_driver_configs p) = Some (uart_board_ports p)"
    "pc_pio (pio_uart_driver_configs p) \<noteq> None" "pc_pin_flags (pio_uart_driver_configs p) = 3"
    "info_tx_pin (uart_board_ports p) \<noteq> UART_DRIVER_PIN_UNASSIGNED" "info_rx_pin (uart_board_ports p) \<noteq> UART_DRIVER_PIN_UNASSIGNED"
    "pc_tx_state_machine (pio_uart_driver_configs p) \<noteq> pc_rx_state_machine (pio_uart_driver_configs p)"
    "\<not> 4 \<le> pc_tx_state_machine (pio_uart_driver_configs p)" "\<not> 4 \<le> pc_rx_state_machine (pio_uart_driver_configs p)"
    using assms(1) by (auto simp: word_le_nat_alt uart_board_ports_def board_port_def pio_uart_driver_configs_def pio_board_config_def)
  have p: "\<not> 6 \<le> p" using assms(1) by (auto simp: word_le_nat_alt)
  show "board_ready p q'" "ops q' = uart_backend_ops_for_type P peripheral_hz sys_hz UART_DRIVER_BACKEND_PIO"
    "op_baud_rate (the (ops q')) (backend q') = 115200" "info_backend (uart_board_ports p) = UART_DRIVER_BACKEND_PIO"
    using assms(2,3) i p unfolding q'_def
    by (simp_all add: loaded_port_def uart_backend_ops_for_type_def on_snd_def uart_backend_pio_ops_def Let_def
        pio_uart_driver_load_port_config_def attach_rx_storage_def board_ready_def pio_start_allowed_def
        pio_uart_driver_baud_rate_def option.case_eq_if)
qed

text \<open>Start-up binds all six ports. From inactive instances, with the receive buffers aligned as their declaration
  demands, every port of the board gets the operation table of its own backend, is accepted by that backend's
  configuration table, runs at the board's rate, and passes every configuration check a start makes: storage, alignment,
  pins, flow-control pins and state machines.\<close>

theorem board_binds_every_port:
  fixes st :: "('h port_backend, 'z) uart_driver_state_t_scheme" and P :: "'h platform"
  assumes "\<And>q. \<not> hw_initialized (driver (fst (backend (ports st q)))) \<and> \<not> p_initialized (driver (snd (backend (ports st q))))"
    "\<And>i. address i mod 4096 = 0" "p < UART_PORT_COUNT"
    "st' = uart_driver_load_board_config uart_board_ports (uart_backend_ops_for_type P peripheral_hz sys_hz)
      (attach_rx_storage address) st"
  shows "board_ready p (ports st' p) \<and>
    ops (ports st' p) = uart_backend_ops_for_type P peripheral_hz sys_hz (info_backend (uart_board_ports p)) \<and>
    op_baud_rate (the (ops (ports st' p))) (backend (ports st' p)) = 115200"
proof -
  have "distinct all_ports" "p \<in> set all_ports" using port_cases [OF assms(3)] by (simp_all add: all_ports_def)
  then have st': "ports st' p = loaded_port uart_board_ports (uart_backend_ops_for_type P peripheral_hz sys_hz)
      (attach_rx_storage address) p (ports st p)"
    by (simp add: assms(4) uart_driver_load_board_config_def fold_load_ports)
  consider "p \<in> {0, 1}" | "p \<in> {2, 3, 4, 5}" using six_ports [OF assms(3)] by auto
  then show ?thesis
  proof cases
    case 1
    show ?thesis using loaded_hw [of p "ports st p" address, OF 1] assms(1,2) by (simp add: st')
  next
    case 2
    show ?thesis using loaded_pio [of p "ports st p" address, OF 2] assms(1,2) by (simp add: st')
  qed
qed


section \<open>The worker over both backends\<close>

text \<open>C28: A port that reports \<open>READY\<close> has a running backend, whichever backend it has. Whatever the SDK answers, one full sweep of
  the worker (lifecycle requests, mailboxes, deferred requests, polling, of all six ports in rotation) keeps it so
  for every port bound to a table of the board: each way a backend can stop on takes \<open>READY\<close> back in the same pass.\<close>

theorem board_ready_means_running:
  fixes st :: "('h port_backend, 'z) uart_driver_state_t_scheme"
  assumes "p < UART_PORT_COUNT" "uart_backend_ops_for_type P peripheral_hz sys_hz b = Some o'" "ready_runs o' p st"
  shows "ready_runs o' p (uart_driver_poll_io (uart_driver_worker_service_control clk st))"
  using assms(2,3) board_hw.sweep_keeps [OF assms(1)] board_pio.sweep_keeps [OF assms(1)]
  by (auto simp: uart_backend_ops_for_type_def split: uart_driver_backend_t.splits)

section \<open>The board at power-up\<close>

definition board_hw_device :: "pio_block hw_device" where
  "board_hw_device = \<lparr>driver = driver demo_device, hw = hw block_device, meter = meter block_device,
     hw_uart_driver_rx_irq_owners = (\<lambda>c. None), hw_uart_driver_rx_dma_irq_installed = False\<rparr>"

definition board_state :: "pio_block port_backend uart_driver_state_t" where
  "board_state = \<lparr>views_bound = True,
     ports = (\<lambda>p. \<lparr>info = uart_board_ports 0, ops = None, backend = (board_hw_device, block_device),
       control_history = \<lparr>history_reason = UART_CONTROL_ERROR_NONE, history_uptime_us = 0\<rparr>\<rparr>),
     mailboxes = (\<lambda>p. \<lparr>occupied = False, mailbox_request = zero_request\<rparr>),
     pending_controls = (\<lambda>p. zero_pending), soft_pending_controls = (\<lambda>p. False),
     control_generations = (\<lambda>p. 0), status_flags = (\<lambda>p. 0), stats_sequence = (\<lambda>p. 0),
     poll_start_index = 0, load_meter = meter block_device, clock_reads = 0, worker_started = False,
     worker_heartbeat = 0, status_lock = True,
     lifecycle = (\<lambda>p. \<lparr>stop_pending = True, usb_quiesced = True, start_pending = True\<rparr>),
     last_heartbeat = 0, last_change_ms = 0\<rparr>"

abbreviation "board_table \<equiv> uart_backend_ops_for_type block_platform 125000000 125000000"
abbreviation "board_loaded \<equiv> uart_driver_load_board_config uart_board_ports board_table (attach_rx_storage (\<lambda>i. 4096 * i)) board_state"

lemma board_state_inactive:
  "\<not> hw_initialized (driver (fst (backend (ports board_state q)))) \<and> \<not> p_initialized (driver (snd (backend (ports board_state q))))"
  by (simp add: board_state_def board_hw_device_def demo_device_def block_device_def)

lemma board_aligned: "4096 * i mod 4096 = (0 :: u32)"
proof -
  have "unat (4096 * i) mod 4096 = 0"
    by (simp add: unat_word_ariths mod_mod_cancel)
  then show ?thesis by (simp add: word_unat_eq_iff unat_mod)
qed

theorem board_binds_every_port_witness:
  "board_ready 5 (ports board_loaded 5)"
  using board_binds_every_port [OF board_state_inactive board_aligned _ HOL.refl, of 5 block_platform 125000000 125000000]
  by (simp add: word_less_nat_alt)

theorem board_ready_means_running_witness:
  "ready_runs (on_snd (uart_backend_pio_ops block_platform pio_uart_driver_configs 125000000)) 2
     (uart_driver_poll_io (uart_driver_worker_service_control (\<lambda>k. 0)
       (board_state\<lparr>ports := (\<lambda>p. \<lparr>info = uart_board_ports 2, ops = board_table UART_DRIVER_BACKEND_PIO,
          backend = (board_hw_device, block_running),
          control_history = \<lparr>history_reason = UART_CONTROL_ERROR_NONE, history_uptime_us = 0\<rparr>\<rparr>),
        status_flags := (\<lambda>p. UART_DRIVER_PORT_STATUS_READY)\<rparr>)))"
proof (rule board_ready_means_running [where b = UART_DRIVER_BACKEND_PIO and P = block_platform and peripheral_hz = 125000000
      and sys_hz = 125000000])
  show "ready_runs (on_snd (uart_backend_pio_ops block_platform pio_uart_driver_configs 125000000)) 2
       (board_state\<lparr>ports := (\<lambda>p. \<lparr>info = uart_board_ports 2, ops = board_table UART_DRIVER_BACKEND_PIO,
          backend = (board_hw_device, block_running),
          control_history = \<lparr>history_reason = UART_CONTROL_ERROR_NONE, history_uptime_us = 0\<rparr>\<rparr>),
        status_flags := (\<lambda>p. UART_DRIVER_PORT_STATUS_READY)\<rparr>)"
    using block_running_state(1)
    by (simp add: ready_runs_def board_state_def on_snd_def uart_backend_pio_ops_def pio_uart_driver_is_initialized_def
        uart_backend_ops_for_type_def)
qed (simp_all add: word_less_nat_alt uart_backend_ops_for_type_def)

end
