(* ===== verification/Usb_State.thy ===== *)
theory Usb_State
  imports Uart_Driver Boot_Config
begin

text \<open>
  The state of the USB side on core 0: the statics of \<open>usb/usb_cdc.c\<close> and \<open>usb/usb_hid.c\<close>, added to the port facade's
  state, with the USB stack and the board's sensors as parameters. Core 1 works on while core 0 runs: before each call
  of the port facade it takes a step \<open>core1\<close> of its own, any number of worker operations.
\<close>

abbreviation USB_CDC_PORT_COUNT :: u8 where "USB_CDC_PORT_COUNT \<equiv> 6"
abbreviation USB_CDC_FLUSH_LATENCY_US :: u64 where "USB_CDC_FLUSH_LATENCY_US \<equiv> 1000"
abbreviation USB_CDC_SOFT_PENDING_TIMEOUT_MS :: u32 where "USB_CDC_SOFT_PENDING_TIMEOUT_MS \<equiv> 1000"
abbreviation PICO_UART_USB_CDC_BRIDGE_PASS_BUDGET :: u32 where "PICO_UART_USB_CDC_BRIDGE_PASS_BUDGET \<equiv> 1024"
abbreviation PICO_UART_USB_CDC_TX_BUFFER_SIZE :: u32 where "PICO_UART_USB_CDC_TX_BUFFER_SIZE \<equiv> 2048"
abbreviation PICO_UART_USB_CDC_RX_BUFFER_SIZE :: u32 where "PICO_UART_USB_CDC_RX_BUFFER_SIZE \<equiv> 2048"
abbreviation UART_BRIDGE_RX_SNAPSHOT_SIZE :: size_t where "UART_BRIDGE_RX_SNAPSHOT_SIZE \<equiv> 1024"
abbreviation PICO_UART_USB_HID_ENDPOINT_BUFFER_SIZE :: u16 where "PICO_UART_USB_HID_ENDPOINT_BUFFER_SIZE \<equiv> 64"

section \<open>USB CDC\<close>

record usb_cdc_pending_line_coding_t =
  lc_pending :: bool
  lc_generation :: u32
  lc_deadline :: u64
  lc_coding :: uart_driver_line_coding_t

datatype usb_cdc_admission_t = USB_CDC_START_PENDING | USB_CDC_STARTING | USB_CDC_RUNNING

record usb_cdc_port_stats_t =
  opened :: bool
  cdc_tx_bytes :: u32
  cdc_rx_bytes :: u32
  rx_fifo_high_watermark :: u16
  tx_fifo_high_watermark :: u16

record usb_cdc_port_t =
  cdc_line_coding :: usb_cdc_pending_line_coding_t
  cdc_stats :: usb_cdc_port_stats_t
  tx_flush_deadline :: u64
  admission :: usb_cdc_admission_t
  reset_rx_flushed :: bool
  tx_flush_pending :: bool

text \<open>TinyUSB's line coding, as the host sends it.\<close>

record cdc_line_coding_t =
  bit_rate :: u32
  usb_stop_bits :: u8
  usb_parity :: u8
  usb_data_bits :: u8

section \<open>USB HID\<close>

datatype usb_hid_command_status_t = USB_HID_STATUS_IDLE | USB_HID_STATUS_PENDING | USB_HID_STATUS_COMPLETED
  | USB_HID_STATUS_INVALID | USB_HID_STATUS_UNSUPPORTED | USB_HID_STATUS_BUSY | USB_HID_STATUS_FAILED

datatype usb_hid_error_t = USB_HID_ERROR_NONE | USB_HID_ERROR_MALFORMED | USB_HID_ERROR_PROFILE
  | USB_HID_ERROR_ACKNOWLEDGEMENT | USB_HID_ERROR_AUTHORIZATION | USB_HID_ERROR_UNSUPPORTED | USB_HID_ERROR_CDC_OPEN
  | USB_HID_ERROR_FLASH | USB_HID_ERROR_VERIFY | USB_HID_ERROR_EXECUTION

datatype usb_hid_measurement_t = USB_HID_MEASUREMENT_UNAVAILABLE | USB_HID_MEASUREMENT_CURRENT | USB_HID_MEASUREMENT_CACHED

text \<open>The numbers the enumerations stand for on the wire.\<close>

definition hid_status_code :: "usb_hid_command_status_t \<Rightarrow> u8" where
  "hid_status_code s = (case s of USB_HID_STATUS_IDLE \<Rightarrow> 0 | USB_HID_STATUS_PENDING \<Rightarrow> 1 | USB_HID_STATUS_COMPLETED \<Rightarrow> 2
     | USB_HID_STATUS_INVALID \<Rightarrow> 3 | USB_HID_STATUS_UNSUPPORTED \<Rightarrow> 4 | USB_HID_STATUS_BUSY \<Rightarrow> 5 | USB_HID_STATUS_FAILED \<Rightarrow> 6)"

definition hid_error_code :: "usb_hid_error_t \<Rightarrow> u8" where
  "hid_error_code e = (case e of USB_HID_ERROR_NONE \<Rightarrow> 0 | USB_HID_ERROR_MALFORMED \<Rightarrow> 1 | USB_HID_ERROR_PROFILE \<Rightarrow> 2
     | USB_HID_ERROR_ACKNOWLEDGEMENT \<Rightarrow> 3 | USB_HID_ERROR_AUTHORIZATION \<Rightarrow> 4 | USB_HID_ERROR_UNSUPPORTED \<Rightarrow> 5
     | USB_HID_ERROR_CDC_OPEN \<Rightarrow> 6 | USB_HID_ERROR_FLASH \<Rightarrow> 7 | USB_HID_ERROR_VERIFY \<Rightarrow> 8 | USB_HID_ERROR_EXECUTION \<Rightarrow> 9)"

definition hid_measurement_code :: "usb_hid_measurement_t \<Rightarrow> u8" where
  "hid_measurement_code m = (case m of USB_HID_MEASUREMENT_UNAVAILABLE \<Rightarrow> 0 | USB_HID_MEASUREMENT_CURRENT \<Rightarrow> 1
     | USB_HID_MEASUREMENT_CACHED \<Rightarrow> 2)"

record usb_hid_channel_t =
  ch_uart :: uart_driver_port_stats_t
  ch_cdc :: usb_cdc_port_stats_t
  ch_uart_sample_us :: u64
  ch_measurement :: usb_hid_measurement_t
  ch_previous :: "u32 list"
  ch_total :: "u64 list"
  ch_rx_previous :: "u32 list"
  ch_rx_count :: "u32 list"
  ch_peaks :: "u16 list"
  ch_control :: uart_driver_control_history_t
  ch_last_fault_s :: u32
  ch_last_publication_ms :: u64
  ch_sequence :: u16

section \<open>The state of core 0\<close>

text \<open>
  \<open>usb\<close> is the USB stack with the host behind it, \<open>led\<close> the lamp, \<open>resets\<close> the resets requested so far,
  \<open>core1_steps\<close> the number of core 1's next step.
\<close>

record ('b, 'u) usb_state = "'b uart_driver_state_t" +
  usb_cdc_ports :: "u8 \<Rightarrow> usb_cdc_port_t"
  usb_cdc_poll_start_itf :: u8
  usb_cdc_rx_snapshot :: "u8 list"
  usb_cdc_session_active :: bool
  usb_hid_channels :: "u8 \<Rightarrow> usb_hid_channel_t"
  usb_hid_identity :: "u8 list"
  usb_hid_configuration :: "u8 list"
  usb_hid_command_status :: usb_hid_command_status_t
  usb_hid_command :: u8
  usb_hid_requested_profile :: u8
  usb_hid_error_reason :: u8
  usb_hid_reboot_deadline :: u64
  usb_hid_reboot_pending :: bool
  usb_hid_next_channel :: u8
  usb_hid_next_fault_sample_ms :: u32
  usb_hid_control_buffer :: "u8 list"
  boot :: boot_state
  led :: bool
  resets :: nat
  usb :: 'u
  core1_steps :: nat

text \<open>HID requests on the control endpoint: the fields of the setup packet the code reads.\<close>

datatype control_stage_t = CONTROL_STAGE_SETUP | CONTROL_STAGE_DATA | CONTROL_STAGE_ACK

datatype hid_request_t = HID_REQ_CONTROL_GET_REPORT | HID_REQ_CONTROL_SET_REPORT | HID_REQ_OTHER

datatype hid_report_type_t = HID_REPORT_TYPE_INVALID | HID_REPORT_TYPE_INPUT | HID_REPORT_TYPE_OUTPUT | HID_REPORT_TYPE_FEATURE

record tusb_control_request_t =
  type_is_class :: bool
  direction_in :: bool
  bRequest :: hid_request_t
  wValue :: u16
  wLength :: u16

text \<open>The callbacks TinyUSB makes from \<open>tud_task\<close>; a data stage comes with the bytes the host sent.\<close>

datatype usb_callback_t =
    Tud_mount
  | Tud_umount
  | Tud_cdc_line_state u8 bool bool
  | Tud_cdc_line_coding u8 "cdc_line_coding_t option"
  | Hidd_control_xfer control_stage_t tusb_control_request_t "u8 list"

text \<open>
  TinyUSB and the board. \<open>tud_callbacks\<close> is the number of callbacks the next \<open>tud_task\<close> makes, \<open>tud_next\<close> takes them one by
  one, \<open>tud_answer\<close> returns what the handler answered. A read stores bytes and reports a count, a write is given the bytes.
  The temperature is the reading in the wire's unit, none when it is not finite; the build's constants and the linker's
  memory map are fields too. \<open>uninitialised\<close> is what a local array of bytes holds before it is written.
\<close>

record ('b, 'u) usb_platform =
  tusb_init :: "'u \<Rightarrow> 'u"
  tud_disconnect :: "'u \<Rightarrow> 'u"
  tud_connect :: "'u \<Rightarrow> 'u"
  tud_task_event_ready :: "'u \<Rightarrow> bool"
  tud_callbacks :: "'u \<Rightarrow> nat"
  tud_next :: "'u \<Rightarrow> usb_callback_t \<times> 'u"
  tud_answer :: "bool \<Rightarrow> 'u \<Rightarrow> 'u"
  tud_mounted :: "'u \<Rightarrow> bool"
  tud_cdc_n_available :: "u8 \<Rightarrow> 'u \<Rightarrow> u32"
  tud_cdc_n_read :: "u8 \<Rightarrow> 'u \<Rightarrow> u32 \<Rightarrow> u8 list \<times> u32 \<times> 'u"
  tud_cdc_n_read_flush :: "u8 \<Rightarrow> 'u \<Rightarrow> 'u"
  tud_cdc_n_write :: "u8 \<Rightarrow> 'u \<Rightarrow> u8 list \<Rightarrow> u32 \<times> 'u"
  tud_cdc_n_write_available :: "u8 \<Rightarrow> 'u \<Rightarrow> u32"
  tud_cdc_n_write_flush :: "u8 \<Rightarrow> 'u \<Rightarrow> 'u"
  tud_cdc_n_write_clear :: "u8 \<Rightarrow> 'u \<Rightarrow> bool \<times> 'u"
  tud_hid_ready :: "'u \<Rightarrow> bool"
  tud_hid_report :: "u8 \<Rightarrow> u8 list \<Rightarrow> 'u \<Rightarrow> bool \<times> 'u"
  tud_control_xfer :: "tusb_control_request_t \<Rightarrow> u8 list \<Rightarrow> 'u \<Rightarrow> bool \<times> 'u"
  hidd_control_xfer_cb :: "control_stage_t \<Rightarrow> tusb_control_request_t \<Rightarrow> 'u \<Rightarrow> bool \<times> 'u"
  clock :: "nat \<Rightarrow> u64"
  led_available :: bool
  temperature_centidegrees :: "'u \<Rightarrow> u16 option"
  sys_clock_hz :: "'u \<Rightarrow> u32"
  unique_board_id :: "u8 list"
  firmware_version :: "u8 \<times> u8 \<times> u8"
  board_model :: u8
  rp2350 :: bool
  allow_hid_reset :: bool
  reset_cause :: u8
  sram_bytes :: u32
  ram_reserved_bytes :: u32
  flash_range_erase :: "u8 list \<Rightarrow> u8 list"
  flash_range_program :: "u8 list \<Rightarrow> u8 list \<Rightarrow> u8 list"
  flash_safe_execute :: "(u8 list \<Rightarrow> u8 list) \<Rightarrow> u8 list \<Rightarrow> bool \<times> u8 list"
  uninitialised :: "u8 list"
  core1 :: "nat \<Rightarrow> ('b, 'u) usb_state \<Rightarrow> ('b, 'u) usb_state"
  pump_env :: "('b, 'u) usb_state bridge_env"

definition on_usb :: "('u \<Rightarrow> 'u) \<Rightarrow> ('b, 'u) usb_state \<Rightarrow> ('b, 'u) usb_state" where
  "on_usb f st = st\<lparr>usb := f (usb st)\<rparr>"

definition between :: "('b, 'u) usb_platform \<Rightarrow> ('b, 'u) usb_state \<Rightarrow> ('b, 'u) usb_state" where
  "between P st = (core1 P (core1_steps st) st)\<lparr>core1_steps := Suc (core1_steps st)\<rparr>"

definition put_cdc :: "u8 \<Rightarrow> (usb_cdc_port_t \<Rightarrow> usb_cdc_port_t) \<Rightarrow> ('b, 'u) usb_state \<Rightarrow> ('b, 'u) usb_state" where
  "put_cdc itf f st = st\<lparr>usb_cdc_ports := (usb_cdc_ports st)(itf := f (usb_cdc_ports st itf))\<rparr>"

definition usb_cdc_port_stats :: "('b, 'u) usb_state \<Rightarrow> u8 \<Rightarrow> usb_cdc_port_stats_t option \<Rightarrow> bool \<times> usb_cdc_port_stats_t option" where
  "usb_cdc_port_stats st itf stats =
     (if itf \<ge> USB_CDC_PORT_COUNT \<or> stats = None then (False, stats) else (True, Some (cdc_stats (usb_cdc_ports st itf))))"

end
