(* ===== verification/Usb_Hid.thy ===== *)
theory Usb_Hid
  imports Usb_State Hw_Uart
begin

text \<open>
  The HID reports and commands, \<open>usb/usb_hid.c\<close>: capture of the channels' counters, the encodings of
  the reports, the command handler with its deferred save and reboot, the periodic publication, and the adapter of
  the control endpoint.
\<close>

abbreviation USB_HID_REPORT_VERSION :: u8 where "USB_HID_REPORT_VERSION \<equiv> 1"
abbreviation USB_HID_REPORT_ID_DEVICE_INFO :: u8 where "USB_HID_REPORT_ID_DEVICE_INFO \<equiv> 1"
abbreviation USB_HID_REPORT_ID_CONFIGURATION :: u8 where "USB_HID_REPORT_ID_CONFIGURATION \<equiv> 2"
abbreviation USB_HID_REPORT_ID_TELEMETRY :: u8 where "USB_HID_REPORT_ID_TELEMETRY \<equiv> 3"
abbreviation USB_HID_REPORT_ID_CHANNEL_BASE :: u8 where "USB_HID_REPORT_ID_CHANNEL_BASE \<equiv> 10"
abbreviation USB_HID_REPORT_ID_CONTROL :: u8 where "USB_HID_REPORT_ID_CONTROL \<equiv> 20"
abbreviation USB_HID_REPORT_ID_DIAGNOSTIC_BASE :: u8 where "USB_HID_REPORT_ID_DIAGNOSTIC_BASE \<equiv> 30"
abbreviation USB_HID_COMMAND_LED_ON :: u8 where "USB_HID_COMMAND_LED_ON \<equiv> 2"
abbreviation USB_HID_COMMAND_REBOOT :: u8 where "USB_HID_COMMAND_REBOOT \<equiv> 3"
abbreviation USB_HID_CHANNEL_INTERVAL_MS :: u64 where "USB_HID_CHANNEL_INTERVAL_MS \<equiv> 500"
abbreviation USB_HID_FAULT_SAMPLE_INTERVAL_MS :: u32 where "USB_HID_FAULT_SAMPLE_INTERVAL_MS \<equiv> 100"
abbreviation USB_HID_REBOOT_DELAY_MS :: u32 where "USB_HID_REBOOT_DELAY_MS \<equiv> 1000"
abbreviation USB_HID_DEVICE_INFO_SIZE :: u16 where "USB_HID_DEVICE_INFO_SIZE \<equiv> 27"
abbreviation USB_HID_CONFIGURATION_SIZE :: u16 where "USB_HID_CONFIGURATION_SIZE \<equiv> 36"
abbreviation USB_HID_TELEMETRY_SIZE :: u16 where "USB_HID_TELEMETRY_SIZE \<equiv> 20"
abbreviation USB_HID_CHANNEL_SIZE :: u16 where "USB_HID_CHANNEL_SIZE \<equiv> 30"
abbreviation USB_HID_CONTROL_SIZE :: u16 where "USB_HID_CONTROL_SIZE \<equiv> 4"
abbreviation USB_HID_DIAGNOSTIC_SIZE :: u16 where "USB_HID_DIAGNOSTIC_SIZE \<equiv> 24"

definition all_itfs :: "u8 list" where "all_itfs = [0, 1, 2, 3, 4, 5]"

section \<open>Bytes\<close>

definition usb_hid_write_u16 :: "u8 list \<Rightarrow> nat \<Rightarrow> u16 \<Rightarrow> u8 list" where
  "usb_hid_write_u16 bytes off value = bytes[off := ucast value, off + 1 := ucast (drop_bit 8 value)]"

definition usb_hid_write_u32 :: "u8 list \<Rightarrow> nat \<Rightarrow> u32 \<Rightarrow> u8 list" where
  "usb_hid_write_u32 bytes off value =
     fold (\<lambda>byte bytes. bytes[off + byte := ucast (drop_bit (8 * byte) value)]) [0..<4] bytes"

section \<open>Capture\<close>

definition put_channel :: "u8 \<Rightarrow> (usb_hid_channel_t \<Rightarrow> usb_hid_channel_t) \<Rightarrow> ('b, 'u) usb_state \<Rightarrow> ('b, 'u) usb_state" where
  "put_channel index f st = st\<lparr>usb_hid_channels := (usb_hid_channels st)(index := f (usb_hid_channels st index))\<rparr>"

definition usb_hid_note_fault :: "u64 \<Rightarrow> usb_hid_channel_t \<Rightarrow> usb_hid_channel_t" where
  "usb_hid_note_fault observation_us channel =
     (let seconds = observation_us div 1000000;
          value = (if seconds > ucast UINT32_MAX then UINT32_MAX else ucast seconds)
      in if value > ch_last_fault_s channel then channel\<lparr>ch_last_fault_s := value\<rparr> else channel)"

definition zero_port_stats :: uart_driver_port_stats_t where
  "zero_port_stats = \<lparr>ps_uart_tx_bytes = 0, ps_uart_rx_bytes = 0, ps_tx_ring_high_watermark = 0, ps_rx_ring_high_watermark = 0,
     ps_tx_ring_overflow_count = 0, ps_rx_ring_overflow_count = 0, ps_rx_ring_pending_overflow_count = 0, ps_rx_error_count = 0\<rparr>"

definition zero_cdc_stats :: usb_cdc_port_stats_t where
  "zero_cdc_stats = \<lparr>opened = False, cdc_tx_bytes = 0, cdc_rx_bytes = 0, rx_fifo_high_watermark = 0, tx_fifo_high_watermark = 0\<rparr>"

definition zero_history :: uart_driver_control_history_t where
  "zero_history = \<lparr>history_reason = UART_CONTROL_ERROR_NONE, history_uptime_us = 0\<rparr>"

text \<open>One receive-fault counter of a sample.\<close>

definition capture_rx_fault :: "u32 list \<Rightarrow> u64 \<Rightarrow> nat \<Rightarrow> usb_hid_channel_t \<Rightarrow> usb_hid_channel_t" where
  "capture_rx_fault rx now_us counter channel =
     (let delta = (if rx ! counter \<ge> ch_rx_previous channel ! counter then rx ! counter - ch_rx_previous channel ! counter
                   else rx ! counter);
          channel = channel\<lparr>ch_rx_previous := (ch_rx_previous channel)[counter := rx ! counter]\<rparr>;
          channel = channel\<lparr>ch_rx_count := (ch_rx_count channel)
                              [counter := uart_saturating_add_u32 (ch_rx_count channel ! counter) delta]\<rparr>
      in if delta \<noteq> 0 then usb_hid_note_fault now_us channel else channel)"

text \<open>What an accepted UART sample does to the channel.\<close>

definition capture_uart :: "uart_driver_port_stats_t \<Rightarrow> u64 \<Rightarrow> usb_hid_channel_t \<Rightarrow> usb_hid_channel_t" where
  "capture_uart candidate now_us channel =
     (let channel = channel\<lparr>ch_uart := candidate, ch_uart_sample_us := now_us, ch_measurement := USB_HID_MEASUREMENT_CURRENT\<rparr>;
          rx = [uart_saturating_add_u32 (ps_rx_ring_overflow_count candidate) (ps_rx_ring_pending_overflow_count candidate),
                ps_rx_error_count candidate]
      in fold (capture_rx_fault rx now_us) [0..<2] channel)"

definition capture_total :: "u32 list \<Rightarrow> u16 list \<Rightarrow> nat \<Rightarrow> usb_hid_channel_t \<Rightarrow> usb_hid_channel_t" where
  "capture_total raw peaks counter channel =
     (let channel = channel\<lparr>ch_total := (ch_total channel)
            [counter := ch_total channel ! counter + ucast (raw ! counter - ch_previous channel ! counter)]\<rparr>;
          channel = channel\<lparr>ch_previous := (ch_previous channel)[counter := raw ! counter]\<rparr>
      in if peaks ! counter > ch_peaks channel ! counter
         then channel\<lparr>ch_peaks := (ch_peaks channel)[counter := peaks ! counter]\<rparr> else channel)"

definition capture_totals :: "usb_hid_channel_t \<Rightarrow> usb_hid_channel_t" where
  "capture_totals channel =
     (let channel = (if history_reason (ch_control channel) \<noteq> UART_CONTROL_ERROR_NONE
                     then usb_hid_note_fault (history_uptime_us (ch_control channel)) channel else channel);
          raw = [ps_uart_tx_bytes (ch_uart channel), ps_uart_rx_bytes (ch_uart channel),
                 cdc_tx_bytes (ch_cdc channel), cdc_rx_bytes (ch_cdc channel)];
          peaks = [ps_tx_ring_high_watermark (ch_uart channel), ps_rx_ring_high_watermark (ch_uart channel),
                   tx_fifo_high_watermark (ch_cdc channel), rx_fifo_high_watermark (ch_cdc channel)]
      in fold (capture_total raw peaks) [0..<4] channel)"

definition usb_hid_capture :: "('b, 'u) usb_platform \<Rightarrow> u8 \<Rightarrow> ('b, 'u) usb_state \<Rightarrow> bool \<times> ('b, 'u) usb_state" where
  "usb_hid_capture P index st =
     (let n = core1_steps st;
          (accepted, candidate, st) = uart_driver_port_stats (ucast index) (\<lambda>k. core1 P (n + k)) (Some zero_port_stats) st;
          st = st\<lparr>core1_steps := n + 24\<rparr>;
          st = (if accepted
                then let (now_us, st) = read_clock (clock P) st
                     in put_channel index (capture_uart (the candidate) now_us) st
                else if ch_measurement (usb_hid_channels st index) \<noteq> USB_HID_MEASUREMENT_UNAVAILABLE
                then put_channel index (ch_measurement_update (\<lambda>_. USB_HID_MEASUREMENT_CACHED)) st else st);
          (ok, cdc) = usb_cdc_port_stats st index (Some (ch_cdc (usb_hid_channels st index)));
          st = put_channel index (ch_cdc_update (\<lambda>_. the cdc)) st
      in if \<not> ok then (False, st)
         else let st = between P st;
                  (ok, control) = uart_driver_control_history st (ucast index) (Some (ch_control (usb_hid_channels st index)));
                  st = put_channel index (ch_control_update (\<lambda>_. the control)) st
              in if \<not> ok then (False, st) else (True, put_channel index capture_totals st))"

definition usb_hid_cdc_sessions_closed :: "('b, 'u) usb_state \<Rightarrow> bool" where
  "usb_hid_cdc_sessions_closed st \<longleftrightarrow>
     list_all (\<lambda>index. let (ok, stats) = usb_cdc_port_stats st index (Some zero_cdc_stats)
                       in ok \<and> \<not> opened (the stats)) all_itfs"

section \<open>Reports\<close>

definition put_capability :: "nat \<Rightarrow> u8 \<Rightarrow> u8 list \<Rightarrow> u8 list" where
  "put_capability i b bytes = bytes[i := bytes ! i OR b]"

definition usb_hid_build_static_reports :: "('b, 'u) usb_platform \<Rightarrow> ('b, 'u) usb_state \<Rightarrow> ('b, 'u) usb_state" where
  "usb_hid_build_static_reports P st =
     (let (major, minor, patch) = firmware_version P;
          i = (usb_hid_identity st)[0 := USB_HID_REPORT_VERSION];
          i = usb_hid_write_u16 i 1 1;
          i = mem_write i 3 (unique_board_id P);
          i = i[11 := major, 12 := minor, 13 := patch];
          i = i[14 := (if rp2350 P then 2 else 1)];
          i = i[15 := board_model P];
          i = i[17 := (if led_available P then 1 else 0) OR (if allow_hid_reset P then 2 else 0) OR 4];
          i = fold (\<lambda>profile i. if boot_config_profile_supported (of_nat profile)
                                 then put_capability 18 (push_bit profile 1) i else i) [0..<5] i;
          i = usb_hid_write_u32 i 19 (sram_bytes P);
          i = usb_hid_write_u32 i 23 (ram_reserved_bytes P);
          c = (usb_hid_configuration st)[0 := USB_HID_REPORT_VERSION];
          stored = stored_profile (boot_config_get_status (boot st));
          c = c[1 := (if stored \<le> BOOT_CLOCK_280_MHZ then ucast stored else 0xFF)];
          c = c[2 := ucast UART_PORT_COUNT];
          (i, c) = fold (\<lambda>index (i, c).
             let port = uart_board_ports (of_nat index);
                 pins = [info_tx_pin port, info_rx_pin port, info_rts_pin port, info_cts_pin port];
                 i = (if info_backend port = UART_DRIVER_BACKEND_HW then put_capability 16 (push_bit index 1) i else i);
                 c = fold (\<lambda>pin c. c[3 + index * 4 + pin := (if pins ! pin \<le> 0xFF then ucast (pins ! pin) else 0xFF)]) [0..<4] c
             in (i, c)) [0..<6] (i, c);
          c = c[27 := reset_cause P];
          c = usb_hid_write_u16 c 28 4096;
          c = usb_hid_write_u16 c 30 4096;
          c = usb_hid_write_u16 c 32 (ucast PICO_UART_USB_CDC_TX_BUFFER_SIZE);
          c = usb_hid_write_u16 c 34 (ucast PICO_UART_USB_CDC_RX_BUFFER_SIZE)
      in st\<lparr>usb_hid_identity := i, usb_hid_configuration := c\<rparr>)"

definition usb_hid_build_telemetry :: "('b, 'u) usb_platform \<Rightarrow> u8 list \<Rightarrow> ('b, 'u) usb_state \<Rightarrow>
    bool \<times> u8 list \<times> ('b, 'u) usb_state" where
  "usb_hid_build_telemetry P payload st =
     (let available = led_available P; led_on = led st; temperature = temperature_centidegrees P (usb st);
          clk = sys_clock_hz P (usb st)
      in if temperature = None \<or> clk = 0 \<or> usb_hid_identity st ! 17 AND 1 \<noteq> 0 \<and> \<not> available then (False, payload, st)
         else let payload = payload[0 := USB_HID_REPORT_VERSION];
                  payload = payload[1 := (if available \<and> led_on then 1 else 0)];
                  payload = usb_hid_write_u16 payload 2 (the temperature);
                  (now, st) = read_clock (clock P) st;
                  uptime = now div 1000;
                  payload = fold (\<lambda>byte payload. payload[4 + byte := ucast (drop_bit (byte * 8) uptime)]) [0..<8] payload;
                  payload = usb_hid_write_u16 payload 12 (service_load_read (load_meter st) 0);
                  payload = usb_hid_write_u16 payload 14 (service_load_read (load_meter st) 1);
                  payload = usb_hid_write_u32 payload 16 clk
              in (True, payload, st))"

definition parity_code :: "uart_driver_parity_t \<Rightarrow> u8" where
  "parity_code p = (case p of UART_DRIVER_PARITY_NONE \<Rightarrow> 0 | UART_DRIVER_PARITY_ODD \<Rightarrow> 1 | UART_DRIVER_PARITY_EVEN \<Rightarrow> 2)"

definition control_error_code :: "uart_driver_control_error_t \<Rightarrow> u8" where
  "control_error_code e = (case e of UART_CONTROL_ERROR_NONE \<Rightarrow> 0 | UART_CONTROL_ERROR_BAUD \<Rightarrow> 1 | UART_CONTROL_ERROR_FRAMING \<Rightarrow> 2
     | UART_CONTROL_ERROR_BACKEND \<Rightarrow> 3 | UART_CONTROL_ERROR_TIMEOUT \<Rightarrow> 4 | UART_CONTROL_ERROR_OTHER \<Rightarrow> 5)"

text \<open>The lifecycle byte: closed, starting, running, changing settings, failed.\<close>

definition channel_lifecycle :: "bool \<Rightarrow> u8 \<Rightarrow> u8" where
  "channel_lifecycle opened_now status =
     (if \<not> opened_now then 0
      else if status AND (UART_DRIVER_PORT_STATUS_INIT_FAILED OR UART_DRIVER_PORT_STATUS_CONTROL_ERROR) \<noteq> 0 then 4
      else if status AND UART_DRIVER_PORT_STATUS_READY = 0 then 1
      else if status AND UART_DRIVER_PORT_STATUS_CONTROL_PENDING \<noteq> 0 then 3 else 2)"

definition usb_hid_build_channel :: "('b, 'u) usb_platform \<Rightarrow> u8 \<Rightarrow> u8 list \<Rightarrow> bool \<Rightarrow> u64 \<Rightarrow> ('b, 'u) usb_state \<Rightarrow>
    bool \<times> u8 list \<times> ('b, 'u) usb_state" where
  "usb_hid_build_channel P index payload publication now_ms st =
     (let st = between P st; channel = usb_hid_channels st index;
          (ok, i, status) = uart_driver_port_snapshot st (ucast index) (Some (info (ports st (ucast index)))) (Some 0)
      in if \<not> ok then (False, payload, st)
         else let i = the i; elapsed = now_ms - ch_last_publication_ms channel; settled = info_baud_rate i \<noteq> 0;
                  payload = payload[0 := USB_HID_REPORT_VERSION];
                  payload = payload[1 := channel_lifecycle (opened (ch_cdc channel)) (the status)];
                  payload = payload[2 := hid_measurement_code (ch_measurement channel)];
                  payload = usb_hid_write_u32 payload 3 (info_baud_rate i);
                  payload = payload[7 := (if settled then info_data_bits i else 0)];
                  payload = payload[8 := (if settled then info_stop_bits i else 0)];
                  payload = payload[9 := (if settled then parity_code (info_parity i) else 0)];
                  payload = usb_hid_write_u16 payload 10 (ch_sequence channel + (if publication then 1 else 0));
                  payload = usb_hid_write_u16 payload 12 (if elapsed > 0xFFFF then 0xFFFF else ucast elapsed);
                  payload = fold (\<lambda>counter payload. usb_hid_write_u32 payload (14 + counter * 4)
                                    (ucast (ch_total channel ! counter))) [0..<4] payload
              in (True, payload, st))"

definition usb_hid_build_diagnostic :: "('b, 'u) usb_platform \<Rightarrow> u8 \<Rightarrow> u8 list \<Rightarrow> ('b, 'u) usb_state \<Rightarrow> u8 list \<times> ('b, 'u) usb_state" where
  "usb_hid_build_diagnostic P index payload st =
     (let channel = usb_hid_channels st index;
          (now, st) = read_clock (clock P) st;
          age = (now - ch_uart_sample_us channel) div 100000;
          payload = payload[0 := USB_HID_REPORT_VERSION];
          payload = payload[1 := hid_measurement_code (ch_measurement channel)];
          payload = payload[2 := (if ch_measurement channel = USB_HID_MEASUREMENT_CURRENT then 0
                                  else if ch_measurement channel = USB_HID_MEASUREMENT_UNAVAILABLE \<or> age > 0xFF then 0xFF
                                  else ucast age)];
          payload = payload[3 := control_error_code (history_reason (ch_control channel))];
          payload = usb_hid_write_u32 payload 4 (ch_rx_count channel ! 0);
          payload = usb_hid_write_u32 payload 8 (ch_rx_count channel ! 1);
          payload = usb_hid_write_u32 payload 12 (ch_last_fault_s channel);
          payload = fold (\<lambda>peak payload. usb_hid_write_u16 payload (16 + peak * 2) (ch_peaks channel ! peak)) [0..<4] payload
      in (payload, st))"

section \<open>Commands\<close>

definition usb_hid_set_result :: "u8 \<Rightarrow> usb_hid_command_status_t \<Rightarrow> usb_hid_error_t \<Rightarrow> ('b, 'u) usb_state \<Rightarrow> ('b, 'u) usb_state" where
  "usb_hid_set_result action status err st = st\<lparr>usb_hid_command := action, usb_hid_command_status := status,
     usb_hid_error_reason := hid_error_code err\<rparr>"

definition led_set :: "('b, 'u) usb_platform \<Rightarrow> bool \<Rightarrow> ('b, 'u) usb_state \<Rightarrow> ('b, 'u) usb_state" where
  "led_set P on st = (if led_available P then st\<lparr>led := on\<rparr> else st)"

definition usb_hid_handle_command :: "('b, 'u) usb_platform \<Rightarrow> u8 list option \<Rightarrow> u16 \<Rightarrow> ('b, 'u) usb_state \<Rightarrow>
    bool \<times> ('b, 'u) usb_state" where
  "usb_hid_handle_command P request len st =
     (if usb_hid_command_status st = USB_HID_STATUS_PENDING \<or> usb_hid_reboot_pending st then (False, st)
      else let r = the request;
               framed = (request \<noteq> None \<and> len = USB_HID_CONTROL_SIZE \<and> r ! 0 = USB_HID_REPORT_VERSION);
               action = (if framed \<and> r ! 1 \<ge> 1 \<and> r ! 1 \<le> 4 then r ! 1 else 0);
               st = usb_hid_set_result action USB_HID_STATUS_INVALID USB_HID_ERROR_MALFORMED st
      in if \<not> framed \<or> r ! 2 AND 0xFC \<noteq> 0 then (True, st)
      else let flags = r ! 2; profile = r ! 3;
               capability = (if action \<le> 2 then 1 else if action = 3 then 2 else 4)
      in if action = 0 \<or> usb_hid_identity st ! 17 AND capability = 0
         then (True, usb_hid_set_result action USB_HID_STATUS_UNSUPPORTED USB_HID_ERROR_UNSUPPORTED st)
      else if action \<le> 2 \<and> (flags \<noteq> 0 \<or> profile \<noteq> 0) \<or>
              action = 3 \<and> (profile \<noteq> 0 \<or> flags AND 2 \<noteq> 0) \<or>
              action = 4 \<and> profile = 0 \<and> flags AND 2 \<noteq> 0
         then (True, st)
      else if action = 4 \<and> \<not> boot_config_profile_supported (ucast profile)
         then (True, usb_hid_set_result action USB_HID_STATUS_INVALID USB_HID_ERROR_PROFILE st)
      else if action \<ge> 3 \<and> flags AND 1 = 0
         then (True, usb_hid_set_result action USB_HID_STATUS_INVALID USB_HID_ERROR_AUTHORIZATION st)
      else if action = 4 \<and> profile \<noteq> 0 \<and> flags AND 2 = 0
         then (True, usb_hid_set_result action USB_HID_STATUS_INVALID USB_HID_ERROR_ACKNOWLEDGEMENT st)
      else if action = 4 \<and> \<not> usb_hid_cdc_sessions_closed st
         then (True, usb_hid_set_result action USB_HID_STATUS_BUSY USB_HID_ERROR_CDC_OPEN st)
      else let st = usb_hid_set_result action USB_HID_STATUS_COMPLETED USB_HID_ERROR_NONE st
      in if action \<le> 2 then (True, led_set P (action = USB_HID_COMMAND_LED_ON) st)
      else if action = USB_HID_COMMAND_REBOOT
         then let (deadline, st) = make_timeout_time_ms (clock P) USB_HID_REBOOT_DELAY_MS (st\<lparr>usb_hid_reboot_pending := True\<rparr>)
              in (True, st\<lparr>usb_hid_reboot_deadline := deadline\<rparr>)
      else (True, st\<lparr>usb_hid_requested_profile := profile, usb_hid_command_status := USB_HID_STATUS_PENDING\<rparr>))"

definition usb_hid_execute_pending_save :: "('b, 'u) usb_platform \<Rightarrow> ('b, 'u) usb_state \<Rightarrow> ('b, 'u) usb_state" where
  "usb_hid_execute_pending_save P st =
     (if \<not> usb_hid_cdc_sessions_closed st then usb_hid_set_result 4 USB_HID_STATUS_BUSY USB_HID_ERROR_CDC_OPEN st
      else let (ok, b) = boot_config_set (Some \<lparr>clock_profile = ucast (usb_hid_requested_profile st)\<rparr>) (boot st);
               st = st\<lparr>boot := b\<rparr>
      in if \<not> ok then usb_hid_set_result 4 USB_HID_STATUS_FAILED USB_HID_ERROR_EXECUTION st
      else let (result, b) = boot_config_save_with_result (rp2350 P) (flash_range_erase P) (flash_range_program P)
                               (flash_safe_execute P) (boot st);
               st = st\<lparr>boot := b\<rparr>
      in if result \<noteq> BOOT_CONFIG_SAVE_OK
         then usb_hid_set_result 4 USB_HID_STATUS_FAILED
                (if result = BOOT_CONFIG_SAVE_FLASH_FAILED then USB_HID_ERROR_FLASH
                 else if result = BOOT_CONFIG_SAVE_VERIFY_FAILED then USB_HID_ERROR_VERIFY else USB_HID_ERROR_EXECUTION) st
         else let st = usb_hid_set_result 4 USB_HID_STATUS_COMPLETED USB_HID_ERROR_NONE st;
                  st = st\<lparr>usb_hid_reboot_pending := True\<rparr>;
                  (deadline, st) = make_timeout_time_ms (clock P) USB_HID_REBOOT_DELAY_MS st
              in st\<lparr>usb_hid_reboot_deadline := deadline\<rparr>)"

section \<open>Start-up and polling\<close>

definition zero_channel :: usb_hid_channel_t where
  "zero_channel = \<lparr>ch_uart = zero_port_stats, ch_cdc = zero_cdc_stats, ch_uart_sample_us = 0,
     ch_measurement = USB_HID_MEASUREMENT_UNAVAILABLE, ch_previous = replicate 4 0, ch_total = replicate 4 0,
     ch_rx_previous = replicate 2 0, ch_rx_count = replicate 2 0, ch_peaks = replicate 4 0, ch_control = zero_history,
     ch_last_fault_s = 0, ch_last_publication_ms = 0, ch_sequence = 0\<rparr>"

definition reset_channel :: "('b, 'u) usb_platform \<Rightarrow> u8 \<Rightarrow> ('b, 'u) usb_state \<Rightarrow> ('b, 'u) usb_state" where
  "reset_channel P index st =
     (let st = put_channel index (ch_sequence_update (\<lambda>_. 0)) st;
          (now, st) = read_clock (clock P) st
      in put_channel index (ch_last_publication_ms_update (\<lambda>_. now div 1000)) st)"

definition usb_hid_reset_host_state :: "('b, 'u) usb_platform \<Rightarrow> ('b, 'u) usb_state \<Rightarrow> ('b, 'u) usb_state" where
  "usb_hid_reset_host_state P st = (fold (reset_channel P) all_itfs st)\<lparr>usb_hid_next_channel := 0\<rparr>"

definition usb_hid_init :: "('b, 'u) usb_platform \<Rightarrow> ('b, 'u) usb_state \<Rightarrow> ('b, 'u) usb_state" where
  "usb_hid_init P st =
     (let st = st\<lparr>usb_hid_channels := (\<lambda>index. if index \<in> set all_itfs then zero_channel else usb_hid_channels st index),
                  usb_hid_identity := replicate 27 0, usb_hid_configuration := replicate 36 0\<rparr>;
          st = usb_hid_set_result 0 USB_HID_STATUS_IDLE USB_HID_ERROR_NONE st;
          st = st\<lparr>usb_hid_requested_profile := 0, usb_hid_reboot_pending := False, usb_hid_next_fault_sample_ms := 0\<rparr>;
          st = usb_hid_build_static_reports P st
      in usb_hid_reset_host_state P st)"

text \<open>The first channel that is due, in rotation, is captured and offered; then the loop ends.\<close>

primrec hid_publish :: "('b, 'u) usb_platform \<Rightarrow> u64 \<Rightarrow> u8 list \<Rightarrow> ('b, 'u) usb_state \<Rightarrow> ('b, 'u) usb_state" where
  "hid_publish P now_ms [] st = st"
| "hid_publish P now_ms (offset # offsets) st =
     (let index = (usb_hid_next_channel st + offset) mod 6
      in if now_ms - ch_last_publication_ms (usb_hid_channels st index) < USB_HID_CHANNEL_INTERVAL_MS
         then hid_publish P now_ms offsets st
         else let (captured, st) = usb_hid_capture P index st;
                  (now, st) = read_clock (clock P) st;
                  now_ms = now div 1000;
                  (captured, payload, st) = (if captured then usb_hid_build_channel P index (uninitialised P) True now_ms st
                                             else (False, uninitialised P, st));
                  (sent, u) = (if captured
                               then tud_hid_report P (USB_HID_REPORT_ID_CHANNEL_BASE + index) (take (unat USB_HID_CHANNEL_SIZE) payload) (usb st)
                               else (False, usb st));
                  st = st\<lparr>usb := u\<rparr>;
                  st = (if sent
                        then note_load 0 (put_channel index (\<lambda>c. c\<lparr>ch_sequence := ch_sequence c + 1, ch_last_publication_ms := now_ms\<rparr>) st)
                        else st)
              in st\<lparr>usb_hid_next_channel := (index + 1) mod 6\<rparr>)"

definition hid_sample_faults :: "('b, 'u) usb_platform \<Rightarrow> u64 \<Rightarrow> ('b, 'u) usb_state \<Rightarrow> ('b, 'u) usb_state" where
  "hid_sample_faults P now_ms st =
     (if 0 \<le>s (ucast now_ms :: u32) - usb_hid_next_fault_sample_ms st
      then (fold (\<lambda>index st. snd (usb_hid_capture P index st)) all_itfs st)
             \<lparr>usb_hid_next_fault_sample_ms := ucast now_ms + USB_HID_FAULT_SAMPLE_INTERVAL_MS\<rparr>
      else st)"

definition usb_hid_poll :: "('b, 'u) usb_platform \<Rightarrow> ('b, 'u) usb_state \<Rightarrow> ('b, 'u) usb_state" where
  "usb_hid_poll P st =
     (let st = (if usb_hid_command_status st = USB_HID_STATUS_PENDING then usb_hid_execute_pending_save P st else st);
          (due, st) = (if usb_hid_reboot_pending st then time_reached (clock P) (usb_hid_reboot_deadline st) st else (False, st))
      in if due then st\<lparr>resets := Suc (resets st)\<rparr>
         else let (now, st) = read_clock (clock P) st;
                  now_ms = now div 1000;
                  st = hid_sample_faults P now_ms st
              in if \<not> tud_hid_ready P (usb st) then st else hid_publish P now_ms all_itfs st)"

section \<open>Control transfers\<close>

text \<open>The payload of a report, with its size: 0 when there is none.\<close>

definition hid_report_payload :: "('b, 'u) usb_platform \<Rightarrow> u8 \<Rightarrow> hid_report_type_t \<Rightarrow> ('b, 'u) usb_state \<Rightarrow>
    u16 \<times> u8 list \<times> ('b, 'u) usb_state" where
  "hid_report_payload P report_id type st =
     (let payload = uninitialised P; feature = (type = HID_REPORT_TYPE_FEATURE)
      in if feature \<and> report_id = USB_HID_REPORT_ID_DEVICE_INFO
         then (USB_HID_DEVICE_INFO_SIZE, mem_write payload 0 (take 27 (usb_hid_identity st)), st)
      else if feature \<and> report_id = USB_HID_REPORT_ID_CONFIGURATION
         then (USB_HID_CONFIGURATION_SIZE, mem_write payload 0 (take 36 (usb_hid_configuration st)), st)
      else if feature \<and> report_id = USB_HID_REPORT_ID_CONTROL
         then (USB_HID_CONTROL_SIZE, mem_write payload 0 [USB_HID_REPORT_VERSION, usb_hid_command st,
                 hid_status_code (usb_hid_command_status st), usb_hid_error_reason st], st)
      else if feature \<and> report_id = USB_HID_REPORT_ID_TELEMETRY
         then let (ok, payload, st) = usb_hid_build_telemetry P payload st
              in (if ok then USB_HID_TELEMETRY_SIZE else 0, payload, st)
      else if (feature \<or> type = HID_REPORT_TYPE_INPUT) \<and> report_id \<ge> USB_HID_REPORT_ID_CHANNEL_BASE \<and>
              report_id < USB_HID_REPORT_ID_CHANNEL_BASE + 6
         then let index = report_id - USB_HID_REPORT_ID_CHANNEL_BASE;
                  (captured, st) = usb_hid_capture P index st
              in if \<not> captured then (0, payload, st)
                 else let (now, st) = read_clock (clock P) st;
                          (ok, payload, st) = usb_hid_build_channel P index payload False (now div 1000) st
                      in (if ok then USB_HID_CHANNEL_SIZE else 0, payload, st)
      else if feature \<and> report_id \<ge> USB_HID_REPORT_ID_DIAGNOSTIC_BASE \<and> report_id < USB_HID_REPORT_ID_DIAGNOSTIC_BASE + 6
         then let index = report_id - USB_HID_REPORT_ID_DIAGNOSTIC_BASE;
                  (captured, st) = usb_hid_capture P index st
              in if \<not> captured then (0, payload, st)
                 else let (payload, st) = usb_hid_build_diagnostic P index payload st
                      in (USB_HID_DIAGNOSTIC_SIZE, payload, st)
      else (0, payload, st))"

definition tud_hid_get_report_cb :: "('b, 'u) usb_platform \<Rightarrow> u8 \<Rightarrow> u8 \<Rightarrow> hid_report_type_t \<Rightarrow> u8 list option \<Rightarrow> u16 \<Rightarrow>
    ('b, 'u) usb_state \<Rightarrow> u16 \<times> u8 list option \<times> ('b, 'u) usb_state" where
  "tud_hid_get_report_cb P inst report_id type buffer reqlen st =
     (if inst \<noteq> 0 \<or> buffer = None then (0, buffer, st)
      else let (len, payload, st) = hid_report_payload P report_id type st
           in if len = 0 then (0, buffer, st)
              else let count = (if reqlen < len then reqlen else len)
                   in (count, Some (mem_write (the buffer) 0 (take (unat count) payload)), st))"

definition tud_hid_set_report_cb :: "('b, 'u) usb_platform \<Rightarrow> u8 \<Rightarrow> u8 \<Rightarrow> hid_report_type_t \<Rightarrow> u8 list option \<Rightarrow> u16 \<Rightarrow>
    ('b, 'u) usb_state \<Rightarrow> ('b, 'u) usb_state" where
  "tud_hid_set_report_cb P inst report_id type buffer len st =
     (if inst = 0 \<and> type = HID_REPORT_TYPE_FEATURE \<and> report_id = USB_HID_REPORT_ID_CONTROL
      then snd (usb_hid_handle_command P buffer len st) else st)"

definition hid_report_type :: "u16 \<Rightarrow> hid_report_type_t" where
  "hid_report_type n = (if n = 1 then HID_REPORT_TYPE_INPUT else if n = 2 then HID_REPORT_TYPE_OUTPUT
     else if n = 3 then HID_REPORT_TYPE_FEATURE else HID_REPORT_TYPE_INVALID)"

definition control_send :: "('b, 'u) usb_platform \<Rightarrow> tusb_control_request_t \<Rightarrow> u8 list \<Rightarrow> ('b, 'u) usb_state \<Rightarrow>
    bool \<times> ('b, 'u) usb_state" where
  "control_send P request bytes st = (let (ok, u) = tud_control_xfer P request bytes (usb st) in (ok, st\<lparr>usb := u\<rparr>))"

text \<open>The read side: the setup stage answers, the later stages acknowledge.\<close>

definition hid_control_get :: "('b, 'u) usb_platform \<Rightarrow> control_stage_t \<Rightarrow> tusb_control_request_t \<Rightarrow> ('b, 'u) usb_state \<Rightarrow>
    bool \<times> ('b, 'u) usb_state" where
  "hid_control_get P stage request st =
     (let report_id = ucast (wValue request); type = hid_report_type (drop_bit 8 (wValue request))
      in if \<not> direction_in request then (False, st)
         else if stage \<noteq> CONTROL_STAGE_SETUP then (True, st)
         else let request_length = (if wLength request < PICO_UART_USB_HID_ENDPOINT_BUFFER_SIZE then wLength request
                                    else PICO_UART_USB_HID_ENDPOINT_BUFFER_SIZE);
                  (payload_length, buffer, st) = tud_hid_get_report_cb P 0 report_id type
                      (Some (usb_hid_control_buffer st)) request_length st;
                  st = st\<lparr>usb_hid_control_buffer := the buffer\<rparr>
              in if payload_length = 0 then (False, st)
                 else let (buffer, transfer_length) =
                        (if report_id \<noteq> 0 \<and> request_length > payload_length
                         then ((mem_write (usb_hid_control_buffer st) 1 (mem_read (usb_hid_control_buffer st) 0 (unat payload_length)))
                                 [0 := report_id], payload_length + 1)
                         else (usb_hid_control_buffer st, payload_length));
                          st = st\<lparr>usb_hid_control_buffer := buffer\<rparr>
                      in control_send P request (take (unat transfer_length) buffer) st)"

text \<open>
  The write side. The setup stage hands the stack an empty buffer to fill, so no bytes are sent; \<open>received\<close> are the bytes
  the stack has put into it by the data stage.
\<close>

definition hid_control_set :: "('b, 'u) usb_platform \<Rightarrow> control_stage_t \<Rightarrow> tusb_control_request_t \<Rightarrow> u8 list \<Rightarrow>
    ('b, 'u) usb_state \<Rightarrow> bool \<times> ('b, 'u) usb_state" where
  "hid_control_set P stage request received st =
     (let report_id = ucast (wValue request); type = hid_report_type (drop_bit 8 (wValue request))
      in if direction_in request \<or> type \<noteq> HID_REPORT_TYPE_FEATURE \<or> report_id \<noteq> USB_HID_REPORT_ID_CONTROL \<or>
            usb_hid_command_status st = USB_HID_STATUS_PENDING \<or> usb_hid_reboot_pending st then (False, st)
         else if stage = CONTROL_STAGE_SETUP
         then if wLength request = 0 \<or> wLength request > PICO_UART_USB_HID_ENDPOINT_BUFFER_SIZE
              then (False, usb_hid_set_result 0 USB_HID_STATUS_INVALID USB_HID_ERROR_MALFORMED st)
              else control_send P request [] (st\<lparr>usb_hid_control_buffer := replicate (unat PICO_UART_USB_HID_ENDPOINT_BUFFER_SIZE) 0xFF\<rparr>)
         else if stage = CONTROL_STAGE_DATA
         then let st = st\<lparr>usb_hid_control_buffer := mem_write (usb_hid_control_buffer st) 0 received\<rparr>;
                  buffer = usb_hid_control_buffer st;
                  (payload, len) = (if wLength request > 1 \<and> buffer ! 0 = report_id then (tl buffer, wLength request - 1)
                                    else (buffer, wLength request))
              in usb_hid_handle_command P (Some payload) len st
         else (True, st))"

definition hidd_control_xfer_wrap :: "('b, 'u) usb_platform \<Rightarrow> control_stage_t \<Rightarrow> tusb_control_request_t \<Rightarrow> u8 list \<Rightarrow>
    ('b, 'u) usb_state \<Rightarrow> bool \<times> ('b, 'u) usb_state" where
  "hidd_control_xfer_wrap P stage request received st =
     (if \<not> type_is_class request \<or> bRequest request = HID_REQ_OTHER
      then let (ok, u) = hidd_control_xfer_cb P stage request (usb st) in (ok, st\<lparr>usb := u\<rparr>)
      else if bRequest request = HID_REQ_CONTROL_GET_REPORT then hid_control_get P stage request st
      else hid_control_set P stage request received st)"

end
