(* ===== verification/Usb_Cdc.thy ===== *)
theory Usb_Cdc
  imports Usb_Hid
begin

text \<open>
  The six CDC interfaces, \<open>usb/usb_cdc.c\<close> and \<open>cdc_soft_pending.h\<close>: the host's sessions and line codings, the
  admission of a port to bridging, the two directions of the bridge with the flush deadline, and the poll of all interfaces.
\<close>

definition usb_cdc_dtr_close_should_stop_channel :: "bool \<Rightarrow> bool \<Rightarrow> bool" where
  "usb_cdc_dtr_close_should_stop_channel was_open is_open \<longleftrightarrow> was_open \<and> \<not> is_open"

definition usb_cdc_soft_pending_should_set_deadline :: "bool \<Rightarrow> bool \<Rightarrow> bool" where
  "usb_cdc_soft_pending_should_set_deadline was_pending same_request \<longleftrightarrow> \<not> was_pending \<or> \<not> same_request"

abbreviation nil_time :: u64 where "nil_time \<equiv> 0"

section \<open>Line coding requests\<close>

definition put_lc :: "u8 \<Rightarrow> (usb_cdc_pending_line_coding_t \<Rightarrow> usb_cdc_pending_line_coding_t) \<Rightarrow> ('b, 'u) usb_state \<Rightarrow>
    ('b, 'u) usb_state" where
  "put_lc itf f = put_cdc itf (cdc_line_coding_update f)"

definition lc_of :: "('b, 'u) usb_state \<Rightarrow> u8 \<Rightarrow> usb_cdc_pending_line_coding_t" where
  "lc_of st itf = cdc_line_coding (usb_cdc_ports st itf)"

definition usb_cdc_update_high_watermark :: "u32 \<Rightarrow> u16 \<Rightarrow> u16" where
  "usb_cdc_update_high_watermark occupancy mark =
     (if occupancy > ucast mark then if occupancy > 0xFFFF then 0xFFFF else ucast occupancy else mark)"

definition usb_cdc_arm_soft_pending :: "('b, 'u) usb_platform \<Rightarrow> u8 \<Rightarrow> uart_driver_line_coding_t \<Rightarrow> ('b, 'u) usb_state \<Rightarrow>
    ('b, 'u) usb_state" where
  "usb_cdc_arm_soft_pending P itf line_coding st =
     (let was_pending = lc_pending (lc_of st itf);
          same_request = (was_pending \<and> lc_coding (lc_of st itf) = line_coding);
          st = put_lc itf (lc_coding_update (\<lambda>_. line_coding)) st;
          st = (if usb_cdc_soft_pending_should_set_deadline was_pending same_request
                then put_lc itf (lc_deadline_update (\<lambda>_. nil_time)) st else st);
          st = put_lc itf (lc_pending_update (\<lambda>_. True)) st;
          (generation, st) = uart_driver_mark_control_pending (ucast itf) (between P st)
      in put_lc itf (lc_generation_update (\<lambda>_. generation)) st)"

definition usb_cdc_reject_line_coding :: "('b, 'u) usb_platform \<Rightarrow> u8 \<Rightarrow> uart_driver_control_error_t \<Rightarrow> ('b, 'u) usb_state \<Rightarrow>
    ('b, 'u) usb_state" where
  "usb_cdc_reject_line_coding P itf reason st = uart_driver_report_control_error (clock P) (ucast itf) reason (between P st)"

definition usb_cdc_apply_pending_line_coding :: "('b, 'u) usb_platform \<Rightarrow> u8 \<Rightarrow> ('b, 'u) usb_state \<Rightarrow> ('b, 'u) usb_state" where
  "usb_cdc_apply_pending_line_coding P itf st =
     (if \<not> lc_pending (lc_of st itf) then st
      else let st = (if lc_deadline (lc_of st itf) = nil_time
                     then let (deadline, st) = make_timeout_time_ms (clock P) USB_CDC_SOFT_PENDING_TIMEOUT_MS st
                          in put_lc itf (lc_deadline_update (\<lambda>_. deadline)) st
                     else st);
               (late, st) = time_reached (clock P) (lc_deadline (lc_of st itf)) st
      in if late
         then let st = put_lc itf (lc_pending_update (\<lambda>_. False)) (note_load 0 st)
              in uart_driver_report_soft_pending_error (clock P) (ucast itf) (lc_generation (lc_of st itf))
                   UART_CONTROL_ERROR_TIMEOUT (between P st)
      else let st = between P st
      in if \<not> uart_driver_line_coding_acceptable st (ucast itf) (Some (lc_coding (lc_of st itf)))
         then let st = put_lc itf (lc_pending_update (\<lambda>_. False)) (note_load 0 st)
              in uart_driver_report_soft_pending_error (clock P) (ucast itf) (lc_generation (lc_of st itf))
                   UART_CONTROL_ERROR_OTHER (between P st)
      else let st = between P st;
               (queued, st) = uart_driver_queue_line_coding (clock P) (ucast itf) (Some (lc_coding (lc_of st itf)))
                                (lc_generation (lc_of st itf)) st
      in if queued then put_lc itf (lc_pending_update (\<lambda>_. False)) (note_load 0 st) else st)"

section \<open>The bridge\<close>

definition put_stats :: "u8 \<Rightarrow> (usb_cdc_port_stats_t \<Rightarrow> usb_cdc_port_stats_t) \<Rightarrow> ('b, 'u) usb_state \<Rightarrow> ('b, 'u) usb_state" where
  "put_stats itf f = put_cdc itf (cdc_stats_update f)"

text \<open>A bounded pump makes at most as many passes as its capacity, and one to see that it is used up.\<close>

definition usb_cdc_bridge_usb_to_uart :: "('b, 'u) usb_platform \<Rightarrow> u8 \<Rightarrow> ('b, 'u) usb_state \<Rightarrow> ('b, 'u) usb_state" where
  "usb_cdc_bridge_usb_to_uart P itf st =
     (let available = tud_cdc_n_available P itf (usb st);
          st = put_stats itf (rx_fifo_high_watermark_update (usb_cdc_update_high_watermark available)) st
      in if available = 0 then st
         else let available = (if available > PICO_UART_USB_CDC_BRIDGE_PASS_BUDGET then PICO_UART_USB_CDC_BRIDGE_PASS_BUDGET
                               else available)
              in case uart_driver_fill_tx (Suc (unat available)) (pump_env P) (ucast itf) available
                        (Some (tud_cdc_n_read P itf)) (usb st) (between P st) of
                   None \<Rightarrow> st
                 | Some (drained, u, st) \<Rightarrow>
                     let st = st\<lparr>usb := u\<rparr>
                     in if drained \<noteq> 0 then put_stats itf (cdc_rx_bytes_update (\<lambda>n. n + drained)) (note_load 0 st) else st)"

definition make_timeout_time_us :: "(nat \<Rightarrow> u64) \<Rightarrow> u64 \<Rightarrow> ('b, 'z) uart_control_plane_t_scheme \<Rightarrow>
    u64 \<times> ('b, 'z) uart_control_plane_t_scheme" where
  "make_timeout_time_us clk us st = (let (now, st) = read_clock clk st in (now + us, st))"

definition usb_cdc_flush_if_due :: "('b, 'u) usb_platform \<Rightarrow> u8 \<Rightarrow> ('b, 'u) usb_state \<Rightarrow> ('b, 'u) usb_state" where
  "usb_cdc_flush_if_due P itf st =
     (let (due, st) = (if tx_flush_pending (usb_cdc_ports st itf)
                       then time_reached (clock P) (tx_flush_deadline (usb_cdc_ports st itf)) st else (False, st))
      in if due then put_cdc itf (tx_flush_pending_update (\<lambda>_. False)) (on_usb (tud_cdc_n_write_flush P itf) (note_load 0 st))
         else st)"

text \<open>Bytes given to the stack arm the deadline, or go out at once when a packet's worth is there.\<close>

definition cdc_after_write :: "('b, 'u) usb_platform \<Rightarrow> u8 \<Rightarrow> u32 \<Rightarrow> ('b, 'u) usb_state \<Rightarrow> ('b, 'u) usb_state" where
  "cdc_after_write P itf written st =
     (let st = put_stats itf (cdc_tx_bytes_update (\<lambda>n. n + written)) (note_load 0 st);
          st = (if \<not> tx_flush_pending (usb_cdc_ports st itf)
                then let (deadline, st) = make_timeout_time_us (clock P) USB_CDC_FLUSH_LATENCY_US st
                     in put_cdc itf (tx_flush_deadline_update (\<lambda>_. deadline)) st
                else st);
          st = put_cdc itf (tx_flush_pending_update (\<lambda>_. True)) st
      in if written \<ge> PICO_UART_USB_CDC_BRIDGE_PASS_BUDGET \<or> tud_cdc_n_write_available P itf (usb st) = 0
         then put_cdc itf (tx_flush_pending_update (\<lambda>_. False)) (on_usb (tud_cdc_n_write_flush P itf) st)
         else st)"

definition usb_cdc_bridge_uart_to_usb :: "('b, 'u) usb_platform \<Rightarrow> u8 \<Rightarrow> ('b, 'u) usb_state \<Rightarrow> ('b, 'u) usb_state" where
  "usb_cdc_bridge_uart_to_usb P itf st =
     (let st = usb_cdc_flush_if_due P itf st;
          writable = tud_cdc_n_write_available P itf (usb st);
          st = put_stats itf (tx_fifo_high_watermark_update
                 (usb_cdc_update_high_watermark (PICO_UART_USB_CDC_TX_BUFFER_SIZE - writable))) st
      in if writable = 0
         then let (lost, st) = uart_driver_recover_rx (ucast itf) (between P st)
              in if lost \<noteq> 0 then note_load 0 st else st
         else let writable = (if writable > PICO_UART_USB_CDC_BRIDGE_PASS_BUDGET then PICO_UART_USB_CDC_BRIDGE_PASS_BUDGET
                              else writable)
              in case uart_driver_drain_rx (Suc (unat writable)) (pump_env P) (ucast itf) writable (Some (tud_cdc_n_write P itf))
                        (usb st) (Some (usb_cdc_rx_snapshot st)) UART_BRIDGE_RX_SNAPSHOT_SIZE (between P st) of
                   None \<Rightarrow> st
                 | Some (written, snapshot, u, st) \<Rightarrow>
                     let st = st\<lparr>usb := u, usb_cdc_rx_snapshot := the snapshot\<rparr>
                     in if written \<noteq> 0 then cdc_after_write P itf written st else st)"

section \<open>Sessions\<close>

definition usb_cdc_init :: "('b, 'u) usb_platform \<Rightarrow> ('b, 'u) usb_state \<Rightarrow> ('b, 'u) usb_state" where
  "usb_cdc_init P st =
     (let st = st\<lparr>usb_cdc_poll_start_itf := 0\<rparr>;
          st = fold (\<lambda>itf. put_cdc itf (\<lambda>port. port\<lparr>tx_flush_pending := False, tx_flush_deadline := nil_time\<rparr>)) all_itfs st
      in on_usb (\<lambda>u. tud_connect P (tud_disconnect P (tusb_init P u))) st)"

text \<open>The interface's own fields, back to a closed session; the counters stay.\<close>

definition cdc_close_session :: "usb_cdc_port_t \<Rightarrow> usb_cdc_port_t" where
  "cdc_close_session port = port\<lparr>admission := USB_CDC_START_PENDING,
     cdc_line_coding := (cdc_line_coding port)\<lparr>lc_pending := False, lc_deadline := nil_time\<rparr>,
     tx_flush_pending := False, tx_flush_deadline := nil_time\<rparr>"

definition reset_itf :: "('b, 'u) usb_platform \<Rightarrow> u8 \<Rightarrow> ('b, 'u) usb_state \<Rightarrow> ('b, 'u) usb_state" where
  "reset_itf P itf st =
     (let st = (if opened (cdc_stats (usb_cdc_ports st itf))
                then snd (uart_driver_request_channel_stop (ucast itf) (between P st)) else st);
          st = between P st;
          st = (if uart_driver_channel_stop_pending st (ucast itf)
                then uart_driver_channel_stop_usb_quiesced (ucast itf) (between P st) else st);
          st = put_stats itf (opened_update (\<lambda>_. False)) st;
          st = put_cdc itf cdc_close_session st
      in uart_driver_reset_soft_pending (ucast itf) (between P st))"

definition usb_cdc_reset_host_state :: "('b, 'u) usb_platform \<Rightarrow> ('b, 'u) usb_state \<Rightarrow> ('b, 'u) usb_state" where
  "usb_cdc_reset_host_state P st = fold (reset_itf P) all_itfs st"

definition tud_mount_cb :: "('b, 'u) usb_platform \<Rightarrow> ('b, 'u) usb_state \<Rightarrow> ('b, 'u) usb_state" where
  "tud_mount_cb P st = (usb_hid_reset_host_state P (usb_cdc_reset_host_state P st))\<lparr>usb_cdc_session_active := True\<rparr>"

definition tud_umount_cb :: "('b, 'u) usb_platform \<Rightarrow> ('b, 'u) usb_state \<Rightarrow> ('b, 'u) usb_state" where
  "tud_umount_cb P st = (usb_hid_reset_host_state P (usb_cdc_reset_host_state P st))\<lparr>usb_cdc_session_active := False\<rparr>"

definition tud_cdc_line_state_cb :: "('b, 'u) usb_platform \<Rightarrow> u8 \<Rightarrow> bool \<Rightarrow> bool \<Rightarrow> ('b, 'u) usb_state \<Rightarrow> ('b, 'u) usb_state" where
  "tud_cdc_line_state_cb P itf dtr rts st =
     (if itf < USB_CDC_PORT_COUNT
      then let was_open = opened (cdc_stats (usb_cdc_ports st itf));
               st = (if usb_cdc_dtr_close_should_stop_channel was_open dtr
                     then let st = put_cdc itf cdc_close_session st;
                              st = uart_driver_reset_soft_pending (ucast itf) (between P st);
                              (requested, st) = uart_driver_request_channel_stop (ucast itf) (between P st)
                          in if requested then put_cdc itf (reset_rx_flushed_update (\<lambda>_. False)) st else st
                     else if \<not> was_open \<and> dtr then put_cdc itf (admission_update (\<lambda>_. USB_CDC_START_PENDING)) st
                     else st)
           in put_stats itf (opened_update (\<lambda>_. dtr)) st
      else st)"

text \<open>Why a rejected line coding was rejected.\<close>

definition cdc_parse_reason :: "cdc_line_coding_t option \<Rightarrow> uart_driver_control_error_t" where
  "cdc_parse_reason p = (case p of None \<Rightarrow> UART_CONTROL_ERROR_OTHER
     | Some lc \<Rightarrow> if bit_rate lc < UART_LINE_CODING_BAUD_MIN \<or> bit_rate lc > UART_LINE_CODING_BAUD_MAX
                  then UART_CONTROL_ERROR_BAUD else UART_CONTROL_ERROR_FRAMING)"

definition cdc_backend_reason :: "('b, 'u) usb_state \<Rightarrow> u8 \<Rightarrow> uart_driver_line_coding_t \<Rightarrow> uart_driver_control_error_t" where
  "cdc_backend_reason st itf line_coding =
     (let (ok, i) = uart_driver_port_info st (ucast itf) (Some (info (ports st (ucast itf))))
      in if \<not> ok then UART_CONTROL_ERROR_OTHER
         else if info_backend (the i) = UART_DRIVER_BACKEND_PIO \<and>
                 (data_bits line_coding \<noteq> 8 \<or> stop_bits line_coding \<noteq> 1 \<or> parity line_coding \<noteq> UART_DRIVER_PARITY_NONE)
              then UART_CONTROL_ERROR_FRAMING else UART_CONTROL_ERROR_BAUD)"

definition tud_cdc_line_coding_cb :: "('b, 'u) usb_platform \<Rightarrow> u8 \<Rightarrow> cdc_line_coding_t option \<Rightarrow> ('b, 'u) usb_state \<Rightarrow>
    ('b, 'u) usb_state" where
  "tud_cdc_line_coding_cb P itf p_line_coding st =
     (if itf \<ge> USB_CDC_PORT_COUNT then st
      else let (parsed, line_coding) = (case p_line_coding of None \<Rightarrow> (False, Some zero_line_coding)
                 | Some p \<Rightarrow> uart_line_coding_from_usb (bit_rate p) (usb_stop_bits p) (usb_parity p) (usb_data_bits p)
                               (Some zero_line_coding))
      in if \<not> parsed then usb_cdc_reject_line_coding P itf (cdc_parse_reason p_line_coding) st
      else let st = between P st
      in if \<not> uart_driver_line_coding_acceptable st (ucast itf) line_coding
         then let st = between P st in usb_cdc_reject_line_coding P itf (cdc_backend_reason st itf (the line_coding)) st
      else usb_cdc_arm_soft_pending P itf (the line_coding) st)"

section \<open>The poll\<close>

text \<open>A stopping channel: its FIFOs are emptied, then the worker may go on.\<close>

definition cdc_quiesce :: "('b, 'u) usb_platform \<Rightarrow> u8 \<Rightarrow> ('b, 'u) usb_state \<Rightarrow> ('b, 'u) usb_state" where
  "cdc_quiesce P itf st =
     (let st = between P st
      in if uart_driver_channel_stop_is_quiesced st (ucast itf) then st
         else let st = (if \<not> reset_rx_flushed (usb_cdc_ports st itf)
                        then put_cdc itf (reset_rx_flushed_update (\<lambda>_. True)) (on_usb (tud_cdc_n_read_flush P itf) st) else st);
                  (cleared, u) = tud_cdc_n_write_clear P itf (usb st);
                  st = st\<lparr>usb := u\<rparr>
              in if cleared then uart_driver_channel_stop_usb_quiesced (ucast itf) (between P st) else st)"

text \<open>The start of a session: the settings first, then the start. \<open>False\<close> leaves the interface for this poll.\<close>

definition cdc_admit :: "('b, 'u) usb_platform \<Rightarrow> u8 \<Rightarrow> ('b, 'u) usb_state \<Rightarrow> bool \<times> ('b, 'u) usb_state" where
  "cdc_admit P itf st =
     (if admission (usb_cdc_ports st itf) \<noteq> USB_CDC_START_PENDING then (True, st)
      else let st = usb_cdc_apply_pending_line_coding P itf st
      in if lc_pending (lc_of st itf) then (False, st)
      else let (started, st) = uart_driver_request_channel_start (ucast itf) (between P st)
      in if \<not> started
         then (False, uart_driver_report_control_error (clock P) (ucast itf) UART_CONTROL_ERROR_BACKEND (between P st))
         else (True, put_cdc itf (admission_update (\<lambda>_. USB_CDC_STARTING)) st))"

text \<open>A ready port: its settings, and the end of the start once they are complete.\<close>

definition cdc_complete :: "('b, 'u) usb_platform \<Rightarrow> u8 \<Rightarrow> ('b, 'u) usb_state \<Rightarrow> bool \<times> ('b, 'u) usb_state" where
  "cdc_complete P itf st =
     (let st = usb_cdc_apply_pending_line_coding P itf st
      in if admission (usb_cdc_ports st itf) \<noteq> USB_CDC_STARTING then (True, st)
         else let st = between P st
              in if uart_driver_port_status st (ucast itf) AND
                    (UART_DRIVER_PORT_STATUS_CONTROL_PENDING OR UART_DRIVER_PORT_STATUS_CONTROL_ERROR OR
                     UART_DRIVER_PORT_STATUS_INIT_FAILED) \<noteq> 0 then (False, st)
                 else (True, put_cdc itf (admission_update (\<lambda>_. USB_CDC_RUNNING)) st))"

definition cdc_service :: "('b, 'u) usb_platform \<Rightarrow> u8 \<Rightarrow> ('b, 'u) usb_state \<Rightarrow> ('b, 'u) usb_state" where
  "cdc_service P itf st =
     (let st = between P st
      in if uart_driver_channel_stop_pending st (ucast itf) then cdc_quiesce P itf st
      else if \<not> opened (cdc_stats (usb_cdc_ports st itf))
      then if tud_cdc_n_available P itf (usb st) \<noteq> 0 then on_usb (tud_cdc_n_read_flush P itf) st else st
      else let (go, st) = cdc_admit P itf st
      in if \<not> go then st
      else let st = between P st
      in if \<not> uart_driver_port_is_ready st (ucast itf) then st
      else let (go, st) = cdc_complete P itf st
      in if \<not> go then st
      else usb_cdc_bridge_uart_to_usb P itf (usb_cdc_bridge_usb_to_uart P itf st))"

definition usb_callback :: "('b, 'u) usb_platform \<Rightarrow> usb_callback_t \<Rightarrow> ('b, 'u) usb_state \<Rightarrow> bool \<times> ('b, 'u) usb_state" where
  "usb_callback P cb st =
     (case cb of
        Tud_mount \<Rightarrow> (True, tud_mount_cb P st)
      | Tud_umount \<Rightarrow> (True, tud_umount_cb P st)
      | Tud_cdc_line_state itf dtr rts \<Rightarrow> (True, tud_cdc_line_state_cb P itf dtr rts st)
      | Tud_cdc_line_coding itf lc \<Rightarrow> (True, tud_cdc_line_coding_cb P itf lc st)
      | Hidd_control_xfer stage request received \<Rightarrow> hidd_control_xfer_wrap P stage request received st)"

text \<open>\<open>tud_task\<close>: the callbacks it makes, in order.\<close>

primrec tud_task :: "('b, 'u) usb_platform \<Rightarrow> nat \<Rightarrow> ('b, 'u) usb_state \<Rightarrow> ('b, 'u) usb_state" where
  "tud_task P 0 st = st"
| "tud_task P (Suc n) st =
     (let (cb, u) = tud_next P (usb st);
          (answer, st) = usb_callback P cb (st\<lparr>usb := u\<rparr>)
      in tud_task P n (on_usb (tud_answer P answer) st))"

definition usb_cdc_poll :: "('b, 'u) usb_platform \<Rightarrow> ('b, 'u) usb_state \<Rightarrow> ('b, 'u) usb_state" where
  "usb_cdc_poll P st =
     (let start_itf = usb_cdc_poll_start_itf st;
          st = (if tud_task_event_ready P (usb st) then note_load 0 st else st);
          st = tud_task P (tud_callbacks P (usb st)) st
      in if \<not> tud_mounted P (usb st)
         then if usb_cdc_session_active st then tud_umount_cb P st else st
         else let st = fold (\<lambda>offset. cdc_service P ((start_itf + offset) mod USB_CDC_PORT_COUNT)) all_itfs st
              in st\<lparr>usb_cdc_poll_start_itf := (start_itf + 1) mod USB_CDC_PORT_COUNT\<rparr>)"

section \<open>The main loop\<close>

text \<open>One pass of \<open>main\<close>; the watchdog is fed when the worker's heartbeat is fresh.\<close>

definition main_pass :: "('b, 'u) usb_platform \<Rightarrow> ('b, 'u) usb_state \<Rightarrow> bool \<times> ('b, 'u) usb_state" where
  "main_pass P st =
     (let (now, st) = read_clock (clock P) st;
          st = st\<lparr>load_meter := service_load_begin (load_meter st) 0 (ucast now)\<rparr>;
          st = usb_hid_poll P (usb_cdc_poll P st);
          (now, st) = read_clock (clock P) (between P st);
          (fresh, st) = uart_driver_worker_heartbeat_is_fresh (ucast (now div 1000)) st;
          (now, st) = read_clock (clock P) st
      in (fresh, st\<lparr>load_meter := service_load_end (load_meter st) 0 (ucast now)\<rparr>))"

end
