(* ===== verification/Usb_Facts.thy ===== *)
theory Usb_Facts
  imports Usb_Cdc
begin

text \<open>What the port facade and core 1 leave alone of the USB side's own state.\<close>

section \<open>The fields of core 0\<close>

text \<open>
  Everything the USB side owns: the port facade's operations and core 1 have no access to it. The state of an interface,
  of the HID side and of the stack are three parts, since they change at different places.
\<close>

definition hid_part :: "('b, 'u) usb_state \<Rightarrow> usb_hid_command_status_t \<times> u8 \<times> u8 \<times> u64 \<times> bool \<times> boot_state \<times> bool \<times> nat \<times> u8 list" where
  "hid_part st = (usb_hid_command_status st, usb_hid_command st, usb_hid_requested_profile st, usb_hid_reboot_deadline st,
     usb_hid_reboot_pending st, boot st, led st, resets st, usb_hid_identity st)"

definition own_part where
  "own_part st = (usb_cdc_ports st, hid_part st, usb st, usb_hid_channels st, usb_hid_next_channel st,
     usb_cdc_session_active st, usb_cdc_poll_start_itf st)"

lemma own_partD:
  assumes "own_part st' = own_part st"
  shows "usb_cdc_ports st' = usb_cdc_ports st" "hid_part st' = hid_part st" "usb st' = usb st"
    "usb_hid_channels st' = usb_hid_channels st" "usb_cdc_session_active st' = usb_cdc_session_active st"
    "usb_cdc_poll_start_itf st' = usb_cdc_poll_start_itf st"
  using assms by (simp_all add: own_part_def)

definition worker_only :: "('b, 'u) usb_platform \<Rightarrow> bool" where
  "worker_only P \<longleftrightarrow> (\<forall>n st. own_part (core1 P n st) = own_part st) \<and>
     (\<forall>n w. own_part (br_other (pump_env P n w)) = own_part (br_other w)) \<and>
     (\<forall>n st. status_lock (core1 P n st) = status_lock st)"

lemma own_between [simp]:
  assumes "worker_only P"
  shows "own_part (between P st) = own_part st"
proof -
  have "own_part (st\<lparr>core1_steps := n\<rparr>) = own_part st" for st :: "('a, 'b) usb_state" and n
    by (simp add: own_part_def hid_part_def)
  then show ?thesis using assms by (simp add: between_def worker_only_def)
qed

lemma own_plane [simp]:
  fixes st :: "('b, 'u) usb_state"
  shows "own_part (put_port p v st) = own_part st" "own_part (put_mailbox p m st) = own_part st"
    "own_part (put_pending p q st) = own_part st" "own_part (put_soft p b st) = own_part st"
    "own_part (put_generation p g st) = own_part st" "own_part (put_flags p f st) = own_part st"
    "own_part (put_backend p x st) = own_part st" "own_part (put_lifecycle p l st) = own_part st"
    "own_part (note_load c st) = own_part st" "own_part (st\<lparr>clock_reads := n\<rparr>) = own_part st"
    "own_part (st\<lparr>stats_sequence := q'\<rparr>) = own_part st" "own_part (st\<lparr>core1_steps := n\<rparr>) = own_part st"
    "own_part (st\<lparr>load_meter := lm\<rparr>) = own_part st" "own_part (st\<lparr>usb_cdc_rx_snapshot := s\<rparr>) = own_part st"
  by (simp_all add: own_part_def hid_part_def put_defs put_lifecycle_def note_load_def)

lemma own_clock [simp]:
  fixes st :: "('b, 'u) usb_state"
  shows "own_part (snd (read_clock c st)) = own_part st" "own_part (snd (time_reached c t st)) = own_part st"
    "own_part (snd (make_timeout_time_ms c ms st)) = own_part st" "own_part (snd (make_timeout_time_us c us st)) = own_part st"
    "own_part (uart_control_record_error c p r st) = own_part st"
  by (simp_all add: clock_defs make_timeout_time_us_def case_prod_beta own_part_def hid_part_def put_port_def)

lemma own_facade [simp]:
  fixes st :: "('b, 'u) usb_state"
  shows "own_part (snd (uart_driver_mark_control_pending p st)) = own_part st"
    "own_part (uart_driver_report_control_error c p r st) = own_part st"
    "own_part (uart_driver_report_soft_pending_error c p g r st) = own_part st"
    "own_part (uart_driver_reset_soft_pending p st) = own_part st"
    "own_part (snd (uart_driver_request_channel_stop p st)) = own_part st"
    "own_part (snd (uart_driver_request_channel_start p st)) = own_part st"
    "own_part (uart_driver_channel_stop_usb_quiesced p st) = own_part st"
    "own_part (snd (uart_driver_queue_line_coding c p lc g st)) = own_part st"
  by (simp_all add: uart_driver_mark_control_pending_def uart_driver_report_control_error_def
      uart_driver_report_soft_pending_error_def uart_driver_reset_soft_pending_def uart_driver_request_channel_stop_def
      uart_driver_request_channel_start_def uart_driver_channel_stop_usb_quiesced_def uart_driver_queue_line_coding_def
      queue_locked_def Let_def case_prod_beta split: option.splits)

section \<open>The pumps\<close>

lemma own_interfere [simp]:
  assumes "worker_only P"
  shows "own_part (br_other (interfere (pump_env P) w)) = own_part (br_other w)"
  using assms by (simp add: interfere_def worker_only_def)

lemma own_fill_loop:
  assumes "worker_only P"
  shows "bridge_fill_loop fuel (pump_env P) reader cap n ctx w = Some (m, ctx', w') \<Longrightarrow>
    own_part (br_other w') = own_part (br_other w)"
proof (induction fuel arbitrary: n ctx w)
  case (Suc fuel)
  show ?case
    using Suc.prems
    by (auto simp: Let_def case_prod_beta assms split: if_splits dest!: Suc.IH)
qed simp

lemma own_snapshot_copy:
  assumes "worker_only P"
  shows "own_part (br_other (snd (snapshot_copy (pump_env P) off i n snapshot w))) = own_part (br_other w)"
  by (induction n arbitrary: i snapshot w) (simp_all add: Let_def assms)

lemma own_take_snapshot:
  assumes "worker_only P"
  shows "own_part (br_other (snd (snd (bridge_take_snapshot (pump_env P) current cap scap n snapshot w)))) = own_part (br_other w)"
  by (simp add: bridge_take_snapshot_def snapshot_valid_def Let_def case_prod_beta assms own_snapshot_copy)

lemma own_drain_loop:
  assumes "worker_only P"
  shows "bridge_drain_loop fuel (pump_env P) writer current cap scap n snapshot ctx w = Some (m, snapshot', ctx', w') \<Longrightarrow>
    own_part (br_other w') = own_part (br_other w)"
proof (induction fuel arbitrary: n snapshot ctx w)
  case (Suc fuel)
  have t: "own_part (br_other w1) = own_part (br_other w)"
    if "snd (bridge_take_snapshot (pump_env P) current cap scap n snapshot w) = (s1, w1)" for s1 w1
    using own_take_snapshot [OF assms, of current cap scap n snapshot w] that by simp
  show ?case
    using Suc.prems
    by (auto simp: Let_def case_prod_beta assms t split: if_splits prod.splits drain_verdict.splits dest!: Suc.IH dest: t)
qed simp

lemma own_pump_state:
  fixes w :: "('b, 'u) usb_state bridge_world"
  shows "own_part (pump_state p put w) = own_part (br_other w)"
  by (simp add: pump_state_def Let_def)

lemma own_fill:
  assumes "worker_only P" "uart_driver_fill_tx fuel (pump_env P) p cap reader ctx st = Some (n, ctx', st')"
  shows "own_part st' = own_part st"
  using assms(2) own_fill_loop [OF assms(1)]
  by (auto simp: uart_driver_fill_tx_def uart_bridge_fill_tx_def pump_world_def Let_def own_pump_state
      split: option.splits if_splits dest!: own_fill_loop [OF assms(1)])

lemma own_drain:
  assumes "worker_only P" "uart_driver_drain_rx fuel (pump_env P) p cap writer ctx snapshot scap st = Some (n, s', ctx', st')"
  shows "own_part st' = own_part st"
  using assms(2)
  by (auto simp: uart_driver_drain_rx_def uart_bridge_drain_rx_def pump_world_def Let_def own_pump_state assms(1)
      split: option.splits if_splits dest!: own_drain_loop [OF assms(1)])

lemma own_recover:
  fixes st :: "('b, 'u) usb_state"
  shows "own_part (snd (uart_driver_recover_rx p st)) = own_part st"
  by (simp add: uart_driver_recover_rx_def uart_bridge_recover_rx_def pump_world_def Let_def case_prod_beta own_pump_state
      split: option.splits)

section \<open>The same for single fields\<close>

lemmas own_all = own_facade own_clock own_plane own_recover

lemmas ports_keep [simp] = own_all [THEN own_partD(1)] own_between [THEN own_partD(1)]
lemmas hid_keep [simp] = own_all [THEN own_partD(2)] own_between [THEN own_partD(2)]
lemmas usb_keep [simp] = own_all [THEN own_partD(3)] own_between [THEN own_partD(3)]

lemma put_cdc_parts [simp]:
  "usb_cdc_ports (put_cdc itf f st) = (usb_cdc_ports st)(itf := f (usb_cdc_ports st itf))"
  "hid_part (put_cdc itf f st) = hid_part st" "usb (put_cdc itf f st) = usb st"
  by (simp_all add: put_cdc_def hid_part_def)

lemma on_usb_parts [simp]:
  "usb_cdc_ports (on_usb g st) = usb_cdc_ports st" "hid_part (on_usb g st) = hid_part st" "usb (on_usb g st) = g (usb st)"
  "hid_part (st\<lparr>usb := u\<rparr>) = hid_part st" "hid_part (st\<lparr>usb_cdc_rx_snapshot := sn\<rparr>) = hid_part st"
  by (simp_all add: on_usb_def hid_part_def)

end
