(* ===== verification/Usb_Hid_Facts.thy ===== *)
theory Usb_Hid_Facts
  imports Usb_Facts
begin

text \<open>What the HID side changes: captures and reports leave the interfaces and the command state alone.\<close>

lemma between_parts:
  assumes "worker_only P"
  shows "usb_cdc_ports (core1 P n st) = usb_cdc_ports st" "hid_part (core1 P n st) = hid_part st"
    "usb_hid_channels (core1 P n st) = usb_hid_channels st"
  using assms by (simp_all add: worker_only_def own_part_def)

lemma read_stats_keep:
  assumes "\<And>k st. f (env k st) = f st"
  shows "f (snd (read_port_stats p env k st)) = f st"
  by (simp add: read_port_stats_def Let_def assms)

lemma stats_loop_keep:
  assumes "\<And>k st. f (env k st) = f st"
  shows "f (snd (port_stats_loop n p env k st)) = f st"
  by (induction n arbitrary: k st) (simp_all add: Let_def case_prod_beta assms read_stats_keep [where f = f and env = env])

lemma port_stats_keep:
  assumes "\<And>k st. f (env k st) = f st"
  shows "f (snd (snd (uart_driver_port_stats p env s st))) = f st"
  using stats_loop_keep [where f = f and env = env and n = UART_DRIVER_STATS_SNAPSHOT_ATTEMPTS and p = p and k = 0 and st = st, OF assms]
  by (simp add: uart_driver_port_stats_def Let_def case_prod_beta split: option.splits prod.splits)

lemma put_channel_parts [simp]:
  "usb_cdc_ports (put_channel i f st) = usb_cdc_ports st" "hid_part (put_channel i f st) = hid_part st"
  "usb (put_channel i f st) = usb st"
  "usb_hid_channels (put_channel i f st) = (usb_hid_channels st)(i := f (usb_hid_channels st i))"
  by (simp_all add: put_channel_def hid_part_def)

lemma steps_parts [simp]:
  "hid_part (st\<lparr>core1_steps := n\<rparr>) = hid_part st" "hid_part (st\<lparr>usb_hid_next_channel := c\<rparr>) = hid_part st"
  "hid_part (st\<lparr>usb_hid_next_fault_sample_ms := m\<rparr>) = hid_part st" "hid_part (st\<lparr>usb_hid_control_buffer := b\<rparr>) = hid_part st"
  "hid_part (st\<lparr>usb_cdc_session_active := a\<rparr>) = hid_part st" "hid_part (st\<lparr>usb_cdc_poll_start_itf := s\<rparr>) = hid_part st"
  "hid_part (st\<lparr>load_meter := lm\<rparr>) = hid_part st"
  by (simp_all add: hid_part_def)

lemma capture_parts:
  assumes "worker_only P"
  shows "usb_cdc_ports (snd (usb_hid_capture P i st)) = usb_cdc_ports st"
    "hid_part (snd (usb_hid_capture P i st)) = hid_part st"
  using assms
  by (simp_all add: usb_hid_capture_def Let_def case_prod_beta between_parts [OF assms]
      port_stats_keep [where f = usb_cdc_ports] port_stats_keep [where f = hid_part])

lemma build_parts:
  assumes "worker_only P"
  shows "usb_cdc_ports (snd (snd (usb_hid_build_channel P i b pub now st))) = usb_cdc_ports st"
    "hid_part (snd (snd (usb_hid_build_channel P i b pub now st))) = hid_part st"
    "usb_cdc_ports (snd (snd (usb_hid_build_telemetry P b st))) = usb_cdc_ports st"
    "hid_part (snd (snd (usb_hid_build_telemetry P b st))) = hid_part st"
    "usb_cdc_ports (snd (usb_hid_build_diagnostic P i b st)) = usb_cdc_ports st"
    "hid_part (snd (usb_hid_build_diagnostic P i b st)) = hid_part st"
  using assms
  by (simp_all add: usb_hid_build_channel_def usb_hid_build_telemetry_def usb_hid_build_diagnostic_def Let_def case_prod_beta)

lemmas hid_report_parts = capture_parts build_parts

lemma report_payload_parts:
  assumes "worker_only P"
  shows "usb_cdc_ports (snd (snd (hid_report_payload P r t st))) = usb_cdc_ports st"
    "hid_part (snd (snd (hid_report_payload P r t st))) = hid_part st"
  by (simp_all add: hid_report_payload_def Let_def case_prod_beta hid_report_parts [OF assms])

lemma get_report_parts:
  assumes "worker_only P"
  shows "usb_cdc_ports (snd (snd (tud_hid_get_report_cb P i r t b n st))) = usb_cdc_ports st"
    "hid_part (snd (snd (tud_hid_get_report_cb P i r t b n st))) = hid_part st"
  by (simp_all add: tud_hid_get_report_cb_def Let_def case_prod_beta report_payload_parts [OF assms])

lemma control_get_parts:
  assumes "worker_only P"
  shows "usb_cdc_ports (snd (hid_control_get P stage r st)) = usb_cdc_ports st"
    "hid_part (snd (hid_control_get P stage r st)) = hid_part st"
  by (simp_all add: hid_control_get_def control_send_def Let_def case_prod_beta get_report_parts [OF assms])

lemma reset_hid_parts [simp]:
  "usb_cdc_ports (usb_hid_reset_host_state P st) = usb_cdc_ports st"
  "hid_part (usb_hid_reset_host_state P st) = hid_part st"
proof -
  have "usb_cdc_ports (fold (reset_channel P) is st) = usb_cdc_ports st \<and> hid_part (fold (reset_channel P) is st) = hid_part st" for "is"
    by (induction "is" arbitrary: st) (simp_all add: reset_channel_def Let_def case_prod_beta)
  then show "usb_cdc_ports (usb_hid_reset_host_state P st) = usb_cdc_ports st"
    "hid_part (usb_hid_reset_host_state P st) = hid_part st"
    by (simp_all add: usb_hid_reset_host_state_def)
qed

lemma publish_parts:
  assumes "worker_only P"
  shows "usb_cdc_ports (hid_publish P now offsets st) = usb_cdc_ports st"
    "hid_part (hid_publish P now offsets st) = hid_part st"
  by (induction offsets) (simp_all add: Let_def case_prod_beta hid_report_parts [OF assms])

lemma sample_parts:
  assumes "worker_only P"
  shows "usb_cdc_ports (hid_sample_faults P now st) = usb_cdc_ports st"
    "hid_part (hid_sample_faults P now st) = hid_part st"
proof -
  have "usb_cdc_ports (fold (\<lambda>i st. snd (usb_hid_capture P i st)) is st) = usb_cdc_ports st \<and>
    hid_part (fold (\<lambda>i st. snd (usb_hid_capture P i st)) is st) = hid_part st" for "is"
    by (induction "is" arbitrary: st) (simp_all add: capture_parts [OF assms])
  then show "usb_cdc_ports (hid_sample_faults P now st) = usb_cdc_ports st"
    "hid_part (hid_sample_faults P now st) = hid_part st"
    by (simp_all add: hid_sample_faults_def)
qed

lemma command_ports [simp]:
  "usb_cdc_ports (usb_hid_set_result a s e st) = usb_cdc_ports st" "usb_cdc_ports (led_set P on st) = usb_cdc_ports st"
  "usb_cdc_ports (snd (usb_hid_handle_command P r n st)) = usb_cdc_ports st"
  "usb_cdc_ports (snd (hid_control_set P stage req rcv st)) = usb_cdc_ports st"
  "usb_cdc_ports (usb_hid_execute_pending_save P st) = usb_cdc_ports st"
proof -
  show *: "usb_cdc_ports (usb_hid_set_result a s e st) = usb_cdc_ports st" "usb_cdc_ports (led_set P on st) = usb_cdc_ports st"
    for st :: "('a, 'b) usb_state" and a s e on
    by (simp_all add: usb_hid_set_result_def led_set_def)
  show c: "usb_cdc_ports (snd (usb_hid_handle_command P r n st)) = usb_cdc_ports st" for r n st
    by (simp add: usb_hid_handle_command_def Let_def case_prod_beta *)
  show "usb_cdc_ports (snd (hid_control_set P stage req rcv st)) = usb_cdc_ports st"
    by (simp add: hid_control_set_def control_send_def Let_def case_prod_beta * c)
  show "usb_cdc_ports (usb_hid_execute_pending_save P st) = usb_cdc_ports st"
    by (simp add: usb_hid_execute_pending_save_def Let_def case_prod_beta *)
qed

lemma hid_poll_ports:
  assumes "worker_only P"
  shows "usb_cdc_ports (usb_hid_poll P st) = usb_cdc_ports st"
  by (simp add: usb_hid_poll_def Let_def case_prod_beta publish_parts [OF assms] sample_parts [OF assms])

lemma control_xfer_ports:
  assumes "worker_only P"
  shows "usb_cdc_ports (snd (hidd_control_xfer_wrap P stage r rcv st)) = usb_cdc_ports st"
  by (simp add: hidd_control_xfer_wrap_def Let_def case_prod_beta control_get_parts [OF assms])

end
