(* ===== verification/Usb_Demo.thy ===== *)
theory Usb_Demo
  imports Usb_Hid_Facts Control_Properties
begin

text \<open>
  A host and a board for the witnesses of the USB side: a stack that makes a list of callbacks and accepts every byte,
  and a core 1 that beats its heart.
\<close>

record demo_host =
  host_calls :: "usb_callback_t list"
  host_bytes :: "u8 list"
  host_got :: "u8 list list"

definition demo_state :: "demo_host \<Rightarrow> (demo_port, demo_host) usb_state" where
  "demo_state host = uart_driver_state_t.extend demo_boot
     \<lparr>usb_cdc_ports = (\<lambda>itf. \<lparr>cdc_line_coding = \<lparr>lc_pending = False, lc_generation = 0, lc_deadline = 0,
          lc_coding = demo_coding0\<rparr>,
        cdc_stats = zero_cdc_stats, tx_flush_deadline = 0, admission = USB_CDC_START_PENDING, reset_rx_flushed = False,
        tx_flush_pending = False\<rparr>),
      usb_cdc_poll_start_itf = 0, usb_cdc_rx_snapshot = replicate 1024 0, usb_cdc_session_active = False,
      usb_hid_channels = (\<lambda>i. zero_channel), usb_hid_identity = (replicate 27 0)[17 := 7],
      usb_hid_configuration = replicate 36 0, usb_hid_command_status = USB_HID_STATUS_IDLE, usb_hid_command = 0,
      usb_hid_requested_profile = 0, usb_hid_error_reason = 0, usb_hid_reboot_deadline = 0,
      usb_hid_reboot_pending = False, usb_hid_next_channel = 0, usb_hid_next_fault_sample_ms = 0,
      usb_hid_control_buffer = replicate 64 0,
      boot = \<lparr>boot_config_settings = \<lparr>clock_profile = 0\<rparr>, boot_config_status = boot_config_decode False None 0 False,
        flash_sector = replicate 4096 0xFF\<rparr>,
      led = False, resets = 0, usb = host, core1_steps = 0\<rparr>"

definition demo_usb_platform :: "(demo_port, demo_host) usb_platform" where
  "demo_usb_platform = \<lparr>
     tusb_init = id, tud_disconnect = id, tud_connect = id,
     tud_task_event_ready = (\<lambda>u. host_calls u \<noteq> []),
     tud_callbacks = (\<lambda>u. length (host_calls u)),
     tud_next = (\<lambda>u. (hd (host_calls u), u\<lparr>host_calls := tl (host_calls u)\<rparr>)),
     tud_answer = (\<lambda>b u. u), tud_mounted = (\<lambda>u. True),
     tud_cdc_n_available = (\<lambda>itf u. of_nat (length (host_bytes u))),
     tud_cdc_n_read = (\<lambda>itf u n. let k = min (unat n) (length (host_bytes u))
        in (take k (host_bytes u), of_nat k, u\<lparr>host_bytes := drop k (host_bytes u)\<rparr>)),
     tud_cdc_n_read_flush = (\<lambda>itf u. u\<lparr>host_bytes := []\<rparr>),
     tud_cdc_n_write = (\<lambda>itf u bytes. (of_nat (length bytes), u\<lparr>host_got := bytes # host_got u\<rparr>)),
     tud_cdc_n_write_available = (\<lambda>itf u. 2048), tud_cdc_n_write_flush = (\<lambda>itf u. u),
     tud_cdc_n_write_clear = (\<lambda>itf u. (True, u)), tud_hid_ready = (\<lambda>u. True),
     tud_hid_report = (\<lambda>r bytes u. (True, u\<lparr>host_got := bytes # host_got u\<rparr>)),
     tud_control_xfer = (\<lambda>r bytes u. (True, u\<lparr>host_got := bytes # host_got u\<rparr>)),
     hidd_control_xfer_cb = (\<lambda>s r u. (True, u)), clock = (\<lambda>n. 5), led_available = True,
     temperature_centidegrees = (\<lambda>u. Some 2500), sys_clock_hz = (\<lambda>u. 125000000),
     unique_board_id = [1, 2, 3, 4, 5, 6, 7, 8], firmware_version = (1, 0, 0), board_model = 1, rp2350 = False,
     allow_hid_reset = True, reset_cause = 0, sram_bytes = 270336, ram_reserved_bytes = 65536,
     flash_range_erase = (\<lambda>s. replicate (length s) 0xFF), flash_range_program = (\<lambda>page s. page @ drop (length page) s),
     flash_safe_execute = (\<lambda>f s. (True, f s)), uninitialised = replicate 36 0xAA,
     core1 = (\<lambda>n st. st\<lparr>worker_heartbeat := worker_heartbeat st + 1\<rparr>),
     pump_env = (\<lambda>n w. w\<lparr>br_stats_sequence := br_stats_sequence w + 2\<rparr>)\<rparr>"

lemma demo_usb_worker: "worker_only demo_usb_platform"
  by (simp add: worker_only_def demo_usb_platform_def own_part_def hid_part_def)

lemma demo_state_simps [simp]:
  "usb (demo_state host) = host" "usb_hid_command_status (demo_state host) = USB_HID_STATUS_IDLE"
  "\<not> usb_hid_reboot_pending (demo_state host)" "usb_hid_identity (demo_state host) = (replicate 27 0)[17 := 7]"
  "cdc_stats (usb_cdc_ports (demo_state host) i) = zero_cdc_stats" "resets (demo_state host) = 0"
  "usb_hid_control_buffer (demo_state host) = replicate 64 0" "clock_reads (demo_state host) = 0"
  by (simp_all add: demo_state_def uart_driver_state_t.defs demo_boot_def)

end
