(* ===== verification/Usb_Sessions.thy ===== *)
theory Usb_Sessions
  imports Usb_Demo
begin

text \<open>
  The sessions of the CDC interfaces: when bytes may move, how long a request may wait, and how long bytes may wait for
  their packet.
\<close>

section \<open>One interface at a time\<close>

text \<open>\<open>itf_step R itf st st'\<close>: the interface's record moved by \<open>R\<close>, the other interfaces and the HID side are as before.\<close>

definition itf_step :: "(usb_cdc_port_t \<Rightarrow> usb_cdc_port_t \<Rightarrow> bool) \<Rightarrow> u8 \<Rightarrow> ('b, 'u) usb_state \<Rightarrow> ('b, 'u) usb_state \<Rightarrow> bool" where
  "itf_step R itf st st' \<longleftrightarrow> (\<forall>j. j \<noteq> itf \<longrightarrow> usb_cdc_ports st' j = usb_cdc_ports st j) \<and>
     R (usb_cdc_ports st itf) (usb_cdc_ports st' itf) \<and> hid_part st' = hid_part st"

lemma itf_step_trans:
  "itf_step R itf st st' \<Longrightarrow> itf_step R itf st' st'' \<Longrightarrow> transp R \<Longrightarrow> itf_step R itf st st''"
  by (auto simp: itf_step_def elim: transpE)

lemma itf_step_mono: "itf_step R itf st st' \<Longrightarrow> (\<And>p q. R p q \<Longrightarrow> S p q) \<Longrightarrow> itf_step S itf st st'"
  by (simp add: itf_step_def)

definition lc_only :: "usb_cdc_port_t \<Rightarrow> usb_cdc_port_t \<Rightarrow> bool" where
  "lc_only p q \<longleftrightarrow> cdc_stats q = cdc_stats p \<and> tx_flush_deadline q = tx_flush_deadline p \<and> admission q = admission p \<and>
     reset_rx_flushed q = reset_rx_flushed p \<and> tx_flush_pending q = tx_flush_pending p"

lemma put_lc_parts [simp]:
  "usb_cdc_ports (put_lc itf f st) = (usb_cdc_ports st)(itf := cdc_line_coding_update f (usb_cdc_ports st itf))"
  "hid_part (put_lc itf f st) = hid_part st" "usb (put_lc itf f st) = usb st"
  by (simp_all add: put_lc_def)

lemma apply_pending_itf:
  assumes "worker_only P"
  shows "itf_step lc_only itf st (usb_cdc_apply_pending_line_coding P itf st)"
  using assms by (simp add: usb_cdc_apply_pending_line_coding_def itf_step_def lc_only_def Let_def case_prod_beta)

section \<open>What a service of an interface may do\<close>

definition admission_rank :: "usb_cdc_admission_t \<Rightarrow> nat" where
  "admission_rank a = (case a of USB_CDC_START_PENDING \<Rightarrow> 0 | USB_CDC_STARTING \<Rightarrow> 1 | USB_CDC_RUNNING \<Rightarrow> 2)"

lemma admission_rank_top: "2 \<le> admission_rank a \<longleftrightarrow> a = USB_CDC_RUNNING"
  by (cases a) (simp_all add: admission_rank_def)

lemma admission_rank_simps [simp]:
  "admission_rank USB_CDC_START_PENDING = 0" "admission_rank USB_CDC_STARTING = 1" "admission_rank USB_CDC_RUNNING = 2"
  by (simp_all add: admission_rank_def)

text \<open>Bytes are counted, or wait for a flush, only for a running session; the admission moves forward only.\<close>

definition session_step :: "usb_cdc_port_t \<Rightarrow> usb_cdc_port_t \<Rightarrow> bool" where
  "session_step p q \<longleftrightarrow> opened (cdc_stats q) = opened (cdc_stats p) \<and> admission_rank (admission p) \<le> admission_rank (admission q) \<and>
     (admission q \<noteq> admission p \<longrightarrow> opened (cdc_stats p)) \<and>
     (cdc_tx_bytes (cdc_stats q) \<noteq> cdc_tx_bytes (cdc_stats p) \<or> cdc_rx_bytes (cdc_stats q) \<noteq> cdc_rx_bytes (cdc_stats p) \<or>
      tx_flush_pending q \<and> \<not> tx_flush_pending p \<longrightarrow> opened (cdc_stats q) \<and> admission q = USB_CDC_RUNNING)"

lemma session_step_refl: "session_step p p"
  by (simp add: session_step_def)

lemma session_step_trans: "transp session_step"
proof (rule transpI)
  fix p q r assume pq: "session_step p q" and qr: "session_step q r"
  have "admission q = USB_CDC_RUNNING \<Longrightarrow> admission r = USB_CDC_RUNNING"
    using qr admission_rank_top [of "admission r"] by (simp add: session_step_def)
  then show "session_step p r"
    using pq qr by (auto simp: session_step_def)
qed

lemma lc_only_session: "lc_only p q \<Longrightarrow> session_step p q"
  by (simp add: lc_only_def session_step_def)

lemma itf_step_same: "usb_cdc_ports st' = usb_cdc_ports st \<Longrightarrow> hid_part st' = hid_part st \<Longrightarrow> itf_step session_step itf st st'"
  by (simp add: itf_step_def session_step_refl)

lemma put_stats_parts [simp]:
  "usb_cdc_ports (put_stats itf f st) = (usb_cdc_ports st)(itf := cdc_stats_update f (usb_cdc_ports st itf))"
  "hid_part (put_stats itf f st) = hid_part st" "usb (put_stats itf f st) = usb st"
  by (simp_all add: put_stats_def)

lemma quiesce_itf:
  assumes "worker_only P"
  shows "itf_step session_step itf st (cdc_quiesce P itf st)"
  using assms by (simp add: cdc_quiesce_def itf_step_def session_step_def Let_def case_prod_beta)

lemma admit_itf:
  assumes "worker_only P" "opened (cdc_stats (usb_cdc_ports st itf))"
  shows "itf_step session_step itf st (snd (cdc_admit P itf st))"
proof -
  have a: "itf_step session_step itf st (usb_cdc_apply_pending_line_coding P itf st)"
    by (rule itf_step_mono [OF apply_pending_itf [OF assms(1)] lc_only_session])
  have b: "itf_step session_step itf (usb_cdc_apply_pending_line_coding P itf st) (snd (cdc_admit P itf st))"
    if "admission (usb_cdc_ports st itf) = USB_CDC_START_PENDING"
    using that assms apply_pending_itf [OF assms(1), of itf st]
    by (simp add: cdc_admit_def itf_step_def session_step_def lc_only_def Let_def case_prod_beta)
  show ?thesis
  proof (cases "admission (usb_cdc_ports st itf) = USB_CDC_START_PENDING")
    case True then show ?thesis by (rule itf_step_trans [OF a b session_step_trans])
  next
    case False then show ?thesis by (simp add: cdc_admit_def itf_step_same)
  qed
qed

lemma complete_itf:
  assumes "worker_only P" "opened (cdc_stats (usb_cdc_ports st itf))"
  shows "itf_step session_step itf st (snd (cdc_complete P itf st))"
  using assms apply_pending_itf [OF assms(1), of itf st]
  by (simp add: cdc_complete_def itf_step_def session_step_def lc_only_def Let_def case_prod_beta)

lemma complete_runs:
  assumes "worker_only P" "fst (cdc_complete P itf st)" "admission (usb_cdc_ports st itf) \<noteq> USB_CDC_START_PENDING"
  shows "admission (usb_cdc_ports (snd (cdc_complete P itf st)) itf) = USB_CDC_RUNNING"
  using assms apply_pending_itf [OF assms(1), of itf st]
  by (cases "admission (usb_cdc_ports st itf)")
    (simp_all add: cdc_complete_def itf_step_def lc_only_def Let_def case_prod_beta split: if_splits)

lemma fill_keep:
  assumes "worker_only P" "uart_driver_fill_tx fuel (pump_env P) p cap reader ctx st = Some (n, ctx', st')"
  shows "usb_cdc_ports st' = usb_cdc_ports st \<and> hid_part st' = hid_part st"
  using own_fill [OF assms] by (simp add: own_part_def)

lemma drain_keep:
  assumes "worker_only P" "uart_driver_drain_rx fuel (pump_env P) p cap writer ctx snapshot scap st = Some (n, s', ctx', st')"
  shows "usb_cdc_ports st' = usb_cdc_ports st \<and> hid_part st' = hid_part st"
  using own_drain [OF assms] by (simp add: own_part_def)

lemma usb_to_uart_itf:
  assumes "worker_only P" "opened (cdc_stats (usb_cdc_ports st itf))" "admission (usb_cdc_ports st itf) = USB_CDC_RUNNING"
  shows "itf_step session_step itf st (usb_cdc_bridge_usb_to_uart P itf st)"
proof -
  define st1 where "st1 = put_stats itf (rx_fifo_high_watermark_update
    (usb_cdc_update_high_watermark (tud_cdc_n_available P itf (usb st)))) st"
  have 1: "itf_step session_step itf st st1"
    by (simp add: st1_def itf_step_def session_step_def)
  have 2: "itf_step session_step itf st s" if "usb_cdc_ports s = usb_cdc_ports st1 \<and> hid_part s = hid_part st" for s
    using 1 that by (simp add: itf_step_def)
  have 3: "itf_step session_step itf st (put_stats itf (cdc_rx_bytes_update g) s)"
    if "usb_cdc_ports s = usb_cdc_ports st1 \<and> hid_part s = hid_part st" for s g
    using that assms(2,3) by (simp add: itf_step_def session_step_def st1_def)
  define cap where "cap = (let available = tud_cdc_n_available P itf (usb st) in
    if available > PICO_UART_USB_CDC_BRIDGE_PASS_BUDGET then PICO_UART_USB_CDC_BRIDGE_PASS_BUDGET else available)"
  define r where "r = uart_driver_fill_tx (Suc (unat cap)) (pump_env P) (ucast itf) cap (Some (tud_cdc_n_read P itf)) (usb st1)
    (between P st1)"
  have 4: "usb_cdc_ports (s\<lparr>usb := u\<rparr>) = usb_cdc_ports st1 \<and> hid_part (s\<lparr>usb := u\<rparr>) = hid_part st"
    if "r = Some (n, u, s)" for n u s
    using fill_keep [OF assms(1) that [unfolded r_def]] assms(1) by (simp add: st1_def)
  have 5: "usb_cdc_bridge_usb_to_uart P itf st = (if tud_cdc_n_available P itf (usb st) = 0 then st1
      else case r of None \<Rightarrow> st1
        | Some (n, u, s) \<Rightarrow> if n \<noteq> 0 then put_stats itf (cdc_rx_bytes_update (\<lambda>m. m + n)) (note_load 0 (s\<lparr>usb := u\<rparr>)) else s\<lparr>usb := u\<rparr>)"
    unfolding usb_cdc_bridge_usb_to_uart_def Let_def st1_def [symmetric] cap_def r_def by (rule HOL.refl)
  show ?thesis
  proof (cases r)
    case None then show ?thesis using 1 by (simp add: 5)
  next
    case (Some x)
    obtain n u s where x: "x = (n, u, s)" by (cases x)
    have 6: "itf_step session_step itf st (s\<lparr>usb := u\<rparr>)"
      by (rule 2) (rule 4 [OF Some [unfolded x]])
    have "itf_step session_step itf st (put_stats itf (cdc_rx_bytes_update g) (note_load 0 (s\<lparr>usb := u\<rparr>)))" for g
      by (rule 3) (use 4 [OF Some [unfolded x]] in simp)
    then show ?thesis using 1 6 by (simp add: 5 Some x)
  qed
qed

lemma flush_if_due_itf:
  shows "usb_cdc_ports (usb_cdc_flush_if_due P itf st) =
    (usb_cdc_ports st)(itf := (usb_cdc_ports st itf)\<lparr>tx_flush_pending := tx_flush_pending (usb_cdc_ports st itf) \<and>
       \<not> fst (time_reached (clock P) (tx_flush_deadline (usb_cdc_ports st itf)) st)\<rparr>)"
    "hid_part (usb_cdc_flush_if_due P itf st) = hid_part st"
  by (auto simp: usb_cdc_flush_if_due_def Let_def case_prod_beta)

lemma after_write_itf:
  assumes "opened (cdc_stats (usb_cdc_ports st itf))" "admission (usb_cdc_ports st itf) = USB_CDC_RUNNING"
  shows "itf_step session_step itf st (cdc_after_write P itf n st)"
  using assms by (simp add: cdc_after_write_def itf_step_def session_step_def Let_def case_prod_beta)

lemma uart_to_usb_itf:
  assumes w: "worker_only P" and o: "opened (cdc_stats (usb_cdc_ports st itf))"
    and r: "admission (usb_cdc_ports st itf) = USB_CDC_RUNNING"
  shows "itf_step session_step itf st (usb_cdc_bridge_uart_to_usb P itf st)"
proof -
  define mark where "mark s = put_stats itf (tx_fifo_high_watermark_update (usb_cdc_update_high_watermark
    (PICO_UART_USB_CDC_TX_BUFFER_SIZE - tud_cdc_n_write_available P itf (usb s)))) s" for s :: "('a, 'b) usb_state"
  define st1 where "st1 = usb_cdc_flush_if_due P itf st"
  have 1: "itf_step session_step itf st (mark st1)"
    using o r by (simp add: mark_def st1_def flush_if_due_itf itf_step_def session_step_def)
  have 2: "itf_step session_step itf (mark st1) st'" "opened (cdc_stats (usb_cdc_ports st' itf))"
    "admission (usb_cdc_ports st' itf) = USB_CDC_RUNNING"
    if "usb_cdc_ports st' = usb_cdc_ports (mark st1)" "hid_part st' = hid_part st" for st' :: "('a, 'b) usb_state"
    using that o r by (simp_all add: mark_def st1_def flush_if_due_itf itf_step_def session_step_refl)
  have 3: "itf_step session_step itf (mark st1) (cdc_after_write P itf n st')"
    if "usb_cdc_ports st' = usb_cdc_ports (mark st1)" "hid_part st' = hid_part st" for st' :: "('a, 'b) usb_state" and n
    by (rule itf_step_trans [OF 2(1) [OF that] after_write_itf [OF 2(2, 3) [OF that]] session_step_trans])
  let ?writable = "tud_cdc_n_write_available P itf (usb (mark st1))"
  define cap where "cap = (if ?writable > PICO_UART_USB_CDC_BRIDGE_PASS_BUDGET then PICO_UART_USB_CDC_BRIDGE_PASS_BUDGET else ?writable)"
  define lost where "lost = uart_driver_recover_rx (ucast itf) (between P (mark st1))"
  define d where "d = uart_driver_drain_rx (Suc (unat cap)) (pump_env P) (ucast itf) cap (Some (tud_cdc_n_write P itf)) (usb (mark st1))
    (Some (usb_cdc_rx_snapshot (mark st1))) UART_BRIDGE_RX_SNAPSHOT_SIZE (between P (mark st1))"
  have 4: "usb_cdc_ports (s\<lparr>usb := u, usb_cdc_rx_snapshot := b\<rparr>) = usb_cdc_ports (mark st1)"
    "hid_part (s\<lparr>usb := u, usb_cdc_rx_snapshot := b\<rparr>) = hid_part st" if "d = Some (n, sn, u, s)" for n sn u s b
    using drain_keep [OF w that [unfolded d_def]] w by (simp_all add: mark_def st1_def flush_if_due_itf)
  have 5: "usb_cdc_ports (snd lost) = usb_cdc_ports (mark st1)" "hid_part (snd lost) = hid_part st"
    using w by (simp_all add: lost_def) (simp add: mark_def st1_def flush_if_due_itf)
  have u: "usb (mark st1) = usb st1" by (simp add: mark_def)
  have e: "usb_cdc_bridge_uart_to_usb P itf st = (if ?writable = 0
      then if fst lost \<noteq> 0 then note_load 0 (snd lost) else snd lost
      else case d of None \<Rightarrow> mark st1
        | Some (n, sn, u, s) \<Rightarrow> if n \<noteq> 0 then cdc_after_write P itf n (s\<lparr>usb := u, usb_cdc_rx_snapshot := the sn\<rparr>)
            else s\<lparr>usb := u, usb_cdc_rx_snapshot := the sn\<rparr>)"
    unfolding usb_cdc_bridge_uart_to_usb_def Let_def st1_def [symmetric] cap_def d_def lost_def u case_prod_beta
    unfolding mark_def [symmetric] u by (rule HOL.refl)
  have "itf_step session_step itf (mark st1) (usb_cdc_bridge_uart_to_usb P itf st)"
  proof (cases "?writable = 0")
    case True
    have "itf_step session_step itf (mark st1) (snd lost)" "itf_step session_step itf (mark st1) (note_load 0 (snd lost))"
      by (rule 2; simp add: 5)+
    then show ?thesis using True by (simp add: e)
  next
    case False
    show ?thesis
    proof (cases d)
      case None
      have "itf_step session_step itf (mark st1) (mark st1)"
        by (rule 2) (simp_all add: mark_def st1_def flush_if_due_itf)
      then show ?thesis using False None by (simp add: e)
    next
      case (Some x)
      obtain n sn u' s where x: "x = (n, sn, u', s)" by (cases x)
      note k = 4 [OF Some [unfolded x], of "the sn"]
      show ?thesis using False 2(1) [OF k] 3 [OF k] by (simp add: e Some x)
    qed
  qed
  then show ?thesis by (rule itf_step_trans [OF 1 _ session_step_trans])
qed

lemma service_running_itf:
  assumes w: "worker_only P" and o: "opened (cdc_stats (usb_cdc_ports st itf))"
    and r: "admission (usb_cdc_ports st itf) = USB_CDC_RUNNING"
  shows "itf_step session_step itf st (usb_cdc_bridge_uart_to_usb P itf (usb_cdc_bridge_usb_to_uart P itf st))"
proof -
  note a = usb_to_uart_itf [OF assms]
  have "opened (cdc_stats (usb_cdc_ports (usb_cdc_bridge_usb_to_uart P itf st) itf))"
    "admission (usb_cdc_ports (usb_cdc_bridge_usb_to_uart P itf st) itf) = USB_CDC_RUNNING"
    using a o r admission_rank_top by (simp_all add: itf_step_def session_step_def)
  from itf_step_trans [OF a uart_to_usb_itf [OF w this] session_step_trans] show ?thesis .
qed

text \<open>An open session that is not stopping: admission, completion, then the two directions.\<close>

lemma service_open_itf:
  assumes w: "worker_only P" and o: "opened (cdc_stats (usb_cdc_ports st itf))"
  shows "itf_step session_step itf st
    (let (go, st) = cdc_admit P itf st
      in if \<not> go then st
      else let st = between P st
      in if \<not> uart_driver_port_is_ready st (ucast itf) then st
      else let (go, st) = cdc_complete P itf st
      in if \<not> go then st
      else usb_cdc_bridge_uart_to_usb P itf (usb_cdc_bridge_usb_to_uart P itf st))"
proof -
  define st1 where "st1 = snd (cdc_admit P itf st)"
  define st2 where "st2 = between P st1"
  define st3 where "st3 = snd (cdc_complete P itf st2)"
  have 1: "itf_step session_step itf st st1"
    unfolding st1_def by (rule admit_itf [OF w o])
  have 2: "itf_step session_step itf st st2"
    using 1 w by (simp add: itf_step_def st2_def)
  have o2: "opened (cdc_stats (usb_cdc_ports st2 itf))"
    using 2 o by (simp add: itf_step_def session_step_def)
  have 3: "itf_step session_step itf st st3"
    unfolding st3_def by (rule itf_step_trans [OF 2 complete_itf [OF w o2] session_step_trans])
  have o3: "opened (cdc_stats (usb_cdc_ports st3 itf))"
    using 3 o by (simp add: itf_step_def session_step_def)
  have r3: "admission (usb_cdc_ports st3 itf) = USB_CDC_RUNNING"
    if "fst (cdc_admit P itf st)" "fst (cdc_complete P itf st2)"
  proof -
    have "admission (usb_cdc_ports st2 itf) \<noteq> USB_CDC_START_PENDING"
      using that(1) w by (auto simp: st2_def st1_def cdc_admit_def Let_def case_prod_beta split: if_splits)
    then show ?thesis unfolding st3_def by (rule complete_runs [OF w that(2)])
  qed
  have 4: "itf_step session_step itf st (usb_cdc_bridge_uart_to_usb P itf (usb_cdc_bridge_usb_to_uart P itf st3))"
    if "fst (cdc_admit P itf st)" "fst (cdc_complete P itf st2)"
    by (rule itf_step_trans [OF 3 service_running_itf [OF w o3 r3 [OF that]] session_step_trans])
  show ?thesis
    using 1 2 3 4 by (simp add: Let_def case_prod_beta st1_def [symmetric] st2_def [symmetric] st3_def [symmetric])
qed

lemma service_itf:
  assumes w: "worker_only P"
  shows "itf_step session_step itf st (cdc_service P itf st)"
proof -
  have b: "itf_step session_step itf st (between P st)"
    using w by (simp add: itf_step_same)
  have q: "itf_step session_step itf st (cdc_quiesce P itf (between P st))"
    by (rule itf_step_trans [OF b quiesce_itf [OF w] session_step_trans])
  have o: "itf_step session_step itf st
    (let (go, st) = cdc_admit P itf (between P st)
      in if \<not> go then st
      else let st = between P st
      in if \<not> uart_driver_port_is_ready st (ucast itf) then st
      else let (go, st) = cdc_complete P itf st
      in if \<not> go then st
      else usb_cdc_bridge_uart_to_usb P itf (usb_cdc_bridge_usb_to_uart P itf st))"
    if "opened (cdc_stats (usb_cdc_ports (between P st) itf))"
    by (rule itf_step_trans [OF b service_open_itf [OF w that] session_step_trans])
  have f: "itf_step session_step itf st (on_usb g (between P st))" for g
    using w by (simp add: itf_step_same)
  show ?thesis
    unfolding cdc_service_def Let_def [of "between P st"] using b q o f by (auto simp only: split: if_split)
qed

text \<open>The poll's loop over the interfaces: each record moves as a session may.\<close>

lemma services_step:
  assumes w: "worker_only P"
  shows "session_step (usb_cdc_ports st j) (usb_cdc_ports (fold (cdc_service P) itfs st) j) \<and>
    (j \<notin> set itfs \<longrightarrow> usb_cdc_ports (fold (cdc_service P) itfs st) j = usb_cdc_ports st j) \<and>
    hid_part (fold (cdc_service P) itfs st) = hid_part st"
proof (induction itfs arbitrary: st)
  case (Cons i itfs)
  note s = service_itf [OF w, of i st]
  have "session_step (usb_cdc_ports st j) (usb_cdc_ports (cdc_service P i st) j)"
    using s session_step_refl by (cases "j = i") (auto simp: itf_step_def)
  then have "session_step (usb_cdc_ports st j) (usb_cdc_ports (fold (cdc_service P) (i # itfs) st) j)"
    using Cons.IH [of "cdc_service P i st"] session_step_trans by (auto elim: transpE)
  then show ?case using Cons.IH [of "cdc_service P i st"] s by (auto simp: itf_step_def)
qed (simp add: session_step_refl)

section \<open>The invariant of a session\<close>

definition session_ok :: "usb_cdc_port_t \<Rightarrow> bool" where
  "session_ok p \<longleftrightarrow> (admission p \<noteq> USB_CDC_START_PENDING \<longrightarrow> opened (cdc_stats p)) \<and>
     (tx_flush_pending p \<longrightarrow> admission p = USB_CDC_RUNNING)"

definition sessions_ok :: "('b, 'u) usb_state \<Rightarrow> bool" where
  "sessions_ok st \<longleftrightarrow> (\<forall>itf. session_ok (usb_cdc_ports st itf))"

lemma session_step_ok: "session_step p q \<Longrightarrow> session_ok p \<Longrightarrow> session_ok q"
  using admission_rank_top [of "admission q"] by (auto simp: session_step_def session_ok_def)

lemma sessions_ok_same: "usb_cdc_ports st' = usb_cdc_ports st \<Longrightarrow> sessions_ok st \<Longrightarrow> sessions_ok st'"
  by (simp add: sessions_ok_def)

lemma sessions_ok_upd: "sessions_ok st \<Longrightarrow> usb_cdc_ports st' = (usb_cdc_ports st)(itf := q) \<Longrightarrow> session_ok q \<Longrightarrow> sessions_ok st'"
  by (simp add: sessions_ok_def)

lemma reset_itf_ports:
  assumes "worker_only P"
  shows "usb_cdc_ports (reset_itf P itf st) = (usb_cdc_ports st)(itf := cdc_close_session
    (cdc_stats_update (opened_update (\<lambda>_. False)) (usb_cdc_ports st itf)))"
    "hid_part (reset_itf P itf st) = hid_part st"
  using assms by (simp_all add: reset_itf_def Let_def fun_eq_iff)

lemma closed_ok: "session_ok (cdc_close_session p)"
  by (simp add: session_ok_def cdc_close_session_def)

lemma reset_host_ok:
  assumes "worker_only P" "sessions_ok st"
  shows "sessions_ok (usb_cdc_reset_host_state P st)"
proof -
  have "sessions_ok (fold (reset_itf P) itfs st)" for itfs
    using assms(2)
    by (induction itfs arbitrary: st) (auto intro: sessions_ok_upd [OF _ reset_itf_ports(1) [OF assms(1)] closed_ok])
  then show ?thesis by (simp add: usb_cdc_reset_host_state_def)
qed

lemma line_state_ports:
  assumes "worker_only P" "itf < 6"
  shows "usb_cdc_ports (tud_cdc_line_state_cb P itf dtr rts st) = (usb_cdc_ports st)(itf :=
     cdc_stats_update (opened_update (\<lambda>_. dtr))
       (if opened (cdc_stats (usb_cdc_ports st itf)) \<and> \<not> dtr
        then (cdc_close_session (usb_cdc_ports st itf))\<lparr>reset_rx_flushed := reset_rx_flushed
               (usb_cdc_ports (tud_cdc_line_state_cb P itf dtr rts st) itf)\<rparr>
        else if \<not> opened (cdc_stats (usb_cdc_ports st itf)) \<and> dtr
        then (usb_cdc_ports st itf)\<lparr>admission := USB_CDC_START_PENDING\<rparr> else usb_cdc_ports st itf))"
  using assms
  by (auto simp: tud_cdc_line_state_cb_def usb_cdc_dtr_close_should_stop_channel_def Let_def case_prod_beta fun_eq_iff
      cdc_close_session_def)

lemma line_state_ok:
  assumes "worker_only P" "sessions_ok st"
  shows "sessions_ok (tud_cdc_line_state_cb P itf dtr rts st)"
proof (cases "itf < 6")
  case True
  have "session_ok (usb_cdc_ports st itf)" using assms(2) by (simp add: sessions_ok_def)
  then show ?thesis
    by (intro sessions_ok_upd [OF assms(2) line_state_ports [OF assms(1) True]])
      (auto simp: session_ok_def cdc_close_session_def)
next
  case False then show ?thesis using assms(2) by (simp add: tud_cdc_line_state_cb_def)
qed

lemma reject_parts:
  assumes "worker_only P"
  shows "usb_cdc_ports (usb_cdc_reject_line_coding P itf reason st) = usb_cdc_ports st"
    "hid_part (usb_cdc_reject_line_coding P itf reason st) = hid_part st"
  using assms by (simp_all add: usb_cdc_reject_line_coding_def)

lemma arm_itf:
  assumes "worker_only P"
  shows "itf_step lc_only itf st (usb_cdc_arm_soft_pending P itf line_coding st)"
  using assms by (simp add: usb_cdc_arm_soft_pending_def itf_step_def lc_only_def Let_def case_prod_beta)

lemma line_coding_itf:
  assumes "worker_only P"
  shows "itf_step lc_only itf st (tud_cdc_line_coding_cb P itf lc st)"
proof -
  have r: "itf_step lc_only itf st (usb_cdc_reject_line_coding P itf reason st')" if "usb_cdc_ports st' = usb_cdc_ports st"
    "hid_part st' = hid_part st" for st' reason
    using that by (simp add: itf_step_def lc_only_def reject_parts [OF assms])
  have a: "itf_step lc_only itf st (usb_cdc_arm_soft_pending P itf c (between P st))" for c
    using arm_itf [OF assms, of itf "between P st" c] assms by (simp add: itf_step_def)
  show ?thesis
    using assms a r
    by (auto simp: tud_cdc_line_coding_cb_def Let_def case_prod_beta itf_step_def lc_only_def
        reject_parts [OF assms] split: option.splits)
qed

lemma itf_step_ok: "itf_step session_step itf st st' \<Longrightarrow> sessions_ok st \<Longrightarrow> sessions_ok st'"
  unfolding itf_step_def sessions_ok_def using session_step_ok by metis

lemma line_coding_ok:
  assumes "worker_only P" "sessions_ok st"
  shows "sessions_ok (tud_cdc_line_coding_cb P itf lc st)"
  by (rule itf_step_ok [OF itf_step_mono [OF line_coding_itf [OF assms(1)] lc_only_session] assms(2)])

lemma callback_ok:
  assumes "worker_only P" "sessions_ok st"
  shows "sessions_ok (snd (usb_callback P cb st))"
proof (cases cb)
  case Tud_mount
  have "sessions_ok (tud_mount_cb P st)"
    unfolding tud_mount_cb_def by (rule sessions_ok_same [OF _ reset_host_ok [OF assms]]) simp
  then show ?thesis by (simp add: Tud_mount usb_callback_def)
next
  case Tud_umount
  have "sessions_ok (tud_umount_cb P st)"
    unfolding tud_umount_cb_def by (rule sessions_ok_same [OF _ reset_host_ok [OF assms]]) simp
  then show ?thesis by (simp add: Tud_umount usb_callback_def)
qed (simp_all add: usb_callback_def line_state_ok [OF assms] line_coding_ok [OF assms]
      sessions_ok_same [OF control_xfer_ports [OF assms(1)] assms(2)])

lemma tud_task_ok:
  assumes "worker_only P"
  shows "sessions_ok st \<Longrightarrow> sessions_ok (tud_task P n st)"
proof (induction n arbitrary: st)
  case (Suc n)
  let ?st = "st\<lparr>usb := snd (tud_next P (usb st))\<rparr>" and ?cb = "fst (tud_next P (usb st))"
  have "sessions_ok ?st" by (rule sessions_ok_same [OF _ Suc.prems]) simp
  from callback_ok [OF assms this, of ?cb]
  have "sessions_ok (on_usb g (snd (usb_callback P ?cb ?st)))" for g
    by (rule sessions_ok_same [rotated]) simp
  then show ?case by (simp add: Let_def case_prod_beta Suc.IH)
qed simp

lemma cdc_poll_ok:
  assumes "worker_only P" "sessions_ok st"
  shows "sessions_ok (usb_cdc_poll P st)"
proof -
  define st1 where "st1 = (if tud_task_event_ready P (usb st) then note_load 0 st else st)"
  define st2 where "st2 = tud_task P (tud_callbacks P (usb st1)) st1"
  have "sessions_ok st1" using assms(2) by (simp add: st1_def sessions_ok_def)
  then have 2: "sessions_ok st2" unfolding st2_def by (rule tud_task_ok [OF assms(1)])
  have 3: "sessions_ok (tud_umount_cb P st2)" using callback_ok [OF assms(1) 2, of Tud_umount] by (simp add: usb_callback_def)
  define itfs where "itfs = map (\<lambda>offset. (usb_cdc_poll_start_itf st + offset) mod USB_CDC_PORT_COUNT) all_itfs"
  have f: "fold (\<lambda>offset. cdc_service P ((usb_cdc_poll_start_itf st + offset) mod USB_CDC_PORT_COUNT)) all_itfs st2 =
      fold (cdc_service P) itfs st2"
    by (simp add: itfs_def fold_map comp_def)
  have 4: "sessions_ok (fold (cdc_service P) itfs st2)"
    using 2 services_step [OF assms(1), where itfs = itfs and st = st2] session_step_ok by (auto simp: sessions_ok_def)
  show ?thesis
    unfolding usb_cdc_poll_def Let_def st1_def [symmetric] st2_def [symmetric] f
    using 2 3 4 by (auto intro: sessions_ok_same)
qed

lemma heartbeat_ports: "usb_cdc_ports (snd (uart_driver_worker_heartbeat_is_fresh t st)) = usb_cdc_ports st"
  by (simp add: uart_driver_worker_heartbeat_is_fresh_def Let_def case_prod_beta)

lemma main_pass_ports:
  assumes "worker_only P"
  shows "\<exists>lm. usb_cdc_ports (snd (main_pass P st)) =
    usb_cdc_ports (usb_cdc_poll P ((snd (read_clock (clock P) st))\<lparr>load_meter := lm\<rparr>))"
proof -
  let ?st1 = "(snd (read_clock (clock P) st))\<lparr>load_meter :=
    service_load_begin (load_meter (snd (read_clock (clock P) st))) 0 (ucast (fst (read_clock (clock P) st)))\<rparr>"
  define st2 where "st2 = usb_hid_poll P (usb_cdc_poll P ?st1)"
  have "usb_cdc_ports (snd (main_pass P st)) = usb_cdc_ports st2"
    unfolding main_pass_def Let_def case_prod_beta st2_def [symmetric]
    using assms by (simp add: heartbeat_ports)
  also have "\<dots> = usb_cdc_ports (usb_cdc_poll P ?st1)"
    unfolding st2_def by (rule hid_poll_ports [OF assms])
  finally show ?thesis by (rule exI [where x = "service_load_begin (load_meter (snd (read_clock (clock P) st))) 0
      (ucast (fst (read_clock (clock P) st)))"])
qed

lemma main_pass_ok:
  assumes "worker_only P" "sessions_ok st"
  shows "sessions_ok (snd (main_pass P st))"
proof -
  obtain lm where "usb_cdc_ports (snd (main_pass P st)) =
    usb_cdc_ports (usb_cdc_poll P ((snd (read_clock (clock P) st))\<lparr>load_meter := lm\<rparr>))"
    using main_pass_ports [OF assms(1)] by blast
  moreover have "sessions_ok ((snd (read_clock (clock P) st))\<lparr>load_meter := lm\<rparr>)"
    by (rule sessions_ok_same [OF _ assms(2)]) simp
  ultimately show ?thesis
    by (rule sessions_ok_same [OF _ cdc_poll_ok [OF assms(1)]])
qed

lemma init_ok:
  assumes "\<And>itf. \<not> tx_flush_pending (usb_cdc_ports st itf) \<and> admission (usb_cdc_ports st itf) = USB_CDC_START_PENDING"
  shows "sessions_ok (usb_cdc_init P st)"
proof -
  let ?clear = "\<lambda>itf. put_cdc itf (\<lambda>port. port\<lparr>tx_flush_pending := False, tx_flush_deadline := nil_time\<rparr>)"
  have "(\<forall>itf. \<not> tx_flush_pending (usb_cdc_ports (fold ?clear itfs s) itf) \<and>
      admission (usb_cdc_ports (fold ?clear itfs s) itf) = USB_CDC_START_PENDING)"
    if "\<forall>itf. \<not> tx_flush_pending (usb_cdc_ports s itf) \<and> admission (usb_cdc_ports s itf) = USB_CDC_START_PENDING"
    for itfs and s :: "('a, 'b) usb_state"
    using that by (induction itfs arbitrary: s) simp_all
  then show ?thesis
    using assms by (simp add: usb_cdc_init_def sessions_ok_def session_ok_def Let_def)
qed

text \<open>A channel that is starting or running has an open session, and bytes wait for their flush only on a
  running one, after start-up and any number of passes of the main loop, whatever the host does
  (mounting, unmounting, opening, closing, settings, reports) and core 1 does meanwhile.\<close>

theorem sessions_invariant:
  assumes "worker_only P"
    and "\<And>itf. \<not> tx_flush_pending (usb_cdc_ports st itf) \<and> admission (usb_cdc_ports st itf) = USB_CDC_START_PENDING"
    and "st' = ((\<lambda>st. snd (main_pass P st)) ^^ n) (usb_hid_init P (usb_cdc_init P st))"
  shows "(admission (usb_cdc_ports st' itf) \<noteq> USB_CDC_START_PENDING \<longrightarrow> opened (cdc_stats (usb_cdc_ports st' itf))) \<and>
    (tx_flush_pending (usb_cdc_ports st' itf) \<longrightarrow> admission (usb_cdc_ports st' itf) = USB_CDC_RUNNING)"
proof -
  have "usb_cdc_ports (usb_hid_init P s) = usb_cdc_ports s" for s
    by (simp add: usb_hid_init_def usb_hid_build_static_reports_def Let_def case_prod_beta)
  then have "sessions_ok (usb_hid_init P (usb_cdc_init P st))"
    by (rule sessions_ok_same [OF _ init_ok [OF assms(2)]])
  then have "sessions_ok st'"
    unfolding assms(3) by (induction n) (simp_all add: main_pass_ok [OF assms(1)])
  then show ?thesis by (simp add: sessions_ok_def session_ok_def)
qed

theorem sessions_invariant_witness:
  "let st' = ((\<lambda>st. snd (main_pass demo_usb_platform st)) ^^ 9) (usb_hid_init demo_usb_platform (usb_cdc_init demo_usb_platform
       (demo_state \<lparr>host_calls = [Tud_mount, Tud_cdc_line_state 0 True True, Tud_cdc_line_state 0 False False],
          host_bytes = [1, 2, 3], host_got = []\<rparr>)))
   in \<not> opened (cdc_stats (usb_cdc_ports st' 0)) \<longrightarrow> \<not> tx_flush_pending (usb_cdc_ports st' 0)"
  unfolding Let_def
  using sessions_invariant [OF demo_usb_worker _ HOL.refl, of "demo_state
      \<lparr>host_calls = [Tud_mount, Tud_cdc_line_state 0 True True, Tud_cdc_line_state 0 False False],
       host_bytes = [1, 2, 3], host_got = []\<rparr>" 9 0]
  by (auto simp: demo_state_def uart_driver_state_t.defs)

section \<open>Bytes move in a running session only\<close>

text \<open>C30: The poll of the interfaces moves bytes of a running session only: whatever core 1 does meanwhile, an
  interface whose byte counters changed, or that has newly given bytes to the stack, is open and has completed its
  start; a service opens and closes nothing, moves the admission forward only, and of an open session
  only; an interface not visited is untouched; and no HID command state, lamp, saved configuration or reset is touched.\<close>

theorem service_moves_bytes_in_session:
  assumes "worker_only P"
    and "st' = fold (cdc_service P) itfs st" "p = usb_cdc_ports st itf" "q = usb_cdc_ports st' itf"
  shows "(cdc_tx_bytes (cdc_stats q) \<noteq> cdc_tx_bytes (cdc_stats p) \<or> cdc_rx_bytes (cdc_stats q) \<noteq> cdc_rx_bytes (cdc_stats p) \<or>
      tx_flush_pending q \<and> \<not> tx_flush_pending p \<longrightarrow> opened (cdc_stats q) \<and> admission q = USB_CDC_RUNNING) \<and>
    opened (cdc_stats q) = opened (cdc_stats p) \<and>
    (admission q \<noteq> admission p \<longrightarrow> opened (cdc_stats p) \<and> admission q \<noteq> USB_CDC_START_PENDING \<and> admission p \<noteq> USB_CDC_RUNNING) \<and>
    (itf \<notin> set itfs \<longrightarrow> q = p) \<and> hid_part st' = hid_part st"
  using services_step [OF assms(1), where itfs = itfs and st = st and j = itf]
  by (cases "admission p"; cases "admission q") (auto simp: assms session_step_def)

theorem service_moves_bytes_witness:
  "let st = demo_state \<lparr>host_calls = [], host_bytes = [1, 2, 3], host_got = []\<rparr>;
       st' = fold (cdc_service demo_usb_platform) [0, 1, 2, 3, 4, 5] st
   in cdc_rx_bytes (cdc_stats (usb_cdc_ports st' 3)) = 0 \<and> \<not> opened (cdc_stats (usb_cdc_ports st' 3)) \<and> resets st' = 0"
proof -
  define st where "st = demo_state \<lparr>host_calls = [], host_bytes = [1, 2, 3], host_got = []\<rparr>"
  have p: "cdc_stats (usb_cdc_ports st 3) = zero_cdc_stats" "resets st = 0"
    by (simp_all add: st_def)
  have r: "resets s = resets t" if "hid_part s = hid_part t" for s t :: "(demo_port, demo_host) usb_state"
    using that by (simp add: hid_part_def)
  show ?thesis
    unfolding Let_def st_def [symmetric]
    using service_moves_bytes_in_session [OF demo_usb_worker HOL.refl HOL.refl HOL.refl, of "[0, 1, 2, 3, 4, 5]" st 3]
      r [of "fold (cdc_service demo_usb_platform) [0, 1, 2, 3, 4, 5] st" st]
    by (auto simp only: p zero_cdc_stats_def usb_cdc_port_stats_t.simps)
qed

end
