(* ===== verification/Usb_Commands.thy ===== *)
theory Usb_Commands
  imports Usb_Sessions
begin

text \<open>The commands of report 20: which requests may change the flash or reset the board.\<close>

section \<open>The command table\<close>

text \<open>The four bytes of the only requests that save or reboot: version, action, flags, profile.\<close>

definition save_authorised :: "('b, 'u) usb_state \<Rightarrow> u8 list \<Rightarrow> u16 \<Rightarrow> bool" where
  "save_authorised st r len \<longleftrightarrow> len = 4 \<and> r ! 0 = 1 \<and> r ! 1 = 4 \<and>
     (r ! 2 = 1 \<and> r ! 3 = 0 \<or> r ! 2 = 3 \<and> r ! 3 \<in> {1, 2, 3, 4}) \<and>
     bit (usb_hid_identity st ! 17) 2 \<and> (\<forall>itf < 6. \<not> opened (cdc_stats (usb_cdc_ports st itf)))"

definition reboot_authorised :: "('b, 'u) usb_state \<Rightarrow> u8 list \<Rightarrow> u16 \<Rightarrow> bool" where
  "reboot_authorised st r len \<longleftrightarrow> len = 4 \<and> r ! 0 = 1 \<and> r ! 1 = 3 \<and> r ! 2 = 1 \<and> r ! 3 = 0 \<and> bit (usb_hid_identity st ! 17) 1"

definition lamp_command :: "('b, 'u) usb_state \<Rightarrow> u8 list \<Rightarrow> u16 \<Rightarrow> bool \<Rightarrow> bool" where
  "lamp_command st r len on \<longleftrightarrow> len = 4 \<and> r ! 0 = 1 \<and> r ! 1 = (if on then 2 else 1) \<and> r ! 2 = 0 \<and> r ! 3 = 0 \<and>
     bit (usb_hid_identity st ! 17) 0"

lemma and_bit:
  fixes w :: u8
  shows "w AND 1 = 0 \<longleftrightarrow> \<not> bit w 0" "w AND 2 = 0 \<longleftrightarrow> \<not> bit w 1" "w AND 4 = 0 \<longleftrightarrow> \<not> bit w 2"
proof -
  have "w AND push_bit n 1 = 0 \<longleftrightarrow> \<not> bit w n" for n
    by (simp add: and_exp_eq_0_iff_not_bit push_bit_eq_mult flip: exp_eq_0_imp_not_bit)
  from this [of 0] this [of 1] this [of 2] show "w AND 1 = 0 \<longleftrightarrow> \<not> bit w 0" "w AND 2 = 0 \<longleftrightarrow> \<not> bit w 1"
    "w AND 4 = 0 \<longleftrightarrow> \<not> bit w 2" by simp_all
qed

lemma unat_cases:
  fixes w :: "'a::len word"
  assumes "unat w = n"
  shows "w = of_nat n"
  using assms by auto

lemma flags_small:
  fixes w :: u8
  assumes "w AND 0xFC = 0"
  shows "w \<in> {0, 1, 2, 3}"
proof -
  have "w = w AND -1" by simp
  also have "(-1 :: u8) = 0xFC OR 3" by code_simp
  also have "w AND (0xFC OR 3) = w AND 3" unfolding bit.conj_disj_distrib assms by simp
  finally have "w \<le> 3" using word_and_le1 [of w 3] by metis
  then have "unat w \<in> {0, 1, 2, 3}" by (auto simp: word_le_nat_alt)
  then show ?thesis by (auto dest!: unat_cases)
qed

lemma closed_iff: "usb_hid_cdc_sessions_closed st \<longleftrightarrow> (\<forall>itf < 6. \<not> opened (cdc_stats (usb_cdc_ports st itf)))"
proof -
  have "set all_itfs = {itf. itf < 6}"
  proof
    show "{itf. itf < 6} \<subseteq> set all_itfs"
    proof
      fix itf :: u8 assume "itf \<in> {itf. itf < 6}"
      then have "unat itf < 6" by (simp add: word_less_nat_alt)
      then have "unat itf \<in> {0, 1, 2, 3, 4, 5}" by auto
      then show "itf \<in> set all_itfs" by (auto simp: all_itfs_def dest!: unat_cases)
    qed
  qed (auto simp: all_itfs_def)
  then show ?thesis
    by (auto simp: usb_hid_cdc_sessions_closed_def usb_cdc_port_stats_def list_all_iff)
qed

lemma profile_iff:
  fixes p :: u8
  shows "boot_config_profile_supported (ucast p) \<longleftrightarrow> p \<in> {0, 1, 2, 3, 4}"
proof -
  have "boot_config_profile_supported (ucast p) \<longleftrightarrow> unat p < 5"
    by (simp add: boot_config_profile_supported_def boot_clock_definitions_def word_less_nat_alt unsigned_ucast_eq
        take_bit_nat_eq_self order_less_trans [OF unsigned_less])
  also have "\<dots> \<longleftrightarrow> unat p \<in> {0, 1, 2, 3, 4}" by auto
  also have "\<dots> \<longleftrightarrow> p \<in> {0, 1, 2, 3, 4}" by (auto dest!: unat_cases)
  finally show ?thesis .
qed

text \<open>The request word: idle, the code's answers depend on the four bytes only.\<close>

definition command_idle :: "('b, 'u) usb_state \<Rightarrow> bool" where
  "command_idle st \<longleftrightarrow> usb_hid_command_status st \<noteq> USB_HID_STATUS_PENDING \<and> \<not> usb_hid_reboot_pending st"

lemmas command_defs = usb_hid_handle_command_def usb_hid_set_result_def led_set_def Let_def case_prod_beta

lemma set_result_parts [simp]:
  "usb_hid_identity (usb_hid_set_result a s e st) = usb_hid_identity st"
  "usb_hid_cdc_sessions_closed (usb_hid_set_result a s e st) = usb_hid_cdc_sessions_closed st"
  "usb_hid_command_status (usb_hid_set_result a s e st) = s" "usb_hid_command (usb_hid_set_result a s e st) = a"
  "usb_hid_reboot_pending (usb_hid_set_result a s e st) = usb_hid_reboot_pending st"
  "boot (usb_hid_set_result a s e st) = boot st" "resets (usb_hid_set_result a s e st) = resets st"
  "led (usb_hid_set_result a s e st) = led st" "clock_reads (usb_hid_set_result a s e st) = clock_reads st"
  "usb_hid_requested_profile (usb_hid_set_result a s e st) = usb_hid_requested_profile st"
  by (simp_all add: usb_hid_set_result_def usb_hid_cdc_sessions_closed_def usb_cdc_port_stats_def)

lemma set_result_twice [simp]:
  "usb_hid_set_result a s e (usb_hid_set_result a' s' e' st) = usb_hid_set_result a s e st"
  by (simp add: usb_hid_set_result_def)

lemma action_order [simp]:
  "(1 :: u8) \<le> 1" "(1 :: u8) \<le> 2" "(1 :: u8) \<le> 3" "(1 :: u8) \<le> 4" "(2 :: u8) \<le> 4" "(3 :: u8) \<le> 4" "(4 :: u8) \<le> 4"
  "\<not> (3 :: u8) \<le> 1" "\<not> (3 :: u8) \<le> 2" "(3 :: u8) \<le> 3" "(3 :: u8) \<le> 4" "(1 :: u8) \<le> 2" "(2 :: u8) \<le> 2"
  "\<not> (3 :: u8) \<le> 2" "\<not> (4 :: u8) \<le> 2"
  by (simp_all add: word_le_nat_alt)

text \<open>The handler on an idle state, by action.\<close>

lemma handle_unframed:
  assumes "command_idle st" "\<not> (len = 4 \<and> r ! 0 = 1)"
  shows "usb_hid_handle_command P (Some r) len st = (True, usb_hid_set_result 0 USB_HID_STATUS_INVALID USB_HID_ERROR_MALFORMED st)"
proof -
  have f: "(len = 4 \<and> r ! 0 = 1) = False" using assms(2) by simp
  show ?thesis using assms(1) by (simp add: usb_hid_handle_command_def Let_def command_idle_def f)
qed

lemma handle_lamp:
  assumes "command_idle st" "len = 4" "r ! 0 = 1" "r ! 1 = a" "a = 1 \<or> a = 2"
  shows "usb_hid_handle_command P (Some r) len st = (True,
    if r ! 2 AND 0xFC = 0 \<and> usb_hid_identity st ! 17 AND 1 = 0
    then usb_hid_set_result a USB_HID_STATUS_UNSUPPORTED USB_HID_ERROR_UNSUPPORTED st
    else if r ! 2 = 0 \<and> r ! 3 = 0
    then led_set P (a = 2) (usb_hid_set_result a USB_HID_STATUS_COMPLETED USB_HID_ERROR_NONE st)
    else usb_hid_set_result a USB_HID_STATUS_INVALID USB_HID_ERROR_MALFORMED st)"
  using assms(5) assms(1-4) by (elim disjE) (simp_all add: usb_hid_handle_command_def Let_def command_idle_def)

lemma handle_reboot:
  assumes "command_idle st" "len = 4" "r ! 0 = 1" "r ! 1 = 3"
  shows "usb_hid_handle_command P (Some r) len st = (True,
    if r ! 2 AND 0xFC = 0 \<and> usb_hid_identity st ! 17 AND 2 = 0
    then usb_hid_set_result 3 USB_HID_STATUS_UNSUPPORTED USB_HID_ERROR_UNSUPPORTED st
    else if r ! 2 AND 0xFC \<noteq> 0 \<or> r ! 3 \<noteq> 0 \<or> r ! 2 AND 2 \<noteq> 0
    then usb_hid_set_result 3 USB_HID_STATUS_INVALID USB_HID_ERROR_MALFORMED st
    else if r ! 2 AND 1 = 0 then usb_hid_set_result 3 USB_HID_STATUS_INVALID USB_HID_ERROR_AUTHORIZATION st
    else let (deadline, st) = make_timeout_time_ms (clock P) USB_HID_REBOOT_DELAY_MS
               ((usb_hid_set_result 3 USB_HID_STATUS_COMPLETED USB_HID_ERROR_NONE st)\<lparr>usb_hid_reboot_pending := True\<rparr>)
         in st\<lparr>usb_hid_reboot_deadline := deadline\<rparr>)"
  using assms by (simp add: usb_hid_handle_command_def Let_def case_prod_beta command_idle_def)

lemma handle_save:
  assumes "command_idle st" "len = 4" "r ! 0 = 1" "r ! 1 = 4"
  shows "usb_hid_handle_command P (Some r) len st = (True,
    if r ! 2 AND 0xFC \<noteq> 0 then usb_hid_set_result 4 USB_HID_STATUS_INVALID USB_HID_ERROR_MALFORMED st
    else if usb_hid_identity st ! 17 AND 4 = 0 then usb_hid_set_result 4 USB_HID_STATUS_UNSUPPORTED USB_HID_ERROR_UNSUPPORTED st
    else if r ! 3 = 0 \<and> r ! 2 AND 2 \<noteq> 0 then usb_hid_set_result 4 USB_HID_STATUS_INVALID USB_HID_ERROR_MALFORMED st
    else if \<not> boot_config_profile_supported (ucast (r ! 3)) then usb_hid_set_result 4 USB_HID_STATUS_INVALID USB_HID_ERROR_PROFILE st
    else if r ! 2 AND 1 = 0 then usb_hid_set_result 4 USB_HID_STATUS_INVALID USB_HID_ERROR_AUTHORIZATION st
    else if r ! 3 \<noteq> 0 \<and> r ! 2 AND 2 = 0 then usb_hid_set_result 4 USB_HID_STATUS_INVALID USB_HID_ERROR_ACKNOWLEDGEMENT st
    else if \<not> usb_hid_cdc_sessions_closed st then usb_hid_set_result 4 USB_HID_STATUS_BUSY USB_HID_ERROR_CDC_OPEN st
    else (usb_hid_set_result 4 USB_HID_STATUS_COMPLETED USB_HID_ERROR_NONE st)
           \<lparr>usb_hid_requested_profile := r ! 3, usb_hid_command_status := USB_HID_STATUS_PENDING\<rparr>)"
  using assms by (simp add: usb_hid_handle_command_def Let_def case_prod_beta command_idle_def)

lemma handle_unknown:
  assumes "command_idle st" "len = 4" "r ! 0 = 1" "\<not> (1 \<le> r ! 1 \<and> r ! 1 \<le> 4)"
  shows "usb_hid_handle_command P (Some r) len st = (True,
    if r ! 2 AND 0xFC \<noteq> 0 then usb_hid_set_result 0 USB_HID_STATUS_INVALID USB_HID_ERROR_MALFORMED st
    else usb_hid_set_result 0 USB_HID_STATUS_UNSUPPORTED USB_HID_ERROR_UNSUPPORTED st)"
proof -
  have f: "(1 \<le> r ! Suc 0 \<and> r ! Suc 0 \<le> 4) = False" using assms(4) by simp
  show ?thesis using assms(1-3) by (simp add: usb_hid_handle_command_def Let_def command_idle_def f)
qed

text \<open>What the flag byte of a save or reboot says.\<close>

lemma flag_cases:
  fixes f :: u8
  shows "f AND 0xFC = 0 \<and> f AND 2 = 0 \<and> f AND 1 \<noteq> 0 \<longleftrightarrow> f = 1" "f AND 0xFC = 0 \<and> f AND 2 \<noteq> 0 \<and> f AND 1 \<noteq> 0 \<longleftrightarrow> f = 3"
  using flags_small [of f] by auto

lemma save_iff:
  "save_authorised st r len \<longleftrightarrow> len = 4 \<and> r ! 0 = 1 \<and> r ! 1 = 4 \<and> r ! 2 AND 0xFC = 0 \<and> usb_hid_identity st ! 17 AND 4 \<noteq> 0 \<and>
     (r ! 3 = 0 \<longleftrightarrow> r ! 2 AND 2 = 0) \<and> boot_config_profile_supported (ucast (r ! 3)) \<and> r ! 2 AND 1 \<noteq> 0 \<and>
     usb_hid_cdc_sessions_closed st"
proof -
  have "r ! 2 AND 0xFC = 0 \<and> (r ! 3 = 0 \<longleftrightarrow> r ! 2 AND 2 = 0) \<and> boot_config_profile_supported (ucast (r ! 3)) \<and> r ! 2 AND 1 \<noteq> 0 \<longleftrightarrow>
      (r ! 2 = 1 \<and> r ! 3 = 0 \<or> r ! 2 = 3 \<and> r ! 3 \<in> {1, 2, 3, 4})"
    unfolding profile_iff flag_cases [symmetric] by auto
  then show ?thesis unfolding save_authorised_def closed_iff and_bit by blast
qed

lemma reboot_iff:
  "reboot_authorised st r len \<longleftrightarrow> len = 4 \<and> r ! 0 = 1 \<and> r ! 1 = 3 \<and> r ! 2 AND 0xFC = 0 \<and> usb_hid_identity st ! 17 AND 2 \<noteq> 0 \<and>
     r ! 3 = 0 \<and> r ! 2 AND 2 = 0 \<and> r ! 2 AND 1 \<noteq> 0"
  unfolding reboot_authorised_def and_bit flag_cases(1) [symmetric] by blast

definition command_outcome :: "('b, 'u) usb_platform \<Rightarrow> u8 list \<Rightarrow> u16 \<Rightarrow> ('b, 'u) usb_state \<Rightarrow> ('b, 'u) usb_state \<Rightarrow> bool" where
  "command_outcome P r len st st' \<longleftrightarrow>
     (usb_hid_command_status st' = USB_HID_STATUS_PENDING \<longleftrightarrow> save_authorised st r len) \<and>
     (save_authorised st r len \<longrightarrow> usb_hid_requested_profile st' = r ! 3) \<and>
     (usb_hid_reboot_pending st' \<longleftrightarrow> reboot_authorised st r len) \<and>
     (usb_hid_command_status st' = USB_HID_STATUS_COMPLETED \<longleftrightarrow> reboot_authorised st r len \<or> (\<exists>on. lamp_command st r len on)) \<and>
     led st' = (if led_available P \<and> (\<exists>on. lamp_command st r len on) then lamp_command st r len True else led st) \<and>
     boot st' = boot st \<and> resets st' = resets st \<and> usb_hid_identity st' = usb_hid_identity st"

lemma led_set_parts [simp]:
  "usb_hid_command_status (led_set P on st) = usb_hid_command_status st"
  "usb_hid_requested_profile (led_set P on st) = usb_hid_requested_profile st"
  "usb_hid_reboot_pending (led_set P on st) = usb_hid_reboot_pending st" "boot (led_set P on st) = boot st"
  "resets (led_set P on st) = resets st" "usb_hid_identity (led_set P on st) = usb_hid_identity st"
  "led (led_set P on st) = (if led_available P then on else led st)"
  by (simp_all add: led_set_def)

lemma lamp_iff:
  "(\<exists>on. lamp_command st r len on) \<longleftrightarrow> len = 4 \<and> r ! 0 = 1 \<and> (r ! 1 = 1 \<or> r ! 1 = 2) \<and> r ! 2 = 0 \<and> r ! 3 = 0 \<and>
     usb_hid_identity st ! 17 AND 1 \<noteq> 0"
  unfolding lamp_command_def and_bit by (metis (full_types))

lemma handle_outcome:
  assumes idle: "command_idle st"
  shows "command_outcome P r len st (snd (usb_hid_handle_command P (Some r) len st))"
proof (cases "len = 4 \<and> r ! 0 = 1")
  case False
  then show ?thesis unfolding command_outcome_def handle_unframed [OF idle False]
    using idle by (auto simp: save_iff reboot_iff lamp_iff command_idle_def)
next
  case True
  then have f: "len = 4" "r ! 0 = 1" by simp_all
  have n: "usb_hid_command_status st \<noteq> USB_HID_STATUS_PENDING" "\<not> usb_hid_reboot_pending st"
    using idle by (simp_all add: command_idle_def)
  consider "r ! 1 = 1 \<or> r ! 1 = 2" | "r ! 1 = 3" | "r ! 1 = 4" | "\<not> (1 \<le> r ! 1 \<and> r ! 1 \<le> 4)"
  proof (cases "1 \<le> r ! 1 \<and> r ! 1 \<le> 4")
    case True
    then have "unat (r ! 1) \<in> {1, 2, 3, 4}" by (auto simp: word_le_nat_alt)
    then have "r ! 1 \<in> {1, 2, 3, 4}" by (auto dest!: unat_cases)
    then show ?thesis using that by blast
  qed
  then show ?thesis
  proof cases
    case 1
    then show ?thesis unfolding command_outcome_def handle_lamp [OF idle f HOL.refl 1] save_iff reboot_iff lamp_iff
      using f n by (auto simp: lamp_command_def and_bit)
  next
    case 2
    then show ?thesis unfolding command_outcome_def handle_reboot [OF idle f 2] save_iff reboot_iff lamp_iff
      using f n by (auto simp: make_timeout_time_ms_def read_clock_def)
  next
    case 3
    then show ?thesis unfolding command_outcome_def handle_save [OF idle f 3] save_iff reboot_iff lamp_iff
      using f n by auto
  next
    case 4
    then show ?thesis unfolding command_outcome_def handle_unknown [OF idle f 4] save_iff reboot_iff lamp_iff
      using f n by auto
  qed
qed

text \<open>C32: A report-20 request does exactly what its four bytes authorise. A busy handler (a save waiting, a reboot
  scheduled) refuses it and changes nothing. An idle one accepts a save exactly for version 1, action 4, the confirmation
  flag, profile 0 without or profile 1 to 4 with the acknowledgement flag, no other flag, the save capability and all six sessions
  closed; a reboot exactly for the confirmation flag alone; a lamp setting exactly for zero flags and profile; every other
  request changes nothing but the result, and none touches the saved configuration or resets the board.\<close>

theorem command_exact:
  assumes "st' = snd (usb_hid_handle_command P (Some r) len st)"
  shows "(\<not> command_idle st \<longrightarrow> st' = st \<and> \<not> fst (usb_hid_handle_command P (Some r) len st)) \<and>
    (command_idle st \<longrightarrow>
      (usb_hid_command_status st' = USB_HID_STATUS_PENDING \<longleftrightarrow> save_authorised st r len) \<and>
      (save_authorised st r len \<longrightarrow> usb_hid_requested_profile st' = r ! 3) \<and>
      (usb_hid_reboot_pending st' \<longleftrightarrow> reboot_authorised st r len) \<and>
      (usb_hid_command_status st' = USB_HID_STATUS_COMPLETED \<longleftrightarrow> reboot_authorised st r len \<or> (\<exists>on. lamp_command st r len on)) \<and>
      led st' = (if led_available P \<and> (\<exists>on. lamp_command st r len on) then lamp_command st r len True else led st)) \<and>
    boot st' = boot st \<and> resets st' = resets st"
proof (cases "command_idle st")
  case True
  then show ?thesis using handle_outcome [OF True, of P r len] unfolding assms command_outcome_def by blast
next
  case False
  then have "usb_hid_handle_command P (Some r) len st = (False, st)"
    by (auto simp: usb_hid_handle_command_def command_idle_def)
  then show ?thesis using False by (simp add: assms)
qed

theorem command_witness:
  "let st = demo_state \<lparr>host_calls = [], host_bytes = [], host_got = []\<rparr> in
   usb_hid_command_status (snd (usb_hid_handle_command demo_usb_platform (Some [1, 4, 3, 2]) 4 st)) = USB_HID_STATUS_PENDING \<and>
   usb_hid_command_status (snd (usb_hid_handle_command demo_usb_platform (Some [1, 4, 1, 2]) 4 st)) \<noteq> USB_HID_STATUS_PENDING \<and>
   usb_hid_reboot_pending (snd (usb_hid_handle_command demo_usb_platform (Some [1, 3, 1, 0]) 4 st))"
proof -
  define st where "st = demo_state \<lparr>host_calls = [], host_bytes = [], host_got = []\<rparr>"
  have i: "command_idle st" by (simp add: st_def command_idle_def)
  have b: "bit (7 :: u8) 0" "bit (7 :: u8) 1" "bit (7 :: u8) 2" by code_simp+
  note e = command_exact [OF HOL.refl, where st = st and P = demo_usb_platform]
  show ?thesis
    unfolding Let_def st_def [symmetric]
    using e [of "[1, 4, 3, 2]" 4] e [of "[1, 4, 1, 2]" 4] e [of "[1, 3, 1, 0]" 4] i b
    by (simp add: save_authorised_def reboot_authorised_def st_def zero_cdc_stats_def)
qed

section \<open>Runs of core 0\<close>

text \<open>The command a callback hands to the handler: the data stage of a SET of report 20, without a leading report number.\<close>

definition command_of :: "('b, 'u) usb_state \<Rightarrow> usb_callback_t \<Rightarrow> (u8 list \<times> u16) option" where
  "command_of st cb = (case cb of
     Hidd_control_xfer stage request received \<Rightarrow>
       if stage = CONTROL_STAGE_DATA \<and> type_is_class request \<and> bRequest request = HID_REQ_CONTROL_SET_REPORT \<and>
          \<not> direction_in request \<and> ucast (wValue request) = (20 :: u8) \<and> drop_bit 8 (wValue request) = 3
       then let buffer = mem_write (usb_hid_control_buffer st) 0 received
            in Some (if wLength request > 1 \<and> buffer ! 0 = 20 then (tl buffer, wLength request - 1) else (buffer, wLength request))
       else None
   | _ \<Rightarrow> None)"

text \<open>
  What core 0 does in a row, with the commands delivered: callbacks of the stack, services of interfaces, HID polls, and
  anything that leaves the command state alone.
\<close>

inductive usb_run :: "('b, 'u) usb_platform \<Rightarrow> (('b, 'u) usb_state \<times> u8 list \<times> u16) list \<Rightarrow> ('b, 'u) usb_state \<Rightarrow>
    ('b, 'u) usb_state \<Rightarrow> bool" for P where
  run_nil: "usb_run P [] st st"
| run_callback: "usb_run P log st s \<Longrightarrow>
     usb_run P (case command_of s cb of None \<Rightarrow> log | Some (r, n) \<Rightarrow> (s, r, n) # log) st (snd (usb_callback P cb s))"
| run_service: "usb_run P log st s \<Longrightarrow> usb_run P log st (cdc_service P itf s)"
| run_hid_poll: "usb_run P log st s \<Longrightarrow> usb_run P log st (usb_hid_poll P s)"
| run_other: "usb_run P log st s \<Longrightarrow> hid_part s' = hid_part s \<Longrightarrow> usb_run P log st s'"

lemma hid_partD:
  assumes "hid_part s' = hid_part s"
  shows "boot s' = boot s" "resets s' = resets s" "usb_hid_command_status s' = usb_hid_command_status s"
    "usb_hid_reboot_pending s' = usb_hid_reboot_pending s"
  using assms by (simp_all add: hid_part_def)

text \<open>No save is waiting and no reboot scheduled that was not before.\<close>

definition no_new_command :: "('b, 'u) usb_state \<Rightarrow> ('b, 'u) usb_state \<Rightarrow> bool" where
  "no_new_command s s' \<longleftrightarrow> boot s' = boot s \<and> resets s' = resets s \<and>
     (usb_hid_command_status s' = USB_HID_STATUS_PENDING \<longrightarrow> usb_hid_command_status s = USB_HID_STATUS_PENDING) \<and>
     (usb_hid_reboot_pending s' \<longrightarrow> usb_hid_reboot_pending s)"

lemma hid_part_no_command: "hid_part s' = hid_part s \<Longrightarrow> no_new_command s s'"
  by (simp add: no_new_command_def hid_part_def)

lemma reset_host_hid:
  assumes "worker_only P"
  shows "hid_part (usb_cdc_reset_host_state P st) = hid_part st"
proof -
  have "hid_part (fold (reset_itf P) itfs st) = hid_part st" for itfs
    by (induction itfs arbitrary: st) (simp_all add: reset_itf_ports(2) [OF assms])
  then show ?thesis by (simp add: usb_cdc_reset_host_state_def)
qed

lemma line_state_hid:
  assumes "worker_only P"
  shows "hid_part (tud_cdc_line_state_cb P itf dtr rts st) = hid_part st"
  using assms by (simp add: tud_cdc_line_state_cb_def Let_def case_prod_beta)

lemma authorised_buffer [simp]:
  "save_authorised (st\<lparr>usb_hid_control_buffer := b\<rparr>) r n = save_authorised st r n"
  "reboot_authorised (st\<lparr>usb_hid_control_buffer := b\<rparr>) r n = reboot_authorised st r n"
  "command_idle (st\<lparr>usb_hid_control_buffer := b\<rparr>) = command_idle st"
  by (simp_all add: save_authorised_def reboot_authorised_def command_idle_def)

text \<open>A callback delivers a command, or schedules nothing.\<close>

lemma report_type_feature: "hid_report_type n = HID_REPORT_TYPE_FEATURE \<longleftrightarrow> n = 3"
  by (simp add: hid_report_type_def)

lemma control_set_effect:
  shows "case command_of s (Hidd_control_xfer stage q rcv) of
      None \<Rightarrow> type_is_class q \<longrightarrow> bRequest q = HID_REQ_CONTROL_SET_REPORT \<longrightarrow> no_new_command s (snd (hid_control_set P stage q rcv s))
    | Some (r, n) \<Rightarrow> snd (hid_control_set P stage q rcv s) = s \<or>
        snd (hid_control_set P stage q rcv s) = snd (usb_hid_handle_command P (Some r) n
          (s\<lparr>usb_hid_control_buffer := mem_write (usb_hid_control_buffer s) 0 rcv\<rparr>))"
  by (cases stage) (auto simp: command_of_def hid_control_set_def Let_def case_prod_beta report_type_feature
      no_new_command_def control_send_def)

lemma callback_effect:
  assumes w: "worker_only P"
  shows "case command_of s cb of
      None \<Rightarrow> no_new_command s (snd (usb_callback P cb s))
    | Some (r, n) \<Rightarrow> boot (snd (usb_callback P cb s)) = boot s \<and> resets (snd (usb_callback P cb s)) = resets s \<and>
        (usb_hid_command_status (snd (usb_callback P cb s)) = USB_HID_STATUS_PENDING \<longrightarrow>
           usb_hid_command_status s = USB_HID_STATUS_PENDING \<or> save_authorised s r n) \<and>
        (usb_hid_reboot_pending (snd (usb_callback P cb s)) \<longrightarrow> usb_hid_reboot_pending s \<or> reboot_authorised s r n)"
proof (cases "command_of s cb")
  case None
  have "no_new_command s (snd (usb_callback P cb s))"
  proof (cases cb)
    case (Hidd_control_xfer stage q rcv)
    then show ?thesis using None control_set_effect [where s = s and stage = stage and q = q and rcv = rcv and P = P] control_get_parts(2) [OF w, of stage q s]
      by (cases "bRequest q") (auto simp: usb_callback_def hidd_control_xfer_wrap_def Let_def case_prod_beta hid_part_no_command)
  qed (auto simp: usb_callback_def tud_mount_cb_def tud_umount_cb_def reset_host_hid [OF w] line_state_hid [OF w]
      line_coding_itf [OF w, unfolded itf_step_def] intro!: hid_part_no_command)
  then show ?thesis using None by simp
next
  case (Some rn)
  then obtain r n where rn: "command_of s cb = Some (r, n)" by (cases rn) auto
  then obtain stage q rcv where cb: "cb = Hidd_control_xfer stage q rcv" "type_is_class q" "bRequest q = HID_REQ_CONTROL_SET_REPORT"
    by (auto simp: command_of_def split: usb_callback_t.splits if_splits)
  let ?b = "s\<lparr>usb_hid_control_buffer := mem_write (usb_hid_control_buffer s) 0 rcv\<rparr>"
  have "snd (usb_callback P cb s) = s \<or> snd (usb_callback P cb s) = snd (usb_hid_handle_command P (Some r) n ?b)"
    using control_set_effect [where s = s and stage = stage and q = q and rcv = rcv and P = P] rn cb by (simp add: usb_callback_def hidd_control_xfer_wrap_def)
  then show ?thesis
  proof
    assume "snd (usb_callback P cb s) = s" then show ?thesis using rn by simp
  next
    assume e: "snd (usb_callback P cb s) = snd (usb_hid_handle_command P (Some r) n ?b)"
    show ?thesis
    proof (cases "command_idle s")
      case True
      then have "command_idle ?b" by simp
      from handle_outcome [OF this, of P r n] show ?thesis using rn unfolding e command_outcome_def by simp
    next
      case False
      then have "usb_hid_handle_command P (Some r) n ?b = (False, ?b)"
        by (auto simp: usb_hid_handle_command_def command_idle_def)
      then show ?thesis using rn by (simp add: e)
    qed
  qed
qed

text \<open>A HID poll executes a waiting save with all sessions closed, and resets at the deadline of a scheduled reboot.\<close>

lemma execute_save_effect:
  "usb_hid_command_status (usb_hid_execute_pending_save P s) \<noteq> USB_HID_STATUS_PENDING"
  "resets (usb_hid_execute_pending_save P s) = resets s"
  "\<not> usb_hid_cdc_sessions_closed s \<Longrightarrow> boot (usb_hid_execute_pending_save P s) = boot s"
  by (simp_all add: usb_hid_execute_pending_save_def Let_def case_prod_beta make_timeout_time_ms_def read_clock_def)

lemma hid_poll_effect:
  assumes w: "worker_only P"
  shows "usb_hid_command_status (usb_hid_poll P s) = USB_HID_STATUS_PENDING \<Longrightarrow> False"
    "boot (usb_hid_poll P s) \<noteq> boot s \<Longrightarrow> usb_hid_command_status s = USB_HID_STATUS_PENDING \<and> usb_hid_cdc_sessions_closed s"
    "usb_hid_reboot_pending (usb_hid_poll P s) \<Longrightarrow> usb_hid_reboot_pending s \<or> usb_hid_command_status s = USB_HID_STATUS_PENDING"
    "resets (usb_hid_poll P s) \<noteq> resets s \<Longrightarrow> usb_hid_reboot_pending s \<or> usb_hid_command_status s = USB_HID_STATUS_PENDING"
proof -
  define s1 where "s1 = (if usb_hid_command_status s = USB_HID_STATUS_PENDING then usb_hid_execute_pending_save P s else s)"
  define due where "due \<longleftrightarrow> usb_hid_reboot_pending s1 \<and> fst (time_reached (clock P) (usb_hid_reboot_deadline s1) s1)"
  have p: "usb_hid_command_status s1 \<noteq> USB_HID_STATUS_PENDING" "resets s1 = resets s"
    using execute_save_effect [where P = P and s = s] by (simp_all add: s1_def)
  have q: "boot (usb_hid_poll P s) = boot s1" "usb_hid_command_status (usb_hid_poll P s) = usb_hid_command_status s1"
    "usb_hid_reboot_pending (usb_hid_poll P s) = usb_hid_reboot_pending s1"
    "resets (usb_hid_poll P s) = (if due then Suc (resets s1) else resets s1)"
  proof -
    have "hid_part (usb_hid_poll P s) = hid_part (if due then s1\<lparr>resets := Suc (resets s1)\<rparr> else s1)"
    proof (cases due)
      case True
      then show ?thesis
        unfolding usb_hid_poll_def Let_def s1_def [symmetric] due_def
        by (simp add: case_prod_beta hid_part_def time_reached_def read_clock_def)
    next
      case False
      then show ?thesis
        unfolding usb_hid_poll_def Let_def s1_def [symmetric] due_def
        by (simp add: case_prod_beta publish_parts [OF w] sample_parts [OF w])
    qed
    from hid_partD [OF this] show "boot (usb_hid_poll P s) = boot s1" "usb_hid_command_status (usb_hid_poll P s) = usb_hid_command_status s1"
      "usb_hid_reboot_pending (usb_hid_poll P s) = usb_hid_reboot_pending s1"
      "resets (usb_hid_poll P s) = (if due then Suc (resets s1) else resets s1)" by simp_all
  qed
  show "usb_hid_command_status (usb_hid_poll P s) = USB_HID_STATUS_PENDING \<Longrightarrow> False" using p q by simp
  show "boot (usb_hid_poll P s) \<noteq> boot s \<Longrightarrow> usb_hid_command_status s = USB_HID_STATUS_PENDING \<and> usb_hid_cdc_sessions_closed s"
    using q(1) execute_save_effect(3) [where P = P and s = s] by (auto simp: s1_def split: if_splits)
  show "usb_hid_reboot_pending (usb_hid_poll P s) \<Longrightarrow> usb_hid_reboot_pending s \<or> usb_hid_command_status s = USB_HID_STATUS_PENDING"
    using q(3) by (auto simp: s1_def split: if_splits)
  show "resets (usb_hid_poll P s) \<noteq> resets s \<Longrightarrow> usb_hid_reboot_pending s \<or> usb_hid_command_status s = USB_HID_STATUS_PENDING"
    using q(4) p by (auto simp: s1_def due_def split: if_splits)
qed

text \<open>Every save or reset of a run goes back to a command of it that authorised it.\<close>

definition traced :: "(('b, 'u) usb_state \<times> u8 list \<times> u16) list \<Rightarrow> ('b, 'u) usb_state \<Rightarrow> ('b, 'u) usb_state \<Rightarrow> bool" where
  "traced log st s \<longleftrightarrow>
     (boot s \<noteq> boot st \<or> usb_hid_command_status s = USB_HID_STATUS_PENDING \<longrightarrow> (\<exists>(s, r, n) \<in> set log. save_authorised s r n)) \<and>
     (resets s \<noteq> resets st \<or> usb_hid_reboot_pending s \<longrightarrow>
        (\<exists>(s, r, n) \<in> set log. save_authorised s r n \<or> reboot_authorised s r n))"

lemma traced_more: "traced log st s \<Longrightarrow> traced (x # log) st s"
  by (auto simp: traced_def)

lemma traced_no_command: "traced log st s \<Longrightarrow> no_new_command s s' \<Longrightarrow> traced log st s'"
  by (simp add: traced_def no_new_command_def)

lemma run_traced:
  assumes w: "worker_only P"
  shows "usb_run P log st s \<Longrightarrow> command_idle st \<Longrightarrow> traced log st s"
proof (induction rule: usb_run.induct)
  case (run_nil st) then show ?case by (simp add: traced_def command_idle_def)
next
  case (run_callback log st s cb)
  show ?case
  proof (cases "command_of s cb")
    case None
    then show ?thesis using callback_effect [OF w, of s cb] traced_no_command [OF run_callback.IH [OF run_callback.prems]] by simp
  next
    case (Some rn)
    then show ?thesis using callback_effect [OF w, of s cb] run_callback.IH [OF run_callback.prems]
      by (cases rn) (auto simp: traced_def)
  qed
next
  case (run_service log st s itf)
  have "hid_part (cdc_service P itf s) = hid_part s" using service_itf [OF w, of itf s] by (simp add: itf_step_def)
  then show ?case by (rule traced_no_command [OF run_service.IH [OF run_service.prems] hid_part_no_command])
next
  case (run_hid_poll log st s)
  then show ?case using hid_poll_effect [OF w, of s] unfolding traced_def by fastforce
next
  case (run_other log st s s')
  then show ?case using traced_no_command [OF _ hid_part_no_command] by blast
qed

text \<open>The passes of the main loop are such a run.\<close>

lemma run_tud_task: "usb_run P log st s \<Longrightarrow> \<exists>log'. usb_run P log' st (tud_task P n s)"
proof (induction n arbitrary: log s)
  case (Suc n)
  let ?s = "s\<lparr>usb := snd (tud_next P (usb s))\<rparr>" and ?cb = "fst (tud_next P (usb s))"
  have "usb_run P log st ?s" by (rule run_other [OF Suc.prems]) simp
  from run_callback [OF this, of ?cb] obtain log' where "usb_run P log' st (snd (usb_callback P ?cb ?s))" by blast
  then have "usb_run P log' st (on_usb g (snd (usb_callback P ?cb ?s)))" for g by (rule run_other) simp
  from Suc.IH [OF this] show ?case by (simp add: Let_def case_prod_beta)
qed auto

lemma run_services: "usb_run P log st s \<Longrightarrow> usb_run P log st (fold (\<lambda>offset. cdc_service P (f offset)) offsets s)"
  by (induction offsets arbitrary: s) (simp_all add: run_service)

lemma umount_hid:
  assumes "worker_only P"
  shows "hid_part (tud_umount_cb P s) = hid_part s"
  using assms by (simp add: tud_umount_cb_def reset_host_hid)

lemma run_cdc_poll:
  assumes "worker_only P" "usb_run P log st s"
  shows "\<exists>log'. usb_run P log' st (usb_cdc_poll P s)"
proof -
  define s1 where "s1 = (if tud_task_event_ready P (usb s) then note_load 0 s else s)"
  define s2 where "s2 = tud_task P (tud_callbacks P (usb s1)) s1"
  have "usb_run P log st s1" by (rule run_other [OF assms(2)]) (simp add: s1_def)
  from run_tud_task [OF this] obtain log' where l: "usb_run P log' st s2" unfolding s2_def by blast
  have "usb_run P log' st (tud_umount_cb P s2)" by (rule run_other [OF l umount_hid [OF assms(1)]])
  moreover have "usb_run P log' st ((fold (\<lambda>offset. cdc_service P ((usb_cdc_poll_start_itf s + offset) mod USB_CDC_PORT_COUNT)) all_itfs s2)
      \<lparr>usb_cdc_poll_start_itf := n\<rparr>)" for n
    by (rule run_other [OF run_services [OF l]]) simp
  ultimately show ?thesis
    unfolding usb_cdc_poll_def Let_def s1_def [symmetric] s2_def [symmetric] using l by auto
qed

lemma heartbeat_hid: "hid_part (snd (uart_driver_worker_heartbeat_is_fresh t s)) = hid_part (s :: ('b, 'u) usb_state)"
  by (simp add: uart_driver_worker_heartbeat_is_fresh_def Let_def case_prod_beta hid_part_def)

lemma run_main_pass:
  assumes "worker_only P" "usb_run P log st s"
  shows "\<exists>log'. usb_run P log' st (snd (main_pass P s))"
proof -
  define s1 where "s1 = (snd (read_clock (clock P) s))\<lparr>load_meter :=
    service_load_begin (load_meter (snd (read_clock (clock P) s))) 0 (ucast (fst (read_clock (clock P) s)))\<rparr>"
  define s2 where "s2 = usb_hid_poll P (usb_cdc_poll P s1)"
  have "usb_run P log st s1" by (rule run_other [OF assms(2)]) (simp add: s1_def)
  from run_cdc_poll [OF assms(1) this] obtain log' where "usb_run P log' st (usb_cdc_poll P s1)" by blast
  then have "usb_run P log' st s2" unfolding s2_def by (rule run_hid_poll)
  moreover have "hid_part (snd (main_pass P s)) = hid_part s2"
    unfolding main_pass_def Let_def case_prod_beta s1_def [symmetric] s2_def [symmetric]
    using assms(1) by (simp add: heartbeat_hid)
  ultimately show ?thesis using run_other by blast
qed

lemma main_passes_run:
  assumes "worker_only P"
  shows "\<exists>log. usb_run P log st (((\<lambda>s. snd (main_pass P s)) ^^ n) st)"
proof (induction n)
  case 0 show ?case using run_nil [of P st] by auto
next
  case (Suc n) then show ?case using run_main_pass [OF assms] by auto
qed

text \<open>C33: No save and no reset without an authorisation from the host. Along any run of core 0 (callbacks in any order,
  services, HID polls, with core 1 at work) that starts with no save waiting and no reboot scheduled, the saved configuration
  has changed only if the run delivered a report-20 command that authorised a save at that moment, and the board was
  reset only if it delivered one that authorised a save or a reboot. The poll that writes the flash finds all six sessions closed.\<close>

theorem save_and_reset_authorised:
  assumes "worker_only P" "command_idle st" "usb_run P log st st'"
  shows "(boot st' \<noteq> boot st \<longrightarrow> (\<exists>(s, r, n) \<in> set log. save_authorised s r n)) \<and>
    (resets st' \<noteq> resets st \<longrightarrow> (\<exists>(s, r, n) \<in> set log. save_authorised s r n \<or> reboot_authorised s r n)) \<and>
    (boot (usb_hid_poll P st') \<noteq> boot st' \<longrightarrow> (\<forall>itf < 6. \<not> opened (cdc_stats (usb_cdc_ports st' itf))))"
  using run_traced [OF assms(1,3,2)] hid_poll_effect(2) [OF assms(1), of st'] unfolding traced_def closed_iff by blast

theorem save_and_reset_witness:
  "let st = demo_state \<lparr>host_calls = [], host_bytes = [], host_got = []\<rparr>;
       request = \<lparr>type_is_class = True, direction_in = False, bRequest = HID_REQ_CONTROL_SET_REPORT, wValue = 0x314, wLength = 4\<rparr>;
       st' = snd (usb_callback demo_usb_platform (Hidd_control_xfer CONTROL_STAGE_DATA request [1, 3, 0, 0]) st)
   in resets (usb_hid_poll demo_usb_platform st') = 0"
proof -
  define st where "st = demo_state \<lparr>host_calls = [], host_bytes = [], host_got = []\<rparr>"
  define cb where "cb = Hidd_control_xfer CONTROL_STAGE_DATA \<lparr>type_is_class = True, direction_in = False,
    bRequest = HID_REQ_CONTROL_SET_REPORT, wValue = 0x314, wLength = 4\<rparr> [1, 3, 0, 0]"
  have d: "ucast (0x314 :: u16) = (20 :: u8)" "drop_bit 8 (0x314 :: u16) = 3" by code_simp+
  have i: "command_idle st" by (simp add: st_def command_idle_def)
  obtain b where c: "command_of st cb = Some ([1, 3, 0, 0] @ b, 4)"
    by (simp add: command_of_def cb_def d st_def mem_write_def)
  have "usb_run demo_usb_platform [(st, [1, 3, 0, 0] @ b, 4)] st (usb_hid_poll demo_usb_platform (snd (usb_callback demo_usb_platform cb st)))"
    using run_hid_poll [OF run_callback [OF run_nil [of demo_usb_platform st], of cb]] by (simp add: c)
  from save_and_reset_authorised [OF demo_usb_worker i this]
  have "resets (usb_hid_poll demo_usb_platform (snd (usb_callback demo_usb_platform cb st))) = resets st"
    by (auto simp: save_authorised_def reboot_authorised_def)
  then show ?thesis unfolding Let_def st_def [symmetric] cb_def [symmetric] by (simp add: st_def)
qed

end
