(* ===== verification/Usb_Deadline.thy ===== *)
theory Usb_Deadline
  imports Usb_Sessions
begin

text \<open>How long a line-coding request may wait for the worker's mailbox.\<close>

section \<open>One attempt\<close>

definition attempt_deadline :: "('b, 'u) usb_platform \<Rightarrow> u8 \<Rightarrow> ('b, 'u) usb_state \<Rightarrow> u64" where
  "attempt_deadline P itf st = (if lc_deadline (lc_of st itf) = nil_time then clock P (clock_reads st) + 1000000
     else lc_deadline (lc_of st itf))"

text \<open>The reading of the clock that an attempt compares with its deadline.\<close>

definition attempt_time :: "('b, 'u) usb_platform \<Rightarrow> u8 \<Rightarrow> ('b, 'u) usb_state \<Rightarrow> u64" where
  "attempt_time P itf st = clock P (if lc_deadline (lc_of st itf) = nil_time then Suc (clock_reads st) else clock_reads st)"

lemma lc_of_simps [simp]:
  "lc_of (put_lc itf f st) itf = f (lc_of st itf)" "lc_of (note_load c st) itf = lc_of st itf"
  "worker_only P \<Longrightarrow> lc_of (between P st) itf = lc_of st itf"
  by (simp_all add: lc_of_def)

lemma put_lc_clock [simp]: "clock_reads (put_lc itf f st) = clock_reads st"
  by (simp add: put_lc_def put_cdc_def)

text \<open>The state an attempt works on, the deadline set and the clock read.\<close>

definition attempt_start :: "('b, 'u) usb_platform \<Rightarrow> u8 \<Rightarrow> ('b, 'u) usb_state \<Rightarrow> ('b, 'u) usb_state" where
  "attempt_start P itf st =
     snd (time_reached (clock P) (attempt_deadline P itf st)
       (if lc_deadline (lc_of st itf) = nil_time
        then put_lc itf (lc_deadline_update (\<lambda>_. attempt_deadline P itf st))
               (snd (make_timeout_time_ms (clock P) USB_CDC_SOFT_PENDING_TIMEOUT_MS st))
        else st))"

lemma attempt_start_lc: "lc_of (attempt_start P itf st) itf = (lc_of st itf)\<lparr>lc_deadline := attempt_deadline P itf st\<rparr>"
proof -
  have "lc_of (snd (time_reached c d s)) itf = lc_of s itf" "lc_of (snd (make_timeout_time_ms c ms s)) itf = lc_of s itf"
    for c d ms and s :: "('a, 'b) usb_state"
    by (simp_all add: lc_of_def)
  then show ?thesis by (simp add: attempt_start_def attempt_deadline_def)
qed

lemma attempt_unfold:
  assumes "lc_pending (lc_of st itf)"
  shows "usb_cdc_apply_pending_line_coding P itf st =
    (let s = attempt_start P itf st
     in if attempt_deadline P itf st \<le> attempt_time P itf st
        then let s = put_lc itf (lc_pending_update (\<lambda>_. False)) (note_load 0 s)
             in uart_driver_report_soft_pending_error (clock P) (ucast itf) (lc_generation (lc_of s itf))
                  UART_CONTROL_ERROR_TIMEOUT (between P s)
     else let s = between P s
     in if \<not> uart_driver_line_coding_acceptable s (ucast itf) (Some (lc_coding (lc_of s itf)))
        then let s = put_lc itf (lc_pending_update (\<lambda>_. False)) (note_load 0 s)
             in uart_driver_report_soft_pending_error (clock P) (ucast itf) (lc_generation (lc_of s itf))
                  UART_CONTROL_ERROR_OTHER (between P s)
     else let s = between P s;
              (queued, s) = uart_driver_queue_line_coding (clock P) (ucast itf) (Some (lc_coding (lc_of s itf)))
                               (lc_generation (lc_of s itf)) s
          in if queued then put_lc itf (lc_pending_update (\<lambda>_. False)) (note_load 0 s) else s)"
proof -
  define s1 where "s1 = (if lc_deadline (lc_of st itf) = nil_time
     then let (deadline, st) = make_timeout_time_ms (clock P) USB_CDC_SOFT_PENDING_TIMEOUT_MS st
          in put_lc itf (lc_deadline_update (\<lambda>_. deadline)) st else st)"
  have d: "lc_deadline (lc_of s1 itf) = attempt_deadline P itf st"
    by (simp add: s1_def attempt_deadline_def make_timeout_time_ms_def read_clock_def lc_of_def)
  have t: "fst (time_reached (clock P) (attempt_deadline P itf st) s1) \<longleftrightarrow> attempt_deadline P itf st \<le> attempt_time P itf st"
    by (simp add: s1_def attempt_time_def make_timeout_time_ms_def time_reached_def read_clock_def)
  have s: "snd (time_reached (clock P) (attempt_deadline P itf st) s1) = attempt_start P itf st"
    by (simp add: s1_def attempt_start_def attempt_deadline_def make_timeout_time_ms_def read_clock_def)
  show ?thesis
    unfolding usb_cdc_apply_pending_line_coding_def s1_def [symmetric] Let_def [of s1]
    using assms by (simp add: Let_def case_prod_beta d t s)
qed

lemma lc_keep:
  fixes s :: "('b, 'u) usb_state"
  shows "lc_of (uart_driver_report_soft_pending_error c p g r s) itf = lc_of s itf"
    "lc_of (snd (uart_driver_queue_line_coding c p x g s)) itf = lc_of s itf"
    "lc_of (snd (uart_driver_mark_control_pending p s)) itf = lc_of s itf"
  by (simp_all add: lc_of_def)

text \<open>An attempt that leaves the request waiting has only set its deadline, and came before it.\<close>

lemma attempt_waits:
  assumes "worker_only P" "lc_pending (lc_of st itf)" "lc_pending (lc_of (usb_cdc_apply_pending_line_coding P itf st) itf)"
  shows "lc_of (usb_cdc_apply_pending_line_coding P itf st) itf = (lc_of st itf)\<lparr>lc_deadline := attempt_deadline P itf st\<rparr>"
    "attempt_time P itf st < attempt_deadline P itf st"
  using assms(3) unfolding attempt_unfold [OF assms(2)]
  by (auto simp: Let_def case_prod_beta lc_keep assms(1) attempt_start_lc not_le split: if_splits)

text \<open>An attempt at the deadline ends the request with a timeout in the port's history.\<close>

lemma worker_lock:
  assumes "worker_only P"
  shows "status_lock (between P s) = status_lock s"
  using assms by (simp add: between_def worker_only_def)

lemma attempt_start_lock: "status_lock (attempt_start P itf st) = status_lock st"
  by (simp add: attempt_start_def time_reached_def make_timeout_time_ms_def read_clock_def put_lc_def put_cdc_def)

lemma attempt_late:
  assumes "worker_only P" "lc_pending (lc_of st itf)" "itf < 6" "status_lock st"
    and late: "attempt_deadline P itf st \<le> attempt_time P itf st"
  defines "st' \<equiv> usb_cdc_apply_pending_line_coding P itf st"
  shows "\<not> lc_pending (lc_of st' itf)"
    "history_reason (control_history (ports st' (ucast itf))) = UART_CONTROL_ERROR_TIMEOUT"
    "\<not> soft_pending_controls st' (ucast itf)"
proof -
  define s where "s = put_lc itf (lc_pending_update (\<lambda>_. False)) (note_load 0 (attempt_start P itf st))"
  have st': "st' = uart_driver_report_soft_pending_error (clock P) (ucast itf) (lc_generation (lc_of s itf))
      UART_CONTROL_ERROR_TIMEOUT (between P s)"
    using late by (simp add: st'_def attempt_unfold [OF assms(2)] s_def Let_def)
  show "\<not> lc_pending (lc_of st' itf)" by (simp add: st' lc_keep assms(1) s_def)
  have l: "status_lock (between P s)"
    using assms(1,4) by (simp add: worker_lock s_def put_lc_def put_cdc_def note_load_def attempt_start_lock)
  have "unat (ucast itf :: u32) = unat itf"
    by (simp add: unsigned_ucast_eq take_bit_nat_eq_self order_less_trans [OF unsigned_less])
  then have i: "\<not> UART_PORT_COUNT \<le> (ucast itf :: u32)"
    using assms(3) by (simp add: word_le_nat_alt word_less_nat_alt)
  show "history_reason (control_history (ports st' (ucast itf))) = UART_CONTROL_ERROR_TIMEOUT"
    "\<not> soft_pending_controls st' (ucast itf)"
    using l i by (simp_all add: st' uart_driver_report_soft_pending_error_def uart_control_record_error_def Let_def
        case_prod_beta put_defs read_clock_def)
qed

section \<open>Attempts and retries in a row\<close>

text \<open>
  A request on its way, with the times of the attempts so far: attempts, retries of the same setting by the host,
  and anything that leaves the request alone.
\<close>

inductive lc_run :: "('b, 'u) usb_platform \<Rightarrow> u8 \<Rightarrow> uart_driver_line_coding_t \<Rightarrow> ('b, 'u) usb_state \<Rightarrow> u64 list \<Rightarrow>
    ('b, 'u) usb_state \<Rightarrow> bool" for P itf lc st where
  lc_nil: "lc_run P itf lc st [] st"
| lc_attempt: "lc_run P itf lc st ts s \<Longrightarrow> lc_pending (lc_of s itf) \<Longrightarrow>
     lc_run P itf lc st (attempt_time P itf s # ts) (usb_cdc_apply_pending_line_coding P itf s)"
| lc_retry: "lc_run P itf lc st ts s \<Longrightarrow> lc_pending (lc_of s itf) \<Longrightarrow> lc_run P itf lc st ts (usb_cdc_arm_soft_pending P itf lc s)"
| lc_other: "lc_run P itf lc st ts s \<Longrightarrow> lc_of s' itf = lc_of s itf \<Longrightarrow> lc_run P itf lc st ts s'"

lemma retry_keeps:
  assumes "worker_only P" "lc_pending (lc_of s itf)" "lc_coding (lc_of s itf) = lc"
  shows "lc_deadline (lc_of (usb_cdc_arm_soft_pending P itf lc s) itf) = lc_deadline (lc_of s itf)"
    "lc_coding (lc_of (usb_cdc_arm_soft_pending P itf lc s) itf) = lc"
    "lc_pending (lc_of (usb_cdc_arm_soft_pending P itf lc s) itf)"
  using assms by (simp_all add: usb_cdc_arm_soft_pending_def usb_cdc_soft_pending_should_set_deadline_def Let_def
      case_prod_beta lc_keep)

text \<open>C31: A line-coding request waits at most one second for the worker's mailbox. The first attempt to stage it sets the deadline
  one second ahead; as long as it is waiting, identical retries of the host and everything else leave the
  deadline and the setting as they are, and no attempt so far read a time at or after the deadline; the first
  attempt that does ends the request, on core 0 and in the control plane, and records a timeout.\<close>

theorem line_coding_deadline_kept:
  assumes w: "worker_only P" and "itf < 6"
    and "lc_pending (lc_of st itf)" "lc_coding (lc_of st itf) = lc" "lc_deadline (lc_of st itf) = d" "d \<noteq> nil_time"
    and "lc_run P itf lc st ts s"
  shows "(lc_pending (lc_of s itf) \<longrightarrow>
      lc_deadline (lc_of s itf) = d \<and> lc_coding (lc_of s itf) = lc \<and> (\<forall>t \<in> set ts. t < d)) \<and>
    (lc_pending (lc_of s itf) \<and> status_lock s \<and> d \<le> clock P (clock_reads s) \<longrightarrow>
      \<not> lc_pending (lc_of (usb_cdc_apply_pending_line_coding P itf s) itf) \<and>
      \<not> soft_pending_controls (usb_cdc_apply_pending_line_coding P itf s) (ucast itf) \<and>
      history_reason (control_history (ports (usb_cdc_apply_pending_line_coding P itf s) (ucast itf))) = UART_CONTROL_ERROR_TIMEOUT) \<and>
    (\<forall>s0. lc_pending (lc_of s0 itf) \<and> lc_deadline (lc_of s0 itf) = nil_time \<and>
        lc_pending (lc_of (usb_cdc_apply_pending_line_coding P itf s0) itf) \<longrightarrow>
      lc_deadline (lc_of (usb_cdc_apply_pending_line_coding P itf s0) itf) = clock P (clock_reads s0) + 1000000)"
proof -
  have 1: "lc_pending (lc_of s itf) \<longrightarrow> lc_deadline (lc_of s itf) = d \<and> lc_coding (lc_of s itf) = lc \<and> (\<forall>t \<in> set ts. t < d)"
    using assms(7)
  proof (induction rule: lc_run.induct)
    case (lc_attempt ts s)
    then show ?case
      using attempt_waits [OF w lc_attempt.hyps(2)] assms(6) by (auto simp: attempt_deadline_def)
  next
    case (lc_retry ts s) then show ?case using retry_keeps [OF w] by simp
  qed (simp_all add: assms)
  have 2: "attempt_deadline P itf s = d" "attempt_time P itf s = clock P (clock_reads s)" if "lc_pending (lc_of s itf)"
    using 1 that assms(6) by (simp_all add: attempt_deadline_def attempt_time_def)
  have 3: "lc_deadline (lc_of (usb_cdc_apply_pending_line_coding P itf s0) itf) = clock P (clock_reads s0) + 1000000"
    if "lc_pending (lc_of s0 itf)" "lc_deadline (lc_of s0 itf) = nil_time"
      "lc_pending (lc_of (usb_cdc_apply_pending_line_coding P itf s0) itf)" for s0
    using attempt_waits(1) [OF w that(1,3)] that(2) by (simp add: attempt_deadline_def)
  show ?thesis
    using 1 2 3 attempt_late [OF w _ assms(2), of s] by simp
qed

theorem line_coding_deadline_witness:
  "let st = put_lc 0 (\<lambda>_. \<lparr>lc_pending = True, lc_generation = 1, lc_deadline = 4, lc_coding = demo_coding0\<rparr>)
        ((demo_state \<lparr>host_calls = [], host_bytes = [], host_got = []\<rparr>)\<lparr>status_lock := True\<rparr>);
       s = usb_cdc_arm_soft_pending demo_usb_platform 0 demo_coding0 st
   in \<not> lc_pending (lc_of (usb_cdc_apply_pending_line_coding demo_usb_platform 0 st) 0) \<and> lc_deadline (lc_of s 0) = 4"
proof -
  define st where "st = put_lc 0 (\<lambda>_. \<lparr>lc_pending = True, lc_generation = 1, lc_deadline = 4, lc_coding = demo_coding0\<rparr>)
        ((demo_state \<lparr>host_calls = [], host_bytes = [], host_got = []\<rparr>)\<lparr>status_lock := True\<rparr>)"
  define s where "s = usb_cdc_arm_soft_pending demo_usb_platform 0 demo_coding0 st"
  have st: "lc_pending (lc_of st 0)" "lc_coding (lc_of st 0) = demo_coding0" "lc_deadline (lc_of st 0) = 4" "status_lock st"
    "clock demo_usb_platform (clock_reads st) = 5"
    by (simp_all add: st_def demo_usb_platform_def put_lc_def put_cdc_def lc_of_def)
  have s: "lc_pending (lc_of s 0)"
    unfolding s_def by (rule retry_keeps(3) [OF demo_usb_worker st(1,2)])
  have "lc_run demo_usb_platform 0 demo_coding0 st [] s"
    unfolding s_def by (rule lc_retry [OF lc_nil st(1)])
  note t = line_coding_deadline_kept [OF demo_usb_worker _ st(1,2,3) _ this]
    line_coding_deadline_kept [OF demo_usb_worker _ st(1,2,3) _ lc_nil]
  show ?thesis
    unfolding Let_def st_def [symmetric] s_def [symmetric] using t s st by (simp add: word_le_nat_alt)
qed

end
