(* ===== verification/Usb_Reports.thy ===== *)
theory Usb_Reports
  imports Usb_Demo
begin

text \<open>
  The HID reports: the 64-bit totals of the channels, and what of core 0's memory a report can show.
\<close>

section \<open>Totals\<close>

definition raw_counters :: "usb_hid_channel_t \<Rightarrow> u32 list" where
  "raw_counters c = [ps_uart_tx_bytes (ch_uart c), ps_uart_rx_bytes (ch_uart c), cdc_tx_bytes (ch_cdc c), cdc_rx_bytes (ch_cdc c)]"

definition accounted :: "nat \<Rightarrow> nat \<Rightarrow> usb_hid_channel_t \<Rightarrow> bool" where
  "accounted k count c \<longleftrightarrow> length (ch_total c) = 4 \<and> length (ch_previous c) = 4 \<and>
     ch_previous c ! k = of_nat count \<and> ch_total c ! k = of_nat count"

lemma capture_total_parts:
  fixes raw :: "u32 list" and peaks :: "u16 list"
  assumes "length (ch_total c) = 4" "length (ch_previous c) = 4" "j < 4"
  defines "c' \<equiv> capture_total raw peaks j c"
  shows "ch_total c' = (ch_total c)[j := ch_total c ! j + ucast (raw ! j - ch_previous c ! j)]"
    "ch_previous c' = (ch_previous c)[j := raw ! j]" "ch_uart c' = ch_uart c" "ch_cdc c' = ch_cdc c"
  using assms by (simp_all add: capture_total_def Let_def)

lemma note_fault_parts [simp]:
  "ch_total (usb_hid_note_fault t c) = ch_total c" "ch_previous (usb_hid_note_fault t c) = ch_previous c"
  "ch_uart (usb_hid_note_fault t c) = ch_uart c" "ch_cdc (usb_hid_note_fault t c) = ch_cdc c"
  by (simp_all add: usb_hid_note_fault_def Let_def)

lemma four: "k < 4 \<longleftrightarrow> k = 0 \<or> k = 1 \<or> k = 2 \<or> k = (3 :: nat)"
  by auto

lemma upt_4: "[0..<4] = [0, 1, 2, 3 :: nat]"
  by code_simp

lemma capture_totals_parts:
  assumes "length (ch_total c) = 4" "length (ch_previous c) = 4" "k < 4"
  shows "ch_total (capture_totals c) ! k = ch_total c ! k + ucast (raw_counters c ! k - ch_previous c ! k)"
    "ch_previous (capture_totals c) ! k = raw_counters c ! k"
    "length (ch_total (capture_totals c)) = 4" "length (ch_previous (capture_totals c)) = 4"
    "raw_counters (capture_totals c) = raw_counters c" "ch_cdc (capture_totals c) = ch_cdc c"
  using assms unfolding capture_totals_def Let_def four
  by (auto simp: upt_4 capture_total_parts raw_counters_def)

lemma fault_fold_parts:
  "ch_total (fold (capture_rx_fault rx now) js c) = ch_total c \<and> ch_previous (fold (capture_rx_fault rx now) js c) = ch_previous c \<and>
   ch_uart (fold (capture_rx_fault rx now) js c) = ch_uart c \<and> ch_cdc (fold (capture_rx_fault rx now) js c) = ch_cdc c"
  by (induction js arbitrary: c) (simp_all add: capture_rx_fault_def Let_def)

lemma capture_uart_parts:
  "ch_total (capture_uart u now c) = ch_total c" "ch_previous (capture_uart u now c) = ch_previous c"
  by (simp_all add: capture_uart_def Let_def fault_fold_parts)

text \<open>A capture accounts the sample it has taken, once.\<close>

lemma capture_channel:
  assumes w: "worker_only P" and "fst (usb_hid_capture P i st)"
  shows "\<exists>c. usb_hid_channels (snd (usb_hid_capture P i st)) i = capture_totals c \<and>
    ch_total c = ch_total (usb_hid_channels st i) \<and> ch_previous c = ch_previous (usb_hid_channels st i) \<and>
    ch_cdc c = cdc_stats (usb_cdc_ports st i)"
proof -
  define n where "n = core1_steps st"
  define q where "q = uart_driver_port_stats (ucast i) (\<lambda>k. core1 P (n + k)) (Some zero_port_stats) st"
  define st1 where "st1 = (snd (snd q))\<lparr>core1_steps := n + 24\<rparr>"
  define st2 where "st2 = (if fst q then let (now_us, st) = read_clock (clock P) st1
                     in put_channel i (capture_uart (the (fst (snd q))) now_us) st
                else if ch_measurement (usb_hid_channels st1 i) \<noteq> USB_HID_MEASUREMENT_UNAVAILABLE
                then put_channel i (ch_measurement_update (\<lambda>_. USB_HID_MEASUREMENT_CACHED)) st1 else st1)"
  have 1: "usb_hid_channels st1 = usb_hid_channels st" "usb_cdc_ports st1 = usb_cdc_ports st"
    by (simp_all add: st1_def q_def port_stats_keep [where f = usb_hid_channels] port_stats_keep [where f = usb_cdc_ports]
        between_parts [OF w])
  have r: "usb_hid_channels (snd (read_clock c s)) = usb_hid_channels s" for c and s :: "('a, 'b) usb_state"
    by (simp add: read_clock_def)
  have 2: "ch_total (usb_hid_channels st2 i) = ch_total (usb_hid_channels st i)"
    "ch_previous (usb_hid_channels st2 i) = ch_previous (usb_hid_channels st i)" "usb_cdc_ports st2 = usb_cdc_ports st"
    by (simp_all add: st2_def 1 r case_prod_beta capture_uart_parts)
  have b: "usb_hid_channels (between P s) = usb_hid_channels s" for s
    using own_between [OF w, of s] by (rule own_partD)
  have "usb_hid_capture P i st = (let st = st2; 
          (ok, cdc) = usb_cdc_port_stats st i (Some (ch_cdc (usb_hid_channels st i)));
          st = put_channel i (ch_cdc_update (\<lambda>_. the cdc)) st
      in if \<not> ok then (False, st)
         else let st = between P st;
                  (ok, control) = uart_driver_control_history st (ucast i) (Some (ch_control (usb_hid_channels st i)));
                  st = put_channel i (ch_control_update (\<lambda>_. the control)) st
              in if \<not> ok then (False, st) else (True, put_channel i capture_totals st))"
    by (simp add: usb_hid_capture_def st2_def st1_def q_def n_def Let_def case_prod_beta)
  then show ?thesis
    using assms(2) 2
    by (auto simp: Let_def case_prod_beta usb_cdc_port_stats_def b split: if_splits)
qed

lemma count_step:
  assumes "c \<le> c'" "c' < c + 2 ^ 32"
  shows "(of_nat c :: u64) + ucast (of_nat c' - of_nat c :: u32) = of_nat c'"
proof -
  have d: "(of_nat c' - of_nat c :: u32) = of_nat (c' - c)" using assms(1) by (simp add: of_nat_diff)
  have "ucast (of_nat n :: u32) = (of_nat n :: u64)" if "n < 2 ^ 32" for n
    using that by (simp add: word_eq_iff_unsigned unsigned_ucast_eq unsigned_of_nat take_bit_nat_eq_self)
  then have e: "ucast (of_nat (c' - c) :: u32) = (of_nat (c' - c) :: u64)"
    using assms by (metis less_diff_conv2 add.commute)
  have "(of_nat c :: u64) + of_nat (c' - c) = of_nat (c + (c' - c))" by (simp only: of_nat_add)
  then show ?thesis using assms(1) by (simp only: d e le_add_diff_inverse)
qed


definition demo_sample :: "nat \<Rightarrow> (demo_port, demo_host) usb_state" where
  "demo_sample n = put_cdc 0 (cdc_stats_update (cdc_rx_bytes_update (\<lambda>_. of_nat (3000000000 * Suc n))))
     (put_channel 0 (\<lambda>c. c\<lparr>ch_total := [0, 0, 0, of_nat (3000000000 * n)], ch_previous := [0, 0, 0, of_nat (3000000000 * n)]\<rparr>)
       ((demo_state \<lparr>host_calls = [], host_bytes = [], host_got = []\<rparr>)\<lparr>status_lock := True\<rparr>))"

lemma demo_sample_capture:
  "fst (usb_hid_capture demo_usb_platform 0 (demo_sample n))"
  "usb_hid_channels (snd (usb_hid_capture demo_usb_platform 0 (demo_sample n))) 0 = capture_totals
     (zero_channel\<lparr>ch_cdc := zero_cdc_stats\<lparr>cdc_rx_bytes := of_nat (3000000000 * Suc n)\<rparr>,
        ch_total := [0, 0, 0, of_nat (3000000000 * n)], ch_previous := [0, 0, 0, of_nat (3000000000 * n)]\<rparr>)"
  by (simp_all add: usb_hid_capture_def demo_sample_def uart_driver_port_stats_def uart_driver_port_def Let_def
      usb_cdc_port_stats_def uart_driver_control_history_def between_def demo_usb_platform_def put_channel_def put_cdc_def
      demo_state_def uart_driver_state_t.defs demo_boot_def zero_channel_def zero_cdc_stats_def zero_history_def)


end
