(* ===== verification/Usb_Leaks.thy ===== *)
theory Usb_Leaks
  imports Usb_Demo
begin

text \<open>
  What a report can show: only bytes the firmware has written into it, and never more than the host asked for.
\<close>

section \<open>Buffers that agree where they are written\<close>

definition agree :: "nat set \<Rightarrow> u8 list \<Rightarrow> u8 list \<Rightarrow> bool" where
  "agree S a b \<longleftrightarrow> length a = length b \<and> (\<forall>i \<in> S. i < length a \<longrightarrow> a ! i = b ! i)"

lemma agree_none: "length a = length b \<Longrightarrow> agree {} a b"
  by (simp add: agree_def)

lemma agree_update: "agree S a b \<Longrightarrow> agree (insert i S) (a[i := x]) (b[i := x])"
  unfolding agree_def by (metis insert_iff length_list_update nth_list_update_eq nth_list_update_neq)

lemma agree_u16: "agree S a b \<Longrightarrow> agree (insert (i + 1) (insert i S)) (usb_hid_write_u16 a i x) (usb_hid_write_u16 b i x)"
  by (simp add: usb_hid_write_u16_def agree_update)

lemma agree_fold:
  assumes "\<And>j a b S. agree S a b \<Longrightarrow> agree (f j \<union> S) (g j a) (g j b)"
  shows "agree S a b \<Longrightarrow> agree (\<Union> (f ` set js) \<union> S) (fold g js a) (fold g js b)"
proof (induction js arbitrary: a b S)
  case (Cons j js)
  have "agree (\<Union> (f ` set js) \<union> (f j \<union> S)) (fold g js (g j a)) (fold g js (g j b))"
    by (rule Cons.IH [OF assms [OF Cons.prems]])
  then show ?case by (simp add: Un_ac)
qed simp

lemma agree_u32: "agree S a b \<Longrightarrow> agree ({i..<i + 4} \<union> S) (usb_hid_write_u32 a i x) (usb_hid_write_u32 b i x)"
proof -
  assume "agree S a b"
  from agree_fold [where f = "\<lambda>j. {i + j}" and g = "\<lambda>byte bytes. bytes[i + byte := ucast (drop_bit (8 * byte) x)]" and js = "[0..<4]",
      OF _ this]
  have "agree (\<Union> ((\<lambda>j. {i + j}) ` {0..<4}) \<union> S) (usb_hid_write_u32 a i x) (usb_hid_write_u32 b i x)"
    by (simp add: usb_hid_write_u32_def agree_update)
  moreover have "\<Union> ((\<lambda>j. {i + j}) ` {0..<4}) = {i..<i + 4}"
    using image_add_atLeastLessThan [of i 0 4] by (simp add: UNION_singleton_eq_range add.commute)
  ultimately show ?thesis by simp
qed

lemma agree_take: "agree S a b \<Longrightarrow> {0..<n} \<subseteq> S \<Longrightarrow> take n a = take n b"
  unfolding agree_def by (intro nth_equalityI) (auto simp: subset_iff)

section \<open>The reports are written completely\<close>

lemma channel_bytes:
  assumes "length a = length b"
  shows "take 30 (fold (\<lambda>c p. usb_hid_write_u32 p (14 + c * 4) (t c)) [0..<4]
      (usb_hid_write_u16 (usb_hid_write_u16
        ((usb_hid_write_u32 (a[0 := x0, 1 := x1, 2 := x2]) 3 x3)[7 := x7, 8 := x8, 9 := x9]) 10 x10) 12 x12)) =
    take 30 (fold (\<lambda>c p. usb_hid_write_u32 p (14 + c * 4) (t c)) [0..<4]
      (usb_hid_write_u16 (usb_hid_write_u16
        ((usb_hid_write_u32 (b[0 := x0, 1 := x1, 2 := x2]) 3 x3)[7 := x7, 8 := x8, 9 := x9]) 10 x10) 12 x12))"
    (is "take 30 ?p = take 30 ?q")
proof -
  let ?S = "\<Union> ((\<lambda>c. {14 + c * 4..<14 + c * 4 + 4}) ` set [0..<4]) \<union>
      insert (12 + 1) (insert 12 (insert (10 + 1) (insert 10 (insert 9 (insert 8 (insert 7 ({3..<3 + 4} \<union> {2, 1, 0})))))))"
  have "agree ?S ?p ?q"
    by (intro agree_fold agree_u16 agree_update agree_u32 agree_none assms)
  moreover have "\<exists>c \<in> {0..<4}. 14 + c * 4 \<le> x \<and> x < 18 + c * 4" if "14 \<le> x" "x < 30" for x :: nat
    using that by (intro bexI [of _ "(x - 14) div 4"]) auto
  then have "{0..<30} \<subseteq> ?S" by (auto simp: not_less)
  ultimately show ?thesis by (rule agree_take)
qed

lemma telemetry_bytes:
  assumes "length a = length b"
  shows "take 20 (usb_hid_write_u32 (usb_hid_write_u16 (usb_hid_write_u16 (fold (\<lambda>byte p. p[4 + byte := t byte]) [0..<8]
      (usb_hid_write_u16 (a[0 := x0, 1 := x1]) 2 x2)) 12 x12) 14 x14) 16 x16) =
    take 20 (usb_hid_write_u32 (usb_hid_write_u16 (usb_hid_write_u16 (fold (\<lambda>byte p. p[4 + byte := t byte]) [0..<8]
      (usb_hid_write_u16 (b[0 := x0, 1 := x1]) 2 x2)) 12 x12) 14 x14) 16 x16)" (is "take 20 ?p = take 20 ?q")
proof -
  have f: "agree S u v \<Longrightarrow> agree ({4 + j} \<union> S) (u[4 + j := t j]) (v[4 + j := t j])" for j S u v
    using agree_update [of S u v "4 + j" "t j"] by simp
  let ?S = "{16..<16 + 4} \<union> insert (14 + 1) (insert 14 (insert (12 + 1) (insert 12 (\<Union> ((\<lambda>j. {4 + j}) ` set [0..<8]) \<union>
      insert (2 + 1) {2, 1, 0}))))"
  have "agree ?S ?p ?q"
    by (intro agree_fold f agree_u16 agree_update agree_u32 agree_none assms)
  moreover have "\<exists>j \<in> {0..<8}. x = 4 + j" if "4 \<le> x" "x < 12" for x :: nat
    using that by (intro bexI [of _ "x - 4"]) auto
  then have "x \<in> ?S" if "x < 20" for x
    using that by (cases "4 \<le> x \<and> x < 12") (fastforce simp: not_le)+
  then have "{0..<20} \<subseteq> ?S" by (simp only: subset_iff atLeastLessThan_iff) blast
  ultimately show ?thesis by (rule agree_take)
qed

lemma diagnostic_bytes:
  assumes "length a = length b"
  shows "take 24 (fold (\<lambda>k p. usb_hid_write_u16 p (16 + k * 2) (t k)) [0..<4]
      (usb_hid_write_u32 (usb_hid_write_u32 (usb_hid_write_u32 (a[0 := x0, 1 := x1, 2 := x2, 3 := x3]) 4 x4) 8 x8) 12 x12)) =
    take 24 (fold (\<lambda>k p. usb_hid_write_u16 p (16 + k * 2) (t k)) [0..<4]
      (usb_hid_write_u32 (usb_hid_write_u32 (usb_hid_write_u32 (b[0 := x0, 1 := x1, 2 := x2, 3 := x3]) 4 x4) 8 x8) 12 x12))"
    (is "take 24 ?p = take 24 ?q")
proof -
  have f: "agree S u v \<Longrightarrow> agree ({16 + k * 2, 16 + k * 2 + 1} \<union> S) (usb_hid_write_u16 u (16 + k * 2) (t k)) (usb_hid_write_u16 v (16 + k * 2) (t k))"
    for k S u v
    using agree_u16 [of S u v "16 + k * 2" "t k"] by (simp add: insert_commute)
  let ?S = "\<Union> ((\<lambda>k. {16 + k * 2, 16 + k * 2 + 1}) ` set [0..<4]) \<union> ({12..<12 + 4} \<union> ({8..<8 + 4} \<union> ({4..<4 + 4} \<union> {3, 2, 1, 0})))"
  have "agree ?S ?p ?q"
    by (intro agree_fold f agree_update agree_u32 agree_none assms)
  moreover have "\<exists>k \<in> {0..<4}. x = 16 + k * 2 \<or> x = 17 + k * 2" if "16 \<le> x" "x < 24" for x :: nat
    using that by (intro bexI [of _ "(x - 16) div 2"]) auto
  then have "x \<in> ?S" if "x < 24" for x
    using that by (cases "16 \<le> x") (fastforce simp: not_le)+
  then have "{0..<24} \<subseteq> ?S" by (simp only: subset_iff atLeastLessThan_iff) blast
  ultimately show ?thesis by (rule agree_take)
qed

text \<open>The three reports built on the stack: the bytes sent do not depend on what the array held.\<close>

definition same_report :: "nat \<Rightarrow> bool \<times> u8 list \<times> 's \<Rightarrow> bool \<times> u8 list \<times> 's \<Rightarrow> bool" where
  "same_report n x y \<longleftrightarrow> fst x = fst y \<and> snd (snd x) = snd (snd y) \<and> (fst x \<longrightarrow> take n (fst (snd x)) = take n (fst (snd y)))"

lemma build_channel_full:
  assumes "length a = length b"
  shows "same_report 30 (usb_hid_build_channel P i a pub now st) (usb_hid_build_channel P i b pub now st)"
  unfolding usb_hid_build_channel_def Let_def case_prod_beta same_report_def
  by (cases "fst (uart_driver_port_snapshot (between P st) (ucast i) (Some (info (ports (between P st) (ucast i)))) (Some 0))")
    (simp_all only: not_True_eq_False not_False_eq_True if_True if_False fst_conv snd_conv simp_thms channel_bytes [OF assms])

lemma build_telemetry_full:
  assumes "length a = length b"
  shows "same_report 20 (usb_hid_build_telemetry P a st) (usb_hid_build_telemetry P b st)"
  unfolding usb_hid_build_telemetry_def Let_def case_prod_beta same_report_def
  by (cases "temperature_centidegrees P (usb st) = None \<or> sys_clock_hz P (usb st) = 0 \<or> usb_hid_identity st ! 17 AND 1 \<noteq> 0 \<and> \<not> led_available P")
    (simp_all only: not_True_eq_False not_False_eq_True if_True if_False fst_conv snd_conv simp_thms telemetry_bytes [OF assms])

lemma build_diagnostic_full:
  assumes "length a = length b"
  shows "take 24 (fst (usb_hid_build_diagnostic P i a st)) = take 24 (fst (usb_hid_build_diagnostic P i b st))"
    "snd (usb_hid_build_diagnostic P i a st) = snd (usb_hid_build_diagnostic P i b st)"
  unfolding usb_hid_build_diagnostic_def Let_def case_prod_beta
  by (simp_all only: fst_conv snd_conv diagnostic_bytes [OF assms])

section \<open>Nothing else of the platform matters\<close>

text \<open>Another content of the uninitialised arrays, and another stack for the two calls that send.\<close>

definition other_stack :: "u8 list \<Rightarrow> (tusb_control_request_t \<Rightarrow> u8 list \<Rightarrow> 'u \<Rightarrow> bool \<times> 'u) \<Rightarrow>
    (u8 \<Rightarrow> u8 list \<Rightarrow> 'u \<Rightarrow> bool \<times> 'u) \<Rightarrow> ('b, 'u) usb_platform \<Rightarrow> ('b, 'u) usb_platform" where
  "other_stack v g h P = P\<lparr>uninitialised := v, tud_control_xfer := g, tud_hid_report := h\<rparr>"

lemma other_stack_fields [simp]:
  "clock (other_stack v g h P) = clock P" "uninitialised (other_stack v g h P) = v" "core1 (other_stack v g h P) = core1 P"
  "tud_control_xfer (other_stack v g h P) = g" "tud_hid_report (other_stack v g h P) = h"
  "hidd_control_xfer_cb (other_stack v g h P) = hidd_control_xfer_cb P" "tud_hid_ready (other_stack v g h P) = tud_hid_ready P"
  "led_available (other_stack v g h P) = led_available P" "rp2350 (other_stack v g h P) = rp2350 P"
  "temperature_centidegrees (other_stack v g h P) = temperature_centidegrees P" "sys_clock_hz (other_stack v g h P) = sys_clock_hz P"
  "flash_range_erase (other_stack v g h P) = flash_range_erase P" "flash_range_program (other_stack v g h P) = flash_range_program P"
  "flash_safe_execute (other_stack v g h P) = flash_safe_execute P"
  by (simp_all add: other_stack_def)

lemma other_stack_between [simp]: "between (other_stack v g h P) = between P"
  by (simp add: fun_eq_iff between_def)

lemma other_stack_capture [simp]: "usb_hid_capture (other_stack v g h P) = usb_hid_capture P"
  unfolding fun_eq_iff usb_hid_capture_def other_stack_fields other_stack_between by simp

lemma other_stack_same [simp]:
  "usb_hid_build_channel (other_stack v g h P) i b pub now st = usb_hid_build_channel P i b pub now st"
  "usb_hid_build_telemetry (other_stack v g h P) b st = usb_hid_build_telemetry P b st"
  "usb_hid_build_diagnostic (other_stack v g h P) i b st = usb_hid_build_diagnostic P i b st"
  "usb_hid_handle_command (other_stack v g h P) r n st = usb_hid_handle_command P r n st"
  "usb_hid_execute_pending_save (other_stack v g h P) st = usb_hid_execute_pending_save P st"
  "hid_sample_faults (other_stack v g h P) now st = hid_sample_faults P now st"
  unfolding usb_hid_build_channel_def usb_hid_build_telemetry_def usb_hid_build_diagnostic_def usb_hid_handle_command_def
    led_set_def usb_hid_execute_pending_save_def hid_sample_faults_def other_stack_fields other_stack_between other_stack_capture
  by (rule HOL.refl)+

definition same_payload :: "u16 \<times> u8 list \<times> 's \<Rightarrow> u16 \<times> u8 list \<times> 's \<Rightarrow> bool" where
  "same_payload x y \<longleftrightarrow> fst x = fst y \<and> snd (snd x) = snd (snd y) \<and>
     take (unat (fst x)) (fst (snd x)) = take (unat (fst x)) (fst (snd y))"

lemma same_if: "(c \<Longrightarrow> same_payload x x') \<Longrightarrow> (\<not> c \<Longrightarrow> same_payload y y') \<Longrightarrow> same_payload (if c then x else y) (if c then x' else y')"
  by simp

lemma take_written: "length bytes = n \<Longrightarrow> take n (mem_write b 0 bytes) = bytes"
  by (simp add: mem_write_def)

lemma same_written: "length bytes = unat n \<Longrightarrow> same_payload (n, mem_write a 0 bytes, s) (n, mem_write b 0 bytes, s)"
  by (simp add: same_payload_def take_written)

lemma same_nothing: "same_payload (0, a, s) (0, b, s)"
  by (simp add: same_payload_def)

lemma same_built:
  "same_report (unat n) x y \<Longrightarrow> same_payload (if fst x then n else 0, fst (snd x), snd (snd x)) (if fst y then n else 0, fst (snd y), snd (snd y))"
  by (simp add: same_payload_def same_report_def)

lemma report_payload_same:
  assumes l: "length v = length (uninitialised P)" "length (usb_hid_identity st) = 27" "length (usb_hid_configuration st) = 36"
  shows "same_payload (hid_report_payload (other_stack v g h P) r t st) (hid_report_payload P r t st)"
proof -
  have d: "same_payload (24, fst (usb_hid_build_diagnostic P i v s), snd (usb_hid_build_diagnostic P i v s))
     (24, fst (usb_hid_build_diagnostic P i (uninitialised P) s), snd (usb_hid_build_diagnostic P i (uninitialised P) s))" for i s
    using build_diagnostic_full [OF l(1), of P i s] by (simp add: same_payload_def)
  have n: "unat (20 :: u16) = 20" "unat (30 :: u16) = 30" by simp_all
  note b = same_built [of 20, unfolded n, OF build_telemetry_full [OF l(1), of P]]
    same_built [of 30, unfolded n, OF build_channel_full [OF l(1), of P]]
  show ?thesis
    unfolding hid_report_payload_def Let_def case_prod_beta other_stack_same other_stack_fields other_stack_capture
    by (intro same_if same_nothing b d same_written) (simp_all add: l)
qed

lemma get_report_same:
  assumes "length v = length (uninitialised P)" "length (usb_hid_identity st) = 27" "length (usb_hid_configuration st) = 36"
  shows "tud_hid_get_report_cb (other_stack v g h P) i r t b n st = tud_hid_get_report_cb P i r t b n st"
proof -
  have t: "take (unat (if n < m then n else m)) x = take (unat (if n < m then n else m)) y" if "take (unat m) x = take (unat m) y"
    for m and x y :: "u8 list"
  proof -
    have k: "unat (if n < m then n else m) \<le> unat m" by (simp add: word_less_nat_alt)
    have "take (unat (if n < m then n else m)) z = take (unat (if n < m then n else m)) (take (unat m) z)" for z :: "u8 list"
      using k by (simp only: take_take min.absorb1)
    then show ?thesis using that by metis
  qed
  obtain m p s where x: "hid_report_payload P r t st = (m, p, s)"
    by (cases "hid_report_payload P r t st")
  obtain p' where y: "hid_report_payload (other_stack v g h P) r t st = (m, p', s)" and e: "take (unat m) p' = take (unat m) p"
    using report_payload_same [OF assms, of g h r t] x
    by (cases "hid_report_payload (other_stack v g h P) r t st") (simp add: same_payload_def)
  show ?thesis
    unfolding tud_hid_get_report_cb_def x y Let_def prod.case t [OF e] by (rule HOL.refl)
qed

lemma get_report_bound:
  "fst (tud_hid_get_report_cb P i r t b n st) \<le> n"
  by (auto simp: tud_hid_get_report_cb_def Let_def case_prod_beta not_less)

text \<open>A GET of a report sends at most what was asked for, and at most the endpoint buffer.\<close>

lemma control_get_same:
  assumes "length v = length (uninitialised P)" "length (usb_hid_identity st) = 27" "length (usb_hid_configuration st) = 36"
    and g: "\<And>bytes u. length bytes \<le> min (unat (wLength q)) 64 \<Longrightarrow> g q bytes u = tud_control_xfer P q bytes u"
  shows "hid_control_get (other_stack v g h P) stage q st = hid_control_get P stage q st"
proof -
  define n where "n = (if wLength q < PICO_UART_USB_HID_ENDPOINT_BUFFER_SIZE then wLength q else PICO_UART_USB_HID_ENDPOINT_BUFFER_SIZE)"
  have n: "unat n = min (unat (wLength q)) 64" by (simp add: n_def min_def word_less_nat_alt)
  have send: "control_send (other_stack v g h P) q (take (unat m) b) s = control_send P q (take (unat m) b) s" if "m \<le> n" for m b s
    using that g [of "take (unat m) b" "usb s"] n by (simp add: control_send_def word_le_nat_alt min_le_iff_disj)
  have inc: "m + 1 \<le> n" if "n > m" for m
    using that by (rule inc_le)
  have le: "fst (tud_hid_get_report_cb P i r t b n s) \<le> n" for i r t b s by (rule get_report_bound)
  show ?thesis
    unfolding hid_control_get_def Let_def n_def [symmetric] get_report_same [OF assms(1-3)] case_prod_beta
    by (simp add: send le inc)
qed

lemma control_set_same:
  assumes "\<And>bytes u. length bytes \<le> min (unat (wLength q)) 64 \<Longrightarrow> g q bytes u = tud_control_xfer P q bytes u"
  shows "hid_control_set (other_stack v g h P) stage q rcv st = hid_control_set P stage q rcv st"
proof -
  have "control_send (other_stack v g h P) q [] s = control_send P q [] s" for s
    by (simp add: control_send_def assms)
  then show ?thesis unfolding hid_control_set_def other_stack_same Let_def by simp
qed

lemma publish_same:
  assumes l: "length v = length (uninitialised P)"
    and h: "\<And>r bytes u. length bytes \<le> 30 \<Longrightarrow> h r bytes u = tud_hid_report P r bytes u"
  shows "hid_publish (other_stack v g h P) now offsets st = hid_publish P now offsets st"
proof (induction offsets)
  case (Cons offset offsets)
  have c: "fst (usb_hid_build_channel P i v True t s) = fst (usb_hid_build_channel P i (uninitialised P) True t s)"
    "snd (snd (usb_hid_build_channel P i v True t s)) = snd (snd (usb_hid_build_channel P i (uninitialised P) True t s))"
    "fst (usb_hid_build_channel P i (uninitialised P) True t s) \<Longrightarrow>
      take 30 (fst (snd (usb_hid_build_channel P i v True t s))) = take 30 (fst (snd (usb_hid_build_channel P i (uninitialised P) True t s)))"
    for i t s
    using build_channel_full [OF l, of P i True t s] by (simp_all add: same_report_def)
  define s0 where "s0 i = snd (usb_hid_capture P i st)" for i
  define now' where "now' i = fst (read_clock (clock P) (s0 i)) div 1000" for i
  define s1 where "s1 i = snd (read_clock (clock P) (s0 i))" for i
  let ?i = "(usb_hid_next_channel st + offset) mod 6"
  show ?case
    unfolding hid_publish.simps Let_def case_prod_beta other_stack_same other_stack_fields other_stack_capture Cons.IH
      s0_def [symmetric] now'_def [symmetric] s1_def [symmetric]
    by (cases "fst (usb_hid_capture P ?i st)"; cases "fst (usb_hid_build_channel P ?i (uninitialised P) True (now' ?i) (s1 ?i))")
      (simp_all add: c h)
qed simp



end
