(* ===== verification/Usb_Descriptors.thy ===== *)
theory Usb_Descriptors
  imports Usb_Demo
begin

text \<open>
  The descriptors of \<open>usb/usb_descriptors.c\<close> that carry the program's own data: the HID report descriptor, read back by a
  parser of the HID item format, the endpoints of the interfaces, and the string-descriptor callback with its buffer.
\<close>

section \<open>The HID report descriptor\<close>

definition hid_report_descriptor :: "u8 list" where
  "hid_report_descriptor = [
     0x06, 0x00, 0xFF, 0x09, 0x01, 0xA1, 0x01, 0x15, 0x00, 0x26, 0xFF, 0x00, 0x75, 0x08,
     0x85, 0x01, 0x95, 0x1B, 0x09, 0x01, 0xB1, 0x02,
     0x85, 0x02, 0x95, 0x24, 0x09, 0x02, 0xB1, 0x02,
     0x85, 0x03, 0x95, 0x14, 0x09, 0x03, 0xB1, 0x02,
     0x85, 0x0A, 0x95, 0x1E, 0x09, 0x0A, 0x81, 0x02, 0x95, 0x1E, 0x09, 0x0A, 0xB1, 0x02,
     0x85, 0x0B, 0x95, 0x1E, 0x09, 0x0B, 0x81, 0x02, 0x95, 0x1E, 0x09, 0x0B, 0xB1, 0x02,
     0x85, 0x0C, 0x95, 0x1E, 0x09, 0x0C, 0x81, 0x02, 0x95, 0x1E, 0x09, 0x0C, 0xB1, 0x02,
     0x85, 0x0D, 0x95, 0x1E, 0x09, 0x0D, 0x81, 0x02, 0x95, 0x1E, 0x09, 0x0D, 0xB1, 0x02,
     0x85, 0x0E, 0x95, 0x1E, 0x09, 0x0E, 0x81, 0x02, 0x95, 0x1E, 0x09, 0x0E, 0xB1, 0x02,
     0x85, 0x0F, 0x95, 0x1E, 0x09, 0x0F, 0x81, 0x02, 0x95, 0x1E, 0x09, 0x0F, 0xB1, 0x02,
     0x85, 0x14, 0x95, 0x04, 0x09, 0x14, 0xB1, 0x02,
     0x85, 0x1E, 0x95, 0x18, 0x09, 0x1E, 0xB1, 0x02,
     0x85, 0x1F, 0x95, 0x18, 0x09, 0x1F, 0xB1, 0x02,
     0x85, 0x20, 0x95, 0x18, 0x09, 0x20, 0xB1, 0x02,
     0x85, 0x21, 0x95, 0x18, 0x09, 0x21, 0xB1, 0x02,
     0x85, 0x22, 0x95, 0x18, 0x09, 0x22, 0xB1, 0x02,
     0x85, 0x23, 0x95, 0x18, 0x09, 0x23, 0xB1, 0x02, 0xC0]"

text \<open>
  What a host reads in it. A short item has its size in the two low bits and its kind in the others; the
  global items set the report number, the field size and the field count, the main items declare a field of the current report.
\<close>

datatype hid_field = Input_field | Output_field | Feature_field

definition item_size :: "u8 \<Rightarrow> nat" where
  "item_size b = (if b AND 3 = 3 then 4 else unat (b AND 3))"

definition item_value :: "u8 list \<Rightarrow> nat" where
  "item_value bs = foldr (\<lambda>b n. unat b + 256 * n) bs 0"

function hid_fields :: "nat \<Rightarrow> nat \<Rightarrow> nat \<Rightarrow> u8 list \<Rightarrow> (hid_field \<times> nat \<times> nat) list option" where
  "hid_fields rid sz count [] = Some []"
| "hid_fields rid sz count (b # bs) =
     (let n = item_size b; v = item_value (take n bs); kind = b AND 0xFC; rest = drop n bs
      in if length bs < n then None
         else if kind = 0x84 then hid_fields v sz count rest
         else if kind = 0x74 then hid_fields rid v count rest
         else if kind = 0x94 then hid_fields rid sz v rest
         else if kind = 0x80 then map_option (Cons (Input_field, rid, sz * count)) (hid_fields rid sz count rest)
         else if kind = 0x90 then map_option (Cons (Output_field, rid, sz * count)) (hid_fields rid sz count rest)
         else if kind = 0xB0 then map_option (Cons (Feature_field, rid, sz * count)) (hid_fields rid sz count rest)
         else hid_fields rid sz count rest)"
  by pat_completeness auto
termination by (relation "measure (\<lambda>(rid, sz, count, bs). length bs)") simp_all

declare hid_fields.simps(2) [simp del]

lemma item_1:
  "hid_fields rid sz count (b # x # bs) =
     (if b AND 0xFC = 0x84 then hid_fields (unat x) sz count bs
      else if b AND 0xFC = 0x74 then hid_fields rid (unat x) count bs
      else if b AND 0xFC = 0x94 then hid_fields rid sz (unat x) bs
      else if b AND 0xFC = 0x80 then map_option (Cons (Input_field, rid, sz * count)) (hid_fields rid sz count bs)
      else if b AND 0xFC = 0x90 then map_option (Cons (Output_field, rid, sz * count)) (hid_fields rid sz count bs)
      else if b AND 0xFC = 0xB0 then map_option (Cons (Feature_field, rid, sz * count)) (hid_fields rid sz count bs)
      else hid_fields rid sz count bs)" if "b AND 3 = 1"
  using that by (simp add: hid_fields.simps(2) item_size_def item_value_def)

lemma hid_item_simps:
  "hid_fields rid sz count (0x85 # x # bs) = hid_fields (unat x) sz count bs"
  "hid_fields rid sz count (0x75 # x # bs) = hid_fields rid (unat x) count bs"
  "hid_fields rid sz count (0x95 # x # bs) = hid_fields rid sz (unat x) bs"
  "hid_fields rid sz count (0x81 # x # bs) = map_option (Cons (Input_field, rid, sz * count)) (hid_fields rid sz count bs)"
  "hid_fields rid sz count (0xB1 # x # bs) = map_option (Cons (Feature_field, rid, sz * count)) (hid_fields rid sz count bs)"
  "hid_fields rid sz count (0x09 # x # bs) = hid_fields rid sz count bs"
  "hid_fields rid sz count (0xA1 # x # bs) = hid_fields rid sz count bs"
  "hid_fields rid sz count (0x15 # x # bs) = hid_fields rid sz count bs"
  by (simp_all add: item_1)

lemma item_other:
  "hid_fields rid sz count (0x06 # x # y # bs) = hid_fields rid sz count bs"
  "hid_fields rid sz count (0x26 # x # y # bs) = hid_fields rid sz count bs"
  "hid_fields rid sz count [0xC0] = Some []"
  by (simp_all add: hid_fields.simps(2) item_size_def item_value_def)

text \<open>Reading it back gives these reports, with their sizes in bits.\<close>

definition declared_fields :: "(hid_field \<times> nat \<times> nat) list" where
  "declared_fields = [(Feature_field, 1, 8 * 27), (Feature_field, 2, 8 * 36), (Feature_field, 3, 8 * 20)] @
     concat (map (\<lambda>i. [(Input_field, i, 8 * 30), (Feature_field, i, 8 * 30)]) [10, 11, 12, 13, 14, 15]) @
     [(Feature_field, 20, 8 * 4)] @ map (\<lambda>i. (Feature_field, i, 8 * 24)) [30, 31, 32, 33, 34, 35]"

lemma declared_fields: "hid_fields 0 0 0 hid_report_descriptor = Some declared_fields"
  unfolding hid_report_descriptor_def declared_fields_def
  by (simp add: hid_item_simps item_other)

definition field_of_type :: "hid_report_type_t \<Rightarrow> hid_field option" where
  "field_of_type t = (case t of HID_REPORT_TYPE_INPUT \<Rightarrow> Some Input_field | HID_REPORT_TYPE_OUTPUT \<Rightarrow> Some Output_field
     | HID_REPORT_TYPE_FEATURE \<Rightarrow> Some Feature_field | HID_REPORT_TYPE_INVALID \<Rightarrow> None)"

text \<open>The size the report handler answers with, by report.\<close>

definition report_size :: "u8 \<Rightarrow> hid_report_type_t \<Rightarrow> u16" where
  "report_size r t =
     (if t = HID_REPORT_TYPE_FEATURE \<and> r = 1 then 27 else if t = HID_REPORT_TYPE_FEATURE \<and> r = 2 then 36
      else if t = HID_REPORT_TYPE_FEATURE \<and> r = 20 then 4 else if t = HID_REPORT_TYPE_FEATURE \<and> r = 3 then 20
      else if (t = HID_REPORT_TYPE_FEATURE \<or> t = HID_REPORT_TYPE_INPUT) \<and> 10 \<le> r \<and> r < 16 then 30
      else if t = HID_REPORT_TYPE_FEATURE \<and> 30 \<le> r \<and> r < 36 then 24 else 0)"

lemma payload_size: "fst (hid_report_payload P r t st) = 0 \<or> fst (hid_report_payload P r t st) = report_size r t"
  by (simp add: hid_report_payload_def report_size_def Let_def case_prod_beta)

lemma payload_fixed:
  "r \<in> {1, 2, 20} \<Longrightarrow> fst (hid_report_payload P r HID_REPORT_TYPE_FEATURE st) \<noteq> 0"
  by (auto simp: hid_report_payload_def Let_def)

lemma report_size_declared:
  assumes "report_size r t \<noteq> 0"
  shows "\<exists>k. field_of_type t = Some k \<and> (k, unat r, 8 * unat (report_size r t)) \<in> set declared_fields"
proof -
  have c: "unat r \<in> {10, 11, 12, 13, 14, 15}" if "10 \<le> r" "r < 16"
    using that by (auto simp: word_le_nat_alt word_less_nat_alt)
  have d: "unat r \<in> {30, 31, 32, 33, 34, 35}" if "30 \<le> r" "r < 36"
    using that by (auto simp: word_le_nat_alt word_less_nat_alt)
  show ?thesis
    using assms c d by (auto simp: report_size_def declared_fields_def field_of_type_def split: if_splits)
qed

lemma declared_size:
  assumes "(k, unat r, bits) \<in> set declared_fields" "field_of_type t = Some k"
  shows "bits = 8 * unat (report_size r t)"
proof -
  have w: "r = 1 \<longleftrightarrow> unat r = 1" "r = 2 \<longleftrightarrow> unat r = 2" "r = 20 \<longleftrightarrow> unat r = 20" "r = 3 \<longleftrightarrow> unat r = 3"
    "10 \<le> r \<longleftrightarrow> 10 \<le> unat r" "r < 16 \<longleftrightarrow> unat r < 16" "30 \<le> r \<longleftrightarrow> 30 \<le> unat r" "r < 36 \<longleftrightarrow> unat r < 36"
    by (simp_all add: word_le_nat_alt word_less_nat_alt word_unat_eq_iff)
  have size: "unat (report_size r HID_REPORT_TYPE_FEATURE) = (if unat r = 1 then 27 else if unat r = 2 then 36 else if unat r = 20 then 4
      else if unat r = 3 then 20 else if 10 \<le> unat r \<and> unat r < 16 then 30 else if 30 \<le> unat r \<and> unat r < 36 then 24 else 0)"
    "unat (report_size r HID_REPORT_TYPE_INPUT) = (if 10 \<le> unat r \<and> unat r < 16 then 30 else 0)"
    by (simp_all add: report_size_def w)
  have "t = HID_REPORT_TYPE_FEATURE \<or> t = HID_REPORT_TYPE_INPUT"
    using assms by (cases t) (auto simp: declared_fields_def field_of_type_def)
  then show ?thesis
    using assms by (auto simp: declared_fields_def field_of_type_def size)
qed

text \<open>C36: The reports are what the descriptor says. Reading the HID report descriptor back yields a declaration of every
  report the control endpoint answers, of the same kind and of exactly the size of the answer, and a declared report is
  never answered with another size (identity, configuration and command result always are answered); every
  declared report, with its number, fits the 64-byte endpoint buffer.\<close>

theorem reports_match_descriptor:
  assumes "hid_fields 0 0 0 hid_report_descriptor = Some decl" "n = unat (fst (hid_report_payload P r t st))"
  shows "(n \<noteq> 0 \<longrightarrow> (\<exists>k. field_of_type t = Some k \<and> (k, unat r, 8 * n) \<in> set decl)) \<and>
    (\<forall>k bits. (k, unat r, bits) \<in> set decl \<and> field_of_type t = Some k \<longrightarrow> n = 0 \<or> bits = 8 * n) \<and>
    (t = HID_REPORT_TYPE_FEATURE \<and> r \<in> {1, 2, 20} \<longrightarrow> n \<noteq> 0) \<and>
    (\<forall>(k, i, bits) \<in> set decl. bits + 8 \<le> 8 * unat PICO_UART_USB_HID_ENDPOINT_BUFFER_SIZE)"
proof -
  have f: "decl = declared_fields" using assms(1) declared_fields by simp
  have z: "n = 0 \<longleftrightarrow> fst (hid_report_payload P r t st) = 0" by (simp add: assms(2) unat_eq_0)
  have s: "n \<noteq> 0 \<Longrightarrow> n = unat (report_size r t)" using payload_size [of P r t st] z by (auto simp: assms(2))
  have "\<exists>k. field_of_type t = Some k \<and> (k, unat r, 8 * n) \<in> set decl" if "n \<noteq> 0"
  proof -
    have "report_size r t \<noteq> 0" using s [OF that] that by (auto simp: unat_eq_0)
    from report_size_declared [OF this] show ?thesis using s [OF that] f by simp
  qed
  moreover have "bits = 8 * n" if "(k, unat r, bits) \<in> set decl" "field_of_type t = Some k" "n \<noteq> 0" for k bits
    using declared_size [of k r bits t] that s f by simp
  moreover have "\<forall>(k, i, bits) \<in> set decl. bits + 8 \<le> 8 * 64"
    unfolding f declared_fields_def by simp
  ultimately show ?thesis using payload_fixed [of r P st] z by auto
qed

theorem reports_match_descriptor_witness:
  "(Feature_field, 2, 8 * unat (fst (hid_report_payload demo_usb_platform 2 HID_REPORT_TYPE_FEATURE
     (demo_state \<lparr>host_calls = [], host_bytes = [], host_got = []\<rparr>)))) \<in> set declared_fields"
  using reports_match_descriptor [OF declared_fields HOL.refl, of demo_usb_platform 2 HID_REPORT_TYPE_FEATURE
    "demo_state \<lparr>host_calls = [], host_bytes = [], host_got = []\<rparr>"]
  by (auto simp: field_of_type_def)

section \<open>String descriptors\<close>

definition ascii :: "string \<Rightarrow> u8 list" where
  "ascii = map of_char"

abbreviation PICO_UART_USB_PRODUCT :: string where "PICO_UART_USB_PRODUCT \<equiv> ''PicoUart''"

text \<open>The texts, without their terminators; the serial number and the HID interface's text are made by the callback.\<close>

definition string_desc_arr :: "u8 list option list" where
  "string_desc_arr = [Some [0x09, 0x04], Some (ascii ''PicoUart''), Some (ascii PICO_UART_USB_PRODUCT), None,
     Some (ascii ''CDC0 HW''), Some (ascii ''CDC1 HW''), Some (ascii ''CDC2 PIO 8N1''), Some (ascii ''CDC3 PIO 8N1''),
     Some (ascii ''CDC4 PIO 8N1''), Some (ascii ''CDC5 PIO 8N1''), None]"

text \<open>A store to the buffer, nothing when it would be outside; the characters of a text from a position on.\<close>

definition store16 :: "nat \<Rightarrow> u16 \<Rightarrow> u16 list \<Rightarrow> u16 list option" where
  "store16 i v buf = (if i < length buf then Some (buf[i := v]) else None)"

primrec store_chars :: "nat \<Rightarrow> u8 list \<Rightarrow> u16 list \<Rightarrow> u16 list option" where
  "store_chars i [] buf = Some buf"
| "store_chars i (c # cs) buf = (case store16 i (ucast c) buf of None \<Rightarrow> None | Some buf \<Rightarrow> store_chars (Suc i) cs buf)"

definition store_header :: "nat \<Rightarrow> u16 list \<Rightarrow> (bool \<times> u16 list) option" where
  "store_header chr_count buf =
     map_option (Pair True) (store16 0 (of_nat (push_bit 8 3 OR (2 * chr_count + 2))) buf)"

text \<open>
  The callback. \<open>serial\<close> is the text of \<open>pico_get_unique_board_id_string\<close>. The answer is whether the buffer is returned, with the buffer;
  \<open>None\<close> is a store outside it.
\<close>

definition tud_descriptor_string_cb :: "u8 list \<Rightarrow> u8 \<Rightarrow> u16 \<Rightarrow> u16 list \<Rightarrow> (bool \<times> u16 list) option" where
  "tud_descriptor_string_cb serial index langid desc_str =
     (if index = 0
      then let lang = the (string_desc_arr ! 0)
           in case store16 1 (ucast (lang ! 0) OR push_bit 8 (ucast (lang ! 1))) desc_str of None \<Rightarrow> None | Some buf \<Rightarrow> store_header 1 buf
      else if index = 10
      then let product = ascii PICO_UART_USB_PRODUCT;
               chr_count = (if length product < 32 then length product else 32)
           in case store_chars 1 (take chr_count product) desc_str of None \<Rightarrow> None
              | Some buf \<Rightarrow>
           (case (if chr_count < 32 then store16 (1 + chr_count) 45 buf else Some buf) of None \<Rightarrow> None
              | Some buf \<Rightarrow>
           let chr_count = (if chr_count < 32 then chr_count + 1 else chr_count); rest = take (32 - chr_count) serial
           in case store_chars (1 + chr_count) rest buf of None \<Rightarrow> None
              | Some buf \<Rightarrow> store_header (chr_count + length rest) buf)
      else if index = 3
      then case store_chars 1 serial desc_str of None \<Rightarrow> None | Some buf \<Rightarrow> store_header (length serial) buf
      else if unat index \<ge> length string_desc_arr then Some (False, desc_str)
      else case string_desc_arr ! unat index of None \<Rightarrow> Some (False, desc_str)
           | Some str \<Rightarrow> case store_chars 1 str desc_str of None \<Rightarrow> None | Some buf \<Rightarrow> store_header (length str) buf)"

lemma store_chars_writes:
  "i + length cs \<le> length buf \<Longrightarrow> store_chars i cs buf = Some (take i buf @ map ucast cs @ drop (i + length cs) buf)"
proof (induction cs arbitrary: i buf)
  case (Cons c cs)
  have "take (Suc i) (buf[i := ucast c]) = take i buf @ [ucast c]"
    using Cons.prems by (simp add: take_Suc_conv_app_nth)
  then show ?case using Cons.prems Cons.IH [of "Suc i" "buf[i := ucast c]"] by (simp add: store16_def)
qed simp

text \<open>The text each index stands for.\<close>

definition descriptor_text :: "u8 list \<Rightarrow> nat \<Rightarrow> u16 list" where
  "descriptor_text serial i =
     (if i = 0 then [0x0409]
      else map ucast (if i = 10 then ascii ''PicoUart-'' @ serial else if i = 3 then serial else the (string_desc_arr ! i)))"

definition string_descriptor :: "u16 list \<Rightarrow> u16 list" where
  "string_descriptor txt = (0x0300 + of_nat (2 * length txt + 2)) # txt"

lemma high_byte_or:
  fixes k m :: nat
  assumes "m < 256"
  shows "push_bit 8 k OR m = push_bit 8 k + m"
proof -
  have m: "m = take_bit 8 m" using assms by (simp add: take_bit_nat_eq_self)
  have "push_bit 8 k + take_bit 8 m = push_bit 8 k OR take_bit 8 m"
    by (rule disjunctive_add_eq_or) (auto simp: bit_eq_iff bit_push_bit_iff_nat bit_take_bit_iff bit_and_iff)
  then show ?thesis using m by simp
qed

lemma header_or:
  assumes "n \<le> 32"
  shows "push_bit 8 3 OR (2 * n + 2) = 768 + (2 * n + 2 :: nat)"
  using high_byte_or [of "2 * n + 2" 3] assms by (simp add: push_bit_eq_mult)

lemma store_header_text:
  assumes "length buf = 33" "length txt = n" "n \<le> 32" "take n (drop 1 buf) = txt"
  shows "\<exists>buf'. store_header n buf = Some (True, buf') \<and> length buf' = 33 \<and> take (Suc n) buf' = string_descriptor txt"
proof -
  obtain b bs where b: "buf = b # bs" using assms(1) by (cases buf) auto
  show ?thesis
    using assms header_or [OF assms(3)] by (simp add: store_header_def store16_def string_descriptor_def b)
qed

lemma below_eleven: "n < 11 \<Longrightarrow> n \<in> {0, 1, 2, 3, 4, 5, 6, 7, 8, 9, 10}" for n :: nat
  unfolding insert_iff empty_iff by presburger

lemma take_prefix_length: "xs = ys @ zs \<Longrightarrow> length ys = n \<Longrightarrow> take n xs = ys"
  by simp

lemma unat_word: "unat w = n \<Longrightarrow> w = of_nat n" for w :: u8
  by auto

lemma store_text:
  assumes "length desc_str = 33" "length cs \<le> 32"
  shows "\<exists>buf. (case store_chars 1 cs desc_str of None \<Rightarrow> None | Some buf \<Rightarrow> store_header (length cs) buf) = Some (True, buf) \<and>
      length buf = 33 \<and> take (Suc (length cs)) buf = string_descriptor (map ucast cs)"
proof -
  have e: "store_chars 1 cs desc_str = Some (take 1 desc_str @ map ucast cs @ drop (1 + length cs) desc_str)"
    by (rule store_chars_writes) (use assms in simp)
  show ?thesis
    unfolding e option.case by (rule store_header_text) (use assms in simp_all)
qed

text \<open>The interface's text: the product, a dash, the serial number.\<close>

lemma store_interface_text:
  assumes "length serial = 16" "length desc_str = 33"
  shows "\<exists>buf. tud_descriptor_string_cb serial 10 langid desc_str = Some (True, buf) \<and> length buf = 33 \<and>
      take 26 buf = string_descriptor (map ucast (ascii ''PicoUart-'' @ serial))"
proof -
  have p: "length (ascii ''PicoUart'') = 8" by (simp add: ascii_def)
  define b1 where "b1 = take 1 desc_str @ map ucast (ascii ''PicoUart'') @ drop 9 desc_str"
  have 1: "store_chars 1 (ascii ''PicoUart'') desc_str = Some b1"
    unfolding b1_def using store_chars_writes [of 1 "ascii ''PicoUart''" desc_str] assms(2) p by simp
  have l1: "length b1 = 33" using assms(2) p by (simp add: b1_def)
  define b2 where "b2 = b1[9 := 45]"
  have 2: "store16 9 45 b1 = Some b2" by (simp add: store16_def l1 b2_def)
  define b3 where "b3 = take 10 b2 @ map ucast serial @ drop 26 b2"
  have 3: "store_chars 10 serial b2 = Some b3"
    unfolding b3_def using store_chars_writes [of 10 serial b2] assms(1) l1 by (simp add: b2_def)
  have t: "take 25 (drop 1 b3) = map ucast (ascii ''PicoUart-'' @ serial)"
  proof -
    have "take 10 b2 = take 1 desc_str @ map ucast (ascii ''PicoUart'') @ [45]"
      using assms(2) p Cons_nth_drop_Suc [of 9 desc_str, symmetric] by (simp add: b2_def b1_def list_update_append)
    moreover have "length (take 1 desc_str) = 1" using assms(2) by simp
    ultimately have "drop 1 b3 = (map ucast (ascii ''PicoUart'') @ [45] @ map ucast serial) @ drop 26 b2"
      unfolding b3_def by simp
    moreover have "length (map ucast (ascii ''PicoUart'') @ [45 :: u16] @ map ucast serial) = 25"
      using p assms(1) by simp
    ultimately have "take 25 (drop 1 b3) = map ucast (ascii ''PicoUart'') @ [45] @ map ucast serial"
      by (rule take_prefix_length)
    moreover have "ascii ''PicoUart-'' = ascii ''PicoUart'' @ ascii ''-''" by (simp add: ascii_def)
    moreover have "map ucast (ascii ''-'') = [45 :: u16]" by code_simp
    ultimately show ?thesis by simp
  qed
  have "\<exists>buf. store_header 25 b3 = Some (True, buf) \<and> length buf = 33 \<and>
      take (Suc 25) buf = string_descriptor (map ucast (ascii ''PicoUart-'' @ serial))"
    by (rule store_header_text) (use t assms l1 in \<open>simp_all add: b3_def b2_def ascii_def\<close>)
  moreover have "tud_descriptor_string_cb serial 10 langid desc_str = store_header 25 b3"
  proof -
    obtain P where P: "P = ascii ''PicoUart''" by blast
    have t8: "take 8 P = P" "length P = 8" using p by (simp_all add: P)
    have t23: "take 23 serial = serial" using assms(1) by simp
    note facts = 1 2 3
    show ?thesis
      using facts t8 t23 assms(1) unfolding tud_descriptor_string_cb_def Let_def P [symmetric] by simp
  qed
  ultimately show ?thesis by simp
qed

text \<open>C37: A string descriptor never leaves its 33-word buffer and is exactly the text it stands for. For every valid index
  the callback answers with the header (the type and twice the length plus two) followed by the text in UTF-16: the language,
  the names of manufacturer, product and ports, the serial number, and for the HID interface the product with the serial
  number; every other index is refused and leaves the buffer alone.\<close>

theorem string_descriptor_exact:
  assumes "length serial = 16" "length desc_str = 33"
  shows "if index < 11
    then (\<exists>buf. tud_descriptor_string_cb serial index langid desc_str = Some (True, buf) \<and> length buf = 33 \<and>
      length (descriptor_text serial (unat index)) \<le> 32 \<and>
      take (Suc (length (descriptor_text serial (unat index)))) buf = string_descriptor (descriptor_text serial (unat index)))
    else tud_descriptor_string_cb serial index langid desc_str = Some (False, desc_str)"
proof -
  note str = store_text [OF assms(2)] and hid = store_interface_text [OF assms, of langid]
  show ?thesis
  proof (cases "index < 11")
    case False
    then have "\<not> unat index < 11" "index \<noteq> 0" "index \<noteq> 10" "index \<noteq> 3" by (auto simp: word_less_nat_alt)
    then show ?thesis using False by (simp add: tud_descriptor_string_cb_def string_desc_arr_def)
  next
    case True
    then have "unat index < 11" by (simp add: word_less_nat_alt)
    then have "unat index \<in> {0, 1, 2, 3, 4, 5, 6, 7, 8, 9, 10}" by (rule below_eleven)
    then consider "index = 0" | "index = 10" | "index = 3" | "index \<in> {1, 2, 4, 5, 6, 7, 8, 9}"
      by (auto dest!: unat_word)
    then show ?thesis
    proof cases
      case 1
      have l: "(ucast (0x09 :: u8) OR push_bit 8 (ucast (0x04 :: u8)) :: u16) = 0x0409" by code_simp
      have "\<exists>buf. store_header 1 (desc_str[1 := 0x0409]) = Some (True, buf) \<and> length buf = 33 \<and>
          take (Suc 1) buf = string_descriptor [0x0409]"
        by (rule store_header_text) (use assms Cons_nth_drop_Suc [of 1 desc_str, symmetric] in \<open>simp_all add: drop_update_swap\<close>)
      then show ?thesis
        using 1 assms l by (simp add: tud_descriptor_string_cb_def string_desc_arr_def store16_def descriptor_text_def)
    next
      case 2
      then show ?thesis using hid assms by (simp add: descriptor_text_def ascii_def)
    next
      case 3
      then show ?thesis using str [of serial] assms by (simp add: tud_descriptor_string_cb_def descriptor_text_def)
    next
      case 4
      then have "index \<noteq> 0" "index \<noteq> 3" "index \<noteq> 10" "unat index < length string_desc_arr"
        "\<exists>cs. string_desc_arr ! unat index = Some cs \<and> length cs \<le> 32" "unat index \<noteq> 0" "unat index \<noteq> 3" "unat index \<noteq> 10"
        by (auto simp: string_desc_arr_def ascii_def)
      then show ?thesis
        using str True by (auto simp: tud_descriptor_string_cb_def descriptor_text_def)
    qed
  qed
qed

theorem string_descriptor_witness:
  "\<exists>buf. tud_descriptor_string_cb (ascii ''E6614C311B7F3A2C'') 10 0x0409 (replicate 33 0) = Some (True, buf) \<and>
     take 26 buf = string_descriptor (map ucast (ascii ''PicoUart-E6614C311B7F3A2C''))"
proof -
  have wording: "descriptor_text (ascii ''E6614C311B7F3A2C'') (unat (10 :: u8)) = map ucast (ascii ''PicoUart-E6614C311B7F3A2C'')"
    by (simp add: descriptor_text_def ascii_def)
  have len: "Suc (length (map (ucast :: u8 \<Rightarrow> u16) (ascii ''PicoUart-E6614C311B7F3A2C''))) = 26"
    "length (ascii ''E6614C311B7F3A2C'') = 16" by (simp_all add: ascii_def)
  have valid: "(10 :: u8) < 11" by simp
  show ?thesis
    using string_descriptor_exact [where serial = "ascii ''E6614C311B7F3A2C''" and desc_str = "replicate 33 0" and index = 10
      and langid = "0x0409", OF len(2) length_replicate] unfolding wording len(1) using valid by auto
qed

section \<open>Interfaces and endpoints\<close>

text \<open>The arguments the configuration descriptor gives to TinyUSB's macros, which lay them out in bytes.\<close>

record cdc_function =
  itf_num :: u8
  itf_string :: u8
  ep_notif :: u8
  ep_notif_size :: u16
  ep_out :: u8
  ep_in :: u8
  ep_size :: u16

record hid_function =
  hid_itf_num :: u8
  hid_string :: u8
  hid_report_length :: nat
  hid_ep_in :: u8
  hid_ep_size :: u16
  hid_interval_ms :: u8

definition cdc_functions :: "cdc_function list" where
  "cdc_functions = map (\<lambda>(itf, str, notif, out, inp). \<lparr>itf_num = itf, itf_string = str, ep_notif = notif, ep_notif_size = 8,
       ep_out = out, ep_in = inp, ep_size = 64\<rparr>)
     [(0, 4, 0x81, 0x02, 0x82), (2, 5, 0x83, 0x04, 0x84), (4, 6, 0x85, 0x06, 0x86), (6, 7, 0x87, 0x08, 0x88),
      (8, 8, 0x89, 0x0A, 0x8A), (10, 9, 0x8B, 0x0C, 0x8C)]"

definition desc_configuration :: "nat \<times> cdc_function list \<times> hid_function" where
  "desc_configuration = (13, cdc_functions, \<lparr>hid_itf_num = 12, hid_string = 10, hid_report_length = length hid_report_descriptor,
     hid_ep_in = 0x8E, hid_ep_size = PICO_UART_USB_HID_ENDPOINT_BUFFER_SIZE, hid_interval_ms = 5\<rparr>)"

text \<open>
  Each CDC function has two interface numbers, together with the HID interface they are all of the configuration's; no endpoint
  address is used twice; a function's text exists.
\<close>

lemma configuration_consistent:
  assumes "desc_configuration = (n, cdcs, hid)"
  shows "concat (map (\<lambda>f. [itf_num f, itf_num f + 1]) cdcs) @ [hid_itf_num hid] = map of_nat [0..<n]"
    and "distinct (hid_ep_in hid # concat (map (\<lambda>f. [ep_notif f, ep_out f, ep_in f]) cdcs))"
    and "\<forall>f \<in> set cdcs. string_desc_arr ! unat (itf_string f) \<noteq> None"
proof -
  have e: "n = fst desc_configuration" "cdcs = fst (snd desc_configuration)" "hid = snd (snd desc_configuration)"
    unfolding assms by simp_all
  show "concat (map (\<lambda>f. [itf_num f, itf_num f + 1]) cdcs) @ [hid_itf_num hid] = map of_nat [0..<n]"
    unfolding e by code_simp
  show "distinct (hid_ep_in hid # concat (map (\<lambda>f. [ep_notif f, ep_out f, ep_in f]) cdcs))"
    unfolding e by code_simp
  show "\<forall>f \<in> set cdcs. string_desc_arr ! unat (itf_string f) \<noteq> None"
    unfolding e by code_simp
qed

end
