(* ===== verification/System.thy ===== *)
theory System
  imports Usb_Commands Ring_Properties
begin

text \<open>
  Start-up and the main loop: \<open>main.c\<close>, \<open>platform/system.c\<close>, \<open>platform/led.c\<close> and the initialisation of
  \<open>platform/temperature.c\<close>, put together from the components' own initialisations. The SDK's watchdog, clock, GPIO and
  ADC are parameters, functions of the chip's state \<open>'w\<close>; the watchdog scratch register the code reads and writes itself
  is a field of the state.
\<close>

section \<open>State\<close>

record 'w sdk =
  watchdog_caused_reboot :: "'w \<Rightarrow> bool"
  watchdog_enable_caused_reboot :: "'w \<Rightarrow> bool"
  watchdog_enable :: "u32 \<Rightarrow> bool \<Rightarrow> 'w \<Rightarrow> 'w"
  watchdog_update :: "'w \<Rightarrow> 'w"
  watchdog_reboot :: "u32 \<Rightarrow> u32 \<Rightarrow> u32 \<Rightarrow> 'w \<Rightarrow> 'w"
  set_sys_clock_khz :: "u32 \<Rightarrow> bool \<Rightarrow> 'w \<Rightarrow> bool \<times> 'w"
  gpio_init :: "u32 \<Rightarrow> 'w \<Rightarrow> 'w"
  gpio_put :: "u32 \<Rightarrow> bool \<Rightarrow> 'w \<Rightarrow> 'w"
  gpio_set_dir_out :: "u32 \<Rightarrow> 'w \<Rightarrow> 'w"
  adc_init :: "'w \<Rightarrow> 'w"
  adc_set_temp_sensor_enabled :: "bool \<Rightarrow> 'w \<Rightarrow> 'w"
  adc_select_input :: "u32 \<Rightarrow> 'w \<Rightarrow> 'w"
  PICO_DEFAULT_LED_PIN :: u32
  stack_ring :: ring_buffer_t
  stack_storage :: "u8 list"
  stack_output :: "u8 list"

text \<open>\<open>stack_ring\<close> and its neighbours are what the locals of the ring's self check hold before they are written.\<close>

record ('b, 'u, 'w) system_t =
  watchdog_recovery :: bool
  captured_reset_cause :: u8
  scratch0 :: u32
  chip :: 'w
  core0 :: "('b, 'u) usb_state"

abbreviation SYSTEM_HARDFAULT_MARKER :: u32 where "SYSTEM_HARDFAULT_MARKER \<equiv> 0x50485546"
abbreviation SYSTEM_RESET_CAUSE_UNKNOWN :: u8 where "SYSTEM_RESET_CAUSE_UNKNOWN \<equiv> 0"
abbreviation SYSTEM_RESET_CAUSE_WATCHDOG :: u8 where "SYSTEM_RESET_CAUSE_WATCHDOG \<equiv> 2"
abbreviation SYSTEM_RESET_CAUSE_HARDFAULT :: u8 where "SYSTEM_RESET_CAUSE_HARDFAULT \<equiv> 4"
abbreviation PICO_UART_WATCHDOG_TIMEOUT_MS :: u32 where "PICO_UART_WATCHDOG_TIMEOUT_MS \<equiv> 8000"
abbreviation TEMPERATURE_ADC_CHANNEL :: u32 where "TEMPERATURE_ADC_CHANNEL \<equiv> 4"

section \<open>Clock, watchdog and reset\<close>

definition on_chip :: "('w \<Rightarrow> 'w) \<Rightarrow> ('b, 'u, 'w) system_t \<Rightarrow> ('b, 'u, 'w) system_t" where
  "on_chip f s = s\<lparr>chip := f (chip s)\<rparr>"

definition on_boot :: "(boot_state \<Rightarrow> boot_state) \<Rightarrow> ('b, 'u, 'w) system_t \<Rightarrow> ('b, 'u, 'w) system_t" where
  "on_boot f s = s\<lparr>core0 := (core0 s)\<lparr>boot := f (boot (core0 s))\<rparr>\<rparr>"

definition system_init_clock :: "'w sdk \<Rightarrow> bool \<Rightarrow> ('b, 'u, 'w) system_t \<Rightarrow> ('b, 'u, 'w) system_t" where
  "system_init_clock S is_rp2350 s =
     (let s = on_boot (boot_config_load is_rp2350 (watchdog_recovery s)) s;
          khz = boot_config_clock_khz (active_profile (boot_config_get_status (boot (core0 s))))
      in if khz \<noteq> 0
         then let (accepted, w) = set_sys_clock_khz S khz False (chip s); s = s\<lparr>chip := w\<rparr>
              in if \<not> accepted then on_boot boot_config_clock_unavailable s else s
         else s)"

definition system_watchdog_enable :: "'w sdk \<Rightarrow> ('b, 'u, 'w) system_t \<Rightarrow> ('b, 'u, 'w) system_t" where
  "system_watchdog_enable S s =
     (let watchdog_reset = watchdog_caused_reboot S (chip s);
          hardfault_reset = (watchdog_reset \<and> scratch0 s = SYSTEM_HARDFAULT_MARKER);
          s = s\<lparr>scratch0 := 0\<rparr>;
          s = s\<lparr>watchdog_recovery := watchdog_enable_caused_reboot S (chip s)\<rparr>;
          s = s\<lparr>captured_reset_cause := (if hardfault_reset then SYSTEM_RESET_CAUSE_HARDFAULT
                else if watchdog_reset then SYSTEM_RESET_CAUSE_WATCHDOG else SYSTEM_RESET_CAUSE_UNKNOWN)\<rparr>
      in on_chip (watchdog_enable S PICO_UART_WATCHDOG_TIMEOUT_MS True) s)"

definition system_reset_cause :: "('b, 'u, 'w) system_t \<Rightarrow> u8" where
  "system_reset_cause s = captured_reset_cause s"

definition system_note_hardfault :: "('b, 'u, 'w) system_t \<Rightarrow> ('b, 'u, 'w) system_t" where
  "system_note_hardfault s = s\<lparr>scratch0 := SYSTEM_HARDFAULT_MARKER\<rparr>"

definition system_watchdog_update :: "'w sdk \<Rightarrow> ('b, 'u, 'w) system_t \<Rightarrow> ('b, 'u, 'w) system_t" where
  "system_watchdog_update S = on_chip (watchdog_update S)"

text \<open>The state the fault handler stays in: its loop changes nothing, and ends with the reset.\<close>

definition isr_hardfault :: "('b, 'u, 'w) system_t \<Rightarrow> ('b, 'u, 'w) system_t" where
  "isr_hardfault s = system_note_hardfault s"

definition system_reset :: "'w sdk \<Rightarrow> ('b, 'u, 'w) system_t \<Rightarrow> ('b, 'u, 'w) system_t" where
  "system_reset S = on_chip (watchdog_reboot S 0 0 0)"

section \<open>Lamp and temperature sensor\<close>

definition led_init :: "'w sdk \<Rightarrow> ('b, 'u) usb_platform \<Rightarrow> ('b, 'u, 'w) system_t \<Rightarrow> ('b, 'u, 'w) system_t" where
  "led_init S P s =
     (let s = (if led_available P
               then let s = on_chip (gpio_init S (PICO_DEFAULT_LED_PIN S)) s;
                        s = on_chip (gpio_put S (PICO_DEFAULT_LED_PIN S) False) s
                    in on_chip (gpio_set_dir_out S (PICO_DEFAULT_LED_PIN S)) s
               else s)
      in s\<lparr>core0 := (core0 s)\<lparr>led := False\<rparr>\<rparr>)"

text \<open>The answer and what is stored; nothing is stored through a null pointer.\<close>

definition led_read_state :: "('b, 'u) usb_platform \<Rightarrow> ('b, 'u) usb_state \<Rightarrow> bool \<Rightarrow> bool \<times> bool option" where
  "led_read_state P st on_null = (if on_null then (False, None) else (led_available P, Some (led st)))"

definition temperature_init :: "'w sdk \<Rightarrow> ('b, 'u, 'w) system_t \<Rightarrow> ('b, 'u, 'w) system_t" where
  "temperature_init S s =
     on_chip (adc_select_input S TEMPERATURE_ADC_CHANNEL) (on_chip (adc_set_temp_sensor_enabled S True) (on_chip (adc_init S) s))"

section \<open>Start-up and main loop\<close>

definition on_core0 :: "(('b, 'u) usb_state \<Rightarrow> ('b, 'u) usb_state) \<Rightarrow> ('b, 'u, 'w) system_t \<Rightarrow> ('b, 'u, 'w) system_t" where
  "on_core0 f s = s\<lparr>core0 := f (core0 s)\<rparr>"

text \<open>
  The first part of \<open>main\<close>; a failed \<open>hard_assert\<close> stops it there, waiting for the watchdog. The HID reports are built
  with the reset cause captured before.
\<close>

definition main_start ::
    "'w sdk \<Rightarrow> ('b, 'u) usb_platform \<Rightarrow> (uart_port_id_t \<Rightarrow> uart_driver_port_info_t) \<Rightarrow>
     (uart_driver_backend_t \<Rightarrow> 'b uart_backend_ops_t option) \<Rightarrow> (uart_driver_backend_t \<Rightarrow> uart_port_id_t \<Rightarrow> 'b \<Rightarrow> 'b) \<Rightarrow>
     ('b, 'u, 'w) system_t \<Rightarrow> bool \<times> ('b, 'u, 'w) system_t" where
  "main_start S P board ops_for_type attach_storage s =
     (let s = system_watchdog_enable S s;
          s = system_init_clock S (rp2350 P) s;
          s = led_init S P s;
          s = temperature_init S s;
          s = on_core0 (\<lambda>st. st\<lparr>load_meter := service_load_init (load_meter st)\<rparr>) s
      in if \<not> ring_buffer_self_check (stack_ring S) (stack_storage S) (stack_output S) then (False, s)
         else let (ok, st) = uart_driver_init board ops_for_type attach_storage (core0 s); s = s\<lparr>core0 := st\<rparr>
              in if \<not> ok then (False, s)
                 else let s = on_core0 (usb_cdc_init P) s
                      in (True, on_core0 (usb_hid_init (P\<lparr>reset_cause := system_reset_cause s\<rparr>)) s))"

text \<open>One pass of the loop: the watchdog is fed only while the worker's heartbeat is fresh.\<close>

definition main_loop_pass :: "'w sdk \<Rightarrow> ('b, 'u) usb_platform \<Rightarrow> ('b, 'u, 'w) system_t \<Rightarrow> ('b, 'u, 'w) system_t" where
  "main_loop_pass S P s =
     (let (fresh, st) = main_pass P (core0 s); s = s\<lparr>core0 := st\<rparr>
      in if fresh then system_watchdog_update S s else s)"

section \<open>What start-up leaves alone\<close>

lemma on_simps [simp]:
  "scratch0 (on_chip f s) = scratch0 s" "scratch0 (on_boot g s) = scratch0 s" "scratch0 (on_core0 h s) = scratch0 s"
  "captured_reset_cause (on_chip f s) = captured_reset_cause s" "captured_reset_cause (on_boot g s) = captured_reset_cause s"
  "captured_reset_cause (on_core0 h s) = captured_reset_cause s"
  "watchdog_recovery (on_chip f s) = watchdog_recovery s" "watchdog_recovery (on_boot g s) = watchdog_recovery s"
  "chip (on_chip f s) = f (chip s)" "chip (on_boot g s) = chip s" "chip (on_core0 h s) = chip s"
  "core0 (on_chip f s) = core0 s" "boot (core0 (on_boot g s)) = g (boot (core0 s))"
  "usb_cdc_ports (core0 (on_boot g s)) = usb_cdc_ports (core0 s)" "core0 (on_core0 h s) = h (core0 s)"
  by (simp_all add: on_chip_def on_boot_def on_core0_def)

lemma init_clock_keeps [simp]:
  "scratch0 (system_init_clock S rp s) = scratch0 s" "captured_reset_cause (system_init_clock S rp s) = captured_reset_cause s"
  "usb_cdc_ports (core0 (system_init_clock S rp s)) = usb_cdc_ports (core0 s)"
  by (simp_all add: system_init_clock_def Let_def case_prod_beta)

lemma watchdog_enable_sets [simp]:
  "scratch0 (system_watchdog_enable S s) = 0" "core0 (system_watchdog_enable S s) = core0 s"
  "chip (system_watchdog_enable S s) = watchdog_enable S PICO_UART_WATCHDOG_TIMEOUT_MS True (chip s)"
  "watchdog_recovery (system_watchdog_enable S s) = watchdog_enable_caused_reboot S (chip s)"
  by (simp_all add: system_watchdog_enable_def Let_def)

lemma peripherals_keep [simp]:
  "scratch0 (led_init S P s) = scratch0 s" "captured_reset_cause (led_init S P s) = captured_reset_cause s"
  "usb_cdc_ports (core0 (led_init S P s)) = usb_cdc_ports (core0 s)" "boot (core0 (led_init S P s)) = boot (core0 s)"
  "scratch0 (temperature_init S s) = scratch0 s" "captured_reset_cause (temperature_init S s) = captured_reset_cause s"
  "core0 (temperature_init S s) = core0 s"
  by (simp_all add: led_init_def temperature_init_def Let_def)

lemma own_flags [simp]:
  fixes st :: "('b, 'u) usb_state"
  shows "own_part (uart_driver_set_port_status_flag p f st) = own_part st"
    "own_part (uart_driver_clear_port_status_flag p f st) = own_part st"
  by (simp_all add: uart_driver_set_port_status_flag_def uart_driver_clear_port_status_flag_def Let_def)

lemma own_fold: "(\<And>x s. x \<in> set xs \<Longrightarrow> own_part (f x s) = own_part s) \<Longrightarrow> own_part (fold f xs st) = own_part st"
  by (induction xs arbitrary: st) simp_all

lemma own_init_ports [simp]:
  fixes st :: "('b, 'u) usb_state"
  shows "own_part (load_port_config board ops_of att p st) = own_part st" "own_part (reset_port_state board p st) = own_part st"
    "own_part (park_port p st) = own_part st" "own_part (snd (init_port_backend p (ok, st))) = own_part st"
    "own_part (rollback_port p st) = own_part st"
  by (simp_all add: load_port_config_def reset_port_state_def park_port_def init_port_backend_def rollback_port_def Let_def
      case_prod_beta split: option.splits)

lemma own_init_backends [simp]:
  fixes st :: "('b, 'u) usb_state"
  shows "own_part (snd (uart_driver_init_backends st)) = own_part st"
proof -
  have "own_part (snd (fold init_port_backend ps r)) = own_part (snd r)" for ps and r :: "bool \<times> ('b, 'u) usb_state"
  proof (induction ps arbitrary: r)
    case (Cons p ps)
    then show ?case using own_init_ports(4) [of p "fst r" "snd r"] by simp
  qed simp
  then show ?thesis by (simp add: uart_driver_init_backends_def)
qed

lemma own_statics [simp]:
  fixes st :: "('b, 'u) usb_state"
  shows "own_part (st\<lparr>status_lock := b\<rparr>) = own_part st" "own_part (st\<lparr>views_bound := b\<rparr>) = own_part st"
    "own_part (st\<lparr>poll_start_index := n\<rparr>) = own_part st" "own_part (st\<lparr>worker_heartbeat := n\<rparr>) = own_part st"
    "own_part (st\<lparr>worker_started := b\<rparr>) = own_part st"
  by (simp_all add: own_part_def hid_part_def)

lemma own_driver_init:
  fixes st :: "('b, 'u) usb_state"
  shows "own_part (snd (uart_driver_init board ops_of att st)) = own_part st"
  by (simp add: uart_driver_init_def uart_driver_load_board_config_def uart_driver_bind_state_views_def
      uart_driver_rollback_initialized_backends_def Let_def case_prod_beta own_fold)

text \<open>A successful start, in two parts: up to the port facade, and the USB services.\<close>

lemma main_start_ok:
  assumes "main_start S P board ops_of att s = (True, up)"
  shows "scratch0 up = 0 \<and> captured_reset_cause up = captured_reset_cause (system_watchdog_enable S s) \<and>
    (\<exists>st. usb_cdc_ports st = usb_cdc_ports (core0 s) \<and>
       core0 up = usb_hid_init (P\<lparr>reset_cause := system_reset_cause up\<rparr>) (usb_cdc_init P st))"
proof -
  define s1 where "s1 = on_core0 (\<lambda>st. st\<lparr>load_meter := service_load_init (load_meter st)\<rparr>)
    (temperature_init S (led_init S P (system_init_clock S (rp2350 P) (system_watchdog_enable S s))))"
  define st where "st = snd (uart_driver_init board ops_of att (core0 s1))"
  have "usb_cdc_ports st = usb_cdc_ports (core0 s1)"
    unfolding st_def by (rule own_partD(1) [OF own_driver_init])
  then have p: "usb_cdc_ports st = usb_cdc_ports (core0 s)" by (simp add: s1_def)
  have "up = on_core0 (usb_hid_init (P\<lparr>reset_cause := captured_reset_cause s1\<rparr>)) (on_core0 (usb_cdc_init P) (s1\<lparr>core0 := st\<rparr>))"
    using assms unfolding main_start_def Let_def s1_def [symmetric]
    by (simp add: case_prod_beta st_def system_reset_cause_def split: if_splits)
  then show ?thesis
    using p by (auto simp: s1_def system_reset_cause_def on_core0_def)
qed

lemma loop_pass_keeps [simp]: "scratch0 (main_loop_pass S P s) = scratch0 s"
  by (simp add: main_loop_pass_def system_watchdog_update_def Let_def case_prod_beta)

lemma loop_pass_core0: "core0 (main_loop_pass S P s) = snd (main_pass P (core0 s))"
  by (simp add: main_loop_pass_def system_watchdog_update_def Let_def case_prod_beta)

lemma loop_passes_core0: "core0 ((main_loop_pass S P ^^ n) s) = ((\<lambda>st. snd (main_pass P st)) ^^ n) (core0 s)"
  by (induction n) (simp_all add: loop_pass_core0)

lemma loop_passes_scratch: "scratch0 ((main_loop_pass S P ^^ n) s) = scratch0 s"
  by (induction n) simp_all

section \<open>Reset causes\<close>

lemma reported_cause: "usb_hid_configuration (usb_hid_init P st) ! 27 = reset_cause P"
proof -
  have keep: "usb_hid_configuration (fold (reset_channel P) itfs s) = usb_hid_configuration s" for itfs and s :: "('a, 'b) usb_state"
    by (induction itfs arbitrary: s) (simp_all add: reset_channel_def put_channel_def read_clock_def Let_def case_prod_beta)
  have pins: "length (fold (\<lambda>pin c. c[h pin := (v pin :: u8)]) ps c) = length c" for h v ps and c :: "u8 list"
    by (induction ps arbitrary: c) simp_all
  have len: "length (snd (fold (\<lambda>index (i, c). (g index i, fold (\<lambda>pin c. c[h index pin := (v index pin :: u8)]) ps c)) xs ic)) =
      length (snd ic)" for g :: "nat \<Rightarrow> u8 list \<Rightarrow> u8 list" and h v ps xs ic
    by (induction xs arbitrary: ic) (simp_all add: pins case_prod_beta)
  have cause: "usb_hid_configuration (usb_hid_build_static_reports P s) ! 27 = reset_cause P"
    if "length (usb_hid_configuration s) = 36" for s
    using that by (simp add: usb_hid_build_static_reports_def Let_def case_prod_beta usb_hid_write_u16_def len split del: if_split)
  show ?thesis
    by (simp add: usb_hid_init_def usb_hid_reset_host_state_def keep usb_hid_set_result_def cause)
qed

section \<open>The boot clock\<close>

lemma clock_of_profile:
  assumes "boot_config_profile_supported p"
  shows "boot_config_clock_khz p = 0 \<longleftrightarrow> p = BOOT_CLOCK_DEFAULT"
    "p \<noteq> BOOT_CLOCK_DEFAULT \<Longrightarrow> boot_config_clock_khz p \<in> {150000, 200000, 250000, 280000}"
    "boot_config_clock_khz p = 280000 \<Longrightarrow> p = BOOT_CLOCK_280_MHZ"
  using assms by (auto simp: supported_cases boot_config_clock_khz_def boot_clock_definitions_def)

text \<open>C38: The board starts at a clock it can run at. The watchdog is armed before the clock is touched. In a recovery from a
  watchdog timeout, or with no stored profile, no clock is requested at all; otherwise exactly the one of the stored
  profile is, a supported frequency and never 280 MHz on an RP2040. A refused request is recorded as a
  fallback to the default clock, and whatever happens the stored settings and the flash stay.\<close>

theorem startup_clock:
  fixes S :: "'w sdk" and s :: "('b, 'u, 'w) system_t" and rp :: bool
  assumes "length (flash_sector (boot (core0 s))) = 4096"
  defines "recovery \<equiv> watchdog_enable_caused_reboot S (chip s)"
    and "armed \<equiv> system_watchdog_enable S s"
    and "up \<equiv> system_init_clock S rp (system_watchdog_enable S s)"
    and "loaded \<equiv> boot_config_load rp (watchdog_enable_caused_reboot S (chip s)) (boot (core0 s))"
  defines "chosen \<equiv> active_profile (boot_config_status loaded)"
  defines "answer \<equiv> set_sys_clock_khz S (boot_config_clock_khz chosen) False (chip armed)"
  shows "chip armed = watchdog_enable S PICO_UART_WATCHDOG_TIMEOUT_MS True (chip s) \<and>
    (if recovery \<or> chosen = BOOT_CLOCK_DEFAULT then chip up = chip armed \<and> boot (core0 up) = loaded
     else boot_config_clock_khz chosen \<in> {150000, 200000, 250000, 280000} \<and>
       (\<not> rp \<longrightarrow> boot_config_clock_khz chosen \<noteq> 280000) \<and> chip up = snd answer \<and>
       (if fst answer then boot (core0 up) = loaded
        else active_profile (boot_config_status (boot (core0 up))) = BOOT_CLOCK_DEFAULT \<and>
          status_reason (boot_config_status (boot (core0 up))) = BOOT_CONFIG_CLOCK_UNAVAILABLE)) \<and>
    boot_config_settings (boot (core0 up)) = boot_config_settings loaded \<and>
    flash_sector (boot (core0 up)) = flash_sector (boot (core0 s))"
proof -
  note p = load_profiles [OF assms(1), of rp recovery, folded loaded_def [folded recovery_def]]
  have sup: "boot_config_profile_supported chosen" "recovery \<Longrightarrow> chosen = BOOT_CLOCK_DEFAULT"
    "\<not> rp \<Longrightarrow> chosen \<noteq> BOOT_CLOCK_280_MHZ"
    using p by (simp_all add: chosen_def loaded_def recovery_def)
  have b: "boot_config_get_status (boot_config_load rp (watchdog_recovery armed) (boot (core0 armed))) = boot_config_status loaded"
    "boot_config_load rp (watchdog_recovery armed) (boot (core0 armed)) = loaded"
    by (simp_all add: boot_config_get_status_def armed_def loaded_def)
  have f: "flash_sector loaded = flash_sector (boot (core0 s))"
    by (simp add: loaded_def boot_config_load_def Let_def)
  have up: "up = (if chosen = BOOT_CLOCK_DEFAULT then on_boot (\<lambda>x. loaded) armed
      else if fst answer then (on_boot (\<lambda>x. loaded) armed)\<lparr>chip := snd answer\<rparr>
      else on_boot boot_config_clock_unavailable ((on_boot (\<lambda>x. loaded) armed)\<lparr>chip := snd answer\<rparr>))"
    using clock_of_profile(1) [OF sup(1)] b
    by (simp add: up_def armed_def [symmetric] system_init_clock_def Let_def case_prod_beta chosen_def answer_def on_boot_def
        boot_config_get_status_def)
  have c: "chip armed = watchdog_enable S PICO_UART_WATCHDOG_TIMEOUT_MS True (chip s)" by (simp add: armed_def)
  show ?thesis
    using c up f sup(2, 3) clock_of_profile(2, 3) [OF sup(1)]
    by (auto simp: on_boot_def boot_config_clock_unavailable_def)
qed

section \<open>Across a reset\<close>

text \<open>C39: A fault is reported to the host once, and only a real one. When a fault handler ended in a watchdog reset that kept
  the scratch register, the next start reports a hard fault as the cause, in the configuration report too; and after any number
  of passes of the main loop the reset after that reports a watchdog reset or an unknown cause again. A reset that
  the watchdog did not cause is never reported as a fault, whatever the scratch register holds.\<close>

theorem hardfault_reported_once:
  assumes "watchdog_caused_reboot S (chip s)" "scratch0 s = scratch0 (isr_hardfault before)"
    and "main_start S P board ops_of att s = (True, up)"
    and "scratch0 again = scratch0 ((main_loop_pass S P ^^ n) up)"
  shows "system_reset_cause up = SYSTEM_RESET_CAUSE_HARDFAULT \<and> usb_hid_configuration (core0 up) ! 27 = SYSTEM_RESET_CAUSE_HARDFAULT \<and>
    system_reset_cause (system_watchdog_enable S again) =
      (if watchdog_caused_reboot S (chip again) then SYSTEM_RESET_CAUSE_WATCHDOG else SYSTEM_RESET_CAUSE_UNKNOWN) \<and>
    (\<forall>other. \<not> watchdog_caused_reboot S (chip other) \<longrightarrow>
       system_reset_cause (system_watchdog_enable S other) = SYSTEM_RESET_CAUSE_UNKNOWN)"
proof -
  have cause: "captured_reset_cause (system_watchdog_enable S t) =
      (if watchdog_caused_reboot S (chip t) then if scratch0 t = SYSTEM_HARDFAULT_MARKER then 4 else 2 else 0)" for t
    by (simp add: system_watchdog_enable_def Let_def on_chip_def)
  have m: "scratch0 s = SYSTEM_HARDFAULT_MARKER"
    using assms(2) by (simp add: isr_hardfault_def system_note_hardfault_def)
  note st = main_start_ok [OF assms(3)]
  have up: "system_reset_cause up = 4" using st m assms(1) by (simp add: system_reset_cause_def cause)
  moreover have "usb_hid_configuration (core0 up) ! 27 = system_reset_cause up"
    using st by (auto simp: reported_cause)
  moreover have "scratch0 again = 0" using st assms(4) by (simp add: loop_passes_scratch)
  ultimately show ?thesis by (simp add: system_reset_cause_def cause)
qed

section \<open>From power-on\<close>

lemma hid_init_idle: "command_idle (usb_hid_init P st)"
proof -
  have keep: "usb_hid_command_status (fold (reset_channel P) itfs s) = usb_hid_command_status s \<and>
      usb_hid_reboot_pending (fold (reset_channel P) itfs s) = usb_hid_reboot_pending s" for itfs and s :: "('a, 'b) usb_state"
    by (induction itfs arbitrary: s) (simp_all add: reset_channel_def put_channel_def read_clock_def Let_def case_prod_beta)
  show ?thesis
    by (simp add: command_idle_def usb_hid_init_def usb_hid_reset_host_state_def keep usb_hid_set_result_def
        usb_hid_build_static_reports_def Let_def case_prod_beta)
qed

text \<open>C40: From power-on: when start-up succeeds on cleared statics, then after any number of passes of the main loop,
  whatever the host does (mounting, unmounting, opening, closing, settings, reports) and core 1 does meanwhile, a
  channel that is starting or running has an open session, bytes wait for their flush only on a running one, and the passes
  are a run of callbacks, services and polls whose commands account for every change of the saved configuration and every reset.\<close>

theorem power_on_invariant:
  assumes "worker_only P" "main_start S P board ops_of att s = (True, up)"
    and "\<And>itf. \<not> tx_flush_pending (usb_cdc_ports (core0 s) itf) \<and> admission (usb_cdc_ports (core0 s) itf) = USB_CDC_START_PENDING"
    and "st = core0 ((main_loop_pass S P ^^ n) up)"
  shows "(admission (usb_cdc_ports st itf) \<noteq> USB_CDC_START_PENDING \<longrightarrow> opened (cdc_stats (usb_cdc_ports st itf))) \<and>
    (tx_flush_pending (usb_cdc_ports st itf) \<longrightarrow> admission (usb_cdc_ports st itf) = USB_CDC_RUNNING) \<and>
    (\<exists>log. usb_run P log (core0 up) st \<and>
       (boot st \<noteq> boot (core0 up) \<longrightarrow> (\<exists>(s, r, n) \<in> set log. save_authorised s r n)) \<and>
       (resets st \<noteq> resets (core0 up) \<longrightarrow> (\<exists>(s, r, n) \<in> set log. save_authorised s r n \<or> reboot_authorised s r n)))"
proof -
  obtain st1 where st1: "usb_cdc_ports st1 = usb_cdc_ports (core0 s)"
    and u: "core0 up = usb_hid_init (P\<lparr>reset_cause := system_reset_cause up\<rparr>) (usb_cdc_init P st1)"
    using main_start_ok [OF assms(2)] by blast
  have ports: "usb_cdc_ports (usb_hid_init Q t) = usb_cdc_ports t" for Q :: "('a, 'b) usb_platform" and t
    by (simp add: usb_hid_init_def usb_hid_build_static_reports_def Let_def case_prod_beta)
  have ok: "sessions_ok (core0 up)"
    unfolding u by (rule sessions_ok_same [OF ports init_ok]) (simp add: st1 assms(3))
  have e: "st = ((\<lambda>t. snd (main_pass P t)) ^^ n) (core0 up)"
    by (simp add: assms(4) loop_passes_core0)
  have "sessions_ok st"
    unfolding e using ok by (induction n) (simp_all add: main_pass_ok [OF assms(1)])
  moreover obtain log where l: "usb_run P log (core0 up) st"
    using main_passes_run [OF assms(1), of "core0 up" n] unfolding e by blast
  moreover have "command_idle (core0 up)" unfolding u by (rule hid_init_idle)
  from run_traced [OF assms(1) l this] have "traced log (core0 up) st" .
  ultimately show ?thesis unfolding sessions_ok_def session_ok_def traced_def by blast
qed

section \<open>A board\<close>

text \<open>A chip for the witnesses: why it started, and the clocks it was asked for, all of which it accepts below 280 MHz.\<close>

record demo_chip =
  by_watchdog :: bool
  by_timeout :: bool
  clocks :: "u32 list"

definition demo_sdk :: "demo_chip sdk" where
  "demo_sdk = \<lparr>watchdog_caused_reboot = by_watchdog, watchdog_enable_caused_reboot = by_timeout,
     watchdog_enable = (\<lambda>ms pause c. c), watchdog_update = id, watchdog_reboot = (\<lambda>pc sp delay c. c),
     set_sys_clock_khz = (\<lambda>khz required c. (khz < 280000, c\<lparr>clocks := khz # clocks c\<rparr>)),
     gpio_init = (\<lambda>pin c. c), gpio_put = (\<lambda>pin on c. c), gpio_set_dir_out = (\<lambda>pin c. c), adc_init = id,
     adc_set_temp_sensor_enabled = (\<lambda>on c. c), adc_select_input = (\<lambda>i c. c), PICO_DEFAULT_LED_PIN = 25,
     stack_ring = undefined, stack_storage = replicate 8 0xA5, stack_output = replicate 8 0xA5\<rparr>"

definition demo_system :: "bool \<Rightarrow> u32 \<Rightarrow> demo_host \<Rightarrow> (demo_port, demo_host, demo_chip) system_t" where
  "demo_system timeout scratch host = \<lparr>watchdog_recovery = False, captured_reset_cause = 0, scratch0 = scratch,
     chip = \<lparr>by_watchdog = timeout, by_timeout = timeout, clocks = []\<rparr>, core0 = demo_state host\<rparr>"

definition demo_main_start where
  "demo_main_start s = main_start demo_sdk demo_usb_platform demo_board (\<lambda>t. Some demo_ops) (\<lambda>t p b. b) s"

lemma demo_main_starts: "demo_main_start (demo_system timeout scratch host) = (True, snd (demo_main_start (demo_system timeout scratch host)))"
proof -
  have stopped: "\<not> worker_started (demo_state host)"
    by (simp add: demo_state_def uart_driver_state_t.defs demo_boot_def)
  define s1 where "s1 = on_core0 (\<lambda>st. st\<lparr>load_meter := service_load_init (load_meter st)\<rparr>)
    (temperature_init demo_sdk (led_init demo_sdk demo_usb_platform (system_init_clock demo_sdk (rp2350 demo_usb_platform)
      (system_watchdog_enable demo_sdk (demo_system timeout scratch host)))))"
  have "\<not> worker_started (core0 s1)"
    using stopped
    by (simp add: s1_def on_core0_def led_init_def temperature_init_def system_init_clock_def on_boot_def on_chip_def
        system_watchdog_enable_def Let_def case_prod_beta demo_system_def)
  then have "\<exists>st'. uart_driver_init demo_board (\<lambda>t. Some demo_ops) (\<lambda>t p b. b) (core0 s1) = (True, st') \<and>
      worker_started st' \<and> ports_have (\<lambda>p. demo_ops) st'"
    by (rule init_succeeds) (simp_all add: demo_ops_def)
  moreover have "ring_buffer_self_check (stack_ring demo_sdk) (stack_storage demo_sdk) (stack_output demo_sdk)"
    by (rule ring_self_check_passes) (simp_all add: demo_sdk_def)
  ultimately have "fst (demo_main_start (demo_system timeout scratch host))"
    unfolding demo_main_start_def main_start_def Let_def s1_def [symmetric] by auto
  then show ?thesis by (simp add: prod_eq_iff)
qed

theorem startup_clock_witness:
  "chip (system_init_clock demo_sdk False (system_watchdog_enable demo_sdk (demo_system True 7
     \<lparr>host_calls = [], host_bytes = [], host_got = []\<rparr>))) = \<lparr>by_watchdog = True, by_timeout = True, clocks = []\<rparr>"
proof -
  define s where "s = demo_system True 7 \<lparr>host_calls = [], host_bytes = [], host_got = []\<rparr>"
  have f: "length (flash_sector (boot (core0 s))) = 4096"
    by (simp add: s_def demo_system_def demo_state_def uart_driver_state_t.defs)
  have r: "watchdog_enable_caused_reboot demo_sdk = by_timeout" "watchdog_enable demo_sdk ms pause c = c"
    "chip s = \<lparr>by_watchdog = True, by_timeout = True, clocks = []\<rparr>" for ms pause c
    by (simp_all add: s_def demo_system_def demo_sdk_def)
  show ?thesis
    using startup_clock [OF f, of demo_sdk False] unfolding s_def [symmetric] by (simp add: r)
qed

theorem hardfault_reported_once_witness:
  "system_reset_cause (snd (demo_main_start (demo_system True SYSTEM_HARDFAULT_MARKER
     \<lparr>host_calls = [], host_bytes = [], host_got = []\<rparr>))) = 4"
proof -
  define s where "s = demo_system True SYSTEM_HARDFAULT_MARKER \<lparr>host_calls = [], host_bytes = [], host_got = []\<rparr>"
  have 1: "watchdog_caused_reboot demo_sdk (chip s)" "scratch0 s = scratch0 (isr_hardfault s)"
    by (simp_all add: s_def demo_system_def demo_sdk_def isr_hardfault_def system_note_hardfault_def)
  show ?thesis
    unfolding s_def [symmetric]
    using hardfault_reported_once [OF 1 demo_main_starts [of True SYSTEM_HARDFAULT_MARKER "\<lparr>host_calls = [], host_bytes = [], host_got = []\<rparr>",
        unfolded demo_main_start_def, folded s_def] HOL.refl, of 5]
    unfolding demo_main_start_def by (elim conjE)
qed

theorem power_on_witness:
  "let up = snd (demo_main_start (demo_system False 0 \<lparr>host_calls = [Tud_mount, Tud_cdc_line_state 0 True True,
         Tud_cdc_line_state 0 False False], host_bytes = [1, 2, 3], host_got = []\<rparr>));
       st = core0 ((main_loop_pass demo_sdk demo_usb_platform ^^ 9) up)
   in \<not> opened (cdc_stats (usb_cdc_ports st 0)) \<longrightarrow> \<not> tx_flush_pending (usb_cdc_ports st 0)"
proof -
  define s where "s = demo_system False 0 \<lparr>host_calls = [Tud_mount, Tud_cdc_line_state 0 True True,
    Tud_cdc_line_state 0 False False], host_bytes = [1, 2, 3], host_got = []\<rparr>"
  have c: "\<not> tx_flush_pending (usb_cdc_ports (core0 s) itf) \<and> admission (usb_cdc_ports (core0 s) itf) = USB_CDC_START_PENDING" for itf
    by (simp add: s_def demo_system_def demo_state_def uart_driver_state_t.defs)
  show ?thesis
    unfolding Let_def s_def [symmetric]
    using power_on_invariant [OF demo_usb_worker demo_main_starts [of False 0 "\<lparr>host_calls = [Tud_mount, Tud_cdc_line_state 0 True True,
    Tud_cdc_line_state 0 False False], host_bytes = [1, 2, 3], host_got = []\<rparr>", unfolded demo_main_start_def, folded s_def]
    c HOL.refl, of 9 0]
    unfolding demo_main_start_def by auto
qed

end
