(* ===== verification/Spec2Isabelle.thy ===== *)
theory Spec2Isabelle
  imports Ring_Properties Ring_Refinement Line_Coding Baud_Rate Backend_Policy Dma_Progress Boot_Config
    Bridge_Properties Control_Service Hw_Format Board Usb_Commands Usb_Deadline Usb_Reports Usb_Leaks
    Usb_Descriptors System
begin

text \<open>
  PicoUart: firmware that turns a Raspberry Pi Pico into a six-port USB serial adapter. Ports 0 and 1 use the
  chip's hardware UARTs, ports 2 to 5 a PIO program. Core 0 runs the USB stack and moves bytes between USB and the
  ports' rings; core 1 runs the UART worker, which owns the backends. The two meet in the rings (one producer and one
  consumer each), in one-slot mailboxes for control requests, and in words of flags under one spin lock.

  Paths below are relative to \<open>src/firmware/src\<close>. Every C structure is a record with the same fields, every enum a
  datatype, every integer a word of its width, every early return a branch; a function that changes state returns the new state.

  Parts, theories and what their lemmas show.

  The byte ring, \<open>uart/ring_buffer/ring_buffer.c\<close>: \<open>Ring_Buffer\<close> holds its operations, \<open>Ring_Facts\<close> and
  \<open>Ring_Loops\<close> their effects on 32-bit sequence counters that wrap. \<open>Ring_Refinement\<close> states the
  abstract lossy queue as the locale \<open>lossy_fifo\<close> and interprets it on the ring; \<open>Ring_Properties\<close> has the properties of
  runs, torn spans and snapshots.

  Pure rules: \<open>Line_Coding\<close> (\<open>uart/line_coding.c\<close>), \<open>Baud_Rate\<close> (\<open>uart/hw/baud_rate.h\<close>),
  \<open>Backend_Policy\<close> (\<open>uart/backend/policy.h\<close>), \<open>Dma_Progress\<close> (\<open>uart/dma/progress.h\<close>, \<open>progress_math.h\<close>),
  \<open>Service_Load\<close> (\<open>platform/service_load.c\<close>), \<open>Worker\<close> (\<open>uart/worker.c\<close>) and \<open>Boot_Config\<close>
  (\<open>platform/boot_config.c\<close>): exactness against a reference definition, ranges without wrap-around, the flash record's round
  trip, and its acceptance by the decoder.

  The bridge, \<open>uart/bridge.c\<close>: \<open>Bridge\<close> has the two pumps, with an arbitrary step of the other core between any two
  accesses to the ring; \<open>Bridge_Properties\<close> shows that no torn byte is ever offered to USB.

  Control, \<open>uart/control/*\<close> and \<open>uart/uart_driver.c\<close>: \<open>Control_State\<close> (records, mailboxes, ownership rules),
  \<open>Control_Plane\<close> (\<open>plane.c\<close>) and \<open>Uart_Driver\<close> (the facade). A backend is a value of \<open>uart_backend_ops_t\<close>
  over an arbitrary instance type. \<open>Control_Steps\<close> splits the operations of both cores into their
  critical sections, as an inductive step relation, and shows that the sequential code is a run of it. \<open>Control_Invariant\<close> has the
  inductive invariant of all interleavings, \<open>Control_Properties\<close> and \<open>Control_Service\<close> the properties.

  Backends: \<open>Sdk\<close> is the boundary to the Pico SDK, every register access and SDK call a value of \<open>sdk_call\<close>
  answered by a parameter of the model. \<open>Hw_Uart\<close> is the hardware UART (\<open>uart/hw/*\<close>), \<open>Pio_Uart\<close> the PIO UART
  (\<open>uart/pio/*\<close>); \<open>Hw_Facts\<close> and \<open>Pio_Facts\<close> say what their routines change of an instance.
  \<open>Backend_Contract\<close> is the locale of the laws the facade needs of a backend, with what follows for the
  facade; \<open>Hw_Properties\<close> and \<open>Pio_Properties\<close> interpret it on the two backends and show that no DMA channel and no state
  machine leaks. \<open>Hw_Format\<close> has the outcomes of a line-format request and the rate it ends with, \<open>Tx_Accounting\<close> and
  \<open>Pio_Rate\<close> the byte counters and the rate changes of a PIO port, \<open>Pio_Idle\<close> the freshness of the stall flag,
  \<open>Pio_Demo\<close> a PIO block to run the properties on. \<open>Board\<close> puts both backends behind the facade
  (\<open>uart/backend/backend.h\<close>, the tables of the board) and shows what start-up and the worker do with all six ports.

  The USB side of core 0: \<open>Usb_State\<close> (the statics of \<open>usb/usb_cdc.c\<close> and \<open>usb/usb_hid.c\<close> on top of the facade's state,
  TinyUSB and the sensors as parameters), \<open>Usb_Hid\<close> (\<open>usb/usb_hid.c\<close>), \<open>Usb_Cdc\<close> (\<open>usb/usb_cdc.c\<close>, \<open>cdc_soft_pending.h\<close>
  and the pass of \<open>main.c\<close>'s loop). \<open>Usb_Facts\<close> and \<open>Usb_Hid_Facts\<close> say what each part leaves alone, \<open>Usb_Demo\<close> is a host for the
  witnesses. \<open>Usb_Sessions\<close> has the invariant of the sessions and the gate for bytes, \<open>Usb_Deadline\<close> the waiting time of
  line codings, \<open>Usb_Commands\<close> the commands of report 20 and runs that trace each save and reset to one,
  \<open>Usb_Reports\<close> the 64-bit totals, \<open>Usb_Leaks\<close> what a report can show. \<open>Usb_Descriptors\<close> (\<open>usb/usb_descriptors.c\<close>) has the
  descriptors with data of the program's own: a parser of the HID item format shows that the reports are the declared ones, and
  the callback for texts is exact and stays in its buffer.

  Start-up: \<open>System\<close> puts \<open>main.c\<close> together from all the initialisations, with \<open>platform/system.c\<close> (clock, watchdog, reset
  cause), \<open>platform/led.c\<close> and the set-up of \<open>platform/temperature.c\<close>. The SDK's calls are functions of the chip's state, a
  parameter. It shows which clock is ever requested, how a fault is reported across resets, and the properties of the
  sessions and of the commands from power-on.

  Bounds and fuel. Loops with a bound in the code recurse on it: the six ports, a ring's size, the three attempts of the statistics
  snapshot, the passes the clock allows before a deadline (the number is the clock's answer). The drain pump takes its capacity as
  fuel, which \<open>bridge_drain_bounded\<close> shows to be enough. The worker's endless loop takes the number of passes.

  Abstractions. The context pointer of an operation is the instance and never null. A hardware instance carries the
  driver's static interrupt owners and a copy of its core's load meter. Reads through a \<open>const\<close> context do not advance the
  hardware state. A PIO clock divider is kept as its operands instead of a floating-point quotient. What other ports do to the statics
  of a backend is a step of its runs. Profiling counters that are compiled out by default are left out.

  Between any two calls core 0 makes into the facade core 1 takes an arbitrary step that keeps the USB side's own
  variables (\<open>worker_only\<close>); inside a pump it may step before every access to the ring. The callbacks of TinyUSB come in any
  order with any arguments.

  Not modelled: the launch of core 1 is the SDK's (the worker's steps may happen from then on); the temperature's float
  arithmetic is part of the parameter that gives the reading; the byte layout of TinyUSB's device and configuration descriptors is
  made by its macros, and \<open>Usb_Descriptors\<close> has their arguments. Host tools and tests are outside the firmware.
\<close>

end
